(* ===== verification/Py_Prelude.thy ===== *)
theory Py_Prelude
  imports Main "HOL-Library.AList" "HOL-Library.Char_ord" "HOL-Library.List_Lexorder"
    "HOL-Library.Product_Lexorder" "HOL-Library.Sublist" "HOL-Library.Multiset"
begin

text \<open>
  The part of Python that every component of the gateway uses, as HOL functions: strings,
  the dynamically typed values a JSON document carries, dictionaries in insertion order,
  exceptions as values of a sum type, and the list operations the stores share.

  Strings are lists of characters, one per code point. The case mapping, the white space and
  the digit tests are those of ASCII; the gateway's identifiers, keys and states are ASCII.
  A float is represented by what the code observes of it: the integer \<open>int\<close> truncates it
  to, and its \<open>repr\<close>. Infinities and NaN, which no JSON number denotes, are left out.
\<close>

named_theorems py_simps \<open>unfolding rules of the Python layer\<close>
named_theorems store_simps \<open>laws of the keyed stores\<close>

section \<open>Exceptions as values\<close>

text \<open>
  The built-in exceptions, and an exception class of the application with the HTTP status and
  the code it carries.
\<close>

datatype py_exc =
    AttributeError
  | TypeError
  | ValueError string
  | KeyError string
  | IndexError
  | OSError
  | RuntimeError string
  | PersistenceError string
  | AppError string "int option" string

type_synonym 'a res = "py_exc + 'a"

fun rbind :: "'e + 'a \<Rightarrow> ('a \<Rightarrow> 'e + 'b) \<Rightarrow> 'e + 'b" where
  "rbind (Inl e) f = Inl e"
| "rbind (Inr x) f = f x"

fun is_ok :: "'e + 'a \<Rightarrow> bool" where
  "is_ok (Inl _) = False"
| "is_ok (Inr _) = True"

lemma rbind_eq_Inr: "rbind m f = Inr y \<longleftrightarrow> (\<exists>x. m = Inr x \<and> f x = Inr y)"
  by (cases m) auto

lemma rbind_eq_Inl:
  "rbind m f = Inl e \<longleftrightarrow> m = Inl e \<or> (\<exists>x. m = Inr x \<and> f x = Inl e)"
  by (cases m) auto

lemmas rbind_eqs = rbind_eq_Inr rbind_eq_Inl

text \<open>A comprehension whose items may raise.\<close>

fun traverse :: "('a \<Rightarrow> 'b res) \<Rightarrow> 'a list \<Rightarrow> 'b list res" where
  "traverse f [] = Inr []"
| "traverse f (x # xs) = rbind (f x) (\<lambda>y. rbind (traverse f xs) (\<lambda>ys. Inr (y # ys)))"

lemma traverse_mem: "traverse f xs = Inr ys \<Longrightarrow> y \<in> set ys \<Longrightarrow> \<exists>x\<in>set xs. f x = Inr y"
  by (induction xs arbitrary: ys) (auto simp: rbind_eqs)

lemma is_ok_iff: "is_ok r \<longleftrightarrow> (\<exists>x. r = Inr x)"
  by (cases r) auto

section \<open>JSON files\<close>

text \<open>
  A store keeps its whole state in one file, written to a temporary file that then replaces it.
  The file is missing, is not readable as JSON, is JSON of another shape, or holds the value
  the store wrote. A write either replaces the file or raises and leaves it as it was.
\<close>

datatype 'a json_file = Absent | Unreadable | Misshapen | Holds 'a

definition replace_file :: "bool \<Rightarrow> 'a \<Rightarrow> 'a json_file \<Rightarrow> unit res \<times> 'a json_file" where
  "replace_file disk_ok x f = (if disk_ok then (Inr (), Holds x) else (Inl OSError, f))"

section \<open>Strings\<close>

definition is_space :: "char \<Rightarrow> bool" where
  "is_space c \<longleftrightarrow> of_char c \<in> {9, 10, 11, 12, 13, 28, 29, 30, 31, 32 :: nat}"

definition is_digit :: "char \<Rightarrow> bool" where
  "is_digit c \<longleftrightarrow> 48 \<le> (of_char c :: nat) \<and> of_char c \<le> (57 :: nat)"

definition is_lower :: "char \<Rightarrow> bool" where
  "is_lower c \<longleftrightarrow> 97 \<le> (of_char c :: nat) \<and> of_char c \<le> (122 :: nat)"

definition is_upper :: "char \<Rightarrow> bool" where
  "is_upper c \<longleftrightarrow> 65 \<le> (of_char c :: nat) \<and> of_char c \<le> (90 :: nat)"

definition chr_lower :: "char \<Rightarrow> char" where
  "chr_lower c = (if is_upper c then char_of (of_char c + 32 :: nat) else c)"

definition chr_upper :: "char \<Rightarrow> char" where
  "chr_upper c = (if is_lower c then char_of (of_char c - 32 :: nat) else c)"

definition str_lower :: "string \<Rightarrow> string" where
  "str_lower = map chr_lower"

definition str_upper :: "string \<Rightarrow> string" where
  "str_upper = map chr_upper"

definition lstrip :: "string \<Rightarrow> string" where
  "lstrip = dropWhile is_space"

definition rstrip :: "string \<Rightarrow> string" where
  "rstrip s = rev (dropWhile is_space (rev s))"

definition strip :: "string \<Rightarrow> string" where
  "strip s = rstrip (lstrip s)"

definition isdigit :: "string \<Rightarrow> bool" where
  "isdigit s \<longleftrightarrow> s \<noteq> [] \<and> list_all is_digit s"

definition replace_chr :: "char \<Rightarrow> char \<Rightarrow> string \<Rightarrow> string" where
  "replace_chr a b = map (\<lambda>c. if c = a then b else c)"

fun split_chr :: "char \<Rightarrow> string \<Rightarrow> string list" where
  "split_chr c [] = [[]]"
| "split_chr c (x # xs) =
     (if x = c then [] # split_chr c xs
      else case split_chr c xs of [] \<Rightarrow> [[x]] | p # ps \<Rightarrow> (x # p) # ps)"

fun join_str :: "string \<Rightarrow> string list \<Rightarrow> string" where
  "join_str sep [] = []"
| "join_str sep [s] = s"
| "join_str sep (s # t # ts) = s @ sep @ join_str sep (t # ts)"

definition starts_with :: "string \<Rightarrow> string \<Rightarrow> bool" where
  "starts_with s p \<longleftrightarrow> take (length p) s = p"

definition ends_with :: "string \<Rightarrow> string \<Rightarrow> bool" where
  "ends_with s p \<longleftrightarrow> length p \<le> length s \<and> drop (length s - length p) s = p"

fun contains_str :: "string \<Rightarrow> string \<Rightarrow> bool" where
  "contains_str [] p \<longleftrightarrow> p = []"
| "contains_str (c # s) p \<longleftrightarrow> starts_with (c # s) p \<or> contains_str s p"

definition contains_any :: "string \<Rightarrow> string list \<Rightarrow> bool" where
  "contains_any s ps \<longleftrightarrow> list_ex (contains_str s) ps"

fun nat_str :: "nat \<Rightarrow> string" where
  "nat_str n =
     (if n < 10 then [char_of (48 + n)] else nat_str (n div 10) @ [char_of (48 + n mod 10)])"

declare nat_str.simps [simp del]

definition int_str :: "int \<Rightarrow> string" where
  "int_str i = (if i < 0 then CHR ''-'' # nat_str (nat (- i)) else nat_str (nat i))"

definition digits_val :: "string \<Rightarrow> int" where
  "digits_val s = foldl (\<lambda>acc c. 10 * acc + int (of_char c - 48)) 0 s"

text \<open>
  \<open>int(s)\<close>: surrounding white space, one sign, digits with single underscores between them.
\<close>

definition unsigned_of_str :: "string \<Rightarrow> int option" where
  "unsigned_of_str s =
     (if list_all isdigit (split_chr (CHR ''_'') s)
      then Some (digits_val (concat (split_chr (CHR ''_'') s))) else None)"

definition int_of_str :: "string \<Rightarrow> int option" where
  "int_of_str s =
     (case strip s of
        [] \<Rightarrow> None
      | c # cs \<Rightarrow>
          if c = CHR ''-'' then map_option uminus (unsigned_of_str cs)
          else if c = CHR ''+'' then unsigned_of_str cs
          else unsigned_of_str (c # cs))"

subsection \<open>Facts about strings\<close>

lemma of_char_chr_lower:
  "of_char (chr_lower c) = (if is_upper c then of_char c + 32 else (of_char c :: nat))"
  by (auto simp: chr_lower_def is_upper_def)

lemma chr_lower_idem [simp]: "chr_lower (chr_lower c) = chr_lower c"
proof (cases "is_upper c")
  case True
  then have "\<not> is_upper (chr_lower c)"
    using of_char_chr_lower[of c] unfolding is_upper_def by simp
  then show ?thesis by (simp add: chr_lower_def[of "chr_lower c"])
next
  case False
  then show ?thesis by (simp add: chr_lower_def)
qed

lemma str_lower_idem [simp]: "str_lower (str_lower s) = str_lower s"
  by (simp add: str_lower_def)

lemma str_lower_Nil [simp]: "str_lower [] = []" and str_lower_eq_Nil [simp]: "str_lower s = [] \<longleftrightarrow> s = []"
  by (simp_all add: str_lower_def)

lemma str_lower_append: "str_lower (s @ t) = str_lower s @ str_lower t"
  by (simp add: str_lower_def)

lemma strip_Nil [simp]: "strip [] = []"
  by (simp add: strip_def lstrip_def rstrip_def)

lemma is_space_not_digit: "is_digit c \<Longrightarrow> \<not> is_space c"
  by (auto simp: is_digit_def is_space_def)

lemma is_space_chr_lower [simp]: "is_space (chr_lower c) = is_space c"
proof (cases "is_upper c")
  case True
  then show ?thesis
    using of_char_chr_lower[of c] by (auto simp: is_space_def is_upper_def)
next
  case False
  then show ?thesis by (simp add: chr_lower_def)
qed

lemma strip_str_lower [simp]: "strip (str_lower s) = str_lower (strip s)"
  by (simp add: strip_def lstrip_def rstrip_def str_lower_def dropWhile_map rev_map comp_def)

lemma rstrip_append_space: "is_space c \<Longrightarrow> rstrip (s @ [c]) = rstrip s"
  by (simp add: rstrip_def)

lemma strip_idem [simp]: "strip (strip s) = strip s"
proof -
  have lr: "lstrip (rstrip t) = rstrip t" if "lstrip t = t" for t
  proof (cases "rstrip t")
    case Nil
    then show ?thesis by (simp add: lstrip_def)
  next
    case (Cons a as)
    have "\<exists>ys. t = rstrip t @ ys"
      unfolding rstrip_def by (metis rev_append rev_rev_ident takeWhile_dropWhile_id)
    then obtain ys where t: "t = rstrip t @ ys" ..
    then have "t = a # as @ ys" using Cons by simp
    with that have "\<not> is_space a"
      by (metis dropWhile_eq_Cons_conv lstrip_def)
    then show ?thesis using Cons by (simp add: lstrip_def)
  qed
  have rr: "rstrip (rstrip t) = rstrip t" for t
    by (simp add: rstrip_def dropWhile_idem)
  have ll: "lstrip (lstrip s) = lstrip s"
    by (simp add: lstrip_def dropWhile_idem)
  show ?thesis
    unfolding strip_def using lr[OF ll] rr by simp
qed

section \<open>Dynamically typed values\<close>

datatype pval =
    PNone
  | PBool bool
  | PInt int
  | PFloat int string
  | PStr string
  | PList "pval list"
  | PDict "(string \<times> pval) list"

type_synonym pdict = "(string \<times> pval) list"

fun truthy :: "pval \<Rightarrow> bool" where
  "truthy PNone = False"
| "truthy (PBool b) = b"
| "truthy (PInt i) = (i \<noteq> 0)"
| "truthy (PFloat _ r) = (r \<noteq> ''0.0'' \<and> r \<noteq> ''-0.0'')"
| "truthy (PStr s) = (s \<noteq> [])"
| "truthy (PList xs) = (xs \<noteq> [])"
| "truthy (PDict d) = (d \<noteq> [])"

definition py_or :: "pval \<Rightarrow> pval \<Rightarrow> pval" where
  "py_or a b = (if truthy a then a else b)"

fun is_dict :: "pval \<Rightarrow> bool" where
  "is_dict (PDict _) = True"
| "is_dict _ = False"

fun is_str :: "pval \<Rightarrow> bool" where
  "is_str (PStr _) = True"
| "is_str _ = False"

fun is_list :: "pval \<Rightarrow> bool" where
  "is_list (PList _) = True"
| "is_list _ = False"

text \<open>\<open>isinstance(value, int)\<close> holds of booleans too.\<close>

fun is_int :: "pval \<Rightarrow> bool" where
  "is_int (PInt _) = True"
| "is_int (PBool _) = True"
| "is_int _ = False"

fun as_dict :: "pval \<Rightarrow> pdict" where
  "as_dict (PDict d) = d"
| "as_dict _ = []"

fun as_list :: "pval \<Rightarrow> pval list" where
  "as_list (PList xs) = xs"
| "as_list _ = []"

fun pstr_opt :: "string option \<Rightarrow> pval" where
  "pstr_opt None = PNone"
| "pstr_opt (Some s) = PStr s"

fun pint_opt :: "int option \<Rightarrow> pval" where
  "pint_opt None = PNone"
| "pint_opt (Some i) = PInt i"

fun pdict_opt :: "pdict option \<Rightarrow> pval" where
  "pdict_opt None = PNone"
| "pdict_opt (Some d) = PDict d"

text \<open>\<open>text or None\<close> for a string.\<close>

definition or_none :: "string \<Rightarrow> string option" where
  "or_none s = (if s = [] then None else Some s)"

subsection \<open>repr and str\<close>

definition hex_digit :: "nat \<Rightarrow> char" where
  "hex_digit n = (if n < 10 then char_of (48 + n) else char_of (87 + n))"

definition repr_chr :: "char \<Rightarrow> char \<Rightarrow> string" where
  "repr_chr q c =
     (let n = of_char c :: nat in
      if c = q \<or> n = 92 then [CHR 0x5C, c]
      else if n = 9 then [CHR 0x5C, CHR ''t'']
      else if n = 10 then [CHR 0x5C, CHR ''n'']
      else if n = 13 then [CHR 0x5C, CHR ''r'']
      else if n < 32 \<or> (127 \<le> n \<and> n \<le> 160) \<or> n = 173
      then [CHR 0x5C, CHR ''x'', hex_digit (n div 16), hex_digit (n mod 16)]
      else [c])"

definition repr_str :: "string \<Rightarrow> string" where
  "repr_str s =
     (let q = (if CHR 0x27 \<in> set s \<and> CHR 0x22 \<notin> set s then CHR 0x22 else CHR 0x27)
      in [q] @ concat (map (repr_chr q) s) @ [q])"

fun py_repr :: "pval \<Rightarrow> string"
  and py_repr_list :: "pval list \<Rightarrow> string list"
  and py_repr_items :: "(string \<times> pval) list \<Rightarrow> string list" where
  "py_repr PNone = ''None''"
| "py_repr (PBool b) = (if b then ''True'' else ''False'')"
| "py_repr (PInt i) = int_str i"
| "py_repr (PFloat _ r) = r"
| "py_repr (PStr s) = repr_str s"
| "py_repr (PList xs) = ''['' @ join_str '', '' (py_repr_list xs) @ '']''"
| "py_repr (PDict d) = ''{'' @ join_str '', '' (py_repr_items d) @ ''}''"
| "py_repr_list [] = []"
| "py_repr_list (x # xs) = py_repr x # py_repr_list xs"
| "py_repr_items [] = []"
| "py_repr_items ((k, v) # d) = (repr_str k @ '': '' @ py_repr v) # py_repr_items d"

fun py_str :: "pval \<Rightarrow> string" where
  "py_str (PStr s) = s"
| "py_str v = py_repr v"

text \<open>\<open>a or b\<close> for strings.\<close>

definition str_or :: "string \<Rightarrow> string \<Rightarrow> string" where
  "str_or a b = (if a = [] then b else a)"

text \<open>\<open>str(value or "")\<close>, the most common conversion of the code.\<close>

definition str_or_empty :: "pval \<Rightarrow> string" where
  "str_or_empty v = py_str (py_or v (PStr []))"

text \<open>\<open>str(value or "").strip()\<close>.\<close>

definition clean_str :: "pval \<Rightarrow> string" where
  "clean_str v = strip (str_or_empty v)"

fun py_int :: "pval \<Rightarrow> int res" where
  "py_int (PInt i) = Inr i"
| "py_int (PBool b) = Inr (if b then 1 else 0)"
| "py_int (PFloat i _) = Inr i"
| "py_int (PStr s) =
     (case int_of_str s of None \<Rightarrow> Inl (ValueError s) | Some i \<Rightarrow> Inr i)"
| "py_int _ = Inl TypeError"

subsection \<open>Dictionaries in insertion order\<close>

definition dget :: "pdict \<Rightarrow> string \<Rightarrow> pval" where
  "dget d k = (case map_of d k of None \<Rightarrow> PNone | Some v \<Rightarrow> v)"

definition dhas :: "pdict \<Rightarrow> string \<Rightarrow> bool" where
  "dhas d k \<longleftrightarrow> map_of d k \<noteq> None"

abbreviation dset :: "pdict \<Rightarrow> string \<Rightarrow> pval \<Rightarrow> pdict" where
  "dset d k v \<equiv> AList.update k v d"

definition dmerge :: "pdict \<Rightarrow> pdict \<Rightarrow> pdict" where
  "dmerge d e = fold (\<lambda>(k, v). AList.update k v) e d"

definition dsetdefault :: "pdict \<Rightarrow> string \<Rightarrow> pval \<Rightarrow> pdict" where
  "dsetdefault d k v = (if dhas d k then d else d @ [(k, v)])"

text \<open>\<open>value.get(key)\<close> where the code has not checked that \<open>value\<close> is a dictionary.\<close>

fun vget :: "pval \<Rightarrow> string \<Rightarrow> pval res" where
  "vget (PDict d) k = Inr (dget d k)"
| "vget _ k = Inl AttributeError"

text \<open>\<open>value.get(key, default)\<close>, and the items a loop over a value visits.\<close>

definition dget_default :: "pdict \<Rightarrow> string \<Rightarrow> pval \<Rightarrow> pval" where
  "dget_default d k v = (if dhas d k then dget d k else v)"

fun iterated :: "pval \<Rightarrow> pval list res" where
  "iterated (PList xs) = Inr xs"
| "iterated (PDict d) = Inr (map (\<lambda>(k, _). PStr k) d)"
| "iterated (PStr s) = Inr (map (\<lambda>c. PStr [c]) s)"
| "iterated _ = Inl TypeError"

text \<open>
  What \<open>datetime.fromisoformat\<close> makes of a text: nothing, a time without a zone, or a moment,
  in the unit of the clock it is compared with. Comparing one without a zone with the clock raises \<open>TypeError\<close>.
\<close>

datatype parsed_time = No_Time | Naive_Time | Aware_Time int

text \<open>The value of a key along a path, as \<open>_first\<close> and \<open>_find_first\<close> follow it.\<close>

fun dpath :: "pval \<Rightarrow> string list \<Rightarrow> pval option" where
  "dpath v [] = Some v"
| "dpath (PDict d) (k # ks) =
     (case map_of d k of None \<Rightarrow> None | Some w \<Rightarrow> dpath w ks)"
| "dpath _ (k # ks) = None"

lemma dget_dset [simp]: "dget (dset d k v) k' = (if k' = k then v else dget d k')"
  by (simp add: dget_def update_conv')

lemma dhas_dset [simp]: "dhas (dset d k v) k' \<longleftrightarrow> k' = k \<or> dhas d k'"
  by (simp add: dhas_def update_conv')

lemma dhas_iff: "dhas d k \<longleftrightarrow> k \<in> fst ` set d"
  by (simp add: dhas_def map_of_eq_None_iff)

lemma dget_not_dhas: "\<not> dhas d k \<Longrightarrow> dget d k = PNone"
  by (simp add: dhas_def dget_def)

lemma dget_Nil [simp]: "dget [] k = PNone" and dhas_Nil [simp]: "\<not> dhas [] k"
  by (simp_all add: dget_def dhas_def)

lemma dget_Cons: "dget ((k, v) # d) k' = (if k' = k then v else dget d k')"
  by (simp add: dget_def)

lemma dhas_Cons: "dhas ((k, v) # d) k' \<longleftrightarrow> k' = k \<or> dhas d k'"
  by (simp add: dhas_def)

lemma map_of_dmerge:
  "map_of (dmerge d e) k = (case map_of (rev e) k of None \<Rightarrow> map_of d k | Some v \<Rightarrow> Some v)"
  unfolding dmerge_def
proof (induction e arbitrary: d)
  case Nil
  then show ?case by simp
next
  case (Cons kv e)
  obtain k' v where kv: "kv = (k', v)" by (cases kv)
  show ?case
    by (simp add: kv Cons.IH map_add_def update_conv' split: option.splits)
qed

lemma dget_dmerge_distinct:
  assumes "distinct (map fst e)"
  shows "dget (dmerge d e) k = (if dhas e k then dget e k else dget d k)"
proof -
  have "map_of (rev e) = map_of e"
    using assms by (subst map_of_inject_set) (auto simp: rev_map [symmetric])
  then show ?thesis
    by (simp add: dget_def dhas_def map_of_dmerge split: option.splits)
qed

lemma distinct_dmerge: "distinct (map fst d) \<Longrightarrow> distinct (map fst (dmerge d e))"
  unfolding dmerge_def
  by (induction e arbitrary: d) (auto simp: distinct_update)

lemma dsetdefault_keeps: "dhas d k \<Longrightarrow> dsetdefault d k v = d"
  by (simp add: dsetdefault_def)

lemma dget_dsetdefault:
  "dget (dsetdefault d k v) k' = (if k' = k \<and> \<not> dhas d k then v else dget d k')"
  by (auto simp: dsetdefault_def dget_def dhas_def map_add_def split: option.splits)

lemma dhas_dsetdefault [simp]: "dhas (dsetdefault d k v) k' \<longleftrightarrow> k' = k \<or> dhas d k'"
  by (auto simp: dsetdefault_def dhas_def map_add_def split: option.splits)

lemma truthy_py_or [simp]: "truthy (py_or a b) \<longleftrightarrow> truthy a \<or> truthy b"
  by (simp add: py_or_def)

lemma str_or_empty_simps [simp]:
  "str_or_empty PNone = []" "str_or_empty (PStr s) = s" "str_or_empty (PList []) = []"
  "str_or_empty (PDict []) = []" "str_or_empty (PBool False) = []" "str_or_empty (PInt 0) = []"
  by (simp_all add: str_or_empty_def py_or_def)

lemma clean_str_simps [simp]: "clean_str PNone = []" "clean_str (PStr s) = strip s"
  by (simp_all add: clean_str_def)

subsection \<open>json.dumps\<close>

definition json_chr :: "char \<Rightarrow> string" where
  "json_chr c =
     (let n = of_char c :: nat in
      if n = 34 \<or> n = 92 then [CHR 0x5C, c]
      else if n = 8 then [CHR 0x5C, CHR ''b'']
      else if n = 9 then [CHR 0x5C, CHR ''t'']
      else if n = 10 then [CHR 0x5C, CHR ''n'']
      else if n = 12 then [CHR 0x5C, CHR ''f'']
      else if n = 13 then [CHR 0x5C, CHR ''r'']
      else if n < 32 \<or> 127 \<le> n
      then [CHR 0x5C, CHR ''u'', CHR ''0'', CHR ''0'', hex_digit (n div 16), hex_digit (n mod 16)]
      else [c])"

definition json_str :: "string \<Rightarrow> string" where
  "json_str s = [CHR 0x22] @ concat (map json_chr s) @ [CHR 0x22]"

text \<open>
  \<open>json.dumps(value, ensure_ascii=True, separators=(isep, ksep), sort_keys=sk)\<close>.
\<close>

fun json_dumps :: "bool \<Rightarrow> string \<Rightarrow> string \<Rightarrow> pval \<Rightarrow> string"
  and json_dumps_list :: "bool \<Rightarrow> string \<Rightarrow> string \<Rightarrow> pval list \<Rightarrow> string list"
  and json_dumps_items :: "bool \<Rightarrow> string \<Rightarrow> string \<Rightarrow> pdict \<Rightarrow> (string \<times> string) list" where
  "json_dumps sk isep ksep PNone = ''null''"
| "json_dumps sk isep ksep (PBool b) = (if b then ''true'' else ''false'')"
| "json_dumps sk isep ksep (PInt i) = int_str i"
| "json_dumps sk isep ksep (PFloat _ r) = r"
| "json_dumps sk isep ksep (PStr s) = json_str s"
| "json_dumps sk isep ksep (PList xs) =
     ''['' @ join_str isep (json_dumps_list sk isep ksep xs) @ '']''"
| "json_dumps sk isep ksep (PDict d) =
     (let items = json_dumps_items sk isep ksep d
      in ''{'' @ join_str isep (map snd (if sk then sort_key fst items else items)) @ ''}'')"
| "json_dumps_list sk isep ksep [] = []"
| "json_dumps_list sk isep ksep (x # xs) =
     json_dumps sk isep ksep x # json_dumps_list sk isep ksep xs"
| "json_dumps_items sk isep ksep [] = []"
| "json_dumps_items sk isep ksep ((k, v) # d) =
     (k, json_str k @ ksep @ json_dumps sk isep ksep v) # json_dumps_items sk isep ksep d"

section \<open>Lists as the stores use them\<close>

text \<open>The loop that changes the first matching item and stops.\<close>

fun modify_first :: "('a \<Rightarrow> bool) \<Rightarrow> ('a \<Rightarrow> 'a) \<Rightarrow> 'a list \<Rightarrow> 'a list" where
  "modify_first p f [] = []"
| "modify_first p f (x # xs) = (if p x then f x # xs else x # modify_first p f xs)"

text \<open>\<open>xs[-n:]\<close> for a positive \<open>n\<close>.\<close>

definition last_n :: "nat \<Rightarrow> 'a list \<Rightarrow> 'a list" where
  "last_n n xs = drop (length xs - n) xs"

text \<open>\<open>sorted(xs, key=f, reverse=True)\<close>: descending, and stable.\<close>

definition sort_desc :: "('a \<Rightarrow> 'k::linorder) \<Rightarrow> 'a list \<Rightarrow> 'a list" where
  "sort_desc f xs = rev (sort_key f (rev xs))"

lemma length_modify_first [simp]: "length (modify_first p f xs) = length xs"
  by (induction xs) auto

lemma modify_first_none: "\<not> list_ex p xs \<Longrightarrow> modify_first p f xs = xs"
  by (induction xs) auto

lemma map_modify_first:
  "(\<And>x. g (f x) = g x) \<Longrightarrow> map g (modify_first p f xs) = map g xs"
  by (induction xs) auto

lemma set_modify_first: "y \<in> set (modify_first p f xs) \<Longrightarrow> y \<in> set xs \<or> (\<exists>x\<in>set xs. p x \<and> y = f x)"
  by (induction xs) (auto split: if_splits)

lemma find_None_list_ex: "List.find p xs = None \<longleftrightarrow> \<not> list_ex p xs"
  by (auto simp: find_None_iff list_ex_iff)

lemma find_modify_first_same:
  assumes "List.find p xs = Some x" and "p (f x)"
  shows "List.find p (modify_first p f xs) = Some (f x)"
  using assms by (induction xs) (auto split: if_splits)

lemma modify_first_member:
  "List.find p xs = Some x \<Longrightarrow> f x \<in> set (modify_first p f xs)"
  by (induction xs) (auto split: if_splits)

lemma find_modify_first_other:
  assumes "\<And>x. q (f x) = q x" and "\<And>x. p x \<Longrightarrow> \<not> q x"
  shows "List.find q (modify_first p f xs) = List.find q xs"
  using assms by (induction xs) auto

lemma list_all_modify_first:
  assumes "list_all P xs" and "\<And>x. x \<in> set xs \<Longrightarrow> p x \<Longrightarrow> P x \<Longrightarrow> P (f x)"
  shows "list_all P (modify_first p f xs)"
  using assms by (induction xs) auto

lemma length_last_n [simp]: "length (last_n n xs) = min n (length xs)"
  by (simp add: last_n_def)

lemma set_last_n: "set (last_n n xs) \<subseteq> set xs"
  by (simp add: last_n_def set_drop_subset)

lemma in_last_n: "x \<in> set (last_n n xs) \<Longrightarrow> x \<in> set xs"
  by (rule subsetD [OF set_last_n])

lemma map_fixes: "map f xs = xs \<Longrightarrow> x \<in> set xs \<Longrightarrow> f x = x"
  by (induction xs) auto

lemma last_n_all: "length xs \<le> n \<Longrightarrow> last_n n xs = xs"
  by (simp add: last_n_def)

lemma last_n_snoc: "0 < n \<Longrightarrow> last_n n (xs @ [x]) = last_n (n - 1) xs @ [x]"
  by (cases n) (auto simp: last_n_def Suc_diff_le)

lemma distinct_last_n: "distinct (map g xs) \<Longrightarrow> distinct (map g (last_n n xs))"
  by (simp add: last_n_def drop_map [symmetric])

lemma mset_sort_desc [simp]: "mset (sort_desc f xs) = mset xs"
  by (simp add: sort_desc_def)

lemma set_sort_desc [simp]: "set (sort_desc f xs) = set xs"
  by (simp add: sort_desc_def)

lemma length_sort_desc [simp]: "length (sort_desc f xs) = length xs"
  by (simp add: sort_desc_def)

lemma sorted_sort_desc: "sorted_wrt (\<ge>) (map f (sort_desc f xs))"
  by (simp add: sort_desc_def rev_map [symmetric] sorted_wrt_rev)

lemma map_insort_key: "map g (insort_key (\<lambda>x. f (g x)) x xs) = insort_key f (g x) (map g xs)"
  by (induction xs) auto

lemma map_sort_key: "map g (sort_key (\<lambda>x. f (g x)) xs) = sort_key f (map g xs)"
  by (induction xs) (auto simp: map_insort_key)

lemma map_factor:
  assumes "map g xs = map g ys" and "\<And>x y. g x = g y \<Longrightarrow> h x = h y"
  shows "map h xs = map h ys"
  using assms(1)
proof (induction xs arbitrary: ys)
  case Nil
  then show ?case by simp
next
  case (Cons x xs)
  then obtain y ys' where ys: "ys = y # ys'" and head: "g x = g y" and tail: "map g xs = map g ys'"
    by (auto simp: Cons_eq_map_conv)
  show ?case
    using assms(2) [OF head] Cons.IH [OF tail] by (simp add: ys)
qed

lemma filter_map_nth: "map ((!) xs) (filter (\<lambda>i. p (xs ! i)) is) = filter p (map ((!) xs) is)"
  by (induction "is") auto

lemma replace_file_Inl: "replace_file ok x f = (Inl e, f') \<Longrightarrow> f' = f"
  by (auto simp: replace_file_def split: if_splits)

text \<open>What an operation answers after a write does not change the file.\<close>

lemma snd_after_write:
  "snd (case r of (a, f) \<Rightarrow> (case a of Inl e \<Rightarrow> (Inl (g e), f) | Inr x \<Rightarrow> (Inr (h x), f))) = snd r"
  by (simp split: prod.split sum.split)

lemma replace_file_simps [simp]:
  "replace_file True x f = (Inr (), Holds x)" "replace_file False x f = (Inl OSError, f)"
  by (simp_all add: replace_file_def)

end
