(* ===== verification/Secret_Redaction.thy ===== *)
theory Secret_Redaction
  imports Py_Prelude
begin

text \<open>
  Redaction and at-rest protection of secrets, \<open>gateway/app/core/secret_protection.py\<close>.
  \<open>redact_json\<close> is the function every store, log line and API answer passes its documents
  through; the lemmas show that it leaves no value under a sensitive name, that its result does
  not depend on such values, that the rest of the document is unchanged, and that it may be
  applied again. The Fernet cipher of the \<open>cryptography\<close> package is a parameter of the
  envelope functions: \<open>enc\<close> and \<open>dec\<close>, the latter \<open>None\<close> for an invalid token.
\<close>

section \<open>Sensitive names\<close>

definition REDACTED :: string where
  "REDACTED = ''[REDACTED]''"

definition ENCRYPTED_PREFIX :: string where
  "ENCRYPTED_PREFIX = ''fernet:v1:''"

definition SENSITIVE_EXACT :: "string list" where
  "SENSITIVE_EXACT =
    [''authorization'', ''proxyauthorization'', ''apikey'', ''clientkey'', ''accesstoken'',
     ''refreshtoken'', ''idtoken'', ''token'', ''secret'', ''password'', ''passwd'',
     ''credential'', ''credentials'', ''cookie'', ''setcookie'', ''session'', ''sessionid'',
     ''signature'', ''webhooksecret'', ''webhooktoken'', ''clientsecret'', ''mediakey'']"

definition SENSITIVE_PARTS :: "string list" where
  "SENSITIVE_PARTS =
    [''token'', ''secret'', ''password'', ''passwd'', ''credential'', ''signature'', ''cookie'']"

text \<open>\<open>re.sub(r"[^a-z0-9]", "", name.lower())\<close>.\<close>

definition normalized_name :: "string \<Rightarrow> string" where
  "normalized_name name = filter (\<lambda>c. is_lower c \<or> is_digit c) (str_lower name)"

definition is_sensitive_name :: "string \<Rightarrow> bool" where
  "is_sensitive_name name =
     (let normalized = normalized_name name in
      if normalized = [] then False
      else if normalized \<in> set SENSITIVE_EXACT then True
      else if contains_any normalized SENSITIVE_PARTS then True
      else ends_with normalized ''apikey'' \<or> ends_with normalized ''clientkey'')"

section \<open>Redaction of documents\<close>

fun redact_json :: "pval \<Rightarrow> pval"
  and redact_list :: "pval list \<Rightarrow> pval list"
  and redact_items :: "pdict \<Rightarrow> pdict" where
  "redact_json (PDict d) = PDict (redact_items d)"
| "redact_json (PList xs) = PList (redact_list xs)"
| "redact_json PNone = PNone"
| "redact_json (PBool b) = PBool b"
| "redact_json (PInt i) = PInt i"
| "redact_json (PFloat i r) = PFloat i r"
| "redact_json (PStr s) = PStr s"
| "redact_list [] = []"
| "redact_list (x # xs) = redact_json x # redact_list xs"
| "redact_items [] = []"
| "redact_items ((k, v) # d) =
     (k, if is_sensitive_name k then PStr REDACTED else redact_json v) # redact_items d"

definition redact_headers :: "pval \<Rightarrow> pdict" where
  "redact_headers headers =
     (case headers of
        PDict d \<Rightarrow> map (\<lambda>(k, v). (k, if is_sensitive_name k then PStr REDACTED else v)) d
      | _ \<Rightarrow> [])"

text \<open>
  \<open>json.loads\<close> is the parameter \<open>loads\<close>, \<open>None\<close> where it raises; a text that is not
  JSON passes unchanged, and the result is cut to \<open>max_chars\<close>.
\<close>

definition redact_json_preview ::
    "(string \<Rightarrow> pval option) \<Rightarrow> pval \<Rightarrow> nat option \<Rightarrow> string" where
  "redact_json_preview loads value max_chars =
     (let raw = str_or_empty value;
          safe = (case loads raw of
                    Some doc \<Rightarrow> json_dumps False '', '' '': '' (redact_json doc)
                  | None \<Rightarrow> raw)
      in case max_chars of None \<Rightarrow> safe | Some n \<Rightarrow> take n safe)"

section \<open>The envelope of encrypted values\<close>

fun is_encrypted :: "pval \<Rightarrow> bool" where
  "is_encrypted (PStr s) = starts_with s ENCRYPTED_PREFIX"
| "is_encrypted _ = False"

definition secret_cipher_material :: "pval \<Rightarrow> string res" where
  "secret_cipher_material material =
     (let clean = clean_str material in
      if clean = [] then Inl (RuntimeError ''No hay clave configurada para proteger secretos de webhook'')
      else Inr clean)"

definition encrypt_secret :: "(string \<Rightarrow> string) \<Rightarrow> string \<Rightarrow> string" where
  "encrypt_secret enc value =
     (if is_encrypted (PStr value) then value else ENCRYPTED_PREFIX @ enc value)"

definition decrypt_or_legacy :: "(string \<Rightarrow> string option) \<Rightarrow> pval \<Rightarrow> (string \<times> bool) res" where
  "decrypt_or_legacy dec value =
     (let raw = str_or_empty value in
      if \<not> is_encrypted (PStr raw) then Inr (raw, False)
      else case dec (drop (length ENCRYPTED_PREFIX) raw) of
             Some s \<Rightarrow> Inr (s, True)
           | None \<Rightarrow> Inl (RuntimeError ''No se pudo descifrar un secreto de webhook''))"

section \<open>Documents without secrets\<close>

text \<open>Every value under a sensitive name, at any depth, is the redaction mark.\<close>

fun no_secret :: "pval \<Rightarrow> bool"
  and no_secret_list :: "pval list \<Rightarrow> bool"
  and no_secret_items :: "pdict \<Rightarrow> bool" where
  "no_secret (PDict d) = no_secret_items d"
| "no_secret (PList xs) = no_secret_list xs"
| "no_secret _ = True"
| "no_secret_list [] = True"
| "no_secret_list (x # xs) = (no_secret x \<and> no_secret_list xs)"
| "no_secret_items [] = True"
| "no_secret_items ((k, v) # d) =
     ((if is_sensitive_name k then v = PStr REDACTED else no_secret v) \<and> no_secret_items d)"

text \<open>Two documents that differ only in what their sensitive names hold.\<close>

inductive secret_eq :: "pval \<Rightarrow> pval \<Rightarrow> bool" where
  same: "secret_eq v v"
| secret_item: "is_sensitive_name k \<Longrightarrow> secret_eq (PDict d) (PDict d')
     \<Longrightarrow> secret_eq (PDict ((k, v) # d)) (PDict ((k, v') # d'))"
| plain_item: "secret_eq v v' \<Longrightarrow> secret_eq (PDict d) (PDict d')
     \<Longrightarrow> secret_eq (PDict ((k, v) # d)) (PDict ((k, v') # d'))"
| element: "secret_eq x y \<Longrightarrow> secret_eq (PList xs) (PList ys)
     \<Longrightarrow> secret_eq (PList (x # xs)) (PList (y # ys))"

section \<open>Lemmas on redaction\<close>

lemma redact_list_map [py_simps]: "redact_list xs = map redact_json xs"
  by (induction xs) auto

lemma redact_items_map:
  "redact_items d = map (\<lambda>(k, v). (k, if is_sensitive_name k then PStr REDACTED else redact_json v)) d"
  by (induction d) auto

lemma map_fst_redact_items [simp]: "map fst (redact_items d) = map fst d"
  by (induction d) auto

lemma no_secret_redact:
  "no_secret (redact_json v)"
  "no_secret_list (redact_list xs)"
  "no_secret_items (redact_items d)"
  by (induction v and xs and d rule: redact_json_redact_list_redact_items.induct) auto

lemma redact_no_secret:
  "no_secret v \<Longrightarrow> redact_json v = v"
  "no_secret_list xs \<Longrightarrow> redact_list xs = xs"
  "no_secret_items d \<Longrightarrow> redact_items d = d"
  by (induction v and xs and d rule: redact_json_redact_list_redact_items.induct)
    (auto split: if_splits)

lemma redact_json_idem [simp]: "redact_json (redact_json v) = redact_json v"
  by (rule redact_no_secret(1) [OF no_secret_redact(1)])

lemma redact_items_idem [simp]: "redact_items (redact_items d) = redact_items d"
  by (rule redact_no_secret(3) [OF no_secret_redact(3)])

lemma map_of_redact_items:
  "map_of (redact_items d) k =
     (if is_sensitive_name k then map_option (\<lambda>_. PStr REDACTED) (map_of d k)
      else map_option redact_json (map_of d k))"
  by (induction d) auto

lemma dget_redact_items:
  "\<not> is_sensitive_name k \<Longrightarrow> dget (redact_items d) k = redact_json (dget d k)"
  by (auto simp: dget_def map_of_redact_items split: option.splits)

lemma redact_json_eq_iff_shape [simp]:
  "redact_json v = PNone \<longleftrightarrow> v = PNone"
  "redact_json v = PBool b \<longleftrightarrow> v = PBool b"
  "redact_json v = PInt i \<longleftrightarrow> v = PInt i"
  "redact_json v = PStr s \<longleftrightarrow> v = PStr s"
  by (cases v; auto)+

lemma redact_path:
  "list_all (\<lambda>k. \<not> is_sensitive_name k) ks \<Longrightarrow>
    dpath (redact_json v) ks = map_option redact_json (dpath v ks)"
proof (induction ks arbitrary: v)
  case Nil
  then show ?case by simp
next
  case (Cons k ks)
  then show ?case
    by (cases v) (auto simp: map_of_redact_items split: option.splits)
qed

lemma redact_path_sensitive:
  assumes "is_sensitive_name k" and "dpath (redact_json v) (ks @ [k]) = Some w"
    and "list_all (\<lambda>k. \<not> is_sensitive_name k) ks"
  shows "w = PStr REDACTED"
  using assms(2,3)
proof (induction ks arbitrary: v)
  case Nil
  then show ?case
    using assms(1) by (cases v) (auto simp: map_of_redact_items split: option.splits)
next
  case (Cons k' ks)
  then show ?case
    by (cases v) (auto simp: map_of_redact_items split: option.splits)
qed

lemma secret_eq_redact: "secret_eq v w \<Longrightarrow> redact_json v = redact_json w"
  by (induction rule: secret_eq.induct) auto

lemma str_lower_filter:
  "(\<And>c. p c \<Longrightarrow> \<not> is_lower (chr_lower c) \<and> \<not> is_digit (chr_lower c)) \<Longrightarrow>
    filter (\<lambda>c. is_lower c \<or> is_digit c) (str_lower (filter (\<lambda>c. \<not> p c) s)) =
    filter (\<lambda>c. is_lower c \<or> is_digit c) (str_lower s)"
  by (induction s) (auto simp: str_lower_def)

section \<open>Properties\<close>

text \<open>
  two documents that differ only in the values held under sensitive names, at any depth,
  have the same redaction: nothing that is logged, stored or returned after
  \<open>redact_json\<close> depends on a secret.
\<close>

theorem redaction_noninterference:
  assumes "secret_eq v w"
  shows "redact_json v = redact_json w"
  using assms by (rule secret_eq_redact)

theorem redaction_noninterference_witness:
  "redact_json (PDict [(''a'', PList [PDict [(''X-Api-Key'', PStr ''k1'')]]), (''b'', PInt 3)]) =
   redact_json (PDict [(''a'', PList [PDict [(''X-Api-Key'', PInt 7)]]), (''b'', PInt 3)])"
proof (rule redaction_noninterference)
  have "is_sensitive_name ''X-Api-Key''" by code_simp
  then show "secret_eq (PDict [(''a'', PList [PDict [(''X-Api-Key'', PStr ''k1'')]]), (''b'', PInt 3)])
     (PDict [(''a'', PList [PDict [(''X-Api-Key'', PInt 7)]]), (''b'', PInt 3)])"
    by (intro secret_eq.intros)
qed

text \<open>
  C40: redaction is complete and stable: the redacted document holds the redaction mark under
  every sensitive name at every depth, redacting it again changes nothing, and a document that
  already holds no secret is returned as it is, which is why the stores may redact on every
  write what they read back.
\<close>

theorem redaction_complete_and_stable:
  "no_secret (redact_json v) \<and> redact_json (redact_json v) = redact_json v \<and>
   (no_secret w \<longrightarrow> redact_json w = w)"
  using no_secret_redact(1) redact_no_secret(1) by simp

theorem redaction_complete_and_stable_witness:
  "no_secret (PDict [(''status'', PStr ''ok''), (''n'', PList [PInt 1])]) \<and>
   redact_json (PDict [(''status'', PStr ''ok''), (''n'', PList [PInt 1])]) =
     PDict [(''status'', PStr ''ok''), (''n'', PList [PInt 1])]"
proof -
  have "no_secret (PDict [(''status'', PStr ''ok''), (''n'', PList [PInt 1])])"
    by code_simp
  then show ?thesis
    using redaction_complete_and_stable
      [of PNone "PDict [(''status'', PStr ''ok''), (''n'', PList [PInt 1])]"] by simp
qed

text \<open>
  redaction loses nothing else: along a path of names that are not sensitive, a lookup in
  the redacted document finds exactly the redaction of what the lookup finds in the document.
\<close>

theorem redaction_transparent:
  assumes "list_all (\<lambda>k. \<not> is_sensitive_name k) ks"
  shows "dpath (redact_json v) ks = map_option redact_json (dpath v ks)"
  using assms by (rule redact_path)

theorem redaction_transparent_witness:
  "dpath (redact_json (PDict [(''data'', PDict [(''id'', PStr ''m1''), (''token'', PStr ''t'')])]))
     [''data'', ''id''] = Some (PStr ''m1'')"
proof -
  have "list_all (\<lambda>k. \<not> is_sensitive_name k) [''data'', ''id'']" by code_simp
  then show ?thesis
    using redaction_transparent
      [of "[''data'', ''id'']" "PDict [(''data'', PDict [(''id'', PStr ''m1''), (''token'', PStr ''t'')])]"]
    by simp
qed

text \<open>
  the envelope of encrypted values round-trips: with a cipher whose decryption undoes its
  encryption, a stored secret decrypts to itself and is reported as encrypted, encrypting a
  value twice is encrypting it once, and a plaintext from before encryption is returned as it
  is and reported as not encrypted.
\<close>

theorem secret_envelope_roundtrip:
  assumes cipher: "\<And>s. dec (enc s) = Some s"
    and fresh: "\<not> is_encrypted (PStr v)"
  shows "decrypt_or_legacy dec (PStr (encrypt_secret enc v)) = Inr (v, True) \<and>
    encrypt_secret enc (encrypt_secret enc v) = encrypt_secret enc v \<and>
    decrypt_or_legacy dec (PStr v) = Inr (v, False)"
proof -
  have prefix: "starts_with (ENCRYPTED_PREFIX @ t) ENCRYPTED_PREFIX" for t
    by (simp add: starts_with_def)
  show ?thesis
    using fresh cipher by (simp add: decrypt_or_legacy_def encrypt_secret_def prefix)
qed

theorem secret_envelope_roundtrip_witness:
  "decrypt_or_legacy (\<lambda>s. Some (rev s)) (PStr (encrypt_secret rev ''hook-key'')) =
     Inr (''hook-key'', True)"
proof -
  have "\<not> is_encrypted (PStr ''hook-key'')" by code_simp
  then show ?thesis
    using secret_envelope_roundtrip [of "\<lambda>s. Some (rev s)" rev "''hook-key''"] by simp
qed

end
