(* ===== verification/Core_Outbox.thy ===== *)
theory Core_Outbox
  imports Py_Prelude
begin

text \<open>
  The durable outbox of canonical events on their way to Botly Core:
  \<open>CoreInboundDeliveryStore\<close> of \<open>gateway/app/services/core_inbound_dispatcher.py\<close>. The
  state is the list of deliveries the JSON file holds; every operation runs under the process
  lock, so it is one function from the file to the answer and the new file. Times are Unix
  milliseconds, read once per operation as the code does; \<open>disk_ok\<close> says whether the write
  of the operation succeeds. Identifiers drawn from \<open>uuid4\<close> are arguments.
\<close>

section \<open>State\<close>

datatype delivery_status = Pending | Delivering | Retry | Delivered | Failed | Dead_Letter

record delivery =
  dl_id :: string
  dl_event_id :: string
  dl_provider :: string
  dl_channel_type :: string
  dl_provider_account_id :: string
  dl_connection_id :: string
  dl_core_channel_id :: "string option"
  dl_event :: pdict
  dl_status :: delivery_status
  dl_attempt_count :: int
  dl_next_attempt_at :: "int option"
  dl_last_attempt_at :: "int option"
  dl_delivered_at :: "int option"
  dl_last_error :: "string option"
  dl_created_at :: int
  dl_updated_at :: int
  dl_lease_expires_at :: "int option"
  dl_duplicate_acknowledged :: bool

type_synonym outbox_file = "delivery list json_file"

text \<open>\<open>str(value) if value is not None else ""\<close>: identifiers are opaque, never trimmed.\<close>

fun text_of :: "pval \<Rightarrow> string" where
  "text_of PNone = []"
| "text_of v = py_str v"

text \<open>\<open>int(value or 0)\<close>, and 0 for what has no integer value.\<close>

definition as_int :: "pval \<Rightarrow> int" where
  "as_int value =
     (if truthy value then (case py_int value of Inr i \<Rightarrow> i | Inl _ \<Rightarrow> 0) else 0)"

lemma as_int_opt [simp]: "as_int (pint_opt v) = (case v of None \<Rightarrow> 0 | Some i \<Rightarrow> i)"
  by (cases v) (auto simp: as_int_def)

lemma as_int_simps [simp]: "as_int (PInt i) = i" "as_int PNone = 0"
  by (auto simp: as_int_def)

definition read_outbox :: "outbox_file \<Rightarrow> delivery list res" where
  "read_outbox f =
     (case f of
        Absent \<Rightarrow> Inr []
      | Unreadable \<Rightarrow> Inl (PersistenceError ''Canonical outbox could not be read'')
      | Misshapen \<Rightarrow> Inl (PersistenceError ''Canonical outbox has an invalid structure'')
      | Holds ds \<Rightarrow> Inr ds)"

section \<open>Accepting an event\<close>

text \<open>
  The identity of a provider message: the second key, besides the event id, under which an
  event is stored once. It is absent when one of its parts is empty.
\<close>

definition provider_message_scope :: "pdict \<Rightarrow> string list option res" where
  "provider_message_scope event =
     (let transport = as_dict (dget event ''transport'');
          message = as_dict (dget event ''message'');
          vs = [text_of (dget transport ''provider''), text_of (dget transport ''channelType''),
                text_of (dget transport ''providerAccountRef''),
                text_of (dget message ''providerMessageId'')];
          finish = (\<lambda>vs. if list_all (\<lambda>s. s \<noteq> []) vs then Some vs else None)
      in if dget event ''contractVersion'' = PStr ''canonical-v2''
         then rbind (vget (py_or (dget event ''chat'') (PDict [])) ''externalId'') (\<lambda>chat_id.
                Inr (finish (vs @
                  [text_of (dget transport ''connectionRef''), text_of (dget transport ''bindingId''),
                   text_of chat_id, text_of (dget event ''eventType''),
                   py_str (dget message ''fromMe'')])))
         else Inr (finish vs))"

definition has_delivery_identity :: "pdict \<Rightarrow> bool" where
  "has_delivery_identity event =
     (let transport = as_dict (dget event ''transport'') in
      text_of (dget event ''eventId'') \<noteq> [] \<and> text_of (dget transport ''provider'') \<noteq> [] \<and>
      text_of (dget transport ''channelType'') \<noteq> [] \<and>
      text_of (dget transport ''providerAccountRef'') \<noteq> [] \<and>
      text_of (dget transport ''connectionRef'') \<noteq> [])"

definition new_delivery ::
    "string \<Rightarrow> int \<Rightarrow> pdict \<Rightarrow> string option \<Rightarrow> string option \<Rightarrow> delivery" where
  "new_delivery uid now event core_channel_id initial_error =
     (let transport = as_dict (dget event ''transport'');
          failed = (case initial_error of None \<Rightarrow> False | Some e \<Rightarrow> e \<noteq> [])
      in \<lparr> dl_id = ''core_inbound_'' @ uid,
           dl_event_id = text_of (dget event ''eventId''),
           dl_provider = text_of (dget transport ''provider''),
           dl_channel_type = text_of (dget transport ''channelType''),
           dl_provider_account_id = text_of (dget transport ''providerAccountRef''),
           dl_connection_id = text_of (dget transport ''connectionRef''),
           dl_core_channel_id = or_none (text_of (pstr_opt core_channel_id)),
           dl_event = event,
           dl_status = (if failed then Failed else Pending),
           dl_attempt_count = 0,
           dl_next_attempt_at = (if failed then None else Some now),
           dl_last_attempt_at = None, dl_delivered_at = None,
           dl_last_error = initial_error,
           dl_created_at = now, dl_updated_at = now,
           dl_lease_expires_at = None, dl_duplicate_acknowledged = False \<rparr>)"

fun find_existing :: "string \<Rightarrow> string list option \<Rightarrow> delivery list \<Rightarrow> delivery option res" where
  "find_existing event_id scope [] = Inr None"
| "find_existing event_id scope (d # ds) =
     (if dl_event_id d = event_id then Inr (Some d)
      else rbind (provider_message_scope (dl_event d)) (\<lambda>existing_scope.
             if scope \<noteq> None \<and> existing_scope = scope then Inr (Some d)
             else find_existing event_id scope ds))"

text \<open>Drop confirmed deliveries past retention; failures stay for replay.\<close>

definition retention_days :: "int \<Rightarrow> int" where
  "retention_days setting = max 1 (if setting = 0 then 7 else setting)"

definition expired :: "int \<Rightarrow> int \<Rightarrow> delivery \<Rightarrow> bool" where
  "expired setting now d \<longleftrightarrow>
     dl_status d = Delivered \<and>
     as_int (pint_opt (dl_delivered_at d)) < now - retention_days setting * 86400000"

definition without_expired :: "int \<Rightarrow> int \<Rightarrow> delivery list \<Rightarrow> delivery list" where
  "without_expired setting now ds = filter (\<lambda>d. \<not> expired setting now d) ds"

definition enqueue ::
    "int \<Rightarrow> bool \<Rightarrow> int \<Rightarrow> string \<Rightarrow> pdict \<Rightarrow> string option \<Rightarrow> string option \<Rightarrow> outbox_file
     \<Rightarrow> (delivery \<times> bool) res \<times> outbox_file" where
  "enqueue retention disk_ok now uid event core_channel_id initial_error f =
     (if \<not> has_delivery_identity event
      then (Inl (PersistenceError ''Canonical event is missing durable delivery identity''), f)
      else case provider_message_scope event of
        Inl e \<Rightarrow> (Inl e, f)
      | Inr scope \<Rightarrow>
          (let delivery = new_delivery uid now event core_channel_id initial_error;
               not_persisted = PersistenceError ''Canonical Core delivery could not be persisted''
           in case read_outbox f of
                Inl e \<Rightarrow> (Inl e, f)
              | Inr ds \<Rightarrow>
                  (case find_existing (dl_event_id delivery) scope ds of
                     Inl e \<Rightarrow> (Inl not_persisted, f)
                   | Inr (Some existing) \<Rightarrow> (Inr (existing, False), f)
                   | Inr None \<Rightarrow>
                       (case replace_file disk_ok (without_expired retention now ds @ [delivery]) f of
                          (Inl e, f') \<Rightarrow> (Inl not_persisted, f')
                        | (Inr _, f') \<Rightarrow> (Inr (delivery, True), f')))))"

section \<open>Reading\<close>

definition get_delivery :: "string \<Rightarrow> outbox_file \<Rightarrow> delivery option res" where
  "get_delivery delivery_id f =
     rbind (read_outbox f) (\<lambda>ds. Inr (List.find (\<lambda>d. dl_id d = delivery_id) ds))"

definition list_deliveries :: "outbox_file \<Rightarrow> delivery list res" where
  "list_deliveries f = read_outbox f"

definition list_for_connection :: "string \<Rightarrow> int \<Rightarrow> outbox_file \<Rightarrow> delivery list res" where
  "list_for_connection connection_id limit f =
     rbind (list_deliveries f) (\<lambda>ds.
       let mine = filter (\<lambda>d. dl_connection_id d = connection_id) ds
       in Inr (take (nat (max 1 limit)) (sort_desc dl_created_at mine)))"

section \<open>Claiming work\<close>

definition claim_key :: "delivery \<Rightarrow> int \<times> int" where
  "claim_key d = (as_int (pint_opt (dl_next_attempt_at d)), dl_created_at d)"

definition claimable :: "int \<Rightarrow> delivery \<Rightarrow> bool" where
  "claimable now d \<longleftrightarrow>
     (dl_status d \<in> {Pending, Retry} \<and> as_int (pint_opt (dl_next_attempt_at d)) \<le> now) \<or>
     (dl_status d = Delivering \<and> as_int (pint_opt (dl_lease_expires_at d)) \<le> now)"

definition claim_item :: "int \<Rightarrow> int \<Rightarrow> delivery \<Rightarrow> delivery" where
  "claim_item now lease_seconds d =
     d\<lparr> dl_status := Delivering, dl_attempt_count := dl_attempt_count d + 1,
        dl_last_attempt_at := Some now, dl_next_attempt_at := None,
        dl_lease_expires_at := Some (now + max 1 lease_seconds * 1000), dl_updated_at := now \<rparr>"

text \<open>
  The loop visits the items in due order but changes them in place, so it runs over the
  positions of the list.
\<close>

fun claim_loop :: "int \<Rightarrow> int \<Rightarrow> int \<Rightarrow> nat list \<Rightarrow> delivery list \<Rightarrow> delivery list
    \<Rightarrow> delivery list \<times> delivery list" where
  "claim_loop limit now lease [] ds claimed = (claimed, ds)"
| "claim_loop limit now lease (i # is) ds claimed =
     (if int (length claimed) \<ge> max 1 limit then (claimed, ds)
      else if \<not> claimable now (ds ! i) then claim_loop limit now lease is ds claimed
      else let item = claim_item now lease (ds ! i)
           in claim_loop limit now lease is (ds[i := item]) (claimed @ [item]))"

definition claim_order :: "delivery list \<Rightarrow> nat list" where
  "claim_order ds = sort_key (\<lambda>i. claim_key (ds ! i)) [0..<length ds]"

definition claim_due ::
    "bool \<Rightarrow> int \<Rightarrow> int \<Rightarrow> int \<Rightarrow> outbox_file \<Rightarrow> delivery list res \<times> outbox_file" where
  "claim_due disk_ok now limit lease_seconds f =
     (case read_outbox f of
        Inl e \<Rightarrow> (Inl e, f)
      | Inr ds \<Rightarrow>
          (case claim_loop limit now lease_seconds (claim_order ds) ds [] of
             (claimed, ds') \<Rightarrow>
               if claimed = [] then (Inr [], f)
               else (case replace_file disk_ok ds' f of
                       (Inl e, f') \<Rightarrow> (Inl e, f')
                     | (Inr _, f') \<Rightarrow> (Inr claimed, f'))))"

section \<open>Settling a delivery\<close>

definition update_delivery ::
    "bool \<Rightarrow> int \<Rightarrow> string \<Rightarrow> (delivery \<Rightarrow> delivery) \<Rightarrow> outbox_file \<Rightarrow> delivery res \<times> outbox_file" where
  "update_delivery disk_ok now delivery_id changes f =
     (case read_outbox f of
        Inl e \<Rightarrow> (Inl e, f)
      | Inr ds \<Rightarrow>
          (case List.find (\<lambda>d. dl_id d = delivery_id) ds of
             None \<Rightarrow> (Inl (KeyError delivery_id), f)
           | Some d \<Rightarrow>
               (let change = (\<lambda>d. (changes d)\<lparr> dl_updated_at := now \<rparr>)
                in case replace_file disk_ok (modify_first (\<lambda>d. dl_id d = delivery_id) change ds) f of
                     (Inl e, f') \<Rightarrow> (Inl e, f')
                   | (Inr _, f') \<Rightarrow> (Inr (change d), f'))))"

definition complete_changes :: "int \<Rightarrow> bool \<Rightarrow> delivery \<Rightarrow> delivery" where
  "complete_changes now duplicate_acknowledged d =
     d\<lparr> dl_status := Delivered, dl_delivered_at := Some now, dl_next_attempt_at := None,
        dl_lease_expires_at := None, dl_last_error := None,
        dl_duplicate_acknowledged := duplicate_acknowledged \<rparr>"

definition retry_delay :: "int \<Rightarrow> int \<Rightarrow> int" where
  "retry_delay backoff_seconds attempts =
     max 0 backoff_seconds * 2 ^ nat (max 0 (attempts - 1))"

text \<open>The choice made from the attempt count the store held when it was read.\<close>

definition retry_changes :: "int \<Rightarrow> string \<Rightarrow> int \<Rightarrow> int \<Rightarrow> int \<Rightarrow> delivery \<Rightarrow> delivery" where
  "retry_changes now error max_attempts backoff_seconds attempts d =
     (if attempts \<ge> max 1 max_attempts
      then d\<lparr> dl_status := Dead_Letter, dl_next_attempt_at := None, dl_lease_expires_at := None,
              dl_last_error := Some error \<rparr>
      else d\<lparr> dl_status := Retry,
              dl_next_attempt_at := Some (now + retry_delay backoff_seconds attempts * 1000),
              dl_lease_expires_at := None, dl_last_error := Some error \<rparr>)"

definition fail_changes :: "string \<Rightarrow> delivery \<Rightarrow> delivery" where
  "fail_changes error d =
     d\<lparr> dl_status := Failed, dl_next_attempt_at := None, dl_lease_expires_at := None,
        dl_last_error := Some error \<rparr>"

text \<open>
  The three settling operations are methods of the base class and call \<open>self.get\<close> and
  \<open>self._update\<close>; the PostgreSQL store inherits them. They take these two operations as
  arguments.
\<close>

type_synonym 'f get_op = "string \<Rightarrow> 'f \<Rightarrow> delivery option res"
type_synonym 'f update_op =
  "bool \<Rightarrow> int \<Rightarrow> string \<Rightarrow> (delivery \<Rightarrow> delivery) \<Rightarrow> 'f \<Rightarrow> delivery res \<times> 'f"

definition complete ::
    "'f update_op \<Rightarrow> bool \<Rightarrow> int \<Rightarrow> string \<Rightarrow> bool \<Rightarrow> 'f \<Rightarrow> delivery res \<times> 'f" where
  "complete update disk_ok now delivery_id duplicate_acknowledged f =
     update disk_ok now delivery_id (complete_changes now duplicate_acknowledged) f"

definition retry_or_dead_letter ::
    "'f get_op \<Rightarrow> 'f update_op \<Rightarrow> bool \<Rightarrow> int \<Rightarrow> string \<Rightarrow> string \<Rightarrow> int \<Rightarrow> int \<Rightarrow> 'f
     \<Rightarrow> delivery res \<times> 'f" where
  "retry_or_dead_letter get update disk_ok now delivery_id error max_attempts backoff_seconds f =
     (case get delivery_id f of
        Inl e \<Rightarrow> (Inl e, f)
      | Inr None \<Rightarrow> (Inl (KeyError delivery_id), f)
      | Inr (Some current) \<Rightarrow>
          update disk_ok now delivery_id
            (retry_changes now error max_attempts backoff_seconds (dl_attempt_count current)) f)"

definition fail_permanently ::
    "'f update_op \<Rightarrow> bool \<Rightarrow> int \<Rightarrow> string \<Rightarrow> string \<Rightarrow> 'f \<Rightarrow> delivery res \<times> 'f" where
  "fail_permanently update disk_ok now delivery_id error f =
     update disk_ok now delivery_id (fail_changes error) f"

section \<open>Replaying a group delivery\<close>

definition replay_changes :: "int \<Rightarrow> delivery \<Rightarrow> delivery" where
  "replay_changes now d =
     d\<lparr> dl_status := Pending, dl_next_attempt_at := Some now, dl_lease_expires_at := None,
        dl_last_error := None, dl_updated_at := now, dl_attempt_count := 0 \<rparr>"

definition replay_binding_matches :: "string \<Rightarrow> string \<Rightarrow> string \<Rightarrow> pdict \<Rightarrow> bool res" where
  "replay_binding_matches connection_id core_channel_id binding_id event =
     (if dget event ''contractVersion'' \<noteq> PStr ''canonical-v2'' then Inr False
      else let transport = py_or (dget event ''transport'') (PDict []) in
           rbind (vget transport ''connectionRef'') (\<lambda>c.
           rbind (vget transport ''coreChannelId'') (\<lambda>h.
           rbind (vget transport ''bindingId'') (\<lambda>b.
             Inr (c = PStr connection_id \<and> h = PStr core_channel_id \<and> b = PStr binding_id)))))"

definition replay_group ::
    "bool \<Rightarrow> int \<Rightarrow> string \<Rightarrow> string \<Rightarrow> string \<Rightarrow> string \<Rightarrow> outbox_file
     \<Rightarrow> (string \<times> string \<times> delivery_status) res \<times> outbox_file" where
  "replay_group disk_ok now delivery_id connection_id core_channel_id binding_id f =
     (case read_outbox f of
        Inl e \<Rightarrow> (Inl e, f)
      | Inr ds \<Rightarrow>
          (case List.find (\<lambda>d. dl_id d = delivery_id) ds of
             None \<Rightarrow> (Inl (ValueError ''Replay binding mismatch''), f)
           | Some item \<Rightarrow>
               (case replay_binding_matches connection_id core_channel_id binding_id (dl_event item) of
                  Inl e \<Rightarrow> (Inl e, f)
                | Inr False \<Rightarrow> (Inl (ValueError ''Replay binding mismatch''), f)
                | Inr True \<Rightarrow>
                    if dl_status item \<in> {Failed, Dead_Letter, Retry}
                    then (case replace_file disk_ok
                                 (modify_first (\<lambda>d. dl_id d = delivery_id) (replay_changes now) ds) f of
                            (Inl e, f') \<Rightarrow> (Inl e, f')
                          | (Inr _, f') \<Rightarrow> (Inr (dl_id item, dl_event_id item, Pending), f'))
                    else (Inr (dl_id item, dl_event_id item, dl_status item), f))))"

section \<open>Lemmas on claiming\<close>

definition due_items :: "int \<Rightarrow> delivery list \<Rightarrow> delivery list" where
  "due_items now ds = filter (claimable now) (sort_key claim_key ds)"

definition chosen :: "int \<Rightarrow> int \<Rightarrow> nat list \<Rightarrow> delivery list \<Rightarrow> nat \<Rightarrow> nat list" where
  "chosen limit now is ds k =
     take (nat (max 1 limit) - k) (filter (\<lambda>i. claimable now (ds ! i)) is)"

definition claim_at :: "int \<Rightarrow> int \<Rightarrow> nat set \<Rightarrow> delivery list \<Rightarrow> delivery list" where
  "claim_at now lease I ds =
     map (\<lambda>j. if j \<in> I then claim_item now lease (ds ! j) else ds ! j) [0..<length ds]"

lemma length_claim_at [simp]: "length (claim_at now lease I ds) = length ds"
  by (simp add: claim_at_def)

lemma nth_claim_at:
  "j < length ds \<Longrightarrow>
    claim_at now lease I ds ! j = (if j \<in> I then claim_item now lease (ds ! j) else ds ! j)"
  by (simp add: claim_at_def)

lemma claim_at_empty [simp]: "claim_at now lease {} ds = ds"
  by (simp add: claim_at_def map_nth)

lemma claim_at_update:
  assumes "i < length ds" and "i \<notin> I"
  shows "claim_at now lease I (ds[i := claim_item now lease (ds ! i)]) =
    claim_at now lease (insert i I) ds"
  using assms by (auto intro!: nth_equalityI simp: nth_claim_at nth_list_update)

lemma chosen_update:
  assumes "i \<notin> set is"
  shows "chosen limit now is (ds[i := x]) k = chosen limit now is ds k"
proof -
  have "filter (\<lambda>j. claimable now (ds[i := x] ! j)) is = filter (\<lambda>j. claimable now (ds ! j)) is"
    using assms by (intro filter_cong) (metis nth_list_update_neq)+
  then show ?thesis by (simp add: chosen_def)
qed

lemma claim_loop_spec:
  assumes "distinct is" and "set is \<subseteq> {..<length ds}"
  shows "claim_loop limit now lease is ds claimed =
    (claimed @ map (\<lambda>i. claim_item now lease (ds ! i)) (chosen limit now is ds (length claimed)),
     claim_at now lease (set (chosen limit now is ds (length claimed))) ds)"
  using assms
proof (induction "is" arbitrary: ds claimed)
  case Nil
  then show ?case by (simp add: chosen_def)
next
  case (Cons i "is")
  show ?case
  proof (cases "int (length claimed) \<ge> max 1 limit")
    case True
    then have "nat (max 1 limit) - length claimed = 0" by linarith
    with True show ?thesis by (simp add: chosen_def)
  next
    case room: False
    show ?thesis
    proof (cases "claimable now (ds ! i)")
      case False
      then have "chosen limit now (i # is) ds (length claimed) = chosen limit now is ds (length claimed)"
        by (simp add: chosen_def)
      moreover have "claim_loop limit now lease (i # is) ds claimed = claim_loop limit now lease is ds claimed"
        using room False by (simp only: claim_loop.simps if_False not_False_eq_True if_True)
      ultimately show ?thesis using Cons by simp
    next
      case True
      let ?ds = "ds[i := claim_item now lease (ds ! i)]"
      let ?rest = "chosen limit now is ds (Suc (length claimed))"
      have i: "i < length ds" "i \<notin> set is" using Cons.prems by auto
      have rest: "chosen limit now is ?ds (Suc (length claimed)) = ?rest"
        using i by (simp add: chosen_update)
      have sub: "set ?rest \<subseteq> set is"
        by (auto simp: chosen_def dest: in_set_takeD)
      have now_chosen: "chosen limit now (i # is) ds (length claimed) = i # ?rest"
      proof -
        obtain m where "nat (max 1 limit) - length claimed = Suc m"
          using room by (metis Suc_diff_Suc linorder_not_le nat_le_iff not_less_eq_eq order_le_less zless_nat_conj nat_less_iff of_nat_0_le_iff)
        then have "nat (max 1 limit) - Suc (length claimed) = m" by linarith
        then show ?thesis
          using True \<open>nat (max 1 limit) - length claimed = Suc m\<close> by (simp add: chosen_def)
      qed
      have same: "map (\<lambda>j. claim_item now lease (?ds ! j)) ?rest =
          map (\<lambda>j. claim_item now lease (ds ! j)) ?rest"
        using sub i by (auto simp: nth_list_update)
      have "claim_loop limit now lease (i # is) ds claimed =
          claim_loop limit now lease is ?ds (claimed @ [claim_item now lease (ds ! i)])"
        using room True by (simp only: claim_loop.simps Let_def if_False not_True_eq_False)
      also have "\<dots> =
          ((claimed @ [claim_item now lease (ds ! i)]) @ map (\<lambda>j. claim_item now lease (?ds ! j)) ?rest,
           claim_at now lease (set ?rest) ?ds)"
        using Cons by (simp add: rest)
      also have "\<dots> = (claimed @ map (\<lambda>j. claim_item now lease (ds ! j)) (i # ?rest),
           claim_at now lease (set (i # ?rest)) ds)"
        using same sub i by (subst claim_at_update) auto
      finally show ?thesis by (simp add: now_chosen)
    qed
  qed
qed

lemma set_claim_order [simp]: "set (claim_order ds) = {..<length ds}"
  by (auto simp: claim_order_def)

lemma distinct_claim_order [simp]: "distinct (claim_order ds)"
  by (simp add: claim_order_def)

lemma claim_order_items: "map ((!) ds) (claim_order ds) = sort_key claim_key ds"
  by (simp add: claim_order_def map_sort_key map_nth)

definition claimed_positions :: "int \<Rightarrow> int \<Rightarrow> delivery list \<Rightarrow> nat list" where
  "claimed_positions now limit ds = chosen limit now (claim_order ds) ds 0"

lemma claimed_positions_items:
  "map ((!) ds) (claimed_positions now limit ds) = take (nat (max 1 limit)) (due_items now ds)"
  by (simp add: claimed_positions_def chosen_def due_items_def take_map [symmetric] filter_map_nth
      claim_order_items)

lemma claimed_positions_subset:
  "i \<in> set (claimed_positions now limit ds) \<Longrightarrow> i < length ds \<and> claimable now (ds ! i)"
  by (auto simp: claimed_positions_def chosen_def dest!: in_set_takeD)

lemma claim_loop_result:
  "claim_loop limit now lease (claim_order ds) ds [] =
    (map (claim_item now lease) (take (nat (max 1 limit)) (due_items now ds)),
     claim_at now lease (set (claimed_positions now limit ds)) ds)"
  using claim_loop_spec [of "claim_order ds" ds limit now lease "[]"]
  by (simp add: claimed_positions_def [symmetric] claimed_positions_items [symmetric])

text \<open>The claim as one equation: the first due deliveries, and the file with them leased.\<close>

lemma claim_due_Holds:
  "claim_due True now limit lease (Holds ds) =
    (Inr (map (claim_item now lease) (take (nat (max 1 limit)) (due_items now ds))),
     Holds (claim_at now lease (set (claimed_positions now limit ds)) ds))"
proof (cases "take (nat (max 1 limit)) (due_items now ds) = []")
  case True
  then have "claimed_positions now limit ds = []"
    using claimed_positions_items [of ds now limit] by simp
  with True show ?thesis
    by (auto simp: claim_due_def read_outbox_def claim_loop_result)
next
  case False
  then show ?thesis
    by (auto simp: claim_due_def read_outbox_def claim_loop_result)
qed

lemma claim_at_members:
  "d' \<in> set (claim_at now lease (set (claimed_positions now limit ds)) ds) \<Longrightarrow>
    d' \<in> set ds \<or> (\<exists>d\<in>set ds. claimable now d \<and> d' = claim_item now lease d)"
  using claimed_positions_subset by (fastforce simp: claim_at_def)

lemma map_claim_at:
  assumes "\<And>d. g (claim_item now lease d) = g d"
  shows "map g (claim_at now lease I ds) = map g ds"
proof -
  have "map g (claim_at now lease I ds) = map (\<lambda>j. g (ds ! j)) [0..<length ds]"
    unfolding claim_at_def using assms by auto
  also have "\<dots> = map g (map ((!) ds) [0..<length ds])" by simp
  finally show ?thesis by (simp add: map_nth)
qed

section \<open>Well-formed stores\<close>

text \<open>
  What the fields of a delivery say of each other: work that waits has a due time, work in
  flight has a lease and was attempted, a confirmed delivery has its time, and a delivery that
  was refused has its reason.
\<close>

definition wf_delivery :: "delivery \<Rightarrow> bool" where
  "wf_delivery d \<longleftrightarrow>
     0 \<le> dl_attempt_count d \<and>
     (dl_next_attempt_at d \<noteq> None \<longleftrightarrow> dl_status d \<in> {Pending, Retry}) \<and>
     (dl_lease_expires_at d \<noteq> None \<longleftrightarrow> dl_status d = Delivering) \<and>
     (dl_status d = Delivering \<longrightarrow> 1 \<le> dl_attempt_count d) \<and>
     (dl_status d = Delivered \<longrightarrow> dl_delivered_at d \<noteq> None) \<and>
     (dl_status d \<in> {Retry, Failed, Dead_Letter} \<longrightarrow> dl_last_error d \<noteq> None) \<and>
     dl_event_id d = text_of (dget (dl_event d) ''eventId'') \<and> dl_event_id d \<noteq> []"

definition scope_of :: "delivery \<Rightarrow> string list option res" where
  "scope_of d = provider_message_scope (dl_event d)"

text \<open>
  The store invariant: no two deliveries share an id, an event id, or a provider message
  scope, and every delivery is well-formed.
\<close>

fun scopes_distinct :: "delivery list \<Rightarrow> bool" where
  "scopes_distinct [] = True"
| "scopes_distinct (d # ds) =
     ((\<forall>s. scope_of d = Inr (Some s) \<longrightarrow> (\<forall>d'\<in>set ds. scope_of d' \<noteq> Inr (Some s))) \<and>
      scopes_distinct ds)"

definition outbox_inv :: "delivery list \<Rightarrow> bool" where
  "outbox_inv ds \<longleftrightarrow>
     distinct (map dl_id ds) \<and> distinct (map dl_event_id ds) \<and> scopes_distinct ds \<and>
     list_all wf_delivery ds \<and> (\<forall>d\<in>set ds. is_ok (scope_of d))"

text \<open>Identity: what no operation changes in a delivery it keeps.\<close>

definition identity :: "delivery \<Rightarrow> string \<times> string \<times> pdict" where
  "identity d = (dl_id d, dl_event_id d, dl_event d)"

lemma identity_eq_iff:
  "identity d = identity d' \<longleftrightarrow>
    dl_id d = dl_id d' \<and> dl_event_id d = dl_event_id d' \<and> dl_event d = dl_event d'"
  by (simp add: identity_def)

lemma identity_changes [store_simps]:
  "identity (claim_item now lease d) = identity d"
  "identity (complete_changes now dup d) = identity d"
  "identity (retry_changes now e m b a d) = identity d"
  "identity (fail_changes e d) = identity d"
  "identity (replay_changes now d) = identity d"
  "identity (d\<lparr>dl_updated_at := now\<rparr>) = identity d"
  by (simp_all add: identity_def claim_item_def complete_changes_def retry_changes_def
      fail_changes_def replay_changes_def)

lemma wf_claim_item: "wf_delivery d \<Longrightarrow> wf_delivery (claim_item now lease d)"
  by (auto simp: wf_delivery_def claim_item_def)

lemma wf_complete_changes: "wf_delivery d \<Longrightarrow> wf_delivery (complete_changes now dup d)"
  by (auto simp: wf_delivery_def complete_changes_def)

lemma wf_retry_changes: "wf_delivery d \<Longrightarrow> wf_delivery (retry_changes now e m b a d)"
  by (auto simp: wf_delivery_def retry_changes_def)

lemma wf_fail_changes: "wf_delivery d \<Longrightarrow> wf_delivery (fail_changes e d)"
  by (auto simp: wf_delivery_def fail_changes_def)

lemma wf_replay_changes: "wf_delivery d \<Longrightarrow> wf_delivery (replay_changes now d)"
  by (auto simp: wf_delivery_def replay_changes_def)

lemma wf_updated_at [simp]: "wf_delivery (d\<lparr>dl_updated_at := now\<rparr>) = wf_delivery d"
  by (simp add: wf_delivery_def)

lemmas wf_changes = wf_claim_item wf_complete_changes wf_retry_changes wf_fail_changes
  wf_replay_changes

lemma wf_new_delivery:
  assumes "has_delivery_identity event" and "initial_error \<noteq> Some []"
  shows "wf_delivery (new_delivery uid now event ccid initial_error)"
  using assms
  by (auto simp: wf_delivery_def new_delivery_def has_delivery_identity_def Let_def
      split: option.splits)

lemma scopes_distinct_identity:
  "map identity ds = map identity ds' \<Longrightarrow> scopes_distinct ds = scopes_distinct ds'"
proof (induction ds arbitrary: ds')
  case Nil
  then show ?case by simp
next
  case (Cons d ds)
  then obtain d' ds2 where ds': "ds' = d' # ds2" and d: "identity d = identity d'"
    and rest: "map identity ds = map identity ds2" by (auto simp: Cons_eq_map_conv)
  have scopes: "(\<forall>x\<in>set ds. scope_of x \<noteq> r) = (\<forall>x\<in>set ds2. scope_of x \<noteq> r)" for r
  proof -
    have "map scope_of ds = map scope_of ds2"
      using rest by (rule map_factor) (simp add: scope_of_def identity_def)
    then have "scope_of ` set ds = scope_of ` set ds2" by (metis set_map)
    then show ?thesis by (metis image_iff)
  qed
  have "scope_of d = scope_of d'" using d by (simp add: scope_of_def identity_def)
  then show ?case
    using Cons.IH [OF rest] scopes ds' by simp
qed

text \<open>An operation that only changes deliveries in place keeps the invariant.\<close>

lemma outbox_inv_in_place:
  assumes "outbox_inv ds" and same: "map identity ds' = map identity ds"
    and "list_all wf_delivery ds'"
  shows "outbox_inv ds'"
proof -
  have "map dl_id ds' = map dl_id ds" "map dl_event_id ds' = map dl_event_id ds"
    "map scope_of ds' = map scope_of ds"
    using same by (auto elim!: map_factor simp: identity_def scope_of_def)
  then show ?thesis
    using assms scopes_distinct_identity [OF same]
    unfolding outbox_inv_def by (metis (no_types, lifting) imageE imageI set_map)
qed

lemma outbox_inv_claim:
  assumes "outbox_inv ds"
  shows "outbox_inv (claim_at now lease (set (claimed_positions now' limit ds)) ds)"
proof (rule outbox_inv_in_place [OF assms])
  show "map identity (claim_at now lease (set (claimed_positions now' limit ds)) ds) = map identity ds"
    by (rule map_claim_at) (simp add: store_simps)
  show "list_all wf_delivery (claim_at now lease (set (claimed_positions now' limit ds)) ds)"
    using assms by (auto simp: outbox_inv_def claim_at_def list_all_iff intro!: wf_claim_item)
qed

lemma outbox_inv_modify:
  assumes "outbox_inv ds" and "\<And>d. identity (f d) = identity d"
    and "\<And>d. wf_delivery d \<Longrightarrow> wf_delivery (f d)"
  shows "outbox_inv (modify_first p f ds)"
proof (rule outbox_inv_in_place [OF assms(1)])
  show "map identity (modify_first p f ds) = map identity ds"
    by (rule map_modify_first) (rule assms(2))
  show "list_all wf_delivery (modify_first p f ds)"
    using assms by (auto simp: outbox_inv_def intro!: list_all_modify_first)
qed

lemma scopes_distinct_filter: "scopes_distinct ds \<Longrightarrow> scopes_distinct (filter p ds)"
  by (induction ds) auto

lemma scopes_distinct_snoc:
  "scopes_distinct (ds @ [d]) \<longleftrightarrow>
    scopes_distinct ds \<and> (\<forall>s. scope_of d = Inr (Some s) \<longrightarrow> (\<forall>d'\<in>set ds. scope_of d' \<noteq> Inr (Some s)))"
  by (induction ds) auto

lemma outbox_inv_without_expired:
  "outbox_inv ds \<Longrightarrow> outbox_inv (without_expired r now ds)"
  by (auto simp: outbox_inv_def without_expired_def scopes_distinct_filter distinct_map_filter
      list_all_iff)

lemma find_existing_None:
  "find_existing e scope ds = Inr None \<Longrightarrow>
    (\<forall>d\<in>set ds. dl_event_id d \<noteq> e) \<and>
    (\<forall>s. scope = Some s \<longrightarrow> (\<forall>d\<in>set ds. scope_of d \<noteq> Inr (Some s)))"
  by (induction ds) (auto simp: scope_of_def rbind_eqs split: if_splits)

lemma find_existing_Some:
  "find_existing e scope ds = Inr (Some d) \<Longrightarrow>
    d \<in> set ds \<and> (dl_event_id d = e \<or> (\<exists>s. scope = Some s \<and> scope_of d = Inr (Some s)))"
  by (induction ds) (auto simp: scope_of_def rbind_eqs split: if_splits)

lemma find_existing_ok:
  "\<forall>d\<in>set ds. is_ok (scope_of d) \<Longrightarrow> \<exists>r. find_existing e scope ds = Inr r"
  by (induction ds) (auto simp: scope_of_def is_ok_iff)

lemma find_existing_hit:
  assumes "\<forall>d\<in>set ds. is_ok (scope_of d)" and "d \<in> set ds" and "dl_event_id d = e"
  shows "\<exists>d'. find_existing e scope ds = Inr (Some d')"
  using assms by (induction ds) (auto simp: scope_of_def is_ok_iff)

section \<open>Lemmas on whole operations\<close>

lemma enqueue_Inl: "enqueue r ok now uid ev cc err f = (Inl e, f') \<Longrightarrow> f' = f"
  by (auto simp: enqueue_def Let_def dest: replace_file_Inl
      split: if_splits sum.splits option.splits prod.splits)

lemma claim_due_Inl: "claim_due ok now limit lease f = (Inl e, f') \<Longrightarrow> f' = f"
  by (auto simp: claim_due_def dest: replace_file_Inl
      split: if_splits sum.splits option.splits prod.splits)

lemma update_delivery_Inl: "update_delivery ok now i c f = (Inl e, f') \<Longrightarrow> f' = f"
  by (auto simp: update_delivery_def Let_def dest: replace_file_Inl
      split: if_splits sum.splits option.splits prod.splits)

lemma replay_group_Inl: "replay_group ok now i c h b f = (Inl e, f') \<Longrightarrow> f' = f"
  by (auto simp: replay_group_def dest: replace_file_Inl
      split: if_splits sum.splits option.splits prod.splits bool.splits)

text \<open>What a successful write of each operation leaves in the file.\<close>

lemma enqueue_created:
  assumes "enqueue r ok now uid ev cc err f = (Inr (d, True), f')"
  shows "\<exists>ds scope. read_outbox f = Inr ds \<and> has_delivery_identity ev \<and>
    provider_message_scope ev = Inr scope \<and> d = new_delivery uid now ev cc err \<and>
    find_existing (dl_event_id d) scope ds = Inr None \<and>
    f' = Holds (without_expired r now ds @ [d])"
  using assms
  by (auto simp: enqueue_def Let_def replace_file_def
      split: if_splits sum.splits option.splits prod.splits)

lemma enqueue_known:
  assumes "enqueue r ok now uid ev cc err f = (Inr (d, False), f')"
  shows "f' = f \<and> (\<exists>ds. read_outbox f = Inr ds \<and> d \<in> set ds)"
  using assms find_existing_Some
  by (fastforce simp: enqueue_def Let_def replace_file_def
      split: if_splits sum.splits option.splits prod.splits)

lemma update_delivery_Inr:
  assumes "update_delivery ok now i c f = (Inr d, f')"
  obtains ds d0 where "read_outbox f = Inr ds" and "List.find (\<lambda>d. dl_id d = i) ds = Some d0"
    and "d = (c d0)\<lparr>dl_updated_at := now\<rparr>"
    and "f' = Holds (modify_first (\<lambda>d. dl_id d = i) (\<lambda>d. (c d)\<lparr>dl_updated_at := now\<rparr>) ds)"
  using assms
  by (auto simp: update_delivery_def Let_def replace_file_def
      split: if_splits sum.splits option.splits prod.splits)

lemma update_delivery_Holds:
  assumes "List.find (\<lambda>d. dl_id d = i) ds = Some d0"
  shows "update_delivery True now i c (Holds ds) =
    (Inr ((c d0)\<lparr>dl_updated_at := now\<rparr>),
     Holds (modify_first (\<lambda>d. dl_id d = i) (\<lambda>d. (c d)\<lparr>dl_updated_at := now\<rparr>) ds))"
  using assms by (simp add: update_delivery_def read_outbox_def Let_def)

lemma dl_id_identity: "identity d = identity d' \<Longrightarrow> dl_id d = dl_id d'"
  by (simp add: identity_def)

lemma get_after_update:
  assumes "update_delivery ok now i c f = (Inr d, f')" and "\<And>d. identity (c d) = identity d"
  shows "get_delivery i f' = Inr (Some d)"
proof -
  obtain ds d0 where *: "read_outbox f = Inr ds" "List.find (\<lambda>d. dl_id d = i) ds = Some d0"
    "d = (c d0)\<lparr>dl_updated_at := now\<rparr>"
    "f' = Holds (modify_first (\<lambda>d. dl_id d = i) (\<lambda>d. (c d)\<lparr>dl_updated_at := now\<rparr>) ds)"
    using assms(1) by (rule update_delivery_Inr)
  have "dl_id ((c d0)\<lparr>dl_updated_at := now\<rparr>) = i"
    using *(2) dl_id_identity [OF assms(2)] by (auto simp: find_Some_iff)
  then show ?thesis
    using find_modify_first_same [OF *(2), of "\<lambda>d. (c d)\<lparr>dl_updated_at := now\<rparr>"] *(3,4)
    by (simp add: get_delivery_def read_outbox_def)
qed

lemma get_other_after_update:
  assumes "update_delivery ok now i c f = (Inr d, f')" and "\<And>d. identity (c d) = identity d"
    and "j \<noteq> i"
  shows "get_delivery j f' = get_delivery j f"
proof -
  obtain ds d0 where *: "read_outbox f = Inr ds"
    "f' = Holds (modify_first (\<lambda>d. dl_id d = i) (\<lambda>d. (c d)\<lparr>dl_updated_at := now\<rparr>) ds)"
    using assms(1) by (rule update_delivery_Inr)
  have "dl_id (c d) = dl_id d" for d
    by (rule dl_id_identity) (rule assms(2))
  then have "List.find (\<lambda>d. dl_id d = j)
      (modify_first (\<lambda>d. dl_id d = i) (\<lambda>d. (c d)\<lparr>dl_updated_at := now\<rparr>) ds) =
    List.find (\<lambda>d. dl_id d = j) ds"
    using assms(3) by (intro find_modify_first_other) auto
  then show ?thesis
    using * by (simp add: get_delivery_def read_outbox_def)
qed

section \<open>The interface the dispatcher relies on\<close>

locale delivery_store =
  fixes get :: "'f get_op" and update :: "'f update_op"
  assumes update_found: "get i f = Inr (Some d) \<Longrightarrow>
      \<exists>f'. update True now i c f = (Inr ((c d)\<lparr>dl_updated_at := now\<rparr>), f')"
    and updated_was: "update ok now i c f = (Inr d, f') \<Longrightarrow>
      \<exists>d0. get i f = Inr (Some d0) \<and> d = (c d0)\<lparr>dl_updated_at := now\<rparr>"
    and get_updated: "update ok now i c f = (Inr d, f') \<Longrightarrow>
      (\<And>d. identity (c d) = identity d) \<Longrightarrow> get i f' = Inr (Some d)"
    and get_other: "update ok now i c f = (Inr d, f') \<Longrightarrow>
      (\<And>d. identity (c d) = identity d) \<Longrightarrow> j \<noteq> i \<Longrightarrow> get j f' = get j f"
    and failed_update: "update ok now i c f = (Inl e, f') \<Longrightarrow> get j f' = get j f"
begin

lemma complete_settles:
  assumes "get i f = Inr (Some d)"
  shows "\<exists>f' d'. complete update True now i dup f = (Inr d', f') \<and> get i f' = Inr (Some d') \<and>
    dl_status d' = Delivered \<and> dl_delivered_at d' = Some now \<and>
    dl_duplicate_acknowledged d' = dup \<and> identity d' = identity d"
proof -
  let ?d = "(complete_changes now dup d)\<lparr>dl_updated_at := now\<rparr>"
  obtain f' where f': "update True now i (complete_changes now dup) f = (Inr ?d, f')"
    using update_found [OF assms] by blast
  have "get i f' = Inr (Some ?d)" by (rule get_updated [OF f']) (simp add: store_simps)
  then show ?thesis
    using f' by (auto simp: complete_def store_simps) (auto simp: complete_changes_def)
qed

lemma retry_settles:
  assumes "get i f = Inr (Some d)"
  shows "\<exists>f' d'. retry_or_dead_letter get update True now i er m b f = (Inr d', f') \<and>
    get i f' = Inr (Some d') \<and> identity d' = identity d \<and>
    dl_attempt_count d' = dl_attempt_count d \<and> dl_last_error d' = Some er \<and>
    (if dl_attempt_count d \<ge> max 1 m then dl_status d' = Dead_Letter \<and> dl_next_attempt_at d' = None
     else dl_status d' = Retry \<and>
       dl_next_attempt_at d' = Some (now + retry_delay b (dl_attempt_count d) * 1000))"
proof -
  let ?c = "retry_changes now er m b (dl_attempt_count d)"
  let ?d = "(?c d)\<lparr>dl_updated_at := now\<rparr>"
  obtain f' where f': "update True now i ?c f = (Inr ?d, f')"
    using update_found [OF assms] by blast
  have "get i f' = Inr (Some ?d)" by (rule get_updated [OF f']) (simp add: store_simps)
  then show ?thesis
    using f' assms
    by (auto simp: retry_or_dead_letter_def store_simps) (auto simp: retry_changes_def)
qed

lemma fail_settles:
  assumes "get i f = Inr (Some d)"
  shows "\<exists>f' d'. fail_permanently update True now i er f = (Inr d', f') \<and>
    get i f' = Inr (Some d') \<and> dl_status d' = Failed \<and> dl_last_error d' = Some er \<and>
    identity d' = identity d"
proof -
  let ?d = "(fail_changes er d)\<lparr>dl_updated_at := now\<rparr>"
  obtain f' where f': "update True now i (fail_changes er) f = (Inr ?d, f')"
    using update_found [OF assms] by blast
  have "get i f' = Inr (Some ?d)" by (rule get_updated [OF f']) (simp add: store_simps)
  then show ?thesis
    using f' by (auto simp: fail_permanently_def store_simps) (auto simp: fail_changes_def)
qed

lemma settling_failed:
  "complete update ok now i dup f = (Inl e, f') \<Longrightarrow> get j f' = get j f"
  "retry_or_dead_letter get update ok now i er m b f = (Inl e, f') \<Longrightarrow> get j f' = get j f"
  "fail_permanently update ok now i er f = (Inl e, f') \<Longrightarrow> get j f' = get j f"
  by (auto simp: complete_def retry_or_dead_letter_def fail_permanently_def
      dest: failed_update split: sum.splits option.splits)

lemma settling_other:
  assumes "j \<noteq> i"
  shows "complete update ok now i dup f = (Inr d, f') \<Longrightarrow> get j f' = get j f"
    and "retry_or_dead_letter get update ok now i er m b f = (Inr d, f') \<Longrightarrow> get j f' = get j f"
    and "fail_permanently update ok now i er f = (Inr d, f') \<Longrightarrow> get j f' = get j f"
  using assms
  by (auto simp: complete_def retry_or_dead_letter_def fail_permanently_def store_simps
      elim!: get_other split: sum.splits option.splits)

end

interpretation json_store: delivery_store get_delivery update_delivery
proof
  fix i f d now c
  assume "get_delivery i f = Inr (Some d)"
  then obtain ds where "read_outbox f = Inr ds" "List.find (\<lambda>d. dl_id d = i) ds = Some d"
    by (auto simp: get_delivery_def rbind_eqs)
  then show "\<exists>f'. update_delivery True now i c f = (Inr ((c d)\<lparr>dl_updated_at := now\<rparr>), f')"
    by (simp add: update_delivery_def Let_def)
next
  fix ok now i c f d f'
  assume "update_delivery ok now i c f = (Inr d, f')"
  then show "\<exists>d0. get_delivery i f = Inr (Some d0) \<and> d = (c d0)\<lparr>dl_updated_at := now\<rparr>"
    by (rule update_delivery_Inr) (simp add: get_delivery_def)
next
  fix ok now i c f e f' j
  assume "update_delivery ok now i c f = (Inl e, f')"
  then have "f' = f" by (rule update_delivery_Inl)
  then show "get_delivery j f' = get_delivery j f" by simp
qed (fact get_after_update get_other_after_update)+

section \<open>The store as a state machine\<close>

text \<open>
  Every call that takes the lock is one operation; any interleaving of request handlers and
  delivery workers, late answers of workers whose lease has expired included, is a sequence of
  operations. \<open>retry_or_dead_letter\<close> reads the attempt count under one lock and writes
  under a second one, so its write is an operation with whatever count was read.
\<close>

datatype outbox_op =
    Op_Enqueue string pdict "string option" "string option"
  | Op_Claim int int
  | Op_Complete string bool
  | Op_Retry string string int int int
  | Op_Fail string string
  | Op_Replay string string string string

fun run_op :: "int \<Rightarrow> bool \<Rightarrow> int \<Rightarrow> outbox_op \<Rightarrow> outbox_file \<Rightarrow> unit res \<times> outbox_file" where
  "run_op r ok now (Op_Enqueue uid event ccid err) f =
     (case enqueue r ok now uid event ccid err f of (Inl e, f') \<Rightarrow> (Inl e, f') | (Inr _, f') \<Rightarrow> (Inr (), f'))"
| "run_op r ok now (Op_Claim limit lease) f =
     (case claim_due ok now limit lease f of (Inl e, f') \<Rightarrow> (Inl e, f') | (Inr _, f') \<Rightarrow> (Inr (), f'))"
| "run_op r ok now (Op_Complete i dup) f =
     (case complete update_delivery ok now i dup f of (Inl e, f') \<Rightarrow> (Inl e, f') | (Inr _, f') \<Rightarrow> (Inr (), f'))"
| "run_op r ok now (Op_Retry i er m b attempts) f =
     (case update_delivery ok now i (retry_changes now er m b attempts) f of
        (Inl e, f') \<Rightarrow> (Inl e, f') | (Inr _, f') \<Rightarrow> (Inr (), f'))"
| "run_op r ok now (Op_Fail i er) f =
     (case fail_permanently update_delivery ok now i er f of (Inl e, f') \<Rightarrow> (Inl e, f') | (Inr _, f') \<Rightarrow> (Inr (), f'))"
| "run_op r ok now (Op_Replay i c h b) f =
     (case replay_group ok now i c h b f of (Inl e, f') \<Rightarrow> (Inl e, f') | (Inr _, f') \<Rightarrow> (Inr (), f'))"

text \<open>\<open>uuid4\<close> never repeats an id of the store; the callers pass no empty initial error.\<close>

fun admissible :: "outbox_op \<Rightarrow> outbox_file \<Rightarrow> bool" where
  "admissible (Op_Enqueue uid event ccid err) f =
     (err \<noteq> Some [] \<and>
      (case read_outbox f of Inl _ \<Rightarrow> True | Inr ds \<Rightarrow> ''core_inbound_'' @ uid \<notin> dl_id ` set ds))"
| "admissible _ f = True"

inductive outbox_reach :: "int \<Rightarrow> outbox_file \<Rightarrow> bool" for r where
  start: "outbox_reach r Absent"
| step: "outbox_reach r f \<Longrightarrow> admissible op f \<Longrightarrow> run_op r ok now op f = (res, f') \<Longrightarrow> outbox_reach r f'"

lemma claim_due_Inr:
  assumes "claim_due ok now limit lease f = (Inr cs, f')"
  shows "\<exists>ds. read_outbox f = Inr ds \<and>
    cs = map (claim_item now lease) (take (nat (max 1 limit)) (due_items now ds)) \<and>
    (f' = f \<or> f' = Holds (claim_at now lease (set (claimed_positions now limit ds)) ds))"
  using assms
  by (auto simp: claim_due_def claim_loop_result replace_file_def Let_def
      split: if_splits sum.splits prod.splits)

lemma run_op_Inl: "run_op r ok now op f = (Inl e, f') \<Longrightarrow> f' = f"
  by (cases op)
    (auto simp: complete_def fail_permanently_def split: prod.splits sum.splits
      dest: enqueue_Inl claim_due_Inl update_delivery_Inl replay_group_Inl)

text \<open>
  Each operation that changes the file appends one delivery after dropping expired ones, or
  changes deliveries in place and keeps their identity and well-formedness.
\<close>

definition changed_in_place :: "delivery list \<Rightarrow> delivery list \<Rightarrow> bool" where
  "changed_in_place ds ds' \<longleftrightarrow>
     map identity ds' = map identity ds \<and> (list_all wf_delivery ds \<longrightarrow> list_all wf_delivery ds')"

lemma changed_in_place_modify:
  assumes "\<And>d. identity (c d) = identity d" and "\<And>d. wf_delivery d \<Longrightarrow> wf_delivery (c d)"
  shows "changed_in_place ds (modify_first p c ds)"
  using assms
  by (auto simp: changed_in_place_def intro!: map_modify_first list_all_modify_first)

lemma changed_in_place_claim:
  "changed_in_place ds (claim_at now lease (set (claimed_positions now' limit ds)) ds)"
  unfolding changed_in_place_def
proof
  show "map identity (claim_at now lease (set (claimed_positions now' limit ds)) ds) = map identity ds"
    by (rule map_claim_at) (simp add: store_simps)
qed (auto simp: claim_at_def list_all_iff intro!: wf_claim_item)

lemma changed_in_place_update:
  assumes "update_delivery ok now i c f = (Inr d, f')" and "\<And>d. identity (c d) = identity d"
    and "\<And>d. wf_delivery d \<Longrightarrow> wf_delivery (c d)"
  shows "\<exists>ds ds'. read_outbox f = Inr ds \<and> f' = Holds ds' \<and> changed_in_place ds ds'"
  using assms(1)
  by (rule update_delivery_Inr)
    (use assms(2,3) in \<open>auto simp: store_simps intro!: changed_in_place_modify\<close>)

lemma replay_group_Inr:
  assumes "replay_group ok now i c h b f = (Inr (i', e, st), f')"
  shows "\<exists>ds d. read_outbox f = Inr ds \<and> List.find (\<lambda>d. dl_id d = i) ds = Some d \<and>
    replay_binding_matches c h b (dl_event d) = Inr True \<and> i' = dl_id d \<and> e = dl_event_id d \<and>
    (if dl_status d \<in> {Failed, Dead_Letter, Retry}
     then st = Pending \<and> f' = Holds (modify_first (\<lambda>d. dl_id d = i) (replay_changes now) ds)
     else st = dl_status d \<and> f' = f)"
  using assms
  by (auto simp: replay_group_def replace_file_def
      split: if_splits sum.splits option.splits bool.splits prod.splits)

lemma run_op_enqueued:
  assumes "enqueue r ok now uid ev cc err f = (Inr (d, c), f')" and "read_outbox f = Inr ds"
  shows "f' = f \<or> (d = new_delivery uid now ev cc err \<and> has_delivery_identity ev \<and>
    (\<exists>scope. provider_message_scope ev = Inr scope \<and>
       find_existing (dl_event_id d) scope ds = Inr None) \<and>
    f' = Holds (without_expired r now ds @ [d]))"
proof (cases c)
  case True
  with assms(1) have "enqueue r ok now uid ev cc err f = (Inr (d, True), f')" by simp
  from enqueue_created [OF this] show ?thesis using assms(2) by auto
next
  case False
  with assms(1) have "enqueue r ok now uid ev cc err f = (Inr (d, False), f')" by simp
  from enqueue_known [OF this] show ?thesis by simp
qed

lemma run_op_Inr:
  assumes "run_op r ok now op f = (Inr u, f')" and reads: "read_outbox f = Inr ds"
  shows "f' = f \<or>
    (\<exists>ds'. f' = Holds ds' \<and> changed_in_place ds ds') \<or>
    (\<exists>uid ev cc err d scope. op = Op_Enqueue uid ev cc err \<and>
       d = new_delivery uid now ev cc err \<and> has_delivery_identity ev \<and>
       provider_message_scope ev = Inr scope \<and> find_existing (dl_event_id d) scope ds = Inr None \<and>
       f' = Holds (without_expired r now ds @ [d]))"
proof (cases op)
  case (Op_Enqueue uid ev cc err)
  then obtain d c where "enqueue r ok now uid ev cc err f = (Inr (d, c), f')"
    using assms(1) by (auto split: prod.splits sum.splits)
  from run_op_enqueued [OF this reads] show ?thesis using Op_Enqueue by auto
next
  case (Op_Claim limit lease)
  then obtain cs where "claim_due ok now limit lease f = (Inr cs, f')"
    using assms(1) by (auto split: prod.splits sum.splits)
  from claim_due_Inr [OF this] show ?thesis using changed_in_place_claim reads by auto
next
  case (Op_Complete i dup)
  then obtain d where "update_delivery ok now i (complete_changes now dup) f = (Inr d, f')"
    using assms(1) by (auto simp: complete_def split: prod.splits sum.splits)
  from changed_in_place_update [OF this identity_changes(2) wf_complete_changes]
  show ?thesis using reads by auto
next
  case (Op_Retry i er m b a)
  then obtain d where "update_delivery ok now i (retry_changes now er m b a) f = (Inr d, f')"
    using assms(1) by (auto split: prod.splits sum.splits)
  from changed_in_place_update [OF this identity_changes(3) wf_retry_changes]
  show ?thesis using reads by auto
next
  case (Op_Fail i er)
  then obtain d where "update_delivery ok now i (fail_changes er) f = (Inr d, f')"
    using assms(1) by (auto simp: fail_permanently_def split: prod.splits sum.splits)
  from changed_in_place_update [OF this identity_changes(4) wf_fail_changes]
  show ?thesis using reads by auto
next
  case (Op_Replay i c h b)
  then obtain i' e st where "replay_group ok now i c h b f = (Inr (i', e, st), f')"
    using assms(1) by (auto split: prod.splits sum.splits)
  from replay_group_Inr [OF this] reads
  have "f' = f \<or> f' = Holds (modify_first (\<lambda>d. dl_id d = i) (replay_changes now) ds)"
    by (auto split: if_splits)
  moreover have "changed_in_place ds (modify_first (\<lambda>d. dl_id d = i) (replay_changes now) ds)"
    by (rule changed_in_place_modify [OF identity_changes(5) wf_replay_changes])
  ultimately show ?thesis by blast
qed

lemma changed_in_place_inv: "changed_in_place ds ds' \<Longrightarrow> outbox_inv ds \<Longrightarrow> outbox_inv ds'"
  by (rule outbox_inv_in_place) (simp_all add: changed_in_place_def outbox_inv_def)

lemma outbox_inv_accept:
  assumes "outbox_inv ds" and "has_delivery_identity ev" and "provider_message_scope ev = Inr scope"
    and "find_existing (dl_event_id d) scope ds = Inr None" and "d = new_delivery uid now ev cc err"
    and "''core_inbound_'' @ uid \<notin> dl_id ` set ds" and "err \<noteq> Some []"
  shows "outbox_inv (without_expired r now ds @ [d])"
proof -
  have sub: "set (without_expired r now ds) \<subseteq> set ds" by (auto simp: without_expired_def)
  have d: "dl_id d = ''core_inbound_'' @ uid" "dl_event d = ev" "scope_of d = Inr scope"
    using assms by (simp_all add: new_delivery_def Let_def scope_of_def)
  have "wf_delivery d" using assms by (simp add: wf_new_delivery)
  moreover have "outbox_inv (without_expired r now ds)"
    using assms(1) by (rule outbox_inv_without_expired)
  ultimately show ?thesis
    using d sub assms(6) find_existing_None [OF assms(4)]
    by (auto simp: outbox_inv_def scopes_distinct_snoc subset_iff image_iff)
qed

lemma run_op_inv:
  assumes run: "run_op r ok now op f = (res, f')" and adm: "admissible op f"
    and reads: "read_outbox f = Inr ds" and inv: "outbox_inv ds"
  shows "\<exists>ds'. read_outbox f' = Inr ds' \<and> outbox_inv ds'"
proof (cases res)
  case (Inl e)
  with run run_op_Inl have "f' = f" by blast
  then show ?thesis using reads inv by simp
next
  case (Inr u)
  with run have "run_op r ok now op f = (Inr u, f')" by simp
  from run_op_Inr [OF this reads] show ?thesis
  proof (elim disjE exE conjE)
    assume "f' = f"
    then show ?thesis using reads inv by simp
  next
    fix ds' assume "f' = Holds ds'" "changed_in_place ds ds'"
    then show ?thesis using changed_in_place_inv inv by (simp add: read_outbox_def)
  next
    fix uid ev cc err d scope
    assume e: "op = Op_Enqueue uid ev cc err" "d = new_delivery uid now ev cc err"
      "has_delivery_identity ev" "provider_message_scope ev = Inr scope"
      "find_existing (dl_event_id d) scope ds = Inr None" "f' = Holds (without_expired r now ds @ [d])"
    have "''core_inbound_'' @ uid \<notin> dl_id ` set ds" "err \<noteq> Some []"
      using adm e(1) reads by simp_all
    from outbox_inv_accept [OF inv e(3-5,2) this] show ?thesis
      using e(6) by (simp add: read_outbox_def)
  qed
qed

lemma outbox_reach_inv: "outbox_reach r f \<Longrightarrow> \<exists>ds. read_outbox f = Inr ds \<and> outbox_inv ds"
proof (induction rule: outbox_reach.induct)
  case start
  show ?case by (simp add: read_outbox_def outbox_inv_def)
next
  case (step f op ok now res f')
  then obtain ds where "read_outbox f = Inr ds" "outbox_inv ds" by blast
  from run_op_inv [OF step.hyps(3,2) this] show ?case .
qed

lemma run_op_keeps:
  assumes run: "run_op r ok now op f = (res, f')" and reads: "read_outbox f = Inr ds"
    and d: "d \<in> set ds" and keep: "\<not> expired r now d"
  shows "\<exists>ds'. read_outbox f' = Inr ds' \<and> identity d \<in> identity ` set ds'"
proof (cases res)
  case (Inl e)
  with run run_op_Inl have "f' = f" by blast
  then show ?thesis using reads d by simp
next
  case (Inr u)
  with run have "run_op r ok now op f = (Inr u, f')" by simp
  from run_op_Inr [OF this reads] show ?thesis
  proof (elim disjE exE conjE)
    assume "f' = f"
    then show ?thesis using reads d by simp
  next
    fix ds' assume f': "f' = Holds ds'" "changed_in_place ds ds'"
    then have "identity ` set ds' = identity ` set ds"
      unfolding changed_in_place_def by (metis set_map)
    with f' d show ?thesis by (auto simp: read_outbox_def)
  next
    fix d0 :: delivery assume "f' = Holds (without_expired r now ds @ [d0])"
    then show ?thesis using d keep by (auto simp: read_outbox_def without_expired_def)
  qed
qed

end
