(* ===== verification/Core_Outbox_Spec.thy ===== *)
theory Core_Outbox_Spec
  imports Core_Outbox
begin

text \<open>
  What the canonical outbox promises: every event is stored once and kept until it is confirmed
  and past retention, a failed call changes nothing, due work is claimed in order and by one
  worker per lease, and a delivery that keeps failing ends as a dead letter after the
  configured number of attempts.
\<close>

section \<open>A sample store\<close>

definition sample_event :: "string \<Rightarrow> string \<Rightarrow> pdict" where
  "sample_event eid mid =
    [(''eventId'', PStr eid),
     (''transport'', PDict [(''provider'', PStr ''meta''), (''channelType'', PStr ''instagram''),
        (''providerAccountRef'', PStr ''17''), (''connectionRef'', PStr ''c1'')]),
     (''message'', PDict [(''providerMessageId'', PStr mid)])]"

definition sample_delivery :: "string \<Rightarrow> string \<Rightarrow> string \<Rightarrow> int \<Rightarrow> delivery" where
  "sample_delivery uid eid mid now =
     new_delivery uid now (sample_event eid mid) (Some ''ch'') None"

lemmas sample_defs = sample_event_def sample_delivery_def new_delivery_def or_none_def Let_def
  dget_def

lemma sample_identity: "has_delivery_identity (sample_event ''e1'' ''m1'')"
  by code_simp

lemma sample_scope:
  "provider_message_scope (sample_event ''e1'' ''m1'') =
    Inr (Some [''meta'', ''instagram'', ''17'', ''m1''])"
  by code_simp

lemma sample_enqueue:
  "enqueue 7 True 1000 ''u1'' (sample_event ''e1'' ''m1'') (Some ''ch'') None Absent =
    (Inr (sample_delivery ''u1'' ''e1'' ''m1'' 1000, True),
     Holds [sample_delivery ''u1'' ''e1'' ''m1'' 1000])"
  using sample_identity sample_scope
  by (simp add: enqueue_def read_outbox_def without_expired_def sample_delivery_def Let_def)

lemma sample_reach: "outbox_reach 7 (Holds [sample_delivery ''u1'' ''e1'' ''m1'' 1000])"
proof (rule outbox_reach.step [OF outbox_reach.start])
  show "admissible (Op_Enqueue ''u1'' (sample_event ''e1'' ''m1'') (Some ''ch'') None) Absent"
    by (simp add: read_outbox_def)
  show "run_op 7 True 1000 (Op_Enqueue ''u1'' (sample_event ''e1'' ''m1'') (Some ''ch'') None) Absent =
      (Inr (), Holds [sample_delivery ''u1'' ''e1'' ''m1'' 1000])"
    by (simp add: sample_enqueue)
qed

section \<open>Each event is stored once\<close>

text \<open>
  C1: in every state the store can reach, under any interleaving of request handlers and
  workers, no two deliveries share an id, an event id or a provider message scope, and every
  delivery is well-formed: waiting work has a due time, work in flight has a lease and at least
  one attempt, confirmed work has its time, refused work has its reason.
\<close>

theorem outbox_events_unique:
  assumes "outbox_reach r f"
  shows "\<exists>ds. read_outbox f = Inr ds \<and> distinct (map dl_id ds) \<and> distinct (map dl_event_id ds) \<and>
    scopes_distinct ds \<and> list_all wf_delivery ds"
proof -
  obtain ds where "read_outbox f = Inr ds" "outbox_inv ds"
    using outbox_reach_inv [OF assms] by blast
  then show ?thesis unfolding outbox_inv_def by blast
qed

theorem outbox_events_unique_witness:
  "\<exists>ds. read_outbox (Holds [sample_delivery ''u1'' ''e1'' ''m1'' 1000]) = Inr ds \<and>
    distinct (map dl_id ds) \<and> distinct (map dl_event_id ds) \<and> scopes_distinct ds \<and>
    list_all wf_delivery ds"
  by (rule outbox_events_unique [OF sample_reach])

lemma find_existing_snoc:
  "find_existing e s ds = Inr None \<Longrightarrow> find_existing e s (ds @ [d]) = find_existing e s [d]"
proof (induction ds)
  case (Cons x ds)
  then show ?case
    by (cases "provider_message_scope (dl_event x)"; cases s)
      (simp_all del: find_existing.simps add: find_existing.simps(2) [of _ _ x] split: if_split_asm)
qed simp

lemma find_existing_filter:
  "find_existing e s ds = Inr None \<Longrightarrow> find_existing e s (filter p ds) = Inr None"
proof (induction ds)
  case (Cons x ds)
  then show ?case
    by (cases "provider_message_scope (dl_event x)"; cases s) (simp_all split: if_split_asm)
qed simp

lemma enqueue_again:
  assumes "enqueue r ok now uid event ccid err f = (Inr (d, created), f1)"
  shows "enqueue r' ok' now' uid' event ccid' err' f1 = (Inr (d, False), f1)"
proof (cases created)
  case True
  with assms have "enqueue r ok now uid event ccid err f = (Inr (d, True), f1)" by simp
  from enqueue_created [OF this] obtain ds scope where *: "has_delivery_identity event"
    "provider_message_scope event = Inr scope" "d = new_delivery uid now event ccid err"
    "find_existing (dl_event_id d) scope ds = Inr None"
    "f1 = Holds (without_expired r now ds @ [d])" by blast
  have e: "dl_event_id (new_delivery uid' now' event ccid' err') = dl_event_id d"
    by (simp add: *(3) new_delivery_def Let_def)
  have "find_existing (dl_event_id d) scope (without_expired r now ds @ [d]) = Inr (Some d)"
    using find_existing_snoc [OF find_existing_filter [OF *(4)]] by (simp add: without_expired_def)
  then show ?thesis
    using * e by (simp add: enqueue_def read_outbox_def Let_def)
next
  case False
  then have a: "enqueue r ok now uid event ccid err f = (Inr (d, False), f1)" using assms by simp
  then have f1: "f1 = f" using enqueue_known by blast
  have e: "dl_event_id (new_delivery u n event c x) = text_of (dget event ''eventId'')" for u n c x
    by (simp add: new_delivery_def Let_def)
  from a obtain scope ds where "has_delivery_identity event" "provider_message_scope event = Inr scope"
    "read_outbox f = Inr ds"
    "find_existing (text_of (dget event ''eventId'')) scope ds = Inr (Some d)"
    by (auto simp: enqueue_def Let_def e replace_file_def
        split: if_splits sum.splits option.splits prod.splits)
  then show ?thesis by (simp add: f1 enqueue_def Let_def e)
qed

text \<open>
  persisting an event is idempotent: once a call has answered with a delivery, the same
  event answers with that delivery again, reports that nothing was created, and leaves the
  file as it is, whatever the clock, the disk and the other arguments are.
\<close>

theorem enqueue_idempotent:
  assumes "enqueue r ok now uid event ccid err f = (Inr (d, created), f1)"
  shows "enqueue r' ok' now' uid' event ccid' err' f1 = (Inr (d, False), f1)"
  by (rule enqueue_again [OF assms])

theorem enqueue_idempotent_witness:
  "enqueue 7 True 2000 ''u2'' (sample_event ''e1'' ''m1'') (Some ''ch'') None
     (Holds [sample_delivery ''u1'' ''e1'' ''m1'' 1000]) =
   (Inr (sample_delivery ''u1'' ''e1'' ''m1'' 1000, False),
    Holds [sample_delivery ''u1'' ''e1'' ''m1'' 1000])"
  by (rule enqueue_idempotent [OF sample_enqueue])

text \<open>
  C9: no accepted event is lost: whatever operation runs next, a delivery that is not both
  confirmed and past retention is still in the store with its id and its event, so failures
  and dead letters stay available for replay.
\<close>

theorem outbox_keeps_deliveries:
  assumes "run_op r ok now op f = (res, f')" and "read_outbox f = Inr ds" and "d \<in> set ds"
    and "dl_status d = Delivered \<Longrightarrow>
      now - retention_days r * 86400000 \<le> as_int (pint_opt (dl_delivered_at d))"
  shows "\<exists>ds' d'. read_outbox f' = Inr ds' \<and> d' \<in> set ds' \<and> dl_id d' = dl_id d \<and>
    dl_event_id d' = dl_event_id d \<and> dl_event d' = dl_event d"
proof -
  have "\<not> expired r now d" using assms(4) by (auto simp: expired_def)
  from run_op_keeps [OF assms(1-3) this] obtain ds' d' where
    "read_outbox f' = Inr ds'" "d' \<in> set ds'" "identity d = identity d'" by blast
  then show ?thesis by (auto simp: identity_def)
qed

theorem outbox_keeps_deliveries_witness:
  "\<exists>ds' d'. read_outbox (snd (run_op 7 True 2000 (Op_Fail ''core_inbound_u1'' ''gone'')
       (Holds [sample_delivery ''u1'' ''e1'' ''m1'' 1000]))) = Inr ds' \<and> d' \<in> set ds' \<and>
     dl_id d' = ''core_inbound_u1'' \<and> dl_event_id d' = ''e1'' \<and>
     dl_event d' = sample_event ''e1'' ''m1''"
proof -
  let ?d = "sample_delivery ''u1'' ''e1'' ''m1'' 1000"
  have d: "dl_status ?d \<noteq> Delivered" "dl_id ?d = ''core_inbound_u1''" "dl_event_id ?d = ''e1''"
    "dl_event ?d = sample_event ''e1'' ''m1''"
    by (simp_all add: sample_defs)
  obtain res f' where run: "run_op 7 True 2000 (Op_Fail ''core_inbound_u1'' ''gone'') (Holds [?d]) = (res, f')"
    by (rule prod.exhaust)
  show ?thesis
    using outbox_keeps_deliveries [OF run, of "[?d]" ?d] d
    unfolding run snd_conv by (simp add: read_outbox_def)
qed

section \<open>A call that fails changes nothing\<close>

text \<open>
  every operation of the store is atomic: when it answers with an error, because the file
  is corrupt, the disk refuses the write, the event has no identity or the delivery is unknown,
  the file is exactly what it was.
\<close>

theorem outbox_failure_is_atomic:
  assumes "run_op r ok now op f = (Inl e, f')"
  shows "f' = f"
  using assms by (rule run_op_Inl)

theorem outbox_failure_is_atomic_witness:
  "run_op 7 False 1000 (Op_Enqueue ''u1'' (sample_event ''e1'' ''m1'') None None) Absent =
     (Inl (PersistenceError ''Canonical Core delivery could not be persisted''), Absent)"
proof -
  have "fst (run_op 7 False 1000 (Op_Enqueue ''u1'' (sample_event ''e1'' ''m1'') None None) Absent) =
      Inl (PersistenceError ''Canonical Core delivery could not be persisted'')"
    using sample_identity sample_scope
    by (simp add: enqueue_def read_outbox_def Let_def)
  then obtain f' where run: "run_op 7 False 1000 (Op_Enqueue ''u1'' (sample_event ''e1'' ''m1'') None None) Absent =
      (Inl (PersistenceError ''Canonical Core delivery could not be persisted''), f')"
    by (metis prod.collapse)
  show ?thesis using outbox_failure_is_atomic [OF run] run by simp
qed

section \<open>Claiming work\<close>

text \<open>
  C22: a claim leases exactly the first due deliveries: those that wait and are due or whose
  lease has run out, in the order of due time and then creation, at most the batch size (and
  at least one) of them, and the file differs only at their positions. The in-place loop of
  the code is this specification.
\<close>

theorem claim_takes_first_due:
  "claim_due True now limit lease_seconds (Holds ds) =
     (Inr (map (claim_item now lease_seconds) (take (nat (max 1 limit)) (due_items now ds))),
      Holds (claim_at now lease_seconds (set (claimed_positions now limit ds)) ds)) \<and>
   map ((!) ds) (claimed_positions now limit ds) = take (nat (max 1 limit)) (due_items now ds) \<and>
   distinct (claimed_positions now limit ds) \<and>
   sorted (map claim_key (due_items now ds)) \<and>
   mset (due_items now ds) = filter_mset (claimable now) (mset ds)"
proof -
  have "sorted (map claim_key (sort_key claim_key ds))" by (rule sorted_sort_key)
  then have "sorted (map claim_key (due_items now ds))"
    unfolding due_items_def by (rule sorted_filter)
  moreover have "distinct (claimed_positions now limit ds)"
    by (simp add: claimed_positions_def chosen_def)
  moreover have "mset (due_items now ds) = filter_mset (claimable now) (mset ds)"
    by (simp add: due_items_def)
  ultimately show ?thesis by (simp add: claim_due_Holds claimed_positions_items)
qed

lemma claimed_lease:
  assumes "claim_due ok now limit lease f = (Inr cs, f1)" and "read_outbox f1 = Inr ds1"
    and "cs \<noteq> []" and "c \<in> set cs"
  shows "c \<in> set ds1 \<and> dl_status c = Delivering \<and>
    dl_lease_expires_at c = Some (now + max 1 lease * 1000)"
proof -
  from claim_due_Inr [OF assms(1)] obtain ds where ds: "read_outbox f = Inr ds"
    "cs = map (claim_item now lease) (take (nat (max 1 limit)) (due_items now ds))" by blast
  have cs: "cs = map (claim_item now lease) (map ((!) ds) (claimed_positions now limit ds))"
    by (simp add: ds claimed_positions_items)
  have "f1 = Holds (claim_at now lease (set (claimed_positions now limit ds)) ds)"
    using assms(1,3) ds cs
    by (auto simp: claim_due_def claim_loop_result replace_file_def split: if_splits prod.splits)
  then have ds1: "ds1 = claim_at now lease (set (claimed_positions now limit ds)) ds"
    using assms(2) by (simp add: read_outbox_def)
  from assms(4) cs obtain i where i: "i \<in> set (claimed_positions now limit ds)"
    "c = claim_item now lease (ds ! i)" by auto
  then have "i < length ds" using claimed_positions_subset by blast
  then have "ds1 ! i = c" "i < length ds1" using i by (simp_all add: ds1 nth_claim_at)
  then have "c \<in> set ds1" by (metis nth_mem)
  then show ?thesis using i by (simp add: claim_item_def)
qed

lemma claimed_were_claimable:
  assumes "claim_due ok now limit lease f = (Inr cs, f')" and "c \<in> set cs"
  shows "\<exists>ds d. read_outbox f = Inr ds \<and> d \<in> set ds \<and> claimable now d \<and> dl_id d = dl_id c \<and> c = claim_item now lease d"
proof -
  obtain ds where ds: "read_outbox f = Inr ds"
    "cs = map (claim_item now lease) (take (nat (max 1 limit)) (due_items now ds))"
    using claim_due_Inr [OF assms(1)] by blast
  then obtain d where d: "d \<in> set (due_items now ds)" "c = claim_item now lease d"
    using assms(2) by (auto dest: in_set_takeD)
  then have "d \<in> set ds" "claimable now d" by (simp_all add: due_items_def)
  then show ?thesis using ds d by (auto simp: claim_item_def)
qed

lemma get_delivery_unique:
  assumes "read_outbox f = Inr ds" and "distinct (map dl_id ds)" and "d \<in> set ds"
  shows "get_delivery (dl_id d) f = Inr (Some d)"
proof -
  have "List.find (\<lambda>x. dl_id x = dl_id d) ds = Some d"
    using assms(2,3) by (induction ds) (auto simp: image_iff)
  then show ?thesis by (simp add: get_delivery_def assms(1))
qed

section \<open>What the others do while a lease runs\<close>

text \<open>The calls that report how the sending of a delivery ended.\<close>

fun settles :: "string \<Rightarrow> outbox_op \<Rightarrow> bool" where
  "settles i (Op_Complete j dup) = (j = i)"
| "settles i (Op_Retry j er m b a) = (j = i)"
| "settles i (Op_Fail j er) = (j = i)"
| "settles i _ = False"

text \<open>Any operations before the time \<open>t\<close>, none of which reports on the delivery \<open>i\<close>.\<close>

inductive others_work :: "int \<Rightarrow> string \<Rightarrow> int \<Rightarrow> outbox_file \<Rightarrow> outbox_file \<Rightarrow> bool" for r i t f where
  nothing: "others_work r i t f f"
| step: "others_work r i t f g \<Longrightarrow> admissible op g \<Longrightarrow> \<not> settles i op \<Longrightarrow> now < t \<Longrightarrow>
    run_op r ok now op g = (res, g') \<Longrightarrow> others_work r i t f g'"

definition leased_until :: "int \<Rightarrow> delivery \<Rightarrow> bool" where
  "leased_until t c \<longleftrightarrow> dl_status c = Delivering \<and> dl_lease_expires_at c = Some t"

lemma leased_not_claimable: "leased_until t c \<Longrightarrow> now < t \<Longrightarrow> \<not> claimable now c"
  by (simp add: leased_until_def claimable_def)

lemma modify_first_spares: "c \<in> set ds \<Longrightarrow> \<not> p c \<Longrightarrow> c \<in> set (modify_first p g ds)"
  by (induction ds) auto

lemma claim_spares:
  assumes "c \<in> set ds" and "\<not> claimable now c"
  shows "c \<in> set (claim_at now lease (set (claimed_positions now limit ds)) ds)"
proof -
  obtain j where j: "j < length ds" "ds ! j = c" using assms(1) by (auto simp: in_set_conv_nth)
  have "j \<notin> set (claimed_positions now limit ds)"
  proof
    assume "j \<in> set (claimed_positions now limit ds)"
    then have "ds ! j \<in> set (take (nat (max 1 limit)) (due_items now ds))"
      unfolding claimed_positions_items [symmetric] by simp
    then show False using assms(2) j(2) by (auto simp: due_items_def dest: in_set_takeD)
  qed
  then show ?thesis using j by (metis length_claim_at nth_claim_at nth_mem)
qed

lemma update_spares:
  assumes "update_delivery ok now i c f = (Inr d', f')" and "read_outbox f = Inr ds" and "d \<in> set ds" and "dl_id d \<noteq> i"
  shows "\<exists>ds'. read_outbox f' = Inr ds' \<and> d \<in> set ds'"
  using assms(1) by (rule update_delivery_Inr) (use assms(2-4) in \<open>auto simp: read_outbox_def intro: modify_first_spares\<close>)

lemma leased_step:
  assumes run: "run_op r ok now op f = (res, f')" and reads: "read_outbox f = Inr ds" and ids: "distinct (map dl_id ds)"
    and c: "c \<in> set ds" "leased_until t c" and "now < t" and other: "\<not> settles (dl_id c) op"
  shows "\<exists>ds'. read_outbox f' = Inr ds' \<and> c \<in> set ds'"
proof (cases res)
  case (Inl e)
  then have "f' = f" using run run_op_Inl by blast
  then show ?thesis using reads c(1) by simp
next
  case (Inr u)
  note run = run [unfolded Inr]
  show ?thesis
  proof (cases op)
    case (Op_Enqueue uid ev cc er)
    then obtain d b where "enqueue r ok now uid ev cc er f = (Inr (d, b), f')"
      using run by (auto split: prod.splits sum.splits)
    from run_op_enqueued [OF this reads] show ?thesis
      using reads c by (auto simp: read_outbox_def without_expired_def expired_def leased_until_def)
  next
    case (Op_Claim limit lease)
    then obtain cs where "claim_due ok now limit lease f = (Inr cs, f')"
      using run by (auto split: prod.splits sum.splits)
    from claim_due_Inr [OF this] show ?thesis
      using reads c(1) claim_spares [OF c(1) leased_not_claimable [OF c(2) \<open>now < t\<close>]] by (auto simp: read_outbox_def)
  next
    case (Op_Complete i dup)
    then obtain d where "update_delivery ok now i (complete_changes now dup) f = (Inr d, f')"
      using run by (auto simp: complete_def split: prod.splits sum.splits)
    from update_spares [OF this reads c(1)] show ?thesis using other Op_Complete by simp
  next
    case (Op_Retry i er m b a)
    then obtain d where "update_delivery ok now i (retry_changes now er m b a) f = (Inr d, f')"
      using run by (auto split: prod.splits sum.splits)
    from update_spares [OF this reads c(1)] show ?thesis using other Op_Retry by simp
  next
    case (Op_Fail i er)
    then obtain d where "update_delivery ok now i (fail_changes er) f = (Inr d, f')"
      using run by (auto simp: fail_permanently_def split: prod.splits sum.splits)
    from update_spares [OF this reads c(1)] show ?thesis using other Op_Fail by simp
  next
    case (Op_Replay i cn h b)
    then obtain i' e st where "replay_group ok now i cn h b f = (Inr (i', e, st), f')"
      using run by (auto split: prod.splits sum.splits)
    from replay_group_Inr [OF this] reads obtain d where d: "List.find (\<lambda>d. dl_id d = i) ds = Some d"
      "if dl_status d \<in> {Failed, Dead_Letter, Retry}
       then f' = Holds (modify_first (\<lambda>d. dl_id d = i) (replay_changes now) ds) else f' = f"
      by (auto split: if_splits)
    have "d = c" if "dl_id c = i"
      using get_delivery_unique [OF reads ids c(1)] that d(1) by (simp add: get_delivery_def reads)
    then show ?thesis
      using d(2) c reads by (auto simp: read_outbox_def leased_until_def intro: modify_first_spares split: if_splits)
  qed
qed

lemma leased_while_others_work:
  assumes "others_work r (dl_id c) t f g" and "read_outbox f = Inr ds" and "outbox_inv ds" and "c \<in> set ds" and "leased_until t c"
  shows "\<exists>ds'. read_outbox g = Inr ds' \<and> outbox_inv ds' \<and> c \<in> set ds'"
  using assms(1)
proof induction
  case nothing
  then show ?case using assms(2-4) by simp
next
  case (step g op now ok res g')
  then obtain ds' where ds': "read_outbox g = Inr ds'" "outbox_inv ds'" "c \<in> set ds'" by blast
  have "distinct (map dl_id ds')" using ds'(2) by (simp add: outbox_inv_def)
  from leased_step [OF step.hyps(5) ds'(1) this ds'(3) assms(5) step.hyps(4,3)]
    run_op_inv [OF step.hyps(5,2) ds'(1,2)] show ?case by auto
qed

text \<open>
  C4: A lease is exclusive: once a claim has returned a delivery, then until its lease runs out no
  other claim, by any worker and with any batch size, returns it, and it stays in the outbox as it
  was claimed; whatever else happens in between: other claims, accepted events, replays and
  reports on other deliveries. The one exception is a call that reports on this very delivery. That
  is normally the worker that holds the lease, but the store does not check it: a late report
  of a worker whose own lease ran out before also ends the lease.
\<close>

theorem lease_is_exclusive:
  assumes "outbox_reach r f" and "claim_due ok now limit lease f = (Inr claimed, f1)" and "c \<in> set claimed"
    and "others_work r (dl_id c) (now + max 1 lease * 1000) f1 f2"
    and "claim_due ok' now' limit' lease' f2 = (Inr again, f3)" and "now' < now + max 1 lease * 1000"
  shows "get_delivery (dl_id c) f2 = Inr (Some c) \<and> dl_id c \<notin> dl_id ` set again"
proof -
  obtain ds where ds: "read_outbox f = Inr ds" "outbox_inv ds" using outbox_reach_inv [OF assms(1)] by blast
  have "run_op r ok now (Op_Claim limit lease) f = (Inr (), f1)" by (simp add: assms(2))
  from run_op_inv [OF this _ ds] obtain ds1 where ds1: "read_outbox f1 = Inr ds1" "outbox_inv ds1" by auto
  have ne: "claimed \<noteq> []" using assms(3) by auto
  have c: "c \<in> set ds1" and l: "leased_until (now + max 1 lease * 1000) c"
    using claimed_lease [OF assms(2) ds1(1) ne assms(3)] by (simp_all add: leased_until_def)
  obtain ds2 where ds2: "read_outbox f2 = Inr ds2" "distinct (map dl_id ds2)" "c \<in> set ds2"
    using leased_while_others_work [OF assms(4) ds1 c l] by (auto simp: outbox_inv_def)
  have get: "get_delivery (dl_id c) f2 = Inr (Some c)" by (rule get_delivery_unique [OF ds2])
  have "dl_id c \<noteq> dl_id d" if d: "d \<in> set again" for d
  proof
    assume same: "dl_id c = dl_id d"
    obtain x where x: "x \<in> set ds2" "claimable now' x" "dl_id x = dl_id d"
      using claimed_were_claimable [OF assms(5) d] ds2(1) by auto
    have "get_delivery (dl_id x) f2 = Inr (Some x)" by (rule get_delivery_unique [OF ds2(1,2) x(1)])
    then have "x = c" using get x(3) same by simp
    then show False using x(2) leased_not_claimable [OF l assms(6)] by simp
  qed
  then show ?thesis using get by auto
qed

text \<open>Two events, claimed one at a time; a third one comes in between the claims.\<close>

definition two_waiting :: outbox_file where
  "two_waiting = Holds [sample_delivery ''u1'' ''e1'' ''m1'' 1000, sample_delivery ''u2'' ''e2'' ''m2'' 2000]"

lemma two_waiting_reach: "outbox_reach 7 two_waiting"
proof (rule outbox_reach.step [OF sample_reach])
  show "admissible (Op_Enqueue ''u2'' (sample_event ''e2'' ''m2'') (Some ''ch'') None) (Holds [sample_delivery ''u1'' ''e1'' ''m1'' 1000])"
    by code_simp
  show "run_op 7 True 2000 (Op_Enqueue ''u2'' (sample_event ''e2'' ''m2'') (Some ''ch'') None)
      (Holds [sample_delivery ''u1'' ''e1'' ''m1'' 1000]) = (Inr (), two_waiting)"
    by code_simp
qed

theorem lease_is_exclusive_witness:
  "\<exists>f1 f2 f3 c d. claim_due True 3000 1 60 two_waiting = (Inr [c], f1) \<and>
     run_op 7 True 4000 (Op_Enqueue ''u3'' (sample_event ''e3'' ''m3'') None None) f1 = (Inr (), f2) \<and>
     claim_due True 5000 2 60 f2 = (Inr d, f3) \<and> length d = 2 \<and>
     dl_id c = ''core_inbound_u1'' \<and> dl_id c \<notin> dl_id ` set d"
proof -
  define first where "first = claim_due True 3000 1 60 two_waiting"
  define added where "added = run_op 7 True 4000 (Op_Enqueue ''u3'' (sample_event ''e3'' ''m3'') None None) (snd first)"
  define later where "later = claim_due True 5000 2 60 (snd added)"
  define c where "c = claim_item 3000 60 (sample_delivery ''u1'' ''e1'' ''m1'' 1000)"
  have first: "fst first = Inr [c]" unfolding first_def c_def by code_simp
  have added: "fst added = Inr ()" unfolding added_def first_def by code_simp
  have n: "(case fst later of Inl e \<Rightarrow> False | Inr d \<Rightarrow> length d = 2)" unfolding later_def added_def first_def by code_simp
  then obtain d where d: "fst later = Inr d" "length d = 2" by (auto split: sum.splits)
  have 1: "claim_due True 3000 1 60 two_waiting = (Inr [c], snd first)"
    using first by (simp add: first_def [symmetric] prod_eq_iff)
  have 2: "run_op 7 True 4000 (Op_Enqueue ''u3'' (sample_event ''e3'' ''m3'') None None) (snd first) = (Inr (), snd added)"
    using added by (simp add: added_def [symmetric] prod_eq_iff del: run_op.simps)
  have 3: "claim_due True 5000 2 60 (snd added) = (Inr d, snd later)"
    using d by (simp add: later_def [symmetric] prod_eq_iff)
  have a: "admissible (Op_Enqueue ''u3'' (sample_event ''e3'' ''m3'') None None) (snd first)"
    unfolding first_def by code_simp
  have "others_work 7 (dl_id c) (3000 + max 1 60 * 1000) (snd first) (snd added)"
    by (rule others_work.step [OF others_work.nothing a _ _ 2]) simp_all
  from lease_is_exclusive [OF two_waiting_reach 1 _ this 3] have "dl_id c \<notin> dl_id ` set d" by simp
  moreover have "dl_id c = ''core_inbound_u1''" unfolding c_def by code_simp
  ultimately show ?thesis using 1 2 3 d(2) by blast
qed

end
