(* ===== verification/Core_Outbox_Life.thy ===== *)
theory Core_Outbox_Life
  imports Core_Outbox_Spec
begin

text \<open>
  The life of one delivery in the outbox: Core refuses it until the attempts run out and it is
  a dead letter, Core confirms it and it is not sent again, an operator replays it.
\<close>

section \<open>Failing attempts\<close>

text \<open>
  The life of a delivery \<open>i\<close> that Core keeps refusing, in an outbox shared with any other
  deliveries. Workers claim it, in batches of any size, and report a refusal before the next claim
  takes it; in between, any operations run that leave this delivery as it is. The list holds the
  refusals so far, each with its time and its reason; the flag says whether it is being sent.
\<close>

inductive refusals ::
    "int \<Rightarrow> string \<Rightarrow> int \<Rightarrow> int \<Rightarrow> outbox_file \<Rightarrow> (int \<times> string) list \<Rightarrow> bool \<Rightarrow> outbox_file \<Rightarrow> bool"
  for r i m b f0 where
  accepted: "refusals r i m b f0 [] False f0"
| others: "refusals r i m b f0 es flying f \<Longrightarrow> admissible op f \<Longrightarrow> run_op r ok now op f = (res, f') \<Longrightarrow>
    get_delivery i f' = get_delivery i f \<Longrightarrow> refusals r i m b f0 es flying f'"
| claimed: "refusals r i m b f0 es False f \<Longrightarrow> claim_due ok t limit lease f = (Inr cs, f') \<Longrightarrow>
    i \<in> dl_id ` set cs \<Longrightarrow> refusals r i m b f0 es True f'"
| reported: "refusals r i m b f0 es True f \<Longrightarrow>
    retry_or_dead_letter get_delivery update_delivery ok t i er m b f = (Inr d', f') \<Longrightarrow>
    refusals r i m b f0 (es @ [(t, er)]) False f'"

text \<open>What the refusals so far have made of the delivery.\<close>

definition after_refusals :: "int \<Rightarrow> int \<Rightarrow> (int \<times> string) list \<Rightarrow> delivery \<Rightarrow> bool" where
  "after_refusals m b es d \<longleftrightarrow>
     dl_attempt_count d = int (length es) \<and> es \<noteq> [] \<and> dl_last_error d = Some (snd (last es)) \<and>
     int (length es) \<le> max 1 m \<and>
     (if int (length es) < max 1 m
      then dl_status d = Retry \<and>
        dl_next_attempt_at d = Some (fst (last es) + max 0 b * 2 ^ (length es - 1) * 1000)
      else dl_status d = Dead_Letter)"

definition in_the_course :: "int \<Rightarrow> int \<Rightarrow> delivery \<Rightarrow> (int \<times> string) list \<Rightarrow> bool \<Rightarrow> delivery \<Rightarrow> bool" where
  "in_the_course m b d es flying x \<longleftrightarrow> identity x = identity d \<and>
     (if flying then dl_status x = Delivering \<and> dl_attempt_count x = int (length es) + 1 \<and> int (length es) < max 1 m
      else if es = [] then x = d else after_refusals m b es x)"

lemma refusal_counts:
  assumes "dl_attempt_count x = int (length es) + 1" and "int (length es) < max 1 m"
  shows "after_refusals m b (es @ [(t, er)]) ((retry_changes t er m b (dl_attempt_count x) x)\<lparr>dl_updated_at := t\<rparr>)"
proof -
  have "nat (max 0 (int (length es))) = length es" by simp
  then show ?thesis using assms by (simp add: after_refusals_def retry_changes_def retry_delay_def not_le) (simp add: max_def)
qed

lemma claim_takes:
  assumes "claim_due ok t limit lease f = (Inr cs, f')" and "i \<in> dl_id ` set cs"
    and "read_outbox f' = Inr ds'" "distinct (map dl_id ds')" and "read_outbox f = Inr ds" "distinct (map dl_id ds)"
    and "get_delivery i f = Inr (Some x)"
  shows "claimable t x \<and> get_delivery i f' = Inr (Some (claim_item t lease x))"
proof -
  obtain c where c: "c \<in> set cs" "dl_id c = i" using assms(2) by auto
  obtain y where y: "y \<in> set ds" "claimable t y" "dl_id y = i" "c = claim_item t lease y"
    using claimed_were_claimable [OF assms(1) c(1)] assms(5) c(2) by auto
  have "get_delivery (dl_id y) f = Inr (Some y)" by (rule get_delivery_unique [OF assms(5,6) y(1)])
  then have x: "x = y" using assms(7) y(3) by simp
  have "cs \<noteq> []" using c(1) by auto
  then have "c \<in> set ds'" using claimed_lease [OF assms(1,3)] c(1) by blast
  from get_delivery_unique [OF assms(3,4) this] show ?thesis using y x c(2) by simp
qed

lemma refusals_course:
  assumes "refusals r i m b f0 es flying f" and "outbox_reach r f0"
    and "get_delivery i f0 = Inr (Some d)" and "dl_status d = Pending" and "dl_attempt_count d = 0"
  shows "outbox_reach r f \<and> (\<exists>x. get_delivery i f = Inr (Some x) \<and> in_the_course m b d es flying x)"
  using assms(1)
proof induction
  case accepted
  then show ?case using assms(2,3) by (simp add: in_the_course_def)
next
  case (others es flying f op ok now res f')
  then show ?case by (auto intro: outbox_reach.step)
next
  case (claimed es f ok t limit lease cs f')
  have run: "run_op r ok t (Op_Claim limit lease) f = (Inr (), f')" using claimed.hyps(2) by simp
  have reach: "outbox_reach r f'" by (rule outbox_reach.step [OF _ _ run]) (use claimed.IH in simp_all)
  obtain x where x: "get_delivery i f = Inr (Some x)" "in_the_course m b d es False x" using claimed.IH by blast
  obtain ds ds' where "read_outbox f = Inr ds" "outbox_inv ds" "read_outbox f' = Inr ds'" "outbox_inv ds'"
    using outbox_reach_inv reach claimed.IH by blast
  then have taken: "claimable t x" "get_delivery i f' = Inr (Some (claim_item t lease x))"
    using claim_takes [OF claimed.hyps(2,3), of ds' ds x] x(1) by (simp_all add: outbox_inv_def)
  have "int (length es) < max 1 m"
    using x(2) taken(1) by (auto simp: in_the_course_def after_refusals_def claimable_def split: if_splits)
  moreover have "dl_attempt_count x = int (length es)"
    using x(2) assms(5) by (auto simp: in_the_course_def after_refusals_def split: if_splits)
  ultimately have "in_the_course m b d es True (claim_item t lease x)"
    using x(2) by (simp add: in_the_course_def store_simps) (simp add: claim_item_def)
  then show ?case using reach taken(2) by blast
next
  case (reported es f ok t er d' f')
  obtain x where x: "get_delivery i f = Inr (Some x)" "in_the_course m b d es True x" using reported.IH by blast
  let ?c = "retry_changes t er m b (dl_attempt_count x)"
  let ?y = "(?c x)\<lparr>dl_updated_at := t\<rparr>"
  have u: "update_delivery ok t i ?c f = (Inr d', f')"
    using reported.hyps(2) x(1) by (simp add: retry_or_dead_letter_def)
  have "d' = ?y" using json_store.updated_was [OF u] x(1) by auto
  then have get: "get_delivery i f' = Inr (Some ?y)"
    using get_after_update [OF u] by (simp add: store_simps)
  have "run_op r ok t (Op_Retry i er m b (dl_attempt_count x)) f = (Inr (), f')" using u by simp
  from outbox_reach.step [OF _ _ this] have reach: "outbox_reach r f'" using reported.IH by simp
  have "identity ?y = identity d" using x(2) by (simp add: store_simps in_the_course_def)
  then have "in_the_course m b d (es @ [(t, er)]) False ?y"
    using refusal_counts [of x es m b t er] x(2) by (simp add: in_the_course_def)
  then show ?case using reach get by blast
qed

text \<open>
  C6: A delivery Core keeps refusing is retried with exponential backoff and ends as a dead
  letter, whatever other deliveries the outbox holds and whatever happens to them: it is refused
  at most the configured number of times; after fewer refusals than that it waits for a backoff that
  doubles with each of them, and is due from then on and not before; and after exactly that many
  it is a dead letter that no claim ever returns. Its event and the reason of the last refusal
  are kept.
\<close>

theorem refused_delivery_ends_dead:
  assumes "outbox_reach r f0" and "get_delivery i f0 = Inr (Some d)" and "dl_status d = Pending" and "dl_attempt_count d = 0"
    and "refusals r i m b f0 es False f" and "es \<noteq> []"
  shows "\<exists>d'. get_delivery i f = Inr (Some d') \<and> dl_id d' = dl_id d \<and> dl_event d' = dl_event d \<and>
    dl_attempt_count d' = int (length es) \<and> dl_last_error d' = Some (snd (last es)) \<and> int (length es) \<le> max 1 m \<and>
    (if int (length es) < max 1 m
     then dl_status d' = Retry \<and>
       (\<forall>t. claimable t d' \<longleftrightarrow> fst (last es) + max 0 b * 2 ^ (length es - 1) * 1000 \<le> t)
     else dl_status d' = Dead_Letter \<and> (\<forall>t. \<not> claimable t d'))"
proof -
  obtain x where x: "get_delivery i f = Inr (Some x)" "identity x = identity d" "after_refusals m b es x"
    using refusals_course [OF assms(5,1-4)] assms(6) by (auto simp: in_the_course_def)
  then have "\<forall>t. claimable t x \<longleftrightarrow> int (length es) < max 1 m \<and>
      fst (last es) + max 0 b * 2 ^ (length es - 1) * 1000 \<le> t"
    by (auto simp: after_refusals_def claimable_def split: if_splits)
  with x show ?thesis by (intro exI [of _ x]) (simp add: after_refusals_def identity_def)
qed

text \<open>Two events wait; the first is claimed with the second, refused, claimed alone and refused again.\<close>

definition refused_once :: outbox_file where
  "refused_once =
     snd (retry_or_dead_letter get_delivery update_delivery True 4000 ''core_inbound_u1'' ''http_500'' 2 5
       (snd (claim_due True 3000 25 60 two_waiting)))"

definition refused_twice :: outbox_file where
  "refused_twice =
     snd (retry_or_dead_letter get_delivery update_delivery True 9100 ''core_inbound_u1'' ''http_502'' 2 5
       (snd (claim_due True 9000 25 60 refused_once)))"

lemma refused_round:
  assumes "refusals r i m b f0 es False f" and "\<exists>cs. fst (claim_due True t limit lease f) = Inr cs \<and> i \<in> dl_id ` set cs"
    and "is_ok (fst (retry_or_dead_letter get_delivery update_delivery True t' i er m b (snd (claim_due True t limit lease f))))"
  shows "refusals r i m b f0 (es @ [(t', er)]) False
    (snd (retry_or_dead_letter get_delivery update_delivery True t' i er m b (snd (claim_due True t limit lease f))))"
proof -
  obtain cs where cs: "claim_due True t limit lease f = (Inr cs, snd (claim_due True t limit lease f))" "i \<in> dl_id ` set cs"
    using assms(2) by (metis prod.collapse)
  obtain d' where d': "retry_or_dead_letter get_delivery update_delivery True t' i er m b (snd (claim_due True t limit lease f)) =
      (Inr d', snd (retry_or_dead_letter get_delivery update_delivery True t' i er m b (snd (claim_due True t limit lease f))))"
    using assms(3) by (metis is_ok_iff prod.collapse)
  show ?thesis by (rule refusals.reported [OF refusals.claimed [OF assms(1) cs] d'])
qed

theorem refused_delivery_ends_dead_witness:
  "\<exists>d'. get_delivery ''core_inbound_u1'' refused_twice = Inr (Some d') \<and> dl_status d' = Dead_Letter \<and>
     dl_attempt_count d' = 2 \<and> dl_last_error d' = Some ''http_502'' \<and> (\<forall>t. \<not> claimable t d')"
proof -
  let ?i = "''core_inbound_u1''"
  have claims: "(case fst (claim_due True 3000 25 60 two_waiting) of Inl e \<Rightarrow> False | Inr cs \<Rightarrow> ?i \<in> dl_id ` set cs)"
    "(case fst (claim_due True 9000 25 60 refused_once) of Inl e \<Rightarrow> False | Inr cs \<Rightarrow> ?i \<in> dl_id ` set cs)"
    by code_simp+
  have reports: "is_ok (fst (retry_or_dead_letter get_delivery update_delivery True 4000 ?i ''http_500'' 2 5
      (snd (claim_due True 3000 25 60 two_waiting))))"
    "is_ok (fst (retry_or_dead_letter get_delivery update_delivery True 9100 ?i ''http_502'' 2 5
      (snd (claim_due True 9000 25 60 refused_once))))"
    by code_simp+
  have once: "refusals 7 ?i 2 5 two_waiting ([] @ [(4000, ''http_500'')]) False refused_once"
    unfolding refused_once_def
    by (rule refused_round [OF refusals.accepted]) (use claims(1) reports(1) in \<open>auto split: sum.splits\<close>)
  have twice: "refusals 7 ?i 2 5 two_waiting (([] @ [(4000, ''http_500'')]) @ [(9100, ''http_502'')]) False refused_twice"
    unfolding refused_twice_def
    by (rule refused_round [OF once]) (use claims(2) reports(2) in \<open>auto split: sum.splits\<close>)
  have d: "get_delivery ?i two_waiting = Inr (Some (sample_delivery ''u1'' ''e1'' ''m1'' 1000))" by code_simp
  have "dl_status (sample_delivery ''u1'' ''e1'' ''m1'' 1000) = Pending"
    "dl_attempt_count (sample_delivery ''u1'' ''e1'' ''m1'' 1000) = 0" by code_simp+
  from refused_delivery_ends_dead [OF two_waiting_reach d this twice] show ?thesis by auto
qed

section \<open>Confirmed deliveries\<close>

definition refused_sample :: delivery where
  "refused_sample = new_delivery ''u1'' 0 [(''eventId'', PStr ''e1'')] None None"

lemma update_keeps_ids:
  assumes "update_delivery ok now i c f = (Inr d, f')" and "\<And>d. identity (c d) = identity d"
    and "read_outbox f = Inr ds"
  shows "\<exists>ds'. read_outbox f' = Inr ds' \<and> map dl_id ds' = map dl_id ds"
proof -
  obtain ds0 where *: "read_outbox f = Inr ds0"
    "f' = Holds (modify_first (\<lambda>d. dl_id d = i) (\<lambda>d. (c d)\<lparr>dl_updated_at := now\<rparr>) ds0)"
    using assms(1) by (rule update_delivery_Inr)
  have "dl_id ((c d)\<lparr>dl_updated_at := now\<rparr>) = dl_id d" for d
    using dl_id_identity [OF assms(2)] by simp
  then show ?thesis using * assms(3) by (simp add: read_outbox_def map_modify_first)
qed

text \<open>
  a delivery Core confirms is not sent again: \<open>complete\<close> succeeds for every delivery
  of the store, and no claim on the store it leaves, at any time, returns that delivery.
\<close>

theorem confirmed_delivery_not_resent:
  assumes found: "get_delivery i f = Inr (Some d)" and ds: "read_outbox f = Inr ds"
    and ids: "distinct (map dl_id ds)"
  shows "\<exists>d' f'. complete update_delivery True now i dup f = (Inr d', f') \<and>
    dl_status d' = Delivered \<and> dl_event d' = dl_event d \<and> get_delivery i f' = Inr (Some d') \<and>
    (\<forall>ok now' limit lease cs f''.
       claim_due ok now' limit lease f' = (Inr cs, f'') \<longrightarrow> i \<notin> dl_id ` set cs)"
proof -
  obtain f' d' where c: "complete update_delivery True now i dup f = (Inr d', f')"
    "get_delivery i f' = Inr (Some d')" "dl_status d' = Delivered" "identity d' = identity d"
    using json_store.complete_settles [OF found] by blast
  obtain ds' where ds': "read_outbox f' = Inr ds'" "map dl_id ds' = map dl_id ds"
    using update_keeps_ids [OF c(1) [unfolded complete_def] identity_changes(2) ds] by blast
  have "i \<notin> dl_id ` set cs" if claim: "claim_due ok now' limit lease f' = (Inr cs, f'')"
    for ok now' limit lease cs f''
  proof
    assume "i \<in> dl_id ` set cs"
    then obtain x where "x \<in> set cs" "dl_id x = i" by blast
    then obtain y where y: "y \<in> set ds'" "claimable now' y" "dl_id y = i"
      using claimed_were_claimable [OF claim] ds' by auto
    have "get_delivery i f' = Inr (Some y)"
      using get_delivery_unique [OF ds'(1) _ y(1)] ds'(2) ids y(3) by simp
    then show False using c(2,3) y(2) by (simp add: claimable_def)
  qed
  then show ?thesis using c by (simp add: identity_def) blast
qed

theorem confirmed_delivery_not_resent_witness:
  "\<exists>d' f'. complete update_delivery True 9 ''core_inbound_u1'' False (Holds [refused_sample]) = (Inr d', f') \<and>
    dl_status d' = Delivered"
proof -
  have "dl_id refused_sample = ''core_inbound_u1''"
    by (simp add: refused_sample_def new_delivery_def Let_def)
  then have "get_delivery ''core_inbound_u1'' (Holds [refused_sample]) = Inr (Some refused_sample)"
    by (simp add: get_delivery_def read_outbox_def)
  from confirmed_delivery_not_resent [OF this, of "[refused_sample]" 9 False]
  show ?thesis by (auto simp: read_outbox_def)
qed

text \<open>
  the settling operations do not look at the state of the delivery: the failure that a
  worker reports after its lease has run out reopens a delivery that another worker has
  completed, and the delivery is due again.
\<close>

theorem late_failure_reopens_confirmed:
  assumes "get_delivery i f = Inr (Some d)" and "dl_status d = Delivered"
    and "dl_attempt_count d < max 1 m"
  shows "\<exists>f' d'. retry_or_dead_letter get_delivery update_delivery True now i er m b f = (Inr d', f') \<and>
    get_delivery i f' = Inr (Some d') \<and> dl_status d' = Retry \<and> (\<exists>t. claimable t d')"
proof -
  obtain f' d' where r: "retry_or_dead_letter get_delivery update_delivery True now i er m b f = (Inr d', f')"
    "get_delivery i f' = Inr (Some d')"
    "if dl_attempt_count d \<ge> max 1 m then dl_status d' = Dead_Letter \<and> dl_next_attempt_at d' = None
     else dl_status d' = Retry \<and>
       dl_next_attempt_at d' = Some (now + retry_delay b (dl_attempt_count d) * 1000)"
    using json_store.retry_settles [OF assms(1)] by blast
  have s: "dl_status d' = Retry"
    "dl_next_attempt_at d' = Some (now + retry_delay b (dl_attempt_count d) * 1000)"
    using r(3) assms(3) by (simp_all add: not_le [symmetric] split: if_split_asm)
  then have "claimable (now + retry_delay b (dl_attempt_count d) * 1000) d'"
    by (simp add: claimable_def)
  then show ?thesis using r s by blast
qed

theorem late_failure_reopens_confirmed_witness:
  "\<exists>f' d'. retry_or_dead_letter get_delivery update_delivery True 9 ''core_inbound_u1'' ''transport:ReadTimeout'' 5 5
      (Holds [complete_changes 8 False refused_sample]) = (Inr d', f') \<and>
    dl_status d' = Retry \<and> (\<exists>t. claimable t d')"
proof -
  let ?d = "complete_changes 8 False refused_sample"
  have d: "dl_id ?d = ''core_inbound_u1''" "dl_status ?d = Delivered" "dl_attempt_count ?d < max 1 5"
    by (simp_all add: complete_changes_def refused_sample_def new_delivery_def Let_def)
  have g: "get_delivery ''core_inbound_u1'' (Holds [?d]) = Inr (Some ?d)"
    by (simp add: get_delivery_def read_outbox_def d(1))
  from late_failure_reopens_confirmed [OF g d(2,3), of 9 "''transport:ReadTimeout''" 5]
  show ?thesis by (elim exE conjE) (intro exI conjI)
qed

section \<open>Replay\<close>

lemma find_Some_id: "List.find (\<lambda>d. dl_id d = i) ds = Some d \<Longrightarrow> dl_id d = i"
  by (auto simp: find_Some_iff)

lemma replay_changes_fields:
  "identity (replay_changes now d) = identity d" "dl_id (replay_changes now d) = dl_id d"
  "claimable now (replay_changes now d)" "dl_attempt_count (replay_changes now d) = 0"
  by (simp_all add: replay_changes_def identity_def claimable_def)

lemma binding_matches_transport:
  assumes "replay_binding_matches c h b event = Inr True"
  shows "dget event ''contractVersion'' = PStr ''canonical-v2'' \<and>
    (\<exists>t. dget event ''transport'' = PDict t \<and> dget t ''connectionRef'' = PStr c \<and>
       dget t ''coreChannelId'' = PStr h \<and> dget t ''bindingId'' = PStr b)"
  using assms
  by (cases "dget event ''transport''")
    (auto simp: replay_binding_matches_def py_or_def Let_def split: if_split_asm)

text \<open>
  replay requeues exactly the delivery the caller's binding owns: when \<open>replay_group\<close>
  answers, the delivery's event is a group event of that connection, channel and binding; a
  failed, dead or retrying delivery is due at once with its attempts counted anew and its event
  unchanged, a confirmed or in-flight one is left alone, and no other delivery changes.
\<close>

theorem replay_requeues_owned_delivery:
  assumes "replay_group ok now i c h b f = (Inr (i', e, st), f')"
  shows "\<exists>d. get_delivery i f = Inr (Some d) \<and> i' = i \<and> e = dl_event_id d \<and>
    dget (dl_event d) ''contractVersion'' = PStr ''canonical-v2'' \<and>
    (\<exists>t. dget (dl_event d) ''transport'' = PDict t \<and> dget t ''connectionRef'' = PStr c \<and>
       dget t ''coreChannelId'' = PStr h \<and> dget t ''bindingId'' = PStr b) \<and>
    (if dl_status d \<in> {Failed, Dead_Letter, Retry}
     then st = Pending \<and>
       (\<exists>d'. get_delivery i f' = Inr (Some d') \<and> claimable now d' \<and> dl_attempt_count d' = 0 \<and>
          dl_event d' = dl_event d)
     else st = dl_status d \<and> f' = f) \<and>
    (\<forall>j. j = i \<or> get_delivery j f' = get_delivery j f)"
proof -
  obtain ds d where *: "read_outbox f = Inr ds" "List.find (\<lambda>d. dl_id d = i) ds = Some d"
    "replay_binding_matches c h b (dl_event d) = Inr True" "i' = dl_id d" "e = dl_event_id d"
    "if dl_status d \<in> {Failed, Dead_Letter, Retry}
     then st = Pending \<and> f' = Holds (modify_first (\<lambda>d. dl_id d = i) (replay_changes now) ds)
     else st = dl_status d \<and> f' = f"
    using replay_group_Inr [OF assms] by blast
  have i: "dl_id d = i" using *(2) by (rule find_Some_id)
  have get: "get_delivery i f = Inr (Some d)" using * by (simp add: get_delivery_def)
  show ?thesis
  proof (cases "dl_status d \<in> {Failed, Dead_Letter, Retry}")
    case True
    with * have f': "st = Pending" "f' = Holds (modify_first (\<lambda>d. dl_id d = i) (replay_changes now) ds)"
      by simp_all
    have 1: "get_delivery i f' = Inr (Some (replay_changes now d))"
      using find_modify_first_same [OF *(2), of "replay_changes now"] i
      by (simp add: f' get_delivery_def read_outbox_def replay_changes_fields)
    have 2: "get_delivery j f' = get_delivery j f" if "j \<noteq> i" for j
    proof -
      have "List.find (\<lambda>d. dl_id d = j) (modify_first (\<lambda>d. dl_id d = i) (replay_changes now) ds) =
          List.find (\<lambda>d. dl_id d = j) ds"
        using that by (intro find_modify_first_other) (auto simp: replay_changes_fields)
      then show ?thesis by (simp add: f' get_delivery_def read_outbox_def) (simp add: * (1) [unfolded read_outbox_def])
    qed
    have "dl_event (replay_changes now d) = dl_event d" by (simp add: replay_changes_def)
    then show ?thesis
      using True 1 2 get i * (4,5) f'(1) binding_matches_transport [OF *(3)] replay_changes_fields(3,4)
      by simp blast
  next
    case False
    then show ?thesis using * get i binding_matches_transport [OF *(3)] by simp
  qed
qed

definition replay_sample :: delivery where
  "replay_sample =
     (new_delivery ''u1'' 0 [(''eventId'', PStr ''e1''), (''contractVersion'', PStr ''canonical-v2''),
        (''transport'', PDict [(''connectionRef'', PStr ''c''), (''coreChannelId'', PStr ''h''),
           (''bindingId'', PStr ''b'')])] None None)\<lparr>dl_status := Dead_Letter\<rparr>"

theorem replay_requeues_owned_delivery_witness:
  "\<exists>f' d'. replay_group True 50 ''core_inbound_u1'' ''c'' ''h'' ''b'' (Holds [replay_sample]) =
      (Inr (''core_inbound_u1'', ''e1'', Pending), f') \<and>
    get_delivery ''core_inbound_u1'' f' = Inr (Some d') \<and> claimable 50 d'"
proof -
  have d: "dl_id replay_sample = ''core_inbound_u1''" "dl_event_id replay_sample = ''e1''"
    "dl_status replay_sample = Dead_Letter"
    "replay_binding_matches ''c'' ''h'' ''b'' (dl_event replay_sample) = Inr True"
    by (simp_all add: replay_sample_def new_delivery_def Let_def replay_binding_matches_def
        dget_def py_or_def)
  have run: "replay_group True 50 ''core_inbound_u1'' ''c'' ''h'' ''b'' (Holds [replay_sample]) =
      (Inr (''core_inbound_u1'', ''e1'', Pending), Holds [replay_changes 50 replay_sample])"
    by (simp add: replay_group_def read_outbox_def d)
  from replay_requeues_owned_delivery [OF run] run show ?thesis
    by (auto simp: get_delivery_def read_outbox_def d replay_changes_fields)
qed

end
