(* ===== verification/Core_Credentials.thy ===== *)
theory Core_Credentials
  imports Secret_Redaction
begin

text \<open>
  The encrypted API keys Gateway uses towards Core: \<open>CoreChannelCredentialStore\<close> of
  \<open>gateway/app/services/core_channel_credentials.py\<close>. The file holds, per connection, the
  channel the key belongs to and the encrypted key. Fernet is a parameter: the key material
  gives an encryption and a decryption function.
\<close>

type_synonym fernet = "string \<Rightarrow> (string \<Rightarrow> string) \<times> (string \<Rightarrow> string option)"
type_synonym core_cred_file = "(string \<times> string \<times> string) list json_file"

record cred_settings =
  cs_environment :: string
  cs_encryption_key :: string
  cs_gateway_api_key :: string

definition core_cipher :: "fernet \<Rightarrow> cred_settings \<Rightarrow> ((string \<Rightarrow> string) \<times> (string \<Rightarrow> string option)) res" where
  "core_cipher fernet s =
     (let material = strip (cs_encryption_key s) in
      if str_lower (cs_environment s) \<in> {''production'', ''prod''} \<and> material = []
      then Inl (RuntimeError ''CORE_CHANNEL_CREDENTIALS_ENCRYPTION_KEY is required in production'')
      else rbind (secret_cipher_material (py_or (PStr material) (PStr (cs_gateway_api_key s))))
             (\<lambda>m. Inr (fernet m)))"

text \<open>A file that cannot be read counts as an empty store.\<close>

fun read_core_creds :: "core_cred_file \<Rightarrow> (string \<times> string \<times> string) list" where
  "read_core_creds (Holds c) = c"
| "read_core_creds _ = []"

definition upsert_core_key ::
    "fernet \<Rightarrow> cred_settings \<Rightarrow> bool \<Rightarrow> string \<Rightarrow> string \<Rightarrow> string \<Rightarrow> core_cred_file
     \<Rightarrow> string res \<times> core_cred_file" where
  "upsert_core_key fernet s disk_ok connection_id core_channel_id channel_api_key f =
     (let key = strip connection_id; channel = strip core_channel_id; secret = strip channel_api_key in
      if key = [] \<or> channel = [] \<or> secret = []
      then (Inl (ValueError ''connection_id, core_channel_id and channel_api_key are required''), f)
      else case core_cipher fernet s of
             Inl e \<Rightarrow> (Inl e, f)
           | Inr (enc, dec) \<Rightarrow>
               (case replace_file disk_ok
                       (AList.update key (channel, encrypt_secret enc secret) (read_core_creds f)) f of
                  (Inl e, f') \<Rightarrow> (Inl e, f')
                | (Inr _, f') \<Rightarrow> (Inr (''core-channel://'' @ key @ ''/'' @ channel), f')))"

definition get_core_key ::
    "fernet \<Rightarrow> cred_settings \<Rightarrow> string \<Rightarrow> string \<Rightarrow> core_cred_file \<Rightarrow> string option res" where
  "get_core_key fernet s connection_id core_channel_id f =
     (case map_of (read_core_creds f) (strip connection_id) of
        None \<Rightarrow> Inr None
      | Some (channel, encrypted) \<Rightarrow>
          if channel \<noteq> core_channel_id then Inr None
          else rbind (core_cipher fernet s) (\<lambda>(enc, dec).
               rbind (decrypt_or_legacy dec (PStr encrypted)) (\<lambda>(secret, _). Inr (or_none secret))))"

definition delete_core_key :: "bool \<Rightarrow> string \<Rightarrow> core_cred_file \<Rightarrow> unit res \<times> core_cred_file" where
  "delete_core_key disk_ok connection_id f =
     (let key = strip connection_id in
      if key = [] then (Inr (), f)
      else if map_of (read_core_creds f) key = None then (Inr (), f)
      else replace_file disk_ok (AList.delete key (read_core_creds f)) f)"

text \<open>
  a Core key is returned only to the connection and channel it was stored for: after
  \<open>upsert\<close> the pair gets exactly the trimmed key, the connection asking for another channel
  gets nothing, every other connection gets what it got before, and after \<open>delete\<close> the
  connection gets nothing; the file never holds the key itself.
\<close>

theorem core_key_scoped_to_channel:
  assumes cipher: "\<And>m v. snd (fernet m) (fst (fernet m) v) = Some v"
    and fresh: "\<not> is_encrypted (PStr (strip secret))"
    and up: "upsert_core_key fernet s ok cid ch secret f = (Inr ref, f')"
  shows "get_core_key fernet s cid (strip ch) f' = Inr (Some (strip secret)) \<and>
    (\<forall>ch'. ch' = strip ch \<or> get_core_key fernet s cid ch' f' = Inr None) \<and>
    (\<forall>cid' ch'. strip cid' = strip cid \<or> get_core_key fernet s cid' ch' f' = get_core_key fernet s cid' ch' f) \<and>
    (\<forall>ch'. get_core_key fernet s cid ch' (snd (delete_core_key True cid f')) = Inr None) \<and>
    (\<exists>m. map_of (read_core_creds f') (strip cid) =
       Some (strip ch, ENCRYPTED_PREFIX @ fst (fernet m) (strip secret)))"
proof -
  let ?k = "strip cid" and ?c = "strip ch" and ?s = "strip secret"
  have ne: "?k \<noteq> []" "?c \<noteq> []" "?s \<noteq> []"
    using up by (auto simp: upsert_core_key_def Let_def split: if_split_asm)
  obtain enc dec where ed: "core_cipher fernet s = Inr (enc, dec)"
    using up ne by (auto simp: upsert_core_key_def Let_def split: sum.splits)
  then obtain m where m: "fernet m = (enc, dec)"
    by (auto simp: core_cipher_def Let_def rbind_eqs split: if_split_asm)
  have f': "f' = Holds (AList.update ?k (?c, encrypt_secret enc ?s) (read_core_creds f))"
    using up ne ed by (auto simp: upsert_core_key_def Let_def replace_file_def split: if_split_asm)
  have enc: "encrypt_secret enc ?s = ENCRYPTED_PREFIX @ enc ?s"
    using fresh by (simp add: encrypt_secret_def)
  have "dec (enc ?s) = Some ?s" using cipher [of m] m by simp
  then have get: "decrypt_or_legacy dec (PStr (encrypt_secret enc ?s)) = Inr (?s, True)"
    by (simp add: enc decrypt_or_legacy_def starts_with_def)
  have upd: "map_of (read_core_creds f') k =
      (if k = ?k then Some (?c, encrypt_secret enc ?s) else map_of (read_core_creds f) k)" for k
    by (simp add: f' update_conv')
  have del: "map_of (read_core_creds (snd (delete_core_key True cid f'))) ?k = None"
    using upd [of ?k] ne by (simp add: delete_core_key_def Let_def delete_conv')
  show ?thesis
    using ne ed get enc m del by (auto simp: get_core_key_def upd or_none_def intro!: exI [of _ m])
qed

theorem core_key_scoped_to_channel_witness:
  "get_core_key (\<lambda>m. (rev, \<lambda>t. Some (rev t))) \<lparr>cs_environment = ''dev'', cs_encryption_key = [], cs_gateway_api_key = ''g''\<rparr>
     ''c1'' ''h1''
     (snd (upsert_core_key (\<lambda>m. (rev, \<lambda>t. Some (rev t)))
        \<lparr>cs_environment = ''dev'', cs_encryption_key = [], cs_gateway_api_key = ''g''\<rparr> True ''c1'' ''h1'' '' key1'' Absent))
   = Inr (Some ''key1'')"
proof -
  let ?s = "\<lparr>cs_environment = ''dev'', cs_encryption_key = [], cs_gateway_api_key = ''g''\<rparr>"
  let ?f = "\<lambda>m :: string. (rev, \<lambda>t :: string. Some (rev t))"
  have e: "\<not> is_encrypted (PStr (strip '' key1''))" by code_simp
  have t: "strip '' key1'' = ''key1''" "strip ''h1'' = ''h1''" by code_simp+
  have "is_ok (fst (upsert_core_key ?f ?s True ''c1'' ''h1'' '' key1'' Absent))"
    by code_simp
  then obtain ref f' where up: "upsert_core_key ?f ?s True ''c1'' ''h1'' '' key1'' Absent = (Inr ref, f')"
    by (metis is_ok_iff prod.collapse)
  from core_key_scoped_to_channel [OF _ e up] show ?thesis
    unfolding up by (simp add: t)
qed

text \<open>A file that cannot be read is replaced by one that holds only the new key.\<close>

lemma upsert_discards_unreadable_file:
  assumes "upsert_core_key fernet s True cid ch secret Unreadable = (Inr ref, f')"
    and "strip cid' \<noteq> strip cid"
  shows "get_core_key fernet s cid' ch' f' = Inr None"
  using assms
  by (auto simp: upsert_core_key_def get_core_key_def Let_def update_conv'
      split: if_split_asm sum.splits prod.splits)

end
