(* ===== verification/Group_Transport.thy ===== *)
theory Group_Transport
  imports Py_Prelude
begin

text \<open>
  Authorisation of group traffic: \<open>GroupPolicy\<close> and \<open>valid_group_id\<close> of
  \<open>gateway/app/models/canonical_v2.py\<close> and \<open>require_policy\<close> of
  \<open>gateway/app/services/group_transport.py\<close>. Core stores a policy in the connection
  record; every group event, inbound and outbound, passes \<open>require_policy\<close>. A pydantic
  model is the function that checks the declared fields (strict types, no unknown field) and
  then runs the declared validators.
\<close>

section \<open>Group identifiers\<close>

definition group_jid :: "string \<Rightarrow> bool" where
  "group_jid s \<longleftrightarrow>
     s \<noteq> [] \<and> ends_with s ''@g.us'' \<and> 5 < length s \<and> length s \<le> 255 \<and>
     list_all (\<lambda>c. \<not> (is_space c \<or> of_char c < (32 :: nat))) s \<and> count_list s (CHR ''@'') = 1"

fun valid_group_id :: "pval \<Rightarrow> bool res" where
  "valid_group_id (PStr s) = Inr (group_jid s)"
| "valid_group_id v = (if truthy v then Inl AttributeError else Inr False)"

section \<open>The policy\<close>

datatype admission = Explicit | Account

record group_policy =
  gp_connection_ref :: string
  gp_core_channel_id :: string
  gp_binding_id :: string
  gp_enabled :: bool
  gp_authorized :: "string list"
  gp_bot_account :: pval
  gp_admission :: admission
  gp_excluded :: "string list"

definition policy_fields :: "string list" where
  "policy_fields =
    [''connectionRef'', ''coreChannelId'', ''bindingId'', ''contractVersion'', ''enabled'',
     ''evolutionApiProfile'', ''authorizedGroups'', ''botAccount'', ''admission'', ''excludedGroups'']"

definition invalid :: "string \<Rightarrow> 'a res" where
  "invalid field = Inl (ValueError (''validation error: '' @ field))"

fun strict_str :: "string \<Rightarrow> pval \<Rightarrow> string res" where
  "strict_str field (PStr s) = Inr s"
| "strict_str field _ = invalid field"

fun strict_str_list :: "string \<Rightarrow> pval list \<Rightarrow> string list res" where
  "strict_str_list field [] = Inr []"
| "strict_str_list field (v # vs) =
     rbind (strict_str field v) (\<lambda>s. rbind (strict_str_list field vs) (\<lambda>ss. Inr (s # ss)))"

definition jid_list :: "string \<Rightarrow> pval \<Rightarrow> string list res" where
  "jid_list field v =
     (case v of
        PList vs \<Rightarrow> if length vs \<le> 1000 then strict_str_list field vs else invalid field
      | _ \<Rightarrow> invalid field)"

definition is_identity :: "pval \<Rightarrow> bool" where
  "is_identity v =
     (case v of
        PDict d \<Rightarrow>
          list_all (\<lambda>(k, _). k \<in> {''externalId'', ''displayName''}) d \<and>
          list_all (\<lambda>k. dhas d k \<and> (dget d k = PNone \<or> is_str (dget d k))) [''externalId'', ''displayName'']
      | _ \<Rightarrow> False)"

definition with_default :: "pdict \<Rightarrow> string \<Rightarrow> pval \<Rightarrow> pval" where
  "with_default d k v = (if dhas d k then dget d k else v)"

definition policy_admission :: "pval \<Rightarrow> admission res" where
  "policy_admission v =
     (if v = PStr ''explicit'' then Inr Explicit
      else if v = PStr ''account'' then Inr Account else invalid ''admission'')"

definition policy_enabled :: "pval \<Rightarrow> bool res" where
  "policy_enabled v = (case v of PBool b \<Rightarrow> Inr b | _ \<Rightarrow> invalid ''enabled'')"

text \<open>\<open>GroupPolicy.model_validate(value)\<close>, \<open>validate_groups\<close> last.\<close>

definition validate_policy :: "pval \<Rightarrow> group_policy res" where
  "validate_policy value =
     (case value of
        PDict d \<Rightarrow>
          if \<not> list_all (\<lambda>(k, _). k \<in> set policy_fields) d then invalid ''extra fields''
          else
            rbind (strict_str ''connectionRef'' (dget d ''connectionRef'')) (\<lambda>connection.
            rbind (strict_str ''coreChannelId'' (dget d ''coreChannelId'')) (\<lambda>channel.
            rbind (strict_str ''bindingId'' (dget d ''bindingId'')) (\<lambda>binding.
            rbind (if dget d ''contractVersion'' = PStr ''canonical-v2'' then Inr ()
                   else invalid ''contractVersion'') (\<lambda>_.
            rbind (policy_enabled (with_default d ''enabled'' (PBool False))) (\<lambda>enabled.
            rbind (if dget d ''evolutionApiProfile'' = PStr ''evolution-v2-sendText'' then Inr ()
                   else invalid ''evolutionApiProfile'') (\<lambda>_.
            rbind (jid_list ''authorizedGroups'' (dget d ''authorizedGroups'')) (\<lambda>authorized.
            rbind (if is_identity (dget d ''botAccount'') then Inr (dget d ''botAccount'')
                   else invalid ''botAccount'') (\<lambda>bot.
            rbind (policy_admission (with_default d ''admission'' (PStr ''explicit''))) (\<lambda>admission.
            rbind (jid_list ''excludedGroups'' (with_default d ''excludedGroups'' (PList []))) (\<lambda>excluded.
              if \<not> list_all group_jid (authorized @ excluded)
              then Inl (ValueError ''Expected complete Evolution group JIDs'')
              else if \<not> distinct authorized then Inl (ValueError ''Duplicate group authorization'')
              else Inr \<lparr> gp_connection_ref = connection, gp_core_channel_id = channel,
                         gp_binding_id = binding, gp_enabled = enabled, gp_authorized = authorized,
                         gp_bot_account = bot, gp_admission = admission, gp_excluded = excluded \<rparr>))))))))))
      | _ \<Rightarrow> invalid ''policy'')"

section \<open>require_policy\<close>

text \<open>
  What the policy check reads besides the record: the \<open>enable_group_messages\<close> setting and
  the webhooks of the connection, whose listing raises \<open>RuntimeError\<close> when a stored secret cannot be
  decrypted.
\<close>

record group_env =
  ge_enabled :: bool
  ge_hooks :: "pval \<Rightarrow> pdict list res"

text \<open>\<open>value[key]\<close>.\<close>

fun vindex :: "pval \<Rightarrow> string \<Rightarrow> pval res" where
  "vindex (PDict d) k = (case map_of d k of None \<Rightarrow> Inl (KeyError k) | Some v \<Rightarrow> Inr v)"
| "vindex _ k = Inl TypeError"

definition account_webhook_ok :: "group_env \<Rightarrow> pdict \<Rightarrow> pval \<Rightarrow> unit res" where
  "account_webhook_ok env record binding =
     rbind (vindex (PDict record) ''legacy_name'') (\<lambda>name.
     rbind (ge_hooks env name) (\<lambda>hooks.
     rbind (vget binding ''inboundUrl'') (\<lambda>url.
         case filter (\<lambda>h. truthy (dget h ''enabled'')) hooks of
           [h] \<Rightarrow> if dget h ''url'' = url then Inr () else Inl (ValueError ''Account webhook changed'')
         | _ \<Rightarrow> Inl (ValueError ''Account webhook changed''))))"

definition group_admitted :: "group_policy \<Rightarrow> pval \<Rightarrow> bool res" where
  "group_admitted p group_id =
     rbind (valid_group_id group_id) (\<lambda>ok.
       Inr (ok \<and> (case group_id of
                     PStr g \<Rightarrow> g \<notin> set (gp_excluded p) \<and>
                       (gp_admission p = Explicit \<longrightarrow> g \<in> set (gp_authorized p))
                   | _ \<Rightarrow> False)))"

definition require_policy ::
    "group_env \<Rightarrow> pdict option \<Rightarrow> pval \<Rightarrow> pval \<Rightarrow> group_policy res" where
  "require_policy env record group_id policy =
     (let binding = py_or (dget (case record of None \<Rightarrow> [] | Some r \<Rightarrow> r) ''core_channel'') (PDict []) in
      rbind (if policy \<noteq> PNone then Inr policy else vget binding ''groupTransport'') (\<lambda>value.
      rbind (validate_policy value) (\<lambda>parsed.
      case record of
        None \<Rightarrow> Inl AttributeError
      | Some r \<Rightarrow>
          if (dget r ''provider_id'', dget r ''channel_id'') \<noteq> (PStr ''evolution'', PStr ''whatsapp'')
          then Inl (ValueError ''Unsupported group provider/channel'')
          else
            rbind (vget binding ''channelId'') (\<lambda>channel.
            rbind (vget binding ''bindingId'') (\<lambda>binding_id.
            if dget r ''id'' \<noteq> PStr (gp_connection_ref parsed) \<or> channel \<noteq> PStr (gp_core_channel_id parsed) \<or>
               binding_id \<noteq> PStr (gp_binding_id parsed) \<or> gp_binding_id parsed = []
            then Inl (ValueError ''Group binding mismatch'')
            else if policy = PNone \<and> \<not> (ge_enabled env \<and> gp_enabled parsed)
            then Inl (ValueError ''Group transport disabled'')
            else
              rbind (if policy = PNone \<and> gp_admission parsed = Account
                     then account_webhook_ok env r binding else Inr ()) (\<lambda>_.
              if group_id = PNone then Inr parsed
              else rbind (group_admitted parsed group_id) (\<lambda>ok.
                     if ok then Inr parsed else Inl (ValueError ''Group not authorized''))))))))"

lemma require_policy_Inr:
  assumes "require_policy env record group_id PNone = Inr p"
  obtains r b where "record = Some r" and "dget r ''provider_id'' = PStr ''evolution''"
    and "dget r ''channel_id'' = PStr ''whatsapp''"
    and "py_or (dget r ''core_channel'') (PDict []) = PDict b"
    and "validate_policy (dget b ''groupTransport'') = Inr p"
    and "dget r ''id'' = PStr (gp_connection_ref p)"
    and "dget b ''channelId'' = PStr (gp_core_channel_id p)"
    and "dget b ''bindingId'' = PStr (gp_binding_id p)" and "gp_binding_id p \<noteq> []"
    and "ge_enabled env" and "gp_enabled p"
    and "gp_admission p = Account \<Longrightarrow> account_webhook_ok env r (PDict b) = Inr ()"
    and "group_id = PNone \<or> group_admitted p group_id = Inr True"
proof -
  let ?b = "py_or (dget (case record of None \<Rightarrow> [] | Some r \<Rightarrow> r) ''core_channel'') (PDict [])"
  obtain r where r: "record = Some r"
    using assms by (cases "record") (auto simp: require_policy_def Let_def rbind_eqs)
  obtain b where b: "?b = PDict b"
    using assms by (cases ?b) (auto simp: require_policy_def Let_def rbind_eqs)
  show ?thesis
    by (rule that [of r b])
      (use assms r b in \<open>auto simp: require_policy_def Let_def rbind_eqs split: if_split_asm\<close>)
qed

lemma validate_policy_groups:
  assumes "validate_policy v = Inr p"
  shows "list_all group_jid (gp_authorized p @ gp_excluded p) \<and> distinct (gp_authorized p)"
  using assms
  by (cases v) (auto simp: validate_policy_def invalid_def rbind_eqs split: if_split_asm)

lemma policy_admits:
  assumes "require_policy env record group_id PNone = Inr p" and "group_id \<noteq> PNone"
  shows "ge_enabled env \<and> gp_enabled p \<and>
    (\<exists>r b g. record = Some r \<and> dget r ''core_channel'' = PDict b \<and> group_id = PStr g \<and>
      dget r ''id'' = PStr (gp_connection_ref p) \<and> dget b ''channelId'' = PStr (gp_core_channel_id p) \<and>
      dget b ''bindingId'' = PStr (gp_binding_id p) \<and>
      group_jid g \<and> g \<notin> set (gp_excluded p) \<and>
      (gp_admission p = Account \<or> g \<in> set (gp_authorized p))) \<and>
    list_all group_jid (gp_authorized p @ gp_excluded p)"
proof -
  obtain r b where *: "record = Some r" "py_or (dget r ''core_channel'') (PDict []) = PDict b"
    "validate_policy (dget b ''groupTransport'') = Inr p"
    "dget r ''id'' = PStr (gp_connection_ref p)" "dget b ''channelId'' = PStr (gp_core_channel_id p)"
    "dget b ''bindingId'' = PStr (gp_binding_id p)" "ge_enabled env" "gp_enabled p"
    "group_id = PNone \<or> group_admitted p group_id = Inr True"
    using assms(1) by (rule require_policy_Inr)
  have "dget r ''core_channel'' = PDict b"
    using *(2,5) by (auto simp: py_or_def split: if_split_asm)
  moreover obtain g where "group_id = PStr g" "group_jid g" "g \<notin> set (gp_excluded p)"
    "gp_admission p = Explicit \<longrightarrow> g \<in> set (gp_authorized p)"
    using *(9) assms(2) by (cases group_id) (auto simp: group_admitted_def rbind_eqs)
  moreover have "gp_admission p = Account \<or> gp_admission p = Explicit" by (cases "gp_admission p") auto
  ultimately show ?thesis using * validate_policy_groups [OF *(3)] by blast
qed

text \<open>
  a group event passes only under its own connection's policy: when \<open>require_policy\<close>
  answers for a group, group messages are enabled by the operator and by the policy, the policy
  is that of the connection record, for its channel and its binding, and the group is a
  well-formed group id that the policy does not exclude and, unless the whole account is
  admitted, names.
\<close>

theorem policy_authorizes_only_listed_groups:
  assumes "require_policy env record group_id PNone = Inr p" and "group_id \<noteq> PNone"
  shows "ge_enabled env \<and> gp_enabled p \<and>
    (\<exists>r b g. record = Some r \<and> dget r ''core_channel'' = PDict b \<and> group_id = PStr g \<and>
      dget r ''id'' = PStr (gp_connection_ref p) \<and> dget b ''channelId'' = PStr (gp_core_channel_id p) \<and>
      dget b ''bindingId'' = PStr (gp_binding_id p) \<and>
      group_jid g \<and> g \<notin> set (gp_excluded p) \<and>
      (gp_admission p = Account \<or> g \<in> set (gp_authorized p))) \<and>
    list_all group_jid (gp_authorized p @ gp_excluded p)"
  by (rule policy_admits [OF assms])

definition sample_policy :: pdict where
  "sample_policy =
    [(''connectionRef'', PStr ''c1''), (''coreChannelId'', PStr ''h1''), (''bindingId'', PStr ''b1''),
     (''contractVersion'', PStr ''canonical-v2''), (''enabled'', PBool True),
     (''evolutionApiProfile'', PStr ''evolution-v2-sendText''),
     (''authorizedGroups'', PList [PStr ''12@g.us'']),
     (''botAccount'', PDict [(''externalId'', PNone), (''displayName'', PNone)])]"

definition sample_record :: pdict where
  "sample_record =
    [(''id'', PStr ''c1''), (''provider_id'', PStr ''evolution''), (''channel_id'', PStr ''whatsapp''),
     (''legacy_name'', PStr ''wa1''),
     (''core_channel'', PDict [(''channelId'', PStr ''h1''), (''bindingId'', PStr ''b1''),
        (''groupTransport'', PDict sample_policy)])]"

lemma sample_policy_runs:
  "case require_policy \<lparr>ge_enabled = True, ge_hooks = (\<lambda>_. Inr [])\<rparr> (Some sample_record) (PStr ''12@g.us'') PNone
     of Inr p \<Rightarrow> gp_authorized p = [''12@g.us''] \<and> gp_binding_id p = ''b1'' | Inl _ \<Rightarrow> False"
  by code_simp

theorem policy_authorizes_only_listed_groups_witness:
  "\<exists>p. require_policy \<lparr>ge_enabled = True, ge_hooks = (\<lambda>_. Inr [])\<rparr> (Some sample_record) (PStr ''12@g.us'') PNone
      = Inr p \<and> gp_enabled p \<and> list_all group_jid (gp_authorized p @ gp_excluded p)"
proof -
  obtain p where p: "require_policy \<lparr>ge_enabled = True, ge_hooks = (\<lambda>_. Inr [])\<rparr> (Some sample_record)
      (PStr ''12@g.us'') PNone = Inr p"
    using sample_policy_runs by (simp split: sum.split_asm)
  from policy_authorizes_only_listed_groups [OF p] p show ?thesis by simp
qed

end
