(* ===== verification/Core_Dispatch.thy ===== *)
theory Core_Dispatch
  imports Core_Outbox Group_Transport Core_Credentials
begin

text \<open>
  The dispatcher between the outbox and Core: \<open>CoreInboundDispatcher\<close> of
  \<open>gateway/app/services/core_inbound_dispatcher.py\<close>. Persisting an event resolves the
  channel it belongs to; dispatching claims what is due and, for each delivery, decides whether
  it may be sent, sends it, and settles it by the answer. The registry, the credential store
  and the HTTP client are fields of an environment; the store's operations are arguments, so
  the same dispatcher runs on the JSON and on the PostgreSQL store.
\<close>

section \<open>The environment\<close>

record core_request =
  rq_url :: pval
  rq_body :: pdict
  rq_authorization :: string
  rq_contract_version :: pval

text \<open>What \<open>client.post\<close> ends in: a status, an \<open>httpx\<close> transport error with its class, any other exception.\<close>

datatype http_outcome = Response int | Transport_Error string | Other_Error py_exc

record dispatch_env =
  de_record :: "string \<Rightarrow> pdict option res"
  de_group :: group_env
  de_binding :: "string \<Rightarrow> string option res"
  de_api_key :: "string \<Rightarrow> string \<Rightarrow> string option res"
  de_post :: "core_request \<Rightarrow> http_outcome"

record dispatch_settings =
  ds_url :: string
  ds_batch_size :: int
  ds_lease_seconds :: int
  ds_max_attempts :: int
  ds_backoff_seconds :: int

section \<open>Persisting an event\<close>

text \<open>
  The channel of an event, and the error it is stored with when there is none.
\<close>

definition event_channel ::
    "dispatch_env \<Rightarrow> pdict \<Rightarrow> (string option \<times> string option) res" where
  "event_channel env event =
     (let transport = as_dict (dget event ''transport'');
          connection_id = text_of (dget transport ''connectionRef'')
      in if dget event ''contractVersion'' = PStr ''canonical-v2''
         then rbind (de_record env connection_id) (\<lambda>rec.
              rbind (vindex (PDict event) ''chat'') (\<lambda>chat.
              rbind (vindex chat ''externalId'') (\<lambda>group_id.
              rbind (require_policy (de_group env) rec group_id PNone) (\<lambda>policy.
                if PStr (gp_binding_id policy) \<noteq> dget transport ''bindingId'' \<or>
                   PStr (gp_core_channel_id policy) \<noteq> dget transport ''coreChannelId''
                then Inl (PersistenceError ''Group binding mismatch'')
                else Inr (Some (gp_core_channel_id policy), None)))))
         else (case de_binding env connection_id of
                 Inr (Some channel) \<Rightarrow> Inr (Some channel, None)
               | _ \<Rightarrow> Inr (None, Some ''core_channel_binding_missing'')))"

type_synonym 'f enqueue_op =
  "bool \<Rightarrow> int \<Rightarrow> string \<Rightarrow> pdict \<Rightarrow> string option \<Rightarrow> string option \<Rightarrow> 'f \<Rightarrow> (delivery \<times> bool) res \<times> 'f"

definition persist ::
    "'f enqueue_op \<Rightarrow> dispatch_env \<Rightarrow> bool \<Rightarrow> int \<Rightarrow> string \<Rightarrow> pdict \<Rightarrow> 'f
     \<Rightarrow> (delivery \<times> bool) res \<times> 'f" where
  "persist enq env disk_ok now uid event f =
     (case event_channel env event of
        Inl e \<Rightarrow> (Inl e, f)
      | Inr (channel, err) \<Rightarrow> enq disk_ok now uid event channel err f)"

text \<open>Events are persisted one by one; the first that fails ends the call, with those before it kept.\<close>

fun persist_many ::
    "'f enqueue_op \<Rightarrow> dispatch_env \<Rightarrow> (bool \<times> int \<times> string \<times> pdict) list \<Rightarrow> 'f
     \<Rightarrow> delivery list res \<times> 'f" where
  "persist_many enq env [] f = (Inr [], f)"
| "persist_many enq env ((disk_ok, now, uid, event) # es) f =
     (case persist enq env disk_ok now uid event f of
        (Inl e, f') \<Rightarrow> (Inl e, f')
      | (Inr (d, _), f') \<Rightarrow>
          (case persist_many enq env es f' of
             (Inl e, f'') \<Rightarrow> (Inl e, f'')
           | (Inr ds, f'') \<Rightarrow> (Inr (d # ds), f'')))"

section \<open>The operational view\<close>

definition attachment_view :: "pval \<Rightarrow> pval" where
  "attachment_view a =
     PDict (map (\<lambda>k. (k, dget (as_dict a) k)) [''kind'', ''providerMediaId'', ''mimeType'', ''fileName'', ''size''])"

fun status_str :: "delivery_status \<Rightarrow> string" where
  "status_str Pending = ''pending''"
| "status_str Delivering = ''delivering''"
| "status_str Retry = ''retry''"
| "status_str Delivered = ''delivered''"
| "status_str Failed = ''failed''"
| "status_str Dead_Letter = ''dead_letter''"

definition delivery_view :: "delivery \<Rightarrow> pdict" where
  "delivery_view d =
     (let event = dl_event d;
          message = as_dict (dget event ''message'');
          sender = as_dict (dget message ''sender'');
          recipient = as_dict (dget message ''recipient'');
          trace = as_dict (dget event ''trace'');
          attachments = as_list (dget message ''attachments'')
      in [(''id'', PStr (dl_id d)), (''event_id'', PStr (dl_event_id d)),
          (''provider_account_id'', PStr (dl_provider_account_id d)),
          (''core_channel_id'', pstr_opt (dl_core_channel_id d)),
          (''status'', PStr (status_str (dl_status d))), (''attempt_count'', PInt (dl_attempt_count d)),
          (''created_at'', PInt (dl_created_at d)), (''updated_at'', PInt (dl_updated_at d)),
          (''last_attempt_at'', pint_opt (dl_last_attempt_at d)),
          (''delivered_at'', pint_opt (dl_delivered_at d)), (''last_error'', pstr_opt (dl_last_error d)),
          (''duplicate_acknowledged'', PBool (dl_duplicate_acknowledged d)),
          (''provider_message_id'', dget message ''providerMessageId''),
          (''event_type'', dget event ''eventType''), (''kind'', dget message ''kind''),
          (''text'', dget message ''content''), (''sender_external_id'', dget sender ''externalId''),
          (''recipient_external_id'', dget recipient ''externalId''),
          (''attachments'', PList (map attachment_view (filter is_dict attachments))),
          (''request_id'', dget trace ''requestId''), (''correlation_id'', dget trace ''correlationId'')])"

definition list_connection_deliveries :: "string \<Rightarrow> int \<Rightarrow> outbox_file \<Rightarrow> pdict list res" where
  "list_connection_deliveries connection_id limit f =
     rbind (list_for_connection connection_id limit f) (\<lambda>ds. Inr (map delivery_view ds))"

section \<open>Delivering\<close>

datatype verdict =
    Confirmed bool
  | Rejected string
  | Try_Again string
  | Aborted py_exc

text \<open>The identifiers every log line of a delivery reads from its event.\<close>

definition log_fields :: "pdict \<Rightarrow> unit res" where
  "log_fields event =
     rbind (vget (py_or (dget event ''trace'') (PDict [])) ''requestId'') (\<lambda>_.
     rbind (vget (py_or (dget event ''message'') (PDict [])) ''providerMessageId'') (\<lambda>_. Inr ()))"

text \<open>
  The URL of a group event, from the connection record, if the policy of this moment still
  authorises the event under the binding it was stored with.
\<close>

definition group_url :: "dispatch_env \<Rightarrow> string \<Rightarrow> delivery \<Rightarrow> string \<Rightarrow> pval res" where
  "group_url env core_channel_id d url =
     rbind (de_record env (dl_connection_id d)) (\<lambda>rec.
     rbind (vindex (PDict (dl_event d)) ''chat'') (\<lambda>chat.
     rbind (vindex chat ''externalId'') (\<lambda>group_id.
     rbind (require_policy (de_group env) rec group_id PNone) (\<lambda>policy.
     rbind (vindex (PDict (dl_event d)) ''transport'') (\<lambda>transport.
     rbind (vindex transport ''bindingId'') (\<lambda>binding_id.
     let r = (case rec of None \<Rightarrow> [] | Some r \<Rightarrow> r) in
     rbind (if PStr (gp_binding_id policy) \<noteq> binding_id \<or> gp_core_channel_id policy \<noteq> core_channel_id
            then Inr False
            else rbind (vindex (PDict r) ''legacy_name'') (\<lambda>name.
                 rbind (vindex transport ''providerAccountRef'') (\<lambda>ref. Inr (name = ref)))) (\<lambda>same.
     if \<not> same then Inl (ValueError ''Binding changed'')
     else rbind (vget (py_or (dget r ''core_channel'') (PDict [])) ''inboundUrl'') (\<lambda>inbound.
            Inr (py_or inbound (PStr url))))))))))"

fun refuses_group :: "py_exc \<Rightarrow> bool" where
  "refuses_group (ValueError _) = True"
| "refuses_group TypeError = True"
| "refuses_group (KeyError _) = True"
| "refuses_group AttributeError = True"
| "refuses_group _ = False"

definition delivery_url :: "dispatch_env \<Rightarrow> dispatch_settings \<Rightarrow> string \<Rightarrow> delivery \<Rightarrow> verdict + pval" where
  "delivery_url env s core_channel_id d =
     (if dget (dl_event d) ''contractVersion'' = PStr ''canonical-v2''
      then (case group_url env core_channel_id d (ds_url s) of
              Inr u \<Rightarrow> Inr u
            | Inl e \<Rightarrow> if refuses_group e
                then Inl (Rejected ''group_authorization_revoked_or_binding_changed'') else Inl (Aborted e))
      else Inr (PStr (ds_url s)))"

text \<open>
  Either the verdict of a delivery that is not sent, or the request that is: the event with
  the key of its connection and channel.
\<close>

definition prepare :: "dispatch_env \<Rightarrow> dispatch_settings \<Rightarrow> delivery \<Rightarrow> verdict + core_request" where
  "prepare env s d =
     (let core_channel_id = (case dl_core_channel_id d of None \<Rightarrow> [] | Some c \<Rightarrow> c) in
      if core_channel_id = [] then Inl (Rejected ''core_channel_binding_missing'')
      else case delivery_url env s core_channel_id d of
        Inl v \<Rightarrow> Inl v
      | Inr url \<Rightarrow>
          if \<not> truthy url then Inl (Rejected ''core_inbound_url_missing'')
          else (case de_api_key env (dl_connection_id d) core_channel_id of
                  Inr (Some key) \<Rightarrow>
                    if key = [] then Inl (Rejected ''core_channel_credential_missing'')
                    else (case log_fields (dl_event d) of
                            Inl e \<Rightarrow> Inl (Aborted e)
                          | Inr _ \<Rightarrow>
                              Inr \<lparr> rq_url = url, rq_body = dl_event d,
                                    rq_authorization = ''Bearer '' @ key,
                                    rq_contract_version =
                                      (if dhas (dl_event d) ''contractVersion''
                                       then dget (dl_event d) ''contractVersion'' else PStr ''canonical-v1'') \<rparr>)
                | _ \<Rightarrow> Inl (Rejected ''core_channel_credential_missing'')))"

definition permanent_codes :: "int set" where
  "permanent_codes = {400, 401, 403, 404, 405, 410, 422}"

fun classify :: "http_outcome \<Rightarrow> verdict" where
  "classify (Transport_Error c) = Try_Again (''transport:'' @ c)"
| "classify (Other_Error e) = Aborted e"
| "classify (Response code) =
     (if 200 \<le> code \<and> code < 300 then Confirmed False
      else if code = 409 then Confirmed True
      else if code \<in> permanent_codes then Rejected (''http_'' @ int_str code)
      else Try_Again (''http_'' @ int_str code))"

definition verdict_of :: "dispatch_env \<Rightarrow> dispatch_settings \<Rightarrow> delivery \<Rightarrow> verdict" where
  "verdict_of env s d = (case prepare env s d of Inl v \<Rightarrow> v | Inr rq \<Rightarrow> classify (de_post env rq))"

text \<open>
  Settling by the verdict. A refusal is logged after it is stored, and the log line reads the
  event again.
\<close>

definition logged :: "delivery res \<times> 'f \<Rightarrow> unit res \<times> 'f" where
  "logged r = (case r of (Inl e, f) \<Rightarrow> (Inl e, f) | (Inr d, f) \<Rightarrow> (log_fields (dl_event d), f))"

definition stored :: "delivery res \<times> 'f \<Rightarrow> unit res \<times> 'f" where
  "stored r = (case r of (Inl e, f) \<Rightarrow> (Inl e, f) | (Inr d, f) \<Rightarrow> (Inr (), f))"

fun settle :: "'f get_op \<Rightarrow> 'f update_op \<Rightarrow> dispatch_settings \<Rightarrow> bool \<Rightarrow> int \<Rightarrow> string \<Rightarrow> verdict \<Rightarrow> 'f
    \<Rightarrow> unit res \<times> 'f" where
  "settle get update s ok now i (Confirmed dup) f = stored (complete update ok now i dup f)"
| "settle get update s ok now i (Rejected e) f = logged (fail_permanently update ok now i e f)"
| "settle get update s ok now i (Try_Again e) f =
     logged (retry_or_dead_letter get update ok now i e (max 1 (ds_max_attempts s))
       (max 0 (ds_backoff_seconds s)) f)"
| "settle get update s ok now i (Aborted e) f = (Inl e, f)"

definition deliver ::
    "'f get_op \<Rightarrow> 'f update_op \<Rightarrow> dispatch_env \<Rightarrow> dispatch_settings \<Rightarrow> bool \<Rightarrow> int \<Rightarrow> delivery \<Rightarrow> 'f
     \<Rightarrow> unit res \<times> 'f" where
  "deliver get update env s ok now d f =
     settle get update s ok now (dl_id d) (verdict_of env s d) f"

text \<open>The batch: the first exception ends it and leaves the rest leased.\<close>

fun deliver_all ::
    "'f get_op \<Rightarrow> 'f update_op \<Rightarrow> dispatch_env \<Rightarrow> dispatch_settings \<Rightarrow> (string \<Rightarrow> bool \<times> int)
     \<Rightarrow> delivery list \<Rightarrow> 'f \<Rightarrow> unit res \<times> 'f" where
  "deliver_all get update env s at [] f = (Inr (), f)"
| "deliver_all get update env s at (d # ds) f =
     (case deliver get update env s (fst (at (dl_id d))) (snd (at (dl_id d))) d f of
        (Inl e, f') \<Rightarrow> (Inl e, f')
      | (Inr _, f') \<Rightarrow> deliver_all get update env s at ds f')"

type_synonym 'f claim_op = "bool \<Rightarrow> int \<Rightarrow> int \<Rightarrow> int \<Rightarrow> 'f \<Rightarrow> delivery list res \<times> 'f"

definition dispatch_due ::
    "'f get_op \<Rightarrow> 'f update_op \<Rightarrow> 'f claim_op \<Rightarrow> dispatch_env \<Rightarrow> dispatch_settings \<Rightarrow> bool \<Rightarrow> int
     \<Rightarrow> (string \<Rightarrow> bool \<times> int) \<Rightarrow> 'f \<Rightarrow> nat res \<times> 'f" where
  "dispatch_due get update claim env s ok now at f =
     (case claim ok now (max 1 (ds_batch_size s)) (max 1 (ds_lease_seconds s)) f of
        (Inl e, f') \<Rightarrow> (Inl e, f')
      | (Inr claimed, f') \<Rightarrow>
          (case deliver_all get update env s at claimed f' of
             (Inl e, f'') \<Rightarrow> (Inl e, f'')
           | (Inr _, f'') \<Rightarrow> (Inr (length claimed), f'')))"

end
