(* ===== verification/Core_Dispatch_Spec.thy ===== *)
theory Core_Dispatch_Spec
  imports Core_Dispatch
begin

text \<open>
  What the dispatcher promises on any store that keeps the contract \<open>delivery_store\<close>:
  the answer of Core decides the state of the delivery, nothing is sent that the stored
  binding does not authorise, and a batch that ends leaves nothing in flight.
\<close>

section \<open>Settling, on any store\<close>

context delivery_store begin

lemma confirmed_settles:
  assumes "get i f = Inr (Some d)"
  shows "\<exists>f' d'. settle get update s True now i (Confirmed dup) f = (Inr (), f') \<and>
    get i f' = Inr (Some d') \<and> identity d' = identity d \<and>
    dl_status d' = Delivered \<and> dl_duplicate_acknowledged d' = dup"
  using complete_settles [OF assms, of now dup] by (auto simp: stored_def)

lemma rejected_settles:
  assumes "get i f = Inr (Some d)" and "log_fields (dl_event d) = Inr ()"
  shows "\<exists>f' d'. settle get update s True now i (Rejected e) f = (Inr (), f') \<and>
    get i f' = Inr (Some d') \<and> identity d' = identity d \<and>
    dl_status d' = Failed \<and> dl_last_error d' = Some e"
proof -
  obtain f' d' where *: "fail_permanently update True now i e f = (Inr d', f')"
    "get i f' = Inr (Some d')" "dl_status d' = Failed" "dl_last_error d' = Some e"
    "identity d' = identity d"
    using fail_settles [OF assms(1)] by blast
  then have "dl_event d' = dl_event d" by (simp add: identity_def)
  then show ?thesis using * assms(2) by (simp add: logged_def)
qed

lemma try_again_settles:
  assumes "get i f = Inr (Some d)" and "log_fields (dl_event d) = Inr ()"
  shows "\<exists>f' d'. settle get update s True now i (Try_Again e) f = (Inr (), f') \<and>
    get i f' = Inr (Some d') \<and> identity d' = identity d \<and> dl_last_error d' = Some e \<and>
    dl_status d' = (if dl_attempt_count d < max 1 (ds_max_attempts s) then Retry else Dead_Letter)"
proof -
  obtain f' d' where *: "retry_or_dead_letter get update True now i e (max 1 (ds_max_attempts s))
      (max 0 (ds_backoff_seconds s)) f = (Inr d', f')"
    "get i f' = Inr (Some d')" "identity d' = identity d" "dl_last_error d' = Some e"
    "if dl_attempt_count d \<ge> max 1 (max 1 (ds_max_attempts s))
     then dl_status d' = Dead_Letter \<and> dl_next_attempt_at d' = None
     else dl_status d' = Retry \<and> dl_next_attempt_at d' =
       Some (now + retry_delay (max 0 (ds_backoff_seconds s)) (dl_attempt_count d) * 1000)"
    using retry_settles [OF assms(1)] by blast
  then have "dl_event d' = dl_event d" by (simp add: identity_def)
  then show ?thesis using * assms(2)
    by (simp add: logged_def not_le [symmetric] split: if_split_asm)
qed

lemma settled:
  assumes "settle get update s ok now i v f = (Inr (), f')"
  shows "\<exists>d'. get i f' = Inr (Some d') \<and> dl_status d' \<noteq> Delivering"
proof (cases v)
  case (Confirmed dup)
  then obtain d' where u: "update ok now i (complete_changes now dup) f = (Inr d', f')"
    using assms by (auto simp: stored_def complete_def split: prod.splits sum.splits)
  have "get i f' = Inr (Some d')" by (rule get_updated [OF u]) (simp add: store_simps)
  moreover have "dl_status d' = Delivered" using updated_was [OF u] by (auto simp: complete_changes_def)
  ultimately show ?thesis by auto
next
  case (Rejected e)
  then obtain d' where u: "update ok now i (fail_changes e) f = (Inr d', f')"
    using assms by (auto simp: logged_def fail_permanently_def split: prod.splits sum.splits)
  have "get i f' = Inr (Some d')" by (rule get_updated [OF u]) (simp add: store_simps)
  moreover have "dl_status d' = Failed" using updated_was [OF u] by (auto simp: fail_changes_def)
  ultimately show ?thesis by auto
next
  case (Try_Again e)
  then obtain d' a b where u: "update ok now i (retry_changes now e (max 1 (ds_max_attempts s)) b a) f = (Inr d', f')"
    using assms
    by (auto simp: logged_def retry_or_dead_letter_def split: prod.splits sum.splits option.splits)
  have "get i f' = Inr (Some d')" by (rule get_updated [OF u]) (simp add: store_simps)
  moreover have "dl_status d' \<noteq> Delivering"
    using updated_was [OF u] by (auto simp: retry_changes_def split: if_split_asm)
  ultimately show ?thesis by auto
next
  case (Aborted e)
  then show ?thesis using assms by simp
qed

lemma settling_frame:
  assumes "j \<noteq> i"
  shows "complete update ok now i dup f = (r, f') \<Longrightarrow> get j f' = get j f"
    and "retry_or_dead_letter get update ok now i er m b f = (r, f') \<Longrightarrow> get j f' = get j f"
    and "fail_permanently update ok now i er f = (r, f') \<Longrightarrow> get j f' = get j f"
  by (cases r; metis assms settling_failed settling_other)+

lemma logged_file: "snd (logged r) = snd r" and stored_file: "snd (stored r) = snd r"
  by (auto simp: logged_def stored_def split: prod.splits sum.splits)

lemma settle_other:
  assumes "settle get update s ok now i v f = (r, f')" and "j \<noteq> i"
  shows "get j f' = get j f"
proof -
  have f': "f' = snd (settle get update s ok now i v f)" using assms(1) by simp
  show ?thesis
    unfolding f'
    by (cases v; simp only: settle.simps logged_file stored_file snd_conv;
        metis settling_frame [OF assms(2)] prod.collapse)
qed

lemma deliver_all_other:
  assumes "deliver_all get update env s at ds f = (r, f')" and "j \<notin> dl_id ` set ds"
  shows "get j f' = get j f"
  using assms
proof (induction ds arbitrary: f)
  case (Cons d ds)
  obtain r1 f1 where 1: "deliver get update env s (fst (at (dl_id d))) (snd (at (dl_id d))) d f = (r1, f1)"
    by (rule prod.exhaust)
  have "get j f1 = get j f"
    using settle_other [OF 1 [unfolded deliver_def]] Cons.prems(2) by simp
  then show ?case
    using Cons 1 by (cases r1) auto
qed simp

lemma deliver_all_settles:
  assumes "deliver_all get update env s at ds f = (Inr (), f')" and "distinct (map dl_id ds)"
    and "d \<in> set ds"
  shows "\<exists>d'. get (dl_id d) f' = Inr (Some d') \<and> dl_status d' \<noteq> Delivering"
  using assms
proof (induction ds arbitrary: f)
  case (Cons x ds)
  obtain f1 where 1: "deliver get update env s (fst (at (dl_id x))) (snd (at (dl_id x))) x f = (Inr (), f1)"
    and 2: "deliver_all get update env s at ds f1 = (Inr (), f')"
    using Cons.prems(1) by (auto split: prod.splits sum.splits)
  show ?case
  proof (cases "d = x")
    case True
    have "get (dl_id x) f' = get (dl_id x) f1"
      using deliver_all_other [OF 2] Cons.prems(2) by simp
    then show ?thesis using settled [OF 1 [unfolded deliver_def]] True by simp
  next
    case False
    then show ?thesis using Cons.IH [OF 2] Cons.prems by simp
  qed
qed simp

end

section \<open>The answer of Core decides\<close>

lemma prepare_logs: "prepare env s d = Inr rq \<Longrightarrow> log_fields (dl_event d) = Inr ()"
  by (auto simp: prepare_def Let_def split: if_split_asm sum.splits option.splits)

text \<open>
  C14: the answer of Core decides the state of the delivery: a 2xx answer confirms it, 409
  confirms it as a duplicate, the codes that no retry can change reject it for good, and every
  other code schedules a retry, or a dead letter when the attempts have run out; the stored
  event never changes.
\<close>

theorem answer_decides_state:
  assumes "get_delivery (dl_id d) f = Inr (Some d)" and "prepare env s d = Inr rq"
    and "de_post env rq = Response code"
  shows "\<exists>f' d'. deliver get_delivery update_delivery env s True now d f = (Inr (), f') \<and>
    get_delivery (dl_id d) f' = Inr (Some d') \<and> dl_event d' = dl_event d \<and>
    (if 200 \<le> code \<and> code < 300 \<or> code = 409
     then dl_status d' = Delivered \<and> (dl_duplicate_acknowledged d' \<longleftrightarrow> code = 409)
     else dl_last_error d' = Some (''http_'' @ int_str code) \<and>
       dl_status d' = (if code \<in> {400, 401, 403, 404, 405, 410, 422} then Failed
                       else if dl_attempt_count d < max 1 (ds_max_attempts s) then Retry
                       else Dead_Letter))"
proof -
  have v: "verdict_of env s d = classify (Response code)"
    using assms(2,3) by (simp add: verdict_of_def)
  have log: "log_fields (dl_event d) = Inr ()" using prepare_logs [OF assms(2)] .
  have ev: "identity d' = identity d \<Longrightarrow> dl_event d' = dl_event d" for d'
    by (simp add: identity_def)
  consider (ok) "200 \<le> code \<and> code < 300" | (dup) "code = 409"
    | (perm) "code \<in> permanent_codes" | (other) "\<not> (200 \<le> code \<and> code < 300)" "code \<noteq> 409"
      "code \<notin> permanent_codes" by blast
  then show ?thesis
  proof cases
    case ok
    then have "classify (Response code) = Confirmed False" "code \<noteq> 409" by simp_all
    then show ?thesis
      using json_store.confirmed_settles [OF assms(1), of s now False] ok ev
      unfolding deliver_def v by (metis)
  next
    case dup
    then have "classify (Response code) = Confirmed True" by simp
    then show ?thesis
      using json_store.confirmed_settles [OF assms(1), of s now True] dup ev
      unfolding deliver_def v by (metis)
  next
    case perm
    then have "classify (Response code) = Rejected (''http_'' @ int_str code)"
      "\<not> (200 \<le> code \<and> code < 300 \<or> code = 409)" by (auto simp: permanent_codes_def)
    then show ?thesis
      using json_store.rejected_settles [OF assms(1) log, of s now "''http_'' @ int_str code"] perm ev
      unfolding deliver_def v permanent_codes_def by (metis)
  next
    case other
    then have "classify (Response code) = Try_Again (''http_'' @ int_str code)"
      "\<not> (200 \<le> code \<and> code < 300 \<or> code = 409)" by auto
    then show ?thesis
      using json_store.try_again_settles [OF assms(1) log, of s now "''http_'' @ int_str code"] other ev
      unfolding deliver_def v permanent_codes_def by (metis)
  qed
qed

definition dispatch_sample_env :: "int \<Rightarrow> dispatch_env" where
  "dispatch_sample_env code =
     \<lparr> de_record = (\<lambda>_. Inr None), de_group = \<lparr>ge_enabled = False, ge_hooks = (\<lambda>_. Inr [])\<rparr>,
       de_binding = (\<lambda>_. Inr (Some ''h1'')), de_api_key = (\<lambda>_ _. Inr (Some ''key'')),
       de_post = (\<lambda>_. Response code) \<rparr>"

definition dispatch_sample_settings :: dispatch_settings where
  "dispatch_sample_settings =
     \<lparr> ds_url = ''http://core'', ds_batch_size = 25, ds_lease_seconds = 60, ds_max_attempts = 5,
       ds_backoff_seconds = 5 \<rparr>"

definition dispatch_sample :: delivery where
  "dispatch_sample = new_delivery ''u1'' 0 [(''eventId'', PStr ''e1'')] (Some ''h1'') None"

lemmas dispatch_sample_defs = dispatch_sample_env_def dispatch_sample_settings_def
  dispatch_sample_def new_delivery_def or_none_def Let_def dget_def

lemma dispatch_sample_prepared:
  "\<exists>rq. prepare (dispatch_sample_env code) dispatch_sample_settings dispatch_sample = Inr rq \<and>
    de_post (dispatch_sample_env code) rq = Response code"
  by (simp add: dispatch_sample_defs prepare_def delivery_url_def log_fields_def py_or_def)

theorem answer_decides_state_witness:
  "\<exists>f' d'. deliver get_delivery update_delivery (dispatch_sample_env 503) dispatch_sample_settings True 9
      dispatch_sample (Holds [dispatch_sample]) = (Inr (), f') \<and>
    get_delivery (dl_id dispatch_sample) f' = Inr (Some d') \<and> dl_status d' = Retry"
proof -
  obtain rq where rq: "prepare (dispatch_sample_env 503) dispatch_sample_settings dispatch_sample = Inr rq"
    "de_post (dispatch_sample_env 503) rq = Response 503"
    using dispatch_sample_prepared by blast
  have g: "get_delivery (dl_id dispatch_sample) (Holds [dispatch_sample]) = Inr (Some dispatch_sample)"
    by (simp add: get_delivery_def read_outbox_def)
  have n: "dl_attempt_count dispatch_sample = 0" "ds_max_attempts dispatch_sample_settings = 5"
    by (simp_all add: dispatch_sample_defs)
  show ?thesis
    using answer_decides_state [OF g rq, of 9] n by auto
qed

section \<open>Nothing is sent without authority\<close>

lemma group_url_Inr:
  assumes "group_url env ch d url = Inr u"
  shows "\<exists>rec t policy chat group_id. de_record env (dl_connection_id d) = Inr rec \<and>
    map_of (dl_event d) ''chat'' = Some chat \<and> vindex chat ''externalId'' = Inr group_id \<and>
    require_policy (de_group env) rec group_id PNone = Inr policy \<and>
    map_of (dl_event d) ''transport'' = Some t \<and>
    vindex t ''bindingId'' = Inr (PStr (gp_binding_id policy)) \<and> gp_core_channel_id policy = ch"
  using assms
  by (auto simp: group_url_def rbind_eqs Let_def split: if_split_asm option.splits)

lemma delivery_url_group:
  assumes "delivery_url env s ch d = Inr u" and "dget (dl_event d) ''contractVersion'' = PStr ''canonical-v2''"
  shows "group_url env ch d (ds_url s) = Inr u"
  using assms by (auto simp: delivery_url_def split: sum.splits if_split_asm)

lemma prepare_Inr:
  assumes "prepare env s d = Inr rq"
  shows "\<exists>ch key. dl_core_channel_id d = Some ch \<and> ch \<noteq> [] \<and>
    delivery_url env s ch d = Inr (rq_url rq) \<and> truthy (rq_url rq) \<and>
    de_api_key env (dl_connection_id d) ch = Inr (Some key) \<and> key \<noteq> [] \<and>
    rq_authorization rq = ''Bearer '' @ key \<and> rq_body rq = dl_event d"
  using assms
  by (auto simp: prepare_def Let_def split: if_split_asm sum.splits option.splits)

text \<open>
  C30: nothing is sent without authority: a request carries the stored event and the key of the
  delivery's own connection and channel, and a group event is sent only if, at that moment, the
  policy of its connection still admits its group under the binding and channel it was stored
  with.
\<close>

theorem request_is_authorized:
  assumes "prepare env s d = Inr rq"
  shows "\<exists>ch key. dl_core_channel_id d = Some ch \<and>
    de_api_key env (dl_connection_id d) ch = Inr (Some key) \<and> key \<noteq> [] \<and>
    rq_authorization rq = ''Bearer '' @ key \<and> rq_body rq = dl_event d \<and>
    (dget (dl_event d) ''contractVersion'' \<noteq> PStr ''canonical-v2'' \<or>
      (\<exists>rec policy t group_id. de_record env (dl_connection_id d) = Inr rec \<and>
         require_policy (de_group env) rec group_id PNone = Inr policy \<and>
         dpath (PDict (dl_event d)) [''chat'', ''externalId''] = Some group_id \<and>
         dpath (PDict (dl_event d)) [''transport'', ''bindingId''] = Some (PStr (gp_binding_id policy)) \<and>
         gp_core_channel_id policy = ch))"
proof -
  have path: "dpath v [k] = Some w" if "vindex v k = Inr w" for v k w
    using that by (cases v) (auto split: option.splits)
  obtain ch key where *: "dl_core_channel_id d = Some ch" "delivery_url env s ch d = Inr (rq_url rq)"
    "de_api_key env (dl_connection_id d) ch = Inr (Some key)" "key \<noteq> []"
    "rq_authorization rq = ''Bearer '' @ key" "rq_body rq = dl_event d"
    using prepare_Inr [OF assms] by blast
  show ?thesis
  proof (cases "dget (dl_event d) ''contractVersion'' = PStr ''canonical-v2''")
    case True
    obtain rec t policy chat g where g: "de_record env (dl_connection_id d) = Inr rec"
      "map_of (dl_event d) ''chat'' = Some chat" "vindex chat ''externalId'' = Inr g"
      "require_policy (de_group env) rec g PNone = Inr policy"
      "map_of (dl_event d) ''transport'' = Some t"
      "vindex t ''bindingId'' = Inr (PStr (gp_binding_id policy))" "gp_core_channel_id policy = ch"
      using group_url_Inr [OF delivery_url_group [OF *(2) True]] by blast
    have "dpath (PDict (dl_event d)) [''chat'', ''externalId''] = Some g"
      "dpath (PDict (dl_event d)) [''transport'', ''bindingId''] = Some (PStr (gp_binding_id policy))"
      using path [OF g(3)] path [OF g(6)] g(2,5) by simp_all
    then show ?thesis using * g by blast
  next
    case False
    then show ?thesis using * by blast
  qed
qed

theorem request_is_authorized_witness:
  "\<exists>rq. prepare (dispatch_sample_env 200) dispatch_sample_settings dispatch_sample = Inr rq \<and>
    (\<exists>key. rq_authorization rq = ''Bearer '' @ key \<and> key \<noteq> [])"
proof -
  obtain rq where rq: "prepare (dispatch_sample_env 200) dispatch_sample_settings dispatch_sample = Inr rq"
    using dispatch_sample_prepared by blast
  from request_is_authorized [OF rq]
  have "\<exists>key. rq_authorization rq = ''Bearer '' @ key \<and> key \<noteq> []" by (elim exE conjE) (intro exI conjI)
  with rq show ?thesis by (intro exI [of _ rq] conjI)
qed

section \<open>A batch settles what it claims\<close>

lemma claimed_distinct:
  assumes "claim_due ok now limit lease f = (Inr cs, f')" and "read_outbox f = Inr ds"
    and "distinct (map dl_id ds)"
  shows "distinct (map dl_id cs)"
proof -
  obtain ds' where ds': "read_outbox f = Inr ds'"
    "cs = map (claim_item now lease) (take (nat (max 1 limit)) (due_items now ds'))"
    using claim_due_Inr [OF assms(1)] by blast
  have "ds' = ds" using ds'(1) assms(2) by simp
  moreover have "map dl_id (map (claim_item now lease) xs) = map dl_id xs" for xs
    by (simp add: claim_item_def)
  ultimately have cs: "map dl_id cs = take (nat (max 1 limit)) (map dl_id (due_items now ds))"
    unfolding ds'(2) by (simp only: take_map)
  have "mset (map dl_id (sort_key claim_key ds)) = mset (map dl_id ds)" by simp
  then have "distinct (map dl_id (sort_key claim_key ds))"
    using assms(3) by (rule mset_eq_imp_distinct_iff [THEN iffD2])
  then show ?thesis by (simp add: cs due_items_def distinct_map_filter)
qed

text \<open>
  C31: a batch that ends normally leaves nothing it claimed in flight: every delivery of the
  claim is confirmed, rejected, waiting for its retry or a dead letter, whatever Core answered.
\<close>

theorem batch_settles_claims:
  assumes claim: "claim_due ok now (max 1 (ds_batch_size s)) (max 1 (ds_lease_seconds s)) f = (Inr cs, f1)"
    and run: "dispatch_due get_delivery update_delivery claim_due env s ok now at f = (Inr n, f')"
    and ids: "read_outbox f = Inr ds" "distinct (map dl_id ds)"
  shows "n = length cs \<and>
    (\<forall>d. d \<notin> set cs \<or> (\<exists>d'. get_delivery (dl_id d) f' = Inr (Some d') \<and> dl_status d' \<noteq> Delivering))"
proof -
  obtain u where all: "deliver_all get_delivery update_delivery env s at cs f1 = (Inr u, f')"
    and n: "n = length cs"
    using run claim by (auto simp: dispatch_due_def split: prod.splits sum.splits)
  then have "deliver_all get_delivery update_delivery env s at cs f1 = (Inr (), f')" by simp
  from json_store.deliver_all_settles [OF this claimed_distinct [OF claim ids]] n
  show ?thesis by blast
qed

theorem batch_settles_claims_witness:
  "\<exists>f' d'. dispatch_due get_delivery update_delivery claim_due (dispatch_sample_env 200)
      dispatch_sample_settings True 7 (\<lambda>_. (True, 8)) (Holds [dispatch_sample]) = (Inr 1, f') \<and>
    get_delivery (dl_id dispatch_sample) f' = Inr (Some d') \<and> dl_status d' \<noteq> Delivering"
proof -
  let ?c = "claim_item 7 60 dispatch_sample" and ?e = "dispatch_sample_env 200"
  have s: "ds_batch_size dispatch_sample_settings = 25" "ds_lease_seconds dispatch_sample_settings = 60"
    by (simp_all add: dispatch_sample_defs)
  have id: "dl_id ?c = dl_id dispatch_sample" by (simp add: claim_item_def)
  have claim: "claim_due True 7 (max 1 (ds_batch_size dispatch_sample_settings))
      (max 1 (ds_lease_seconds dispatch_sample_settings)) (Holds [dispatch_sample]) = (Inr [?c], Holds [?c])"
    by (simp add: s claim_due_def read_outbox_def claim_order_def claimable_def)
      (simp add: dispatch_sample_defs)
  have v: "verdict_of ?e dispatch_sample_settings ?c = Confirmed False"
    by (simp add: verdict_of_def dispatch_sample_defs prepare_def delivery_url_def log_fields_def
        py_or_def claim_item_def)
  have run: "dispatch_due get_delivery update_delivery claim_due ?e dispatch_sample_settings True 7
      (\<lambda>_. (True, 8)) (Holds [dispatch_sample]) =
      (Inr 1, snd (update_delivery True 8 (dl_id ?c) (complete_changes 8 False) (Holds [?c])))"
    by (simp only: dispatch_due_def claim)
      (simp add: deliver_def v complete_def update_delivery_def read_outbox_def Let_def stored_def)
  from batch_settles_claims [OF claim run] run id show ?thesis
    by (simp add: read_outbox_def)
qed

end
