(* ===== verification/Core_Pg_Store.thy ===== *)
theory Core_Pg_Store
  imports Core_Dispatch_Spec Core_Outbox_Spec
begin

text \<open>
  The PostgreSQL outbox, \<open>gateway/app/services/core_inbound_pg_store.py\<close>. The table is the
  list of its rows in physical order. A row keeps the scope key it was inserted with and the
  document; every other column is written from the document by the same statement that writes
  the document, so it is read off the document. \<open>db_ok\<close> says whether the statements of the
  operation succeed; one that fails rolls its transaction back. \<open>pick\<close> stands for the row a
  \<open>LIMIT 1\<close> without an order returns.
\<close>

section \<open>State\<close>

record pg_row =
  pr_scope_key :: "string option"
  pr_doc :: delivery

record pg_state =
  pg_ready :: bool
  pg_table :: "pg_row list"
  pg_legacy :: outbox_file

definition db_error :: py_exc where
  "db_error = RuntimeError ''psycopg.Error''"

definition scope_key :: "pdict \<Rightarrow> string option res" where
  "scope_key event =
     rbind (provider_message_scope event) (\<lambda>scope.
       Inr (case scope of None \<Rightarrow> None
            | Some vs \<Rightarrow> Some (json_dumps False '','' '':'' (PList (map PStr vs)))))"

definition conflicts :: "pg_row \<Rightarrow> pg_row \<Rightarrow> bool" where
  "conflicts a b \<longleftrightarrow>
     dl_id (pr_doc a) = dl_id (pr_doc b) \<or> dl_event_id (pr_doc a) = dl_event_id (pr_doc b) \<or>
     (pr_scope_key a \<noteq> None \<and> pr_scope_key a = pr_scope_key b)"

text \<open>\<open>INSERT ... ON CONFLICT DO NOTHING\<close>: the flag says whether the row went in.\<close>

definition pg_insert :: "delivery \<Rightarrow> pg_row list \<Rightarrow> (bool \<times> pg_row list) res" where
  "pg_insert d table =
     rbind (scope_key (dl_event d)) (\<lambda>key.
       let row = \<lparr> pr_scope_key = key, pr_doc = d \<rparr> in
       Inr (if list_ex (conflicts row) table then (False, table) else (True, table @ [row])))"

definition pg_save :: "delivery \<Rightarrow> pg_row list \<Rightarrow> pg_row list" where
  "pg_save d table =
     map (\<lambda>r. if dl_id (pr_doc r) = dl_id d then r\<lparr>pr_doc := d\<rparr> else r) table"

section \<open>Connecting and the import of the JSON file\<close>

fun import_all :: "delivery list \<Rightarrow> pg_row list \<Rightarrow> pg_row list res" where
  "import_all [] table = Inr table"
| "import_all (d # ds) table = rbind (pg_insert d table) (\<lambda>r. import_all ds (snd r))"

text \<open>The table after the import, and whether the file was imported.\<close>

definition import_legacy :: "outbox_file \<Rightarrow> pg_row list \<Rightarrow> (bool \<times> pg_row list) res" where
  "import_legacy legacy table =
     (if legacy = Absent then Inr (False, table)
      else if table \<noteq> [] then Inr (False, table)
      else rbind (read_outbox legacy) (\<lambda>ds.
           rbind (import_all ds table) (\<lambda>t. Inr (True, t))))"

definition pg_connect :: "pg_state \<Rightarrow> pg_state res" where
  "pg_connect st =
     (if pg_ready st then Inr st
      else rbind (import_legacy (pg_legacy st) (pg_table st)) (\<lambda>(imported, table).
             Inr (st\<lparr> pg_ready := True, pg_table := table,
                      pg_legacy := (if imported then Absent else pg_legacy st) \<rparr>)))"

section \<open>Operations\<close>

definition pg_enqueue ::
    "int \<Rightarrow> (pg_row list \<Rightarrow> pg_row) \<Rightarrow> bool \<Rightarrow> int \<Rightarrow> string \<Rightarrow> pdict \<Rightarrow> string option \<Rightarrow> string option
     \<Rightarrow> pg_state \<Rightarrow> (delivery \<times> bool) res \<times> pg_state" where
  "pg_enqueue retention pick db_ok now uid event core_channel_id initial_error st =
     (let not_persisted = PersistenceError ''Canonical Core delivery could not be persisted'';
          delivery = new_delivery uid now event core_channel_id initial_error
      in if \<not> has_delivery_identity event
         then (Inl (PersistenceError ''Canonical event is missing durable delivery identity''), st)
         else if \<not> db_ok then (Inl not_persisted, st)
         else case pg_connect st of
           Inl (PersistenceError m) \<Rightarrow> (Inl (PersistenceError m), st)
         | Inl _ \<Rightarrow> (Inl not_persisted, st)
         | Inr st1 \<Rightarrow>
             (let live = filter (\<lambda>r. \<not> (dl_status (pr_doc r) = Delivered \<and>
                    (case dl_delivered_at (pr_doc r) of None \<Rightarrow> False
                     | Some t \<Rightarrow> t < now - retention_days retention * 86400000))) (pg_table st1)
              in case pg_insert delivery live of
                   Inl _ \<Rightarrow> (Inl not_persisted, st1)
                 | Inr (True, table) \<Rightarrow> (Inr (delivery, True), st1\<lparr>pg_table := table\<rparr>)
                 | Inr (False, table) \<Rightarrow>
                     (case scope_key event of
                        Inl _ \<Rightarrow> (Inl not_persisted, st1)
                      | Inr key \<Rightarrow>
                          (case filter (\<lambda>r. dl_event_id (pr_doc r) = dl_event_id delivery \<or>
                                  (pr_scope_key r \<noteq> None \<and> pr_scope_key r = key)) table of
                             [] \<Rightarrow> (Inl (PersistenceError ''Canonical Core delivery conflict could not be resolved''),
                                   st1\<lparr>pg_table := table\<rparr>)
                           | rs \<Rightarrow> (Inr (pr_doc (pick rs), False), st1\<lparr>pg_table := table\<rparr>)))))"

definition pg_find :: "string \<Rightarrow> pg_row list \<Rightarrow> delivery option" where
  "pg_find delivery_id table =
     map_option pr_doc (List.find (\<lambda>r. dl_id (pr_doc r) = delivery_id) table)"

definition pg_get :: "string \<Rightarrow> pg_state \<Rightarrow> delivery option res" where
  "pg_get delivery_id st = rbind (pg_connect st) (\<lambda>st1. Inr (pg_find delivery_id (pg_table st1)))"

definition pg_list :: "pg_state \<Rightarrow> delivery list res" where
  "pg_list st =
     rbind (pg_connect st) (\<lambda>st1. Inr (sort_key dl_created_at (map pr_doc (pg_table st1))))"

definition pg_list_for_connection :: "string \<Rightarrow> int \<Rightarrow> pg_state \<Rightarrow> delivery list res" where
  "pg_list_for_connection connection_id limit st =
     rbind (pg_connect st) (\<lambda>st1.
       Inr (take (nat (max 1 limit)) (sort_desc dl_created_at
              (filter (\<lambda>d. dl_connection_id d = connection_id) (map pr_doc (pg_table st1))))))"

text \<open>In SQL a comparison with \<open>NULL\<close> does not hold; \<open>NULLS FIRST\<close> orders.\<close>

definition pg_due :: "int \<Rightarrow> delivery \<Rightarrow> bool" where
  "pg_due now d \<longleftrightarrow>
     (dl_status d \<in> {Pending, Retry} \<and> (case dl_next_attempt_at d of None \<Rightarrow> False | Some t \<Rightarrow> t \<le> now)) \<or>
     (dl_status d = Delivering \<and> (case dl_lease_expires_at d of None \<Rightarrow> False | Some t \<Rightarrow> t \<le> now))"

definition pg_claim_key :: "delivery \<Rightarrow> bool \<times> int \<times> int" where
  "pg_claim_key d =
     (case dl_next_attempt_at d of None \<Rightarrow> (False, 0, dl_created_at d) | Some t \<Rightarrow> (True, t, dl_created_at d))"

definition pg_claim_due :: "bool \<Rightarrow> int \<Rightarrow> int \<Rightarrow> int \<Rightarrow> pg_state \<Rightarrow> delivery list res \<times> pg_state" where
  "pg_claim_due db_ok now limit lease_seconds st =
     (if \<not> db_ok then (Inl db_error, st)
      else case pg_connect st of
        Inl e \<Rightarrow> (Inl e, st)
      | Inr st1 \<Rightarrow>
          (let rows = take (nat (max 1 limit))
                 (sort_key pg_claim_key (filter (pg_due now) (map pr_doc (pg_table st1))));
               claimed = map (claim_item now lease_seconds) rows
           in (Inr claimed, st1\<lparr>pg_table := fold pg_save claimed (pg_table st1)\<rparr>)))"

definition pg_update ::
    "bool \<Rightarrow> int \<Rightarrow> string \<Rightarrow> (delivery \<Rightarrow> delivery) \<Rightarrow> pg_state \<Rightarrow> delivery res \<times> pg_state" where
  "pg_update db_ok now delivery_id changes st =
     (if \<not> db_ok then (Inl db_error, st)
      else case pg_connect st of
        Inl e \<Rightarrow> (Inl e, st)
      | Inr st1 \<Rightarrow>
          (case pg_find delivery_id (pg_table st1) of
             None \<Rightarrow> (Inl (KeyError delivery_id), st1)
           | Some d \<Rightarrow>
               (let item = (changes d)\<lparr>dl_updated_at := now\<rparr>
                in (Inr item, st1\<lparr>pg_table := pg_save item (pg_table st1)\<rparr>))))"

definition pg_replay_group ::
    "bool \<Rightarrow> int \<Rightarrow> string \<Rightarrow> string \<Rightarrow> string \<Rightarrow> string \<Rightarrow> pg_state
     \<Rightarrow> (string \<times> string \<times> delivery_status) res \<times> pg_state" where
  "pg_replay_group db_ok now delivery_id connection_id core_channel_id binding_id st =
     (if \<not> db_ok then (Inl db_error, st)
      else case pg_connect st of
        Inl e \<Rightarrow> (Inl e, st)
      | Inr st1 \<Rightarrow>
          (case pg_find delivery_id (pg_table st1) of
             None \<Rightarrow> (Inl (ValueError ''Replay binding mismatch''), st1)
           | Some item \<Rightarrow>
               (case replay_binding_matches connection_id core_channel_id binding_id (dl_event item) of
                  Inl e \<Rightarrow> (Inl e, st1)
                | Inr False \<Rightarrow> (Inl (ValueError ''Replay binding mismatch''), st1)
                | Inr True \<Rightarrow>
                    if dl_status item \<in> {Failed, Dead_Letter, Retry}
                    then (Inr (dl_id item, dl_event_id item, Pending),
                          st1\<lparr>pg_table := pg_save (replay_changes now item) (pg_table st1)\<rparr>)
                    else (Inr (dl_id item, dl_event_id item, dl_status item), st1))))"

section \<open>The contract of the store\<close>

lemma pg_connect_ready: "pg_connect st = Inr st1 \<Longrightarrow> pg_ready st1"
  by (auto simp: pg_connect_def rbind_eqs split: if_split_asm)

lemma pg_connect_again: "pg_ready st \<Longrightarrow> pg_connect st = Inr st"
  by (simp add: pg_connect_def)

lemma find_save_other:
  "j \<noteq> dl_id d \<Longrightarrow> pg_find j (pg_save d table) = pg_find j table"
  by (induction table) (auto simp: pg_find_def pg_save_def)

lemma find_save_same:
  "pg_find i table = Some d0 \<Longrightarrow> dl_id d = i \<Longrightarrow> pg_find i (pg_save d table) = Some d"
  by (induction table) (auto simp: pg_find_def pg_save_def)

lemma find_id: "pg_find i table = Some d \<Longrightarrow> dl_id d = i"
  by (auto simp: pg_find_def find_Some_iff)

lemma pg_update_Inr:
  assumes "pg_update ok now i c st = (Inr d, st')"
  shows "\<exists>st1 d0. pg_connect st = Inr st1 \<and> pg_find i (pg_table st1) = Some d0 \<and>
    d = (c d0)\<lparr>dl_updated_at := now\<rparr> \<and> st' = st1\<lparr>pg_table := pg_save d (pg_table st1)\<rparr>"
  using assms
  by (auto simp: pg_update_def Let_def split: if_split_asm sum.splits option.splits)

lemma pg_update_get:
  assumes "pg_update ok now i c st = (Inr d, st')"
  shows "pg_get j st' = (if j = dl_id d then Inr (pg_find j (pg_table st')) else pg_get j st)"
proof -
  obtain st1 d0 where *: "pg_connect st = Inr st1" "st' = st1\<lparr>pg_table := pg_save d (pg_table st1)\<rparr>"
    using pg_update_Inr [OF assms] by blast
  then have "pg_ready st'" using pg_connect_ready by simp
  then show ?thesis
    using * by (simp add: pg_get_def pg_connect_again find_save_other)
qed

interpretation pg_store: delivery_store pg_get pg_update
proof
  fix i st d now c
  assume "pg_get i st = Inr (Some d)"
  then show "\<exists>st'. pg_update True now i c st = (Inr ((c d)\<lparr>dl_updated_at := now\<rparr>), st')"
    by (auto simp: pg_get_def pg_update_def rbind_eqs Let_def)
next
  fix ok now i c st d st'
  assume "pg_update ok now i c st = (Inr d, st')"
  from pg_update_Inr [OF this]
  show "\<exists>d0. pg_get i st = Inr (Some d0) \<and> d = (c d0)\<lparr>dl_updated_at := now\<rparr>"
    by (auto simp: pg_get_def)
next
  fix ok now i c st d st'
  assume u: "pg_update ok now i c st = (Inr d, st')" and c: "\<And>d. identity (c d) = identity d"
  from pg_update_Inr [OF u] obtain st1 :: pg_state and d0 where *: "pg_find i (pg_table st1) = Some d0"
    "d = (c d0)\<lparr>dl_updated_at := now\<rparr>" "st' = st1\<lparr>pg_table := pg_save d (pg_table st1)\<rparr>"
    by (elim exE conjE) (rule that)
  have "dl_id d = i" using find_id [OF *(1)] dl_id_identity [OF c] *(2) by simp
  then show "pg_get i st' = Inr (Some d)"
    using pg_update_get [OF u, of i] find_save_same [OF *(1)] *(3) by simp
next
  fix ok now i c st d st' j
  assume u: "pg_update ok now i c st = (Inr d, st')" and c: "\<And>d. identity (c d) = identity d"
    and j: "j \<noteq> i"
  from pg_update_Inr [OF u] obtain st1 :: pg_state and d0 where *: "pg_find i (pg_table st1) = Some d0"
    "d = (c d0)\<lparr>dl_updated_at := now\<rparr>"
    by (elim exE conjE) (rule that)
  have "dl_id d = i" using find_id [OF *(1)] dl_id_identity [OF c] *(2) by simp
  then show "pg_get j st' = pg_get j st" using pg_update_get [OF u, of j] j by simp
next
  fix ok now i c st e st' j
  assume "pg_update ok now i c st = (Inl e, st')"
  then have "st' = st \<or> pg_connect st = Inr st'"
    by (auto simp: pg_update_def Let_def split: if_split_asm sum.splits option.splits)
  then show "pg_get j st' = pg_get j st"
    using pg_connect_again [OF pg_connect_ready] by (auto simp: pg_get_def)
qed

section \<open>Unique rows\<close>

definition pg_inv :: "pg_row list \<Rightarrow> bool" where
  "pg_inv table \<longleftrightarrow> sorted_wrt (\<lambda>a b. \<not> conflicts a b) table"

lemma conflicts_sym: "conflicts a b \<longleftrightarrow> conflicts b a"
  unfolding conflicts_def by (metis)

lemma pg_insert_Inr:
  assumes "pg_insert d table = Inr (b, table')"
  shows "\<exists>key. scope_key (dl_event d) = Inr key \<and>
    (if b then table' = table @ [\<lparr>pr_scope_key = key, pr_doc = d\<rparr>] \<and>
       \<not> list_ex (conflicts \<lparr>pr_scope_key = key, pr_doc = d\<rparr>) table
     else table' = table)"
  using assms by (auto simp: pg_insert_def rbind_eqs Let_def split: if_split_asm)

lemma pg_inv_insert: "pg_insert d table = Inr (b, table') \<Longrightarrow> pg_inv table \<Longrightarrow> pg_inv table'"
  using pg_insert_Inr [of d table b table'] conflicts_sym
  by (auto simp: pg_inv_def sorted_wrt_append list_ex_iff split: if_split_asm)

lemma pg_inv_import: "import_all ds table = Inr table' \<Longrightarrow> pg_inv table \<Longrightarrow> pg_inv table'"
  by (induction ds arbitrary: table) (auto simp: rbind_eqs dest!: pg_inv_insert)

lemma pg_inv_connect: "pg_connect st = Inr st1 \<Longrightarrow> pg_inv (pg_table st) \<Longrightarrow> pg_inv (pg_table st1)"
  using pg_inv_import
  by (fastforce simp: pg_connect_def import_legacy_def rbind_eqs split: if_split_asm)

text \<open>A row keeps its identity and its key when its document is saved.\<close>

definition row_key :: "pg_row \<Rightarrow> string option \<times> string \<times> string \<times> pdict" where
  "row_key r = (pr_scope_key r, identity (pr_doc r))"

lemma conflicts_row_key:
  "row_key a = row_key a' \<Longrightarrow> row_key b = row_key b' \<Longrightarrow> conflicts a b = conflicts a' b'"
  by (simp add: row_key_def identity_def conflicts_def)

lemma pg_inv_row_keys:
  assumes "map row_key table' = map row_key table" and "pg_inv table"
  shows "pg_inv table'"
  using assms
proof (induction table arbitrary: table')
  case (Cons r table)
  obtain r' t' where t: "table' = r' # t'" "row_key r' = row_key r" "map row_key t' = map row_key table"
    using Cons.prems(1) by (cases table') auto
  have "pg_inv t'"
    by (rule Cons.IH [OF t(3)]) (use Cons.prems(2) in \<open>simp add: pg_inv_def\<close>)
  moreover have "\<not> conflicts r' x'" if x: "x' \<in> set t'" for x'
  proof -
    have "row_key ` set t' = row_key ` set table" using t(3) by (metis set_map)
    with x have "row_key x' \<in> row_key ` set table" by (metis imageI)
    then obtain x where "row_key x' = row_key x" "x \<in> set table" by (rule imageE)
    moreover have "\<not> conflicts r x" using Cons.prems(2) calculation(2) by (simp add: pg_inv_def)
    ultimately show ?thesis using conflicts_row_key [OF t(2)] by simp
  qed
  ultimately show ?case by (simp add: t(1) pg_inv_def)
qed simp

lemma pg_inv_conflict:
  "pg_inv table \<Longrightarrow> a \<in> set table \<Longrightarrow> b \<in> set table \<Longrightarrow> conflicts a b \<Longrightarrow> conflicts b a \<Longrightarrow> a = b"
  unfolding pg_inv_def by (induction table) auto

lemma pg_save_row_keys:
  assumes "pg_inv table" and "r \<in> set table" and "identity d = identity (pr_doc r)"
  shows "map row_key (pg_save d table) = map row_key table"
proof -
  have "row_key (x\<lparr>pr_doc := d\<rparr>) = row_key x" if x: "x \<in> set table" "dl_id (pr_doc x) = dl_id d" for x
  proof -
    have "dl_id (pr_doc x) = dl_id (pr_doc r)" using assms(3) x(2) by (simp add: identity_def)
    then have "conflicts x r" "conflicts r x" by (simp_all add: conflicts_def)
    then have "x = r" using pg_inv_conflict [OF assms(1) x(1) assms(2)] by blast
    then show ?thesis using assms(3) by (simp add: row_key_def)
  qed
  then show ?thesis by (simp add: pg_save_def)
qed

lemma row_with_key:
  assumes "map row_key table' = map row_key table" and "r \<in> set table"
  shows "\<exists>r'\<in>set table'. identity (pr_doc r') = identity (pr_doc r)"
proof -
  have "row_key ` set table' = row_key ` set table" using assms(1) by (metis set_map)
  with assms(2) have "row_key r \<in> row_key ` set table'" by (metis imageI)
  then obtain r' where "row_key r = row_key r'" "r' \<in> set table'" by (rule imageE)
  then show ?thesis by (auto simp: row_key_def)
qed

lemma pg_inv_save:
  assumes "pg_inv table" and "r \<in> set table" and "identity d = identity (pr_doc r)"
  shows "pg_inv (pg_save d table)"
  using pg_save_row_keys [OF assms] assms(1) by (rule pg_inv_row_keys)

lemma pg_inv_saves:
  assumes "pg_inv table" and "\<forall>d\<in>set ds. \<exists>r\<in>set table. identity d = identity (pr_doc r)"
  shows "pg_inv (fold pg_save ds table)"
  using assms
proof (induction ds arbitrary: table)
  case (Cons d ds)
  obtain r where r: "r \<in> set table" "identity d = identity (pr_doc r)" using Cons.prems(2) by auto
  note keys = pg_save_row_keys [OF Cons.prems(1) r]
  have "\<exists>r\<in>set (pg_save d table). identity x = identity (pr_doc r)" if "x \<in> set ds" for x
    using Cons.prems(2) that row_with_key [OF keys] by (metis list.set_intros(2))
  then show ?case using Cons.IH [OF pg_inv_save [OF Cons.prems(1) r]] by simp
qed simp

lemma find_row: "pg_find i table = Some d \<Longrightarrow> \<exists>r\<in>set table. pr_doc r = d"
  by (auto simp: pg_find_def find_Some_iff)

lemma pg_inv_update:
  assumes "pg_inv (pg_table st)" and "\<And>d. identity (c d) = identity d"
  shows "pg_inv (pg_table (snd (pg_update ok now i c st)))"
proof (cases "pg_connect st")
  case (Inr st1)
  then have inv: "pg_inv (pg_table st1)" using pg_inv_connect assms(1) by blast
  show ?thesis
  proof (cases "pg_find i (pg_table st1)")
    case (Some d)
    then obtain r where r: "r \<in> set (pg_table st1)" "pr_doc r = d" using find_row by blast
    have "identity ((c d)\<lparr>dl_updated_at := now\<rparr>) = identity (pr_doc r)"
      using assms(2) r(2) by (simp add: identity_def)
    from pg_inv_save [OF inv r(1) this] show ?thesis
      using assms(1) Inr Some by (simp add: pg_update_def Let_def)
  qed (use assms(1) Inr inv in \<open>simp add: pg_update_def\<close>)
qed (use assms(1) in \<open>simp add: pg_update_def\<close>)

lemma pg_inv_enqueue:
  assumes "pg_inv (pg_table st)"
  shows "pg_inv (pg_table (snd (pg_enqueue r pick ok now uid ev cc err st)))"
proof (cases "pg_connect st")
  case (Inl e)
  then show ?thesis using assms by (cases e) (simp_all add: pg_enqueue_def Let_def)
next
  case (Inr st1)
  have f: "pg_inv (filter p (pg_table st1))" for p
    using pg_inv_connect [OF Inr assms] by (simp add: pg_inv_def sorted_wrt_filter)
  then show ?thesis
    using assms Inr pg_inv_connect [OF Inr assms]
    by (auto simp: pg_enqueue_def Let_def dest: pg_inv_insert
        split: sum.splits prod.splits bool.splits list.splits)
qed

lemma pg_inv_claim:
  assumes "pg_inv (pg_table st)"
  shows "pg_inv (pg_table (snd (pg_claim_due ok now limit lease st)))"
proof (cases "pg_connect st")
  case (Inr st1)
  let ?rows = "take (nat (max 1 limit)) (sort_key pg_claim_key (filter (pg_due now) (map pr_doc (pg_table st1))))"
  have "\<exists>r\<in>set (pg_table st1). identity d = identity (pr_doc r)"
    if "d \<in> set (map (claim_item now lease) ?rows)" for d
  proof -
    from that have "d \<in> claim_item now lease ` set ?rows" by (simp only: set_map)
    then obtain x where x: "d = claim_item now lease x" "x \<in> set ?rows" by (rule imageE)
    from x(2) have "x \<in> set (map pr_doc (pg_table st1))" by (auto dest: in_set_takeD)
    then show ?thesis using x(1) by (auto simp: store_simps)
  qed
  then have "pg_inv (fold pg_save (map (claim_item now lease) ?rows) (pg_table st1))"
    using pg_inv_saves [OF pg_inv_connect [OF Inr assms]] by blast
  then show ?thesis using assms Inr by (simp add: pg_claim_due_def Let_def)
qed (use assms in \<open>simp add: pg_claim_due_def\<close>)

lemma pg_inv_replay:
  assumes "pg_inv (pg_table st)"
  shows "pg_inv (pg_table (snd (pg_replay_group ok now i c h b st)))"
proof (cases "pg_connect st")
  case (Inr st1)
  then have inv: "pg_inv (pg_table st1)" using pg_inv_connect assms by blast
  show ?thesis
  proof (cases "pg_find i (pg_table st1)")
    case (Some d)
    then obtain r where r: "r \<in> set (pg_table st1)" "pr_doc r = d" using find_row by blast
    have "identity (replay_changes now d) = identity (pr_doc r)" by (simp add: r(2) store_simps)
    from pg_inv_save [OF inv r(1) this] inv assms Inr Some show ?thesis
      by (simp add: pg_replay_group_def split: sum.splits bool.splits)
  qed (use assms Inr inv in \<open>simp add: pg_replay_group_def\<close>)
qed (use assms in \<open>simp add: pg_replay_group_def\<close>)

text \<open>
  the table never holds two rows with one id, one event id or one provider message scope:
  the import of the JSON file, accepting an event, claiming, settling and replaying all keep
  the uniqueness, on success and on failure.
\<close>

theorem pg_rows_stay_unique:
  assumes "pg_inv (pg_table st)"
  shows "pg_inv (pg_table (snd (pg_enqueue r pick ok now uid ev cc err st))) \<and>
    pg_inv (pg_table (snd (pg_claim_due ok now limit lease st))) \<and>
    pg_inv (pg_table (snd (complete pg_update ok now i dup st))) \<and>
    pg_inv (pg_table (snd (retry_or_dead_letter pg_get pg_update ok now i er m b st))) \<and>
    pg_inv (pg_table (snd (fail_permanently pg_update ok now i er st))) \<and>
    pg_inv (pg_table (snd (pg_replay_group ok now i c h bd st)))"
proof (intro conjI)
  show "pg_inv (pg_table (snd (retry_or_dead_letter pg_get pg_update ok now i er m b st)))"
    using assms pg_inv_update [OF assms identity_changes(3)]
    by (simp add: retry_or_dead_letter_def split: sum.splits option.splits)
qed (simp_all add: pg_inv_enqueue pg_inv_claim pg_inv_replay complete_def fail_permanently_def
    pg_inv_update identity_changes assms)

definition pg_sample :: pg_state where
  "pg_sample = \<lparr> pg_ready = False, pg_table = [], pg_legacy = Absent \<rparr>"

theorem pg_rows_stay_unique_witness:
  "pg_inv (pg_table (snd (pg_enqueue 7 hd True 1000 ''u1'' (sample_event ''e1'' ''m1'') None None pg_sample)))"
proof -
  have "pg_inv (pg_table pg_sample)" by (simp add: pg_inv_def pg_sample_def)
  from pg_rows_stay_unique [OF this] show ?thesis by blast
qed

section \<open>Where the two stores differ\<close>

definition confirmed_long_ago :: delivery where
  "confirmed_long_ago = complete_changes 1000 False (sample_delivery ''u1'' ''e1'' ''m1'' 1000)"

text \<open>
  the two stores do not give one answer to a late repetition: for an event confirmed longer
  ago than the retention and not purged yet, the JSON store, which looks for the event first,
  answers with the old delivery; the PostgreSQL store, which purges first, stores the event
  anew and sends it again.
\<close>

theorem stores_differ_on_late_repetition:
  "enqueue 7 True 999999999 ''u2'' (sample_event ''e1'' ''m1'') (Some ''ch'') None (Holds [confirmed_long_ago]) =
     (Inr (confirmed_long_ago, False), Holds [confirmed_long_ago]) \<and>
   fst (pg_enqueue 7 hd True 999999999 ''u2'' (sample_event ''e1'' ''m1'') (Some ''ch'') None
     \<lparr> pg_ready = True, pg_table = [\<lparr>pr_scope_key = None, pr_doc = confirmed_long_ago\<rparr>], pg_legacy = Absent \<rparr>) =
     Inr (sample_delivery ''u2'' ''e1'' ''m1'' 999999999, True)"
proof
  have e: "dl_event_id confirmed_long_ago = ''e1''" "dl_event_id (new_delivery u n (sample_event ''e1'' ''m1'') c x) = ''e1''"
    for u n c x by (simp_all add: confirmed_long_ago_def complete_changes_def sample_defs)
  show "enqueue 7 True 999999999 ''u2'' (sample_event ''e1'' ''m1'') (Some ''ch'') None (Holds [confirmed_long_ago]) =
     (Inr (confirmed_long_ago, False), Holds [confirmed_long_ago])"
    using sample_identity sample_scope by (simp add: enqueue_def read_outbox_def Let_def e)
  have x: "dl_status confirmed_long_ago = Delivered" "dl_delivered_at confirmed_long_ago = Some 1000"
    by (simp_all add: confirmed_long_ago_def complete_changes_def)
  have k: "\<exists>k. scope_key (dl_event (new_delivery u n (sample_event ''e1'' ''m1'') c x)) = Inr k" for u n c x
    using sample_scope by (simp add: new_delivery_def Let_def scope_key_def)
  show "fst (pg_enqueue 7 hd True 999999999 ''u2'' (sample_event ''e1'' ''m1'') (Some ''ch'') None
     \<lparr> pg_ready = True, pg_table = [\<lparr>pr_scope_key = None, pr_doc = confirmed_long_ago\<rparr>], pg_legacy = Absent \<rparr>) =
     Inr (sample_delivery ''u2'' ''e1'' ''m1'' 999999999, True)"
    using sample_identity k [of "''u2''" 999999999 "Some ''ch''" None] x
    by (auto simp: pg_enqueue_def Let_def pg_connect_def retention_days_def pg_insert_def sample_delivery_def)
qed

end
