(* ===== verification/Outbound_Attempts.thy ===== *)
theory Outbound_Attempts
  imports Secret_Redaction
begin

text \<open>
  The durable evidence of provider sends: \<open>OutboundProviderAttemptStore\<close> of
  \<open>gateway/app/services/outbound_provider_attempts.py\<close>. An attempt is the dictionary the code
  keeps; every write passes the whole file through \<open>redact_json\<close>. A file that cannot be
  read counts as empty. SHA-256, \<open>json.loads\<close>, the clock, \<open>uuid4\<close> and the registry record
  of the instance are arguments.
\<close>

type_synonym attempt_file = "pdict list json_file"

section \<open>Building an attempt\<close>

definition safe_text :: "pval \<Rightarrow> nat \<Rightarrow> pval" where
  "safe_text value limit =
     (let text = str_or_empty value in if text = [] then PNone else PStr (take limit text))"

definition safe_media_reference :: "pdict option \<Rightarrow> pval" where
  "safe_media_reference media =
     (case media of
        None \<Rightarrow> PNone
      | Some [] \<Rightarrow> PNone
      | Some m \<Rightarrow>
          PDict [(''status'', PStr ''not_reconstructable''),
                 (''kind'', safe_text (dget m ''kind'') 64),
                 (''mimeType'', safe_text (dget m ''mimeType'') 256),
                 (''fileName'', safe_text (dget m ''fileName'') 512),
                 (''source'', safe_text (dget m ''source'') 32)])"

text \<open>The fallback to the recipient serves records from before the opaque identifier.\<close>

definition idempotency_scope :: "pdict \<Rightarrow> string \<times> string \<times> string" where
  "idempotency_scope a =
     (str_or_empty (dget a ''canonicalChannelId''),
      str_or_empty (py_or (dget a ''canonicalRecipientExternalId'') (dget a ''recipient'')),
      str_or_empty (dget a ''idempotencyKey''))"

definition same_canonical_idempotency_scope :: "pdict \<Rightarrow> pdict \<Rightarrow> bool" where
  "same_canonical_idempotency_scope existing candidate \<longleftrightarrow>
     idempotency_scope existing = idempotency_scope candidate"

definition attempt_fingerprint :: "(string \<Rightarrow> string) \<Rightarrow> pdict \<Rightarrow> string" where
  "attempt_fingerprint sha256 payload =
     sha256 (json_dumps True '','' '':'' (redact_json (PDict payload)))"

record attempt_args =
  aa_instance :: string
  aa_provider :: string
  aa_message_type :: pval
  aa_recipient :: pval
  aa_text :: pval
  aa_caption :: pval
  aa_correlation_id :: pval
  aa_request_id :: pval
  aa_operation :: string
  aa_provider_operation :: pval
  aa_media :: "pdict option"
  aa_message_id :: pval
  aa_conversation_id :: pval
  aa_idempotency_key :: pval
  aa_canonical_channel_id :: pval
  aa_canonical_recipient_external_id :: pval
  aa_retry_of_attempt_id :: pval
  aa_triggered_by_manual_action_id :: pval
  aa_source_delivery_id :: pval

definition request_payload :: "attempt_args \<Rightarrow> pdict" where
  "request_payload a =
     [(''messageType'', safe_text (aa_message_type a) 64), (''recipient'', safe_text (aa_recipient a) 128),
      (''text'', safe_text (aa_text a) 4096), (''caption'', safe_text (aa_caption a) 4096),
      (''providerOperation'', safe_text (aa_provider_operation a) 128),
      (''media'', safe_media_reference (aa_media a))]"

definition build_attempt ::
    "(string \<Rightarrow> string) \<Rightarrow> pdict \<Rightarrow> int \<Rightarrow> string \<Rightarrow> attempt_args \<Rightarrow> pdict" where
  "build_attempt sha256 registry_record now uid a =
     (let i = ''outbound_attempt_'' @ uid in
      [(''id'', PStr i), (''attemptId'', PStr i),
       (''instance'', PStr (aa_instance a)),
       (''connectionId'', pstr_opt (or_none (clean_str (dget registry_record ''id'')))),
       (''provider'', PStr (aa_provider a)), (''direction'', PStr ''outbound''),
       (''operation'', PStr (aa_operation a)), (''createdAt'', PInt now), (''startedAt'', PInt now),
       (''finishedAt'', PNone), (''messageId'', safe_text (aa_message_id a) 256),
       (''conversationId'', safe_text (aa_conversation_id a) 256),
       (''channelId'', pstr_opt (or_none (clean_str (dget registry_record ''channel_id'')))),
       (''correlationId'', safe_text (aa_correlation_id a) 256),
       (''requestId'', safe_text (aa_request_id a) 256), (''providerMessageId'', PNone),
       (''recipient'', safe_text (aa_recipient a) 255),
       (''messageType'', safe_text (aa_message_type a) 64), (''semanticStatus'', PStr ''unknown''),
       (''attemptState'', PStr ''pending''), (''deliveryState'', PStr ''pending''),
       (''reconciliationState'', PStr ''pending''), (''error'', PNone),
       (''requestMetadata'',
         PDict [(''providerOperation'', safe_text (aa_provider_operation a) 128),
                (''hasText'', PBool (truthy (aa_text a))), (''hasCaption'', PBool (truthy (aa_caption a)))]),
       (''requestPayload'', PDict (request_payload a)),
       (''requestFingerprint'', PStr (attempt_fingerprint sha256 (request_payload a))),
       (''mediaReference'', safe_media_reference (aa_media a)),
       (''idempotencyKey'', safe_text (aa_idempotency_key a) 255),
       (''canonicalChannelId'', safe_text (aa_canonical_channel_id a) 256),
       (''canonicalRecipientExternalId'', safe_text (aa_canonical_recipient_external_id a) 255),
       (''retryOf'', safe_text (aa_retry_of_attempt_id a) 256),
       (''triggeredByManualActionId'', safe_text (aa_triggered_by_manual_action_id a) 256),
       (''sourceDeliveryId'', safe_text (aa_source_delivery_id a) 256), (''legacy'', PBool False)])"

section \<open>The file\<close>

fun read_attempts :: "attempt_file \<Rightarrow> pdict list" where
  "read_attempts (Holds ds) = ds"
| "read_attempts _ = []"

definition write_attempts :: "bool \<Rightarrow> pdict list \<Rightarrow> attempt_file \<Rightarrow> unit res \<times> attempt_file" where
  "write_attempts disk_ok attempts f = replace_file disk_ok (map redact_items attempts) f"

definition trim_and_write :: "bool \<Rightarrow> int \<Rightarrow> pdict list \<Rightarrow> attempt_file \<Rightarrow> unit res \<times> attempt_file" where
  "trim_and_write disk_ok retention attempts f =
     write_attempts disk_ok (last_n (nat (max 1 retention)) attempts) f"

definition attempt_not_persisted :: py_exc where
  "attempt_not_persisted = PersistenceError ''No se pudo persistir el intento outbound''"

definition create_attempt ::
    "bool \<Rightarrow> int \<Rightarrow> pdict \<Rightarrow> attempt_file \<Rightarrow> pdict res \<times> attempt_file" where
  "create_attempt disk_ok retention attempt f =
     (case trim_and_write disk_ok retention (read_attempts f @ [attempt]) f of
        (Inl e, f') \<Rightarrow> (Inl attempt_not_persisted, f')
      | (Inr _, f') \<Rightarrow> (Inr attempt, f'))"

definition create_or_get_by_idempotency ::
    "(string \<Rightarrow> string) \<Rightarrow> pdict \<Rightarrow> bool \<Rightarrow> int \<Rightarrow> int \<Rightarrow> string \<Rightarrow> attempt_args \<Rightarrow> attempt_file
     \<Rightarrow> (pdict \<times> bool) res \<times> attempt_file" where
  "create_or_get_by_idempotency sha256 registry_record disk_ok retention now uid a f =
     (let clean_key = safe_text (aa_idempotency_key a) 128;
          clean_channel_id = safe_text (aa_canonical_channel_id a) 256
      in if clean_key = PNone \<or> clean_channel_id = PNone
         then (Inl (ValueError ''canonical idempotency key and channel are required''), f)
         else
           (let attempt = build_attempt sha256 registry_record now uid
                  (a\<lparr> aa_idempotency_key := clean_key, aa_canonical_channel_id := clean_channel_id \<rparr>)
            in case List.find (\<lambda>e. same_canonical_idempotency_scope e attempt) (read_attempts f) of
                 Some existing \<Rightarrow> (Inr (existing, False), f)
               | None \<Rightarrow>
                   (case trim_and_write disk_ok retention (read_attempts f @ [attempt]) f of
                      (Inl e, f') \<Rightarrow> (Inl attempt_not_persisted, f')
                    | (Inr _, f') \<Rightarrow> (Inr (attempt, True), f'))))"

text \<open>The first attempt whose id reads as \<open>attempt_id\<close> takes the redacted changes.\<close>

definition update_where ::
    "(pval \<Rightarrow> string) \<Rightarrow> bool \<Rightarrow> string \<Rightarrow> (pdict \<Rightarrow> pdict) \<Rightarrow> attempt_file \<Rightarrow> pdict res \<times> attempt_file" where
  "update_where str_of disk_ok attempt_id changes f =
     (let p = (\<lambda>a. str_of (dget a ''id'') = attempt_id);
          change = (\<lambda>a. dmerge a (redact_items (changes a)))
      in case List.find p (read_attempts f) of
           None \<Rightarrow> (Inl (KeyError attempt_id), f)
         | Some a \<Rightarrow>
             (case write_attempts disk_ok (modify_first p change (read_attempts f)) f of
                (Inl e, f') \<Rightarrow> (Inl e, f')
              | (Inr _, f') \<Rightarrow> (Inr (change a), f')))"

definition update_attempt ::
    "bool \<Rightarrow> string \<Rightarrow> (pdict \<Rightarrow> pdict) \<Rightarrow> attempt_file \<Rightarrow> pdict res \<times> attempt_file" where
  "update_attempt = update_where py_str"

section \<open>The outcome of a send\<close>

record attempt_error =
  er_semantic :: string
  er_delivery :: string
  er_reconciliation :: string
  er_category :: string

text \<open>
  Classification of the exception of a send by its message, redacted and lower-cased, and the
  HTTP status it carries, if any.
\<close>

definition error_verdict :: "string \<Rightarrow> int option \<Rightarrow> attempt_error" where
  "error_verdict lowered status =
     (let uncertain = (\<lambda>semantic category.
            \<lparr> er_semantic = semantic, er_delivery = ''unknown'', er_reconciliation = ''pending'',
              er_category = category \<rparr>);
          certain = (\<lambda>semantic category.
            \<lparr> er_semantic = semantic, er_delivery = ''failed'', er_reconciliation = ''not_required'',
              er_category = category \<rparr>)
      in if contains_str lowered ''timeout'' \<or> status = Some 504 then uncertain ''timeout'' ''timeout''
         else if status = Some 502 \<or>
           contains_any lowered [''transport'', ''network'', ''connect'', ''dns'', ''ssl'', ''reset'']
         then uncertain ''network_error'' ''network_error''
         else if status \<in> {Some 408, Some 429} \<or> (\<exists>c\<in>set_option status. 500 \<le> c)
         then uncertain ''failed'' ''http_error''
         else if status = Some 422 \<and> contains_any lowered [''credential'', ''token'', ''config'']
         then certain ''configuration_error'' ''configuration_error''
         else if \<exists>c\<in>set_option status. 400 \<le> c \<and> c < 500 then certain ''failed'' ''http_error''
         else uncertain ''unknown'' ''unknown'')"

definition error_state :: "(string \<Rightarrow> pval option) \<Rightarrow> string \<Rightarrow> int option \<Rightarrow> attempt_error" where
  "error_state loads message status =
     error_verdict (str_lower (redact_json_preview loads (PStr message) (Some 500))) status"

definition provider_message_id :: "pval \<Rightarrow> pval" where
  "provider_message_id result =
     (let r = as_dict result;
          key = as_dict (dget r ''key'');
          message = as_dict (dget r ''message'');
          nested_key = as_dict (dget message ''key'');
          value = py_or (dget r ''providerMessageId'') (py_or (dget r ''messageId'')
                    (py_or (dget key ''id'') (dget nested_key ''id'')))
      in if value \<noteq> PNone then pstr_opt (or_none (strip (py_str value))) else PNone)"

definition finish_success :: "bool \<Rightarrow> int \<Rightarrow> string \<Rightarrow> pval \<Rightarrow> attempt_file \<Rightarrow> pdict res \<times> attempt_file" where
  "finish_success disk_ok now attempt_id result f =
     update_attempt disk_ok attempt_id
       (\<lambda>_. [(''finishedAt'', PInt now), (''attemptState'', PStr ''completed''),
             (''semanticStatus'', PStr ''success''), (''deliveryState'', PStr ''accepted''),
             (''reconciliationState'', PStr ''not_required''),
             (''providerMessageId'', provider_message_id result), (''error'', PNone)]) f"

definition finish_error ::
    "(string \<Rightarrow> pval option) \<Rightarrow> bool \<Rightarrow> int \<Rightarrow> string \<Rightarrow> string \<Rightarrow> int option \<Rightarrow> attempt_file
     \<Rightarrow> pdict res \<times> attempt_file" where
  "finish_error loads disk_ok now attempt_id message status f =
     (let e = error_state loads message status in
      update_attempt disk_ok attempt_id
        (\<lambda>_. [(''finishedAt'', PInt now), (''attemptState'', PStr ''completed''),
              (''semanticStatus'', PStr (er_semantic e)), (''deliveryState'', PStr (er_delivery e)),
              (''reconciliationState'', PStr (er_reconciliation e)),
              (''error'', PDict [(''category'', PStr (er_category e)),
                 (''message'', PStr (redact_json_preview loads (PStr message) (Some 500))),
                 (''httpStatus'', pint_opt status)])]) f)"

text \<open>
  A send ends with a result or with an exception; the evidence is finished either way, and an
  exception is raised again.
\<close>

datatype send_outcome = Sent pval | Raised string "int option" py_exc

definition execute_outbound_attempt ::
    "(string \<Rightarrow> pval option) \<Rightarrow> bool \<Rightarrow> int \<Rightarrow> string \<Rightarrow> send_outcome \<Rightarrow> attempt_file
     \<Rightarrow> (pval \<times> pdict) res \<times> attempt_file" where
  "execute_outbound_attempt loads disk_ok now attempt_id outcome f =
     (case outcome of
        Sent result \<Rightarrow>
          (case finish_success disk_ok now attempt_id (if is_dict result then result else PNone) f of
             (Inl e, f') \<Rightarrow> (Inl e, f')
           | (Inr a, f') \<Rightarrow> (Inr (result, a), f'))
      | Raised message status exc \<Rightarrow>
          (case finish_error loads disk_ok now attempt_id message status f of
             (Inl e, f') \<Rightarrow> (Inl e, f')
           | (Inr _, f') \<Rightarrow> (Inl exc, f')))"

section \<open>Reading\<close>

definition list_attempts :: "string option \<Rightarrow> attempt_file \<Rightarrow> pdict list" where
  "list_attempts inst f =
     filter (\<lambda>a. case inst of None \<Rightarrow> True | Some i \<Rightarrow> dget a ''instance'' = PStr i) (read_attempts f)"

definition get_attempt :: "pval \<Rightarrow> attempt_file \<Rightarrow> pdict option" where
  "get_attempt attempt_id f =
     (let wanted = clean_str attempt_id in
      if wanted = [] then None
      else List.find (\<lambda>a. str_or_empty (dget a ''id'') = wanted) (read_attempts f))"

definition provider_message_candidates :: "pval \<Rightarrow> pval \<Rightarrow> pval \<Rightarrow> attempt_file \<Rightarrow> pdict list" where
  "provider_message_candidates inst provider message_id f =
     (let clean_instance = clean_str inst;
          clean_provider = str_lower (clean_str provider);
          clean_message_id = clean_str message_id
      in if clean_instance = [] \<or> clean_provider = [] \<or> clean_message_id = [] then []
         else filter (\<lambda>a. str_lower (clean_str (dget a ''provider'')) = clean_provider \<and>
                clean_str (dget a ''providerMessageId'') = clean_message_id)
                (list_attempts (Some clean_instance) f))"

section \<open>Evidence that arrives later\<close>

definition record_reconciliation ::
    "bool \<Rightarrow> string \<Rightarrow> pdict \<Rightarrow> pval \<Rightarrow> bool \<Rightarrow> attempt_file \<Rightarrow> pdict res \<times> attempt_file" where
  "record_reconciliation disk_ok attempt_id evidence delivery_state resolved f =
     (let safe_evidence = redact_items evidence in
      update_where str_or_empty disk_ok attempt_id
        (\<lambda>item. let history = last_n 49 (filter is_dict (as_list (dget item ''reconciliationHistory''))) @
                    [PDict safe_evidence]
                in [(''lastReconciliation'', PDict safe_evidence), (''reconciliationHistory'', PList history)] @
                   (if truthy delivery_state then [(''deliveryState'', safe_text delivery_state 64)] else []) @
                   (if resolved then [(''reconciliationState'', PStr ''not_required'')] else [])) f)"

definition status_evidence :: "int \<Rightarrow> pval \<Rightarrow> pval \<Rightarrow> pval \<Rightarrow> pval \<Rightarrow> pval \<Rightarrow> pdict" where
  "status_evidence now status provider message_id event_id timestamp =
     [(''eventId'', safe_text event_id 256),
      (''timestamp'', if is_int timestamp then timestamp else PInt now),
      (''provider'', safe_text provider 64), (''providerMessageId'', safe_text message_id 256),
      (''status'', safe_text status 64)]"

definition record_provider_status ::
    "bool \<Rightarrow> int \<Rightarrow> string \<Rightarrow> pval \<Rightarrow> pval \<Rightarrow> pval \<Rightarrow> pval \<Rightarrow> pval \<Rightarrow> attempt_file
     \<Rightarrow> pdict res \<times> attempt_file" where
  "record_provider_status disk_ok now attempt_id status provider message_id event_id timestamp f =
     (let safe_status = safe_text status 64;
          evidence = PDict (status_evidence now status provider message_id event_id timestamp)
      in if safe_status = PNone then (Inl (ValueError ''A provider status is required''), f)
         else update_attempt disk_ok attempt_id
           (\<lambda>item. let history = as_list (dget item ''statusHistory'');
                       history' = (if evidence \<in> set history then history
                                   else last_n 49 (filter is_dict history) @ [evidence])
                   in [(''deliveryState'', safe_status), (''reconciliationState'', PStr ''not_required''),
                       (''lastProviderStatus'', evidence), (''statusHistory'', PList history')]) f)"

section \<open>The read model of deliveries\<close>

definition delivery_from_attempt :: "pdict \<Rightarrow> pval" where
  "delivery_from_attempt a =
     redact_json (PDict
       [(''id'', dget a ''id''), (''attemptId'', dget a ''id''), (''timestamp'', dget a ''createdAt''),
        (''direction'', PStr ''outbound''), (''operation'', dget a ''operation''),
        (''provider'', dget a ''provider''), (''semanticStatus'', dget a ''semanticStatus''),
        (''deliveryState'', dget a ''deliveryState''), (''reconciliationState'', dget a ''reconciliationState''),
        (''messageId'', dget a ''messageId''), (''providerMessageId'', dget a ''providerMessageId''),
        (''conversationId'', dget a ''conversationId''), (''channelId'', dget a ''channelId''),
        (''connectionId'', dget a ''connectionId''), (''correlationId'', dget a ''correlationId''),
        (''requestId'', dget a ''requestId''), (''eventId'', PNone), (''durationMs'', PNone),
        (''attemptCount'', PInt 1), (''retryCount'', PInt 0),
        (''request'', PDict [(''method'', PStr ''PROVIDER_SEND''),
           (''body'', py_or (dget a ''requestPayload'') (PDict []))]),
        (''response'', PDict [(''status'', PNone), (''headers'', PDict []), (''body'', PDict [])]),
        (''error'', dget a ''error''),
        (''metadata'', PDict
          [(''attemptState'', dget a ''attemptState''), (''requestFingerprint'', dget a ''requestFingerprint''),
           (''mediaReference'', dget a ''mediaReference''), (''lastProviderStatus'', dget a ''lastProviderStatus''),
           (''statusHistory'', py_or (dget a ''statusHistory'') (PList [])),
           (''lastReconciliation'', dget a ''lastReconciliation''),
           (''reconciliationHistory'', py_or (dget a ''reconciliationHistory'') (PList [])),
           (''retryOfAttemptId'', dget a ''retryOf''),
           (''triggeredByManualActionId'', dget a ''triggeredByManualActionId''),
           (''sourceDeliveryId'', dget a ''sourceDeliveryId''), (''legacy'', PBool False)]),
        (''isTest'', PBool False)])"

end
