(* ===== verification/Outbound_Attempts_Spec.thy ===== *)
theory Outbound_Attempts_Spec
  imports Outbound_Attempts
begin

text \<open>
  What the evidence of provider sends promises: an idempotency scope is claimed by one attempt,
  a failure is called certain only on a client error, evidence that arrives later is kept
  without touching the outcome of the send, and no secret is in the file.
\<close>

section \<open>Redacted attempts\<close>

lemma dget_redact:
  "\<not> is_sensitive_name k \<Longrightarrow> dget (redact_items d) k = redact_json (dget d k)"
  by (induction d) (auto simp: dget_def)

text \<open>The names whose values the lemmas read; none of them is redacted.\<close>

lemma attempt_names [simp]:
  "\<not> is_sensitive_name ''id''" "\<not> is_sensitive_name ''canonicalChannelId''"
  "\<not> is_sensitive_name ''canonicalRecipientExternalId''" "\<not> is_sensitive_name ''recipient''"
  "\<not> is_sensitive_name ''idempotencyKey''" "\<not> is_sensitive_name ''deliveryState''"
  "\<not> is_sensitive_name ''semanticStatus''" "\<not> is_sensitive_name ''reconciliationState''"
  "\<not> is_sensitive_name ''attemptState''" "\<not> is_sensitive_name ''statusHistory''"
  "\<not> is_sensitive_name ''lastProviderStatus''" "\<not> is_sensitive_name ''eventId''"
  "\<not> is_sensitive_name ''timestamp''" "\<not> is_sensitive_name ''provider''"
  "\<not> is_sensitive_name ''providerMessageId''" "\<not> is_sensitive_name ''status''"
  "\<not> is_sensitive_name ''finishedAt''" "\<not> is_sensitive_name ''error''"
  "\<not> is_sensitive_name ''category''" "\<not> is_sensitive_name ''message''" "\<not> is_sensitive_name ''httpStatus''"
  by code_simp+

definition attempts_wf :: "attempt_file \<Rightarrow> bool" where
  "attempts_wf f \<longleftrightarrow> list_all no_secret_items (read_attempts f)"

lemma redact_safe: "no_secret_items a \<Longrightarrow> redact_items a = a"
  using redact_no_secret(3) by simp

lemma write_attempts_Inl: "write_attempts ok ds f = (Inl e, f') \<Longrightarrow> f' = f"
  by (simp add: write_attempts_def replace_file_Inl)

lemma write_attempts_Inr: "write_attempts ok ds f = (Inr u, f') \<Longrightarrow> f' = Holds (map redact_items ds)"
  by (auto simp: write_attempts_def replace_file_def split: if_split_asm)

lemma write_attempts_True [simp]: "write_attempts True ds f = (Inr (), Holds (map redact_items ds))"
  by (simp add: write_attempts_def)

lemma attempts_wf_write: "attempts_wf f \<Longrightarrow> attempts_wf (snd (write_attempts ok ds f))"
  using no_secret_redact(3)
  by (auto simp: write_attempts_def replace_file_def attempts_wf_def list_all_iff)

lemma attempts_wf_update: "attempts_wf f \<Longrightarrow> attempts_wf (snd (update_where g ok i c f))"
  by (simp add: update_where_def Let_def snd_after_write attempts_wf_write split: option.split)

text \<open>
  the evidence file never holds a secret and never outgrows its retention: creating,
  claiming, finishing and correlating attempts all leave a file in which every sensitive name,
  at any depth, holds the redaction mark, and an attempt that is stored leaves at most the
  configured number of attempts, itself among them.
\<close>

theorem evidence_is_safe_and_bounded:
  assumes "attempts_wf f"
  shows "attempts_wf (snd (create_attempt ok r a f)) \<and>
    attempts_wf (snd (create_or_get_by_idempotency sha reg ok r now uid args f)) \<and>
    attempts_wf (snd (finish_success ok now i res f)) \<and>
    attempts_wf (snd (finish_error loads ok now i msg st f)) \<and>
    attempts_wf (snd (record_reconciliation ok i ev ds resolved f)) \<and>
    attempts_wf (snd (record_provider_status ok now i s p m e t f)) \<and>
    (ok \<longrightarrow> int (length (read_attempts (snd (create_attempt ok r a f)))) \<le> max 1 r \<and>
      redact_items a \<in> set (read_attempts (snd (create_attempt ok r a f))))"
proof -
  have c: "attempts_wf (snd (create_attempt ok r a f))"
    by (simp add: create_attempt_def trim_and_write_def snd_after_write attempts_wf_write assms)
  have g: "attempts_wf (snd (create_or_get_by_idempotency sha reg ok r now uid args f))"
    by (simp add: create_or_get_by_idempotency_def trim_and_write_def Let_def snd_after_write
        attempts_wf_write assms split: option.split)
  have b: "ok \<longrightarrow> int (length (read_attempts (snd (create_attempt ok r a f)))) \<le> max 1 r \<and>
      redact_items a \<in> set (read_attempts (snd (create_attempt ok r a f)))"
  proof
    assume ok
    have pos: "0 < nat (max 1 r)" by simp
    have "read_attempts (snd (create_attempt ok r a f)) =
        map redact_items (last_n (nat (max 1 r) - 1) (read_attempts f) @ [a])"
      using \<open>ok\<close> by (simp add: create_attempt_def trim_and_write_def last_n_snoc [OF pos])
    then show "int (length (read_attempts (snd (create_attempt ok r a f)))) \<le> max 1 r \<and>
        redact_items a \<in> set (read_attempts (snd (create_attempt ok r a f)))"
      using pos by (auto simp: min_def)
  qed
  show ?thesis
    using c g b attempts_wf_update [OF assms] assms
    by (simp add: finish_success_def finish_error_def record_reconciliation_def
        record_provider_status_def update_attempt_def Let_def)
qed

theorem evidence_is_safe_and_bounded_witness:
  "attempts_wf (snd (create_attempt True 1 [(''id'', PStr ''a''), (''accessToken'', PStr ''t'')] Absent))"
proof -
  have "attempts_wf Absent" by (simp add: attempts_wf_def)
  from evidence_is_safe_and_bounded [OF this, of True 1 "[(''id'', PStr ''a''), (''accessToken'', PStr ''t'')]"]
  show ?thesis by (rule conjunct1)
qed

section \<open>One attempt per idempotency scope\<close>

lemma safe_text_redact [simp]: "redact_json (safe_text v n) = safe_text v n"
  by (simp add: safe_text_def Let_def)

lemma idempotency_scope_redact:
  assumes "redact_json (dget a ''canonicalChannelId'') = dget a ''canonicalChannelId''"
    and "redact_json (dget a ''canonicalRecipientExternalId'') = dget a ''canonicalRecipientExternalId''"
    and "redact_json (dget a ''recipient'') = dget a ''recipient''"
    and "redact_json (dget a ''idempotencyKey'') = dget a ''idempotencyKey''"
  shows "idempotency_scope (redact_items a) = idempotency_scope a"
  using assms by (simp add: idempotency_scope_def dget_redact)

text \<open>What a claim compares: the key cut to 128 characters, the channel, the recipients.\<close>

definition claim_scope :: "attempt_args \<Rightarrow> pval \<times> pval \<times> pval \<times> pval" where
  "claim_scope a =
     (safe_text (aa_idempotency_key a) 128, safe_text (aa_canonical_channel_id a) 256,
      safe_text (aa_canonical_recipient_external_id a) 255, safe_text (aa_recipient a) 255)"

definition claimed_args :: "attempt_args \<Rightarrow> attempt_args" where
  "claimed_args a =
     a\<lparr> aa_idempotency_key := safe_text (aa_idempotency_key a) 128,
        aa_canonical_channel_id := safe_text (aa_canonical_channel_id a) 256 \<rparr>"

lemma build_attempt_fields:
  "dget (build_attempt sha reg now uid a) ''canonicalChannelId'' = safe_text (aa_canonical_channel_id a) 256"
  "dget (build_attempt sha reg now uid a) ''canonicalRecipientExternalId'' =
     safe_text (aa_canonical_recipient_external_id a) 255"
  "dget (build_attempt sha reg now uid a) ''recipient'' = safe_text (aa_recipient a) 255"
  "dget (build_attempt sha reg now uid a) ''idempotencyKey'' = safe_text (aa_idempotency_key a) 255"
  "dget (build_attempt sha reg now uid a) ''id'' = PStr (''outbound_attempt_'' @ uid)"
  by (simp_all add: build_attempt_def Let_def dget_Cons)

lemma built_scope:
  assumes "claim_scope b = claim_scope a"
  shows "idempotency_scope (build_attempt sha reg now uid (claimed_args b)) =
    idempotency_scope (build_attempt sha' reg' now' uid' (claimed_args a))"
  using assms by (simp add: idempotency_scope_def build_attempt_fields claimed_args_def claim_scope_def)

lemma redact_built_scope:
  "idempotency_scope (redact_items (build_attempt sha reg now uid a)) =
    idempotency_scope (build_attempt sha reg now uid a)"
  by (rule idempotency_scope_redact) (simp_all add: build_attempt_fields)

lemma create_or_get_alt:
  "create_or_get_by_idempotency sha reg ok r now uid a f =
     (if safe_text (aa_idempotency_key a) 128 = PNone \<or> safe_text (aa_canonical_channel_id a) 256 = PNone
      then (Inl (ValueError ''canonical idempotency key and channel are required''), f)
      else case List.find (\<lambda>e. same_canonical_idempotency_scope e (build_attempt sha reg now uid (claimed_args a)))
                  (read_attempts f) of
          Some existing \<Rightarrow> (Inr (existing, False), f)
        | None \<Rightarrow> (case trim_and_write ok r (read_attempts f @ [build_attempt sha reg now uid (claimed_args a)]) f of
                      (Inl e, f') \<Rightarrow> (Inl attempt_not_persisted, f')
                    | (Inr _, f') \<Rightarrow> (Inr (build_attempt sha reg now uid (claimed_args a), True), f')))"
  unfolding create_or_get_by_idempotency_def claimed_args_def Let_def by (rule refl)

lemma find_snoc_new:
  assumes "\<forall>x\<in>set xs. \<not> p x" and "p y"
  shows "List.find p (xs @ [y]) = Some y"
  using assms by (induction xs) auto

text \<open>
  a canonical send is claimed once: after a claim has answered with an attempt, every later
  claim for the same channel, recipient and idempotency key, whatever else it carries, answers
  with that attempt, reports that nothing was created, and leaves the file as it is, so the
  provider is asked once. The key counts up to its first 128 characters.
\<close>

theorem send_claimed_once:
  assumes "attempts_wf f"
    and "create_or_get_by_idempotency sha reg ok r now uid a f = (Inr (x, created), f1)"
    and "claim_scope b = claim_scope a"
  shows "\<exists>y. create_or_get_by_idempotency sha' reg' ok' r' now' uid' b f1 = (Inr (y, False), f1) \<and>
    dget y ''id'' = dget x ''id''"
proof -
  let ?a = "build_attempt sha reg now uid (claimed_args a)"
  let ?b = "build_attempt sha' reg' now' uid' (claimed_args b)"
  have scope: "same_canonical_idempotency_scope e ?b = same_canonical_idempotency_scope e ?a" for e
    using built_scope [OF assms(3), of sha' reg' now' uid' sha reg now uid]
    by (simp add: same_canonical_idempotency_scope_def)
  have valid: "\<not> (safe_text (aa_idempotency_key a) 128 = PNone \<or> safe_text (aa_canonical_channel_id a) 256 = PNone)"
    using assms(2) by (auto simp: create_or_get_alt split: if_split_asm)
  then have valid': "\<not> (safe_text (aa_idempotency_key b) 128 = PNone \<or> safe_text (aa_canonical_channel_id b) 256 = PNone)"
    using assms(3) by (simp add: claim_scope_def)
  show ?thesis
  proof (cases "List.find (\<lambda>e. same_canonical_idempotency_scope e ?a) (read_attempts f)")
    case (Some e)
    then have "x = e" "f1 = f" using assms(2) valid by (simp_all add: create_or_get_alt)
    then show ?thesis using Some valid' scope by (simp add: create_or_get_alt)
  next
    case None
    let ?old = "last_n (nat (max 1 r) - 1) (read_attempts f)"
    have keep: "last_n (nat (max 1 r)) (read_attempts f @ [?a]) = ?old @ [?a]"
      by (rule last_n_snoc) simp
    have x: "x = ?a" and f1: "f1 = Holds (map redact_items (?old @ [?a]))"
      using assms(2) valid None
      by (auto simp: create_or_get_alt trim_and_write_def keep dest!: write_attempts_Inr
          split: prod.splits sum.splits)
    have "map redact_items ?old = ?old"
      using assms(1) by (intro map_idI redact_safe) (auto simp: attempts_wf_def list_all_iff dest: in_last_n)
    then have f1': "read_attempts f1 = ?old @ [redact_items ?a]" by (simp add: f1)
    have "\<forall>e\<in>set ?old. \<not> same_canonical_idempotency_scope e ?a"
      using None by (auto simp: find_None_iff dest: in_last_n)
    moreover have "same_canonical_idempotency_scope (redact_items ?a) ?a"
      by (simp add: same_canonical_idempotency_scope_def redact_built_scope)
    ultimately have "List.find (\<lambda>e. same_canonical_idempotency_scope e ?b) (read_attempts f1) =
        Some (redact_items ?a)"
      using scope by (simp add: f1' find_snoc_new)
    then show ?thesis
      using valid' by (simp add: create_or_get_alt x dget_redact build_attempt_fields)
  qed
qed

definition sample_args :: "string \<Rightarrow> attempt_args" where
  "sample_args text =
     \<lparr> aa_instance = ''wa1'', aa_provider = ''meta'', aa_message_type = PStr ''text'',
       aa_recipient = PStr ''549'', aa_text = PStr text, aa_caption = PNone, aa_correlation_id = PNone,
       aa_request_id = PNone, aa_operation = ''provider.message.outbound'', aa_provider_operation = PNone,
       aa_media = None, aa_message_id = PNone, aa_conversation_id = PNone,
       aa_idempotency_key = PStr ''k1'', aa_canonical_channel_id = PStr ''h1'',
       aa_canonical_recipient_external_id = PStr ''549'', aa_retry_of_attempt_id = PNone,
       aa_triggered_by_manual_action_id = PNone, aa_source_delivery_id = PNone \<rparr>"

theorem send_claimed_once_witness:
  "\<exists>y f1. create_or_get_by_idempotency rev [] True 10 6 ''u2'' (sample_args ''bye'')
     (snd (create_or_get_by_idempotency rev [] True 10 5 ''u1'' (sample_args ''hi'') Absent)) = (Inr (y, False), f1) \<and>
    dget y ''id'' = PStr ''outbound_attempt_u1''"
proof -
  have w: "attempts_wf Absent" by (simp add: attempts_wf_def)
  have s: "claim_scope (sample_args ''bye'') = claim_scope (sample_args ''hi'')"
    by (simp add: claim_scope_def sample_args_def)
  let ?x = "build_attempt rev [] 5 ''u1'' (claimed_args (sample_args ''hi''))"
  obtain f1 where c: "create_or_get_by_idempotency rev [] True 10 5 ''u1'' (sample_args ''hi'') Absent =
      (Inr (?x, True), f1)"
    by (simp add: create_or_get_alt trim_and_write_def sample_args_def safe_text_def Let_def)
  from send_claimed_once [OF w c s, of rev "[]" True 10 6 "''u2''"] obtain y where
    "create_or_get_by_idempotency rev [] True 10 6 ''u2'' (sample_args ''bye'') f1 = (Inr (y, False), f1)"
    "dget y ''id'' = dget ?x ''id''" by (elim exE conjE) (rule that)
  then show ?thesis unfolding c snd_conv by (auto simp: build_attempt_fields)
qed

section \<open>What counts as a certain failure\<close>

text \<open>
  a failure is certain only on evidence: an attempt is classified as failed exactly when the
  provider answered with a client error other than 408 and 429 and the message speaks of no
  timeout or network failure; every other exception leaves its delivery unknown and waiting for
  reconciliation.
\<close>

theorem certain_failure_needs_client_error:
  "(er_delivery (error_state loads message status) = ''failed'' \<longleftrightarrow>
     (\<exists>c. status = Some c \<and> 400 \<le> c \<and> c < 500 \<and> c \<notin> {408, 429}) \<and>
     \<not> contains_any (str_lower (redact_json_preview loads (PStr message) (Some 500)))
         [''timeout'', ''transport'', ''network'', ''connect'', ''dns'', ''ssl'', ''reset'']) \<and>
   (er_delivery (error_state loads message status) = ''failed'' \<or>
    (er_delivery (error_state loads message status) = ''unknown'' \<and>
     er_reconciliation (error_state loads message status) = ''pending''))"
proof -
  have "(er_delivery (error_verdict l status) = ''failed'' \<longleftrightarrow>
     (\<exists>c. status = Some c \<and> 400 \<le> c \<and> c < 500 \<and> c \<notin> {408, 429}) \<and>
     \<not> contains_any l [''timeout'', ''transport'', ''network'', ''connect'', ''dns'', ''ssl'', ''reset'']) \<and>
   (er_delivery (error_verdict l status) = ''failed'' \<or>
    (er_delivery (error_verdict l status) = ''unknown'' \<and>
     er_reconciliation (error_verdict l status) = ''pending''))" for l
    by (cases status) (auto simp: error_verdict_def Let_def contains_any_def)
  from this [of "str_lower (redact_json_preview loads (PStr message) (Some 500))"]
  show ?thesis unfolding error_state_def .
qed

section \<open>Finishing an attempt\<close>

lemma dget_dmerge_redact:
  assumes "distinct (map fst c)" and "\<not> is_sensitive_name k"
  shows "dget (dmerge a (redact_items c)) k = (if dhas c k then redact_json (dget c k) else dget a k)"
proof -
  have "dhas (redact_items c) k = dhas c k" by (metis dhas_iff map_fst_redact_items set_map)
  moreover have "distinct (map fst (redact_items c))" using assms(1) by simp
  ultimately show ?thesis using assms(2) by (simp add: dget_dmerge_distinct dget_redact)
qed

lemma update_where_Inl: "update_where g ok i c f = (Inl e, f') \<Longrightarrow> f' = f"
  using write_attempts_Inl
  by (auto simp: update_where_def Let_def split: option.splits prod.splits sum.splits)

lemma update_where_found:
  assumes "List.find (\<lambda>a. g (dget a ''id'') = i) (read_attempts f) = Some a"
  shows "update_where g True i c f =
    (Inr (dmerge a (redact_items (c a))),
     Holds (map redact_items (modify_first (\<lambda>a. g (dget a ''id'') = i)
       (\<lambda>a. dmerge a (redact_items (c a))) (read_attempts f))))"
  using assms by (simp add: update_where_def Let_def)

text \<open>
  the outcome of a send is recorded whatever it is: for a stored attempt a result finishes
  it as accepted, and an exception finishes it with the classification of that exception and is
  raised again, so a failure is neither swallowed nor left pending.
\<close>

theorem send_outcome_recorded:
  assumes "List.find (\<lambda>a. py_str (dget a ''id'') = i) (read_attempts f) = Some a"
  shows "\<exists>a' f'.
    fst (execute_outbound_attempt loads True now i (Sent res) f) = Inr (res, a') \<and>
    dget a' ''semanticStatus'' = PStr ''success'' \<and> dget a' ''deliveryState'' = PStr ''accepted'' \<and>
    dget a' ''attemptState'' = PStr ''completed'' \<and>
    execute_outbound_attempt loads True now i (Raised msg st exc) f = (Inl exc, f') \<and>
    (\<exists>b. redact_items b \<in> set (read_attempts f') \<and> dget b ''id'' = dget a ''id'' \<and>
       dget b ''attemptState'' = PStr ''completed'' \<and>
       dget b ''deliveryState'' = PStr (er_delivery (error_state loads msg st)) \<and>
       dget b ''reconciliationState'' = PStr (er_reconciliation (error_state loads msg st)))"
proof -
  let ?p = "\<lambda>a. py_str (dget a ''id'') = i"
  define e where "e = error_state loads msg st"
  define c where "c = [(''finishedAt'', PInt now), (''attemptState'', PStr ''completed''),
     (''semanticStatus'', PStr (er_semantic e)), (''deliveryState'', PStr (er_delivery e)),
     (''reconciliationState'', PStr (er_reconciliation e)),
     (''error'', PDict [(''category'', PStr (er_category e)),
        (''message'', PStr (redact_json_preview loads (PStr msg) (Some 500))),
        (''httpStatus'', pint_opt st)])]"
  let ?b = "dmerge a (redact_items c)"
  define f' where "f' = Holds (map redact_items (modify_first ?p (\<lambda>a. dmerge a (redact_items c)) (read_attempts f)))"
  have found: "update_attempt True i (\<lambda>_. c) f = (Inr ?b, f')"
    using update_where_found [OF assms, of "\<lambda>_. c"] by (simp add: update_attempt_def f'_def)
  have mem: "?b \<in> set (modify_first ?p (\<lambda>a. dmerge a (redact_items c)) (read_attempts f))"
    using modify_first_member [OF assms, of "\<lambda>a. dmerge a (redact_items c)"] .
  have d: "distinct (map fst c)" by (simp add: c_def)
  have b: "dget ?b ''id'' = dget a ''id''" "dget ?b ''attemptState'' = PStr ''completed''"
    "dget ?b ''deliveryState'' = PStr (er_delivery e)"
    "dget ?b ''reconciliationState'' = PStr (er_reconciliation e)"
    by (simp_all add: dget_dmerge_redact [OF d]) (simp_all add: c_def dhas_Cons dget_Cons)
  have raised: "execute_outbound_attempt loads True now i (Raised msg st exc) f = (Inl exc, f')"
    using found by (simp add: execute_outbound_attempt_def finish_error_def Let_def c_def e_def)
  define c' where "c' = [(''finishedAt'', PInt now), (''attemptState'', PStr ''completed''),
     (''semanticStatus'', PStr ''success''), (''deliveryState'', PStr ''accepted''),
     (''reconciliationState'', PStr ''not_required''),
     (''providerMessageId'', provider_message_id (if is_dict res then res else PNone)), (''error'', PNone)]"
  let ?a' = "dmerge a (redact_items c')"
  have d': "distinct (map fst c')" by (simp add: c'_def)
  have success: "fst (execute_outbound_attempt loads True now i (Sent res) f) = Inr (res, ?a')"
    using update_where_found [OF assms, of "\<lambda>_. c'"]
    by (simp add: execute_outbound_attempt_def finish_success_def update_attempt_def c'_def)
  have a': "dget ?a' ''semanticStatus'' = PStr ''success''" "dget ?a' ''deliveryState'' = PStr ''accepted''"
    "dget ?a' ''attemptState'' = PStr ''completed''"
    by (simp_all add: dget_dmerge_redact [OF d']) (simp_all add: c'_def dhas_Cons dget_Cons)
  have "redact_items ?b \<in> set (read_attempts f')" using mem by (simp add: f'_def)
  then show ?thesis using success a' raised b unfolding e_def [symmetric] by blast
qed

theorem send_outcome_recorded_witness:
  "\<exists>f'. execute_outbound_attempt (\<lambda>_. None) True 9 ''a1'' (Raised ''Read timeout'' None OSError)
     (Holds [[(''id'', PStr ''a1'')]]) = (Inl OSError, f')"
proof -
  have "List.find (\<lambda>a. py_str (dget a ''id'') = ''a1'') (read_attempts (Holds [[(''id'', PStr ''a1'')]])) =
      Some [(''id'', PStr ''a1'')]"
    by (simp add: dget_def)
  from send_outcome_recorded [OF this, of "\<lambda>_. None" 9 PNone "''Read timeout''" None OSError]
  show ?thesis by (elim exE conjE) (rule exI)
qed

section \<open>Provider statuses\<close>

lemma no_secret_update:
  assumes "no_secret_items d" and "if is_sensitive_name k then v = PStr REDACTED else no_secret v"
  shows "no_secret_items (dset d k v)"
  using assms by (induction d) auto

lemma no_secret_dmerge: "no_secret_items d \<Longrightarrow> no_secret_items e \<Longrightarrow> no_secret_items (dmerge d e)"
  unfolding dmerge_def
  by (induction e arbitrary: d) (auto simp: no_secret_update split: if_split_asm)

lemma redact_dget:
  "no_secret_items d \<Longrightarrow> \<not> is_sensitive_name k \<Longrightarrow> redact_json (dget d k) = dget d k"
  using dget_redact redact_safe by metis

lemma redact_as_list: "redact_json v = v \<Longrightarrow> redact_list (as_list v) = as_list v"
  by (cases v) auto

lemma update_safe_file:
  assumes "attempts_wf f"
  shows "map redact_items (modify_first p (\<lambda>a. dmerge a (redact_items (c a))) (read_attempts f)) =
    modify_first p (\<lambda>a. dmerge a (redact_items (c a))) (read_attempts f)"
proof -
  have "list_all no_secret_items (modify_first p (\<lambda>a. dmerge a (redact_items (c a))) (read_attempts f))"
    using assms by (intro list_all_modify_first)
      (auto simp: attempts_wf_def intro: no_secret_dmerge no_secret_redact(3))
  then show ?thesis by (intro map_idI redact_safe) (simp add: list_all_iff)
qed

definition new_history :: "pval \<Rightarrow> pdict \<Rightarrow> pval list" where
  "new_history evidence item =
     (let history = as_list (dget item ''statusHistory'') in
      if evidence \<in> set history then history else last_n 49 (filter is_dict history) @ [evidence])"

definition status_changes :: "pval \<Rightarrow> pval \<Rightarrow> pdict \<Rightarrow> pdict" where
  "status_changes evidence safe_status item =
     [(''deliveryState'', safe_status), (''reconciliationState'', PStr ''not_required''),
      (''lastProviderStatus'', evidence), (''statusHistory'', PList (new_history evidence item))]"

lemma record_provider_status_alt:
  "record_provider_status ok now i st p m e t f =
     (if safe_text st 64 = PNone then (Inl (ValueError ''A provider status is required''), f)
      else update_attempt ok i
        (status_changes (PDict (status_evidence now st p m e t)) (safe_text st 64)) f)"
  unfolding record_provider_status_def status_changes_def new_history_def Let_def by (rule refl)

lemma redact_evidence:
  "is_int t \<Longrightarrow> redact_json (PDict (status_evidence now st p m e t)) = PDict (status_evidence now st p m e t)"
  by (cases t) (simp_all add: status_evidence_def)

lemma status_changes_fields:
  assumes "no_secret_items a" and "redact_json ev = ev"
  shows "dget (dmerge a (redact_items (status_changes ev (safe_text st 64) a))) k =
    (if k = ''deliveryState'' then safe_text st 64
     else if k = ''reconciliationState'' then PStr ''not_required''
     else if k = ''lastProviderStatus'' then ev
     else if k = ''statusHistory'' then PList (new_history ev a) else dget a k)"
proof -
  let ?c = "status_changes ev (safe_text st 64) a"
  have h: "map redact_json (as_list (dget a ''statusHistory'')) = as_list (dget a ''statusHistory'')"
    using redact_as_list [OF redact_dget [OF assms(1)]] by (simp add: redact_list_map)
  have "map redact_json (new_history ev a) = new_history ev a"
    using assms(2)
    by (intro map_idI)
      (auto simp: new_history_def Let_def intro: map_fixes [OF h] dest!: in_last_n split: if_split_asm)
  then have "redact_items ?c = ?c"
    using assms(2) by (simp add: status_changes_def redact_list_map)
  then show ?thesis
    by (simp add: dget_dmerge_distinct status_changes_def dhas_Cons dget_Cons)
qed

text \<open>
  a provider status is evidence, not an outcome: recording one sets the delivery state and
  keeps the semantic status and the state of the attempt, appends the evidence to a history of
  at most fifty entries, and recording the same evidence again, at any later time, leaves the
  history as it is.
\<close>

theorem provider_status_is_evidence:
  assumes wf: "attempts_wf f"
    and found: "List.find (\<lambda>a. py_str (dget a ''id'') = i) (read_attempts f) = Some a"
    and status: "safe_text st 64 \<noteq> PNone" and time: "is_int t"
  shows "\<exists>a1 f1. record_provider_status True now i st p m e t f = (Inr a1, f1) \<and>
    dget a1 ''semanticStatus'' = dget a ''semanticStatus'' \<and> dget a1 ''attemptState'' = dget a ''attemptState'' \<and>
    dget a1 ''deliveryState'' = safe_text st 64 \<and>
    PDict (status_evidence now st p m e t) \<in> set (as_list (dget a1 ''statusHistory'')) \<and>
    length (as_list (dget a1 ''statusHistory'')) \<le> max 50 (length (as_list (dget a ''statusHistory''))) \<and>
    (\<exists>a2 f2. record_provider_status True now' i st p m e t f1 = (Inr a2, f2) \<and>
       dget a2 ''statusHistory'' = dget a1 ''statusHistory'')"
proof -
  let ?ev = "PDict (status_evidence now st p m e t)"
  let ?c = "status_changes ?ev (safe_text st 64)"
  let ?p = "\<lambda>a. py_str (dget a ''id'') = i"
  let ?change = "\<lambda>a. dmerge a (redact_items (?c a))"
  let ?f1 = "Holds (modify_first ?p ?change (read_attempts f))"
  have same: "status_evidence now' st p m e t = status_evidence now st p m e t"
    using time by (simp add: status_evidence_def)
  have safe: "no_secret_items a"
    using wf found by (auto simp: attempts_wf_def list_all_iff find_Some_iff)
  note fields = status_changes_fields [OF safe redact_evidence [OF time]]
  have run1: "record_provider_status True now i st p m e t f = (Inr (?change a), ?f1)"
    using update_where_found [OF found, of ?c] status update_safe_file [OF wf]
    by (simp add: record_provider_status_alt update_attempt_def)
  have safe1: "no_secret_items (?change a)" by (intro no_secret_dmerge safe no_secret_redact(3))
  have "?p (?change a)" using found by (auto simp: fields find_Some_iff)
  then have found1: "List.find ?p (read_attempts ?f1) = Some (?change a)"
    using find_modify_first_same [OF found, of ?change] by simp
  have in1: "?ev \<in> set (as_list (dget (?change a) ''statusHistory''))"
    by (simp add: fields new_history_def Let_def)
  have run2: "\<exists>f2. record_provider_status True now' i st p m e t ?f1 =
      (Inr (dmerge (?change a) (redact_items (?c (?change a)))), f2)"
    using update_where_found [OF found1, of ?c] status
    by (simp add: record_provider_status_alt update_attempt_def same)
  have hist: "dget (dmerge (?change a) (redact_items (?c (?change a)))) ''statusHistory'' =
      dget (?change a) ''statusHistory''"
    using in1 status_changes_fields [OF safe1 redact_evidence [OF time], where k = "''statusHistory''"]
    by (simp add: new_history_def Let_def fields)
  have "length (as_list (dget (?change a) ''statusHistory'')) \<le> max 50 (length (as_list (dget a ''statusHistory'')))"
    using length_filter_le [of is_dict "as_list (dget a ''statusHistory'')"]
    by (auto simp: fields new_history_def Let_def min_def max_def)
  then show ?thesis using run1 run2 hist in1 fields by auto
qed

theorem provider_status_is_evidence_witness:
  "\<exists>a1 f1. record_provider_status True 9 ''a1'' (PStr ''read'') (PStr ''meta'') (PStr ''w1'') PNone (PInt 8)
     (Holds [[(''id'', PStr ''a1'')]]) = (Inr a1, f1) \<and> dget a1 ''deliveryState'' = PStr ''read''"
proof -
  let ?f = "Holds [[(''id'', PStr ''a1'')]] :: attempt_file"
  have w: "attempts_wf ?f" by (simp add: attempts_wf_def)
  have f: "List.find (\<lambda>a. py_str (dget a ''id'') = ''a1'') (read_attempts ?f) = Some [(''id'', PStr ''a1'')]"
    by (simp add: dget_def)
  have s: "safe_text (PStr ''read'') 64 \<noteq> PNone" "safe_text (PStr ''read'') 64 = PStr ''read''"
    by (simp_all add: safe_text_def)
  have t: "is_int (PInt 8)" by simp
  from provider_status_is_evidence [OF w f s(1) t, of 9 "PStr ''meta''" "PStr ''w1''" PNone 10]
  obtain a1 f1 where "record_provider_status True 9 ''a1'' (PStr ''read'') (PStr ''meta'') (PStr ''w1'') PNone (PInt 8) ?f = (Inr a1, f1)"
    "dget a1 ''deliveryState'' = safe_text (PStr ''read'') 64" by (elim exE conjE) (rule that)
  then show ?thesis using s by auto
qed

end
