(* ===== verification/Reconciliation.thy ===== *)
theory Reconciliation
  imports Outbound_Attempts_Spec
begin

text \<open>
  Evidence about sends that comes from the provider: webhooks that report a status
  (\<open>gateway/app/services/provider_status_correlation.py\<close>) and lookups for attempts whose
  outcome is unknown (\<open>gateway/app/services/provider_reconciliation.py\<close>). The state of the
  latter is the attempts file and the set of attempts being reconciled; a reconciliation is two
  steps, because the lookup between them runs without the lock. The pattern that masks inline
  secrets in a message is the argument \<open>scrub\<close>.
\<close>

section \<open>Status webhooks\<close>

definition observable_delivery_states :: "string list" where
  "observable_delivery_states = [''sent'', ''delivered'', ''read'', ''played'', ''failed'']"

datatype correlation =
    Invalid_Event string
  | Not_Found string
  | Ambiguous string
  | Matched string string

definition correlate ::
    "bool \<Rightarrow> int \<Rightarrow> pdict \<Rightarrow> attempt_file \<Rightarrow> correlation res \<times> attempt_file" where
  "correlate disk_ok now event f =
     (let delivery = as_dict (dget event ''providerDelivery'');
          inst = clean_str (dget event ''instance'');
          provider = str_lower (clean_str (dget delivery ''provider''));
          message_id = clean_str (dget delivery ''providerMessageId'');
          status = str_lower (clean_str (dget event ''status''))
      in if str_lower (str_or_empty (dget event ''direction'')) \<noteq> ''status''
         then (Inr (Invalid_Event ''not_a_status_event''), f)
         else if inst = [] \<or> provider = [] \<or> message_id = [] \<or> status \<notin> set observable_delivery_states
         then (Inr (Invalid_Event ''missing_or_unsupported_identifier''), f)
         else case provider_message_candidates (PStr inst) (PStr provider) (PStr message_id) f of
           [] \<Rightarrow> (Inr (Not_Found status), f)
         | [a] \<Rightarrow>
             (case record_provider_status disk_ok now (py_str (dget a ''id'')) (PStr status) (PStr provider)
                     (PStr message_id) (pstr_opt (or_none (str_or_empty (dget event ''id''))))
                     (if is_int (dget event ''sourceTimestamp'') then dget event ''sourceTimestamp''
                      else dget event ''timestamp'') f of
                (Inl e, f') \<Rightarrow> (Inl e, f')
              | (Inr a', f') \<Rightarrow>
                  (Inr (Matched (py_str (dget a' ''id''))
                     (py_str (py_or (dget a' ''deliveryState'') (PStr status)))), f'))
         | _ \<Rightarrow> (Inr (Ambiguous status), f))"

section \<open>Looking a message up\<close>

definition observed_states :: "string list" where
  "observed_states = [''accepted'', ''sent'', ''delivered'', ''read'', ''played'', ''failed'']"

definition safe_note :: "(string \<Rightarrow> pval option) \<Rightarrow> (string \<Rightarrow> string) \<Rightarrow> pval \<Rightarrow> nat \<Rightarrow> string option" where
  "safe_note loads scrub value limit =
     (let text = clean_str value in
      if text = [] then None
      else Some (take limit (scrub (redact_json_preview loads (PStr text) (Some limit)))))"

record lookup_result =
  lr_status :: string
  lr_observed :: "string option"
  lr_confidence :: string
  lr_reason :: "string option"
  lr_error :: "string option"

definition inconclusive :: "string \<Rightarrow> lookup_result" where
  "inconclusive reason =
     \<lparr> lr_status = ''inconclusive'', lr_observed = None, lr_confidence = ''inconclusive'',
       lr_reason = Some reason, lr_error = None \<rparr>"

definition meta_lookup :: "pdict \<Rightarrow> lookup_result" where
  "meta_lookup attempt =
     (if clean_str (dget attempt ''providerMessageId'') = []
      then inconclusive ''missing_provider_message_id''
      else inconclusive ''meta_cloud_has_no_supported_message_status_lookup'')"

definition message_records :: "pval \<Rightarrow> pval list" where
  "message_records payload =
     (case payload of
        PList xs \<Rightarrow> filter is_dict xs
      | PDict d \<Rightarrow>
          (let parents = filter is_dict [dget d ''data'', dget d ''response'', dget d ''messages''];
               candidates = [dget d ''records'', dget d ''messages''] @
                 concat (map (\<lambda>p. [dget (as_dict p) ''records'', dget (as_dict p) ''messages'',
                                   dget (as_dict p) ''data'']) parents)
           in case List.find is_list candidates of
                None \<Rightarrow> []
              | Some c \<Rightarrow> filter is_dict (as_list c))
      | _ \<Rightarrow> [])"

definition record_message_id :: "pdict \<Rightarrow> string" where
  "record_message_id message =
     (let key = as_dict (dget message ''key'');
          nested_key = as_dict (dget (as_dict (dget message ''message'')) ''key'')
      in clean_str (py_or (dget key ''id'') (py_or (dget nested_key ''id'') (dget message ''id''))))"

definition state_alias :: "string \<Rightarrow> string" where
  "state_alias s =
     (case map_of [(''pending'', ''sent''), (''server_ack'', ''sent''), (''delivery_ack'', ''delivered''),
                   (''read_ack'', ''read''), (''playedback'', ''played'')] s of
        None \<Rightarrow> s | Some t \<Rightarrow> t)"

definition normal_state :: "pval \<Rightarrow> string" where
  "normal_state value =
     state_alias (replace_chr (CHR '' '') (CHR ''_'') (replace_chr (CHR ''-'') (CHR ''_'')
       (str_lower (clean_str value))))"

definition observed_state :: "pdict \<Rightarrow> string" where
  "observed_state message =
     (let candidates = [dget message ''status'', dget (as_dict (dget message ''message'')) ''status'',
                        dget (as_dict (dget message ''key'')) ''status'']
      in case List.find (\<lambda>s. s \<in> set observed_states) (map normal_state candidates) of
           None \<Rightarrow> ''accepted'' | Some s \<Rightarrow> s)"

text \<open>What the Evolution adapter answers: a payload, its own error with a status, or any other.\<close>

datatype find_outcome = Payload pval | Evolution_Error int string | Unexpected_Error string

definition evolution_lookup ::
    "(string \<Rightarrow> pval option) \<Rightarrow> (string \<Rightarrow> string) \<Rightarrow> (string \<Rightarrow> string \<Rightarrow> find_outcome) \<Rightarrow> pdict \<Rightarrow> lookup_result" where
  "evolution_lookup loads scrub lookup attempt =
     (let message_id = clean_str (dget attempt ''providerMessageId'');
          unavailable = (\<lambda>reason message.
            \<lparr> lr_status = ''unavailable'', lr_observed = None, lr_confidence = ''inconclusive'',
              lr_reason = Some reason, lr_error = safe_note loads scrub (PStr message) 500 \<rparr>)
      in if message_id = [] then inconclusive ''missing_provider_message_id''
         else case lookup (str_or_empty (dget attempt ''instance'')) message_id of
           Evolution_Error status message \<Rightarrow>
             unavailable
               (if status \<in> {401, 403} then ''provider_auth_or_permission_error''
                else if status = 504 \<or> contains_str (str_lower message) ''timeout'' then ''provider_timeout''
                else if status = 502 \<or> contains_str (str_lower message) ''transport'' then ''provider_network_error''
                else ''provider_unavailable'') message
         | Unexpected_Error message \<Rightarrow> unavailable ''provider_lookup_error'' message
         | Payload payload \<Rightarrow>
             (case filter (\<lambda>m. record_message_id (as_dict m) = message_id) (message_records payload) of
                [] \<Rightarrow> \<lparr> lr_status = ''not_found'', lr_observed = None, lr_confidence = ''inconclusive'',
                       lr_reason = Some ''provider_message_not_found'', lr_error = None \<rparr>
              | [m] \<Rightarrow> \<lparr> lr_status = ''found'', lr_observed = Some (observed_state (as_dict m)),
                        lr_confidence = ''confirmed'', lr_reason = Some ''found_by_provider_id'',
                        lr_error = None \<rparr>
              | _ \<Rightarrow> inconclusive ''ambiguous_provider_message_lookup''))"

section \<open>Reconciling\<close>

record recon_state =
  rs_file :: attempt_file
  rs_inflight :: "string set"

datatype recon_refusal = Unknown_Attempt | Not_Owned | Not_Eligible | Already_Running

text \<open>The checks up to the moment the attempt is marked as being reconciled.\<close>

definition begin_reconcile ::
    "string \<Rightarrow> string option \<Rightarrow> string option \<Rightarrow> recon_state \<Rightarrow> (recon_refusal + pdict) \<times> recon_state" where
  "begin_reconcile attempt_id inst connection_id st =
     (case get_attempt (PStr attempt_id) (rs_file st) of
        None \<Rightarrow> (Inl Unknown_Attempt, st)
      | Some attempt \<Rightarrow>
          (let persisted = clean_str (dget attempt ''connectionId'') in
           if (case inst of None \<Rightarrow> False | Some i \<Rightarrow> str_or_empty (dget attempt ''instance'') \<noteq> i)
           then (Inl Not_Owned, st)
           else if (case connection_id of None \<Rightarrow> False | Some c \<Rightarrow> persisted \<noteq> [] \<and> persisted \<noteq> c)
           then (Inl Not_Owned, st)
           else if dget attempt ''reconciliationState'' \<noteq> PStr ''pending'' \<or>
             dget attempt ''deliveryState'' \<noteq> PStr ''unknown''
           then (Inl Not_Eligible, st)
           else if attempt_id \<in> rs_inflight st then (Inl Already_Running, st)
           else (Inr attempt, st\<lparr> rs_inflight := insert attempt_id (rs_inflight st) \<rparr>)))"

definition lookup_for :: "(string \<Rightarrow> (pdict \<Rightarrow> lookup_result) option) \<Rightarrow> pdict \<Rightarrow> lookup_result" where
  "lookup_for reconcilers attempt =
     (case reconcilers (str_lower (clean_str (dget attempt ''provider''))) of
        None \<Rightarrow> inconclusive ''unsupported_provider''
      | Some lookup \<Rightarrow> lookup attempt)"

definition is_resolved :: "lookup_result \<Rightarrow> bool" where
  "is_resolved r \<longleftrightarrow>
     lr_status r = ''found'' \<and> lr_confidence r = ''confirmed'' \<and>
     (case lr_observed r of None \<Rightarrow> False | Some s \<Rightarrow> s \<in> set observed_states)"

definition reconciliation_evidence ::
    "(string \<Rightarrow> pval option) \<Rightarrow> (string \<Rightarrow> string) \<Rightarrow> string \<Rightarrow> int \<Rightarrow> int \<Rightarrow> pdict \<Rightarrow> lookup_result \<Rightarrow> pdict" where
  "reconciliation_evidence loads scrub uid started completed attempt r =
     as_dict (redact_json (PDict
       [(''reconciliationId'', PStr (''reconciliation_'' @ uid)),
        (''attemptId'', PStr (py_str (dget attempt ''id''))),
        (''provider'', PStr (str_lower (clean_str (dget attempt ''provider'')))),
        (''startedAt'', PInt started), (''completedAt'', PInt completed), (''status'', PStr (lr_status r)),
        (''providerMessageId'', pstr_opt (or_none (clean_str (dget attempt ''providerMessageId'')))),
        (''observedState'', pstr_opt (lr_observed r)), (''confidence'', PStr (lr_confidence r)),
        (''reason'', pstr_opt (safe_note loads scrub (pstr_opt (lr_reason r)) 160)),
        (''error'', pstr_opt (safe_note loads scrub (pstr_opt (lr_error r)) 500))]))"

text \<open>After the lookup: the evidence is recorded, and the mark is removed whatever happens.\<close>

definition finish_reconcile ::
    "(string \<Rightarrow> pval option) \<Rightarrow> (string \<Rightarrow> string) \<Rightarrow> bool \<Rightarrow> string \<Rightarrow> int \<Rightarrow> int \<Rightarrow> string \<Rightarrow> pdict \<Rightarrow> lookup_result
     \<Rightarrow> recon_state \<Rightarrow> pdict res \<times> recon_state" where
  "finish_reconcile loads scrub disk_ok uid started completed attempt_id attempt r st =
     (case record_reconciliation disk_ok attempt_id
             (reconciliation_evidence loads scrub uid started completed attempt r)
             (if is_resolved r then pstr_opt (lr_observed r) else PNone) (is_resolved r) (rs_file st) of
        (res, f') \<Rightarrow>
          (res, \<lparr> rs_file = f', rs_inflight = rs_inflight st - {attempt_id} \<rparr>))"

section \<open>Properties\<close>

text \<open>
  a status webhook changes an attempt only on an exact and unique match: when the file
  changes, exactly one attempt of the same instance carries the provider and the provider's
  message id of the event, the status is one of the observable ones, and the answer names that
  attempt; an ambiguous or unknown id changes nothing.
\<close>

theorem status_needs_unique_match:
  assumes "correlate ok now event f = (r, f')" and "f' \<noteq> f"
  shows "\<exists>a. (\<exists>i s. r = Inr (Matched i s)) \<and>
    provider_message_candidates (dget event ''instance'')
      (dget (as_dict (dget event ''providerDelivery'')) ''provider'')
      (dget (as_dict (dget event ''providerDelivery'')) ''providerMessageId'') f = [a] \<and>
    str_lower (clean_str (dget event ''status'')) \<in> set observable_delivery_states \<and>
    dget a ''instance'' = PStr (clean_str (dget event ''instance''))"
proof -
  let ?d = "as_dict (dget event ''providerDelivery'')"
  let ?cs = "provider_message_candidates (PStr (clean_str (dget event ''instance'')))
      (PStr (str_lower (clean_str (dget ?d ''provider'')))) (PStr (clean_str (dget ?d ''providerMessageId''))) f"
  have clean: "strip (clean_str v) = clean_str v" for v by (simp add: clean_str_def)
  have same: "?cs = provider_message_candidates (dget event ''instance'') (dget ?d ''provider'')
      (dget ?d ''providerMessageId'') f"
    by (simp add: provider_message_candidates_def clean)
  obtain a where a: "?cs = [a]"
    using assms by (auto simp: correlate_def Let_def split: if_split_asm list.splits)
  then have "a \<in> set ?cs" by simp
  then have "dget a ''instance'' = PStr (clean_str (dget event ''instance''))"
    by (auto simp: provider_message_candidates_def list_attempts_def Let_def clean split: if_split_asm)
  moreover have "\<exists>i s. r = Inr (Matched i s)"
    using assms a update_where_Inl
    by (auto simp: correlate_def Let_def record_provider_status_alt update_attempt_def
        split: if_split_asm sum.splits prod.splits)
  moreover have "str_lower (clean_str (dget event ''status'')) \<in> set observable_delivery_states"
    using assms by (auto simp: correlate_def Let_def split: if_split_asm)
  ultimately show ?thesis using a same by auto
qed

definition sample_status_event :: pdict where
  "sample_status_event =
     [(''direction'', PStr ''status''), (''instance'', PStr ''wa1''), (''status'', PStr ''READ''),
      (''providerDelivery'', PDict [(''provider'', PStr ''meta''), (''providerMessageId'', PStr ''w1'')])]"

definition sample_attempt :: pdict where
  "sample_attempt =
     [(''id'', PStr ''a1''), (''instance'', PStr ''wa1''), (''provider'', PStr ''meta''),
      (''providerMessageId'', PStr ''w1''), (''deliveryState'', PStr ''unknown''),
      (''reconciliationState'', PStr ''pending'')]"

lemma sample_correlates:
  "case correlate True 9 sample_status_event (Holds [sample_attempt]) of
     (Inr (Matched i s), Holds [a]) \<Rightarrow> i = ''a1'' \<and> s = ''read'' \<and> dget a ''deliveryState'' = PStr ''read''
   | _ \<Rightarrow> False"
  by code_simp

theorem status_needs_unique_match_witness:
  "\<exists>a. provider_message_candidates (dget sample_status_event ''instance'')
      (dget (as_dict (dget sample_status_event ''providerDelivery'')) ''provider'')
      (dget (as_dict (dget sample_status_event ''providerDelivery'')) ''providerMessageId'')
      (Holds [sample_attempt]) = [a]"
proof -
  obtain r f' where c: "correlate True 9 sample_status_event (Holds [sample_attempt]) = (r, f')"
    by (rule prod.exhaust)
  have "f' \<noteq> Holds [sample_attempt]"
    using sample_correlates unfolding c
    by (auto simp: sample_attempt_def dget_def split: sum.splits correlation.splits)
  from status_needs_unique_match [OF c this] show ?thesis by (elim exE conjE) (rule exI)
qed

text \<open>
  reconciliation decides only on evidence: it starts only for an attempt of the caller whose
  delivery is unknown and pending and which nobody else is reconciling; it ends with the
  attempt released, and with the delivery state observed at the provider if the lookup found
  the message, or with the attempt still unknown and pending if it did not.
\<close>

theorem reconciliation_needs_evidence:
  assumes wf: "attempts_wf (rs_file st)" and id: "strip i = i"
    and start: "begin_reconcile i inst conn st = (Inr a, st1)"
    and finish: "finish_reconcile loads scrub ok uid t0 t1 i a r st1 = (Inr a', st2)"
  shows "i \<notin> rs_inflight st \<and> i \<notin> rs_inflight st2 \<and>
    begin_reconcile i inst conn st1 = (Inl Already_Running, st1) \<and>
    (case inst of None \<Rightarrow> True | Some n \<Rightarrow> str_or_empty (dget a ''instance'') = n) \<and>
    dget a ''deliveryState'' = PStr ''unknown'' \<and>
    (if is_resolved r
     then dget a' ''deliveryState'' = pstr_opt (lr_observed r) \<and>
       dget a' ''reconciliationState'' = PStr ''not_required''
     else dget a' ''deliveryState'' = PStr ''unknown'' \<and>
       dget a' ''reconciliationState'' = PStr ''pending'')"
proof -
  have b: "get_attempt (PStr i) (rs_file st) = Some a" "i \<notin> rs_inflight st"
    "st1 = st\<lparr> rs_inflight := insert i (rs_inflight st) \<rparr>"
    "dget a ''deliveryState'' = PStr ''unknown''" "dget a ''reconciliationState'' = PStr ''pending''"
    "case inst of None \<Rightarrow> True | Some n \<Rightarrow> str_or_empty (dget a ''instance'') = n"
    using start by (auto simp: begin_reconcile_def Let_def split: option.splits if_split_asm)
  have again: "begin_reconcile i inst conn st1 = (Inl Already_Running, st1)"
    using start b(3) by (auto simp: begin_reconcile_def Let_def split: option.splits if_split_asm)
  have found: "List.find (\<lambda>a. str_or_empty (dget a ''id'') = i) (read_attempts (rs_file st)) = Some a"
    using b(1) id by (simp add: get_attempt_def Let_def split: if_split_asm)
  define ev where "ev = redact_items (reconciliation_evidence loads scrub uid t0 t1 a r)"
  define c where "c = [(''lastReconciliation'', PDict ev),
     (''reconciliationHistory'', PList (last_n 49 (filter is_dict (as_list (dget a ''reconciliationHistory''))) @ [PDict ev]))] @
     (if is_resolved r then [(''deliveryState'', pstr_opt (lr_observed r)), (''reconciliationState'', PStr ''not_required'')] else [])"
  have state: "truthy (pstr_opt (lr_observed r))" "safe_text (pstr_opt (lr_observed r)) 64 = pstr_opt (lr_observed r)"
    if "is_resolved r"
    using that by (auto simp: is_resolved_def observed_states_def safe_text_def split: option.splits)
  have a': "a' = dmerge a (redact_items c)"
    using finish found state
    by (cases "is_resolved r")
      (auto simp: finish_reconcile_def record_reconciliation_def b(3) ev_def c_def Let_def update_where_def
        split: prod.splits sum.splits)
  have d: "distinct (map fst c)" by (cases "is_resolved r") (simp_all add: c_def)
  have obs: "redact_json (pstr_opt (lr_observed r)) = pstr_opt (lr_observed r)" by (cases "lr_observed r") auto
  have fields: "dget a' k = (if dhas c k then redact_json (dget c k) else dget a k)"
    if "\<not> is_sensitive_name k" for k
    using dget_dmerge_redact [OF d that] by (simp add: a')
  have "rs_inflight st2 = rs_inflight st1 - {i}"
    using finish by (auto simp: finish_reconcile_def split: prod.splits)
  then show ?thesis
    using again b fields [of "''deliveryState''"] fields [of "''reconciliationState''"] obs
    by (simp add: c_def dhas_Cons dget_Cons)
qed

definition sample_recon :: recon_state where
  "sample_recon = \<lparr> rs_file = Holds [sample_attempt], rs_inflight = {} \<rparr>"

theorem reconciliation_needs_evidence_witness:
  "\<exists>a'. dget a' ''deliveryState'' = PStr ''delivered'' \<and>
    fst (finish_reconcile (\<lambda>_. None) (\<lambda>s. s) True ''u'' 1 2 ''a1'' sample_attempt
      (evolution_lookup (\<lambda>_. None) (\<lambda>s. s)
         (\<lambda>_ _. Payload (PList [PDict [(''id'', PStr ''w1''), (''status'', PStr ''DELIVERY_ACK'')]])) sample_attempt)
      (snd (begin_reconcile ''a1'' None None sample_recon))) = Inr a'"
proof -
  let ?r = "evolution_lookup (\<lambda>_. None) (\<lambda>s. s)
     (\<lambda>_ _. Payload (PList [PDict [(''id'', PStr ''w1''), (''status'', PStr ''DELIVERY_ACK'')]])) sample_attempt"
  have r: "is_resolved ?r \<and> lr_observed ?r = Some ''delivered''" by code_simp
  have w: "attempts_wf (rs_file sample_recon)" "strip ''a1'' = ''a1''" by code_simp+
  have g: "get_attempt (PStr ''a1'') (Holds [sample_attempt]) = Some sample_attempt"
    using w(2) by (simp add: get_attempt_def sample_attempt_def dget_def Let_def)
  obtain st1 where b: "begin_reconcile ''a1'' None None sample_recon = (Inr sample_attempt, st1)"
    "st1 = sample_recon\<lparr> rs_inflight := {''a1''} \<rparr>"
    using g by (simp add: begin_reconcile_def sample_recon_def Let_def)
      (simp add: sample_attempt_def dget_def)
  obtain a' st2 where f: "finish_reconcile (\<lambda>_. None) (\<lambda>s. s) True ''u'' 1 2 ''a1'' sample_attempt ?r st1 = (Inr a', st2)"
    by (simp add: finish_reconcile_def record_reconciliation_def update_where_def b(2) sample_recon_def
        Let_def sample_attempt_def dget_def)
  from reconciliation_needs_evidence [OF w b(1) f] r f b show ?thesis by auto
qed

end
