(* ===== verification/Normalization.thy ===== *)
theory Normalization
  imports Secret_Redaction
begin

text \<open>
  Normalisation of provider webhooks, the first half of
  \<open>gateway/app/services/normalization.py\<close>: from the payload of Evolution, a free-form
  dictionary, to the event the Gateway stores and forwards. The functions are total on
  dictionaries as the code is; where the code calls a method of a value that need not be a
  dictionary, or converts a string that is not a number, the exception is a value of the result.
  The clock, \<open>uuid4\<close>, SHA-256, \<open>json.loads\<close> and \<open>datetime.fromisoformat\<close> are the fields of
  an environment.
\<close>

record norm_env =
  ne_now_ms :: int
  ne_event_uuid :: string
  ne_media_uuid :: string
  ne_sha256 :: "string \<Rightarrow> string"
  ne_loads :: "string \<Rightarrow> pval option"
  ne_fromiso :: "string \<Rightarrow> int option"

section \<open>Constants\<close>

definition MEDIA_MESSAGE_KEYS :: "string list" where
  "MEDIA_MESSAGE_KEYS =
    [''imageMessage'', ''audioMessage'', ''videoMessage'', ''documentMessage'', ''stickerMessage'']"

definition IGNORED_MESSAGE_TYPES :: "string list" where
  "IGNORED_MESSAGE_TYPES =
    [''senderkeydistributionmessage'', ''messagecontextinfo'', ''encmessage'', ''senderkeymessage'']"

definition BUSINESS_MESSAGE_TYPES :: "string list" where
  "BUSINESS_MESSAGE_TYPES =
    [''text'', ''audio'', ''image'', ''video'', ''document'', ''sticker'', ''voice_note'',
     ''interactive_reply'', ''interactive_unknown'', ''interactive_message'', ''reaction'', ''contact'',
     ''location'', ''poll_create'', ''poll_update'', ''special'']"

definition TECHNICAL_EVENTS :: "string list" where
  "TECHNICAL_EVENTS =
    [''PRESENCE_UPDATE'', ''PRESENCE'', ''CALL'', ''CHATS_UPDATE'', ''CONTACTS_UPDATE'', ''CONNECTION_UPDATE'']"

definition STATUS_ALIASES :: "(string \<times> string) list" where
  "STATUS_ALIASES =
    [(''pending'', ''sent''), (''server_ack'', ''sent''), (''sent'', ''sent''), (''delivery_ack'', ''delivered''),
     (''delivered'', ''delivered''), (''read'', ''read''), (''read_ack'', ''read''), (''played'', ''played''),
     (''playedback'', ''played''), (''failed'', ''failed'')]"

definition event_aliases :: "(string \<times> string) list" where
  "event_aliases =
    [(''messages.upsert'', ''MESSAGES_UPSERT''), (''messages.update'', ''MESSAGES_UPDATE''),
     (''messages.delete'', ''MESSAGES_DELETE''), (''send.message'', ''SEND_MESSAGE''),
     (''connection.update'', ''CONNECTION_UPDATE''), (''presence.update'', ''PRESENCE_UPDATE''),
     (''presence'', ''PRESENCE''), (''call'', ''CALL''), (''chats.update'', ''CHATS_UPDATE''),
     (''contacts.update'', ''CONTACTS_UPDATE'')]"

section \<open>Reading values\<close>

text \<open>\<open>_first\<close>: the first path that leads to a value other than \<open>None\<close>.\<close>

fun first_of :: "pval \<Rightarrow> string list list \<Rightarrow> pval" where
  "first_of v [] = PNone"
| "first_of v (p # ps) =
     (case dpath v p of
        Some w \<Rightarrow> if w \<noteq> PNone then w else first_of v ps
      | None \<Rightarrow> first_of v ps)"

abbreviation first1 :: "pdict \<Rightarrow> string list \<Rightarrow> pval" where
  "first1 d p \<equiv> first_of (PDict d) [p]"

definition canonical_event_name :: "pval \<Rightarrow> string" where
  "canonical_event_name raw_event =
     (let event = strip (py_str (py_or raw_event (PStr ''UNKNOWN'')));
          token = replace_chr (CHR ''-'') (CHR ''.'') (replace_chr (CHR ''_'') (CHR ''.'') (str_lower event));
          token = join_str ''.'' (filter (\<lambda>p. p \<noteq> []) (split_chr (CHR ''.'') token))
      in case map_of event_aliases token of Some e \<Rightarrow> e | None \<Rightarrow> str_upper event)"

definition guess_kind :: "pdict \<Rightarrow> string \<Rightarrow> string" where
  "guess_kind message mt =
     (if mt \<in> {''buttonsResponseMessage'', ''listResponseMessage'', ''templateButtonReplyMessage'',
               ''interactiveResponseMessage'', ''nativeFlowResponseMessage''} then ''interactive_reply''
      else if mt \<in> {''interactiveMessage'', ''templateMessage'', ''hydratedTemplate''} then ''interactive_message''
      else if mt = ''reactionMessage'' then ''reaction''
      else if mt \<in> {''contactMessage'', ''contactsArrayMessage''} then ''contact''
      else if mt \<in> {''locationMessage'', ''liveLocationMessage''} then ''location''
      else if mt = ''pollCreationMessage'' then ''poll_create''
      else if mt = ''pollUpdateMessage'' then ''poll_update''
      else if mt \<in> {''eventMessage'', ''protocolMessage'', ''editedMessage'', ''ephemeralMessage'',
                    ''viewOnceMessage'', ''viewOnceMessageV2'', ''viewOnceMessageV2Extension'',
                    ''keepInChatMessage''} then ''special''
      else if mt \<in> {''conversation'', ''extendedTextMessage''} then ''text''
      else if dhas message ''stickerMessage'' then ''sticker''
      else if dhas message ''audioMessage''
      then (if truthy (first1 message [''audioMessage'', ''ptt'']) then ''voice_note'' else ''audio'')
      else if dhas message ''imageMessage'' then ''image''
      else if dhas message ''videoMessage'' then ''video''
      else if dhas message ''documentMessage'' then ''document''
      else ''unknown'')"

definition normalize_status :: "pval \<Rightarrow> string option" where
  "normalize_status raw_status =
     map_of STATUS_ALIASES
       (replace_chr (CHR '' '') (CHR ''_'') (replace_chr (CHR ''-'') (CHR ''_'') (str_lower (clean_str raw_status))))"

section \<open>Numbers and times\<close>

text \<open>
  A protobuf \<open>Long\<close>: the low word is cut to 32 bits, and unless the value is unsigned it is
  read in two's complement of 64 bits.
\<close>

definition long_value :: "int \<Rightarrow> int \<Rightarrow> bool \<Rightarrow> int" where
  "long_value low high unsigned =
     (let result = high * 2 ^ 32 + low mod 2 ^ 32
      in if \<not> unsigned \<and> result \<ge> 2 ^ 63 then result - 2 ^ 64 else result)"

fun to_int64 :: "pval \<Rightarrow> int option res" where
  "to_int64 PNone = Inr None"
| "to_int64 (PBool b) = Inr (Some (if b then 1 else 0))"
| "to_int64 (PInt i) = Inr (Some i)"
| "to_int64 (PFloat i r) = Inr (Some i)"
| "to_int64 (PStr s) =
     (let cleaned = strip s in
      if isdigit (dropWhile (\<lambda>c. c = CHR ''-'') cleaned)
      then rbind (py_int (PStr cleaned)) (\<lambda>i. Inr (Some i))
      else Inr None)"
| "to_int64 (PDict d) =
     (if dhas d ''low'' \<and> dhas d ''high'' \<and> dhas d ''unsigned''
      then (case (py_int (py_or (dget d ''low'') (PInt 0)), py_int (py_or (dget d ''high'') (PInt 0))) of
              (Inr low, Inr high) \<Rightarrow> Inr (Some (long_value low high (truthy (dget d ''unsigned''))))
            | _ \<Rightarrow> Inr None)
      else Inr None)"
| "to_int64 (PList xs) = Inr None"

definition iso_to_unix_ms :: "norm_env \<Rightarrow> pval \<Rightarrow> int option" where
  "iso_to_unix_ms env value =
     (case value of
        PStr s \<Rightarrow> if strip s = [] then None else ne_fromiso env (strip s)
      | _ \<Rightarrow> None)"

definition unix_to_ms :: "pval \<Rightarrow> int option res" where
  "unix_to_ms value =
     rbind (to_int64 value) (\<lambda>raw.
       Inr (case raw of
              None \<Rightarrow> None
            | Some i \<Rightarrow> if i \<le> 0 then None else if i < 10 ^ 12 then Some (i * 1000) else Some i))"

fun first_time :: "norm_env \<Rightarrow> pval list \<Rightarrow> int option res" where
  "first_time env [] = Inr None"
| "first_time env (c # cs) =
     rbind (unix_to_ms c) (\<lambda>numeric.
       case numeric of
         Some t \<Rightarrow> Inr (Some t)
       | None \<Rightarrow> (case iso_to_unix_ms env c of Some t \<Rightarrow> Inr (Some t) | None \<Rightarrow> first_time env cs))"

definition as_dict_items :: "pval \<Rightarrow> pdict list" where
  "as_dict_items value =
     (case value of PDict d \<Rightarrow> [d] | PList xs \<Rightarrow> map as_dict (filter is_dict xs) | _ \<Rightarrow> [])"

definition time_candidates :: "pdict \<Rightarrow> pval list" where
  "time_candidates payload =
     [first1 payload [''data'', ''messageTimestamp''], first1 payload [''data'', ''message'', ''messageTimestamp''],
      first1 payload [''data'', ''timestamp''], first1 payload [''data'', ''message'', ''timestamp'']] @
     concat (map (\<lambda>item.
       [first1 item [''messageTimestamp''], first1 item [''timestamp''],
        first1 item [''message'', ''messageTimestamp''], first1 item [''message'', ''timestamp''],
        first1 item [''update'', ''messageTimestamp''], first1 item [''update'', ''timestamp''],
        first1 item [''messageUpdate'', ''messageTimestamp''], first1 item [''messageUpdate'', ''timestamp'']])
       (as_dict_items (dget payload ''data''))) @
     [dget payload ''date_time'', dget payload ''dateTime'',
      first1 payload [''data'', ''date_time''], first1 payload [''data'', ''dateTime'']]"

definition extract_source_timestamp_ms :: "norm_env \<Rightarrow> pdict \<Rightarrow> int option res" where
  "extract_source_timestamp_ms env payload = first_time env (time_candidates payload)"

section \<open>Status updates\<close>

definition raw_update_status :: "pdict \<Rightarrow> pval" where
  "raw_update_status item =
     py_or (first1 item [''status'']) (py_or (first1 item [''message'', ''status''])
       (py_or (first1 item [''update'', ''status'']) (first1 item [''messageUpdate'', ''status''])))"

text \<open>The last update that carries a known status, or the last update.\<close>

definition chosen_update :: "pdict list \<Rightarrow> pdict \<times> string option" where
  "chosen_update items =
     (case List.find (\<lambda>i. normalize_status (raw_update_status i) \<noteq> None) (rev items) of
        Some i \<Rightarrow>
          (if i \<noteq> [] then i else if items = [] then [] else last items,
           normalize_status (raw_update_status i))
      | None \<Rightarrow> (if items = [] then [] else last items, None))"

definition normalize_message_update :: "pdict \<Rightarrow> pdict \<Rightarrow> pdict" where
  "normalize_message_update payload base =
     (let items = (case as_dict_items (dget payload ''data'') of [] \<Rightarrow> [as_dict (dget payload ''data'')] | xs \<Rightarrow> xs);
          (chosen, status) = chosen_update items;
          key = as_dict (dget chosen ''key'');
          message_id = str_or_empty (py_or (dget key ''id'') (first1 chosen [''message'', ''key'', ''id'']));
          remote_jid = str_or_empty (py_or (dget key ''remoteJid'') (first1 chosen [''message'', ''key'', ''remoteJid'']));
          from_me = truthy (dget key ''fromMe'');
          jid_or_instance = (if remote_jid \<noteq> [] then PStr remote_jid else dget payload ''instance'');
          known = (case status of None \<Rightarrow> PStr ''unknown'' | Some s \<Rightarrow> PStr s)
      in dmerge base
        [(''layer'', PStr ''business''), (''direction'', PStr ''status''), (''type'', PStr ''event''),
         (''subtype'', PStr ''message_status''), (''originalType'', PStr ''messages.update''),
         (''content'', PDict [(''text'', case status of None \<Rightarrow> PStr ''[Unknown message status update]'' | Some s \<Rightarrow> PStr s)]),
         (''media'', PNone),
         (''metadata'', PDict [(''status'', known), (''messageId'', pstr_opt (or_none message_id)),
            (''updatesCount'', PInt (int (length items))), (''statusFound'', PBool (status \<noteq> None)),
            (''rawStatus'', raw_update_status chosen)]),
         (''context'', PDict [(''instance'', dget payload ''instance''), (''remoteJid'', pstr_opt (or_none remote_jid)),
            (''fromMe'', PBool from_me)]),
         (''status'', known), (''messageId'', pstr_opt (or_none message_id)), (''fromMe'', PBool from_me),
         (''sender'', if from_me then dget payload ''instance'' else jid_or_instance),
         (''recipient'', jid_or_instance), (''messageType'', PStr ''delivery''), (''text'', known),
         (''forwarding'', PDict [(''status'', PStr ''n/a'')]), (''error'', PNone),
         (''message'', PDict [(''id'', pstr_opt (or_none message_id)), (''from'', pstr_opt (or_none remote_jid)),
            (''fromMe'', PBool from_me), (''kind'', PStr ''delivery''), (''text'', known),
            (''messageType'', PStr ''messages.update'')]),
         (''raw'', PDict payload)])"

section \<open>Media\<close>

definition uuid_format :: "string \<Rightarrow> string" where
  "uuid_format h =
     take 8 h @ ''-'' @ take 4 (drop 8 h) @ ''-'' @ take 4 (drop 12 h) @ ''-'' @ take 4 (drop 16 h) @ ''-'' @
     take 12 (drop 20 h)"

definition media_identity :: "string \<Rightarrow> pdict \<Rightarrow> string \<Rightarrow> pdict" where
  "media_identity media_key_name raw kind =
     [(''mediaKeyName'', PStr media_key_name), (''kind'', PStr kind), (''directPath'', dget raw ''directPath''),
      (''fileEncSha256'', dget raw ''fileEncSha256''), (''fileSha256'', dget raw ''fileSha256''),
      (''mediaKey'', dget raw ''mediaKey''), (''url'', dget raw ''url'')]"

definition stable_media_id :: "norm_env \<Rightarrow> string \<Rightarrow> pdict \<Rightarrow> string \<Rightarrow> string" where
  "stable_media_id env media_key_name raw kind =
     (let identity = media_identity media_key_name raw kind in
      if \<not> list_ex (\<lambda>(_, v). v \<noteq> PNone \<and> strip (py_str v) \<noteq> []) identity then ne_media_uuid env
      else uuid_format (take 32 (ne_sha256 env (json_dumps True '', '' '': '' (PDict identity)))))"

definition extract_media :: "norm_env \<Rightarrow> pdict \<Rightarrow> string \<Rightarrow> pval res" where
  "extract_media env message kind =
     (case List.find (\<lambda>k. dhas message k) MEDIA_MESSAGE_KEYS of
        None \<Rightarrow> Inr PNone
      | Some name \<Rightarrow>
          (case py_or (dget message name) (PDict []) of
             PDict raw \<Rightarrow>
               rbind (to_int64 (dget raw ''width'')) (\<lambda>width.
               rbind (to_int64 (dget raw ''height'')) (\<lambda>height.
               rbind (to_int64 (dget raw ''fileLength'')) (\<lambda>size.
               rbind (to_int64 (dget raw ''seconds'')) (\<lambda>duration.
                 Inr (PDict
                   [(''id'', PStr (stable_media_id env name raw kind)), (''kind'', PStr kind),
                    (''mimeType'', dget raw ''mimetype''), (''fileName'', dget raw ''fileName''),
                    (''fileSize'', pint_opt size), (''mediaKey'', dget raw ''mediaKey''),
                    (''fileSha256'', dget raw ''fileSha256''), (''fileEncSha256'', dget raw ''fileEncSha256''),
                    (''duration'', pint_opt duration), (''caption'', dget raw ''caption''),
                    (''url'', PStr (clean_str (dget raw ''url''))),
                    (''directPath'', PStr (clean_str (dget raw ''directPath''))),
                    (''thumbnail'', dget raw ''jpegThumbnail''),
                    (''dimensions'', if width = None \<and> height = None then PNone
                       else PDict [(''width'', pint_opt width), (''height'', pint_opt height)]),
                    (''isVoiceNote'', PBool (truthy (dget raw ''ptt''))),
                    (''downloadSource'', PStr ''provider-url'')])))))
           | _ \<Rightarrow> Inl AttributeError))"

section \<open>Text, contacts, location, reaction, poll\<close>

definition extract_text :: "pdict \<Rightarrow> string option" where
  "extract_text message =
     (let text = first_of (PDict message)
        [[''conversation''], [''extendedTextMessage'', ''text''], [''imageMessage'', ''caption''],
         [''videoMessage'', ''caption''], [''buttonsResponseMessage'', ''selectedDisplayText''],
         [''templateButtonReplyMessage'', ''selectedDisplayText''], [''listResponseMessage'', ''title''],
         [''interactiveResponseMessage'', ''body'', ''text''], [''reactionMessage'', ''text''],
         [''locationMessage'', ''name''], [''locationMessage'', ''address''], [''pollCreationMessage'', ''name'']]
      in if text \<noteq> PNone then Some (py_str text) else None)"

text \<open>\<open>for item in value or []\<close>: a dictionary gives its keys, a string its characters.\<close>

fun py_iter :: "pval \<Rightarrow> pval list res" where
  "py_iter (PList xs) = Inr xs"
| "py_iter (PDict d) = Inr (map (\<lambda>(k, _). PStr k) d)"
| "py_iter (PStr s) = Inr (map (\<lambda>c. PStr [c]) s)"
| "py_iter v = Inl TypeError"

definition iter_or_empty :: "pval \<Rightarrow> pval list res" where
  "iter_or_empty v = py_iter (py_or v (PList []))"

definition is_line_end :: "char \<Rightarrow> bool" where
  "is_line_end c \<longleftrightarrow> of_char c \<in> {10, 11, 12, 13, 28, 29, 30 :: nat}"

fun splitlines_acc :: "string \<Rightarrow> string \<Rightarrow> string list" where
  "splitlines_acc acc [] = (if acc = [] then [] else [rev acc])"
| "splitlines_acc acc (c # cs) =
     (if is_line_end c
      then rev acc # splitlines_acc []
        (if c = CHR 0x0D \<and> cs \<noteq> [] \<and> hd cs = CHR 0x0A then tl cs else cs)
      else splitlines_acc (c # acc) cs)"

definition after_colon :: "string \<Rightarrow> string" where
  "after_colon line = drop 1 (dropWhile (\<lambda>c. c \<noteq> CHR '':'') line)"

text \<open>The first telephone line and the first organisation line of a vCard.\<close>

fun vcard_fields :: "string list \<Rightarrow> string option \<times> string option \<Rightarrow> string option \<times> string option" where
  "vcard_fields [] acc = acc"
| "vcard_fields (raw_line # ls) (phone, org) =
     (let line = strip raw_line;
          up = str_upper line;
          phone = (if phone = None \<and> contains_str up ''TEL'' \<and> CHR '':'' \<in> set line
                   then or_none (strip (after_colon line)) else phone);
          org = (if org = None \<and> starts_with up ''ORG:'' then or_none (strip (after_colon line)) else org)
      in vcard_fields ls (phone, org))"

definition parse_contact :: "pdict \<Rightarrow> pval" where
  "parse_contact node =
     (let name = or_none (clean_str (py_or (dget node ''displayName'') (dget node ''name'')));
          vcard = or_none (clean_str (dget node ''vcard''));
          (phone, org) = (case vcard of None \<Rightarrow> (None, None)
                          | Some v \<Rightarrow> vcard_fields (splitlines_acc [] v) (None, None))
      in PDict [(''name'', pstr_opt name), (''phone'', pstr_opt phone), (''vcard'', pstr_opt vcard),
                (''organization'', pstr_opt org), (''raw'', PDict node)])"

definition extract_contacts :: "pdict \<Rightarrow> pval list res" where
  "extract_contacts message =
     (let contact = as_dict (dget message ''contactMessage'');
          arr = as_dict (dget message ''contactsArrayMessage'')
      in rbind (iter_or_empty (dget arr ''contacts'')) (\<lambda>items.
           Inr (map parse_contact
                  ((if contact \<noteq> [] then [contact] else []) @ map as_dict (filter is_dict items)))))"

definition not_none :: "pdict \<Rightarrow> pdict" where
  "not_none = filter (\<lambda>(_, v). v \<noteq> PNone)"

definition none_if_empty :: "pdict \<Rightarrow> pval" where
  "none_if_empty d = (if d = [] then PNone else PDict d)"

definition extract_location :: "pdict \<Rightarrow> pval \<times> pdict" where
  "extract_location message =
     (let node = as_dict (dget message ''locationMessage'');
          live = as_dict (dget message ''liveLocationMessage'');
          src = (if live \<noteq> [] then live else node)
      in if src = [] then (PNone, [])
         else (none_if_empty (not_none
                 [(''latitude'', py_or (dget src ''degreesLatitude'') (dget src ''latitude'')),
                  (''longitude'', py_or (dget src ''degreesLongitude'') (dget src ''longitude'')),
                  (''name'', dget src ''name''), (''address'', dget src ''address''), (''url'', dget src ''url'')]),
               not_none
                 [(''liveLocation'', PBool (live \<noteq> [])),
                  (''expiration'', py_or (dget src ''timeOffset'') (dget src ''expiration'')),
                  (''accuracy'', py_or (dget src ''accuracyInMeters'') (dget src ''accuracy''))]))"

definition extract_reaction :: "pdict \<Rightarrow> pval \<times> pval \<times> pdict" where
  "extract_reaction message =
     (let node = as_dict (dget message ''reactionMessage'');
          emoji = clean_str (dget node ''text'');
          key = as_dict (dget node ''key'')
      in if node = [] then (PNone, PNone, [])
         else (PDict [(''emoji'', pstr_opt (or_none emoji))],
               PDict (not_none [(''messageId'', dget key ''id''),
                 (''sender'', py_or (dget key ''participant'') (dget key ''remoteJid'')),
                 (''chatJid'', dget key ''remoteJid'')]),
               [(''removeReaction'', PBool (emoji = []))]))"

definition extract_poll :: "pdict \<Rightarrow> string \<Rightarrow> (pval \<times> pval \<times> pdict) res" where
  "extract_poll message mt =
     (if mt = ''pollCreationMessage''
      then (let node = as_dict (dget message ''pollCreationMessage'') in
            rbind (iter_or_empty (dget node ''options'')) (\<lambda>items.
              let names = filter (\<lambda>n. n \<noteq> []) (map (\<lambda>i. clean_str (py_or (dget (as_dict i) ''optionName'')
                            (dget (as_dict i) ''name''))) (filter is_dict items))
              in Inr (PDict [(''title'', dget node ''name''), (''options'', PList (map PStr names))], PNone,
                      [(''pollOptionCount'', PInt (int (length names)))])))
      else if mt = ''pollUpdateMessage''
      then (let node = as_dict (dget message ''pollUpdateMessage'') in
            rbind (iter_or_empty (dget node ''selectedOptions'')) (\<lambda>items.
              let selected = filter (\<lambda>s. s \<noteq> []) (map clean_str (filter is_str items));
                  poll_id = py_or (first1 node [''pollCreationMessageKey'', ''id''])
                              (py_or (first1 node [''pollCreationMessageKey'', ''messageId''])
                                 (dget node ''pollCreationMessageKey''))
              in Inr (PDict [(''selectedOptions'', PList (map PStr selected))], PDict [(''targetPollId'', poll_id)],
                      [(''pollOptionCount'', PInt (int (length selected)))])))
      else Inr (PNone, PNone, []))"

end
