(* ===== verification/Normalize_Webhook.thy ===== *)
theory Normalize_Webhook
  imports Normalization
begin

text \<open>
  Normalisation of provider webhooks, continued: the context of a message, the interactions,
  and \<open>normalize_webhook\<close> itself, of \<open>gateway/app/services/normalization.py\<close>.
\<close>

section \<open>Context\<close>

definition is_revoke :: "pdict \<Rightarrow> bool" where
  "is_revoke protocol \<longleftrightarrow>
     protocol \<noteq> [] \<and> str_upper (str_or_empty (dget protocol ''type'')) \<in> {''REVOKE'', ''0''}"

definition extract_special_flags :: "pdict \<Rightarrow> string \<Rightarrow> pdict \<Rightarrow> pdict \<Rightarrow> pdict" where
  "extract_special_flags message mt data ci =
     (let protocol = as_dict (dget message ''protocolMessage'')
      in [(''ephemeral'', PBool (truthy (dget message ''ephemeralMessage'') \<or> truthy (dget ci ''expiration'') \<or>
             truthy (dget data ''ephemeralStartTimestamp''))),
          (''edited'', PBool (truthy (dget message ''editedMessage'') \<or> truthy (dget protocol ''editedMessage''))),
          (''revoked'', PBool (is_revoke protocol)),
          (''fromBusiness'', PBool (truthy (dget ci ''externalAdReply'') \<or> truthy (dget ci ''businessMessageForwardInfo''))),
          (''newsletter'', PBool (truthy (dget ci ''forwardedNewsletterMessageInfo'') \<or>
             contains_str (str_lower mt) ''newsletter'')),
          (''statusMessage'', PBool (ends_with (str_or_empty (first1 data [''key'', ''remoteJid''])) ''@status'')),
          (''disappearingMode'', py_or (dget ci ''disappearingMode'') (dget data ''disappearingMode''))])"

definition phone_from_jid :: "string \<Rightarrow> string option" where
  "phone_from_jid jid =
     (let value = strip jid in
      if value = [] then None else or_none (takeWhile (\<lambda>c. c \<noteq> CHR ''@'') value))"

definition extract_context_info :: "pdict \<Rightarrow> string \<Rightarrow> pdict" where
  "extract_context_info message mt =
     as_dict
       (if mt = ''extendedTextMessage'' then first1 message [''extendedTextMessage'', ''contextInfo'']
        else if mt = ''templateMessage''
        then py_or (first1 message [''templateMessage'', ''hydratedTemplate'', ''contextInfo''])
               (first1 message [''templateMessage'', ''contextInfo''])
        else if mt = ''interactiveMessage'' then first1 message [''interactiveMessage'', ''contextInfo'']
        else first1 message [mt, ''contextInfo''])"

definition first_key :: "pdict \<Rightarrow> string \<Rightarrow> string" where
  "first_key d dflt = (case d of [] \<Rightarrow> dflt | (k, _) # _ \<Rightarrow> k)"

definition extract_interactive_origin :: "pdict \<Rightarrow> pval" where
  "extract_interactive_origin ci =
     (let quoted = as_dict (dget ci ''quotedMessage'');
          quoted_type = first_key quoted []
      in if quoted \<noteq> [] \<and> quoted_type \<in> {''buttonsMessage'', ''listMessage'', ''templateMessage'',
              ''interactiveMessage'', ''hydratedTemplate''}
         then PDict [(''messageType'', PStr quoted_type), (''raw'', PDict quoted)] else PNone)"

definition quoted_media_type :: "pdict \<Rightarrow> string \<Rightarrow> string option" where
  "quoted_media_type quoted quoted_type =
     (if quoted_type = ''audioMessage''
      then Some (if truthy (first1 quoted [''audioMessage'', ''ptt'']) then ''voice_note'' else ''audio'')
      else map_of [(''imageMessage'', ''image''), (''videoMessage'', ''video''), (''documentMessage'', ''document''),
                   (''stickerMessage'', ''sticker'')] quoted_type)"

definition extract_quoted_summary :: "pdict \<Rightarrow> pval" where
  "extract_quoted_summary ci =
     (let stanza_id = clean_str (dget ci ''stanzaId'');
          participant = clean_str (dget ci ''participant'');
          remote_jid = clean_str (dget ci ''remoteJid'');
          quoted = as_dict (dget ci ''quotedMessage'');
          quoted_type = first_key quoted ''unknown'';
          text = extract_text quoted;
          media_type = quoted_media_type quoted quoted_type
      in if stanza_id = [] \<and> participant = [] \<and> remote_jid = [] \<and> quoted = [] then PNone
         else PDict
           [(''messageId'', pstr_opt (or_none stanza_id)), (''sender'', pstr_opt (or_none participant)),
            (''chatJid'', pstr_opt (or_none remote_jid)), (''type'', PStr quoted_type), (''text'', pstr_opt text),
            (''mediaType'', pstr_opt media_type),
            (''preview'', case (text, media_type) of
               (None, Some m) \<Rightarrow> PStr (''['' @ m @ '']'')
             | (Some [], Some m) \<Rightarrow> PStr (''['' @ m @ '']'')
             | _ \<Rightarrow> pstr_opt text),
            (''raw'', none_if_empty quoted)])"

definition extract_mentions :: "pdict \<Rightarrow> pval list" where
  "extract_mentions ci =
     map (\<lambda>jid. PDict [(''jid'', PStr jid), (''phone'', pstr_opt (phone_from_jid jid))])
       (filter (\<lambda>j. j \<noteq> []) (map clean_str (as_list (dget ci ''mentionedJid''))))"

definition build_chat_context :: "pdict \<Rightarrow> pval \<Rightarrow> pdict" where
  "build_chat_context data inst =
     (let remote_jid = str_or_empty (first1 data [''key'', ''remoteJid'']);
          participant = str_or_empty (first1 data [''key'', ''participant'']);
          is_group = ends_with remote_jid ''@g.us'';
          sender = (if is_group \<and> participant \<noteq> [] then participant else remote_jid)
      in [(''jid'', pstr_opt (or_none remote_jid)), (''isGroup'', PBool is_group),
          (''groupId'', if is_group then PStr remote_jid else PNone),
          (''participant'', pstr_opt (or_none participant)),
          (''participantPhone'', if participant = [] then PNone else pstr_opt (phone_from_jid participant)),
          (''participantName'', dget data ''pushName''), (''sender'', pstr_opt (or_none sender)),
          (''instance'', inst)])"

definition forwarding_score :: "pval \<Rightarrow> int" where
  "forwarding_score v =
     (if isdigit (str_or_empty v) then (case py_int v of Inr i \<Rightarrow> i | Inl _ \<Rightarrow> 0) else 0)"

text \<open>Evolution may lift the context beside the message; the nested one wins, key by key.\<close>

definition message_context_info :: "pdict \<Rightarrow> pdict \<Rightarrow> string \<Rightarrow> pdict" where
  "message_context_info data message mt =
     dmerge (dmerge [] (as_dict (dget data ''contextInfo''))) (extract_context_info message mt)"

definition build_context :: "pdict \<Rightarrow> pdict \<Rightarrow> pval \<Rightarrow> pdict" where
  "build_context data ci inst =
     [(''quoted'', extract_quoted_summary ci), (''mentions'', PList (extract_mentions ci)),
      (''chat'', PDict (build_chat_context data inst)), (''contextInfo'', none_if_empty ci),
      (''interactiveOrigin'', extract_interactive_origin ci)]"

definition build_metadata :: "pdict \<Rightarrow> pdict \<Rightarrow> string \<Rightarrow> pdict \<Rightarrow> pval \<Rightarrow> bool \<Rightarrow> pdict" where
  "build_metadata data message mt ci inst from_me =
     (let is_reply = extract_quoted_summary ci \<noteq> PNone;
          is_group_reply = (is_reply \<and> truthy (dget (build_chat_context data inst) ''isGroup''));
          is_self_reply = (is_reply \<and> from_me);
          score = forwarding_score (dget ci ''forwardingScore'');
          business_forward = is_dict (dget ci ''businessForwardInfo'');
          is_forwarded = (truthy (dget ci ''isForwarded'') \<or> score > 0 \<or> business_forward);
          mentions = extract_mentions ci
      in dmerge
        [(''isReply'', PBool is_reply), (''isSelfReply'', PBool is_self_reply), (''isGroupReply'', PBool is_group_reply),
         (''replyKind'', PStr (if is_self_reply then ''self_reply'' else if is_group_reply then ''group_reply''
                               else if is_reply then ''reply'' else ''none'')),
         (''hasMentions'', PBool (mentions \<noteq> [])), (''mentionCount'', PInt (int (length mentions))),
         (''forwarded'', PBool is_forwarded), (''forwardingScore'', PInt (if is_forwarded then score else 0)),
         (''businessForwardInfo'', if business_forward then dget ci ''businessForwardInfo'' else PNone),
         (''messageTimestamp'', dget data ''messageTimestamp'')]
        (extract_special_flags message mt data ci))"

section \<open>Interactions\<close>

definition interaction_of ::
    "string \<Rightarrow> string option \<Rightarrow> string option \<Rightarrow> string option \<Rightarrow> pdict \<Rightarrow> pdict \<Rightarrow> string \<Rightarrow> pdict \<times> string" where
  "interaction_of kind selected_id title description payload raw_selection mt =
     ([(''interactionType'', PStr kind), (''id'', pstr_opt selected_id), (''title'', pstr_opt title),
       (''description'', pstr_opt description), (''payload'', PDict (not_none payload)),
       (''rawSelection'', PDict raw_selection)],
      if mt \<in> {''interactiveMessage'', ''templateMessage'', ''hydratedTemplate''} then ''interactive_message''
      else if kind \<in> {''button'', ''list'', ''template'', ''flow''} \<and>
        (selected_id \<noteq> None \<or> title \<noteq> None \<or> description \<noteq> None)
      then ''interactive_reply'' else ''interactive_unknown'')"

definition clean_or :: "pdict \<Rightarrow> string list \<Rightarrow> string option" where
  "clean_or node ks = or_none (clean_str (foldr (\<lambda>k v. py_or (dget node k) v) ks PNone))"

definition button_interaction :: "pdict \<Rightarrow> pdict \<times> string" where
  "button_interaction message =
     (let node = as_dict (dget message ''buttonsResponseMessage'') in
      interaction_of ''button'' (clean_or node [''selectedButtonId'', ''buttonId'', ''selectedId''])
        (clean_or node [''selectedDisplayText'', ''displayText'']) None [] node ''buttonsResponseMessage'')"

definition template_interaction :: "pdict \<Rightarrow> pdict \<times> string" where
  "template_interaction message =
     (let node = as_dict (dget message ''templateButtonReplyMessage'') in
      interaction_of ''button'' (clean_or node [''selectedId'', ''buttonId''])
        (clean_or node [''selectedDisplayText'', ''displayText'']) None
        [(''selectedIndex'', dget node ''selectedIndex''), (''hydratedButtonId'', dget node ''hydratedButtonId'')]
        node ''templateButtonReplyMessage'')"

definition list_interaction :: "pdict \<Rightarrow> pdict \<times> string" where
  "list_interaction message =
     (let node = as_dict (dget message ''listResponseMessage'');
          single = as_dict (dget node ''singleSelectReply'');
          pick = (\<lambda>a b. or_none (clean_str (py_or (dget single a) (dget node b))))
      in interaction_of ''list'' (pick ''selectedRowId'' ''rowId'') (pick ''title'' ''title'')
        (pick ''description'' ''description'')
        [(''section'', py_or (dget single ''sectionTitle'') (dget node ''sectionTitle'')),
         (''listType'', dget node ''listType'')]
        [(''listResponseMessage'', PDict node), (''singleSelectReply'', PDict single)] ''listResponseMessage'')"

definition to_json_object :: "norm_env \<Rightarrow> string \<Rightarrow> pval" where
  "to_json_object env text =
     (if text = [] then PNone else case ne_loads env text of Some v \<Rightarrow> v | None \<Rightarrow> PNone)"

definition flow_interaction :: "norm_env \<Rightarrow> pdict \<Rightarrow> string \<Rightarrow> pdict \<times> string" where
  "flow_interaction env message mt =
     (let node = as_dict (dget message mt);
          native = (if mt = ''interactiveResponseMessage'' then as_dict (dget node ''nativeFlowResponseMessage'') else node);
          params = dget native ''paramsJson''
      in interaction_of ''flow'' (or_none (clean_str (dget native ''name'')))
        (or_none (clean_str (first1 node [''body'', ''text'']))) None
        [(''name'', dget native ''name''), (''version'', dget native ''version''), (''paramsJson'', params),
         (''params'', if params \<noteq> PNone then to_json_object env (py_str params) else PNone)]
        [(''interactiveResponseMessage'', PDict node), (''nativeFlowResponseMessage'', PDict native)] mt)"

definition extract_interaction :: "norm_env \<Rightarrow> pdict \<Rightarrow> string \<Rightarrow> (pdict \<times> string) option" where
  "extract_interaction env message mt =
     (if mt = ''buttonsResponseMessage'' then Some (button_interaction message)
      else if mt = ''templateButtonReplyMessage'' then Some (template_interaction message)
      else if mt = ''listResponseMessage'' then Some (list_interaction message)
      else if mt \<in> {''interactiveResponseMessage'', ''nativeFlowResponseMessage''}
      then Some (flow_interaction env message mt)
      else if mt \<in> {''interactiveMessage'', ''templateMessage'', ''hydratedTemplate''}
      then Some (interaction_of ''unknown'' None None None []
             (if dhas message mt then as_dict (dget message mt) else message) mt)
      else if contains_any (str_lower mt) [''interactive'', ''template'', ''list'', ''button'']
      then Some ([(''interactionType'', PStr ''unknown''), (''id'', PNone), (''title'', PNone), (''description'', PNone),
                  (''payload'', PDict []),
                  (''rawSelection'', PDict (if as_dict (dget message mt) \<noteq> [] then as_dict (dget message mt) else message))],
                 ''interactive_unknown'')
      else None)"

section \<open>normalize_webhook\<close>

definition norm_base :: "norm_env \<Rightarrow> pdict \<Rightarrow> string \<Rightarrow> int option \<Rightarrow> pdict" where
  "norm_base env payload event source_ms =
     [(''id'', PStr (take 16 (ne_event_uuid env))), (''event'', PStr event),
      (''sourceEvent'', PStr (if dhas payload ''event'' then py_str (dget payload ''event'') else ''UNKNOWN'')),
      (''instance'', dget payload ''instance''), (''timestamp'', PInt (ne_now_ms env)),
      (''sourceTimestamp'', pint_opt source_ms)]"

text \<open>What the event will show as its content.\<close>

definition normal_content ::
    "string \<Rightarrow> bool \<Rightarrow> string option \<Rightarrow> pdict option \<Rightarrow> pval \<Rightarrow> pval \<Rightarrow> pval list \<Rightarrow> pval \<Rightarrow> pval" where
  "normal_content kind fallback text interaction reaction location contacts poll =
     (let label = (case interaction of None \<Rightarrow> PNone | Some i \<Rightarrow> py_or (dget i ''title'') (dget i ''id'')) in
      if fallback then PDict [(''text'', PStr ''[Unsupported message type]'')]
      else if truthy label
      then PDict [(''text'', label), (''interaction'', pdict_opt interaction)]
      else if kind = ''reaction'' then (if truthy reaction then reaction else PDict [(''emoji'', PNone)])
      else if kind = ''location'' then py_or location (PDict [])
      else if kind = ''contact'' then PDict [(''contacts'', PList contacts)]
      else if kind \<in> {''poll_create'', ''poll_update''} then py_or poll (PDict [])
      else PDict [(''text'', PStr (case text of None \<Rightarrow> [] | Some t \<Rightarrow> t))])"

definition normalize_message ::
    "norm_env \<Rightarrow> pdict \<Rightarrow> pdict \<Rightarrow> pdict \<Rightarrow> pdict \<Rightarrow> string \<Rightarrow> pdict res" where
  "normalize_message env payload base data message mt =
     (let inter = extract_interaction env message mt;
          interaction = map_option fst inter;
          kind = (case inter of Some (_, k) \<Rightarrow> k | None \<Rightarrow> guess_kind message mt);
          fallback = (kind \<notin> set BUSINESS_MESSAGE_TYPES);
          subtype = (if fallback then ''unknown'' else kind);
          text = extract_text message;
          from_me = truthy (first1 data [''key'', ''fromMe'']);
          remote_jid = first1 data [''key'', ''remoteJid''];
          inst = dget payload ''instance'';
          ci = message_context_info data message mt;
          (reaction, target, reaction_meta) = extract_reaction message;
          (location, location_meta) = extract_location message
      in rbind (extract_contacts message) (\<lambda>contacts.
         rbind (extract_poll message mt) (\<lambda>(poll, poll_context, poll_meta).
         rbind (extract_media env message subtype) (\<lambda>media.
         let poll_id = dget (as_dict poll_context) ''targetPollId'' in
         Inr (dmerge base
           [(''layer'', PStr ''business''), (''direction'', PStr (if from_me then ''outbound'' else ''inbound'')),
            (''type'', PStr ''message''), (''subtype'', PStr subtype), (''originalType'', PStr mt),
            (''messageType'', PStr subtype), (''sender'', if from_me then inst else remote_jid),
            (''recipient'', if from_me then remote_jid else inst),
            (''content'', normal_content kind fallback text interaction reaction location contacts poll),
            (''text'', pstr_opt text), (''status'', PStr ''received''), (''fromMe'', PBool from_me),
            (''fromBot'', PBool False), (''forwarding'', PDict [(''status'', PStr ''pending'')]), (''error'', PNone),
            (''metadata'', PDict
              (dmerge (dmerge (dmerge (dmerge (build_metadata data message mt ci inst from_me) reaction_meta)
                location_meta) poll_meta)
                [(''hasLocation'', PBool (truthy location)), (''hasContacts'', PBool (contacts \<noteq> [])),
                 (''hasPoll'', PBool (truthy poll)), (''unknownTypeDetected'', PBool fallback),
                 (''connectionId'', first1 payload [''_botlyConnection'', ''connectionId'']),
                 (''businessId'', first1 payload [''_botlyConnection'', ''businessId'']),
                 (''channel'', first1 payload [''_botlyConnection'', ''channel''])])),
            (''interaction'', pdict_opt interaction),
            (''context'', PDict (dmerge (dmerge (build_context data ci inst) [(''targetMessage'', target)])
               (if truthy poll_id then [(''targetPollId'', poll_id)] else []))),
            (''message'', PDict
              [(''id'', first1 data [''key'', ''id'']), (''from'', remote_jid), (''fromMe'', PBool from_me),
               (''participant'', first1 data [''key'', ''participant'']), (''pushName'', dget data ''pushName''),
               (''messageType'', PStr mt), (''kind'', PStr subtype), (''text'', pstr_opt text),
               (''messageTimestamp'', dget data ''messageTimestamp'')]),
            (''media'', media), (''raw'', PDict payload)])))))"

definition technical :: "pdict \<Rightarrow> string \<Rightarrow> pdict" where
  "technical base reason = dmerge base [(''layer'', PStr ''technical''), (''reason'', PStr reason)]"

text \<open>A message that is a number fails at the first membership test, any other at \<open>get\<close>.\<close>

fun is_number :: "pval \<Rightarrow> bool" where
  "is_number (PInt _) = True"
| "is_number (PBool _) = True"
| "is_number (PFloat _ _) = True"
| "is_number _ = False"

definition need_message :: "string \<Rightarrow> pval \<Rightarrow> pdict res" where
  "need_message mt v =
     (case v of
        PDict d \<Rightarrow> Inr d
      | _ \<Rightarrow> Inl (if is_number v \<and> guess_kind [] mt = ''unknown'' then TypeError else AttributeError))"

fun need_dict :: "pval \<Rightarrow> pdict res" where
  "need_dict (PDict d) = Inr d"
| "need_dict _ = Inl AttributeError"

definition normalize_webhook :: "norm_env \<Rightarrow> pdict \<Rightarrow> pdict res" where
  "normalize_webhook env payload =
     (let event = canonical_event_name
            (PStr (if dhas payload ''event'' then py_str (dget payload ''event'') else ''UNKNOWN''))
      in rbind (extract_source_timestamp_ms env payload) (\<lambda>source_ms.
         let base = norm_base env payload event source_ms in
         if event \<in> set TECHNICAL_EVENTS then Inr (technical base ''technical_event'')
         else if event = ''MESSAGES_UPDATE'' then Inr (normalize_message_update payload base)
         else if event \<notin> {''MESSAGES_UPSERT'', ''SEND_MESSAGE''} then Inr (technical base ''non_business_event'')
         else rbind (need_dict (py_or (dget payload ''data'') (PDict []))) (\<lambda>data.
              let raw_message = py_or (dget data ''message'') (PDict []) in
              rbind (if truthy (dget data ''messageType'') then Inr (py_str (dget data ''messageType''))
                     else rbind (need_dict raw_message) (\<lambda>m. Inr (first_key m ''unknown''))) (\<lambda>mt.
              if str_lower mt \<in> set IGNORED_MESSAGE_TYPES
              then Inr (technical base (''ignored_message_type:'' @ str_lower mt))
              else rbind (need_message mt raw_message) (\<lambda>message.
                     normalize_message env payload base data message mt)))))"

end
