(* ===== verification/Normalize_Spec.thy ===== *)
theory Normalize_Spec
  imports Normalize_Webhook
begin

text \<open>
  What normalisation promises: only message events reach the business layer, the direction and
  the two ends of a message follow \<open>fromMe\<close>, protobuf integers decode to the value they
  encode, and media identifiers depend on the media alone.
\<close>

section \<open>The layer of an event\<close>

definition event_of :: "pdict \<Rightarrow> string" where
  "event_of p = canonical_event_name (PStr (if dhas p ''event'' then py_str (dget p ''event'') else ''UNKNOWN''))"

lemma technical_fields:
  "dget (technical (norm_base env p ev t) r) ''layer'' = PStr ''technical''"
  "dget (technical (norm_base env p ev t) r) ''event'' = PStr ev"
  "dget (technical (norm_base env p ev t) r) ''instance'' = dget p ''instance''"
  "dget (technical (norm_base env p ev t) r) ''reason'' = PStr r"
  "dget (technical (norm_base env p ev t) r) ''type'' = PNone"
  by (simp_all add: technical_def norm_base_def dget_dmerge_distinct dhas_Cons dget_Cons)

lemma update_fields:
  "dget (normalize_message_update p (norm_base env p ev t)) ''layer'' = PStr ''business''"
  "dget (normalize_message_update p (norm_base env p ev t)) ''event'' = PStr ev"
  "dget (normalize_message_update p (norm_base env p ev t)) ''instance'' = dget p ''instance''"
  "dget (normalize_message_update p (norm_base env p ev t)) ''raw'' = PDict p"
  "dget (normalize_message_update p (norm_base env p ev t)) ''type'' = PStr ''event''"
  by (simp_all add: normalize_message_update_def Let_def norm_base_def dget_dmerge_distinct dhas_Cons dget_Cons
      split: prod.split)

definition subtype_of :: "norm_env \<Rightarrow> pdict \<Rightarrow> string \<Rightarrow> string" where
  "subtype_of env message mt =
     (let kind = (case extract_interaction env message mt of Some (_, k) \<Rightarrow> k | None \<Rightarrow> guess_kind message mt)
      in if kind \<in> set BUSINESS_MESSAGE_TYPES then kind else ''unknown'')"

lemma message_fields:
  assumes "normalize_message env p (norm_base env p ev t) data message mt = Inr n"
  shows "dget n ''layer'' = PStr ''business''" and "dget n ''event'' = PStr ev"
    and "dget n ''instance'' = dget p ''instance''" and "dget n ''raw'' = PDict p"
    and "dget n ''type'' = PStr ''message''"
    and "dget n ''fromMe'' = PBool (truthy (first1 data [''key'', ''fromMe'']))"
    and "dget n ''direction'' = PStr (if truthy (first1 data [''key'', ''fromMe'']) then ''outbound'' else ''inbound'')"
    and "dget n ''sender'' = (if truthy (first1 data [''key'', ''fromMe'']) then dget p ''instance''
      else first1 data [''key'', ''remoteJid''])"
    and "dget n ''recipient'' = (if truthy (first1 data [''key'', ''fromMe'']) then first1 data [''key'', ''remoteJid'']
      else dget p ''instance'')"
    and "dget n ''subtype'' = PStr (subtype_of env message mt)"
    and "dget (as_dict (dget n ''message'')) ''id'' = first1 data [''key'', ''id'']"
    and "dget n ''text'' = pstr_opt (extract_text message)"
  using assms
  by (auto simp: normalize_message_def Let_def rbind_eqs norm_base_def dget_dmerge_distinct dhas_Cons dget_Cons
      subtype_of_def split: prod.splits)

lemma normalize_webhook_cases:
  assumes "normalize_webhook env p = Inr n"
  obtains (technical) t r where "n = technical (norm_base env p (event_of p) t) r" and "event_of p \<noteq> ''MESSAGES_UPDATE''"
      and "event_of p \<in> {''MESSAGES_UPSERT'', ''SEND_MESSAGE''} \<Longrightarrow> \<exists>m. r = ''ignored_message_type:'' @ m"
  | (update) t where "n = normalize_message_update p (norm_base env p (event_of p) t)" and "event_of p = ''MESSAGES_UPDATE''"
  | (message) t data message mt where "event_of p \<in> {''MESSAGES_UPSERT'', ''SEND_MESSAGE''}"
      and "py_or (dget p ''data'') (PDict []) = PDict data"
      and "normalize_message env p (norm_base env p (event_of p) t) data message mt = Inr n"
proof -
  have tech: "''MESSAGES_UPDATE'' \<notin> set TECHNICAL_EVENTS" "''MESSAGES_UPSERT'' \<notin> set TECHNICAL_EVENTS"
    "''SEND_MESSAGE'' \<notin> set TECHNICAL_EVENTS"
    by (simp_all add: TECHNICAL_EVENTS_def)
  have dict: "\<And>v d. need_dict v = Inr d \<Longrightarrow> v = PDict d" by (case_tac v) auto
  obtain t where t: "extract_source_timestamp_ms env p = Inr t"
    using assms by (auto simp: normalize_webhook_def rbind_eqs Let_def)
  show ?thesis
  proof (cases "event_of p \<in> set TECHNICAL_EVENTS \<or> event_of p \<notin> {''MESSAGES_UPDATE'', ''MESSAGES_UPSERT'', ''SEND_MESSAGE''}")
    case True
    then show ?thesis
      using assms t tech
      by (intro technical [where r = "if event_of p \<in> set TECHNICAL_EVENTS then ''technical_event''
            else ''non_business_event''"])
        (auto simp: normalize_webhook_def event_of_def Let_def split: if_split_asm)
  next
    case False
    show ?thesis
    proof (cases "event_of p = ''MESSAGES_UPDATE''")
      case True
      then show ?thesis
        using assms t tech by (intro update) (auto simp: normalize_webhook_def event_of_def Let_def split: if_split_asm)
    next
      case no: False
      with False have ev: "event_of p \<in> {''MESSAGES_UPSERT'', ''SEND_MESSAGE''}" by auto
      from assms obtain data mt where d: "need_dict (py_or (dget p ''data'') (PDict [])) = Inr data"
        and n: "(if str_lower mt \<in> set IGNORED_MESSAGE_TYPES
              then Inr (technical (norm_base env p (event_of p) t) (''ignored_message_type:'' @ str_lower mt))
              else rbind (need_message mt (py_or (dget data ''message'') (PDict []))) (\<lambda>message.
                     normalize_message env p (norm_base env p (event_of p) t) data message mt)) = Inr n"
        using t False no by (auto simp: normalize_webhook_def event_of_def [symmetric] Let_def rbind_eq_Inr)
      show ?thesis
      proof (cases "str_lower mt \<in> set IGNORED_MESSAGE_TYPES")
        case True
        then show ?thesis using n no by (intro technical [where r = "''ignored_message_type:'' @ str_lower mt"]) auto
      next
        case False
        then show ?thesis using n dict [OF d] ev by (auto simp: rbind_eq_Inr intro: message)
      qed
    qed
  qed
qed

text \<open>
  only messages reach the business layer: a normalised event is of the business layer
  exactly when it is a message, a sent message or a status update, under whatever spelling the
  provider gave the event, and its message type is not one of the ignored ones; it always names
  the canonical event and the instance, and a business event carries the payload it came from.
\<close>

theorem only_messages_are_business:
  assumes "normalize_webhook env p = Inr n"
  shows "dget n ''event'' = PStr (event_of p) \<and> dget n ''instance'' = dget p ''instance'' \<and>
    (if event_of p \<in> {''MESSAGES_UPSERT'', ''SEND_MESSAGE'', ''MESSAGES_UPDATE''} \<and>
        (\<forall>m. dget n ''reason'' \<noteq> PStr (''ignored_message_type:'' @ m))
     then dget n ''layer'' = PStr ''business'' \<and> dget n ''raw'' = PDict p
     else dget n ''layer'' = PStr ''technical'')"
  using assms
proof (cases rule: normalize_webhook_cases)
  case (technical t r)
  then show ?thesis by (auto simp: technical_fields)
next
  case (update t)
  have "dget n ''reason'' = PNone"
    by (simp add: update(1) normalize_message_update_def Let_def norm_base_def dget_dmerge_distinct dhas_Cons
        dget_Cons split: prod.split)
  then show ?thesis using update by (simp add: update_fields)
next
  case (message t data msg mt)
  have "dget n ''reason'' = PNone"
    using message(3)
    by (auto simp: normalize_message_def Let_def rbind_eqs norm_base_def dget_dmerge_distinct dhas_Cons dget_Cons
        split: prod.splits)
  then show ?thesis using message(1) message_fields [OF message(3)] by auto
qed

definition norm_sample_env :: norm_env where
  "norm_sample_env =
     \<lparr> ne_now_ms = 5000, ne_event_uuid = ''0123456789abcdef'', ne_media_uuid = ''u'', ne_sha256 = (\<lambda>s. s),
       ne_loads = (\<lambda>_. None), ne_fromiso = (\<lambda>_. None) \<rparr>"

definition norm_sample :: pdict where
  "norm_sample =
     [(''event'', PStr ''messages.upsert''), (''instance'', PStr ''wa1''),
      (''data'', PDict
        [(''key'', PDict [(''id'', PStr ''m1''), (''remoteJid'', PStr ''54@s.whatsapp.net''), (''fromMe'', PBool False)]),
         (''messageTimestamp'', PInt 1700000000), (''message'', PDict [(''conversation'', PStr ''hi'')])])]"

lemma norm_sample_runs:
  "case normalize_webhook norm_sample_env norm_sample of
     Inr n \<Rightarrow> dget n ''type'' = PStr ''message'' \<and> dget n ''subtype'' = PStr ''text'' \<and> dget n ''text'' = PStr ''hi'' \<and>
       dget n ''sourceTimestamp'' = PInt 1700000000000
   | Inl _ \<Rightarrow> False"
  by code_simp

lemma norm_sample_event: "event_of norm_sample = ''MESSAGES_UPSERT''"
  by code_simp

theorem only_messages_are_business_witness:
  "\<exists>n. normalize_webhook norm_sample_env norm_sample = Inr n \<and> dget n ''event'' = PStr ''MESSAGES_UPSERT''"
proof -
  obtain n where n: "normalize_webhook norm_sample_env norm_sample = Inr n"
    using norm_sample_runs by (cases "normalize_webhook norm_sample_env norm_sample") auto
  from only_messages_are_business [OF n] n norm_sample_event show ?thesis by auto
qed

section \<open>The two ends of a message\<close>

lemma as_dict_py_or: "py_or v (PDict []) = PDict d \<Longrightarrow> as_dict v = d"
  by (cases v) (auto simp: py_or_def split: if_split_asm)

lemma subtype_of_business: "subtype_of env m mt \<in> insert ''unknown'' (set BUSINESS_MESSAGE_TYPES)"
  by (simp add: subtype_of_def Let_def)

text \<open>
  the ends of a message follow \<open>fromMe\<close>: a message the instance sent is outbound, from the
  instance to the remote chat, and any other is inbound, from the remote chat to the instance;
  the provider's message id is kept as it came, and the subtype is one of the types the Gateway
  knows or \<open>unknown\<close>.
\<close>

theorem message_direction_follows_sender:
  assumes "normalize_webhook env p = Inr n" and "dget n ''type'' = PStr ''message''"
  shows "let data = as_dict (dget p ''data''); me = truthy (first1 data [''key'', ''fromMe'']);
      chat = first1 data [''key'', ''remoteJid'']; inst = dget p ''instance'' in
    dget n ''fromMe'' = PBool me \<and>
    (dget n ''direction'', dget n ''sender'', dget n ''recipient'') =
      (if me then (PStr ''outbound'', inst, chat) else (PStr ''inbound'', chat, inst)) \<and>
    dget (as_dict (dget n ''message'')) ''id'' = first1 data [''key'', ''id''] \<and>
    (\<exists>k\<in>insert ''unknown'' (set BUSINESS_MESSAGE_TYPES). dget n ''subtype'' = PStr k)"
  using assms(1)
proof (cases rule: normalize_webhook_cases)
  case (technical t r)
  then show ?thesis using assms(2) by (simp add: technical_fields)
next
  case (update t)
  then show ?thesis using assms(2) by (simp add: update_fields)
next
  case (message t data msg mt)
  have "as_dict (dget p ''data'') = data" using as_dict_py_or [OF message(2)] .
  then show ?thesis
    using message_fields [OF message(3)] subtype_of_business [of env msg mt] by (simp add: Let_def)
qed

theorem message_direction_follows_sender_witness:
  "\<exists>n. normalize_webhook norm_sample_env norm_sample = Inr n \<and> dget n ''direction'' = PStr ''inbound'' \<and>
    dget n ''sender'' = PStr ''54@s.whatsapp.net''"
proof -
  obtain n where n: "normalize_webhook norm_sample_env norm_sample = Inr n"
    and t: "dget n ''type'' = PStr ''message''"
    using norm_sample_runs by (cases "normalize_webhook norm_sample_env norm_sample") auto
  have d: "truthy (first1 (as_dict (dget norm_sample ''data'')) [''key'', ''fromMe'']) = False"
    "first1 (as_dict (dget norm_sample ''data'')) [''key'', ''remoteJid''] = PStr ''54@s.whatsapp.net''"
    by code_simp+
  from message_direction_follows_sender [OF n t] d n show ?thesis by (simp add: Let_def)
qed

section \<open>Protobuf integers\<close>

lemma long_value_signed:
  assumes "- (2 ^ 63) \<le> v" and "v < 2 ^ 63" and "l mod 2 ^ 32 = v mod 2 ^ 32"
    and "h = v div 2 ^ 32 \<or> h = v mod 2 ^ 64 div 2 ^ 32"
  shows "long_value l h False = v"
proof -
  have v: "v = v div 2 ^ 32 * 2 ^ 32 + v mod 2 ^ 32" for v :: int by simp
  have w: "v mod 2 ^ 64 = (if 0 \<le> v then v else v + 2 ^ 64)"
  proof (cases "0 \<le> v")
    case True
    then show ?thesis using assms(2) by (simp add: mod_pos_pos_trivial)
  next
    case False
    have "v mod 2 ^ 64 = (v + 2 ^ 64) mod 2 ^ 64" by simp
    also have "\<dots> = v + 2 ^ 64" using False assms(1) by (intro mod_pos_pos_trivial) simp_all
    finally show ?thesis using False by simp
  qed
  have m: "(v mod 2 ^ 64) mod 2 ^ 32 = v mod 2 ^ 32"
    by (rule mod_mod_cancel) (simp add: le_imp_power_dvd)
  from assms(4) show ?thesis
  proof
    assume "h = v div 2 ^ 32"
    then have "h * 2 ^ 32 + l mod 2 ^ 32 = v" using assms(3) v [of v] by simp
    then show ?thesis using assms(2) by (simp add: long_value_def)
  next
    assume h: "h = v mod 2 ^ 64 div 2 ^ 32"
    have "h * 2 ^ 32 + l mod 2 ^ 32 = v mod 2 ^ 64"
      unfolding h assms(3) m [symmetric] using v [of "v mod 2 ^ 64"] by simp
    then show ?thesis using assms(1,2) w by (simp add: long_value_def split: if_split_asm)
  qed
qed

text \<open>
  protobuf integers decode to the value they encode: for every signed 64-bit value, split
  into two words in any of the ways the encoders use (the low word signed or unsigned, the high
  word signed or as 32 bits), \<open>_to_int64\<close> gives the value back.
\<close>

theorem long_roundtrip:
  assumes "- (2 ^ 63) \<le> v" and "v < 2 ^ 63" and "l mod 2 ^ 32 = v mod 2 ^ 32"
    and "h = v div 2 ^ 32 \<or> h = v mod 2 ^ 64 div 2 ^ 32"
  shows "to_int64 (PDict [(''low'', PInt l), (''high'', PInt h), (''unsigned'', PBool False)]) = Inr (Some v)"
proof -
  have "py_int (py_or (PInt i) (PInt 0)) = Inr i" for i by (simp add: py_or_def)
  then show ?thesis
    using long_value_signed [OF assms] by (simp add: dhas_Cons dget_Cons)
qed

theorem long_roundtrip_witness:
  "to_int64 (PDict [(''low'', PInt (-2)), (''high'', PInt 4294967295), (''unsigned'', PBool False)]) = Inr (Some (-2))"
  by (rule long_roundtrip) simp_all

section \<open>Timestamps that are not numbers\<close>

text \<open>
  a timestamp of several dashes and digits is not rejected but raises: \<open>lstrip("-")\<close> takes
  every dash off before the digits are looked at, \<open>int\<close> refuses the whole, and the exception
  takes the webhook with it, whatever event it carries.
\<close>

theorem malformed_timestamp_raises:
  assumes "first1 p [''data'', ''messageTimestamp''] = PStr ''--5''"
  shows "normalize_webhook env p = Inl (ValueError ''--5'')"
proof -
  have "unix_to_ms (PStr ''--5'') = Inl (ValueError ''--5'')" by code_simp
  then have "extract_source_timestamp_ms env p = Inl (ValueError ''--5'')"
    using assms by (simp add: extract_source_timestamp_ms_def time_candidates_def)
  then show ?thesis by (simp add: normalize_webhook_def Let_def)
qed

theorem malformed_timestamp_raises_witness:
  "normalize_webhook norm_sample_env
     [(''event'', PStr ''presence''), (''data'', PDict [(''messageTimestamp'', PStr ''--5'')])] =
   Inl (ValueError ''--5'')"
  by (rule malformed_timestamp_raises) simp

section \<open>Media identifiers\<close>

lemma media_identity_present:
  assumes "name \<in> set MEDIA_MESSAGE_KEYS"
  shows "list_ex (\<lambda>(_, v). v \<noteq> PNone \<and> strip (py_str v) \<noteq> []) (media_identity name raw kind)"
proof -
  have "\<forall>n\<in>set MEDIA_MESSAGE_KEYS. strip n \<noteq> []" by code_simp
  then show ?thesis using assms by (simp add: media_identity_def)
qed

text \<open>
  a media id depends on the media alone: it is the digest of the message key, the kind and
  the five identity fields, never the random identifier meant for media without identity, so a
  repeated webhook gives the same id; media of one kind that carry none of the fields share one
  id.
\<close>

theorem media_id_content_addressed:
  assumes "extract_media env message kind = Inr (PDict m)"
  shows "\<exists>name raw. dhas message name \<and> name \<in> set MEDIA_MESSAGE_KEYS \<and>
    raw = as_dict (dget message name) \<and>
    dget m ''id'' = PStr (uuid_format (take 32 (ne_sha256 env
      (json_dumps True '', '' '': '' (PDict
        [(''mediaKeyName'', PStr name), (''kind'', PStr kind), (''directPath'', dget raw ''directPath''),
         (''fileEncSha256'', dget raw ''fileEncSha256''), (''fileSha256'', dget raw ''fileSha256''),
         (''mediaKey'', dget raw ''mediaKey''), (''url'', dget raw ''url'')])))))"
proof -
  obtain name where name: "List.find (\<lambda>k. dhas message k) MEDIA_MESSAGE_KEYS = Some name"
    using assms by (auto simp: extract_media_def split: option.splits)
  then have key: "dhas message name" "name \<in> set MEDIA_MESSAGE_KEYS"
    by (auto simp: find_Some_iff)
  obtain raw where raw: "py_or (dget message name) (PDict []) = PDict raw"
    and id: "dget m ''id'' = PStr (stable_media_id env name raw kind)"
    using assms by (auto simp: extract_media_def name rbind_eqs dget_Cons split: pval.splits)
  have "as_dict (dget message name) = raw" using as_dict_py_or [OF raw] .
  then show ?thesis
    using key id media_identity_present [OF key(2), of raw kind]
    by (auto simp: stable_media_id_def Let_def media_identity_def)
qed

theorem media_id_content_addressed_witness:
  "\<exists>m. extract_media norm_sample_env [(''imageMessage'', PDict [])] ''image'' = Inr (PDict m) \<and>
    (\<exists>s. dget m ''id'' = PStr (uuid_format s))"
proof -
  obtain m where m: "extract_media norm_sample_env [(''imageMessage'', PDict [])] ''image'' = Inr (PDict m)"
    by (simp add: extract_media_def MEDIA_MESSAGE_KEYS_def dhas_Cons dget_Cons py_or_def)
  from media_id_content_addressed [OF m] have "\<exists>s. dget m ''id'' = PStr (uuid_format s)"
    by (elim exE conjE) (rule exI)
  then show ?thesis using m by blast
qed

end
