(* ===== verification/Timeline.thy ===== *)
theory Timeline
  imports Normalize_Webhook Reconciliation
begin

text \<open>
  The activity timeline, the second half of \<open>gateway/app/services/normalization.py\<close>: the
  bounded lists of business and operational events, the keys by which an event is stored once,
  the media index, and the views on them. The module keeps this state in global variables and
  writes the events to one file after each change; \<open>disk_ok\<close> says whether that write succeeds.
  The asynchronous start of event automations and the log lines are left out.
\<close>

section \<open>State\<close>

record timeline =
  tl_business :: "pdict list"
  tl_operational :: "pdict list"
  tl_raw :: "pdict list"
  tl_key_order :: "string list"
  tl_key_set :: "string set"
  tl_media :: "(string \<times> pdict) list"
  tl_media_disk :: "(string \<times> pdict) list"
  tl_file :: "pdict list json_file"
  tl_attempts :: attempt_file

text \<open>\<open>appendleft\<close> on a deque of bounded length.\<close>

definition push :: "nat \<Rightarrow> 'a \<Rightarrow> 'a list \<Rightarrow> 'a list" where
  "push retention x xs = take retention (x # xs)"

definition keys_max :: "nat \<Rightarrow> nat" where
  "keys_max retention = max 1000 (retention * 3)"

text \<open>\<open>int(item.get("timestamp") or 0)\<close>.\<close>

definition event_time :: "pdict \<Rightarrow> int res" where
  "event_time e = py_int (py_or (dget e ''timestamp'') (PInt 0))"

definition timeline_timestamp :: "pdict \<Rightarrow> int" where
  "timeline_timestamp e = (case event_time e of Inr t \<Rightarrow> t | Inl _ \<Rightarrow> 0)"

fun first_error :: "'a res list \<Rightarrow> py_exc option" where
  "first_error [] = None"
| "first_error (Inl e # rs) = Some e"
| "first_error (Inr _ # rs) = first_error rs"

definition newest_first :: "pdict list \<Rightarrow> pdict list res" where
  "newest_first es =
     (case first_error (map event_time es) of
        Some e \<Rightarrow> Inl e
      | None \<Rightarrow> Inr (sort_desc timeline_timestamp es))"

definition persist_events :: "nat \<Rightarrow> bool \<Rightarrow> timeline \<Rightarrow> bool \<times> timeline" where
  "persist_events retention disk_ok st =
     (case newest_first (tl_business st @ tl_operational st) of
        Inl _ \<Rightarrow> (False, st)
      | Inr items \<Rightarrow>
          if disk_ok then (True, st\<lparr> tl_file := Holds (take retention items) \<rparr>) else (False, st))"

section \<open>The key of an event\<close>

definition event_dedupe_key :: "pdict \<Rightarrow> string option" where
  "event_dedupe_key n =
     (let message = as_dict (dget n ''message'');
          msg_id = clean_str (py_or (dget message ''id'') (dget n ''messageId''));
          direction = clean_str (dget n ''direction'')
      in if msg_id = [] then None
         else Some (join_str ''|''
           [clean_str (dget n ''instance''), clean_str (dget n ''event''), msg_id, direction,
            clean_str (py_or (dget n ''subtype'') (dget n ''messageType'')),
            if direction = ''status'' then clean_str (dget n ''status'') else []]))"

definition restore_step :: "nat \<Rightarrow> pdict \<Rightarrow> timeline \<Rightarrow> timeline" where
  "restore_step retention e st =
     (if dget e ''layer'' = PStr ''business''
      then (case event_dedupe_key e of
              None \<Rightarrow> st\<lparr> tl_business := push retention e (tl_business st) \<rparr>
            | Some k \<Rightarrow> st\<lparr> tl_business := push retention e (tl_business st),
                            tl_key_order := tl_key_order st @ [k], tl_key_set := insert k (tl_key_set st) \<rparr>)
      else if dget e ''layer'' = PStr ''operational''
      then st\<lparr> tl_operational := push retention e (tl_operational st) \<rparr> else st)"

definition restore_events :: "nat \<Rightarrow> timeline \<Rightarrow> timeline" where
  "restore_events retention st =
     (case tl_file st of
        Holds items \<Rightarrow> fold (restore_step retention) (rev (last_n retention items)) st
      | _ \<Rightarrow> st)"

section \<open>The contract of a business event\<close>

definition mensajeria :: string where
  "mensajeria = ''Mensajer'' @ [CHR 0xED] @ ''a''"

definition error_text :: "pdict \<Rightarrow> string option" where
  "error_text error =
     (case or_none (clean_str (py_or (dget error ''message'') (dget error ''error''))) of
        None \<Rightarrow> None
      | Some m \<Rightarrow> if contains_any (str_lower m) [''token='', ''secret='', ''authorization:'', ''api_key='']
          then Some REDACTED else Some m)"

definition semantic_status :: "pdict \<Rightarrow> string option \<Rightarrow> string option \<Rightarrow> string" where
  "semantic_status error code message =
     (let or_empty = (\<lambda>s. case s of None \<Rightarrow> [] | Some t \<Rightarrow> t);
          lowered = str_lower (or_empty code @ '' '' @ or_empty message)
      in if error = [] then ''success''
         else if contains_str lowered ''timeout'' then ''timeout''
         else if contains_any lowered [''network'', ''dns'', ''connect'', ''transport'', ''ssl''] then ''network_error''
         else if contains_any lowered [''config'', ''credential'', ''token''] then ''configuration_error''
         else ''failed'')"

definition sub_dict :: "pdict \<Rightarrow> string \<Rightarrow> pdict" where
  "sub_dict d k = as_dict (dget d k)"

definition provider_delivery_of :: "pdict \<Rightarrow> pval" where
  "provider_delivery_of e =
     (let error = sub_dict e ''error''; meta = sub_dict e ''meta''; pipeline = sub_dict e ''pipeline'';
          message = sub_dict e ''message''; raw = sub_dict e ''raw''; media = sub_dict e ''media'';
          direction = str_or_empty (dget e ''direction'');
          dir = (if direction = ''outbound'' then ''outbound'' else if direction = ''status'' then ''status'' else ''inbound'');
          provider = py_str (py_or (dget raw ''provider'') (py_or (dget raw ''providerName'')
            (py_or (dget e ''provider'') (PStr (if raw \<noteq> [] then ''evolution'' else ''unknown'')))));
          emsg = error_text error;
          code = or_none (clean_str (py_or (dget error ''code'') (dget error ''type'')));
          sem = semantic_status error code emsg;
          end_of = (\<lambda>kind. PDict [(''kind'', PStr kind), (''instance'', dget e ''instance'')]);
          message_type = py_or (dget e ''messageType'') (dget message ''kind'')
      in redact_json (PDict
        [(''id'', pstr_opt (or_none (str_or_empty (dget e ''id'')))), (''timestamp'', dget e ''timestamp''),
         (''operation'', PStr (if dir = ''status'' then ''provider.message.status'' else ''provider.message.'' @ dir)),
         (''direction'', PStr dir), (''semanticStatus'', PStr sem), (''deliveryState'', PNone),
         (''reconciliationState'', PNone), (''provider'', PStr provider),
         (''source'', end_of (if dir = ''outbound'' then ''gateway'' else ''provider'')),
         (''destination'', end_of (if dir = ''outbound'' then ''provider'' else ''gateway'')),
         (''messageId'', py_or (dget message ''id'') (dget e ''messageId'')),
         (''conversationId'', py_or (dget meta ''conversationId'') (dget pipeline ''conversationId'')),
         (''channelId'', dget meta ''channelId''), (''connectionId'', dget meta ''connectionId''),
         (''providerMessageId'', py_or (dget raw ''providerMessageId'') (dget message ''id'')),
         (''outboundAttemptId'', dget raw ''outboundAttemptId''),
         (''requestId'', py_or (dget meta ''requestId'') (dget pipeline ''requestId'')),
         (''eventId'', dget e ''eventId''), (''correlationId'', dget e ''correlationId''),
         (''durationMs'', dget e ''durationMs''), (''attemptCount'', PInt 1), (''retryCount'', PInt 0),
         (''request'', PDict
            [(''method'', PStr (if dir = ''outbound'' then ''PROVIDER_SEND'' else ''PROVIDER_WEBHOOK'')),
             (''body'', PDict [(''messageType'', message_type),
                (''media'', PDict (not_none (map (\<lambda>k. (k, dget media k)) [''id'', ''kind'', ''mimeType'', ''fileName''])))])]),
         (''response'', PDict [(''status'', PNone), (''headers'', PDict []), (''body'', PDict [])]),
         (''error'', if emsg \<noteq> None \<or> code \<noteq> None
            then PDict [(''code'', pstr_opt code), (''category'', PStr (case code of Some c \<Rightarrow> c | None \<Rightarrow> sem)),
                        (''message'', pstr_opt emsg), (''retryable'', PNone)] else PNone),
         (''metadata'', PDict [(''event'', dget e ''event''), (''messageType'', message_type)])]))"

definition enrich_business_activity :: "pdict \<Rightarrow> pdict" where
  "enrich_business_activity event =
     (let error = sub_dict event ''error''; meta = sub_dict event ''meta''; pipeline = sub_dict event ''pipeline'';
          message = sub_dict event ''message'';
          status_value = py_str (py_or (dget event ''status'') (PStr (if error \<noteq> [] then ''failed'' else ''received'')));
          direction = str_or_empty (dget event ''direction'');
          severity = (if error \<noteq> [] then ''ERROR''
                      else if direction = ''outbound'' \<or> str_lower status_value \<in> {''sent'', ''delivered'', ''read''}
                      then ''SUCCESS'' else ''INFO'');
          e = dsetdefault event ''component'' (PStr mensajeria);
          e = dsetdefault e ''severity'' (PStr severity);
          e = dsetdefault e ''result'' (PStr status_value);
          e = dsetdefault e ''durationMs'' PNone;
          e = dsetdefault e ''description''
                (PStr (if direction = ''outbound'' then ''Mensaje enviado'' else ''Mensaje recibido''));
          e = dsetdefault e ''correlationId''
                (py_or (dget meta ''requestId'') (py_or (dget pipeline ''requestId'')
                  (py_or (dget pipeline ''conversationId'') (dget message ''id''))));
          e = dsetdefault e ''providerDelivery'' (provider_delivery_of e)
      in if error \<noteq> [] \<and> \<not> truthy (dget e ''action'')
         then dset e ''action'' (PStr ''Revisa el detalle del error y vuelve a intentar cuando corresponda.'')
         else e)"

section \<open>The media index\<close>

definition media_entry :: "int \<Rightarrow> pdict \<Rightarrow> pdict \<Rightarrow> pval \<Rightarrow> pdict" where
  "media_entry now_s n media message_id =
     (let data = sub_dict (sub_dict n ''raw'') ''data''; key = sub_dict data ''key''
      in dmerge media
        [(''instance'', dget n ''instance''), (''messageId'', message_id),
         (''savedAt'', PInt now_s), (''remoteJid'', dget key ''remoteJid''), (''fromMe'', dget key ''fromMe''),
         (''participant'', dget key ''participant''), (''messageKey'', PDict key),
         (''messageObject'', PDict (sub_dict data ''message''))])"

definition persist_media_item :: "bool \<Rightarrow> string \<Rightarrow> pdict \<Rightarrow> timeline \<Rightarrow> timeline" where
  "persist_media_item disk_ok i item st =
     (if i = [] \<or> \<not> disk_ok then st else st\<lparr> tl_media_disk := AList.update i item (tl_media_disk st) \<rparr>)"

text \<open>The log line reads the digest of each kind of media until it finds one.\<close>

fun media_log :: "pdict \<Rightarrow> string list \<Rightarrow> unit res" where
  "media_log m [] = Inr ()"
| "media_log m (k # ks) =
     rbind (vget (py_or (dget m k) (PDict [])) ''fileSha256'') (\<lambda>v. if truthy v then Inr () else media_log m ks)"

definition index_media :: "bool \<Rightarrow> int \<Rightarrow> pdict \<Rightarrow> timeline \<Rightarrow> unit res \<times> timeline" where
  "index_media disk_ok now_s n st =
     (case dget n ''media'' of
        PDict media \<Rightarrow>
          (case vget (py_or (dget n ''message'') (PDict [])) ''id'' of
             Inl e \<Rightarrow> (Inl e, st)
           | Inr message_id \<Rightarrow>
               (let i = py_str (dget media ''id''); item = media_entry now_s n media message_id
                in (media_log (sub_dict (sub_dict (sub_dict n ''raw'') ''data'') ''message'')
                      [''imageMessage'', ''audioMessage'', ''videoMessage'', ''documentMessage''],
                    persist_media_item disk_ok (str_or_empty (dget media ''id'')) item
                      (st\<lparr> tl_media := AList.update i item (tl_media st) \<rparr>))))
      | _ \<Rightarrow> (Inr (), st))"

definition get_media :: "string \<Rightarrow> string option \<Rightarrow> timeline \<Rightarrow> pdict option \<times> timeline" where
  "get_media media_id inst st =
     (let key = strip media_id in
      case map_of (tl_media st) key of
        Some (kv # item) \<Rightarrow> (Some (kv # item), st)
      | _ \<Rightarrow>
          (case (if key = [] then None else map_of (tl_media_disk st) key) of
             Some (kv # item) \<Rightarrow>
               (if (case inst of None \<Rightarrow> True | Some i \<Rightarrow> i = [] \<or> dget (kv # item) ''instance'' = PStr i)
                then (Some (kv # item), st\<lparr> tl_media := AList.update key (kv # item) (tl_media st) \<rparr>)
                else (None, st))
           | _ \<Rightarrow> (None, st)))"

definition update_media_download_state ::
    "bool \<Rightarrow> string \<Rightarrow> string \<Rightarrow> int option \<Rightarrow> timeline \<Rightarrow> timeline" where
  "update_media_download_state disk_ok media_id source decrypted st =
     (case (case map_of (tl_media st) media_id of
              Some i \<Rightarrow> Some i
            | None \<Rightarrow> if media_id = [] then None else map_of (tl_media_disk st) media_id) of
        None \<Rightarrow> st
      | Some item \<Rightarrow>
          (let item = dset item ''downloadSource'' (PStr source);
               item = (case decrypted of None \<Rightarrow> item | Some n \<Rightarrow> dset item ''decryptedSize'' (PInt n))
           in persist_media_item disk_ok media_id item (st\<lparr> tl_media := AList.update media_id item (tl_media st) \<rparr>)))"

section \<open>Saving events\<close>

definition correlation_dict :: "correlation \<Rightarrow> pval" where
  "correlation_dict c =
     (let d = (\<lambda>outcome attempt state reason.
            PDict [(''outcome'', PStr outcome), (''attempt_id'', pstr_opt attempt),
                   (''delivery_state'', pstr_opt state), (''reason'', pstr_opt reason)])
      in case c of
           Invalid_Event r \<Rightarrow> d ''invalid'' None None (Some r)
         | Not_Found s \<Rightarrow> d ''not_found'' None (Some s) None
         | Ambiguous s \<Rightarrow> d ''ambiguous'' None (Some s) None
         | Matched i s \<Rightarrow> d ''matched'' (Some i) (Some s) None)"

fun correlation_state :: "correlation \<Rightarrow> string option" where
  "correlation_state (Invalid_Event _) = None"
| "correlation_state (Not_Found s) = Some s"
| "correlation_state (Ambiguous s) = Some s"
| "correlation_state (Matched _ s) = Some s"

definition note_correlation :: "pval \<Rightarrow> pdict \<Rightarrow> pdict" where
  "note_correlation v delivery =
     (let d = dsetdefault delivery ''metadata'' (PDict []) in
      case dget d ''metadata'' of PDict m \<Rightarrow> dset d ''metadata'' (PDict (dset m ''statusCorrelation'' v)) | _ \<Rightarrow> d)"

definition correlated_delivery :: "correlation res \<Rightarrow> pdict \<Rightarrow> pdict" where
  "correlated_delivery r delivery =
     (case r of
        Inl _ \<Rightarrow> note_correlation
          (PDict [(''outcome'', PStr ''invalid''), (''reason'', PStr ''local_store_unavailable''),
                  (''attempt_id'', PNone), (''delivery_state'', PNone)]) delivery
      | Inr c \<Rightarrow>
          (let d = note_correlation (correlation_dict c) delivery;
               d = (case correlation_state c of
                      None \<Rightarrow> d | Some s \<Rightarrow> if s = [] then d else dset d ''deliveryState'' (PStr s))
           in case c of
                Matched i _ \<Rightarrow> dset (dset d ''outboundAttemptId'' (PStr i)) ''reconciliationState'' (PStr ''not_required'')
              | _ \<Rightarrow> d))"

definition correlate_event :: "bool \<Rightarrow> int \<Rightarrow> pdict \<Rightarrow> timeline \<Rightarrow> pdict \<times> timeline" where
  "correlate_event disk_ok now n st =
     (if str_lower (str_or_empty (dget n ''direction'')) = ''status'' \<and> is_dict (dget n ''providerDelivery'')
      then (case correlate disk_ok now n (tl_attempts st) of
              (r, f') \<Rightarrow> (dset n ''providerDelivery'' (PDict (correlated_delivery r (sub_dict n ''providerDelivery''))),
                         st\<lparr> tl_attempts := f' \<rparr>))
      else (n, st))"

text \<open>The keys that leave the queue leave the set, in the order of the queue.\<close>

definition remember_key :: "nat \<Rightarrow> string \<Rightarrow> timeline \<Rightarrow> timeline" where
  "remember_key retention k st =
     (let order = tl_key_order st @ [k]; excess = length order - keys_max retention
      in st\<lparr> tl_key_order := drop excess order,
             tl_key_set := insert k (tl_key_set st) - set (take excess order) \<rparr>)"

text \<open>A business event whose key is new: the status it reports is matched with a send, it is
  put at the front of the list, the list is written, and its media is indexed.\<close>

definition remembering :: "nat \<Rightarrow> string option \<Rightarrow> timeline \<Rightarrow> timeline" where
  "remembering retention key st =
     (case key of None \<Rightarrow> st | Some k \<Rightarrow> remember_key retention k st)"

definition store_event ::
    "nat \<Rightarrow> bool \<Rightarrow> bool \<Rightarrow> int \<Rightarrow> pdict \<Rightarrow> timeline \<Rightarrow> bool res \<times> pdict \<times> timeline" where
  "store_event retention disk_ok attempts_ok now n st =
     (let (n', st1) = correlate_event attempts_ok now n st;
          (persisted, st2) = persist_events retention disk_ok
            (st1\<lparr> tl_business := push retention (redact_items n') (tl_business st1) \<rparr>);
          (indexed, st3) = index_media disk_ok (now div 1000) n' st2
      in (rbind indexed (\<lambda>_. Inr persisted), n', st3))"

definition save_event ::
    "nat \<Rightarrow> bool \<Rightarrow> bool \<Rightarrow> int \<Rightarrow> pdict \<Rightarrow> timeline \<Rightarrow> bool res \<times> pdict \<times> timeline" where
  "save_event retention disk_ok attempts_ok now normalized st =
     (if dget normalized ''layer'' \<noteq> PStr ''business'' then (Inr True, normalized, st)
      else
        (let n = enrich_business_activity normalized; key = event_dedupe_key n
         in if (case key of None \<Rightarrow> False | Some k \<Rightarrow> k \<in> tl_key_set st) then (Inr True, n, st)
            else store_event retention disk_ok attempts_ok now n (remembering retention key st)))"

definition save_business_event :: "nat \<Rightarrow> bool \<Rightarrow> pdict \<Rightarrow> timeline \<Rightarrow> bool \<times> timeline" where
  "save_business_event retention disk_ok event st =
     (if dget event ''layer'' \<noteq> PStr ''business'' then (True, st)
      else persist_events retention disk_ok
        (st\<lparr> tl_business := push retention (redact_items (enrich_business_activity event)) (tl_business st) \<rparr>))"

definition save_raw_event :: "nat \<Rightarrow> bool \<Rightarrow> pdict \<Rightarrow> timeline \<Rightarrow> timeline" where
  "save_raw_event retention debug event st =
     (if debug then st\<lparr> tl_raw := push retention (redact_items event) (tl_raw st) \<rparr> else st)"

section \<open>Operational events\<close>

record pipeline_note =
  pn_stage :: string
  pn_status :: string
  pn_instance :: "string option"
  pn_message_id :: "string option"
  pn_conversation_id :: "string option"
  pn_request_id :: "string option"
  pn_event :: string
  pn_details :: pdict
  pn_component :: "string option"
  pn_severity :: "string option"
  pn_duration_ms :: "int option"
  pn_action :: "string option"
  pn_operator :: "string option"

text \<open>A call with the arguments it names, every other one at its default.\<close>

definition note_of :: "string \<Rightarrow> string \<Rightarrow> string \<Rightarrow> string \<Rightarrow> pipeline_note" where
  "note_of stage status inst request_id =
     \<lparr> pn_stage = stage, pn_status = status, pn_instance = Some inst, pn_message_id = None,
       pn_conversation_id = None, pn_request_id = Some request_id, pn_event = ''PIPELINE'', pn_details = [],
       pn_component = None, pn_severity = None, pn_duration_ms = None, pn_action = None, pn_operator = None \<rparr>"

definition given :: "string option \<Rightarrow> string \<Rightarrow> string" where
  "given s d = (case s of None \<Rightarrow> d | Some t \<Rightarrow> if t = [] then d else t)"

definition note_component :: "string \<Rightarrow> string" where
  "note_component lowered =
     (if contains_any lowered [''meta'', ''oauth'', ''discovery'', ''subscription'', ''phone''] then ''Meta''
      else if contains_any lowered [''webhook'', ''dispatch''] then ''Webhook''
      else if contains_any lowered [''send'', ''message''] then mensajeria
      else ''Gateway'')"

definition note_severity :: "string \<Rightarrow> string" where
  "note_severity lowered =
     (if contains_str lowered ''critical'' then ''CRITICAL''
      else if contains_any lowered [''failed'', ''error'', ''fail'', ''dropped''] then ''ERROR''
      else if contains_any lowered [''warning'', ''retry'', ''throttled'', ''ignored'', ''stale''] then ''WARNING''
      else if contains_any lowered [''ok'', ''accepted'', ''completed'', ''ready'', ''passed'', ''verified''] then ''SUCCESS''
      else ''INFO'')"

definition pipeline_event_item :: "string \<Rightarrow> int \<Rightarrow> pipeline_note \<Rightarrow> pdict" where
  "pipeline_event_item uid now note =
     (let stage = (if pn_stage note = [] then ''pipeline'' else pn_stage note);
          status = (if pn_status note = [] then ''unknown'' else pn_status note);
          details = redact_items (pn_details note);
          lowered = str_lower (stage @ '' '' @ status @ '' '' @ pn_event note);
          spaced = replace_chr (CHR ''_'') (CHR '' '')
      in [(''id'', PStr (take 16 uid)), (''layer'', PStr ''operational''), (''event'', PStr (pn_event note)),
          (''instance'', pstr_opt (pn_instance note)), (''timestamp'', PInt now), (''component'', PStr (given (pn_component note) (note_component lowered))),
          (''severity'', PStr (given (pn_severity note) (note_severity lowered))), (''result'', PStr status),
          (''description'', PStr (spaced stage @ '': '' @ spaced status)), (''durationMs'', pint_opt (pn_duration_ms note)),
          (''action'', py_or (pstr_opt (pn_action note))
             (if truthy (dget details ''action'') then PStr (py_str (dget details ''action'')) else PNone)),
          (''operator'', pstr_opt (pn_operator note)),
          (''correlationId'', py_or (pstr_opt (pn_request_id note))
             (py_or (pstr_opt (pn_conversation_id note)) (pstr_opt (pn_message_id note)))),
          (''pipeline'', PDict [(''stage'', PStr stage), (''status'', PStr status), (''requestId'', pstr_opt (pn_request_id note)),
             (''conversationId'', pstr_opt (pn_conversation_id note)),
             (''messageId'', pstr_opt (pn_message_id note))]),
          (''details'', PDict details)])"

definition save_pipeline_event :: "nat \<Rightarrow> bool \<Rightarrow> string \<Rightarrow> int \<Rightarrow> pipeline_note \<Rightarrow> timeline \<Rightarrow> timeline" where
  "save_pipeline_event retention disk_ok uid now note st =
     snd (persist_events retention disk_ok
       (st\<lparr> tl_operational := push retention (pipeline_event_item uid now note) (tl_operational st) \<rparr>))"

section \<open>The views\<close>

definition owned_by :: "string option \<Rightarrow> pdict \<Rightarrow> bool" where
  "owned_by inst e \<longleftrightarrow> (case inst of None \<Rightarrow> True | Some i \<Rightarrow> i = [] \<or> dget e ''instance'' = PStr i)"

text \<open>The download state of a media is shown with the event that carries the media.\<close>

definition with_download :: "timeline \<Rightarrow> pdict \<Rightarrow> pdict" where
  "with_download st e =
     (case dget e ''media'' of
        PDict media \<Rightarrow>
          (let media_id = str_or_empty (dget media ''id'') in
           case (if media_id = [] then None else map_of (tl_media st) media_id) of
             None \<Rightarrow> e
           | Some tracked \<Rightarrow>
               if truthy (dget tracked ''downloadSource'')
               then dset e ''media'' (PDict (dset (dset media ''downloadSource'' (dget tracked ''downloadSource''))
                      ''decryptedSize'' (dget tracked ''decryptedSize'')))
               else e)
      | _ \<Rightarrow> e)"

definition list_events :: "string option \<Rightarrow> int \<Rightarrow> timeline \<Rightarrow> pdict list res" where
  "list_events inst limit st =
     rbind (newest_first (tl_business st @ tl_operational st)) (\<lambda>merged.
       Inr (map (\<lambda>e. redact_items (with_download st e))
              (take (nat (max 1 limit)) (filter (owned_by inst) merged))))"

fun timeline_value :: "pval list \<Rightarrow> string option" where
  "timeline_value [] = None"
| "timeline_value (v # vs) = (if clean_str v \<noteq> [] then Some (clean_str v) else timeline_value vs)"

definition timeline_message_id :: "pdict \<Rightarrow> string option" where
  "timeline_message_id e =
     timeline_value [dget (sub_dict e ''message'') ''id'', dget e ''messageId'',
       dget (sub_dict e ''providerDelivery'') ''messageId'', dget (sub_dict e ''providerDelivery'') ''providerMessageId'']"

definition is_status_event :: "pdict \<Rightarrow> bool" where
  "is_status_event e \<longleftrightarrow>
     dget e ''layer'' = PStr ''business'' \<and> str_lower (str_or_empty (dget e ''direction'')) = ''status'' \<and>
     str_or_empty (dget e ''subtype'') = ''message_status'' \<and> truthy (dget e ''status'')"

definition status_step :: "pdict \<Rightarrow> (string \<times> pdict) list \<Rightarrow> (string \<times> pdict) list" where
  "status_step e ss =
     (case timeline_message_id e of
        None \<Rightarrow> ss
      | Some i \<Rightarrow>
          if \<not> is_status_event e then ss
          else (case map_of ss i of
             None \<Rightarrow> ss @ [(i, e)]
           | Some current \<Rightarrow>
               if timeline_timestamp current \<le> timeline_timestamp e then AList.update i e ss else ss))"

record message_group =
  mg_primary :: pdict
  mg_sources :: "pval list"

definition side_of :: "pdict \<Rightarrow> string" where
  "side_of e = (if str_lower (str_or_empty (dget e ''direction'')) = ''inbound'' then ''inbound'' else ''outbound'')"

definition group_key :: "pdict \<Rightarrow> string" where
  "group_key e =
     (case timeline_message_id e of
        Some i \<Rightarrow> side_of e @ '':'' @ i
      | None \<Rightarrow> ''event:'' @ py_str (dget e ''id''))"

definition source_ids :: "pdict \<Rightarrow> pval list" where
  "source_ids e = (if truthy (dget e ''id'') then [dget e ''id''] else [])"

definition group_step :: "pdict \<Rightarrow> (string \<times> message_group) list \<Rightarrow> (string \<times> message_group) list" where
  "group_step e gs =
     (case map_of gs (group_key e) of
        None \<Rightarrow> gs @ [(group_key e, \<lparr> mg_primary = e, mg_sources = source_ids e \<rparr>)]
      | Some g \<Rightarrow>
          AList.update (group_key e)
            \<lparr> mg_primary =
                (if dget e ''event'' = PStr ''LOCAL_OUTBOUND_SEND'' \<and>
                    dget (mg_primary g) ''event'' \<noteq> PStr ''LOCAL_OUTBOUND_SEND''
                 then e else mg_primary g),
              mg_sources = mg_sources g @ source_ids e \<rparr> gs)"

definition logical_message :: "(string \<times> pdict) list \<Rightarrow> message_group \<Rightarrow> pdict" where
  "logical_message statuses g =
     (let event = mg_primary g;
          message = sub_dict event ''message''; media = sub_dict event ''media'';
          delivery = sub_dict event ''providerDelivery''; meta = sub_dict event ''meta'';
          pipeline = sub_dict event ''pipeline''; raw = sub_dict event ''raw''; content = sub_dict event ''content'';
          dict_or_none = (\<lambda>k. if is_dict (dget event k) then dget event k else PNone);
          message_id = timeline_message_id event;
          status_event = map_of statuses (case message_id of None \<Rightarrow> [] | Some i \<Rightarrow> i);
          v = (\<lambda>vs. pstr_opt (timeline_value vs));
          or_else = (\<lambda>vs d. PStr (case timeline_value vs of None \<Rightarrow> d | Some s \<Rightarrow> s))
      in [(''id'', PStr (case message_id of None \<Rightarrow> str_or_empty (dget event ''id'') | Some i \<Rightarrow> i)),
          (''messageId'', pstr_opt message_id), (''timestamp'', PInt (timeline_timestamp event)),
          (''direction'', PStr (side_of event)),
          (''kind'', or_else [dget event ''messageType'', dget event ''subtype'', dget message ''kind''] ''text''),
          (''text'', or_else [dget event ''text'', dget content ''text'', dget message ''text'', dget media ''caption''] []),
          (''status'', py_or (dget (case status_event of None \<Rightarrow> event | Some s \<Rightarrow> s) ''status'') PNone),
          (''sender'', v [dget event ''sender'', dget message ''from'']), (''recipient'', v [dget event ''recipient'']),
          (''media'', dict_or_none ''media''),
          (''provider'', v [dget delivery ''provider'', dget raw ''provider'', dget event ''provider'']),
          (''providerMessageId'', v [dget delivery ''providerMessageId'', dget raw ''providerMessageId'']),
          (''conversationId'', v [dget delivery ''conversationId'', dget meta ''conversationId'', dget pipeline ''conversationId'']),
          (''channelId'', v [dget delivery ''channelId'', dget meta ''channelId'']),
          (''connectionId'', v [dget delivery ''connectionId'', dget meta ''connectionId'']),
          (''correlationId'', v [dget delivery ''correlationId'', dget event ''correlationId'']),
          (''requestId'', v [dget delivery ''requestId'', dget meta ''requestId'', dget pipeline ''requestId'']),
          (''eventId'', v [dget delivery ''eventId'', dget event ''eventId'', dget event ''id'']),
          (''deliveryId'', v [dget delivery ''id'']),
          (''outboundAttemptId'', v [dget delivery ''outboundAttemptId'', dget raw ''outboundAttemptId'']),
          (''payload'', PDict
            [(''sourceEvent'', dget event ''event''), (''sourceEventId'', dget event ''id''),
             (''sourceEventIds'', PList (mg_sources g)), (''raw'', dict_or_none ''raw''),
             (''providerDelivery'', if delivery = [] then PNone else PDict delivery),
             (''latestStatusEvent'', case status_event of
                None \<Rightarrow> PNone
              | Some s \<Rightarrow> PDict [(''id'', dget s ''id''), (''status'', dget s ''status''),
                                (''timestamp'', PInt (timeline_timestamp s))])])])"

definition safe_limit :: "int \<Rightarrow> int" where
  "safe_limit limit = max 1 (min (if limit = 0 then 200 else limit) 500)"

definition message_events :: "pdict list \<Rightarrow> pdict list" where
  "message_events events =
     sort_key timeline_timestamp (filter (\<lambda>e. dget e ''layer'' = PStr ''business'' \<and>
       str_or_empty (dget e ''type'') = ''message'') events)"

definition list_logical_messages :: "string \<Rightarrow> int \<Rightarrow> timeline \<Rightarrow> pdict list res" where
  "list_logical_messages inst limit st =
     rbind (list_events (Some inst) (max 500 (safe_limit limit * 4)) st) (\<lambda>events.
       let statuses = fold status_step events [];
           groups = fold group_step (message_events events) []
       in Inr (take (nat (safe_limit limit))
            (sort_desc timeline_timestamp (map (\<lambda>g. logical_message statuses (snd g)) groups))))"

record delivery_filter =
  df_provider :: string
  df_direction :: string
  df_status :: string
  df_message_id :: string
  df_conversation_id :: string

definition delivery_matches :: "delivery_filter \<Rightarrow> pdict \<Rightarrow> bool" where
  "delivery_matches w d \<longleftrightarrow>
     d \<noteq> [] \<and> (df_provider w = [] \<or> py_str (dget d ''provider'') = df_provider w) \<and>
     (df_direction w = [] \<or> py_str (dget d ''direction'') = df_direction w) \<and>
     (df_status w = [] \<or> py_str (dget d ''semanticStatus'') = df_status w) \<and>
     (df_message_id w = [] \<or> str_or_empty (dget d ''messageId'') = df_message_id w) \<and>
     (df_conversation_id w = [] \<or> str_or_empty (dget d ''conversationId'') = df_conversation_id w)"

definition list_provider_deliveries ::
    "string option \<Rightarrow> int \<Rightarrow> delivery_filter \<Rightarrow> timeline \<Rightarrow> pdict list res" where
  "list_provider_deliveries inst limit w st =
     rbind (list_events inst (max 1 (min (limit * 4) 500)) st) (\<lambda>events.
       Inr (map (\<lambda>d. map (\<lambda>k. (k, dget d k))
              [''id'', ''timestamp'', ''direction'', ''operation'', ''semanticStatus'', ''provider'', ''messageId'',
               ''conversationId'', ''channelId'', ''connectionId'', ''providerMessageId'', ''durationMs'', ''correlationId''])
            (take (nat (max 1 limit))
              (filter (delivery_matches w) (map (\<lambda>e. sub_dict e ''providerDelivery'') events)))))"

section \<open>Serving media\<close>

text \<open>
  The checks of \<open>proxy_media\<close> in \<open>gateway/app/routers/media.py\<close>; the bytes it then
  fetches and decrypts are the argument \<open>fetch\<close>.
\<close>

datatype 'b media_answer = Not_In_Index | Wrong_Instance | No_Url | Bad_Gateway | Serve pdict 'b

definition proxy_media ::
    "(pdict \<Rightarrow> 'b option) \<Rightarrow> string \<Rightarrow> string \<Rightarrow> timeline \<Rightarrow> 'b media_answer \<times> timeline" where
  "proxy_media fetch inst media_id st =
     (case get_media media_id (Some inst) st of
        (None, st') \<Rightarrow> (Not_In_Index, st')
      | (Some item, st') \<Rightarrow>
          if dget item ''instance'' \<noteq> PStr inst then (Wrong_Instance, st')
          else if str_or_empty (dget item ''url'') = [] then (No_Url, st')
          else case fetch item of None \<Rightarrow> (Bad_Gateway, st') | Some bytes \<Rightarrow> (Serve item bytes, st'))"

end
