(* ===== verification/Timeline_Spec.thy ===== *)
theory Timeline_Spec
  imports Timeline Normalize_Spec
begin

text \<open>
  What the activity timeline promises: an event is stored once, the lists stay within the
  retention and hold no secret, a message is shown once, and media is served to the instance
  that owns it.
\<close>

section \<open>The key of an event survives enrichment\<close>

lemma dget_enrich:
  assumes "k \<notin> {''component'', ''severity'', ''result'', ''durationMs'', ''description'', ''correlationId'',
    ''providerDelivery'', ''action''}"
  shows "dget (enrich_business_activity e) k = dget e k"
  using assms by (simp add: enrich_business_activity_def Let_def dget_dsetdefault)

lemma event_dedupe_key_enrich [simp]: "event_dedupe_key (enrich_business_activity e) = event_dedupe_key e"
  by (simp add: event_dedupe_key_def Let_def dget_enrich)

lemma keys_max_pos [simp]: "0 < keys_max r"
  by (simp add: keys_max_def)

section \<open>The parts a step changes\<close>

lemma persist_events_parts [simp]:
  "tl_business (snd (persist_events r ok st)) = tl_business st"
  "tl_operational (snd (persist_events r ok st)) = tl_operational st"
  "tl_raw (snd (persist_events r ok st)) = tl_raw st"
  "tl_key_order (snd (persist_events r ok st)) = tl_key_order st"
  "tl_key_set (snd (persist_events r ok st)) = tl_key_set st"
  "tl_media (snd (persist_events r ok st)) = tl_media st"
  "tl_media_disk (snd (persist_events r ok st)) = tl_media_disk st"
  "tl_attempts (snd (persist_events r ok st)) = tl_attempts st"
  by (simp_all add: persist_events_def split: sum.split)

lemma persist_media_item_parts [simp]:
  "tl_business (persist_media_item ok i m st) = tl_business st"
  "tl_operational (persist_media_item ok i m st) = tl_operational st"
  "tl_raw (persist_media_item ok i m st) = tl_raw st"
  "tl_key_order (persist_media_item ok i m st) = tl_key_order st"
  "tl_key_set (persist_media_item ok i m st) = tl_key_set st"
  "tl_file (persist_media_item ok i m st) = tl_file st"
  "tl_media (persist_media_item ok i m st) = tl_media st"
  by (simp_all add: persist_media_item_def)

lemma index_media_parts [simp]:
  "tl_business (snd (index_media ok now n st)) = tl_business st"
  "tl_operational (snd (index_media ok now n st)) = tl_operational st"
  "tl_raw (snd (index_media ok now n st)) = tl_raw st"
  "tl_key_order (snd (index_media ok now n st)) = tl_key_order st"
  "tl_key_set (snd (index_media ok now n st)) = tl_key_set st"
  "tl_file (snd (index_media ok now n st)) = tl_file st"
  by (simp_all add: index_media_def Let_def split: pval.split sum.split)

lemma correlate_event_parts [simp]:
  "tl_business (snd (correlate_event ok now n st)) = tl_business st"
  "tl_operational (snd (correlate_event ok now n st)) = tl_operational st"
  "tl_raw (snd (correlate_event ok now n st)) = tl_raw st"
  "tl_key_order (snd (correlate_event ok now n st)) = tl_key_order st"
  "tl_key_set (snd (correlate_event ok now n st)) = tl_key_set st"
  "tl_file (snd (correlate_event ok now n st)) = tl_file st"
  "tl_media (snd (correlate_event ok now n st)) = tl_media st"
  "tl_media_disk (snd (correlate_event ok now n st)) = tl_media_disk st"
  by (simp_all add: correlate_event_def split: prod.split)

text \<open>The queue of keys and their set agree.\<close>

definition keys_agree :: "timeline \<Rightarrow> bool" where
  "keys_agree st \<longleftrightarrow> distinct (tl_key_order st) \<and> tl_key_set st = set (tl_key_order st)"

lemma remember_key_parts [simp]:
  "tl_business (remember_key r k st) = tl_business st"
  "tl_operational (remember_key r k st) = tl_operational st"
  "tl_raw (remember_key r k st) = tl_raw st"
  "tl_media (remember_key r k st) = tl_media st"
  "tl_file (remember_key r k st) = tl_file st"
  by (simp_all add: remember_key_def Let_def)

lemma remembering_parts [simp]:
  "tl_business (remembering r k st) = tl_business st"
  "tl_operational (remembering r k st) = tl_operational st"
  "tl_raw (remembering r k st) = tl_raw st"
  "tl_media (remembering r k st) = tl_media st"
  "tl_file (remembering r k st) = tl_file st"
  by (simp_all add: remembering_def split: option.split)

lemma remember_key_agrees:
  assumes ok: "keys_agree st" and new: "k \<notin> tl_key_set st"
  shows "keys_agree (remember_key r k st)" and "k \<in> tl_key_set (remember_key r k st)"
proof -
  define order n where "order = tl_key_order st @ [k]" and "n = length order - keys_max r"
  have d: "distinct order" using ok new by (simp add: order_def keys_agree_def)
  have s: "insert k (tl_key_set st) = set order" using ok by (auto simp: order_def keys_agree_def)
  have diff: "set order - set (take n order) = set (drop n order)"
    using d by (metis append_take_drop_id distinct_append Diff_cancel Un_Diff Un_empty_left
      Diff_triv Int_commute set_append)
  have "n \<le> length (tl_key_order st)"
    using keys_max_pos [of r] unfolding n_def order_def by (simp del: keys_max_pos)
  then have "k \<in> set (drop n order)" by (simp add: order_def)
  then show "k \<in> tl_key_set (remember_key r k st)"
    unfolding diff [symmetric] by (simp add: remember_key_def Let_def s order_def [symmetric] n_def [symmetric])
  show "keys_agree (remember_key r k st)"
    using distinct_drop [OF d, of n]
    by (simp add: keys_agree_def remember_key_def Let_def s diff order_def [symmetric] n_def [symmetric])
qed

lemma store_event_parts:
  assumes "store_event r ok aok now n st = (res, n', st')"
  shows "n' = fst (correlate_event aok now n st)"
    and "st' = snd (index_media ok (now div 1000) n' (snd (persist_events r ok
      ((snd (correlate_event aok now n st))\<lparr> tl_business := push r (redact_items n') (tl_business st) \<rparr>))))"
  using assms by (auto simp: store_event_def split_beta Let_def)

lemma store_event_lists:
  assumes "store_event r ok aok now n st = (res, n', st')"
  shows "tl_business st' = push r (redact_items n') (tl_business st)" "tl_key_order st' = tl_key_order st" "tl_key_set st' = tl_key_set st"
    "tl_operational st' = tl_operational st" "tl_raw st' = tl_raw st"
  by (simp_all add: store_event_parts(2) [OF assms])


lemma save_event_new:
  assumes "dget e ''layer'' = PStr ''business''" and "event_dedupe_key e = Some k" and "k \<notin> tl_key_set st"
  shows "save_event r ok aok now e st =
    store_event r ok aok now (enrich_business_activity e) (remember_key r k st)"
  using assms by (simp add: save_event_def Let_def remembering_def)

lemma save_event_seen:
  assumes "dget e ''layer'' = PStr ''business''" and "event_dedupe_key e = Some k" and "k \<in> tl_key_set st"
  shows "save_event r ok aok now e st = (Inr True, enrich_business_activity e, st)"
  using assms by (simp add: save_event_def Let_def)

lemma unwritten_event:
  assumes "dget e ''layer'' = PStr ''business''" and "event_dedupe_key e = Some k" and "k \<notin> tl_key_set st"
    and "dget e ''media'' = PNone" and "str_lower (str_or_empty (dget e ''direction'')) \<noteq> ''status''"
  shows "fst (save_event r False aok now e st) = Inr False"
proof -
  have p: "fst (persist_events r False st') = False" for st'
    by (simp add: persist_events_def split: sum.split)
  show ?thesis
    using assms(4,5)
    by (simp add: save_event_new [OF assms(1-3)] store_event_def correlate_event_def dget_enrich index_media_def
        Let_def p split_beta)
qed

lemma event_stored_once_facts:
  assumes "dget e ''layer'' = PStr ''business''" and "event_dedupe_key e = Some k" and "keys_agree st"
    and "k \<notin> tl_key_set st" and "0 < r" and "save_event r ok aok now e st = (res, e', st')"
  shows "hd (tl_business st') = redact_items e'" and "event_dedupe_key (enrich_business_activity e) = Some k"
    and "keys_agree st'"
    and "save_event r ok2 aok2 now2 e st' = (Inr True, enrich_business_activity e, st')"
proof -
  have s: "store_event r ok aok now (enrich_business_activity e) (remember_key r k st) = (res, e', st')"
    using assms(6) by (simp add: save_event_new [OF assms(1,2,4)])
  show "hd (tl_business st') = redact_items e'"
    using assms(5) by (cases r) (simp_all add: store_event_lists(1) [OF s] push_def)
  show "event_dedupe_key (enrich_business_activity e) = Some k" by (simp add: assms(2))
  show "keys_agree st'"
    using remember_key_agrees(1) [OF assms(3,4), of r] store_event_lists [OF s] by (simp add: keys_agree_def)
  have "k \<in> tl_key_set st'"
    using remember_key_agrees(2) [OF assms(3,4), of r] store_event_lists [OF s] by simp
  then show "save_event r ok2 aok2 now2 e st' = (Inr True, enrich_business_activity e, st')"
    by (rule save_event_seen [OF assms(1,2)])
qed

text \<open>
  C34: A business event that carries a message id is stored once. The first time it is put at
  the front of the timeline, without its secrets; from then on, saving it again leaves the whole
  state as it is and answers that it is stored. That answer is given even where the write of the
  first time failed: a caller that retries is told the event is persisted and nothing is written.
\<close>

theorem event_stored_once:
  assumes "dget e ''layer'' = PStr ''business''" and "event_dedupe_key e = Some k" and "keys_agree st"
    and "k \<notin> tl_key_set st" and "0 < r" and "save_event r ok aok now e st = (res, e', st')"
  shows "hd (tl_business st') = redact_items e' \<and> event_dedupe_key (enrich_business_activity e) = Some k \<and>
    keys_agree st' \<and> save_event r ok2 aok2 now2 e st' = (Inr True, enrich_business_activity e, st')"
  by (intro conjI) (rule event_stored_once_facts [OF assms])+

definition sample_event :: pdict where
  "sample_event =
     [(''id'', PStr ''e1''), (''event'', PStr ''MESSAGES_UPSERT''), (''instance'', PStr ''shop''),
      (''timestamp'', PInt 1000), (''layer'', PStr ''business''), (''type'', PStr ''message''),
      (''direction'', PStr ''inbound''), (''subtype'', PStr ''text''), (''text'', PStr ''hola''),
      (''message'', PDict [(''id'', PStr ''m1''), (''from'', PStr ''549@s'')]),
      (''meta'', PDict [(''requestId'', PStr ''r1'')]), (''token'', PStr ''t'')]"

definition empty_timeline :: timeline where
  "empty_timeline =
     \<lparr> tl_business = [], tl_operational = [], tl_raw = [], tl_key_order = [], tl_key_set = {},
       tl_media = [], tl_media_disk = [], tl_file = Absent, tl_attempts = Absent \<rparr>"

lemma event_stored_once_witness:
  "save_event 3 True True 9 sample_event (snd (snd (save_event 3 False True 5 sample_event empty_timeline)))
     = (Inr True, enrich_business_activity sample_event,
        snd (snd (save_event 3 False True 5 sample_event empty_timeline))) \<and>
   fst (save_event 3 False True 5 sample_event empty_timeline) = Inr False"
proof (rule conjI)
  obtain res e' st' where s: "save_event 3 False True 5 sample_event empty_timeline = (res, e', st')"
    by (cases "save_event 3 False True 5 sample_event empty_timeline")
  have k: "event_dedupe_key sample_event = Some ''shop|MESSAGES_UPSERT|m1|inbound|text|''" by code_simp
  have layer: "dget sample_event ''layer'' = PStr ''business''" by code_simp
  have agree: "keys_agree empty_timeline" by (simp add: keys_agree_def empty_timeline_def)
  have new: "''shop|MESSAGES_UPSERT|m1|inbound|text|'' \<notin> tl_key_set empty_timeline" by (simp add: empty_timeline_def)
  show "save_event 3 True True 9 sample_event (snd (snd (save_event 3 False True 5 sample_event empty_timeline)))
     = (Inr True, enrich_business_activity sample_event,
        snd (snd (save_event 3 False True 5 sample_event empty_timeline)))"
    unfolding s fst_conv snd_conv using event_stored_once [OF layer k agree new _ s] by simp
  have "dget sample_event ''media'' = PNone" "str_lower (str_or_empty (dget sample_event ''direction'')) \<noteq> ''status''"
    by code_simp+
  then show "fst (save_event 3 False True 5 sample_event empty_timeline) = Inr False"
    by (rule unwritten_event [OF layer k new])
qed

section \<open>Bounds and secrets\<close>

definition clean :: "nat \<Rightarrow> pdict list \<Rightarrow> bool" where
  "clean r es \<longleftrightarrow> length es \<le> r \<and> list_all no_secret_items es"

definition timeline_ok :: "nat \<Rightarrow> timeline \<Rightarrow> bool" where
  "timeline_ok r st \<longleftrightarrow>
     clean r (tl_business st) \<and> clean r (tl_operational st) \<and> clean r (tl_raw st) \<and>
     (case tl_file st of Holds items \<Rightarrow> clean r items | _ \<Rightarrow> True)"

lemma list_all_take: "list_all p xs \<Longrightarrow> list_all p (take n xs)"
  by (auto simp: list_all_iff dest: in_set_takeD)

lemma clean_push: "clean r es \<Longrightarrow> no_secret_items e \<Longrightarrow> clean r (push r e es)"
  by (simp add: clean_def push_def list_all_take)

lemma clean_push_redact [simp]: "clean r es \<Longrightarrow> clean r (push r (redact_items e) es)"
  by (simp add: clean_push no_secret_redact)

lemma list_all_sort_desc: "list_all p (sort_desc f xs) = list_all p xs"
  by (simp add: list_all_iff)

lemma persist_events_ok:
  assumes "timeline_ok r st"
  shows "timeline_ok r (snd (persist_events r ok st))"
  using assms by (auto simp: timeline_ok_def persist_events_def clean_def newest_first_def
      list_all_sort_desc list_all_take split: sum.splits option.splits)

lemma timeline_ok_cong:
  assumes "timeline_ok r st" and "tl_business st' = tl_business st" and "tl_operational st' = tl_operational st"
    and "tl_raw st' = tl_raw st" and "tl_file st' = tl_file st"
  shows "timeline_ok r st'"
  using assms by (simp add: timeline_ok_def)

lemma store_event_ok:
  assumes "timeline_ok r st" and s: "store_event r ok aok now n st = (res, n', st')"
  shows "timeline_ok r st'"
proof -
  let ?st1 = "(snd (correlate_event aok now n st))\<lparr> tl_business := push r (redact_items n') (tl_business st) \<rparr>"
  have "timeline_ok r ?st1" using assms(1) by (simp add: timeline_ok_def)
  then have st2: "timeline_ok r (snd (persist_events r ok ?st1))" by (rule persist_events_ok)
  have "timeline_ok r (snd (index_media ok (now div 1000) n' (snd (persist_events r ok ?st1))))"
    by (rule timeline_ok_cong [OF st2]) (rule index_media_parts)+
  then show ?thesis by (simp only: store_event_parts(2) [OF s])
qed

lemma pipeline_event_item_no_secret: "no_secret_items (pipeline_event_item uid now note)"
proof -
  have k: "list_all (\<lambda>k. \<not> is_sensitive_name k)
     [''id'', ''layer'', ''event'', ''instance'', ''timestamp'', ''component'', ''severity'', ''result'',
      ''description'', ''durationMs'', ''action'', ''operator'', ''correlationId'', ''pipeline'', ''details'',
      ''stage'', ''status'', ''requestId'', ''conversationId'', ''messageId'']" by code_simp
  have o: "no_secret (pstr_opt s)" for s by (cases s) simp_all
  have i: "no_secret (pint_opt i)" for i by (cases i) simp_all
  have p: "no_secret v \<Longrightarrow> no_secret w \<Longrightarrow> no_secret (py_or v w)" for v w by (simp add: py_or_def)
  show ?thesis using k by (simp add: pipeline_event_item_def Let_def o i p no_secret_redact)
qed

lemma restore_events_ok:
  assumes "timeline_ok r st"
  shows "timeline_ok r (restore_events r st)"
proof -
  have step: "timeline_ok r (restore_step r e st')" if "timeline_ok r st'" "no_secret_items e" for e st'
    using that by (auto simp: restore_step_def timeline_ok_def clean_push split: option.split)
  have all: "timeline_ok r (fold (restore_step r) es st')" if "list_all no_secret_items es" "timeline_ok r st'" for es st'
    using that by (induction es arbitrary: st') (auto simp: step)
  show ?thesis
  proof (cases "tl_file st")
    case (Holds items)
    then have "list_all no_secret_items (rev (last_n r items))"
      using assms by (auto simp: timeline_ok_def clean_def list_all_iff dest: in_last_n)
    then show ?thesis using assms all by (simp add: restore_events_def Holds)
  qed (use assms in \<open>simp_all add: restore_events_def\<close>)
qed

lemma save_event_ok:
  assumes "timeline_ok r st"
  shows "timeline_ok r (snd (snd (save_event r ok aok now e st)))"
proof -
  have rem: "timeline_ok r (remembering r key st)" for key
    by (rule timeline_ok_cong [OF assms]) simp_all
  have "timeline_ok r (snd (snd (store_event r ok aok now n (remembering r key st))))" for n key
    using store_event_ok [OF rem] by (metis surj_pair snd_conv)
  then show ?thesis using assms by (simp add: save_event_def Let_def)
qed

lemma push_business_ok: "timeline_ok r st \<Longrightarrow> timeline_ok r (st\<lparr> tl_business := push r (redact_items e) (tl_business st) \<rparr>)"
  and push_operational_ok:
    "timeline_ok r st \<Longrightarrow> timeline_ok r (st\<lparr> tl_operational := push r (pipeline_event_item uid now note) (tl_operational st) \<rparr>)"
  by (simp_all add: timeline_ok_def clean_push pipeline_event_item_no_secret)

lemma timeline_bounded_and_redacted_facts:
  assumes "timeline_ok r st"
  shows "timeline_ok r (snd (snd (save_event r ok aok now e st)))"
    and "timeline_ok r (snd (save_business_event r ok e st))"
    and "timeline_ok r (save_raw_event r debug e st)"
    and "timeline_ok r (save_pipeline_event r ok uid now note st)"
    and "timeline_ok r (restore_events r st)"
    and "timeline_ok r (snd (get_media i inst st))"
    and "timeline_ok r (update_media_download_state ok i source n st)"
proof -
  show "timeline_ok r (snd (snd (save_event r ok aok now e st)))" by (rule save_event_ok [OF assms])
  show "timeline_ok r (snd (save_business_event r ok e st))"
    using assms by (simp add: save_business_event_def persist_events_ok push_business_ok)
  show "timeline_ok r (save_raw_event r debug e st)"
    using assms by (simp add: save_raw_event_def timeline_ok_def)
  show "timeline_ok r (save_pipeline_event r ok uid now note st)"
    using assms by (simp add: save_pipeline_event_def persist_events_ok push_operational_ok)
  show "timeline_ok r (restore_events r st)" by (rule restore_events_ok [OF assms])
  show "timeline_ok r (snd (get_media i inst st))"
    using assms by (auto simp: get_media_def Let_def timeline_ok_def split: option.split list.split)
  show "timeline_ok r (update_media_download_state ok i source n st)"
    by (rule timeline_ok_cong [OF assms])
      (auto simp: update_media_download_state_def Let_def split: option.split)
qed

text \<open>
  Every operation that adds to the timeline keeps each of its lists, and the file they
  are written to, within the configured retention and free of secrets at any depth.
\<close>

theorem timeline_bounded_and_redacted:
  assumes "timeline_ok r st"
  shows "timeline_ok r (snd (snd (save_event r ok aok now e st))) \<and> timeline_ok r (snd (save_business_event r ok e st)) \<and>
    timeline_ok r (save_raw_event r debug e st) \<and> timeline_ok r (save_pipeline_event r ok uid now note st) \<and>
    timeline_ok r (restore_events r st) \<and> timeline_ok r (snd (get_media i inst st)) \<and>
    timeline_ok r (update_media_download_state ok i source n st)"
  by (intro conjI) (rule timeline_bounded_and_redacted_facts [OF assms])+

lemma timeline_bounded_and_redacted_witness:
  "timeline_ok 3 (snd (snd (save_event 3 True True 5 sample_event empty_timeline)))"
  by (rule conjunct1 [OF timeline_bounded_and_redacted]) (simp add: timeline_ok_def clean_def empty_timeline_def)

section \<open>One record for each message\<close>

lemma group_step_keys:
  "map fst (group_step e gs) =
     (if group_key e \<in> set (map fst gs) then map fst gs else map fst gs @ [group_key e])"
proof (cases "map_of gs (group_key e)")
  case None
  then have "group_key e \<notin> set (map fst gs)" by (simp add: map_of_eq_None_iff)
  then show ?thesis by (simp add: group_step_def None)
next
  case (Some g)
  then have "group_key e \<in> set (map fst gs)" by (force dest: map_of_SomeD)
  then show ?thesis by (simp add: group_step_def Some update_keys)
qed

definition groups_ok :: "(string \<times> message_group) list \<Rightarrow> bool" where
  "groups_ok gs \<longleftrightarrow> distinct (map fst gs) \<and> list_all (\<lambda>(k, g). group_key (mg_primary g) = k) gs"

lemma group_step_ok:
  assumes "groups_ok gs"
  shows "groups_ok (group_step e gs)"
proof -
  have d: "distinct (map fst (group_step e gs))"
    using assms unfolding group_step_keys groups_ok_def by auto
  moreover have "group_key (mg_primary g) = k" if "(k, g) \<in> set (group_step e gs)" for k g
  proof -
    have m: "map_of (group_step e gs) k = Some g"
      using that d by (simp add: map_of_eq_Some_iff)
    have old: "group_key (mg_primary h) = j" if "map_of gs j = Some h" for j h
      using assms map_of_SomeD [OF that] by (auto simp: groups_ok_def list_all_iff)
    show ?thesis
      using m old
      by (cases "map_of gs (group_key e)")
        (auto simp: group_step_def update_conv' map_add_def split: if_splits option.splits)
  qed
  ultimately show ?thesis by (auto simp: groups_ok_def list_all_iff)
qed

lemma groups_ok_fold: "groups_ok gs \<Longrightarrow> groups_ok (fold group_step es gs)"
  by (induction es arbitrary: gs) (auto simp: group_step_ok)

lemma logical_message_id:
  "dget (logical_message ss g) ''direction'' = PStr (side_of (mg_primary g))"
  "dget (logical_message ss g) ''messageId'' = pstr_opt (timeline_message_id (mg_primary g))"
  by (simp_all add: logical_message_def Let_def dget_Cons)

lemma logical_message_status:
  assumes "timeline_message_id (mg_primary g) = Some i" and "map_of ss i = Some s" and "truthy (dget s ''status'')"
  shows "dget (logical_message ss g) ''status'' = dget s ''status''"
  using assms by (simp add: logical_message_def Let_def dget_Cons py_or_def)

subsection \<open>The latest status\<close>

definition reports :: "string \<Rightarrow> pdict \<Rightarrow> bool" where
  "reports i e \<longleftrightarrow> is_status_event e \<and> timeline_message_id e = Some i"

definition statuses_ok :: "pdict set \<Rightarrow> (string \<times> pdict) list \<Rightarrow> bool" where
  "statuses_ok seen ss \<longleftrightarrow>
     (\<forall>i e. e \<in> seen \<longrightarrow> reports i e \<longrightarrow>
        (\<exists>s. map_of ss i = Some s \<and> timeline_timestamp e \<le> timeline_timestamp s)) \<and>
     (\<forall>i s. map_of ss i = Some s \<longrightarrow> s \<in> seen \<and> reports i s)"

lemma status_step_map:
  "map_of (status_step e ss) =
     (case timeline_message_id e of
        None \<Rightarrow> map_of ss
      | Some i \<Rightarrow>
          if is_status_event e \<and> (case map_of ss i of None \<Rightarrow> True
               | Some c \<Rightarrow> timeline_timestamp c \<le> timeline_timestamp e)
          then (map_of ss)(i \<mapsto> e) else map_of ss)"
  by (auto simp: status_step_def update_conv' map_add_def fun_eq_iff split: option.splits)

lemma status_step_ok:
  assumes "statuses_ok seen ss"
  shows "statuses_ok (insert e seen) (status_step e ss)"
proof (cases "timeline_message_id e")
  case None
  then show ?thesis
    using assms by (auto simp: statuses_ok_def status_step_map reports_def)
next
  case (Some i)
  have old: "map_of ss j = Some s \<Longrightarrow> s \<in> seen \<and> reports j s" for j s
    using assms by (auto simp: statuses_ok_def)
  have new: "e' \<in> seen \<Longrightarrow> reports j e' \<Longrightarrow>
      \<exists>s. map_of ss j = Some s \<and> timeline_timestamp e' \<le> timeline_timestamp s" for j e'
    using assms by (auto simp: statuses_ok_def)
  have r: "reports j e \<longleftrightarrow> is_status_event e \<and> j = i" for j by (auto simp: reports_def Some)
  show ?thesis
    unfolding statuses_ok_def
  proof (intro conjI allI impI)
    fix j e' assume e': "e' \<in> insert e seen" and rep: "reports j e'"
    show "\<exists>s. map_of (status_step e ss) j = Some s \<and> timeline_timestamp e' \<le> timeline_timestamp s"
    proof (cases "e' = e")
      case True
      then show ?thesis using rep by (cases "map_of ss i") (auto simp: status_step_map Some r)
    next
      case False
      then obtain s where s: "map_of ss j = Some s" "timeline_timestamp e' \<le> timeline_timestamp s"
        using new [OF _ rep] e' by auto
      then show ?thesis by (cases "j = i") (auto simp: status_step_map Some)
    qed
  next
    fix j s assume "map_of (status_step e ss) j = Some s"
    then have "map_of ss j = Some s \<or> (s = e \<and> j = i \<and> is_status_event e)"
      by (auto simp: status_step_map Some split: if_splits)
    then show "s \<in> insert e seen" "reports j s" using old r by auto
  qed
qed

lemma statuses_ok_fold: "statuses_ok seen ss \<Longrightarrow> statuses_ok (seen \<union> set es) (fold status_step es ss)"
  using status_step_ok by (induction es arbitrary: seen ss) fastforce+

lemma same_record_same_key:
  assumes "dget (logical_message ss g) ''direction'' = dget (logical_message ss h) ''direction''"
    and "dget (logical_message ss g) ''messageId'' = dget (logical_message ss h) ''messageId''"
    and "dget (logical_message ss g) ''messageId'' \<noteq> PNone"
  shows "group_key (mg_primary g) = group_key (mg_primary h)"
  using assms
  by (cases "timeline_message_id (mg_primary g)"; cases "timeline_message_id (mg_primary h)")
    (auto simp: logical_message_id group_key_def)

lemma group_messages_distinct:
  "groups_ok gs \<Longrightarrow> distinct (map (\<lambda>m. (dget m ''direction'', dget m ''messageId''))
    (filter (\<lambda>m. dget m ''messageId'' \<noteq> PNone) (map (\<lambda>g. logical_message ss (snd g)) gs)))"
proof (induction gs)
  case Nil
  then show ?case by simp
next
  case (Cons kg gs)
  obtain k g where kg: "kg = (k, g)" by (cases kg)
  have keys: "group_key (mg_primary g) = k" "\<And>k' h. (k', h) \<in> set gs \<Longrightarrow> group_key (mg_primary h) = k' \<and> k' \<noteq> k"
    using Cons.prems by (auto simp: groups_ok_def kg list_all_iff image_iff)
  have tail: "groups_ok gs" using Cons.prems by (simp add: groups_ok_def kg)
  have other: "(dget (logical_message ss g) ''direction'', dget (logical_message ss g) ''messageId'') \<noteq>
      (dget (logical_message ss h) ''direction'', dget (logical_message ss h) ''messageId'')"
    if "(k', h) \<in> set gs" "dget (logical_message ss g) ''messageId'' \<noteq> PNone" for k' h
    using same_record_same_key [of ss g h] keys(1) keys(2) [OF that(1)] that(2) by auto
  show ?case
    using Cons.IH [OF tail] other by (fastforce simp: kg)
qed

lemma logical_messages_once_facts:
  assumes "list_logical_messages inst limit st = Inr ms"
    and "list_events (Some inst) (max 500 (safe_limit limit * 4)) st = Inr events"
  shows "length ms \<le> nat (safe_limit limit)" and "sorted_wrt (\<ge>) (map timeline_timestamp ms)"
    and "distinct (map (\<lambda>m. (dget m ''direction'', dget m ''messageId''))
      (filter (\<lambda>m. dget m ''messageId'' \<noteq> PNone) ms))"
    and "\<lbrakk>m \<in> set ms; dget m ''messageId'' = PStr i; e \<in> set events; reports i e\<rbrakk> \<Longrightarrow>
      \<exists>s\<in>set events. reports i s \<and> dget m ''status'' = dget s ''status'' \<and>
        timeline_timestamp e \<le> timeline_timestamp s"
proof -
  define ss gs where "ss = fold status_step events []" and "gs = fold group_step (message_events events) []"
  let ?all = "map (\<lambda>g. logical_message ss (snd g)) gs"
  have ms: "ms = take (nat (safe_limit limit)) (sort_desc timeline_timestamp ?all)"
    using assms by (simp add: list_logical_messages_def ss_def gs_def Let_def)
  show "length ms \<le> nat (safe_limit limit)" by (simp add: ms)
  show "sorted_wrt (\<ge>) (map timeline_timestamp ms)"
    unfolding ms take_map [symmetric] by (rule sorted_wrt_take [OF sorted_sort_desc])
  let ?id = "\<lambda>m. (dget m ''direction'', dget m ''messageId'')"
  have "distinct (map ?id (filter (\<lambda>m. dget m ''messageId'' \<noteq> PNone) ?all))"
    unfolding gs_def by (rule group_messages_distinct [OF groups_ok_fold]) (simp add: groups_ok_def)
  then have d: "distinct (map ?id (filter (\<lambda>m. dget m ''messageId'' \<noteq> PNone) (sort_desc timeline_timestamp ?all)))"
    by (rule iffD1 [OF mset_eq_imp_distinct_iff, rotated]) (simp add: mset_filter [symmetric])
  show "distinct (map ?id (filter (\<lambda>m. dget m ''messageId'' \<noteq> PNone) ms))"
    using d unfolding ms
    by (metis (no_types, lifting) append_take_drop_id distinct_append filter_append map_append)
  assume m: "m \<in> set ms" and i: "dget m ''messageId'' = PStr i" and e: "e \<in> set events" and rep: "reports i e"
  have "statuses_ok (set events) ss"
    unfolding ss_def using statuses_ok_fold [of "{}" "[]" events] by (simp add: statuses_ok_def)
  then obtain s where s: "map_of ss i = Some s" "timeline_timestamp e \<le> timeline_timestamp s"
      "s \<in> set events" "reports i s"
    using e rep unfolding statuses_ok_def by blast
  have "m \<in> set ?all" using m unfolding ms by (metis in_set_takeD set_sort_desc)
  then obtain g where g: "m = logical_message ss g" by auto
  have "timeline_message_id (mg_primary g) = Some i"
    using i by (cases "timeline_message_id (mg_primary g)") (simp_all add: g logical_message_id)
  then have "dget m ''status'' = dget s ''status''"
    unfolding g by (rule logical_message_status [OF _ s(1)]) (use s(4) in \<open>simp add: reports_def is_status_event_def\<close>)
  then show "\<exists>s\<in>set events. reports i s \<and> dget m ''status'' = dget s ''status'' \<and>
      timeline_timestamp e \<le> timeline_timestamp s" using s by blast
qed

text \<open>
  The conversation view shows each message once: no two records have the same direction
  and provider message id, they come newest first and within the limit, and a message for
  which the timeline holds status updates shows the status of one that no other is later than.
\<close>

theorem logical_messages_once:
  assumes "list_logical_messages inst limit st = Inr ms"
    and "list_events (Some inst) (max 500 (safe_limit limit * 4)) st = Inr events"
  shows "length ms \<le> nat (safe_limit limit) \<and> sorted_wrt (\<ge>) (map timeline_timestamp ms) \<and>
    distinct (map (\<lambda>m. (dget m ''direction'', dget m ''messageId''))
      (filter (\<lambda>m. dget m ''messageId'' \<noteq> PNone) ms)) \<and>
    (\<forall>m\<in>set ms. \<forall>e\<in>set events. \<forall>i. dget m ''messageId'' = PStr i \<longrightarrow> reports i e \<longrightarrow>
      (\<exists>s\<in>set events. reports i s \<and> dget m ''status'' = dget s ''status'' \<and>
        timeline_timestamp e \<le> timeline_timestamp s))"
  using logical_messages_once_facts [OF assms] by (intro conjI ballI allI impI) simp_all

definition shown_timeline :: timeline where
  "shown_timeline = empty_timeline\<lparr> tl_business :=
     [[(''layer'', PStr ''business''), (''direction'', PStr ''status''), (''subtype'', PStr ''message_status''),
       (''instance'', PStr ''a''), (''timestamp'', PInt 3), (''messageId'', PStr ''m''), (''status'', PStr ''read'')],
      [(''layer'', PStr ''business''), (''type'', PStr ''message''), (''instance'', PStr ''a''),
       (''timestamp'', PInt 1), (''messageId'', PStr ''m'')]] \<rparr>"

lemma logical_messages_once_witness:
  "\<exists>ms. list_logical_messages ''a'' 5 shown_timeline = Inr ms \<and> sorted_wrt (\<ge>) (map timeline_timestamp ms)"
proof -
  have "is_ok (newest_first (tl_business shown_timeline @ tl_operational shown_timeline))" by code_simp
  then obtain events where e: "list_events (Some ''a'') (max 500 (safe_limit 5 * 4)) shown_timeline = Inr events"
    by (auto simp: list_events_def is_ok_iff)
  then obtain ms where ms: "list_logical_messages ''a'' 5 shown_timeline = Inr ms"
    by (simp add: list_logical_messages_def Let_def)
  show ?thesis
    using ms logical_messages_once [OF ms e] by blast
qed

section \<open>Media and its owner\<close>

lemma get_media_in_memory:
  "map_of (tl_media st) (strip i) = Some (kv # item) \<Longrightarrow> get_media i inst st = (Some (kv # item), st)"
  by (simp add: get_media_def)

lemma media_has_one_owner_facts:
  assumes "proxy_media fetch inst i st = (Serve item bytes, st')"
  shows "dget item ''instance'' = PStr inst \<and> str_or_empty (dget item ''url'') \<noteq> [] \<and> fetch item = Some bytes"
    and "\<lbrakk>dget n ''media'' = PDict media; dget media ''id'' = PStr i; strip i = i; dget n ''message'' = PDict msg;
      dget n ''instance'' = PStr other; other \<noteq> inst\<rbrakk> \<Longrightarrow>
      fst (proxy_media fetch inst i (snd (index_media ok now n st'))) = Wrong_Instance"
proof -
  show "dget item ''instance'' = PStr inst \<and> str_or_empty (dget item ''url'') \<noteq> [] \<and> fetch item = Some bytes"
    using assms by (auto simp: proxy_media_def split: prod.splits option.splits if_splits)
  assume n: "dget n ''media'' = PDict media" "dget media ''id'' = PStr i" "strip i = i"
    "dget n ''message'' = PDict msg" "dget n ''instance'' = PStr other" "other \<noteq> inst"
  define entry where "entry = media_entry now n media (dget msg ''id'')"
  have owner: "dget entry ''instance'' = PStr other"
    by (simp add: entry_def media_entry_def Let_def dget_dmerge_distinct dhas_Cons dget_Cons n(5))
  then have "entry \<noteq> []" by auto
  then obtain kv rest where e: "entry = kv # rest" by (cases entry) auto
  have "map_of (tl_media (snd (index_media ok now n st'))) (strip i) = Some (kv # rest)"
    using n e by (cases "msg = []")
      (simp_all add: index_media_def Let_def update_conv' py_or_def entry_def)
  then show "fst (proxy_media fetch inst i (snd (index_media ok now n st'))) = Wrong_Instance"
    using owner n(6) by (simp add: proxy_media_def get_media_in_memory e)
qed

text \<open>
  Media is served only to the instance that owns it. The index holds one owner for each
  media id: once another instance has received the same media, the first one is refused,
  whatever the timeline held before.
\<close>

theorem media_has_one_owner:
  assumes "proxy_media fetch inst i st = (Serve item bytes, st')"
  shows "dget item ''instance'' = PStr inst \<and> str_or_empty (dget item ''url'') \<noteq> [] \<and> fetch item = Some bytes \<and>
    (\<forall>n media msg other ok now. dget n ''media'' = PDict media \<longrightarrow> dget media ''id'' = PStr i \<longrightarrow> strip i = i \<longrightarrow>
      dget n ''message'' = PDict msg \<longrightarrow> dget n ''instance'' = PStr other \<longrightarrow> other \<noteq> inst \<longrightarrow>
      fst (proxy_media fetch inst i (snd (index_media ok now n st'))) = Wrong_Instance)"
  using media_has_one_owner_facts [OF assms] by blast

definition media_event :: "string \<Rightarrow> pdict" where
  "media_event inst =
     [(''instance'', PStr inst), (''message'', PDict [(''id'', PStr ''m1'')]),
      (''media'', PDict [(''id'', PStr ''d1''), (''url'', PStr ''u'')])]"

lemma media_has_one_owner_witness:
  "fst (proxy_media (\<lambda>_. Some ()) ''shop'' ''d1''
     (snd (index_media True 5 (media_event ''bar'')
       (snd (proxy_media (\<lambda>_. Some ()) ''shop'' ''d1'' (snd (index_media True 5 (media_event ''shop'') empty_timeline)))))))
   = Wrong_Instance"
proof -
  let ?st = "snd (index_media True 5 (media_event ''shop'') empty_timeline)"
  have "(case fst (proxy_media (\<lambda>_. Some ()) ''shop'' ''d1'' ?st) of Serve i b \<Rightarrow> True | _ \<Rightarrow> False)"
    by code_simp
  then obtain item where served: "proxy_media (\<lambda>_. Some ()) ''shop'' ''d1'' ?st =
      (Serve item (), snd (proxy_media (\<lambda>_. Some ()) ''shop'' ''d1'' ?st))"
    by (cases "proxy_media (\<lambda>_. Some ()) ''shop'' ''d1'' ?st") (auto split: media_answer.splits)
  have "dget (media_event ''bar'') ''media'' = PDict [(''id'', PStr ''d1''), (''url'', PStr ''u'')]"
      "dget [(''id'', PStr ''d1''), (''url'', PStr ''u'')] ''id'' = PStr ''d1''" "strip ''d1'' = ''d1''"
      "dget (media_event ''bar'') ''message'' = PDict [(''id'', PStr ''m1'')]"
      "dget (media_event ''bar'') ''instance'' = PStr ''bar''" "''bar'' \<noteq> ''shop''"
    by code_simp+
  then show ?thesis using media_has_one_owner [OF served] by blast
qed

end
