(* ===== verification/Reliability.thy ===== *)
theory Reliability
  imports Py_Prelude
begin

text \<open>
  The guards of the inbound pipeline, \<open>gateway/app/services/reliability.py\<close>: a set whose
  members expire, the fingerprints of messages, the memory of what the gateway sent itself, and
  the flood guard. The clock is an argument, in milliseconds; SHA-1 is the argument \<open>sha\<close>.
\<close>

section \<open>A set whose members expire\<close>

record ttl_store =
  ts_ttl_seconds :: int
  ts_max_items :: nat
  ts_store :: "(string \<times> int) list"

definition ttl_ms :: "ttl_store \<Rightarrow> int" where
  "ttl_ms s = 1000 * ts_ttl_seconds s"

definition ttl_cleanup :: "int \<Rightarrow> ttl_store \<Rightarrow> ttl_store" where
  "ttl_cleanup now s =
     (let alive = filter (\<lambda>(k, exp). \<not> exp \<le> now) (ts_store s)
      in s\<lparr> ts_store := if length alive \<le> ts_max_items s then alive
                        else take (ts_max_items s) (sort_desc snd alive) \<rparr>)"

definition ttl_exists :: "int \<Rightarrow> string \<Rightarrow> ttl_store \<Rightarrow> bool \<times> ttl_store" where
  "ttl_exists now key s =
     (case map_of (ts_store s) key of
        None \<Rightarrow> (False, s)
      | Some exp \<Rightarrow> if exp \<le> now then (False, s\<lparr> ts_store := AList.delete key (ts_store s) \<rparr>) else (True, s))"

definition ttl_put :: "int \<Rightarrow> string \<Rightarrow> ttl_store \<Rightarrow> ttl_store" where
  "ttl_put now key s =
     (let s' = s\<lparr> ts_store := AList.update key (now + ttl_ms s) (ts_store s) \<rparr>
      in if ts_max_items s < length (ts_store s') then ttl_cleanup now s' else s')"

text \<open>Whether a key is alive, the view the clients have of the set.\<close>

definition ttl_alive :: "int \<Rightarrow> string \<Rightarrow> ttl_store \<Rightarrow> bool" where
  "ttl_alive now key s \<longleftrightarrow> (\<exists>exp. map_of (ts_store s) key = Some exp \<and> now < exp)"

definition ttl_ok :: "ttl_store \<Rightarrow> bool" where
  "ttl_ok s \<longleftrightarrow> distinct (map fst (ts_store s)) \<and> length (ts_store s) \<le> ts_max_items s"

lemma ttl_exists_alive [simp]: "fst (ttl_exists now k s) \<longleftrightarrow> ttl_alive now k s"
  by (auto simp: ttl_exists_def ttl_alive_def split: option.split)

lemma ttl_parts [simp]:
  "ts_ttl_seconds (ttl_put now k s) = ts_ttl_seconds s" "ts_max_items (ttl_put now k s) = ts_max_items s"
  "ts_ttl_seconds (snd (ttl_exists now k s)) = ts_ttl_seconds s"
  "ts_max_items (snd (ttl_exists now k s)) = ts_max_items s"
  by (simp_all add: ttl_put_def ttl_cleanup_def ttl_exists_def Let_def split: option.split)

lemma ttl_alive_exists [simp]:
  "now' \<le> now \<Longrightarrow> ttl_alive now j (snd (ttl_exists now' k s)) \<longleftrightarrow> ttl_alive now j s"
  by (auto simp: ttl_exists_def ttl_alive_def delete_conv' split: option.split)

lemma distinct_map_sort_desc: "distinct (map g (sort_desc f xs)) = distinct (map g xs)"
  by (rule mset_eq_imp_distinct_iff) simp

lemma distinct_map_take: "distinct (map f xs) \<Longrightarrow> distinct (map f (take n xs))"
  by (simp add: take_map [symmetric])

lemma ttl_cleanup_ok: "distinct (map fst (ts_store s)) \<Longrightarrow> ttl_ok (ttl_cleanup now s)"
  by (simp add: ttl_cleanup_def ttl_ok_def Let_def distinct_map_take distinct_map_sort_desc
      distinct_map_filter)

lemma ttl_put_ok: "ttl_ok s \<Longrightarrow> ttl_ok (ttl_put now k s)"
  by (auto simp: ttl_put_def Let_def ttl_cleanup_ok distinct_update ttl_ok_def [of s])
    (simp add: ttl_ok_def distinct_update)

lemma ttl_exists_ok: "ttl_ok s \<Longrightarrow> ttl_ok (snd (ttl_exists now k s))"
proof -
  assume ok: "ttl_ok s"
  have "length (AList.delete k (ts_store s)) \<le> length (ts_store s)"
    by (rule length_delete_le)
  then show ?thesis
    using ok by (auto simp: ttl_exists_def ttl_ok_def distinct_delete split: option.split)
qed

text \<open>The key with the largest expiry survives a cleanup.\<close>

lemma latest_kept:
  fixes xs :: "('a \<times> int) list"
  assumes "(k, e) \<in> set xs" and "\<And>k' e'. (k', e') \<in> set xs \<Longrightarrow> (k', e') \<noteq> (k, e) \<Longrightarrow> e' < e" and "0 < n"
  shows "(k, e) \<in> set (take n (sort_desc snd xs))"
proof -
  let ?ys = "sort_desc snd xs"
  obtain y ys where ys: "?ys = y # ys"
    using assms(1) by (metis empty_iff list.set_cases set_sort_desc)
  have "y = (k, e)"
  proof (rule ccontr)
    assume "y \<noteq> (k, e)"
    moreover have "y \<in> set xs" using ys by (metis list.set_intros(1) set_sort_desc)
    ultimately have "snd y < e" using assms(2) [of "fst y" "snd y"] by simp
    moreover have "e \<le> snd y"
    proof -
      have "(k, e) \<in> set ys" using assms(1) ys \<open>y \<noteq> (k, e)\<close> by (metis set_ConsD set_sort_desc)
      moreover have "sorted_wrt (\<ge>) (map snd (y # ys))" using sorted_sort_desc [of snd xs] ys by simp
      ultimately show ?thesis by force
    qed
    ultimately show False by simp
  qed
  then show ?thesis using ys assms(3) by (cases n) auto
qed

lemma ttl_put_alive:
  assumes "ttl_ok s" and "0 < ts_max_items s" and "now \<le> t" and "t < now + ttl_ms s"
    and "\<And>k' e. (k', e) \<in> set (ts_store s) \<Longrightarrow> e < now + ttl_ms s"
  shows "ttl_alive t k (ttl_put now k s)"
proof -
  define e where "e = now + ttl_ms s"
  define xs where "xs = AList.update k e (ts_store s)"
  have d: "distinct (map fst xs)" using assms(1) by (simp add: xs_def ttl_ok_def distinct_update)
  have le: "now < e" "t < e" using assms(3,4) by (simp_all add: e_def)
  have m: "map_of xs k = Some e" by (simp add: xs_def update_conv')
  have others: "e' < e" if "(k', e') \<in> set xs" "(k', e') \<noteq> (k, e)" for k' e'
  proof -
    have "map_of xs k' = Some e'" using d that(1) by simp
    then have "k' \<noteq> k \<and> map_of (ts_store s) k' = Some e'"
      using that(2) m by (auto simp: xs_def update_conv' split: if_splits)
    then show ?thesis using assms(5) map_of_SomeD unfolding e_def by fastforce
  qed
  let ?alive = "filter (\<lambda>(k, exp). \<not> exp \<le> now) xs"
  have in_alive: "(k, e) \<in> set ?alive" using map_of_SomeD [OF m] le by auto
  have kept: "(k, e) \<in> set (take (ts_max_items s) (sort_desc snd ?alive))"
    by (rule latest_kept [OF in_alive _ assms(2)]) (auto intro: others)
  have "map_of (ts_store (ttl_put now k s)) k = Some e"
    using m in_alive kept d distinct_map_filter [OF d]
    by (auto simp: ttl_put_def ttl_cleanup_def Let_def e_def [symmetric] xs_def [symmetric]
        map_of_eq_Some_iff distinct_map_take distinct_map_sort_desc)
  then show ?thesis using le by (auto simp: ttl_alive_def)
qed

lemma ttl_put_room:
  assumes "length (ts_store s) < ts_max_items s"
  shows "ttl_alive t j (ttl_put now k s) \<longleftrightarrow> (if j = k then t < now + ttl_ms s else ttl_alive t j s)"
    and "length (ts_store (ttl_put now k s)) \<le> Suc (length (ts_store s))"
proof -
  have l: "length (AList.update k v (ts_store s)) \<le> Suc (length (ts_store s))" for v
    using arg_cong [OF update_keys [of k v "ts_store s"], of length] by simp
  have "\<not> ts_max_items s < length (AList.update k (now + ttl_ms s) (ts_store s))"
    using assms l [of "now + ttl_ms s"] by linarith
  then have eq: "ttl_put now k s = s\<lparr> ts_store := AList.update k (now + ttl_ms s) (ts_store s) \<rparr>"
    by (simp add: ttl_put_def Let_def)
  show "ttl_alive t j (ttl_put now k s) \<longleftrightarrow> (if j = k then t < now + ttl_ms s else ttl_alive t j s)"
    by (simp add: eq ttl_alive_def update_conv')
  show "length (ts_store (ttl_put now k s)) \<le> Suc (length (ts_store s))" by (simp add: eq l)
qed

lemma ttl_put_expiry: "ttl_ok s \<Longrightarrow> ttl_alive t k (ttl_put now k s) \<Longrightarrow> t < now + ttl_ms s"
proof -
  assume ok: "ttl_ok s" and alive: "ttl_alive t k (ttl_put now k s)"
  let ?xs = "AList.update k (now + ttl_ms s) (ts_store s)"
  have "distinct (map fst ?xs)" using ok by (simp add: ttl_ok_def distinct_update)
  then have val: "e = now + ttl_ms s" if "(k, e) \<in> set ?xs" for e
    using that map_of_is_SomeI [of ?xs k e] by (simp add: update_conv')
  obtain e where e: "map_of (ts_store (ttl_put now k s)) k = Some e" "t < e"
    using alive by (auto simp: ttl_alive_def)
  have "(k, e) \<in> set ?xs"
    using map_of_SomeD [OF e(1)]
    by (auto simp: ttl_put_def ttl_cleanup_def Let_def split: if_splits dest: in_set_takeD)
  then have "e = now + ttl_ms s" by (rule val)
  with e(2) show ?thesis by simp
qed

section \<open>Fingerprints\<close>

definition normalize_number :: "string option \<Rightarrow> string" where
  "normalize_number number = (case number of None \<Rightarrow> [] | Some s \<Rightarrow> filter is_digit s)"

definition or_text :: "string option \<Rightarrow> string \<Rightarrow> string" where
  "or_text s d = (case s of None \<Rightarrow> d | Some t \<Rightarrow> if t = [] then d else t)"

definition conversation_id :: "string option \<Rightarrow> string option \<Rightarrow> string" where
  "conversation_id inst jid = or_text inst ''unknown'' @ ''::'' @ str_lower (or_text jid ''unknown'')"

definition message_fingerprint ::
    "(string \<Rightarrow> string) \<Rightarrow> string option \<Rightarrow> string option \<Rightarrow> string option \<Rightarrow> string option \<Rightarrow> string option \<Rightarrow> string" where
  "message_fingerprint sha inst jid kind text media_id =
     sha (join_str ''|'' [or_text inst [], str_lower (or_text jid []), or_text kind [],
       take 120 (str_lower (strip (or_text text []))), or_text media_id []])"

definition outbound_fingerprint :: "(string \<Rightarrow> string) \<Rightarrow> string \<Rightarrow> string option \<Rightarrow> string \<Rightarrow> string \<Rightarrow> string" where
  "outbound_fingerprint sha inst number kind payload =
     sha (join_str ''|'' [inst, normalize_number number, kind, take 120 (str_lower (strip payload))])"

definition mark_outbound ::
    "(string \<Rightarrow> string) \<Rightarrow> int \<Rightarrow> string \<Rightarrow> string option \<Rightarrow> string \<Rightarrow> string \<Rightarrow> ttl_store \<Rightarrow> string \<times> ttl_store" where
  "mark_outbound sha now inst number kind payload echo =
     (let fp = outbound_fingerprint sha inst number kind payload in (fp, ttl_put now fp echo))"

definition looks_like_outbound_echo ::
    "(string \<Rightarrow> string) \<Rightarrow> int \<Rightarrow> string option \<Rightarrow> string option \<Rightarrow> string \<Rightarrow> string \<Rightarrow> ttl_store \<Rightarrow> bool \<times> ttl_store" where
  "looks_like_outbound_echo sha now inst jid kind payload echo =
     ttl_exists now (outbound_fingerprint sha (or_text inst ''unknown'')
       (Some (normalize_number (Some (hd (split_chr (CHR ''@'') (or_text jid [])))))) kind payload) echo"

section \<open>The flood guard\<close>

record flood_state =
  fs_tracker :: "(string \<times> int list) list"
  fs_last_cleanup :: int

definition flood_queue :: "flood_state \<Rightarrow> string \<Rightarrow> int list" where
  "flood_queue fs c = (case map_of (fs_tracker fs) c of None \<Rightarrow> [] | Some q \<Rightarrow> q)"

definition flood_stale :: "int \<Rightarrow> int \<Rightarrow> int list \<Rightarrow> bool" where
  "flood_stale now window q \<longleftrightarrow> q = [] \<or> now - last q > window"

definition is_flood :: "int \<Rightarrow> nat \<Rightarrow> int \<Rightarrow> string \<Rightarrow> flood_state \<Rightarrow> (bool \<times> nat) \<times> flood_state" where
  "is_flood window_seconds max_messages now conversation fs =
     (let window = 1000 * window_seconds;
          q = dropWhile (\<lambda>t. now - t > window) (flood_queue fs conversation @ [now]);
          tracker = (if q = [] then AList.delete conversation (fs_tracker fs)
                     else AList.update conversation q (fs_tracker fs));
          fs' = (if now - fs_last_cleanup fs > 30000
                 then \<lparr> fs_tracker = filter (\<lambda>(_, item). \<not> flood_stale now window item) tracker, fs_last_cleanup = now \<rparr>
                 else fs\<lparr> fs_tracker := tracker \<rparr>)
      in ((length q > max_messages, length q), fs'))"

end
