(* ===== verification/Reliability_Spec.thy ===== *)
theory Reliability_Spec
  imports Reliability
begin

text \<open>
  The contract of the expiring set the pipeline relies on, as a locale interpreted on
  \<open>TTLStore\<close>, the bound on its size, and the flood guard against its reference: the number of
  messages of the conversation in the window.
\<close>

section \<open>The interface of an expiring set\<close>

locale expiring_set =
  fixes seen :: "int \<Rightarrow> string \<Rightarrow> 's \<Rightarrow> bool \<times> 's" and mark :: "int \<Rightarrow> string \<Rightarrow> 's \<Rightarrow> 's"
    and alive :: "int \<Rightarrow> string \<Rightarrow> 's \<Rightarrow> bool" and roomy :: "nat \<Rightarrow> 's \<Rightarrow> bool" and life :: "'s \<Rightarrow> int"
  assumes seen_alive: "fst (seen now k s) \<longleftrightarrow> alive now k s"
    and seen_keeps: "now \<le> t \<Longrightarrow> alive t j (snd (seen now k s)) \<longleftrightarrow> alive t j s"
    and seen_room: "roomy n s \<Longrightarrow> roomy n (snd (seen now k s))"
    and seen_life: "life (snd (seen now k s)) = life s"
    and mark_alive: "roomy (Suc n) s \<Longrightarrow>
      alive t j (mark now k s) \<longleftrightarrow> (if j = k then t < now + life s else alive t j s)"
    and mark_room: "roomy (Suc n) s \<Longrightarrow> roomy n (mark now k s)"
    and mark_life: "life (mark now k s) = life s"
begin

lemma marked_is_seen: "roomy (Suc n) s \<Longrightarrow> fst (seen t k (mark now k s)) \<longleftrightarrow> t < now + life s"
  by (simp add: seen_alive mark_alive)

text \<open>A key stays while another one is looked up and marked.\<close>

lemma mark_survives:
  assumes "roomy (Suc (Suc n)) s" and "now \<le> t" and "t < now + life s"
  shows "fst (seen t k (mark now j (snd (seen now i (mark now k s)))))"
proof -
  let ?s = "snd (seen now i (mark now k s))"
  have room: "roomy (Suc n) ?s" by (rule seen_room [OF mark_room [OF assms(1)]])
  have "alive t k ?s" using assms by (simp add: seen_keeps mark_alive [OF assms(1)])
  then show ?thesis
    using assms(3) by (simp add: seen_alive mark_alive [OF room] seen_life mark_life)
qed

lemma mark_other: "roomy (Suc n) s \<Longrightarrow> j \<noteq> k \<Longrightarrow> alive t j (mark now k s) \<longleftrightarrow> alive t j s"
  by (simp add: mark_alive)

end

definition ttl_roomy :: "nat \<Rightarrow> ttl_store \<Rightarrow> bool" where
  "ttl_roomy n s \<longleftrightarrow> length (ts_store s) + n \<le> ts_max_items s"

interpretation ttl: expiring_set ttl_exists ttl_put ttl_alive ttl_roomy ttl_ms
proof unfold_locales
  fix n s now k
  show "ttl_roomy n s \<Longrightarrow> ttl_roomy n (snd (ttl_exists now k s))"
    using length_delete_le [of k "ts_store s"]
    by (auto simp: ttl_roomy_def ttl_exists_def split: option.split)
  show "ttl_roomy (Suc n) s \<Longrightarrow> ttl_roomy n (ttl_put now k s)"
    using ttl_put_room(2) [of s now k] by (simp add: ttl_roomy_def)
qed (simp_all add: ttl_ms_def ttl_put_room(1) ttl_roomy_def)

lemma ttl_store_bounded_facts:
  assumes "ttl_ok s"
  shows "ttl_ok (ttl_put now k s)" and "ttl_ok (snd (ttl_exists now k s))"
    and "\<lbrakk>0 < ts_max_items s; now \<le> t; list_all (\<lambda>(_, e). e < now + ttl_ms s) (ts_store s)\<rbrakk> \<Longrightarrow>
      fst (ttl_exists t k (ttl_put now k s)) \<longleftrightarrow> t < now + ttl_ms s"
proof -
  show "ttl_ok (ttl_put now k s)" by (rule ttl_put_ok [OF assms])
  show "ttl_ok (snd (ttl_exists now k s))" by (rule ttl_exists_ok [OF assms])
  assume room: "0 < ts_max_items s" and t: "now \<le> t" and older: "list_all (\<lambda>(_, e). e < now + ttl_ms s) (ts_store s)"
  show "fst (ttl_exists t k (ttl_put now k s)) \<longleftrightarrow> t < now + ttl_ms s"
  proof
    assume "t < now + ttl_ms s"
    then show "fst (ttl_exists t k (ttl_put now k s))"
      unfolding ttl_exists_alive
      by (rule ttl_put_alive [OF assms room t]) (use older in \<open>auto simp: list_all_iff\<close>)
  next
    assume "fst (ttl_exists t k (ttl_put now k s))"
    then show "t < now + ttl_ms s" by (simp add: ttl_put_expiry [OF assms])
  qed
qed

text \<open>
  C36: The expiring set stays within its configured size and keeps one entry for each key, through
  every put and every lookup. If the size is positive and everything the set holds expires earlier than a
  key put into it now, then that key is found until its time to live is over, and not from then on.
\<close>

theorem ttl_store_bounded:
  assumes "ttl_ok s"
  shows "ttl_ok (ttl_put now k s) \<and> ttl_ok (snd (ttl_exists now k s)) \<and>
    (0 < ts_max_items s \<longrightarrow> now \<le> t \<longrightarrow> list_all (\<lambda>(_, e). e < now + ttl_ms s) (ts_store s) \<longrightarrow>
      fst (ttl_exists t k (ttl_put now k s)) = (t < now + ttl_ms s))"
  using ttl_store_bounded_facts [OF assms] by simp

lemma ttl_store_bounded_witness:
  "let s = \<lparr> ts_ttl_seconds = 1, ts_max_items = 2, ts_store = [(''a'', 850), (''b'', 900)] \<rparr>; s' = ttl_put 7 ''c'' s in
   ttl_ok s' \<and> length (ts_store s') = 2 \<and> fst (ttl_exists 1006 ''c'' s') \<and> \<not> fst (ttl_exists 1007 ''c'' s')"
proof -
  let ?s = "\<lparr> ts_ttl_seconds = 1, ts_max_items = 2, ts_store = [(''a'', 850), (''b'', 900)] \<rparr>"
  have ok: "ttl_ok ?s" by (simp add: ttl_ok_def)
  have life: "7 + ttl_ms ?s = 1007" by (simp add: ttl_ms_def)
  have older: "list_all (\<lambda>(_, e). e < 7 + ttl_ms ?s) (ts_store ?s)" by (simp add: life)
  have len: "length (ts_store (ttl_put 7 ''c'' ?s)) = 2" by code_simp
  have found: "fst (ttl_exists t ''c'' (ttl_put 7 ''c'' ?s)) = (t < 7 + ttl_ms ?s)" if "7 \<le> t" for t
    using ttl_store_bounded [OF ok, where now = 7 and k = "''c''" and t = t] older that by simp
  have "ttl_ok (ttl_put 7 ''c'' ?s)" using ttl_store_bounded [OF ok] by blast
  moreover have "fst (ttl_exists 1006 ''c'' (ttl_put 7 ''c'' ?s))" using found [of 1006] life by simp
  moreover have "\<not> fst (ttl_exists 1007 ''c'' (ttl_put 7 ''c'' ?s))" using found [of 1007] life by simp
  ultimately show ?thesis using len by (simp only: Let_def) blast
qed

section \<open>The flood guard\<close>

definition run_flood :: "int \<Rightarrow> nat \<Rightarrow> (string \<times> int) list \<Rightarrow> flood_state \<Rightarrow> flood_state" where
  "run_flood w m calls fs = fold (\<lambda>(c, t) fs. snd (is_flood w m t c fs)) calls fs"

definition times_of :: "string \<Rightarrow> (string \<times> int) list \<Rightarrow> int list" where
  "times_of c calls = map snd (filter (\<lambda>(c', _). c' = c) calls)"

lemma times_of_snoc: "times_of c (calls @ [(c', t)]) = times_of c calls @ (if c' = c then [t] else [])"
  by (simp add: times_of_def)

lemma dropWhile_sorted:
  "sorted xs \<Longrightarrow> dropWhile (\<lambda>t. now - t > w) xs = filter (\<lambda>t. now - t \<le> w) (xs :: int list)"
  by (induction xs) (force intro!: filter_True [symmetric])+

lemma map_of_filter_value:
  "distinct (map fst xs) \<Longrightarrow> map_of (filter (\<lambda>(_, v). p v) xs) k =
     (case map_of xs k of None \<Rightarrow> None | Some v \<Rightarrow> if p v then Some v else None)"
proof (induction xs)
  case Nil
  then show ?case by simp
next
  case (Cons kv xs)
  obtain k' v where kv: "kv = (k', v)" by (cases kv)
  have "map_of xs k' = None" using Cons.prems by (simp add: kv map_of_eq_None_iff)
  then have "map_of (filter (\<lambda>(_, v). p v) xs) k' = None"
    using Cons.prems by (auto simp: kv map_of_eq_None_iff)
  then show ?case using Cons \<open>map_of xs k' = None\<close> by (auto simp: kv)
qed

text \<open>The queue of a conversation is what is left of its times: those before it are stale.\<close>

definition tracks :: "int \<Rightarrow> (string \<times> int) list \<Rightarrow> int \<Rightarrow> flood_state \<Rightarrow> bool" where
  "tracks w calls now fs \<longleftrightarrow> distinct (map fst (fs_tracker fs)) \<and>
     (\<forall>c. \<exists>old. times_of c calls = old @ flood_queue fs c \<and> (\<forall>t\<in>set old. now - t > 1000 * w))"

lemma flood_queue_step:
  fixes c :: string and now w :: int and fs :: flood_state
  assumes "distinct (map fst (fs_tracker fs))" and "0 \<le> w"
  defines "q \<equiv> dropWhile (\<lambda>t. now - t > 1000 * w) (flood_queue fs c @ [now])"
  shows "distinct (map fst (fs_tracker (snd (is_flood w m now c fs))))"
    and "flood_queue (snd (is_flood w m now c fs)) c = q"
    and "flood_queue (snd (is_flood w m now c fs)) j = (if j = c then q else flood_queue fs j) \<or>
      j \<noteq> c \<and> flood_queue (snd (is_flood w m now c fs)) j = [] \<and> flood_stale now (1000 * w) (flood_queue fs j)"
proof -
  have fresh: "\<not> now - now > 1000 * w" using assms(2) by simp
  have q: "q \<noteq> []" "last q = now"
    using fresh unfolding q_def by (auto simp: dropWhile_append dropWhile_eq_Nil_conv split: if_splits)
  then have alive: "\<not> flood_stale now (1000 * w) q" using fresh by (simp add: flood_stale_def)
  let ?tr = "AList.update c q (fs_tracker fs)"
  have d: "distinct (map fst ?tr)" using assms(1) by (simp add: distinct_update)
  have fs': "snd (is_flood w m now c fs) =
      (if now - fs_last_cleanup fs > 30000
       then \<lparr> fs_tracker = filter (\<lambda>(_, item). \<not> flood_stale now (1000 * w) item) ?tr, fs_last_cleanup = now \<rparr>
       else fs\<lparr> fs_tracker := ?tr \<rparr>)"
    using q(1) assms(2) by (simp add: is_flood_def Let_def q_def)
  show "distinct (map fst (fs_tracker (snd (is_flood w m now c fs))))"
    using d by (simp add: fs' distinct_map_filter)
  show "flood_queue (snd (is_flood w m now c fs)) c = q"
    using alive by (simp add: fs' flood_queue_def map_of_filter_value [OF d] update_conv')
  show "flood_queue (snd (is_flood w m now c fs)) j = (if j = c then q else flood_queue fs j) \<or>
      j \<noteq> c \<and> flood_queue (snd (is_flood w m now c fs)) j = [] \<and> flood_stale now (1000 * w) (flood_queue fs j)"
    using alive by (auto simp: fs' flood_queue_def map_of_filter_value [OF d] update_conv' split: option.split)
qed

lemma tracks_step:
  assumes t: "tracks w calls prev fs" and w: "0 \<le> w" and now: "prev \<le> now"
    and srt: "sorted (map snd calls)" and before: "\<forall>(c, t)\<in>set calls. t \<le> prev"
  shows "tracks w (calls @ [(c, now)]) now (snd (is_flood w m now c fs))"
    and "flood_queue (snd (is_flood w m now c fs)) c =
      filter (\<lambda>t. now - t \<le> 1000 * w) (times_of c (calls @ [(c, now)]))"
proof -
  have d: "distinct (map fst (fs_tracker fs))" using t by (simp add: tracks_def)
  have sorted_times: "sorted (times_of j calls)" for j
    unfolding times_of_def using srt by (induction calls) auto
  have le: "t \<le> prev" if "t \<in> set (times_of j calls)" for j t
    using that before by (auto simp: times_of_def)
  have split: "\<exists>old. times_of j calls = old @ flood_queue fs j \<and> (\<forall>t\<in>set old. prev - t > 1000 * w)" for j
    using t by (simp add: tracks_def)
  have sq: "sorted (flood_queue fs j @ [now])" for j
    using split [of j] sorted_times [of j] le [of _ j] now by (fastforce simp: sorted_append)
  show q: "flood_queue (snd (is_flood w m now c fs)) c =
      filter (\<lambda>t. now - t \<le> 1000 * w) (times_of c (calls @ [(c, now)]))"
  proof -
    obtain old where old: "times_of c calls = old @ flood_queue fs c" "\<forall>t\<in>set old. prev - t > 1000 * w"
      using split by blast
    have "filter (\<lambda>t. now - t \<le> 1000 * w) old = []"
      using old(2) now by (force simp: filter_empty_conv)
    then show ?thesis
      using flood_queue_step(2) [OF d w, of m now c] by (simp add: dropWhile_sorted [OF sq] times_of_snoc old(1))
  qed
  have "\<exists>old. times_of j (calls @ [(c, now)]) = old @ flood_queue (snd (is_flood w m now c fs)) j \<and>
      (\<forall>t\<in>set old. now - t > 1000 * w)" for j
  proof (cases "j = c")
    case True
    have s: "sorted (times_of c (calls @ [(c, now)]))"
      using sorted_times [of c] le [of _ c] now by (fastforce simp: times_of_snoc sorted_append)
    show ?thesis
      unfolding True q dropWhile_sorted [OF s, symmetric]
      by (intro exI [of _ "takeWhile (\<lambda>t. now - t > 1000 * w) (times_of c (calls @ [(c, now)]))"])
        (auto dest: set_takeWhileD)
  next
    case False
    obtain old where old: "times_of j calls = old @ flood_queue fs j" "\<forall>t\<in>set old. prev - t > 1000 * w"
      using split by blast
    have times: "times_of j (calls @ [(c, now)]) = old @ flood_queue fs j"
      using False by (simp add: times_of_snoc old(1))
    from flood_queue_step(3) [OF d w, of m now c j] False
    consider "flood_queue (snd (is_flood w m now c fs)) j = flood_queue fs j"
      | "flood_queue (snd (is_flood w m now c fs)) j = []" "flood_stale now (1000 * w) (flood_queue fs j)" by auto
    then show ?thesis
    proof cases
      case 1
      then show ?thesis using old(2) now by (intro exI [of _ old]) (auto simp: times)
    next
      case 2
      have "now - t > 1000 * w" if "t \<in> set (flood_queue fs j)" for t
        using 2(2) that sq [of j] by (cases "flood_queue fs j" rule: rev_cases) (force simp: flood_stale_def sorted_append)+
      then show ?thesis using 2(1) old(2) now by (intro exI [of _ "old @ flood_queue fs j"]) (force simp: times)
    qed
  qed
  then show "tracks w (calls @ [(c, now)]) now (snd (is_flood w m now c fs))"
    using flood_queue_step(1) [OF d w] by (simp add: tracks_def)
qed

text \<open>The time of the last message, or any time when there is none.\<close>

definition last_time :: "int \<Rightarrow> (string \<times> int) list \<Rightarrow> int" where
  "last_time now calls = (if calls = [] then now else snd (last calls))"

lemma last_time_bounds:
  assumes "sorted (map snd (calls @ [(c, now)]))"
  shows "last_time now calls \<le> now" and "\<forall>(c, t)\<in>set calls. t \<le> last_time now calls"
  using assms by (cases calls rule: rev_cases; force simp: last_time_def sorted_append)+

abbreviation no_flood :: flood_state where
  "no_flood \<equiv> \<lparr> fs_tracker = [], fs_last_cleanup = 0 \<rparr>"

lemma run_flood_snoc: "run_flood w m (calls @ [(c, t)]) fs = snd (is_flood w m t c (run_flood w m calls fs))"
  by (simp add: run_flood_def)

lemma tracks_run:
  "0 \<le> w \<Longrightarrow> sorted (map snd calls) \<Longrightarrow> tracks w calls (last_time now calls) (run_flood w m calls no_flood)"
proof (induction calls arbitrary: now rule: rev_induct)
  case Nil
  then show ?case by (simp add: run_flood_def tracks_def times_of_def flood_queue_def)
next
  case (snoc call calls)
  obtain c t where call: "call = (c, t)" by (cases call)
  have srt: "sorted (map snd calls)" using snoc.prems(2) by (simp add: sorted_append)
  have "tracks w (calls @ [(c, t)]) t (snd (is_flood w m t c (run_flood w m calls no_flood)))"
    using snoc.prems(2) unfolding call
    by (intro tracks_step(1) [OF snoc.IH [OF snoc.prems(1) srt, of t] snoc.prems(1) _ srt] last_time_bounds)
  then show ?case by (simp add: call run_flood_snoc last_time_def)
qed

text \<open>
  C37: The flood guard counts what it means to count: after any sequence of messages of any
  conversations, with the clock going forward, it reports for a new message the number of
  messages of its conversation that lie within the window, this one included, and throttles
  exactly when that number is above the limit. Its periodic removal of idle conversations
  never changes an answer.
\<close>

theorem flood_guard_counts_window:
  assumes "0 \<le> w" and "sorted (map snd (calls @ [(c, now)]))"
  defines "n \<equiv> length (filter (\<lambda>(c', t). c' = c \<and> now - t \<le> 1000 * w) (calls @ [(c, now)]))"
  shows "fst (is_flood w m now c (run_flood w m calls no_flood)) = (n > m, n)"
proof -
  let ?fs = "run_flood w m calls no_flood"
  have srt: "sorted (map snd calls)" using assms(2) by (simp add: sorted_append)
  have t: "tracks w calls (last_time now calls) ?fs" by (rule tracks_run [OF assms(1) srt])
  have "flood_queue (snd (is_flood w m now c ?fs)) c =
      filter (\<lambda>t. now - t \<le> 1000 * w) (times_of c (calls @ [(c, now)]))"
    by (rule tracks_step(2) [OF t assms(1) _ srt]) (rule last_time_bounds [OF assms(2)])+
  moreover have "length (filter (\<lambda>t. now - t \<le> 1000 * w) (times_of c xs)) =
      length (filter (\<lambda>(c', t). c' = c \<and> now - t \<le> 1000 * w) xs)" for xs
    unfolding times_of_def by (induction xs) auto
  moreover have "length (flood_queue (snd (is_flood w m now c ?fs)) c) = snd (fst (is_flood w m now c ?fs))"
    using flood_queue_step(2) [of ?fs w m now c] t assms(1) by (simp add: tracks_def is_flood_def Let_def)
  ultimately have "snd (fst (is_flood w m now c ?fs)) = n" unfolding n_def by presburger
  then show ?thesis by (simp add: is_flood_def Let_def)
qed

lemma flood_guard_counts_window_witness:
  "fst (is_flood 3 2 9000 ''c'' (run_flood 3 2 [(''c'', 1000), (''c'', 7000), (''d'', 8000), (''c'', 8500)] no_flood))
     = (True, 3)"
  using flood_guard_counts_window [of 3 "[(''c'', 1000), (''c'', 7000), (''d'', 8000), (''c'', 8500)]" "''c''" 9000 2]
  by simp

end
