(* ===== verification/Group_Ingest.thy ===== *)
theory Group_Ingest
  imports Core_Dispatch Timeline
begin

text \<open>
  From a group message of the provider to a delivery in the Core outbox: the evidence for the
  author's phone number (\<open>gateway/app/services/group_participants.py\<close>), the projection to the
  canonical-v2 contract with the checks of its data model
  (\<open>gateway/app/models/canonical_v2.py\<close>), and \<open>ingest_group\<close> of
  \<open>gateway/app/services/group_transport.py\<close>. The registry and the policy settings are those
  of the dispatcher's environment; SHA-256 and the public base URL are arguments.
\<close>

section \<open>Phone numbers of participants\<close>

text \<open>\<open>[1-9][0-9]{6,14}\<close>.\<close>

definition is_phone :: "string \<Rightarrow> bool" where
  "is_phone s \<longleftrightarrow> isdigit s \<and> hd s \<noteq> CHR ''0'' \<and> 7 \<le> length s \<and> length s \<le> 15"

definition phone_domain :: string where
  "phone_domain = ''@s.whatsapp.net''"

definition participant_phone_from_jid :: "pval \<Rightarrow> string option" where
  "participant_phone_from_jid value =
     (case value of
        PStr s \<Rightarrow>
          if ends_with s phone_domain
          then (case split_chr (CHR '':'') (take (length s - length phone_domain) s) of
                  [p] \<Rightarrow> if is_phone p then Some p else None
                | [p, device] \<Rightarrow> if is_phone p \<and> isdigit device then Some p else None
                | _ \<Rightarrow> None)
          else None
      | _ \<Rightarrow> None)"

definition is_participant :: "pval \<Rightarrow> bool" where
  "is_participant v = (case v of PStr s \<Rightarrow> ends_with s ''@lid'' \<or> ends_with s phone_domain | _ \<Rightarrow> False)"

text \<open>The phones of one group, the identities with two phones, and the count over all groups.\<close>

record directory_state =
  ds_phones :: "(string \<times> string) list"
  ds_ambiguous :: "string list"
  ds_count :: nat

fun directory_members :: "pval list \<Rightarrow> directory_state \<Rightarrow> directory_state res" where
  "directory_members [] st = Inr st"
| "directory_members (m # ms) st =
     (case m of
        PDict member \<Rightarrow>
          (let phone = (case participant_phone_from_jid (dget member ''phoneNumber'') of
                          Some p \<Rightarrow> Some p | None \<Rightarrow> participant_phone_from_jid (dget member ''id''));
               jid = dget member ''id''
           in case phone of
                None \<Rightarrow> directory_members ms st
              | Some p \<Rightarrow>
                  if \<not> is_participant jid then directory_members ms st
                  else
                    (let i = py_str jid;
                         clash = (case map_of (ds_phones st) i of None \<Rightarrow> False | Some q \<Rightarrow> q \<noteq> p);
                         st' = \<lparr> ds_phones = AList.update i p (ds_phones st),
                                 ds_ambiguous = (if clash then i # ds_ambiguous st else ds_ambiguous st),
                                 ds_count = Suc (ds_count st) \<rparr>
                     in if 10000 < ds_count st' then Inl (ValueError ''participant_directory_capacity'')
                        else directory_members ms st'))
      | _ \<Rightarrow> directory_members ms st)"

fun directory_groups ::
    "pdict list \<Rightarrow> nat \<Rightarrow> (pval \<times> (string \<times> string) list) list \<Rightarrow> (pval \<times> (string \<times> string) list) list res" where
  "directory_groups [] n result = Inr result"
| "directory_groups (g # gs) n result =
     (case py_or (dget g ''participants'') (PList []) of
        PList members \<Rightarrow>
          rbind (directory_members members \<lparr> ds_phones = [], ds_ambiguous = [], ds_count = n \<rparr>) (\<lambda>st.
          rbind (vindex (PDict g) ''id'') (\<lambda>i.
            directory_groups gs (ds_count st)
              (AList.update i (filter (\<lambda>(k, _). k \<notin> set (ds_ambiguous st)) (ds_phones st)) result)))
      | _ \<Rightarrow> Inl (ValueError ''invalid_participant_directory''))"

definition participant_directory :: "pdict list \<Rightarrow> (pval \<times> (string \<times> string) list) list res" where
  "participant_directory groups = directory_groups groups 0 []"

definition cached_phone :: "pdict \<Rightarrow> pval \<Rightarrow> string \<Rightarrow> pval res" where
  "cached_phone record group_id jid =
     rbind (vget (py_or (dget record ''core_channel'') (PDict [])) ''participantPhones'') (\<lambda>phones.
       case py_or phones (PDict []) of
         PDict d \<Rightarrow> vget (case group_id of PStr g \<Rightarrow> with_default d g (PDict []) | _ \<Rightarrow> PDict []) jid
       | _ \<Rightarrow> Inl AttributeError)"

definition opt_list :: "'a option \<Rightarrow> 'a list" where
  "opt_list o' = (case o' of None \<Rightarrow> [] | Some x \<Rightarrow> [x])"

definition phone_evidence :: "string option \<Rightarrow> string option \<Rightarrow> pval \<Rightarrow> string list" where
  "phone_evidence direct alternate cached =
     remdups (filter is_phone
       (opt_list direct @ opt_list alternate @ (case cached of PStr p \<Rightarrow> [p] | _ \<Rightarrow> [])))"

text \<open>\<open>next(iter(evidence)) if len(evidence) == 1 else None\<close>.\<close>

fun single_of :: "'a list \<Rightarrow> 'a option" where
  "single_of [x] = Some x"
| "single_of _ = None"

definition author_phone :: "pdict \<Rightarrow> pdict \<Rightarrow> pval \<Rightarrow> string option res" where
  "author_phone key record group_id =
     (let jid = dget key ''participant'' in
      if \<not> is_participant jid then Inr None
      else rbind (cached_phone record group_id (py_str jid)) (\<lambda>cached.
             Inr (single_of (phone_evidence (participant_phone_from_jid jid)
                    (participant_phone_from_jid (dget key ''participantAlt'')) cached))))"

section \<open>The canonical-v2 contract\<close>

definition str_within :: "nat \<Rightarrow> nat \<Rightarrow> pval \<Rightarrow> bool" where
  "str_within lo hi v = (case v of PStr s \<Rightarrow> lo \<le> length s \<and> length s \<le> hi | _ \<Rightarrow> False)"

definition or_null :: "(pval \<Rightarrow> bool) \<Rightarrow> pval \<Rightarrow> bool" where
  "or_null p v \<longleftrightarrow> v = PNone \<or> p v"

definition strict_int :: "pval \<Rightarrow> bool" where
  "strict_int v = (case v of PInt _ \<Rightarrow> True | _ \<Rightarrow> False)"

definition strict_bool :: "pval \<Rightarrow> bool" where
  "strict_bool v = (case v of PBool _ \<Rightarrow> True | _ \<Rightarrow> False)"

definition valid_transport :: "pdict \<Rightarrow> bool" where
  "valid_transport t \<longleftrightarrow>
     dget t ''provider'' = PStr ''evolution'' \<and> dget t ''channelType'' = PStr ''whatsapp'' \<and>
     list_all (\<lambda>k. is_str (dget t k)) [''providerAccountRef'', ''connectionRef'', ''coreChannelId'', ''bindingId'']"

definition valid_chat :: "pdict \<Rightarrow> bool" where
  "valid_chat c \<longleftrightarrow>
     dget c ''type'' \<in> {PStr ''direct'', PStr ''group''} \<and> str_within 1 255 (dget c ''externalId'') \<and>
     or_null (str_within 0 160) (dget c ''displayName'')"

definition valid_quote :: "pval \<Rightarrow> bool" where
  "valid_quote q =
     (case q of
        PDict d \<Rightarrow> or_null is_str (dget d ''providerMessageId'') \<and> is_identity (dget d ''author'') \<and>
          or_null is_str (dget d ''chatExternalId'')
      | _ \<Rightarrow> False)"

definition valid_attachment :: "pval \<Rightarrow> bool" where
  "valid_attachment a =
     (case a of
        PDict d \<Rightarrow> is_str (dget d ''kind'') \<and> str_within 1 2048 (dget d ''url'') \<and>
          or_null is_str (dget d ''mimeType'') \<and> or_null (str_within 0 255) (dget d ''fileName'') \<and>
          or_null strict_int (dget d ''size'')
      | _ \<Rightarrow> False)"

definition list_of :: "(pval \<Rightarrow> bool) \<Rightarrow> pval \<Rightarrow> bool" where
  "list_of p v = (case v of PList xs \<Rightarrow> list_all p xs | _ \<Rightarrow> False)"

definition valid_inbound_message :: "pdict \<Rightarrow> bool" where
  "valid_inbound_message m \<longleftrightarrow>
     (case dget m ''providerMessageId'' of PStr s \<Rightarrow> s \<noteq> [] | _ \<Rightarrow> False) \<and> is_str (dget m ''kind'') \<and>
     or_null is_str (dget m ''text'') \<and> or_null strict_bool (dget m ''fromMe'') \<and>
     or_null (list_of is_identity) (dget m ''mentions'') \<and> or_null valid_quote (dget m ''quoted'') \<and>
     or_null (\<lambda>v. list_of valid_attachment v \<and> length (as_list v) \<le> 10) (dget m ''attachments'')"

definition valid_inbound_v2 :: "pdict \<Rightarrow> bool" where
  "valid_inbound_v2 e \<longleftrightarrow>
     dget e ''contractVersion'' = PStr ''canonical-v2'' \<and> is_str (dget e ''eventId'') \<and>
     dget e ''eventType'' = PStr ''message'' \<and> or_null strict_int (dget e ''occurredAt'') \<and>
     valid_transport (as_dict (dget e ''transport'')) \<and> valid_chat (as_dict (dget e ''chat'')) \<and>
     is_identity (dget e ''author'') \<and>
     or_null (\<lambda>v. case v of PStr s \<Rightarrow> is_phone s | _ \<Rightarrow> False) (dget e ''authorPhoneNumber'') \<and>
     is_identity (dget e ''botAccount'') \<and> valid_inbound_message (as_dict (dget e ''message''))"

section \<open>The projection\<close>

definition projected_time :: "pval \<Rightarrow> pval" where
  "projected_time timestamp = (case py_int timestamp of Inr i \<Rightarrow> PInt (i * 1000) | Inl _ \<Rightarrow> PNone)"

fun directory_names :: "pval list \<Rightarrow> (pval \<times> pval) list \<Rightarrow> (pval \<times> pval) list res" where
  "directory_names [] names = Inr names"
| "directory_names (item # items) names =
     rbind (vindex item ''externalId'') (\<lambda>k. rbind (vindex item ''displayName'') (\<lambda>v.
       directory_names items (AList.update k v names)))"

definition group_names :: "pdict \<Rightarrow> (pval \<times> pval) list res" where
  "group_names record =
     (case py_or (dget record ''core_channel'') (PDict []) of
        PDict channel \<Rightarrow>
          (case with_default channel ''groupDirectory'' (PList []) of
             PList items \<Rightarrow> directory_names items []
           | PDict d \<Rightarrow> if d = [] then Inr [] else Inl TypeError
           | PStr s \<Rightarrow> if s = [] then Inr [] else Inl TypeError
           | _ \<Rightarrow> Inl TypeError)
      | _ \<Rightarrow> Inl AttributeError)"

definition projected_mentions :: "pval \<Rightarrow> pval" where
  "projected_mentions info =
     (case info of
        PDict d \<Rightarrow>
          (case with_default d ''mentionedJid'' (PList []) of
             PList items \<Rightarrow> PList (map (\<lambda>i. PDict [(''externalId'', i), (''displayName'', PNone)]) items)
           | _ \<Rightarrow> PNone)
      | _ \<Rightarrow> PNone)"

definition projected_quote :: "pval \<Rightarrow> pval \<Rightarrow> pval res" where
  "projected_quote quote info =
     (if \<not> truthy quote then Inr PNone
      else (case info of
              PDict d \<Rightarrow> Inr (PDict
                [(''providerMessageId'', dget d ''stanzaId''),
                 (''author'', PDict [(''externalId'', dget d ''participant''), (''displayName'', PNone)]),
                 (''chatExternalId'', dget d ''remoteJid'')])
            | _ \<Rightarrow> Inl AttributeError))"

text \<open>The id of the event: the digest of what identifies the message in its binding.\<close>

definition group_event_id :: "(string \<Rightarrow> string) \<Rightarrow> pval \<Rightarrow> string \<Rightarrow> pdict \<Rightarrow> string" where
  "group_event_id sha connection binding_id key =
     ''wa2_'' @ sha (json_dumps False '','' '':''
       (PList [connection, PStr binding_id, dget key ''remoteJid'', dget key ''id'', dget key ''fromMe'', PStr ''message'']))"

definition projected_attachments :: "string \<Rightarrow> pdict \<Rightarrow> pval \<Rightarrow> pval \<Rightarrow> pdict res" where
  "projected_attachments base record media subtype =
     (case media of
        PDict m \<Rightarrow>
          if \<not> truthy (dget m ''id'') then Inr []
          else rbind (vindex (PDict record) ''legacy_name'') (\<lambda>name. Inr [(''attachments'', PList [PDict
            [(''kind'', PStr (py_str (py_or (dget m ''kind'') (py_or subtype (PStr ''unknown''))))),
             (''url'', PStr (base @ ''/instances/'' @ py_str name @ ''/media/'' @ py_str (dget m ''id''))),
             (''mimeType'', dget m ''mimeType''), (''fileName'', dget m ''fileName''), (''size'', dget m ''fileSize'')]])])
      | _ \<Rightarrow> Inr [])"

text \<open>The event the code builds, and the event if the data model accepts it.\<close>

definition projected_event ::
    "(string \<Rightarrow> string) \<Rightarrow> string \<Rightarrow> pdict \<Rightarrow> pdict \<Rightarrow> pdict \<Rightarrow> pdict \<Rightarrow> pdict \<Rightarrow> group_policy \<Rightarrow> bool \<Rightarrow> pdict res" where
  "projected_event sha base data key context normalized record policy with_media =
     (let info = dget context ''contextInfo''; group_id = dget key ''remoteJid'' in
      rbind (group_names record) (\<lambda>names.
      rbind (vindex (PDict record) ''id'') (\<lambda>connection.
      rbind (vindex (PDict record) ''legacy_name'') (\<lambda>name.
      rbind (author_phone key record group_id) (\<lambda>phone.
      rbind (projected_quote (dget context ''quoted'') info) (\<lambda>quoted.
      rbind (projected_attachments base record (if with_media then dget normalized ''media'' else PNone)
               (dget normalized ''subtype'')) (\<lambda>attachments.
      Inr [(''contractVersion'', PStr ''canonical-v2''),
           (''eventId'', PStr (group_event_id sha connection (gp_binding_id policy) key)),
           (''eventType'', PStr ''message''), (''occurredAt'', projected_time (dget data ''messageTimestamp'')),
           (''transport'', PDict
              [(''provider'', PStr ''evolution''), (''channelType'', PStr ''whatsapp''),
               (''providerAccountRef'', name), (''connectionRef'', connection),
               (''coreChannelId'', PStr (gp_core_channel_id policy)), (''bindingId'', PStr (gp_binding_id policy))]),
           (''chat'', PDict
              [(''type'', PStr ''group''), (''externalId'', group_id),
               (''displayName'', case map_of names group_id of None \<Rightarrow> PNone | Some v \<Rightarrow> v)]),
           (''author'', PDict
              [(''externalId'', py_or (dget key ''participant'') PNone),
               (''displayName'', py_or (dget data ''pushName'') PNone)]),
           (''authorPhoneNumber'', pstr_opt phone), (''botAccount'', gp_bot_account policy),
           (''message'', PDict
              ([(''providerMessageId'', dget key ''id''),
                (''kind'', py_or (dget normalized ''subtype'') (PStr ''unknown'')),
                (''text'', dget normalized ''text''), (''fromMe'', dget key ''fromMe''),
                (''mentions'', projected_mentions info), (''quoted'', quoted)] @ attachments))])))))))"

definition projection ::
    "(string \<Rightarrow> string) \<Rightarrow> string \<Rightarrow> pdict \<Rightarrow> pdict \<Rightarrow> pdict \<Rightarrow> group_policy \<Rightarrow> bool \<Rightarrow> pdict res" where
  "projection sha base payload normalized record policy with_media =
     rbind (need_dict (py_or (dget payload ''data'') (PDict []))) (\<lambda>data.
     rbind (need_dict (py_or (dget data ''key'') (PDict []))) (\<lambda>key.
     rbind (need_dict (py_or (dget normalized ''context'') (PDict []))) (\<lambda>context.
     rbind (projected_event sha base data key context normalized record policy with_media) (\<lambda>event.
       if valid_inbound_v2 event then Inr event else invalid ''CanonicalInboundV2''))))"

section \<open>Ingesting a group message\<close>

record ingest_env =
  ig_dispatch :: dispatch_env
  ig_sha :: "string \<Rightarrow> string"
  ig_base_url :: string

record ingest_call =
  ic_media_ok :: bool
  ic_outbox_ok :: bool
  ic_now :: int
  ic_uid :: string

fun refuses_policy :: "py_exc \<Rightarrow> bool" where
  "refuses_policy (ValueError _) = True"
| "refuses_policy TypeError = True"
| "refuses_policy AttributeError = True"
| "refuses_policy _ = False"

fun refuses_projection :: "py_exc \<Rightarrow> bool" where
  "refuses_projection (ValueError _) = True"
| "refuses_projection TypeError = True"
| "refuses_projection _ = False"

definition group_provider_event :: "pdict \<Rightarrow> string" where
  "group_provider_event payload =
     replace_chr (CHR ''-'') (CHR ''_'') (replace_chr (CHR ''.'') (CHR ''_'') (str_upper (str_or_empty (dget payload ''event''))))"

definition queue_group ::
    "'f enqueue_op \<Rightarrow> ingest_env \<Rightarrow> ingest_call \<Rightarrow> pdict \<Rightarrow> pdict \<Rightarrow> timeline \<Rightarrow> 'f \<Rightarrow> string res \<times> timeline \<times> 'f" where
  "queue_group enq env call normalized event st f =
     (case (if truthy (dget (as_dict (dget event ''message'')) ''attachments'')
            then index_media (ic_media_ok call) (ic_now call div 1000) normalized st else (Inr (), st)) of
        (Inl e, st') \<Rightarrow> (Inl e, st', f)
      | (Inr _, st') \<Rightarrow>
          (case persist enq (ig_dispatch env) (ic_outbox_ok call) (ic_now call) (ic_uid call) event f of
             (Inl e, f') \<Rightarrow> (Inl e, st', f')
           | (Inr _, f') \<Rightarrow> (Inr ''group_queued'', st', f')))"

text \<open>The connection record and the group a payload is for.\<close>

definition group_target :: "ingest_env \<Rightarrow> pdict \<Rightarrow> (pdict option \<times> pval) res" where
  "group_target env payload =
     rbind (de_record (ig_dispatch env) (str_or_empty (dget payload ''instance''))) (\<lambda>rec.
     rbind (need_dict (py_or (dget payload ''data'') (PDict []))) (\<lambda>data.
     rbind (need_dict (py_or (dget data ''key'') (PDict []))) (\<lambda>key.
       Inr (rec, dget key ''remoteJid''))))"

definition ingest_group ::
    "'f enqueue_op \<Rightarrow> ingest_env \<Rightarrow> ingest_call \<Rightarrow> pdict \<Rightarrow> pdict \<Rightarrow> timeline \<Rightarrow> 'f \<Rightarrow> string res \<times> timeline \<times> 'f" where
  "ingest_group enq env call payload normalized st f =
     (case group_target env payload of
        Inl e \<Rightarrow> (Inl e, st, f)
      | Inr (rec, group_id) \<Rightarrow>
          (case require_policy (de_group (ig_dispatch env)) rec group_id PNone of
             Inl e \<Rightarrow> if refuses_policy e then (Inr ''ignored_group'', st, f) else (Inl e, st, f)
           | Inr policy \<Rightarrow>
               (let provider_event = group_provider_event payload in
                if provider_event = ''MESSAGES_UPDATE'' then (Inr ''group_receipt_unsupported'', st, f)
                else if provider_event \<in> {''GROUP_PARTICIPANTS_UPDATE'', ''GROUPS_UPSERT'', ''GROUPS_UPDATE''}
                then (Inr ''group_membership_unsupported'', st, f)
                else if dget normalized ''type'' \<noteq> PStr ''message'' \<or> provider_event \<noteq> ''MESSAGES_UPSERT''
                then (Inr ''group_unsupported_event'', st, f)
                else (case projection (ig_sha env) (ig_base_url env) payload normalized
                             (case rec of None \<Rightarrow> [] | Some r \<Rightarrow> r) policy True of
                        Inl e \<Rightarrow> if refuses_projection e then (Inr ''group_invalid_event'', st, f) else (Inl e, st, f)
                      | Inr event \<Rightarrow> queue_group enq env call normalized event st f))))"

end
