(* ===== verification/Group_Ingest_Spec.thy ===== *)
theory Group_Ingest_Spec
  imports Group_Ingest Core_Outbox_Spec Timeline_Spec
begin

text \<open>
  What group ingestion promises: only authorised groups reach the outbox, with an event of the
  contract; a repetition adds nothing; and a phone number is shown only when all evidence
  agrees on it.
\<close>

section \<open>Phone evidence\<close>

lemma single_of_Some: "single_of xs = Some x \<longleftrightarrow> xs = [x]"
  by (cases xs rule: single_of.cases) simp_all

lemma set_opt_list [simp]: "x \<in> set (opt_list a) \<longleftrightarrow> a = Some x"
  by (auto simp: opt_list_def split: option.splits)

lemma in_phone_evidence:
  "q \<in> set (phone_evidence a b c) \<longleftrightarrow> is_phone q \<and> (a = Some q \<or> b = Some q \<or> c = PStr q)"
  by (auto simp: phone_evidence_def split: pval.splits)

lemma phone_evidence_single:
  assumes "phone_evidence a b c = [p]"
  shows "is_phone p" and "a = Some q \<Longrightarrow> is_phone q \<Longrightarrow> q = p" and "b = Some q \<Longrightarrow> is_phone q \<Longrightarrow> q = p"
    and "c = PStr q \<Longrightarrow> is_phone q \<Longrightarrow> q = p"
proof -
  have m: "is_phone q \<and> (a = Some q \<or> b = Some q \<or> c = PStr q) \<longleftrightarrow> q = p" for q
    using in_phone_evidence [of q a b c] assms by simp
  show "is_phone p" using m [of p] by simp
  show "a = Some q \<Longrightarrow> is_phone q \<Longrightarrow> q = p" "b = Some q \<Longrightarrow> is_phone q \<Longrightarrow> q = p"
    "c = PStr q \<Longrightarrow> is_phone q \<Longrightarrow> q = p" using m [of q] by simp_all
qed

lemma participant_phone_is_phone: "participant_phone_from_jid v = Some p \<Longrightarrow> is_phone p"
  by (auto simp: participant_phone_from_jid_def split: pval.splits if_splits list.splits)

lemma author_phone_needs_agreement_facts:
  assumes "author_phone key record group_id = Inr (Some p)"
  shows "is_phone p" and "is_participant (dget key ''participant'')"
    and "participant_phone_from_jid (dget key ''participant'') \<in> {None, Some p}"
    and "participant_phone_from_jid (dget key ''participantAlt'') \<in> {None, Some p}"
    and "cached_phone record group_id (py_str (dget key ''participant'')) = Inr (PStr q) \<Longrightarrow> is_phone q \<Longrightarrow> q = p"
proof -
  from assms obtain c where part: "is_participant (dget key ''participant'')"
    and c: "cached_phone record group_id (py_str (dget key ''participant'')) = Inr c"
    and e: "phone_evidence (participant_phone_from_jid (dget key ''participant''))
      (participant_phone_from_jid (dget key ''participantAlt'')) c = [p]"
    by (auto simp: author_phone_def Let_def rbind_eqs single_of_Some split: if_splits)
  note single = phone_evidence_single [OF e]
  show "is_phone p" by (rule single(1))
  show "is_participant (dget key ''participant'')" by (rule part)
  show "participant_phone_from_jid (dget key ''participant'') \<in> {None, Some p}"
    using single(2) participant_phone_is_phone by (cases "participant_phone_from_jid (dget key ''participant'')") auto
  show "participant_phone_from_jid (dget key ''participantAlt'') \<in> {None, Some p}"
    using single(3) participant_phone_is_phone by (cases "participant_phone_from_jid (dget key ''participantAlt'')") auto
  show "cached_phone record group_id (py_str (dget key ''participant'')) = Inr (PStr q) \<Longrightarrow> is_phone q \<Longrightarrow> q = p"
    using single(4) c by simp
qed

text \<open>
  The phone number shown for the author of a group message is a number of the allowed
  form, belongs to a participant address and never to the group, and agrees with every piece
  of evidence at hand: the address itself, the alternative address and the directory Core
  keeps. Where two of them disagree no number is shown.
\<close>

theorem author_phone_needs_agreement:
  assumes "author_phone key record group_id = Inr (Some p)"
  shows "is_phone p \<and> is_participant (dget key ''participant'') \<and>
    participant_phone_from_jid (dget key ''participant'') \<in> {None, Some p} \<and>
    participant_phone_from_jid (dget key ''participantAlt'') \<in> {None, Some p} \<and>
    (\<forall>q. cached_phone record group_id (py_str (dget key ''participant'')) = Inr (PStr q) \<longrightarrow> is_phone q \<longrightarrow> q = p)"
  using author_phone_needs_agreement_facts [OF assms] by blast

lemma author_phone_needs_agreement_witness:
  "is_phone ''5491122334455''"
  by (rule conjunct1 [OF author_phone_needs_agreement [of "[(''participant'', PStr ''5491122334455:3@s.whatsapp.net'')]" "[]" "PStr ''1@g.us''"]]) code_simp

section \<open>The outbox and the groups\<close>

lemma persist_again:
  assumes "persist (enqueue r) env ok now uid event f = (Inr (d, created), f1)"
  shows "persist (enqueue r) env ok' now' uid' event f1 = (Inr (d, False), f1)"
proof -
  from assms obtain ch err where c: "event_channel env event = Inr (ch, err)"
    and e: "enqueue r ok now uid event ch err f = (Inr (d, created), f1)"
    by (auto simp: persist_def split: sum.splits)
  show ?thesis by (simp add: persist_def c enqueue_again [OF e])
qed

lemma projection_parts:
  assumes "projection sha base payload n record p with_media = Inr event"
  shows "valid_inbound_v2 event"
    and "dget (as_dict (dget event ''transport'')) ''bindingId'' = PStr (gp_binding_id p)"
    and "dget (as_dict (dget event ''transport'')) ''connectionRef'' = dget record ''id''"
    and "dget (as_dict (dget event ''chat'')) ''externalId'' =
      dget (as_dict (dget (as_dict (dget payload ''data'')) ''key'')) ''remoteJid''"
proof -
  have dict: "as_dict v = d" if "need_dict (py_or v (PDict [])) = Inr d" for v d
    using that by (cases v) (auto simp: py_or_def split: if_splits)
  have key: "vindex (PDict d) k = Inr v \<Longrightarrow> v = dget d k" for d k v
    by (auto simp: dget_def split: option.splits)
  from assms obtain data key ctx where d: "need_dict (py_or (dget payload ''data'') (PDict [])) = Inr data"
    and k: "need_dict (py_or (dget data ''key'') (PDict [])) = Inr key"
    and e: "projected_event sha base data key ctx n record p with_media = Inr event"
    and v: "valid_inbound_v2 event"
    by (auto simp: projection_def rbind_eqs invalid_def split: if_splits)
  show "valid_inbound_v2 event" by (rule v)
  from e obtain connection name where c: "vindex (PDict record) ''id'' = Inr connection"
    and t: "dget event ''transport'' = PDict
      [(''provider'', PStr ''evolution''), (''channelType'', PStr ''whatsapp''),
       (''providerAccountRef'', name), (''connectionRef'', connection),
       (''coreChannelId'', PStr (gp_core_channel_id p)), (''bindingId'', PStr (gp_binding_id p))]"
    and g: "dget (as_dict (dget event ''chat'')) ''externalId'' = dget key ''remoteJid''"
    unfolding projected_event_def Let_def rbind_eqs by (elim exE conjE) (auto simp: dget_Cons)
  show "dget (as_dict (dget event ''transport'')) ''connectionRef'' = dget record ''id''"
    by (simp add: t dget_Cons key [OF c])
  show "dget (as_dict (dget event ''transport'')) ''bindingId'' = PStr (gp_binding_id p)"
    by (simp add: t dget_Cons)
  show "dget (as_dict (dget event ''chat'')) ''externalId'' =
      dget (as_dict (dget (as_dict (dget payload ''data'')) ''key'')) ''remoteJid''"
    by (simp add: g dict [OF d] dict [OF k])
qed

lemma group_target_id:
  "group_target env payload = Inr (rec, g) \<Longrightarrow>
    dget (as_dict (dget (as_dict (dget payload ''data'')) ''key'')) ''remoteJid'' = g"
proof -
  assume t: "group_target env payload = Inr (rec, g)"
  have dict: "as_dict v = d" if "need_dict (py_or v (PDict [])) = Inr d" for v d
    using that by (cases v) (auto simp: py_or_def split: if_splits)
  from t obtain data key where "need_dict (py_or (dget payload ''data'') (PDict [])) = Inr data"
    "need_dict (py_or (dget data ''key'') (PDict [])) = Inr key" "g = dget key ''remoteJid''"
    by (auto simp: group_target_def rbind_eqs)
  then show ?thesis by (simp add: dict)
qed

text \<open>What the outbox of a call is, by the way it ran.\<close>

inductive ingests ::
    "ingest_env \<Rightarrow> pdict \<Rightarrow> pdict \<Rightarrow> pdict option \<Rightarrow> group_policy \<Rightarrow> pdict \<Rightarrow> bool" for env payload n where
  accepted: "group_target env payload = Inr (rec, g) \<Longrightarrow>
    require_policy (de_group (ig_dispatch env)) rec g PNone = Inr p \<Longrightarrow>
    dget n ''type'' = PStr ''message'' \<Longrightarrow> group_provider_event payload = ''MESSAGES_UPSERT'' \<Longrightarrow>
    projection (ig_sha env) (ig_base_url env) payload n (case rec of None \<Rightarrow> [] | Some r \<Rightarrow> r) p True = Inr event \<Longrightarrow>
    ingests env payload n rec p event"

inductive_cases ingestsE: "ingests env payload n rec p event"

lemma ingest_group_accepted:
  "ingests env payload n rec p event \<Longrightarrow>
    ingest_group enq env call payload n st f = queue_group enq env call n event st f"
  by (erule ingestsE) (simp add: ingest_group_def Let_def)

lemma ingest_group_cases:
  obtains r where "ingest_group enq env call payload n st f = (r, st, f)" "r \<noteq> Inr ''group_queued''"
  | rec p event where "ingests env payload n rec p event"
proof (cases "group_target env payload")
  case (Inl e)
  then show ?thesis using that(1) by (simp add: ingest_group_def)
next
  case (Inr t)
  obtain rec g where t: "t = (rec, g)" by (cases t)
  show ?thesis
  proof (cases "require_policy (de_group (ig_dispatch env)) rec g PNone")
    case (Inl e)
    then show ?thesis using that(1) by (cases "refuses_policy e") (simp_all add: ingest_group_def Inr t)
  next
    case p: (Inr p)
    show ?thesis
    proof (cases "dget n ''type'' = PStr ''message'' \<and> group_provider_event payload = ''MESSAGES_UPSERT''")
      case False
      show ?thesis
        by (rule that(1) [of "Inr (if group_provider_event payload = ''MESSAGES_UPDATE'' then ''group_receipt_unsupported''
            else if group_provider_event payload \<in> {''GROUP_PARTICIPANTS_UPDATE'', ''GROUPS_UPSERT'', ''GROUPS_UPDATE''}
            then ''group_membership_unsupported'' else ''group_unsupported_event'')"])
          (use False in \<open>auto simp: ingest_group_def Inr t p Let_def\<close>)
    next
      case True
      show ?thesis
      proof (cases "projection (ig_sha env) (ig_base_url env) payload n (case rec of None \<Rightarrow> [] | Some r \<Rightarrow> r) p True")
        case (Inl e)
        then show ?thesis
          using that(1) True by (cases "refuses_projection e") (simp_all add: ingest_group_def Inr t p Let_def)
      next
        case e: (Inr event)
        show ?thesis by (rule that(2) [OF ingests.accepted [OF Inr [unfolded t] p _ _ e]]) (simp_all add: True)
      qed
    qed
  qed
qed

lemma index_media_result: "fst (index_media ok now n st) = fst (index_media ok' now' n st')"
  by (simp add: index_media_def Let_def split: pval.split sum.split)

lemma queue_group_queued:
  assumes "queue_group enq env call n event st f = (Inr r, st', f')"
  shows "\<exists>d c. persist enq (ig_dispatch env) (ic_outbox_ok call) (ic_now call) (ic_uid call) event f = (Inr (d, c), f')"
    and "truthy (dget (as_dict (dget event ''message'')) ''attachments'') \<Longrightarrow>
      fst (index_media ok now n st2) = Inr ()"
  using assms index_media_result [of ok now n st2 "ic_media_ok call" "ic_now call div 1000" st]
  by (auto simp: queue_group_def split: if_splits prod.splits sum.splits)

lemma queue_group_retry:
  assumes "queue_group (enqueue r) env call n event st f = (Inr ''group_queued'', st', f')"
  shows "\<exists>st3. queue_group (enqueue r) env call2 n event st2 f' = (Inr ''group_queued'', st3, f')"
proof -
  obtain d c where "persist (enqueue r) (ig_dispatch env) (ic_outbox_ok call) (ic_now call) (ic_uid call) event f
      = (Inr (d, c), f')"
    using queue_group_queued(1) [OF assms] by blast
  note p = persist_again [OF this]
  show ?thesis
  proof (cases "truthy (dget (as_dict (dget event ''message'')) ''attachments'')")
    case True
    note i = queue_group_queued(2) [OF assms True, of "ic_media_ok call2" "ic_now call2 div 1000" st2]
    show ?thesis
      using i by (cases "index_media (ic_media_ok call2) (ic_now call2 div 1000) n st2")
        (simp add: queue_group_def True p)
  next
    case False
    then show ?thesis by (simp add: queue_group_def p)
  qed
qed

text \<open>
  A repeated delivery of a group message by the provider adds nothing to the Core outbox:
  once a message has been queued, ingesting it again, at any time and with any outcome of the
  disk, answers that it is queued and leaves the outbox as it is.
\<close>

theorem group_event_queued_once:
  assumes "ingest_group (enqueue r) env call payload n st f = (Inr ''group_queued'', st', f')"
  shows "\<exists>st3. ingest_group (enqueue r) env call2 payload n st2 f' = (Inr ''group_queued'', st3, f')"
proof (cases rule: ingest_group_cases [of "enqueue r" env call payload n st f])
  case (1 x)
  then show ?thesis using assms by simp
next
  case (2 rec p event)
  then show ?thesis
    using assms queue_group_retry [of r env call n event st f st' f' call2 st2]
    by (simp add: ingest_group_accepted)
qed

definition group_ingest_env :: ingest_env where
  "group_ingest_env =
     \<lparr> ig_dispatch = \<lparr> de_record = (\<lambda>i. Inr (if i = ''wa1'' \<or> i = ''c1'' then Some sample_record else None)),
         de_group = \<lparr> ge_enabled = True, ge_hooks = (\<lambda>_. Inr []) \<rparr>, de_binding = (\<lambda>_. Inr None),
         de_api_key = (\<lambda>_ _. Inr None), de_post = (\<lambda>_. Response 200) \<rparr>,
       ig_sha = (\<lambda>s. ''d''), ig_base_url = ''http://g'' \<rparr>"

definition group_payload :: pdict where
  "group_payload =
     [(''event'', PStr ''messages.upsert''), (''instance'', PStr ''wa1''),
      (''data'', PDict [(''key'', PDict [(''remoteJid'', PStr ''12@g.us''), (''id'', PStr ''m1''), (''fromMe'', PBool False)])])]"

definition group_normalized :: pdict where
  "group_normalized = [(''type'', PStr ''message''), (''subtype'', PStr ''text''), (''text'', PStr ''hola'')]"

definition group_call :: "int \<Rightarrow> bool \<Rightarrow> ingest_call" where
  "group_call now ok = \<lparr> ic_media_ok = ok, ic_outbox_ok = ok, ic_now = now, ic_uid = ''u'' \<rparr>"

definition queued_run :: "string res \<times> timeline \<times> outbox_file" where
  "queued_run = ingest_group (enqueue 7) group_ingest_env (group_call 1000 True) group_payload group_normalized
     empty_timeline Absent"

lemma queued_run_result: "fst queued_run = Inr ''group_queued''"
  by code_simp

lemma group_event_queued_once_witness:
  "\<exists>st3. ingest_group (enqueue 7) group_ingest_env (group_call 9000 False) group_payload group_normalized
     empty_timeline (snd (snd queued_run)) = (Inr ''group_queued'', st3, snd (snd queued_run))"
proof (rule group_event_queued_once)
  show "ingest_group (enqueue 7) group_ingest_env (group_call 1000 True) group_payload group_normalized
      empty_timeline Absent = (Inr ''group_queued'', fst (snd queued_run), snd (snd queued_run))"
    using queued_run_result by (simp add: queued_run_def [symmetric] prod_eq_iff)
qed

text \<open>
  C32: Nothing of a group reaches the Core outbox without authorisation: when ingesting a group
  message changes the outbox or answers that it is queued, then group messages are enabled, the
  policy that the check of the connection's own record yields for this very group is enabled, does not
  exclude the group and admits it, by its list or by admitting the whole account, and what is handed to the
  outbox is an event of the canonical-v2 contract for that group, with the binding and the connection
  of that policy.
\<close>

theorem group_outbox_authorized:
  assumes "ingest_group enq env call payload n st f = (r, st', f')" and "f' \<noteq> f \<or> r = Inr ''group_queued''"
  shows "\<exists>rec g (p :: group_policy) event res. group_target env payload = Inr (Some rec, PStr g) \<and>
    require_policy (de_group (ig_dispatch env)) (Some rec) (PStr g) PNone = Inr p \<and>
    ge_enabled (de_group (ig_dispatch env)) \<and> gp_enabled p \<and> group_jid g \<and> g \<notin> set (gp_excluded p) \<and>
    (gp_admission p = Account \<or> g \<in> set (gp_authorized p)) \<and> valid_inbound_v2 event \<and>
    dget (as_dict (dget event ''chat'')) ''externalId'' = PStr g \<and>
    dget (as_dict (dget event ''transport'')) ''bindingId'' = PStr (gp_binding_id p) \<and>
    dget (as_dict (dget event ''transport'')) ''connectionRef'' = PStr (gp_connection_ref p) \<and>
    persist enq (ig_dispatch env) (ic_outbox_ok call) (ic_now call) (ic_uid call) event f = (res, f')"
proof (cases rule: ingest_group_cases [of enq env call payload n st f])
  case (1 x)
  then show ?thesis using assms by simp
next
  case (2 rec p event)
  then obtain g where t: "group_target env payload = Inr (rec, g)"
    and p: "require_policy (de_group (ig_dispatch env)) rec g PNone = Inr p"
    and e: "projection (ig_sha env) (ig_base_url env) payload n (case rec of None \<Rightarrow> [] | Some r \<Rightarrow> r) p True = Inr event"
    by (rule ingestsE)
  have q: "queue_group enq env call n event st f = (r, st', f')"
    using assms(1) by (simp add: ingest_group_accepted [OF 2])
  obtain res where res: "persist enq (ig_dispatch env) (ic_outbox_ok call) (ic_now call) (ic_uid call) event f = (res, f')"
    using q assms(2) by (auto simp: queue_group_def split: prod.splits sum.splits)
  have gid: "dget (as_dict (dget event ''chat'')) ''externalId'' = g"
    using projection_parts(4) [OF e] group_target_id [OF t] by simp
  have "g \<noteq> PNone"
    using projection_parts(1) [OF e] gid by (auto simp: valid_inbound_v2_def valid_chat_def str_within_def)
  from policy_admits [OF p this] obtain r' g' where a: "rec = Some r'" "g = PStr g'" "group_jid g'"
      "g' \<notin> set (gp_excluded p)" "gp_admission p = Account \<or> g' \<in> set (gp_authorized p)"
      "dget r' ''id'' = PStr (gp_connection_ref p)"
      "ge_enabled (de_group (ig_dispatch env))" "gp_enabled p" by blast
  show ?thesis
  proof (intro exI conjI)
    show "group_target env payload = Inr (Some r', PStr g')" by (simp add: t a(1,2))
    show "require_policy (de_group (ig_dispatch env)) (Some r') (PStr g') PNone = Inr p" using p by (simp add: a(1,2))
    show "ge_enabled (de_group (ig_dispatch env))" "gp_enabled p" "group_jid g'" "g' \<notin> set (gp_excluded p)"
      "gp_admission p = Account \<or> g' \<in> set (gp_authorized p)" by (fact a)+
    show "valid_inbound_v2 event" by (rule projection_parts(1) [OF e])
    show "dget (as_dict (dget event ''chat'')) ''externalId'' = PStr g'" by (simp add: gid a(2))
    show "dget (as_dict (dget event ''transport'')) ''bindingId'' = PStr (gp_binding_id p)"
      by (rule projection_parts(2) [OF e])
    show "dget (as_dict (dget event ''transport'')) ''connectionRef'' = PStr (gp_connection_ref p)"
      using projection_parts(3) [OF e] by (simp add: a(1,6))
    show "persist enq (ig_dispatch env) (ic_outbox_ok call) (ic_now call) (ic_uid call) event f = (res, f')"
      by (rule res)
  qed
qed

lemma group_outbox_authorized_witness:
  "\<exists>rec g (p :: group_policy) event res. group_target group_ingest_env group_payload = Inr (Some rec, PStr g) \<and>
    group_jid g \<and> g \<notin> set (gp_excluded p) \<and> valid_inbound_v2 event \<and>
    persist (enqueue 7) (ig_dispatch group_ingest_env) True 1000 ''u'' event Absent = (res, snd (snd queued_run))"
proof -
  have run: "ingest_group (enqueue 7) group_ingest_env (group_call 1000 True) group_payload group_normalized
      empty_timeline Absent = (Inr ''group_queued'', fst (snd queued_run), snd (snd queued_run))"
    using queued_run_result by (simp add: queued_run_def [symmetric] prod_eq_iff)
  show ?thesis
    using group_outbox_authorized [OF run, OF disjI2 [OF refl]] by (simp add: group_call_def) blast
qed

end
