(* ===== verification/Event_Pipeline.thy ===== *)
theory Event_Pipeline
  imports Group_Ingest Reliability
begin

text \<open>
  The inbound pipeline, \<open>process_incoming_webhook\<close> of \<open>gateway/app/services/event_pipeline.py\<close>,
  with the test for group messages (\<open>gateway/app/services/group_messages.py\<close>) and the record of
  the provider's session (\<open>gateway/app/services/provider_session.py\<close>): it normalises a webhook,
  hands group messages to their own path, drops what is technical or stale, filters duplicates,
  echoes and floods, and stores what remains. The clock stands still during one call; the
  outcome of each write is an argument named by the stage that writes.
\<close>

section \<open>Group messages\<close>

definition is_group_jid :: "pval \<Rightarrow> bool" where
  "is_group_jid v = (case v of PStr s \<Rightarrow> ends_with (str_lower (strip s)) ''@g.us'' | _ \<Rightarrow> False)"

fun flag_truthy :: "pval \<Rightarrow> bool" where
  "flag_truthy (PStr s) \<longleftrightarrow> str_lower (strip s) \<in> {''1'', ''true'', ''yes'', ''y'', ''on''}"
| "flag_truthy v \<longleftrightarrow> truthy v"

definition group_candidates :: "pdict \<Rightarrow> pval list" where
  "group_candidates d =
     map (dget d) [''remoteJid'', ''chatId'', ''conversationId'', ''groupId''] @
     map (first1 d)
       [[''data'', ''remoteJid''], [''data'', ''chatId''], [''data'', ''conversationId''], [''data'', ''groupId''],
        [''key'', ''remoteJid''], [''data'', ''key'', ''remoteJid''], [''message'', ''from''],
        [''context'', ''chat'', ''jid''], [''context'', ''chat'', ''groupId''], [''raw'', ''data'', ''key'', ''remoteJid'']]"

definition is_group_message :: "pdict \<Rightarrow> bool" where
  "is_group_message d \<longleftrightarrow>
     flag_truthy (first_of (PDict d) [[''isGroup''], [''is_group''], [''data'', ''isGroup''], [''context'', ''chat'', ''isGroup'']]) \<or>
     list_ex is_group_jid (group_candidates d)"

section \<open>The provider's session\<close>

definition session_states :: "string list" where
  "session_states = [''open'', ''connecting'', ''close'']"

text \<open>The record to update and its new session, when the payload reports a change.\<close>

definition connection_update ::
    "(string \<Rightarrow> pdict option res) \<Rightarrow> string \<Rightarrow> pdict \<Rightarrow> (pval \<times> pdict) option res" where
  "connection_update record_of stamp payload =
     (if replace_chr (CHR ''_'') (CHR ''.'') (str_lower (str_or_empty (dget payload ''event''))) \<noteq> ''connection.update''
      then Inr None
      else
        (let data = sub_dict payload ''data''; state = dget data ''state''; reason = dget data ''statusReason'' in
         if state \<notin> PStr ` set session_states then Inr None
         else rbind (record_of (str_or_empty (dget payload ''instance''))) (\<lambda>rec.
           case rec of
             Some (kv # r) \<Rightarrow>
               rbind (need_dict (py_or (dget (kv # r) ''provider_session'') (PDict []))) (\<lambda>current.
               if dget current ''state'' = state \<and> dget current ''statusReason'' = reason then Inr None
               else rbind (vindex (PDict (kv # r)) ''id'') (\<lambda>i.
                 Inr (Some (i, [(''state'', state), (''statusReason'', reason), (''at'', PStr stamp)]))))
           | _ \<Rightarrow> Inr None)))"

section \<open>State, settings and arguments of a call\<close>

record 'f pipe =
  pp_timeline :: timeline
  pp_dedupe :: ttl_store
  pp_echo :: ttl_store
  pp_flood :: flood_state
  pp_counters :: "(string \<times> int) list"
  pp_unknown :: "(string \<times> int) list"
  pp_sessions :: "(pval \<times> pdict) list"
  pp_outbox :: 'f

record pipe_cfg =
  pc_retention :: nat
  pc_debug :: bool
  pc_max_age :: int
  pc_flood_window :: int
  pc_flood_max :: nat

record pipe_env =
  pe_norm :: norm_env
  pe_sha1 :: "string \<Rightarrow> string"
  pe_ingest :: ingest_env
  pe_error_text :: "py_exc \<Rightarrow> string"

record pipe_call =
  pl_now :: int
  pl_stamp :: string
  pl_uid :: "string \<Rightarrow> string"
  pl_write_ok :: "string \<Rightarrow> bool"
  pl_attempts_ok :: bool
  pl_ingest :: ingest_call
  pl_request_id :: string

record pipe_result =
  pr_status :: string
  pr_normalized :: pdict
  pr_trace :: pdict
  pr_classification :: pdict

definition count_up :: "string \<Rightarrow> (string \<times> int) list \<Rightarrow> (string \<times> int) list" where
  "count_up name cs = AList.update name ((case map_of cs name of None \<Rightarrow> 0 | Some n \<Rightarrow> n) + 1) cs"

definition inc :: "string \<Rightarrow> 'f pipe \<Rightarrow> 'f pipe" where
  "inc name st = st\<lparr> pp_counters := count_up name (pp_counters st) \<rparr>"

definition emit :: "pipe_cfg \<Rightarrow> pipe_call \<Rightarrow> pipeline_note \<Rightarrow> 'f pipe \<Rightarrow> 'f pipe" where
  "emit cfg call note st =
     st\<lparr> pp_timeline := save_pipeline_event (pc_retention cfg) (pl_write_ok call (pn_stage note))
           (pl_uid call (pn_stage note)) (pl_now call) note (pp_timeline st) \<rparr>"

section \<open>Classifying an event\<close>

definition event_age_seconds :: "pdict \<Rightarrow> int \<Rightarrow> int option" where
  "event_age_seconds n now =
     (if dget n ''sourceTimestamp'' = PNone then None
      else case py_int (dget n ''sourceTimestamp'') of
        Inl _ \<Rightarrow> None
      | Inr source \<Rightarrow> if source \<le> 0 then None else Some (max 0 (now - source) div 1000))"

definition category_of :: "pdict \<Rightarrow> string" where
  "category_of n =
     (if str_or_empty (dget n ''layer'') = ''technical'' then ''transport''
      else if str_or_empty (dget n ''type'') = ''message'' then ''business_message''
      else if str_or_empty (dget n ''type'') = ''event'' then ''business_event'' else ''operational'')"

definition unknown_type :: "pdict \<Rightarrow> bool" where
  "unknown_type n = truthy (dget (sub_dict n ''metadata'') ''unknownTypeDetected'')"

definition classify_event :: "pdict \<Rightarrow> pdict \<Rightarrow> pdict res" where
  "classify_event payload n =
     rbind (vget (py_or (dget payload ''data'') (PDict [])) ''messageType'') (\<lambda>mt.
       Inr [(''sourceEvent'', PStr (py_str (py_or (dget payload ''event'') (PStr ''UNKNOWN'')))),
            (''messageType'', pstr_opt (or_none (str_or_empty mt))), (''layer'', dget n ''layer''),
            (''category'', PStr (category_of n)), (''subtype'', dget n ''subtype''),
            (''originalType'', dget n ''originalType''), (''fallbackUsed'', PBool (unknown_type n))])"

text \<open>The event holds the trace itself, so what the trace gains later shows in it.\<close>

definition with_trace :: "pdict \<Rightarrow> pdict \<Rightarrow> pdict" where
  "with_trace trace n =
     (if dhas n ''operational'' then dset n ''operational'' (PDict [(''pipeline'', PDict trace)]) else n)"

definition enrich_contract :: "string \<Rightarrow> string \<Rightarrow> pdict \<Rightarrow> pdict \<Rightarrow> pdict \<Rightarrow> pdict" where
  "enrich_contract request_id conv_id trace classification n =
     dset (dset (dset (dset (dset n
       ''meta'' (PDict [(''requestId'', PStr request_id), (''conversationId'', PStr conv_id)]))
       ''eventType'' (dget n ''type''))
       ''category'' (dget classification ''category''))
       ''transport'' (PDict [(''sourceEvent'', dget n ''sourceEvent''), (''event'', dget n ''event''),
                             (''sourceTimestamp'', dget n ''sourceTimestamp'')]))
       ''operational'' (PDict [(''pipeline'', PDict trace)])"

definition finish :: "string \<Rightarrow> pdict \<Rightarrow> pdict \<Rightarrow> pdict \<Rightarrow> pipe_result" where
  "finish status n trace classification =
     \<lparr> pr_status = status, pr_normalized = with_trace trace n, pr_trace = trace, pr_classification = classification \<rparr>"

section \<open>Filters\<close>

text \<open>\<open>(value or default)\<close> where a string method or a join follows.\<close>

definition string_arg :: "py_exc \<Rightarrow> pval \<Rightarrow> string option res" where
  "string_arg e v = (if \<not> truthy v then Inr None else case v of PStr s \<Rightarrow> Inr (Some s) | _ \<Rightarrow> Inl e)"

definition event_fingerprint :: "(string \<Rightarrow> string) \<Rightarrow> string \<Rightarrow> pdict \<Rightarrow> string res" where
  "event_fingerprint sha inst n =
     (let message = sub_dict n ''message'' in
      rbind (if truthy (dget n ''media'') then vget (dget n ''media'') ''id'' else Inr PNone) (\<lambda>media_id.
      rbind (string_arg AttributeError (dget message ''from'')) (\<lambda>jid.
      rbind (string_arg TypeError (dget message ''kind'')) (\<lambda>kind.
      rbind (string_arg AttributeError (dget message ''text'')) (\<lambda>text.
      rbind (string_arg TypeError media_id) (\<lambda>media.
        Inr (message_fingerprint sha (Some inst) jid kind text media)))))))"

datatype guard = Passed | Filtered string pdict

definition sent_by_us :: "pdict \<Rightarrow> pdict" where
  "sent_by_us n =
     dset (dset (dset n ''status'' (PStr ''sent''))
       ''forwarding'' (PDict [(''status'', PStr ''not_forwarded_from_me'')])) ''fromBot'' (PBool False)"

definition message_note :: "pipe_call \<Rightarrow> string \<Rightarrow> string \<Rightarrow> string \<Rightarrow> string \<Rightarrow> string \<Rightarrow> pipeline_note" where
  "message_note call stage status inst conv_id msg_id =
     (note_of stage status inst (pl_request_id call))\<lparr> pn_message_id := Some msg_id, pn_conversation_id := Some conv_id \<rparr>"

definition skipped :: "string \<Rightarrow> pdict" where
  "skipped reason = [(''status'', PStr ''skipped''), (''reason'', PStr reason)]"

text \<open>The flood guard, and before it the test for an echo of what the gateway sent.\<close>

definition echo_and_flood ::
    "pipe_cfg \<Rightarrow> pipe_env \<Rightarrow> pipe_call \<Rightarrow> string \<Rightarrow> string \<Rightarrow> pdict \<Rightarrow> 'f pipe \<Rightarrow> (guard \<times> pdict) res \<times> 'f pipe" where
  "echo_and_flood cfg env call inst conv_id n st =
     (let message = sub_dict n ''message''; msg_id = str_or_empty (dget message ''id'');
          from_me = truthy (dget message ''fromMe'');
          n = (if from_me then sent_by_us n else n)
      in case string_arg AttributeError (dget message ''from'') of
           Inl e \<Rightarrow> (Inl e, st)
         | Inr jid \<Rightarrow>
             (let payload_text = str_or_empty (py_or (dget message ''text'') (dget (sub_dict n ''media'') ''caption''));
                  (echo, es) = (if from_me then (False, pp_echo st)
                    else looks_like_outbound_echo (pe_sha1 env) (pl_now call) (Some inst) jid
                           (py_str (py_or (dget message ''kind'') (PStr ''unknown''))) payload_text (pp_echo st));
                  st = st\<lparr> pp_echo := es \<rparr>
              in if echo
                 then (Inr (Filtered ''echo_filtered'' (skipped ''outbound_echo''), n),
                       inc ''anti_loop_echo_total''
                         (emit cfg call (message_note call ''anti_loop'' ''skipped_outbound_echo'' inst conv_id msg_id) st))
                 else
                   (let ((flooded, count), fs) =
                          is_flood (pc_flood_window cfg) (pc_flood_max cfg) (pl_now call) conv_id (pp_flood st);
                        st = st\<lparr> pp_flood := fs \<rparr>;
                        messages = (''messagesInWindow'', PInt (int count))
                    in if flooded
                       then (Inr (Filtered ''throttled'' (skipped ''throttled'' @ [messages]), n),
                             inc ''flood_throttled_total''
                               (emit cfg call ((message_note call ''flood_guard'' ''throttled'' inst conv_id msg_id)
                                  \<lparr> pn_details := [messages] \<rparr>) st))
                       else (Inr (Passed, n), st))))"

definition message_guards ::
    "pipe_cfg \<Rightarrow> pipe_env \<Rightarrow> pipe_call \<Rightarrow> string \<Rightarrow> string \<Rightarrow> pdict \<Rightarrow> 'f pipe \<Rightarrow> (guard \<times> pdict) res \<times> 'f pipe" where
  "message_guards cfg env call inst conv_id n st =
     (let msg_id = str_or_empty (dget (sub_dict n ''message'') ''id''); now = pl_now call;
          (seen, ds) = (if msg_id = [] then (False, pp_dedupe st) else ttl_exists now msg_id (pp_dedupe st));
          st = st\<lparr> pp_dedupe := ds \<rparr>
      in if seen
         then (Inr (Filtered ''duplicate'' (skipped ''duplicate_id''), n),
               inc ''dedupe_message_id_total''
                 (emit cfg call (message_note call ''dedupe'' ''skipped_duplicate_id'' inst conv_id msg_id) st))
         else
           (let st = (if msg_id = [] then st else st\<lparr> pp_dedupe := ttl_put now msg_id (pp_dedupe st) \<rparr>)
            in case event_fingerprint (pe_sha1 env) inst n of
                 Inl e \<Rightarrow> (Inl e, st)
               | Inr fp \<Rightarrow>
                   (let (seen, ds) = ttl_exists now fp (pp_dedupe st); st = st\<lparr> pp_dedupe := ds \<rparr>
                    in if seen
                       then (Inr (Filtered ''duplicate_fp'' (skipped ''duplicate_fingerprint''), n),
                             inc ''dedupe_fingerprint_total''
                               (emit cfg call (message_note call ''dedupe'' ''skipped_duplicate_fingerprint'' inst conv_id msg_id) st))
                       else echo_and_flood cfg env call inst conv_id n (st\<lparr> pp_dedupe := ttl_put now fp (pp_dedupe st) \<rparr>))))"

section \<open>Storing\<close>

text \<open>What the last step answers: the error it caught, or nothing.\<close>

definition not_stored :: py_exc where
  "not_stored = RuntimeError ''No se pudo persistir el evento de negocio en el almacenamiento del Gateway''"

definition persist_and_route ::
    "pipe_cfg \<Rightarrow> pipe_env \<Rightarrow> pipe_call \<Rightarrow> string \<Rightarrow> string \<Rightarrow> string \<Rightarrow> pdict \<Rightarrow> pdict \<Rightarrow> pdict \<Rightarrow> 'f pipe
     \<Rightarrow> pipe_result \<times> 'f pipe" where
  "persist_and_route cfg env call inst conv_id event n trace classification st =
     (let msg_id = or_none (str_or_empty (dget (sub_dict n ''message'') ''id''));
          note = (\<lambda>stage status. (note_of stage status inst (pl_request_id call))
                    \<lparr> pn_message_id := msg_id, pn_conversation_id := Some conv_id \<rparr>);
          (res, n, tml) = save_event (pc_retention cfg) (pl_write_ok call ''persist_event'') (pl_attempts_ok call)
                           (pl_now call) n (pp_timeline st);
          st = st\<lparr> pp_timeline := tml \<rparr>;
          failure = (case res of Inl e \<Rightarrow> Some e | Inr ok \<Rightarrow> if ok then None else Some not_stored)
      in case failure of
           Some e \<Rightarrow>
             (let text = pe_error_text env e;
                  st = emit cfg call ((note ''persist'' ''error'')\<lparr> pn_event := event,
                         pn_details := [(''error'', PStr (take 220 text))] \<rparr>) (inc ''persist_error_total'' st)
              in (finish ''persist_error'' n
                    (dset trace ''persist'' (PDict [(''status'', PStr ''error''), (''error'', PStr text)])) classification, st))
         | None \<Rightarrow>
             (let trace = dset trace ''persist'' (PDict [(''status'', PStr ''ok'')]);
                  trace = dset trace ''route'' (PDict [(''status'', PStr ''ok''), (''toTimeline'', PBool True),
                            (''toBotCandidate'', PBool (dget n ''layer'' = PStr ''business''))]);
                  st = inc ''business_processed_total''
                         (emit cfg call (note ''normalized'' ''ok'') (inc ''persist_ok_total'' st))
              in (finish ''ok'' n trace classification, st)))"

section \<open>The pipeline\<close>

definition age_trace :: "pdict \<Rightarrow> int option \<Rightarrow> int \<Rightarrow> pdict \<Rightarrow> pdict" where
  "age_trace n age max_age trace =
     (case age of
        Some a \<Rightarrow> dset trace ''age'' (PDict [(''status'', PStr ''ok''), (''ageSeconds'', PInt a),
                   (''maxAgeSeconds'', PInt max_age), (''sourceTimestamp'', dget n ''sourceTimestamp'')])
      | None \<Rightarrow> if max_age > 0
                then dset trace ''age'' (PDict [(''status'', PStr ''missing_source_timestamp''), (''maxAgeSeconds'', PInt max_age)])
                else trace)"

definition is_stale :: "int option \<Rightarrow> int \<Rightarrow> bool" where
  "is_stale age max_age \<longleftrightarrow> max_age > 0 \<and> (case age of None \<Rightarrow> False | Some a \<Rightarrow> a > max_age)"

definition drop_stale ::
    "pipe_cfg \<Rightarrow> pipe_call \<Rightarrow> string \<Rightarrow> string \<Rightarrow> string \<Rightarrow> pdict \<Rightarrow> int \<Rightarrow> int \<Rightarrow> 'f pipe \<Rightarrow> 'f pipe" where
  "drop_stale cfg call inst conv_id event n age max_age st =
     inc ''stale_dropped_total'' (emit cfg call
       ((note_of ''stale_guard'' ''dropped_stale'' inst (pl_request_id call))
         \<lparr> pn_message_id := or_none (str_or_empty (dget (sub_dict n ''message'') ''id'')),
           pn_conversation_id := Some conv_id, pn_event := event,
           pn_details := [(''ageSeconds'', PInt age), (''maxAgeSeconds'', PInt max_age),
                          (''sourceTimestamp'', dget n ''sourceTimestamp'')] \<rparr>) st)"

text \<open>An event that is not stale: the filters, and what passes them is stored.\<close>

definition record_raw :: "pipe_cfg \<Rightarrow> pipe_call \<Rightarrow> pdict \<Rightarrow> pdict \<Rightarrow> 'f pipe \<Rightarrow> 'f pipe" where
  "record_raw cfg call payload n st =
     st\<lparr> pp_timeline := save_raw_event (pc_retention cfg) (pc_debug cfg)
           [(''requestId'', PStr (pl_request_id call)), (''payload'', PDict payload),
            (''normalized'', PDict n), (''timestamp'', PInt (pl_now call))] (pp_timeline st) \<rparr>"

definition guarded ::
    "pipe_cfg \<Rightarrow> pipe_env \<Rightarrow> pipe_call \<Rightarrow> string \<Rightarrow> string \<Rightarrow> string \<Rightarrow> pdict \<Rightarrow> 'f pipe \<Rightarrow> (guard \<times> pdict) res \<times> 'f pipe" where
  "guarded cfg env call inst conv_id event n st =
     (if event \<in> {''MESSAGES_UPSERT'', ''SEND_MESSAGE''}
      then message_guards cfg env call inst conv_id n st else (Inr (Passed, n), st))"

definition filter_and_store ::
    "pipe_cfg \<Rightarrow> pipe_env \<Rightarrow> pipe_call \<Rightarrow> string \<Rightarrow> string \<Rightarrow> string \<Rightarrow> pdict \<Rightarrow> pdict \<Rightarrow> pdict \<Rightarrow> pdict \<Rightarrow> 'f pipe
     \<Rightarrow> pipe_result res \<times> 'f pipe" where
  "filter_and_store cfg env call inst conv_id event payload n trace classification st =
     (case guarded cfg env call inst conv_id event n (record_raw cfg call payload (with_trace trace n) st) of
        (Inl e, st) \<Rightarrow> (Inl e, st)
      | (Inr (Filtered status route, n), st) \<Rightarrow>
          (Inr (finish status n (dset trace ''route'' (PDict route)) classification), st)
      | (Inr (Passed, n), st) \<Rightarrow>
          (case persist_and_route cfg env call inst conv_id event (with_trace trace n) trace classification st of
             (r, st) \<Rightarrow> (Inr r, st)))"

text \<open>The age of the event decides whether it goes on.\<close>

definition age_gate ::
    "pipe_cfg \<Rightarrow> pipe_env \<Rightarrow> pipe_call \<Rightarrow> string \<Rightarrow> string \<Rightarrow> string \<Rightarrow> pdict \<Rightarrow> pdict \<Rightarrow> pdict \<Rightarrow> pdict \<Rightarrow> 'f pipe
     \<Rightarrow> pipe_result res \<times> 'f pipe" where
  "age_gate cfg env call inst conv_id event payload n trace classification st =
     (let max_age = max 0 (pc_max_age cfg);
          age = event_age_seconds n (pl_now call);
          trace = age_trace n age max_age trace;
          st = (if age = None \<and> max_age > 0 then inc ''stale_guard_missing_timestamp_total'' st else st)
      in if is_stale age max_age
         then (Inr (finish ''stale_dropped'' n
                 (dset trace ''route'' (PDict [(''status'', PStr ''dropped''), (''reason'', PStr ''stale_event''),
                   (''ageSeconds'', pint_opt age)])) classification),
               drop_stale cfg call inst conv_id event n (the age) max_age st)
         else filter_and_store cfg env call inst conv_id event payload n trace classification st)"

text \<open>From the enrichment of a business event on.\<close>

definition process_business ::
    "pipe_cfg \<Rightarrow> pipe_env \<Rightarrow> pipe_call \<Rightarrow> string \<Rightarrow> pdict \<Rightarrow> pdict \<Rightarrow> pdict \<Rightarrow> pdict \<Rightarrow> 'f pipe
     \<Rightarrow> pipe_result res \<times> 'f pipe" where
  "process_business cfg env call inst payload n trace classification st =
     (case string_arg AttributeError (dget (sub_dict n ''message'') ''from'') of
        Inl e \<Rightarrow> (Inl e, st)
      | Inr jid \<Rightarrow>
          (let conv_id = conversation_id (Some inst) jid;
               n = enrich_contract (pl_request_id call) conv_id trace classification n;
               trace = dset trace ''enrich'' (PDict [(''status'', PStr ''ok''), (''conversationId'', PStr conv_id)]);
               event = py_str (py_or (dget n ''event'') (py_or (dget payload ''event'') (PStr ''UNKNOWN'')))
           in age_gate cfg env call inst conv_id event payload n trace classification
                (emit cfg call ((note_of ''ingest'' ''ok'' inst (pl_request_id call))\<lparr> pn_event := event \<rparr>) st)))"

definition process_event ::
    "pipe_cfg \<Rightarrow> pipe_env \<Rightarrow> pipe_call \<Rightarrow> string \<Rightarrow> pdict \<Rightarrow> pdict \<Rightarrow> pdict \<Rightarrow> 'f pipe
     \<Rightarrow> pipe_result res \<times> 'f pipe" where
  "process_event cfg env call inst payload n trace st =
     (case classify_event payload n of
        Inl e \<Rightarrow> (Inl e, st)
      | Inr classification \<Rightarrow>
          (let trace = dset trace ''classify'' (PDict (dmerge [(''status'', PStr ''ok'')] classification));
               st = (if unknown_type n
                     then (inc ''normalization_fallback_total'' st)
                       \<lparr> pp_unknown := count_up (py_str (py_or (dget n ''originalType'') (PStr ''unknown''))) (pp_unknown st) \<rparr>
                     else st)
           in if dget n ''layer'' = PStr ''technical''
              then (Inr (finish ''ignored_technical'' n
                      (dset trace ''route'' (PDict [(''status'', PStr ''ignored''),
                        (''reason'', py_or (dget n ''reason'') (PStr ''technical_event''))])) classification),
                    emit cfg call ((note_of ''route'' ''ignored_transport'' inst (pl_request_id call))
                      \<lparr> pn_event := py_str (py_or (dget n ''event'') (py_or (dget payload ''event'') (PStr ''UNKNOWN''))),
                        pn_details := [(''reason'', dget n ''reason'')] \<rparr>) (inc ''transport_ignored_total'' st))
              else process_business cfg env call inst payload n trace classification st))"

definition record_session :: "pipe_env \<Rightarrow> pipe_call \<Rightarrow> pdict \<Rightarrow> 'f pipe \<Rightarrow> 'f pipe" where
  "record_session env call payload st =
     (case connection_update (de_record (ig_dispatch (pe_ingest env))) (pl_stamp call) payload of
        Inr (Some update) \<Rightarrow> st\<lparr> pp_sessions := pp_sessions st @ [update] \<rparr>
      | _ \<Rightarrow> st)"

definition process_incoming_webhook ::
    "'f enqueue_op \<Rightarrow> pipe_cfg \<Rightarrow> pipe_env \<Rightarrow> pipe_call \<Rightarrow> pdict \<Rightarrow> 'f pipe \<Rightarrow> pipe_result res \<times> 'f pipe" where
  "process_incoming_webhook enq cfg env call payload st =
     (let inst = (if dhas payload ''instance'' then py_str (dget payload ''instance'') else ''unknown'');
          trace = [(''ingest'', PDict [(''status'', PStr ''ok''), (''at'', PInt (pl_now call))])];
          st = record_session env call payload (inc ''ingest_total'' st)
      in case normalize_webhook (pe_norm env) payload of
           Inl e \<Rightarrow>
             (let text = pe_error_text env e in
              (Inr (finish ''normalize_error'' []
                 (dset trace ''normalize'' (PDict [(''status'', PStr ''error''), (''error'', PStr text)])) []),
               emit cfg call ((note_of ''normalize'' ''error'' inst (pl_request_id call))
                 \<lparr> pn_details := [(''error'', PStr (take 220 text))] \<rparr>) (inc ''normalize_error_total'' st)))
         | Inr n \<Rightarrow>
             if is_group_message payload \<or> is_group_message n
             then (case ingest_group enq (pe_ingest env) (pl_ingest call) payload n (pp_timeline st) (pp_outbox st) of
                     (Inl e, tml, f) \<Rightarrow> (Inl e, st\<lparr> pp_timeline := tml, pp_outbox := f \<rparr>)
                   | (Inr result, tml, f) \<Rightarrow>
                       (let ignored = (result = ''ignored_group'') in
                        (Inr (finish result n (dset trace ''route'' (PDict [(''status'', PStr result),
                           (''reason'', PStr (if ignored then ''group_messages_disabled'' else result))])) []),
                         inc (if ignored then ''group_messages_ignored_total'' else result @ ''_total'')
                           (st\<lparr> pp_timeline := tml, pp_outbox := f \<rparr>))))
             else process_event cfg env call inst payload n trace st)"

end
