(* ===== verification/Event_Pipeline_Spec.thy ===== *)
theory Event_Pipeline_Spec
  imports Event_Pipeline Reliability_Spec Timeline_Spec Group_Ingest_Spec
begin

text \<open>
  What the inbound pipeline promises as a whole: the invariants of the timeline and of the
  expiring sets survive every webhook, only accepted events are stored, and what the filters
  do with a message that comes again.
\<close>

section \<open>The parts a step changes\<close>

lemma tl_parts_pipeline_event [simp]:
  "tl_business (save_pipeline_event r ok uid now note t) = tl_business t"
  "tl_key_set (save_pipeline_event r ok uid now note t) = tl_key_set t"
  "tl_key_order (save_pipeline_event r ok uid now note t) = tl_key_order t"
  by (simp_all add: save_pipeline_event_def)

lemma tl_parts_raw_event [simp]:
  "tl_business (save_raw_event r d e t) = tl_business t"
  "tl_key_set (save_raw_event r d e t) = tl_key_set t"
  by (simp_all add: save_raw_event_def)

lemma emit_parts [simp]:
  "pp_dedupe (emit cfg call note st) = pp_dedupe st" "pp_echo (emit cfg call note st) = pp_echo st"
  "pp_outbox (emit cfg call note st) = pp_outbox st" "pp_flood (emit cfg call note st) = pp_flood st"
  "tl_business (pp_timeline (emit cfg call note st)) = tl_business (pp_timeline st)"
  "tl_key_set (pp_timeline (emit cfg call note st)) = tl_key_set (pp_timeline st)"
  by (simp_all add: emit_def)

lemma inc_parts [simp]:
  "pp_dedupe (inc c st) = pp_dedupe st" "pp_echo (inc c st) = pp_echo st" "pp_outbox (inc c st) = pp_outbox st"
  "pp_timeline (inc c st) = pp_timeline st"
  by (simp_all add: inc_def)

lemma record_session_parts [simp]:
  "pp_dedupe (record_session env call p st) = pp_dedupe st" "pp_echo (record_session env call p st) = pp_echo st"
  "pp_outbox (record_session env call p st) = pp_outbox st"
  "pp_timeline (record_session env call p st) = pp_timeline st"
  by (simp_all add: record_session_def split: sum.split option.split)

section \<open>Invariants\<close>

definition pipe_inv :: "pipe_cfg \<Rightarrow> 'f pipe \<Rightarrow> bool" where
  "pipe_inv cfg st \<longleftrightarrow>
     timeline_ok (pc_retention cfg) (pp_timeline st) \<and> ttl_ok (pp_dedupe st) \<and> ttl_ok (pp_echo st)"

named_theorems pipe_intros \<open>steps that keep the invariant of the pipeline\<close>

lemma pipe_inv_emit [pipe_intros]: "pipe_inv cfg st \<Longrightarrow> pipe_inv cfg (emit cfg call note st)"
  by (simp add: pipe_inv_def) (simp add: emit_def save_pipeline_event_def persist_events_ok push_operational_ok)

lemma pipe_inv_inc [pipe_intros]: "pipe_inv cfg st \<Longrightarrow> pipe_inv cfg (inc c st)"
  by (simp add: pipe_inv_def)

lemma pipe_inv_session [pipe_intros]: "pipe_inv cfg st \<Longrightarrow> pipe_inv cfg (record_session env call p st)"
  by (simp add: pipe_inv_def)

lemma pipe_inv_dedupe [pipe_intros]:
  "pipe_inv cfg st \<Longrightarrow> ttl_ok d \<Longrightarrow> pipe_inv cfg (st\<lparr> pp_dedupe := d \<rparr>)"
  "pipe_inv cfg st \<Longrightarrow> ttl_ok d \<Longrightarrow> pipe_inv cfg (st\<lparr> pp_echo := d \<rparr>)"
  "pipe_inv cfg st \<Longrightarrow> pipe_inv cfg (st\<lparr> pp_flood := fs \<rparr>)"
  "pipe_inv cfg st \<Longrightarrow> pipe_inv cfg (st\<lparr> pp_unknown := u \<rparr>)"
  "pipe_inv cfg st \<Longrightarrow> timeline_ok (pc_retention cfg) t \<Longrightarrow> pipe_inv cfg (st\<lparr> pp_timeline := t \<rparr>)"
  by (simp_all add: pipe_inv_def)

lemma pipe_invD:
  "pipe_inv cfg st \<Longrightarrow> ttl_ok (pp_dedupe st)" "pipe_inv cfg st \<Longrightarrow> ttl_ok (pp_echo st)"
  "pipe_inv cfg st \<Longrightarrow> timeline_ok (pc_retention cfg) (pp_timeline st)"
  by (simp_all add: pipe_inv_def)

lemmas pipe_keeps = pipe_intros pipe_invD ttl_put_ok ttl_exists_ok

lemma echo_and_flood_inv:
  "pipe_inv cfg st \<Longrightarrow> pipe_inv cfg (snd (echo_and_flood cfg env call inst conv n st))"
  unfolding echo_and_flood_def looks_like_outbound_echo_def Let_def
  by (auto simp: split_beta intro!: pipe_keeps split: sum.split)

lemma message_guards_inv:
  "pipe_inv cfg st \<Longrightarrow> pipe_inv cfg (snd (message_guards cfg env call inst conv n st))"
  unfolding message_guards_def Let_def
  by (auto simp: split_beta intro!: pipe_keeps echo_and_flood_inv split: sum.split)

lemma persist_and_route_inv:
  assumes "pipe_inv cfg st"
  shows "pipe_inv cfg (snd (persist_and_route cfg env call inst conv ev n trace cl st))"
proof -
  have "timeline_ok (pc_retention cfg) (snd (snd (save_event (pc_retention cfg) a b c e (pp_timeline st))))" for a b c e
    by (rule save_event_ok [OF pipe_invD(3) [OF assms]])
  then show ?thesis
    using assms unfolding persist_and_route_def Let_def
    by (auto simp: split_beta intro!: pipe_intros split: option.split)
qed

lemma save_raw_event_ok: "timeline_ok r t \<Longrightarrow> timeline_ok r (save_raw_event r d e t)"
  by (simp add: save_raw_event_def timeline_ok_def)

lemma guarded_inv: "pipe_inv cfg st \<Longrightarrow> pipe_inv cfg (snd (guarded cfg env call inst conv ev n st))"
  by (simp add: guarded_def message_guards_inv)

lemma record_raw_inv [pipe_intros]: "pipe_inv cfg st \<Longrightarrow> pipe_inv cfg (record_raw cfg call payload n st)"
  unfolding record_raw_def by (intro pipe_keeps save_raw_event_ok)

lemma filter_and_store_inv:
  assumes "pipe_inv cfg st"
  shows "pipe_inv cfg (snd (filter_and_store cfg env call inst conv ev payload n trace cl st))"
proof -
  have g: "pipe_inv cfg (snd (guarded cfg env call inst conv ev n (record_raw cfg call payload (with_trace trace n) st)))"
    by (intro guarded_inv pipe_intros assms)
  then have "pipe_inv cfg (snd (persist_and_route cfg env call inst conv ev n' trace cl
      (snd (guarded cfg env call inst conv ev n (record_raw cfg call payload (with_trace trace n) st)))))" for n'
    by (rule persist_and_route_inv)
  with g show ?thesis
    unfolding filter_and_store_def
    by (auto simp: split_beta split: prod.split sum.split guard.split) (metis snd_conv)
qed

lemma age_gate_inv:
  "pipe_inv cfg st \<Longrightarrow> pipe_inv cfg (snd (age_gate cfg env call inst conv ev payload n trace cl st))"
  unfolding age_gate_def drop_stale_def Let_def by (auto intro!: pipe_intros filter_and_store_inv)

lemma process_business_inv:
  "pipe_inv cfg st \<Longrightarrow> pipe_inv cfg (snd (process_business cfg env call inst payload n trace cl st))"
  unfolding process_business_def Let_def by (auto intro!: pipe_intros age_gate_inv split: sum.split)

lemma process_event_inv:
  "pipe_inv cfg st \<Longrightarrow> pipe_inv cfg (snd (process_event cfg env call inst payload n trace st))"
  unfolding process_event_def Let_def
  by (auto intro!: pipe_intros process_business_inv split: sum.split)

lemma ingest_group_timeline:
  "timeline_ok r t \<Longrightarrow> timeline_ok r (fst (snd (ingest_group enq env call payload n t f)))"
proof (cases rule: ingest_group_cases [of enq env call payload n t f])
  case (2 rec p event)
  assume ok: "timeline_ok r t"
  have "timeline_ok r (snd (index_media a b n t))" for a b
    by (rule timeline_ok_cong [OF ok]) simp_all
  then show ?thesis
    using ok unfolding ingest_group_accepted [OF 2] queue_group_def
    by (auto split: prod.split sum.split if_split) (metis snd_conv)+
qed simp

text \<open>
  C7: Every webhook, whatever it holds and however its processing ends, leaves the pipeline in
  a good state: the timeline within its retention and free of secrets, and the sets of seen
  messages and of sent messages within their size, with one entry for each key.
\<close>

theorem pipeline_keeps_invariants:
  assumes "pipe_inv cfg st"
  shows "pipe_inv cfg (snd (process_incoming_webhook enq cfg env call payload st))"
proof -
  let ?st = "record_session env call payload (inc ''ingest_total'' st)"
  have inv: "pipe_inv cfg ?st" by (intro pipe_intros assms)
  have group: "pipe_inv cfg (?st\<lparr> pp_timeline := fst (snd (ingest_group enq (pe_ingest env) (pl_ingest call) payload n
      (pp_timeline ?st) (pp_outbox ?st))), pp_outbox := f \<rparr>)" for n f
    using ingest_group_timeline [OF pipe_invD(3) [OF inv]] inv by (simp add: pipe_inv_def)
  show ?thesis
  proof (cases "normalize_webhook (pe_norm env) payload")
    case (Inl e)
    then show ?thesis unfolding process_incoming_webhook_def Let_def by (simp add: inv pipe_intros)
  next
    case (Inr n)
    obtain res t f where g: "ingest_group enq (pe_ingest env) (pl_ingest call) payload n (pp_timeline ?st) (pp_outbox ?st)
        = (res, t, f)" by (cases "ingest_group enq (pe_ingest env) (pl_ingest call) payload n (pp_timeline ?st) (pp_outbox ?st)")
    show ?thesis
    proof (cases "is_group_message payload \<or> is_group_message n")
      case True
      then show ?thesis
        using group [of f n] unfolding process_incoming_webhook_def Let_def Inr sum.case g
        by (cases res) (simp_all add: pipe_intros)
    next
      case False
      then show ?thesis
        unfolding process_incoming_webhook_def Let_def Inr sum.case by (simp add: process_event_inv inv)
    qed
  qed
qed

definition empty_pipe :: "outbox_file pipe" where
  "empty_pipe =
     \<lparr> pp_timeline = empty_timeline, pp_dedupe = \<lparr> ts_ttl_seconds = 180, ts_max_items = 9, ts_store = [] \<rparr>,
       pp_echo = \<lparr> ts_ttl_seconds = 45, ts_max_items = 9, ts_store = [] \<rparr>, pp_flood = no_flood,
       pp_counters = [], pp_unknown = [], pp_sessions = [], pp_outbox = Absent \<rparr>"

definition small_cfg :: pipe_cfg where
  "small_cfg = \<lparr> pc_retention = 5, pc_debug = False, pc_max_age = 0, pc_flood_window = 3, pc_flood_max = 12 \<rparr>"

definition small_env :: pipe_env where
  "small_env =
     \<lparr> pe_norm = \<lparr> ne_now_ms = 1000, ne_event_uuid = ''u'', ne_media_uuid = ''v'', ne_sha256 = id,
                  ne_loads = (\<lambda>_. None), ne_fromiso = (\<lambda>_. None) \<rparr>,
       pe_sha1 = (\<lambda>_. ''fp''), pe_ingest = group_ingest_env, pe_error_text = (\<lambda>_. ''failed'') \<rparr>"

definition small_call :: "int \<Rightarrow> bool \<Rightarrow> pipe_call" where
  "small_call now ok =
     \<lparr> pl_now = now, pl_stamp = ''t'', pl_uid = (\<lambda>s. s), pl_write_ok = (\<lambda>_. ok), pl_attempts_ok = True,
       pl_ingest = group_call now ok, pl_request_id = ''r'' \<rparr>"

lemma empty_pipe_inv: "pipe_inv small_cfg empty_pipe"
  by (simp add: pipe_inv_def empty_pipe_def ttl_ok_def timeline_ok_def clean_def empty_timeline_def)

lemma pipeline_keeps_invariants_witness:
  "pipe_inv small_cfg (snd (process_incoming_webhook (enqueue 7) small_cfg small_env (small_call 5 True)
     group_payload empty_pipe))"
  by (rule pipeline_keeps_invariants [OF empty_pipe_inv])

section \<open>Lists of updates\<close>

lemma process_normal:
  assumes "normalize_webhook (pe_norm env) payload = Inr n" and "\<not> is_group_message payload" and "\<not> is_group_message n"
  obtains inst trace where "process_incoming_webhook enq cfg env call payload st =
    process_event cfg env call inst payload n trace (record_session env call payload (inc ''ingest_total'' st))"
  using assms by (simp add: process_incoming_webhook_def Let_def)

text \<open>
  A webhook whose data is a non-empty list fails with an exception, although normalisation
  has accepted it: the status updates and technical events that the provider reports as a list
  are never answered, counted or stored.
\<close>

theorem list_payload_fails:
  assumes "normalize_webhook (pe_norm env) payload = Inr n" and "\<not> is_group_message payload" and "\<not> is_group_message n"
    and "dget payload ''data'' = PList (x # xs)"
  shows "fst (process_incoming_webhook enq cfg env call payload st) = Inl AttributeError \<and>
    tl_business (pp_timeline (snd (process_incoming_webhook enq cfg env call payload st))) =
      tl_business (pp_timeline st)"
proof -
  have c: "classify_event payload n = Inl AttributeError"
    using assms(4) by (simp add: classify_event_def py_or_def)
  obtain inst trace where p: "process_incoming_webhook enq cfg env call payload st =
      process_event cfg env call inst payload n trace (record_session env call payload (inc ''ingest_total'' st))"
    by (rule process_normal [OF assms(1-3)])
  show ?thesis by (simp add: p process_event_def c)
qed

definition list_update :: pdict where
  "list_update =
     [(''event'', PStr ''messages.update''), (''instance'', PStr ''wa1''),
      (''data'', PList [PDict [(''key'', PDict [(''id'', PStr ''m1'')]), (''status'', PStr ''READ'')]])]"

lemma list_update_normalises:
  "(case normalize_webhook (pe_norm small_env) list_update of
      Inl _ \<Rightarrow> False
    | Inr n \<Rightarrow> dget n ''layer'' = PStr ''business'' \<and> dget n ''status'' = PStr ''read'' \<and>
        dget n ''messageId'' = PStr ''m1'' \<and> \<not> is_group_message n)"
  by code_simp

lemma list_payload_fails_witness:
  "fst (process_incoming_webhook (enqueue 7) small_cfg small_env (small_call 5 True) list_update empty_pipe) =
     Inl AttributeError"
proof -
  obtain n where n: "normalize_webhook (pe_norm small_env) list_update = Inr n" "\<not> is_group_message n"
    using list_update_normalises by (auto split: sum.splits)
  have g: "\<not> is_group_message list_update" by code_simp
  show ?thesis by (rule conjunct1 [OF list_payload_fails [OF n(1) g n(2)]]) (simp add: list_update_def dget_Cons)
qed

section \<open>What is stored\<close>

lemma message_dset [simp]: "dget (sent_by_us n) ''message'' = dget n ''message''"
  by (simp add: sent_by_us_def)

lemma message_with_trace [simp]: "dget (with_trace trace n) ''message'' = dget n ''message''"
  by (simp add: with_trace_def)

lemma message_enrich [simp]: "dget (enrich_contract r c t cl n) ''message'' = dget n ''message''"
  by (simp add: enrich_contract_def)

definition filter_statuses :: "string list" where
  "filter_statuses = [''duplicate'', ''duplicate_fp'', ''echo_filtered'', ''throttled'']"

lemma filter_statuses_mem [simp]:
  "''duplicate'' \<in> set filter_statuses" "''duplicate_fp'' \<in> set filter_statuses"
  "''echo_filtered'' \<in> set filter_statuses" "''throttled'' \<in> set filter_statuses"
  "''ok'' \<notin> set filter_statuses" "''persist_error'' \<notin> set filter_statuses"
  by (simp_all add: filter_statuses_def)

lemma echo_and_flood_parts:
  "pp_dedupe (snd (echo_and_flood cfg env call inst conv n st)) = pp_dedupe st"
  "tl_business (pp_timeline (snd (echo_and_flood cfg env call inst conv n st))) = tl_business (pp_timeline st)"
  "fst (echo_and_flood cfg env call inst conv n st) = Inr (Filtered status route, n') \<Longrightarrow>
     status \<in> set filter_statuses"
  by (auto simp: echo_and_flood_def Let_def split_beta split: sum.splits if_splits)

lemma message_guards_parts:
  "tl_business (pp_timeline (snd (message_guards cfg env call inst conv n st))) = tl_business (pp_timeline st)"
  "fst (message_guards cfg env call inst conv n st) = Inr (Filtered status route, n') \<Longrightarrow>
     status \<in> set filter_statuses"
  by (auto simp: message_guards_def Let_def split_beta echo_and_flood_parts(1,2)
      split: sum.splits if_splits dest: echo_and_flood_parts(3))

lemma guarded_parts:
  "tl_business (pp_timeline (snd (guarded cfg env call inst conv ev n st))) = tl_business (pp_timeline st)"
  "fst (guarded cfg env call inst conv ev n st) = Inr (Filtered status route, n') \<Longrightarrow>
     status \<in> set filter_statuses"
  by (auto simp: guarded_def message_guards_parts(1) split: if_splits dest: message_guards_parts(2))

lemma record_raw_parts [simp]:
  "pp_dedupe (record_raw cfg call payload n st) = pp_dedupe st"
  "tl_business (pp_timeline (record_raw cfg call payload n st)) = tl_business (pp_timeline st)"
  by (simp_all add: record_raw_def)

lemma persist_and_route_parts:
  "pp_dedupe (snd (persist_and_route cfg env call inst conv ev n trace cl st)) = pp_dedupe st"
  "pr_status (fst (persist_and_route cfg env call inst conv ev n trace cl st)) \<in> {''ok'', ''persist_error''}"
  by (simp_all add: persist_and_route_def Let_def split_beta finish_def split: option.split)

lemma save_event_business:
  "save_event r ok aok now e t = (res, e', t') \<Longrightarrow>
    tl_business t' = tl_business t \<or> tl_business t' = push r (redact_items e') (tl_business t)"
  by (auto simp: save_event_def Let_def dest: store_event_lists(1) split: if_splits option.splits)

lemma persist_and_route_business:
  "tl_business (pp_timeline (snd (persist_and_route cfg env call inst conv ev n trace cl st))) = tl_business (pp_timeline st) \<or>
   (\<exists>e. tl_business (pp_timeline (snd (persist_and_route cfg env call inst conv ev n trace cl st))) =
      push (pc_retention cfg) (redact_items e) (tl_business (pp_timeline st)))"
proof -
  obtain res e t where s: "save_event (pc_retention cfg) (pl_write_ok call ''persist_event'') (pl_attempts_ok call)
      (pl_now call) n (pp_timeline st) = (res, e, t)" by (metis surj_pair)
  show ?thesis
    using save_event_business [OF s] by (auto simp: persist_and_route_def Let_def s split: option.split)
qed

text \<open>How an event that is not filtered ends.\<close>

lemma filter_and_store_result:
  assumes "filter_and_store cfg env call inst conv ev payload n trace cl st = (Inr r, st')"
  obtains route n' where "pr_status r \<in> set filter_statuses"
      "guarded cfg env call inst conv ev n (record_raw cfg call payload (with_trace trace n) st) =
        (Inr (Filtered (pr_status r) route, n'), st')"
  | n' st1 where "guarded cfg env call inst conv ev n (record_raw cfg call payload (with_trace trace n) st) =
        (Inr (Passed, n'), st1)"
      "persist_and_route cfg env call inst conv ev (with_trace trace n') trace cl st1 = (r, st')"
proof -
  obtain res st1 where g: "guarded cfg env call inst conv ev n (record_raw cfg call payload (with_trace trace n) st) =
      (res, st1)" by (metis surj_pair)
  note f = guarded_parts(2) [of cfg env call inst conv ev n "record_raw cfg call payload (with_trace trace n) st"]
  from assms g obtain gd n' where "res = Inr (gd, n')"
    by (cases res) (auto simp: filter_and_store_def)
  then show ?thesis
    using assms that g f by (cases gd) (auto simp: filter_and_store_def finish_def split: prod.splits)
qed

lemma filter_and_store_business:
  assumes r: "filter_and_store cfg env call inst conv ev payload n trace cl st = (Inr r, st')"
    and changed: "tl_business (pp_timeline st') \<noteq> tl_business (pp_timeline st)"
  shows "pr_status r \<in> {''ok'', ''persist_error''} \<and>
    (\<exists>e. tl_business (pp_timeline st') = push (pc_retention cfg) (redact_items e) (tl_business (pp_timeline st)))"
  using r
proof (cases rule: filter_and_store_result)
  case (1 route n')
  then show ?thesis
    using guarded_parts(1) [of cfg env call inst conv ev n "record_raw cfg call payload (with_trace trace n) st"] changed
    by simp
next
  case (2 n' st1)
  have b: "tl_business (pp_timeline st1) = tl_business (pp_timeline st)"
    using guarded_parts(1) [of cfg env call inst conv ev n "record_raw cfg call payload (with_trace trace n) st"] 2(1)
    by simp
  show ?thesis
    using persist_and_route_parts(2) [of cfg env call inst conv ev "with_trace trace n'" trace cl st1]
      persist_and_route_business [of cfg env call inst conv ev "with_trace trace n'" trace cl st1] changed
    by (simp add: 2(2) b)
qed

lemma filter_and_store_Inl:
  assumes "filter_and_store cfg env call inst conv ev payload n trace cl st = (Inl e, st')"
  shows "tl_business (pp_timeline st') = tl_business (pp_timeline st)"
proof -
  have "st' = snd (guarded cfg env call inst conv ev n (record_raw cfg call payload (with_trace trace n) st))"
    using assms by (auto simp: filter_and_store_def split: prod.splits sum.splits guard.splits)
  then show ?thesis by (simp add: guarded_parts(1))
qed

lemma age_gate_cases:
  obtains r st' where "age_gate cfg env call inst conv ev payload n trace cl st = (Inr r, st')" "pr_status r = ''stale_dropped''"
      "tl_business (pp_timeline st') = tl_business (pp_timeline st)"
  | trace' st0 where "age_gate cfg env call inst conv ev payload n trace cl st =
        filter_and_store cfg env call inst conv ev payload n trace' cl st0"
      "pp_dedupe st0 = pp_dedupe st" "tl_business (pp_timeline st0) = tl_business (pp_timeline st)"
proof (cases "is_stale (event_age_seconds n (pl_now call)) (max 0 (pc_max_age cfg))")
  case True
  then show ?thesis using that(1) by (simp add: age_gate_def Let_def finish_def drop_stale_def)
next
  case False
  let ?st = "if event_age_seconds n (pl_now call) = None \<and> max 0 (pc_max_age cfg) > 0
    then inc ''stale_guard_missing_timestamp_total'' st else st"
  show ?thesis
    by (rule that(2) [of "age_trace n (event_age_seconds n (pl_now call)) (max 0 (pc_max_age cfg)) trace" ?st])
      (simp_all only: age_gate_def Let_def False if_False, simp_all)
qed

lemma process_business_cases:
  obtains e where "process_business cfg env call inst payload n trace cl st = (Inl e, st)"
  | conv n' trace' st0 where "process_business cfg env call inst payload n trace cl st =
        age_gate cfg env call inst conv (py_str (py_or (dget n ''event'') (py_or (dget payload ''event'') (PStr ''UNKNOWN''))))
          payload n' trace' cl st0"
      "dget n' ''message'' = dget n ''message''" "pp_dedupe st0 = pp_dedupe st"
      "tl_business (pp_timeline st0) = tl_business (pp_timeline st)"
proof (cases "string_arg AttributeError (dget (sub_dict n ''message'') ''from'')")
  case (Inl e)
  then show ?thesis using that(1) by (simp add: process_business_def)
next
  case (Inr jid)
  have ev: "dget (enrich_contract r c t l n) ''event'' = dget n ''event''" for r c t l by (simp add: enrich_contract_def)
  show ?thesis
    by (rule that(2)) (simp add: process_business_def Inr Let_def ev, simp_all)
qed

lemma process_event_cases:
  obtains res st' where "process_event cfg env call inst payload n trace st = (res, st')"
      "tl_business (pp_timeline st') = tl_business (pp_timeline st)"
      "dget n ''layer'' = PStr ''technical'' \<or> (\<exists>e. res = Inl e)"
  | cl trace' st0 where "process_event cfg env call inst payload n trace st =
        process_business cfg env call inst payload n trace' cl st0"
      "pp_dedupe st0 = pp_dedupe st" "tl_business (pp_timeline st0) = tl_business (pp_timeline st)"
proof (cases "classify_event payload n")
  case (Inl e)
  then show ?thesis using that(1) by (simp add: process_event_def)
next
  case (Inr cl)
  show ?thesis
  proof (cases "dget n ''layer'' = PStr ''technical''")
    case True
    then show ?thesis using that(1) by (simp add: process_event_def Inr Let_def)
  next
    case False
    show ?thesis
      using that(2) False by (cases "unknown_type n") (simp_all add: process_event_def Inr Let_def)
  qed
qed

lemma process_business_stores:
  assumes "process_business cfg env call inst payload n trace cl st = (res, st')"
    and "tl_business (pp_timeline st') \<noteq> tl_business (pp_timeline st)"
  shows "\<exists>r e. res = Inr r \<and> pr_status r \<in> {''ok'', ''persist_error''} \<and>
    tl_business (pp_timeline st') = push (pc_retention cfg) (redact_items e) (tl_business (pp_timeline st))"
proof (cases rule: process_business_cases [of cfg env call inst payload n trace cl st])
  case (1 e)
  then show ?thesis using assms by simp
next
  case (2 conv n' trace' st0)
  let ?ev = "py_str (py_or (dget n ''event'') (py_or (dget payload ''event'') (PStr ''UNKNOWN'')))"
  have gate: "age_gate cfg env call inst conv ?ev payload n' trace' cl st0 = (res, st')" using 2(1) assms(1) by simp
  show ?thesis
  proof (cases rule: age_gate_cases [of cfg env call inst conv ?ev payload n' trace' cl st0])
    case (1 r st'')
    then show ?thesis using gate assms(2) 2(4) by simp
  next
    case (2 trace'' st1)
    then have f: "filter_and_store cfg env call inst conv ?ev payload n' trace'' cl st1 = (res, st')" using gate by simp
    have b: "tl_business (pp_timeline st1) = tl_business (pp_timeline st)"
      using 2(3) \<open>tl_business (pp_timeline st0) = tl_business (pp_timeline st)\<close> by simp
    show ?thesis
    proof (cases res)
      case (Inl e)
      then show ?thesis using filter_and_store_Inl [OF f [unfolded Inl]] assms(2) b by simp
    next
      case (Inr r)
      then show ?thesis using filter_and_store_business [OF f [unfolded Inr]] assms(2) b by simp
    qed
  qed
qed

lemma ingest_group_business:
  "tl_business (fst (snd (ingest_group enq env call payload n t f))) = tl_business t"
proof (cases rule: ingest_group_cases [of enq env call payload n t f])
  case (2 rec p event)
  have "tl_business t' = tl_business t" if "index_media a b n t = (x, t')" for a b x t'
    using index_media_parts(1) [of a b n t] that by simp
  then show ?thesis
    unfolding ingest_group_accepted [OF 2] queue_group_def
    by (auto split: prod.split sum.split if_split)
qed simp

lemma webhook_stores:
  assumes "process_incoming_webhook enq cfg env call payload st = (res, st')"
    and "tl_business (pp_timeline st') \<noteq> tl_business (pp_timeline st)"
  shows "\<exists>r e. res = Inr r \<and> pr_status r \<in> {''ok'', ''persist_error''} \<and>
    tl_business (pp_timeline st') = push (pc_retention cfg) (redact_items e) (tl_business (pp_timeline st))"
proof (cases "normalize_webhook (pe_norm env) payload")
  case (Inl e)
  then show ?thesis using assms by (auto simp: process_incoming_webhook_def Let_def)
next
  case (Inr n)
  show ?thesis
  proof (cases "is_group_message payload \<or> is_group_message n")
    case True
    have "tl_business (pp_timeline st') = tl_business (pp_timeline st)"
      using assms(1) True ingest_group_business [of enq "pe_ingest env" "pl_ingest call" payload n "pp_timeline st" "pp_outbox st"]
      by (auto simp: process_incoming_webhook_def Let_def Inr split: prod.splits sum.splits)
    then show ?thesis using assms(2) by simp
  next
    case False
    let ?st = "record_session env call payload (inc ''ingest_total'' st)"
    have g: "\<not> is_group_message payload" "\<not> is_group_message n" using False by auto
    obtain inst trace where "process_incoming_webhook enq cfg env call payload st =
        process_event cfg env call inst payload n trace ?st" by (rule process_normal [OF Inr g])
    then have p: "process_event cfg env call inst payload n trace ?st = (res, st')" using assms(1) by simp
    show ?thesis
    proof (cases rule: process_event_cases [of cfg env call inst payload n trace ?st])
      case (1 res' st'')
      then show ?thesis using p assms(2) by simp
    next
      case (2 cl trace' st0)
      then show ?thesis using process_business_stores [of cfg env call inst payload n trace' cl st0 res st'] p assms(2) by simp
    qed
  qed
qed

text \<open>
  C10: Only a message that has passed every filter reaches the activity timeline: when a webhook
  changes the list of business events, its processing ended as stored or as not written to
  disk, and the list has gained exactly one event at its front, without its secrets. Technical,
  stale, duplicate, echoed, throttled, group and failing webhooks leave it as it is.
\<close>

theorem only_accepted_events_stored:
  "tl_business (pp_timeline (snd (process_incoming_webhook enq cfg env call payload st))) = tl_business (pp_timeline st) \<or>
   (\<exists>r e. fst (process_incoming_webhook enq cfg env call payload st) = Inr r \<and>
      pr_status r \<in> {''ok'', ''persist_error''} \<and>
      tl_business (pp_timeline (snd (process_incoming_webhook enq cfg env call payload st))) =
        push (pc_retention cfg) (redact_items e) (tl_business (pp_timeline st)))"
  using webhook_stores [of enq cfg env call payload st "fst (process_incoming_webhook enq cfg env call payload st)"
    "snd (process_incoming_webhook enq cfg env call payload st)"] by fastforce

section \<open>A message that comes again\<close>

lemma echo_and_flood_message:
  "fst (echo_and_flood cfg env call inst conv n st) = Inr (gd, n') \<Longrightarrow> dget n' ''message'' = dget n ''message''"
  by (auto simp: echo_and_flood_def Let_def split_beta split: sum.splits if_splits)



text \<open>A payload that normalises to a message with the id \<open>i\<close> outside any group.\<close>

definition brings :: "pipe_env \<Rightarrow> pdict \<Rightarrow> string \<Rightarrow> bool" where
  "brings env payload i \<longleftrightarrow> i \<noteq> [] \<and> \<not> is_group_message payload \<and>
     (case normalize_webhook (pe_norm env) payload of
        Inl _ \<Rightarrow> False
      | Inr n \<Rightarrow> \<not> is_group_message n \<and> dget n ''layer'' = PStr ''business'' \<and>
          dget n ''event'' \<in> {PStr ''MESSAGES_UPSERT'', PStr ''SEND_MESSAGE''} \<and>
          str_or_empty (dget (sub_dict n ''message'') ''id'') = i)"




subsection \<open>Webhooks in between\<close>
















definition small_message :: "string \<Rightarrow> pdict" where
  "small_message inst =
     [(''event'', PStr ''messages.upsert''), (''instance'', PStr inst),
      (''data'', PDict [(''messageType'', PStr ''conversation''),
         (''key'', PDict [(''id'', PStr ''m1''), (''remoteJid'', PStr ''549@s'')]),
         (''message'', PDict [(''conversation'', PStr ''hola'')])])]"




lemma small_message_brings: "brings small_env (small_message ''a'') ''m1''" "brings small_env (small_message ''b'') ''m1''"
  by code_simp+

subsection \<open>A first message\<close>

text \<open>Nothing remembered: no message seen, nothing sent, no conversation counted.\<close>

definition nothing_seen :: "'f pipe \<Rightarrow> bool" where
  "nothing_seen st \<longleftrightarrow> ts_store (pp_dedupe st) = [] \<and> ts_store (pp_echo st) = [] \<and> pp_flood st = no_flood"

lemma nothing_seen_steps [simp]:
  "nothing_seen (emit cfg call note st) = nothing_seen st" "nothing_seen (inc c st) = nothing_seen st"
  "nothing_seen (record_session env call p st) = nothing_seen st"
  "nothing_seen (record_raw cfg call p n st) = nothing_seen st"
  "nothing_seen (st\<lparr> pp_unknown := u \<rparr>) = nothing_seen st"
  by (simp_all add: nothing_seen_def emit_def inc_def record_session_def record_raw_def split: sum.split option.split)

lemma ttl_put_empty: "ts_store s = [] \<Longrightarrow> j \<noteq> k \<Longrightarrow> \<not> ttl_alive t j (ttl_put now k s)"
  by (auto simp: ttl_alive_def ttl_put_def ttl_cleanup_def Let_def sort_desc_def split: if_splits)

lemma ttl_empty: "ts_store s = [] \<Longrightarrow> ttl_exists now k s = (False, s)"
  by (simp add: ttl_exists_def)

lemma first_of_conversation:
  "0 \<le> w \<Longrightarrow> 0 < m \<Longrightarrow> fst (fst (is_flood w m now c no_flood)) = False"
  by (simp add: is_flood_def Let_def flood_queue_def)

lemma first_message_passes:
  fixes st :: "'f pipe"
  assumes "nothing_seen st" and "str_or_empty (dget (sub_dict n ''message'') ''id'') = i" and "i \<noteq> []"
    and "event_fingerprint (pe_sha1 env) inst n = Inr fp" and "fp \<noteq> i"
    and "string_arg AttributeError (dget (sub_dict n ''message'') ''from'') = Inr jid"
    and "0 \<le> pc_flood_window cfg" and "0 < pc_flood_max cfg"
  shows "\<exists>n' st'. message_guards cfg env call inst conv n st = (Inr (Passed, n'), st')"
proof -
  have e: "\<exists>n' st'. echo_and_flood cfg env call inst conv n st0 = (Inr (Passed, n'), st')"
    if "ts_store (pp_echo st0) = []" "pp_flood st0 = no_flood" for st0 :: "'f pipe"
    using that assms(6) first_of_conversation [OF assms(7,8), of "pl_now call" conv]
    by (simp add: echo_and_flood_def Let_def split_beta looks_like_outbound_echo_def ttl_empty)
  show ?thesis
    using assms(1-5) e ttl_put_empty [of "pp_dedupe st" fp i "pl_now call" "pl_now call"]
    by (simp add: message_guards_def Let_def split_beta nothing_seen_def ttl_empty)
qed

lemma filter_and_store_passes:
  assumes "message_guards cfg env call inst conv n (record_raw cfg call payload (with_trace trace n) st) = (Inr (Passed, n'), st')"
    and "ev \<in> {''MESSAGES_UPSERT'', ''SEND_MESSAGE''}"
  shows "\<exists>r st''. filter_and_store cfg env call inst conv ev payload n trace cl st = (Inr r, st'') \<and>
    pr_status r \<in> {''ok'', ''persist_error''}"
proof -
  have "guarded cfg env call inst conv ev n (record_raw cfg call payload (with_trace trace n) st) = (Inr (Passed, n'), st')"
    using assms by (simp add: guarded_def)
  moreover obtain r st'' where "persist_and_route cfg env call inst conv ev (with_trace trace n') trace cl st' = (r, st'')"
    by (metis surj_pair)
  ultimately show ?thesis
    using persist_and_route_parts(2) [of cfg env call inst conv ev "with_trace trace n'" trace cl st']
    by (simp add: filter_and_store_def)
qed

text \<open>A message without a timestamp reaches the filters.\<close>

lemma message_reaches_filters:
  assumes b: "brings env payload i" and n: "normalize_webhook (pe_norm env) payload = Inr n"
    and d: "dget payload ''data'' = PDict d" and time: "dget n ''sourceTimestamp'' = PNone"
    and jid: "string_arg AttributeError (dget (sub_dict n ''message'') ''from'') = Inr jid"
  obtains inst conv ev n1 trace cl st0 where
    "process_incoming_webhook enq cfg env call payload st = filter_and_store cfg env call inst conv ev payload n1 trace cl st0"
    "ev \<in> {''MESSAGES_UPSERT'', ''SEND_MESSAGE''}" "sub_dict n1 ''message'' = sub_dict n ''message''"
    "dget n1 ''media'' = dget n ''media''" "pp_dedupe st0 = pp_dedupe st" "nothing_seen st0 = nothing_seen st"
proof -
  have g: "\<not> is_group_message payload" "\<not> is_group_message n" and layer: "dget n ''layer'' = PStr ''business''"
    and ev: "dget n ''event'' \<in> {PStr ''MESSAGES_UPSERT'', PStr ''SEND_MESSAGE''}"
    using b n by (auto simp: brings_def)
  let ?st = "record_session env call payload (inc ''ingest_total'' st)"
  obtain inst trace where p: "process_incoming_webhook enq cfg env call payload st =
      process_event cfg env call inst payload n trace ?st" by (rule process_normal [OF n g])
  obtain cl where cl: "classify_event payload n = Inr cl"
    using d by (cases "d = []") (simp_all add: classify_event_def py_or_def)
  obtain trace1 st1 where e: "process_event cfg env call inst payload n trace ?st =
      process_business cfg env call inst payload n trace1 cl st1"
    and s1: "pp_dedupe st1 = pp_dedupe st" "nothing_seen st1 = nothing_seen st"
    using layer by (cases "unknown_type n") (simp_all add: process_event_def cl Let_def)
  define conv n1 where "conv = conversation_id (Some inst) jid" and "n1 = enrich_contract (pl_request_id call) conv trace1 cl n"
  have n1: "sub_dict n1 ''message'' = sub_dict n ''message''" "dget n1 ''sourceTimestamp'' = PNone"
      "dget n1 ''event'' = dget n ''event''" "dget n1 ''media'' = dget n ''media''"
    using time by (simp_all add: n1_def sub_dict_def enrich_contract_def)
  let ?ev = "py_str (py_or (dget n ''event'') (py_or (dget payload ''event'') (PStr ''UNKNOWN'')))"
  obtain trace2 st2 where a: "process_business cfg env call inst payload n trace1 cl st1 =
      filter_and_store cfg env call inst conv ?ev payload n1 trace2 cl st2"
    and s2: "pp_dedupe st2 = pp_dedupe st" "nothing_seen st2 = nothing_seen st"
    using s1 n1(2,3)
    by (cases "max 0 (pc_max_age cfg) > 0")
      (simp_all add: process_business_def jid Let_def conv_def [symmetric] n1_def [symmetric] age_gate_def
        event_age_seconds_def is_stale_def)
  have "?ev \<in> {''MESSAGES_UPSERT'', ''SEND_MESSAGE''}" using ev by (auto simp: py_or_def)
  then show ?thesis
    by (intro that [of inst conv ?ev n1 trace2 cl st2]) (simp_all only: p e a n1 s2)
qed

lemma first_message_runs:
  assumes b: "brings env payload i" and n: "normalize_webhook (pe_norm env) payload = Inr n"
    and d: "dget payload ''data'' = PDict d" and seen: "nothing_seen st"
    and time: "dget n ''sourceTimestamp'' = PNone"
    and jid: "string_arg AttributeError (dget (sub_dict n ''message'') ''from'') = Inr jid"
    and fp: "\<And>inst. \<exists>fp. event_fingerprint (pe_sha1 env) inst n = Inr fp \<and> fp \<noteq> i"
    and cfg: "0 \<le> pc_flood_window cfg" "0 < pc_flood_max cfg"
  shows "\<exists>r st'. process_incoming_webhook enq cfg env call payload st = (Inr r, st') \<and>
    pr_status r \<in> {''ok'', ''persist_error''}"
proof -
  have i: "str_or_empty (dget (sub_dict n ''message'') ''id'') = i" "i \<noteq> []"
    using b n by (auto simp: brings_def)
  obtain inst conv ev n1 trace cl st0 where
    p: "process_incoming_webhook enq cfg env call payload st = filter_and_store cfg env call inst conv ev payload n1 trace cl st0"
      "ev \<in> {''MESSAGES_UPSERT'', ''SEND_MESSAGE''}" and n1: "sub_dict n1 ''message'' = sub_dict n ''message''"
      "dget n1 ''media'' = dget n ''media''" and s: "nothing_seen st0 = nothing_seen st"
    by (rule message_reaches_filters [OF b n d time jid])
  have "event_fingerprint (pe_sha1 env) inst n1 = event_fingerprint (pe_sha1 env) inst n"
    by (simp only: event_fingerprint_def n1)
  then obtain f where f: "event_fingerprint (pe_sha1 env) inst n1 = Inr f" "f \<noteq> i" using fp [of inst] by auto
  obtain n2 st3 where "message_guards cfg env call inst conv n1 (record_raw cfg call payload (with_trace trace n1) st0) = (Inr (Passed, n2), st3)"
    using first_message_passes [of "record_raw cfg call payload (with_trace trace n1) st0" n1 i env inst f jid cfg call conv]
      s seen i f jid cfg by (auto simp: n1)
  from filter_and_store_passes [OF this p(2)] show ?thesis by (simp add: p(1))
qed

text \<open>
  A first message is accepted: with nothing remembered, a message outside any group that
  carries no timestamp ends as stored, or as not written to disk, whatever its sender, instance
  and text are. No filter drops it.
\<close>

theorem first_message_accepted:
  assumes "brings env payload i" and "normalize_webhook (pe_norm env) payload = Inr n"
    and "dget payload ''data'' = PDict d" and "nothing_seen st" and "dget n ''sourceTimestamp'' = PNone"
    and "string_arg AttributeError (dget (sub_dict n ''message'') ''from'') = Inr jid"
    and "\<And>inst. \<exists>fp. event_fingerprint (pe_sha1 env) inst n = Inr fp \<and> fp \<noteq> i"
    and "0 \<le> pc_flood_window cfg" and "0 < pc_flood_max cfg"
  shows "\<exists>r st'. process_incoming_webhook enq cfg env call payload st = (Inr r, st') \<and>
    pr_status r \<in> {''ok'', ''persist_error''}"
  by (rule first_message_runs [OF assms])


definition plain_text :: "pdict \<Rightarrow> bool" where
  "plain_text n \<longleftrightarrow>
     dget n ''sourceTimestamp'' = PNone \<and> dget n ''media'' = PNone \<and>
     dget (sub_dict n ''message'') ''from'' = PStr ''549@s'' \<and> dget (sub_dict n ''message'') ''kind'' = PStr ''text'' \<and>
     dget (sub_dict n ''message'') ''text'' = PStr ''hola''"

lemma small_message_facts:
  "(case normalize_webhook (pe_norm small_env) (small_message ''a'') of Inl _ \<Rightarrow> False | Inr n \<Rightarrow> plain_text n)"
  "(case normalize_webhook (pe_norm small_env) (small_message ''b'') of Inl _ \<Rightarrow> False | Inr n \<Rightarrow> plain_text n)"
  by code_simp+

lemma small_message_data: "\<exists>d. dget (small_message inst) ''data'' = PDict d"
  by (simp add: small_message_def dget_Cons)

lemma plain_text_arg:
  assumes "plain_text n" shows "string_arg AttributeError (dget (sub_dict n ''message'') ''from'') = Inr (Some ''549@s'')"
  using assms by (simp add: plain_text_def string_arg_def)

lemma plain_text_fingerprint:
  assumes "plain_text n" shows "\<exists>fp. event_fingerprint (pe_sha1 small_env) inst n = Inr fp \<and> fp \<noteq> ''m1''"
  using assms by (simp add: plain_text_def event_fingerprint_def string_arg_def message_fingerprint_def small_env_def Let_def)

lemma small_seen: "nothing_seen empty_pipe" "0 \<le> pc_flood_window small_cfg" "0 < pc_flood_max small_cfg"
  by (simp_all add: nothing_seen_def empty_pipe_def small_cfg_def)

lemma first_message_accepted_witness:
  "\<exists>r st'. process_incoming_webhook (enqueue 7) small_cfg small_env (small_call 1000 False) (small_message ''a'') empty_pipe =
     (Inr r, st') \<and> pr_status r \<in> {''ok'', ''persist_error''}"
proof -
  obtain n where n: "normalize_webhook (pe_norm small_env) (small_message ''a'') = Inr n" "plain_text n"
    using small_message_facts(1) by (auto split: sum.splits)
  obtain d where d: "dget (small_message ''a'') ''data'' = PDict d" using small_message_data by blast
  show ?thesis
    by (rule first_message_accepted [OF small_message_brings(1) n(1) d small_seen(1) _ plain_text_arg [OF n(2)]
          plain_text_fingerprint [OF n(2)] small_seen(2,3)])
      (use n(2) in \<open>simp add: plain_text_def\<close>)
qed





end
