(* ===== verification/Connection_Registry.thy ===== *)
theory Connection_Registry
  imports Group_Transport
begin

text \<open>
  The ownership registry, \<open>ConnectionRegistry\<close> of
  \<open>gateway/app/services/connection_registry.py\<close>: clients, their connections, the setups that
  become connections and the names of deleted connections, in one file. Clients, connections
  and setups are the dictionaries the services pass. The file is written with its keys sorted
  at every depth, and a file that cannot be read counts as empty.
\<close>

section \<open>The file\<close>

record registry =
  rg_clients :: pdict
  rg_connections :: pdict
  rg_setups :: pdict
  rg_deleted :: pdict

type_synonym registry_file = "pdict json_file"

definition empty_registry :: registry where
  "empty_registry = \<lparr> rg_clients = [], rg_connections = [], rg_setups = [], rg_deleted = [] \<rparr>"

definition registry_of :: "pdict \<Rightarrow> registry" where
  "registry_of raw =
     \<lparr> rg_clients = as_dict (dget raw ''clients''), rg_connections = as_dict (dget raw ''connections''),
       rg_setups = as_dict (dget raw ''setups''), rg_deleted = as_dict (dget raw ''deleted_legacy_names'') \<rparr>"

fun read_registry :: "registry_file \<Rightarrow> registry" where
  "read_registry (Holds raw) = registry_of raw"
| "read_registry _ = empty_registry"

definition registry_dict :: "registry \<Rightarrow> pdict" where
  "registry_dict s =
     [(''schema_version'', PInt 3), (''clients'', PDict (rg_clients s)), (''connections'', PDict (rg_connections s)),
      (''setups'', PDict (rg_setups s)), (''deleted_legacy_names'', PDict (rg_deleted s))]"

text \<open>\<open>sort_keys=True\<close>.\<close>

fun sort_json :: "pval \<Rightarrow> pval"
  and sort_json_list :: "pval list \<Rightarrow> pval list"
  and sort_json_items :: "pdict \<Rightarrow> pdict" where
  "sort_json (PDict d) = PDict (sort_key fst (sort_json_items d))"
| "sort_json (PList xs) = PList (sort_json_list xs)"
| "sort_json v = v"
| "sort_json_list [] = []"
| "sort_json_list (x # xs) = sort_json x # sort_json_list xs"
| "sort_json_items [] = []"
| "sort_json_items ((k, v) # d) = (k, sort_json v) # sort_json_items d"

definition sorted_dict :: "pdict \<Rightarrow> pdict" where
  "sorted_dict d = sort_key fst (sort_json_items d)"

definition write_registry :: "bool \<Rightarrow> registry \<Rightarrow> registry_file \<Rightarrow> unit res \<times> registry_file" where
  "write_registry disk_ok s f = replace_file disk_ok (sorted_dict (registry_dict s)) f"

text \<open>An operation that writes and then answers.\<close>

definition answer_after :: "'a \<Rightarrow> unit res \<times> registry_file \<Rightarrow> 'a res \<times> registry_file" where
  "answer_after x w = (case w of (Inl e, f) \<Rightarrow> (Inl e, f) | (Inr _, f) \<Rightarrow> (Inr x, f))"

text \<open>
  The copy of the file of earlier images, made once, when the registry has its configured place
  and nothing is there yet. The setups are not copied.
\<close>

definition migrate_legacy_registry ::
    "bool \<Rightarrow> bool \<Rightarrow> registry_file \<Rightarrow> registry_file \<Rightarrow> unit res \<times> registry_file" where
  "migrate_legacy_registry configured disk_ok legacy f =
     (if \<not> configured \<or> f \<noteq> Absent then (Inr (), f)
      else case legacy of
        Holds raw \<Rightarrow> write_registry disk_ok ((registry_of raw)\<lparr> rg_setups := [] \<rparr>) f
      | _ \<Rightarrow> (Inr (), f))"

definition registry_snapshot :: "registry_file \<Rightarrow> pdict" where
  "registry_snapshot f = registry_dict (read_registry f)"

definition replace_registry :: "bool \<Rightarrow> pdict \<Rightarrow> registry_file \<Rightarrow> unit res \<times> registry_file" where
  "replace_registry disk_ok store f = write_registry disk_ok (registry_of store) f"

section \<open>Clients\<close>

text \<open>\<open>value in d\<close> for a dictionary: a value that cannot be a key raises.\<close>

fun key_in :: "pval \<Rightarrow> pdict \<Rightarrow> bool res" where
  "key_in (PStr k) d = Inr (dhas d k)"
| "key_in (PList _) d = Inl TypeError"
| "key_in (PDict _) d = Inl TypeError"
| "key_in _ d = Inr False"

definition dict_values :: "pdict \<Rightarrow> pdict list" where
  "dict_values d = map as_dict (filter is_dict (map snd d))"

definition dict_at :: "pdict \<Rightarrow> string \<Rightarrow> pdict option" where
  "dict_at d k = (case dget d k of PDict x \<Rightarrow> Some x | _ \<Rightarrow> None)"

definition list_clients :: "registry_file \<Rightarrow> pdict list" where
  "list_clients f = dict_values (rg_clients (read_registry f))"

definition get_client :: "string \<Rightarrow> registry_file \<Rightarrow> pdict option" where
  "get_client client_id f = dict_at (rg_clients (read_registry f)) client_id"

definition save_client :: "bool \<Rightarrow> pdict \<Rightarrow> registry_file \<Rightarrow> pdict res \<times> registry_file" where
  "save_client disk_ok client f =
     (case vindex (PDict client) ''id'' of
        Inl e \<Rightarrow> (Inl e, f)
      | Inr i \<Rightarrow>
          (let s = read_registry f in
           answer_after client
             (write_registry disk_ok (s\<lparr> rg_clients := dset (rg_clients s) (py_str i) (PDict client) \<rparr>) f)))"

definition delete_client :: "bool \<Rightarrow> string \<Rightarrow> registry_file \<Rightarrow> bool res \<times> registry_file" where
  "delete_client disk_ok client_id f =
     (let s = read_registry f in
      if \<not> dhas (rg_clients s) client_id then (Inr False, f)
      else answer_after True
             (write_registry disk_ok (s\<lparr> rg_clients := AList.delete client_id (rg_clients s) \<rparr>) f))"

definition client_has_connections :: "string \<Rightarrow> registry_file \<Rightarrow> bool" where
  "client_has_connections client_id f =
     list_ex (\<lambda>r. dget r ''client_id'' = PStr client_id) (dict_values (rg_connections (read_registry f)))"

definition client_connection_summary :: "string \<Rightarrow> registry_file \<Rightarrow> nat \<times> string option" where
  "client_connection_summary client_id f =
     (let related = filter (\<lambda>r. dget r ''client_id'' = PStr client_id) (dict_values (rg_connections (read_registry f)));
          activities = concat (map (\<lambda>r. case dget r ''last_activity_at'' of
                          PStr s \<Rightarrow> if strip s = [] then [] else [s] | _ \<Rightarrow> []) related)
      in (length related, case activities of [] \<Rightarrow> None | a # as \<Rightarrow> Some (fold max as a)))"

datatype client_deletion = Client_Deleted | Client_Not_Found | Client_Has_Connections

definition delete_client_if_unconnected ::
    "bool \<Rightarrow> string \<Rightarrow> registry_file \<Rightarrow> client_deletion res \<times> registry_file" where
  "delete_client_if_unconnected disk_ok client_id f =
     (let s = read_registry f in
      if \<not> dhas (rg_clients s) client_id then (Inr Client_Not_Found, f)
      else if list_ex (\<lambda>r. dget r ''client_id'' = PStr client_id) (dict_values (rg_connections s))
      then (Inr Client_Has_Connections, f)
      else answer_after Client_Deleted
             (write_registry disk_ok (s\<lparr> rg_clients := AList.delete client_id (rg_clients s) \<rparr>) f))"

section \<open>Setups\<close>

definition setup_record_by_id :: "string \<Rightarrow> registry_file \<Rightarrow> pdict option" where
  "setup_record_by_id setup_id f = dict_at (rg_setups (read_registry f)) setup_id"

definition setup_record_by_idempotency_key :: "string \<Rightarrow> string \<Rightarrow> registry_file \<Rightarrow> pdict option" where
  "setup_record_by_idempotency_key client_id idempotency_key f =
     List.find (\<lambda>r. py_str (dget r ''client_id'') = client_id \<and>
         str_or_empty (dget r ''idempotency_key'') = idempotency_key)
       (dict_values (rg_setups (read_registry f)))"

definition save_setup_record_for_client ::
    "bool \<Rightarrow> pdict \<Rightarrow> registry_file \<Rightarrow> pdict option res \<times> registry_file" where
  "save_setup_record_for_client disk_ok setup f =
     (let client_id = str_or_empty (dget setup ''client_id''); setup_id = str_or_empty (dget setup ''id'');
          s = read_registry f
      in if client_id = [] \<or> setup_id = [] \<or> \<not> dhas (rg_clients s) client_id then (Inr None, f)
         else answer_after (Some setup)
                (write_registry disk_ok (s\<lparr> rg_setups := dset (rg_setups s) setup_id (PDict setup) \<rparr>) f))"

definition update_setup_record ::
    "bool \<Rightarrow> string \<Rightarrow> pdict \<Rightarrow> registry_file \<Rightarrow> pdict option res \<times> registry_file" where
  "update_setup_record disk_ok setup_id changes f =
     (let s = read_registry f in
      case dict_at (rg_setups s) setup_id of
        None \<Rightarrow> (Inr None, f)
      | Some r \<Rightarrow>
          answer_after (Some (dmerge r changes))
            (write_registry disk_ok (s\<lparr> rg_setups := dset (rg_setups s) setup_id (PDict (dmerge r changes)) \<rparr>) f))"

text \<open>Publishing a connection under its name, which is deleted no longer.\<close>

definition put_connection :: "string \<Rightarrow> pdict \<Rightarrow> registry \<Rightarrow> registry" where
  "put_connection name r s =
     s\<lparr> rg_connections := dset (rg_connections s) name (PDict r),
        rg_deleted := AList.delete name (rg_deleted s) \<rparr>"

definition promote_setup_to_connection ::
    "bool \<Rightarrow> string \<Rightarrow> pdict \<Rightarrow> pdict \<Rightarrow> registry_file \<Rightarrow> (pdict \<times> pdict) option res \<times> registry_file" where
  "promote_setup_to_connection disk_ok setup_id connection setup_changes f =
     (let name = str_or_empty (dget connection ''legacy_name''); s = read_registry f in
      case dict_at (rg_setups s) setup_id of
        None \<Rightarrow> (Inr None, f)
      | Some setup \<Rightarrow>
          if name = [] then (Inr None, f)
          else (case key_in (dget setup ''client_id'') (rg_clients s) of
                  Inl e \<Rightarrow> (Inl e, f)
                | Inr False \<Rightarrow> (Inr None, f)
                | Inr True \<Rightarrow>
                    answer_after (Some (dmerge setup setup_changes, connection))
                      (write_registry disk_ok
                        (put_connection name connection
                          (s\<lparr> rg_setups := dset (rg_setups s) setup_id (PDict (dmerge setup setup_changes)) \<rparr>)) f)))"

section \<open>Connections\<close>

definition connection_records :: "registry_file \<Rightarrow> pdict list" where
  "connection_records f = dict_values (rg_connections (read_registry f))"

definition has_connection_id :: "string \<Rightarrow> pval \<Rightarrow> bool" where
  "has_connection_id connection_id v =
     (case v of PDict r \<Rightarrow> py_str (dget r ''id'') = connection_id | _ \<Rightarrow> False)"

text \<open>The first connection with an id, and its name.\<close>

definition connection_item :: "string \<Rightarrow> registry \<Rightarrow> (string \<times> pdict) option" where
  "connection_item connection_id s =
     map_option (\<lambda>(name, v). (name, as_dict v))
       (List.find (\<lambda>(name, v). has_connection_id connection_id v) (rg_connections s))"

definition connection_record_by_id :: "string \<Rightarrow> registry_file \<Rightarrow> pdict option" where
  "connection_record_by_id connection_id f = map_option snd (connection_item connection_id (read_registry f))"

definition connection_record :: "string \<Rightarrow> registry_file \<Rightarrow> pdict option" where
  "connection_record name f = dict_at (rg_connections (read_registry f)) name"

definition save_connection_record ::
    "bool \<Rightarrow> string \<Rightarrow> pdict \<Rightarrow> registry_file \<Rightarrow> pdict res \<times> registry_file" where
  "save_connection_record disk_ok name r f =
     answer_after r (write_registry disk_ok (put_connection name r (read_registry f)) f)"

definition save_connection_record_for_client ::
    "bool \<Rightarrow> string \<Rightarrow> pdict \<Rightarrow> registry_file \<Rightarrow> pdict option res \<times> registry_file" where
  "save_connection_record_for_client disk_ok name r f =
     (let client_id = str_or_empty (dget r ''client_id''); s = read_registry f in
      if client_id = [] \<or> \<not> dhas (rg_clients s) client_id then (Inr None, f)
      else answer_after (Some r) (write_registry disk_ok (put_connection name r s) f))"

definition update_group_transport_policy ::
    "group_env \<Rightarrow> bool \<Rightarrow> pdict \<Rightarrow> registry_file \<Rightarrow> unit res \<times> registry_file" where
  "update_group_transport_policy env disk_ok policy f =
     (let s = read_registry f in
      case List.find (\<lambda>(name, v). is_dict v \<and> dget (as_dict v) ''id'' = dget policy ''connectionRef'') (rg_connections s) of
        None \<Rightarrow> (Inl (ValueError ''Group connection does not exist''), f)
      | Some (name, v) \<Rightarrow>
          (case require_policy env (Some (as_dict v)) PNone (PDict policy) of
             Inl e \<Rightarrow> (Inl e, f)
           | Inr _ \<Rightarrow>
               write_registry disk_ok (s\<lparr> rg_connections := dset (rg_connections s) name
                 (PDict (dset (as_dict v) ''core_channel''
                   (PDict (dset (as_dict (dget (as_dict v) ''core_channel'')) ''groupTransport'' (PDict policy))))) \<rparr>) f))"

definition update_connection_record ::
    "bool \<Rightarrow> string \<Rightarrow> pdict \<Rightarrow> registry_file \<Rightarrow> pdict option res \<times> registry_file" where
  "update_connection_record disk_ok connection_id changes f =
     (let s = read_registry f in
      case connection_item connection_id s of
        None \<Rightarrow> (Inr None, f)
      | Some (name, r) \<Rightarrow>
          answer_after (Some (dmerge r changes))
            (write_registry disk_ok (s\<lparr> rg_connections := dset (rg_connections s) name (PDict (dmerge r changes)) \<rparr>) f))"

definition delete_connection_record ::
    "bool \<Rightarrow> string \<Rightarrow> registry_file \<Rightarrow> pdict option res \<times> registry_file" where
  "delete_connection_record disk_ok connection_id f =
     (let s = read_registry f in
      case connection_item connection_id s of
        None \<Rightarrow> (Inr None, f)
      | Some (name, r) \<Rightarrow>
          answer_after (Some r)
            (write_registry disk_ok
              (s\<lparr> rg_connections := AList.delete name (rg_connections s),
                 rg_deleted := dset (rg_deleted s) name (PDict [(''connection_id'', PStr connection_id)]) \<rparr>) f))"

section \<open>The import of legacy connections\<close>

text \<open>
  The fallback client with its id; its two times are read where a row needs them. The loop
  keeps the registry, the number of rows inserted and whether anything changed.
\<close>

definition with_fallback :: "string \<Rightarrow> pdict \<Rightarrow> registry \<Rightarrow> registry" where
  "with_fallback fid fallback s =
     (if dhas (rg_clients s) fid then s else s\<lparr> rg_clients := dset (rg_clients s) fid (PDict fallback) \<rparr>)"

definition adopt_connection :: "string \<Rightarrow> pdict \<Rightarrow> string \<Rightarrow> pdict \<Rightarrow> registry \<Rightarrow> registry res" where
  "adopt_connection fid fallback name r s =
     rbind (vindex (PDict fallback) ''updated_at'') (\<lambda>updated.
       let s' = with_fallback fid fallback s in
       Inr (s'\<lparr> rg_connections := dset (rg_connections s') name
              (PDict (dset (dset r ''client_id'' (PStr fid)) ''updated_at'' updated)) \<rparr>))"

definition import_connection :: "string \<Rightarrow> pdict \<Rightarrow> string \<Rightarrow> pdict \<Rightarrow> registry \<Rightarrow> registry res" where
  "import_connection fid fallback name runtime s =
     rbind (vindex (PDict fallback) ''created_at'') (\<lambda>created.
     rbind (vindex (PDict fallback) ''updated_at'') (\<lambda>updated.
       let s' = with_fallback fid fallback s in
       Inr (s'\<lparr> rg_connections := dset (rg_connections s') name (PDict
         [(''id'', PStr (py_str (py_or (dget runtime ''id'') (PStr name)))), (''legacy_name'', PStr name),
          (''client_id'', PStr fid), (''created_at'', created), (''updated_at'', updated)]) \<rparr>)))"

fun ensure_loop ::
    "string \<Rightarrow> pdict \<Rightarrow> pdict list \<Rightarrow> registry \<times> nat \<times> bool \<Rightarrow> (registry \<times> nat \<times> bool) res" where
  "ensure_loop fid fallback [] st = Inr st"
| "ensure_loop fid fallback (runtime # rest) (s, inserted, changed) =
     (let name = clean_str (dget runtime ''name'') in
      if name = [] \<or> dhas (rg_deleted s) name then ensure_loop fid fallback rest (s, inserted, changed)
      else case dict_at (rg_connections s) name of
        Some r \<Rightarrow>
          rbind (key_in (dget r ''client_id'') (rg_clients s)) (\<lambda>known.
            if known then ensure_loop fid fallback rest (s, inserted, changed)
            else rbind (adopt_connection fid fallback name r s) (\<lambda>s'.
                   ensure_loop fid fallback rest (s', inserted, True)))
      | None \<Rightarrow>
          rbind (import_connection fid fallback name runtime s) (\<lambda>s'.
            ensure_loop fid fallback rest (s', Suc inserted, True)))"

definition ensure_legacy_connections ::
    "bool \<Rightarrow> pdict list \<Rightarrow> string \<Rightarrow> pdict \<Rightarrow> registry_file \<Rightarrow> nat res \<times> registry_file" where
  "ensure_legacy_connections disk_ok runtimes fid fallback f =
     (if runtimes = [] then (Inr 0, f)
      else case ensure_loop fid fallback runtimes (read_registry f, 0, False) of
        Inl e \<Rightarrow> (Inl e, f)
      | Inr (s, inserted, changed) \<Rightarrow>
          if changed then answer_after inserted (write_registry disk_ok s f) else (Inr inserted, f))"

end
