(* ===== verification/Connection_Registry_Spec.thy ===== *)
theory Connection_Registry_Spec
  imports Connection_Registry
begin

text \<open>
  What the ownership registry promises: what is written is read again, a connection always
  belongs to a client that exists, a deleted connection is not imported again, and the import
  of legacy connections is idempotent.
\<close>

section \<open>Writing and reading\<close>

lemma map_of_filter: "map_of d k = (case filter (\<lambda>p. fst p = k) d of [] \<Rightarrow> None | p # _ \<Rightarrow> Some (snd p))"
  by (induction d) auto

lemma map_of_sort_key [simp]: "map_of (sort_key fst d) = map_of (d :: pdict)"
proof
  fix k
  show "map_of (sort_key fst d) k = map_of d k"
    unfolding map_of_filter [of "sort_key fst d"] map_of_filter [of d] by (simp add: sort_key_stable)
qed

lemma sort_json_items_map: "sort_json_items d = map (\<lambda>(k, v). (k, sort_json v)) d"
  by (induction d) auto

lemma sort_json_list_map: "sort_json_list xs = map sort_json xs"
  by (induction xs) auto

lemma map_of_sorted_dict: "map_of (sorted_dict d) k = map_option sort_json (map_of d k)"
  by (simp add: sorted_dict_def sort_json_items_map map_of_map)

lemma sort_json_simps [simp]:
  "sort_json (PDict d) = PDict (sorted_dict d)" "is_dict (sort_json v) = is_dict v"
  "sort_json v = PStr c \<longleftrightarrow> v = PStr c" "sort_json v = PNone \<longleftrightarrow> v = PNone"
  by (simp add: sorted_dict_def) (cases v; simp)+

declare sort_json.simps(1) [simp del]

lemma dget_sorted [simp]: "dget (sorted_dict d) k = sort_json (dget d k)"
  by (simp add: dget_def map_of_sorted_dict split: option.split)

lemma dhas_sorted [simp]: "dhas (sorted_dict d) k \<longleftrightarrow> dhas d k"
  by (simp add: dhas_def map_of_sorted_dict)

lemma dict_at_sorted [simp]: "dict_at (sorted_dict d) k = map_option sorted_dict (dict_at d k)"
  by (cases "dget d k") (simp_all add: dict_at_def)

lemma key_in_sorted [simp]: "key_in (sort_json v) (sorted_dict d) = key_in v d"
  by (cases v) simp_all

definition sorted_registry :: "registry \<Rightarrow> registry" where
  "sorted_registry s =
     \<lparr> rg_clients = sorted_dict (rg_clients s), rg_connections = sorted_dict (rg_connections s),
       rg_setups = sorted_dict (rg_setups s), rg_deleted = sorted_dict (rg_deleted s) \<rparr>"

lemma sorted_registry_simps [simp]:
  "rg_clients (sorted_registry s) = sorted_dict (rg_clients s)"
  "rg_connections (sorted_registry s) = sorted_dict (rg_connections s)"
  "rg_setups (sorted_registry s) = sorted_dict (rg_setups s)"
  "rg_deleted (sorted_registry s) = sorted_dict (rg_deleted s)"
  by (simp_all add: sorted_registry_def)

lemma read_written: "registry_of (sorted_dict (registry_dict s)) = sorted_registry s"
  by (simp add: registry_of_def registry_dict_def sorted_registry_def dget_Cons)

lemma registry_of_dict: "registry_of (registry_dict s) = s"
  by (simp add: registry_of_def registry_dict_def dget_Cons)

lemma write_registry_cases:
  assumes "write_registry ok s f = (res, f')"
  obtains "res = Inl OSError" "f' = f" | "res = Inr ()" "read_registry f' = sorted_registry s"
    "f' = Holds (sorted_dict (registry_dict s))"
  using assms by (cases ok) (auto simp: write_registry_def read_written)

lemma answer_after_cases:
  assumes "answer_after x (write_registry ok s f) = (res, f')"
  obtains "res = Inl OSError" "f' = f" | "res = Inr x" "read_registry f' = sorted_registry s"
  using assms by (cases ok) (auto simp: answer_after_def write_registry_def read_written)

lemma read_after_write:
  "read_registry (snd (answer_after x (write_registry ok s f))) \<in> {read_registry f, sorted_registry s}"
  by (cases ok) (simp_all add: answer_after_def write_registry_def read_written)

lemma sort_json_idem:
  "sort_json (sort_json v) = sort_json v"
  "sort_json_list (sort_json_list xs) = sort_json_list xs"
  "sorted_dict (sorted_dict d) = sorted_dict d"
proof -
  have items: "sort_json_items (sort_key fst d) = sort_key fst (sort_json_items d)" for d
  proof -
    have "map (\<lambda>(k, v). (k, sort_json v)) (sort_key (\<lambda>x. fst ((\<lambda>(k, v). (k, sort_json v)) x)) d) =
        sort_key fst (map (\<lambda>(k, v). (k, sort_json v)) d)" by (rule map_sort_key)
    then show ?thesis by (simp add: sort_json_items_map split_beta)
  qed
  have sorted: "sort_key fst (sort_key fst d) = sort_key fst (d :: pdict)" for d
    by (rule sort_key_id_if_sorted) simp
  have all: "sort_json (sort_json v) = sort_json v" "sort_json_list (sort_json_list xs) = sort_json_list xs"
    "sort_json_items (sort_json_items d) = sort_json_items d" for v xs d
    by (induction v and xs and d rule: sort_json_sort_json_list_sort_json_items.induct)
      (simp_all add: sorted_dict_def items sorted)
  show "sort_json (sort_json v) = sort_json v" "sort_json_list (sort_json_list xs) = sort_json_list xs"
    by (rule all)+
  show "sorted_dict (sorted_dict d) = sorted_dict d" by (simp add: sorted_dict_def items sorted all)
qed

section \<open>Ownership\<close>

lemma in_dict_values: "r \<in> set (dict_values d) \<longleftrightarrow> (\<exists>k. (k, PDict r) \<in> set d)"
  by (force simp: dict_values_def elim: is_dict.elims)

lemma set_update: "set (AList.update k v d) \<subseteq> insert (k, v) (set d)"
  by (induction d) auto

lemma dict_values_dset: "x \<in> set (dict_values (dset d k (PDict r))) \<Longrightarrow> x = r \<or> x \<in> set (dict_values d)"
  using set_update [of k "PDict r" d] by (auto simp: in_dict_values)

lemma dict_values_delete: "x \<in> set (dict_values (AList.delete k d)) \<Longrightarrow> x \<in> set (dict_values d)"
  by (auto simp: in_dict_values AList.delete_eq)

lemma sort_json_dict: "sort_json v = PDict x \<longleftrightarrow> (\<exists>r. v = PDict r \<and> x = sorted_dict r)"
  by (cases v) auto

lemma in_sorted_dict: "(k, w) \<in> set (sorted_dict d) \<longleftrightarrow> (\<exists>v. (k, v) \<in> set d \<and> w = sort_json v)"
  by (force simp: sorted_dict_def sort_json_items_map)

lemma dict_values_sorted: "set (dict_values (sorted_dict d)) = sorted_dict ` set (dict_values d)"
proof (rule set_eqI)
  fix x
  have "x \<in> set (dict_values (sorted_dict d)) \<longleftrightarrow> (\<exists>k v. (k, v) \<in> set d \<and> PDict x = sort_json v)"
    by (simp add: in_dict_values in_sorted_dict)
  also have "\<dots> \<longleftrightarrow> (\<exists>k r. (k, PDict r) \<in> set d \<and> x = sorted_dict r)"
    by (metis sort_json_dict)
  also have "\<dots> \<longleftrightarrow> x \<in> sorted_dict ` set (dict_values d)"
    using in_dict_values [of _ d] by (metis (no_types, lifting) image_iff)
  finally show "x \<in> set (dict_values (sorted_dict d)) \<longleftrightarrow> x \<in> sorted_dict ` set (dict_values d)" .
qed

lemma dict_at_value: "dict_at d k = Some r \<Longrightarrow> r \<in> set (dict_values d)"
  by (auto simp: dict_at_def dget_def in_dict_values split: pval.splits option.splits dest: map_of_SomeD)

lemma find_SomeD: "List.find p xs = Some x \<Longrightarrow> x \<in> set xs \<and> p x"
  by (induction xs) (auto split: if_splits)

lemma connection_item_value:
  assumes "connection_item i s = Some (name, r)"
  shows "r \<in> set (dict_values (rg_connections s))" and "(name, PDict r) \<in> set (rg_connections s)"
    and "py_str (dget r ''id'') = i"
proof -
  obtain v where v: "List.find (\<lambda>(name, v). has_connection_id i v) (rg_connections s) = Some (name, v)" "r = as_dict v"
    using assms by (auto simp: connection_item_def)
  have m: "(name, v) \<in> set (rg_connections s)" "has_connection_id i v" using find_SomeD [OF v(1)] by auto
  have e: "v = PDict r" "py_str (dget r ''id'') = i" using m(2) v(2) by (cases v; simp add: has_connection_id_def)+
  show "(name, PDict r) \<in> set (rg_connections s)" "py_str (dget r ''id'') = i" using m e by simp_all
  then show "r \<in> set (dict_values (rg_connections s))" by (auto simp: in_dict_values)
qed

definition owner_known :: "registry \<Rightarrow> pdict \<Rightarrow> bool" where
  "owner_known s r \<longleftrightarrow> (\<exists>c. dget r ''client_id'' = PStr c \<and> dhas (rg_clients s) c)"

definition owned :: "registry \<Rightarrow> bool" where
  "owned s \<longleftrightarrow> (\<forall>r\<in>set (dict_values (rg_connections s)). owner_known s r)"

lemma owned_sorted [simp]: "owned (sorted_registry s) = owned s"
  by (auto simp: owned_def owner_known_def dict_values_sorted)

lemma owned_answer: "owned (read_registry f) \<Longrightarrow> owned s \<Longrightarrow> owned (read_registry (snd (answer_after x (write_registry ok s f))))"
  using read_after_write [of x ok s f] by auto

lemma owned_put:
  assumes "owned s" and "rg_clients s' = rg_clients s" and "owner_known s r"
    and "rg_connections s' = dset (rg_connections s) name (PDict r)"
  shows "owned s'"
  using assms by (auto simp: owned_def owner_known_def dest!: dict_values_dset)

lemma owned_clients:
  assumes "owned s" and "\<And>c. dhas (rg_clients s) c \<Longrightarrow> dhas (rg_clients s') c" and "rg_connections s' = rg_connections s"
  shows "owned s'"
  using assms by (fastforce simp: owned_def owner_known_def)

lemma owned_put_connection: "owned s \<Longrightarrow> owner_known s r \<Longrightarrow> owned (put_connection name r s)"
  by (rule owned_put) (simp_all add: put_connection_def)

lemma owned_with_fallback: "owned s \<Longrightarrow> owned (with_fallback fid fb s)"
  by (erule owned_clients) (auto simp: with_fallback_def)

lemma fallback_known [simp]: "dhas (rg_clients (with_fallback fid fb s)) fid"
  by (simp add: with_fallback_def)

lemma rg_connections_fallback [simp]: "rg_connections (with_fallback fid fb s) = rg_connections s"
  "rg_deleted (with_fallback fid fb s) = rg_deleted s"
  by (simp_all add: with_fallback_def)

lemma adopt_connection_parts:
  assumes "adopt_connection fid fb name r s = Inr s'"
  shows "rg_deleted s' = rg_deleted s" and "rg_clients s' = rg_clients (with_fallback fid fb s)"
    and "\<exists>r'. rg_connections s' = dset (rg_connections s) name (PDict r') \<and> dget r' ''client_id'' = PStr fid"
  using assms by (auto simp: adopt_connection_def rbind_eqs Let_def)

lemma import_connection_parts:
  assumes "import_connection fid fb name runtime s = Inr s'"
  shows "rg_deleted s' = rg_deleted s" and "rg_clients s' = rg_clients (with_fallback fid fb s)"
    and "\<exists>r'. rg_connections s' = dset (rg_connections s) name (PDict r') \<and> dget r' ''client_id'' = PStr fid"
  using assms by (auto simp: import_connection_def rbind_eqs Let_def dget_Cons)

lemmas row_parts = adopt_connection_parts import_connection_parts

text \<open>One step of the import: skipped, or a row of the fallback client under the name.\<close>

definition rowed :: "string \<Rightarrow> pdict \<Rightarrow> string \<Rightarrow> registry \<Rightarrow> registry \<Rightarrow> bool" where
  "rowed fid fb name s s' \<longleftrightarrow> rg_deleted s' = rg_deleted s \<and> rg_clients s' = rg_clients (with_fallback fid fb s) \<and>
     (\<exists>r'. rg_connections s' = dset (rg_connections s) name (PDict r') \<and> dget r' ''client_id'' = PStr fid)"

definition settled :: "registry \<Rightarrow> string \<Rightarrow> bool" where
  "settled s name \<longleftrightarrow> name = [] \<or> dhas (rg_deleted s) name \<or>
     (\<exists>r. dict_at (rg_connections s) name = Some r \<and> key_in (dget r ''client_id'') (rg_clients s) = Inr True)"

lemma ensure_loop_induct:
  assumes run: "ensure_loop fid fb runtimes (s, n, c) = Inr (s', n', c')" and "P s"
    and step: "\<And>s s' name. P s \<Longrightarrow> name \<noteq> [] \<Longrightarrow> \<not> dhas (rg_deleted s) name \<Longrightarrow> rowed fid fb name s s' \<Longrightarrow> P s'"
  shows "P s'"
  using run \<open>P s\<close>
proof (induction runtimes arbitrary: s n c)
  case Nil
  then show ?case by simp
next
  case (Cons runtime rest)
  define name where "name = clean_str (dget runtime ''name'')"
  show ?case
  proof (cases "name = [] \<or> dhas (rg_deleted s) name")
    case True
    then show ?thesis using Cons by (auto simp: name_def Let_def)
  next
    case False
    show ?thesis
    proof (cases "dict_at (rg_connections s) name")
      case None
      then obtain s1 where "import_connection fid fb name runtime s = Inr s1"
        "ensure_loop fid fb rest (s1, Suc n, True) = Inr (s', n', c')"
        using Cons.prems(1) False by (auto simp: name_def Let_def rbind_eqs)
      then show ?thesis
        using Cons.IH [of s1] step [OF Cons.prems(2), of name s1] False import_connection_parts [of fid fb name runtime s s1]
        by (simp add: rowed_def)
    next
      case (Some r)
      then obtain known where k: "key_in (dget r ''client_id'') (rg_clients s) = Inr known"
        using Cons.prems(1) False by (auto simp: name_def Let_def rbind_eqs)
      show ?thesis
      proof (cases known)
        case True
        then show ?thesis using Cons False Some k by (auto simp: name_def Let_def)
      next
        case False
        then obtain s1 where "adopt_connection fid fb name r s = Inr s1"
          "ensure_loop fid fb rest (s1, n, True) = Inr (s', n', c')"
          using Cons.prems(1) Some k \<open>\<not> (name = [] \<or> dhas (rg_deleted s) name)\<close> by (auto simp: name_def Let_def rbind_eqs)
        then show ?thesis
          using Cons.IH [of s1] step [OF Cons.prems(2), of name s1] adopt_connection_parts [of fid fb name r s s1]
            \<open>\<not> (name = [] \<or> dhas (rg_deleted s) name)\<close>
          by (simp add: rowed_def)
      qed
    qed
  qed
qed

lemma owned_rowed:
  assumes "rowed fid fb name s s'" and "owned s" shows "owned s'"
proof -
  obtain r' where r': "rg_connections s' = dset (rg_connections s) name (PDict r')" "dget r' ''client_id'' = PStr fid"
    "rg_clients s' = rg_clients (with_fallback fid fb s)"
    using assms(1) by (auto simp: rowed_def)
  show ?thesis
    by (rule owned_put [OF owned_with_fallback [OF assms(2)], of s' fid fb r' name])
      (simp_all add: r' owner_known_def)
qed

lemma owned_import:
  assumes "owned (read_registry f)"
  shows "owned (read_registry (snd (ensure_legacy_connections ok runtimes fid fb f)))"
proof (cases "ensure_loop fid fb runtimes (read_registry f, 0, False)")
  case (Inl e)
  then show ?thesis using assms by (simp add: ensure_legacy_connections_def)
next
  case (Inr t)
  obtain s n c where t: "t = (s, n, c)" by (cases t)
  have "owned s" by (rule ensure_loop_induct [where P = owned, OF Inr [unfolded t] assms]) (rule owned_rowed)
  then show ?thesis using assms by (simp add: ensure_legacy_connections_def Inr t owned_answer)
qed

text \<open>The operations of the services, with what their callers pass.\<close>

datatype registry_op =
    Save_Client pdict
  | Remove_Client string
  | Save_Setup pdict
  | Update_Setup string pdict
  | Promote string pdict pdict
  | Save_Connection string pdict
  | Update_Connection string pdict
  | Remove_Connection string
  | Set_Policy pdict
  | Import_Runtimes "pdict list" string pdict

definition no_answer :: "'a res \<times> registry_file \<Rightarrow> unit res \<times> registry_file" where
  "no_answer r = (rbind (fst r) (\<lambda>_. Inr ()), snd r)"

fun run_registry_op :: "group_env \<Rightarrow> bool \<Rightarrow> registry_op \<Rightarrow> registry_file \<Rightarrow> unit res \<times> registry_file" where
  "run_registry_op env ok (Save_Client c) f = no_answer (save_client ok c f)"
| "run_registry_op env ok (Remove_Client i) f = no_answer (delete_client_if_unconnected ok i f)"
| "run_registry_op env ok (Save_Setup r) f = no_answer (save_setup_record_for_client ok r f)"
| "run_registry_op env ok (Update_Setup i c) f = no_answer (update_setup_record ok i c f)"
| "run_registry_op env ok (Promote i r c) f = no_answer (promote_setup_to_connection ok i r c f)"
| "run_registry_op env ok (Save_Connection n r) f = no_answer (save_connection_record_for_client ok n r f)"
| "run_registry_op env ok (Update_Connection i c) f = no_answer (update_connection_record ok i c f)"
| "run_registry_op env ok (Remove_Connection i) f = no_answer (delete_connection_record ok i f)"
| "run_registry_op env ok (Set_Policy p) f = no_answer (update_group_transport_policy env ok p f)"
| "run_registry_op env ok (Import_Runtimes rs fid fb) f = no_answer (ensure_legacy_connections ok rs fid fb f)"

text \<open>
  The client of a new connection is a string, a promoted connection is given the client of its
  setup, and an update leaves the client alone.
\<close>

fun fits :: "registry_op \<Rightarrow> registry_file \<Rightarrow> bool" where
  "fits (Promote i r c) f \<longleftrightarrow>
     (case setup_record_by_id i f of None \<Rightarrow> True | Some setup \<Rightarrow> dget r ''client_id'' = dget setup ''client_id'')"
| "fits (Save_Connection n r) f \<longleftrightarrow> is_str (dget r ''client_id'')"
| "fits (Update_Connection i c) f \<longleftrightarrow> \<not> dhas c ''client_id''"
| "fits _ f \<longleftrightarrow> True"

inductive registry_state :: "group_env \<Rightarrow> registry_file \<Rightarrow> bool" for env where
  start: "registry_state env Absent"
| step: "registry_state env f \<Longrightarrow> fits op f \<Longrightarrow> registry_state env (snd (run_registry_op env ok op f))"

lemma owned_same: "owned s \<Longrightarrow> rg_clients s' = rg_clients s \<Longrightarrow> rg_connections s' = rg_connections s \<Longrightarrow> owned s'"
  by (simp add: owned_def owner_known_def)

lemma key_in_True: "key_in v d = Inr True \<longleftrightarrow> (\<exists>k. v = PStr k \<and> dhas d k)"
  by (cases v) auto

lemma owned_less:
  assumes "owned s" and "\<And>x. x \<in> set (dict_values (rg_connections s')) \<Longrightarrow> x \<in> set (dict_values (rg_connections s))"
    and "rg_clients s' = rg_clients s"
  shows "owned s'"
  using assms by (auto simp: owned_def owner_known_def)

lemma owned_no_client:
  assumes "owned s" and "\<not> list_ex (\<lambda>r. dget r ''client_id'' = PStr i) (dict_values (rg_connections s))"
  shows "owned (s\<lparr> rg_clients := AList.delete i (rg_clients s) \<rparr>)"
  using assms by (fastforce simp: owned_def owner_known_def list_ex_iff dhas_def AList.delete_conv')

lemma dget_dmerge_other:
  assumes "\<not> dhas c k" shows "dget (dmerge r c) k = dget r k"
proof -
  have "map_of (rev c) k = None" using assms by (simp add: dhas_iff map_of_eq_None_iff)
  then show ?thesis by (simp add: dget_def map_of_dmerge)
qed

lemma owned_setups: "owned s \<Longrightarrow> owned (s\<lparr> rg_setups := x \<rparr>)"
  by (erule owned_same) auto

lemma owned_save: "owned s \<Longrightarrow> owned (s\<lparr> rg_clients := dset (rg_clients s) k v \<rparr>)"
  by (erule owned_clients) auto

lemma owned_promote:
  assumes "owned (read_registry f)"
    and "\<And>setup. setup_record_by_id i f = Some setup \<Longrightarrow> dget r ''client_id'' = dget setup ''client_id''"
  shows "owned (read_registry (snd (promote_setup_to_connection ok i r c f)))"
proof (cases "dict_at (rg_setups (read_registry f)) i")
  case None
  then show ?thesis using assms(1) by (simp add: promote_setup_to_connection_def Let_def)
next
  case (Some prep)
  have r: "dget r ''client_id'' = dget prep ''client_id''" using assms(2) Some by (simp add: setup_record_by_id_def)
  show ?thesis
  proof (cases "str_or_empty (dget r ''legacy_name'') \<noteq> [] \<and> key_in (dget prep ''client_id'') (rg_clients (read_registry f)) = Inr True")
    case True
    let ?s = "(read_registry f)\<lparr> rg_setups := dset (rg_setups (read_registry f)) i (PDict (dmerge prep c)) \<rparr>"
    have "owned (put_connection (str_or_empty (dget r ''legacy_name'')) r ?s)"
      using True r by (intro owned_put_connection owned_same [OF assms(1)]) (auto simp: owner_known_def key_in_True)
    then show ?thesis using assms(1) True Some by (simp add: promote_setup_to_connection_def Let_def owned_answer)
  next
    case False
    then show ?thesis
      using assms(1) Some by (auto simp: promote_setup_to_connection_def Let_def split: sum.split bool.split)
  qed
qed

lemma owned_policy:
  assumes "owned (read_registry f)"
  shows "owned (read_registry (snd (update_group_transport_policy env ok p f)))"
proof (cases "List.find (\<lambda>(name, v). is_dict v \<and> dget (as_dict v) ''id'' = dget p ''connectionRef'') (rg_connections (read_registry f))")
  case None
  then show ?thesis using assms by (simp add: update_group_transport_policy_def Let_def)
next
  case (Some nv)
  obtain name v where nv: "nv = (name, v)" by (cases nv)
  obtain r where v: "v = PDict r" using find_SomeD [OF Some] nv by (cases v) auto
  have "owner_known (read_registry f) r"
    using find_SomeD [OF Some] assms nv v by (auto simp: owned_def in_dict_values)
  then have "owned ((read_registry f)\<lparr> rg_connections := dset (rg_connections (read_registry f)) name
      (PDict (dset r ''core_channel'' (PDict (dset (as_dict (dget r ''core_channel'')) ''groupTransport'' (PDict p))))) \<rparr>)"
    by (intro owned_put [OF assms]) (auto simp: owner_known_def)
  then show ?thesis
    using assms Some nv v by (cases ok) (auto simp: update_group_transport_policy_def Let_def write_registry_def read_written split: sum.split)
qed

lemma owned_update:
  assumes "owned (read_registry f)" and "\<not> dhas c ''client_id''"
  shows "owned (read_registry (snd (update_connection_record ok i c f)))"
proof (cases "connection_item i (read_registry f)")
  case None
  then show ?thesis using assms by (simp add: update_connection_record_def Let_def)
next
  case (Some nr)
  obtain name r where nr: "nr = (name, r)" by (cases nr)
  have "owner_known (read_registry f) (dmerge r c)"
    using assms connection_item_value(1) [OF Some [unfolded nr]]
    by (auto simp: owned_def owner_known_def dget_dmerge_other)
  then have "owned ((read_registry f)\<lparr> rg_connections := dset (rg_connections (read_registry f)) name (PDict (dmerge r c)) \<rparr>)"
    by (intro owned_put [OF assms(1)]) auto
  then show ?thesis
    using assms(1) Some nr by (simp add: update_connection_record_def Let_def owned_answer)
qed

lemma owned_delete:
  assumes "owned (read_registry f)"
  shows "owned (read_registry (snd (delete_connection_record ok i f)))"
proof (cases "connection_item i (read_registry f)")
  case None
  then show ?thesis using assms by (simp add: delete_connection_record_def Let_def)
next
  case (Some nr)
  obtain name r where nr: "nr = (name, r)" by (cases nr)
  have "owned ((read_registry f)\<lparr> rg_connections := AList.delete name (rg_connections (read_registry f)),
      rg_deleted := x \<rparr>)" for x
    by (rule owned_less [OF assms]) (simp, erule dict_values_delete, simp)
  then show ?thesis
    using assms Some nr by (simp add: delete_connection_record_def Let_def owned_answer)
qed

lemma owned_step:
  assumes "owned (read_registry f)" and "fits op f"
  shows "owned (read_registry (snd (run_registry_op env ok op f)))"
proof (cases op)
  case (Save_Client c)
  then show ?thesis
    using assms by (auto simp: no_answer_def save_client_def Let_def intro!: owned_answer owned_save split: sum.split)
next
  case (Remove_Client i)
  then show ?thesis
    using assms by (auto simp: no_answer_def delete_client_if_unconnected_def Let_def intro!: owned_answer owned_no_client)
next
  case (Save_Setup r)
  then show ?thesis
    using assms by (auto simp: no_answer_def save_setup_record_for_client_def Let_def intro!: owned_answer owned_setups)
next
  case (Update_Setup i c)
  then show ?thesis
    using assms by (auto simp: no_answer_def update_setup_record_def Let_def intro!: owned_answer owned_setups split: option.split)
next
  case (Promote i r c)
  then show ?thesis using assms by (auto simp: no_answer_def intro!: owned_promote)
next
  case (Save_Connection n r)
  then show ?thesis
    using assms by (cases "dget r ''client_id''")
      (auto simp: no_answer_def save_connection_record_for_client_def Let_def owner_known_def intro!: owned_answer owned_put_connection)
next
  case (Update_Connection i c)
  then show ?thesis using assms by (simp add: no_answer_def owned_update)
next
  case (Remove_Connection i)
  then show ?thesis using assms by (simp add: no_answer_def owned_delete)
next
  case (Set_Policy p)
  then show ?thesis using assms by (simp add: no_answer_def owned_policy)
next
  case (Import_Runtimes rs fid fb)
  then show ?thesis using assms by (simp add: no_answer_def owned_import)
qed

lemma reachable_owned: "registry_state env f \<Longrightarrow> owned (read_registry f)"
  by (induction rule: registry_state.induct) (simp add: owned_def empty_registry_def dict_values_def, rule owned_step)

text \<open>
  A connection always has a client: in every state that the operations of the services
  reach, through failed writes too, the client of each stored connection is in the registry; and
  a client is removed exactly when it exists and no stored connection names it.
\<close>

theorem connections_keep_their_client:
  assumes "registry_state env f"
  shows "(\<forall>name r. connection_record name f = Some r \<longrightarrow>
      (\<exists>c. dget r ''client_id'' = PStr c \<and> dhas (rg_clients (read_registry f)) c)) \<and>
    (fst (delete_client_if_unconnected True i f) = Inr Client_Deleted \<longleftrightarrow>
      dhas (rg_clients (read_registry f)) i \<and> \<not> client_has_connections i f)"
proof -
  have "owned (read_registry f)" by (rule reachable_owned [OF assms])
  then have "\<exists>c. dget r ''client_id'' = PStr c \<and> dhas (rg_clients (read_registry f)) c"
    if "connection_record name f = Some r" for name r
    using that by (auto simp: connection_record_def owned_def owner_known_def dest!: dict_at_value)
  moreover have "fst (delete_client_if_unconnected True i f) = Inr Client_Deleted \<longleftrightarrow>
      dhas (rg_clients (read_registry f)) i \<and> \<not> client_has_connections i f"
    by (simp add: delete_client_if_unconnected_def client_has_connections_def Let_def answer_after_def write_registry_def)
  ultimately show ?thesis by blast
qed

definition shop_registry :: registry_file where
  "shop_registry =
     snd (save_connection_record_for_client True ''wa1'' [(''id'', PStr ''c1''), (''client_id'', PStr ''k1'')]
       (snd (save_client True [(''id'', PStr ''k1'')] Absent)))"

lemma shop_registry_state: "registry_state env shop_registry"
proof -
  let ?c = "[(''id'', PStr ''k1'')]" and ?r = "[(''id'', PStr ''c1''), (''client_id'', PStr ''k1'')]"
  have "registry_state env (snd (run_registry_op env True (Save_Client ?c) Absent))"
    by (rule registry_state.step [OF registry_state.start]) simp
  then have "registry_state env (snd (run_registry_op env True (Save_Connection ''wa1'' ?r)
      (snd (run_registry_op env True (Save_Client ?c) Absent))))"
    by (rule registry_state.step) (simp add: dget_Cons)
  then show ?thesis by (simp add: shop_registry_def no_answer_def)
qed

lemma connections_keep_their_client_witness:
  "fst (delete_client_if_unconnected True ''k1'' shop_registry) \<noteq> Inr Client_Deleted \<and>
   connection_record ''wa1'' shop_registry = Some [(''client_id'', PStr ''k1''), (''id'', PStr ''c1'')]"
proof
  let ?env = "\<lparr>ge_enabled = True, ge_hooks = (\<lambda>_. Inr [])\<rparr>"
  have "client_has_connections ''k1'' shop_registry" by code_simp
  then show "fst (delete_client_if_unconnected True ''k1'' shop_registry) \<noteq> Inr Client_Deleted"
    using connections_keep_their_client [OF shop_registry_state [of ?env], of "''k1''"] by blast
  show "connection_record ''wa1'' shop_registry = Some [(''client_id'', PStr ''k1''), (''id'', PStr ''c1'')]"
    by code_simp
qed

section \<open>Deleted connections\<close>

lemma deleted_through_import:
  assumes "ensure_loop fid fb runtimes (s, n, c) = Inr (s', n', c')"
    and "dhas (rg_deleted s) name" and "dict_at (rg_connections s) name = None"
  shows "dhas (rg_deleted s') name \<and> dict_at (rg_connections s') name = None"
  by (rule ensure_loop_induct [where P = "\<lambda>s. dhas (rg_deleted s) name \<and> dict_at (rg_connections s) name = None",
        OF assms(1)])
    (use assms(2,3) in \<open>auto simp: rowed_def dict_at_def\<close>)

lemma import_file_cases:
  obtains "snd (ensure_legacy_connections ok runtimes fid fb f) = f"
  | s n c where "ensure_loop fid fb runtimes (read_registry f, 0, False) = Inr (s, n, c)"
      "read_registry (snd (ensure_legacy_connections ok runtimes fid fb f)) = sorted_registry s"
proof (cases "ensure_loop fid fb runtimes (read_registry f, 0, False)")
  case (Inl e)
  then show ?thesis using that(1) by (simp add: ensure_legacy_connections_def)
next
  case (Inr t)
  obtain s n c where t: "t = (s, n, c)" by (cases t)
  show ?thesis
  proof (cases "runtimes \<noteq> [] \<and> c \<and> ok")
    case True
    then show ?thesis
      using that(2) [OF Inr [unfolded t]]
      by (simp add: ensure_legacy_connections_def Inr t answer_after_def write_registry_def read_written)
  next
    case False
    then have "snd (ensure_legacy_connections ok runtimes fid fb f) = f"
      by (cases ok) (auto simp: ensure_legacy_connections_def Inr t answer_after_def write_registry_def)
    then show ?thesis by (rule that(1))
  qed
qed

lemma delete_connection_removes:
  assumes "connection_item i (read_registry f) = Some (name, r)"
    and "delete_connection_record True i f = (Inr (Some r), f')"
  shows "dhas (rg_deleted (read_registry f')) name" and "dict_at (rg_connections (read_registry f')) name = None"
  using assms
  by (auto simp: delete_connection_record_def Let_def answer_after_def write_registry_def read_written
      dict_at_def dget_def AList.delete_conv' map_of_sorted_dict)

text \<open>
  C33: A connection the user has deleted stays deleted: after \<open>delete_connection_record\<close> has
  answered, its name has no record, and importing whatever runtimes the provider still reports,
  any number of times, brings none back.
\<close>

theorem deleted_connection_not_imported:
  assumes "connection_item i (read_registry f) = Some (name, r)"
    and "delete_connection_record True i f = (Inr (Some r), f')"
  shows "connection_record name f' = None \<and>
    connection_record name (foldl (\<lambda>g (ok, runtimes, fid, fb). snd (ensure_legacy_connections ok runtimes fid fb g)) f' rounds) = None"
proof -
  define gone where "gone = (\<lambda>g. dhas (rg_deleted (read_registry g)) name \<and> dict_at (rg_connections (read_registry g)) name = None)"
  have step: "gone (snd (ensure_legacy_connections ok runtimes fid fb g))" if g: "gone g" for ok runtimes fid fb g
  proof (cases rule: import_file_cases [of ok runtimes fid fb g])
    case 1
    then show ?thesis using g by simp
  next
    case (2 s n c)
    then show ?thesis using deleted_through_import [OF 2(1), of name] g by (simp add: gone_def)
  qed
  have "gone f'" using delete_connection_removes [OF assms] by (simp add: gone_def)
  moreover have "gone g \<Longrightarrow> gone (foldl (\<lambda>g (ok, runtimes, fid, fb). snd (ensure_legacy_connections ok runtimes fid fb g)) g rounds)" for g
    by (induction rounds arbitrary: g) (auto simp: step)
  ultimately show ?thesis by (simp add: gone_def connection_record_def)
qed

lemma deleted_connection_not_imported_witness:
  "connection_record ''wa1'' (snd (ensure_legacy_connections True [[(''name'', PStr ''wa1'')]] ''m''
     [(''created_at'', PStr ''t''), (''updated_at'', PStr ''t'')] (snd (delete_connection_record True ''c1'' shop_registry)))) = None"
proof -
  let ?r = "[(''client_id'', PStr ''k1''), (''id'', PStr ''c1'')]"
  have i: "connection_item ''c1'' (read_registry shop_registry) = Some (''wa1'', ?r)" by code_simp
  have "fst (delete_connection_record True ''c1'' shop_registry) = Inr (Some ?r)" by code_simp
  then have d: "delete_connection_record True ''c1'' shop_registry =
      (Inr (Some ?r), snd (delete_connection_record True ''c1'' shop_registry))" by (metis prod.collapse)
  from deleted_connection_not_imported [OF i d, of "[(True, [[(''name'', PStr ''wa1'')]], ''m'',
     [(''created_at'', PStr ''t''), (''updated_at'', PStr ''t'')])]"]
  show ?thesis by simp
qed

section \<open>The import twice\<close>

lemma settled_rowed:
  assumes "rowed fid fb name s s'"
  shows "settled s' name" and "settled s other \<Longrightarrow> settled s' other"
proof -
  obtain r' where r': "rg_connections s' = dset (rg_connections s) name (PDict r')" "dget r' ''client_id'' = PStr fid"
    "rg_clients s' = rg_clients (with_fallback fid fb s)" "rg_deleted s' = rg_deleted s"
    using assms by (auto simp: rowed_def)
  show n: "settled s' name" by (simp add: settled_def r' dict_at_def)
  have grow: "key_in v (rg_clients s) = Inr True \<Longrightarrow> key_in v (rg_clients s') = Inr True" for v
    by (auto simp: key_in_True r' with_fallback_def)
  show "settled s other \<Longrightarrow> settled s' other"
    using n grow by (cases "other = name") (auto simp: settled_def r' dict_at_def)
qed

lemma ensure_loop_settles:
  "ensure_loop fid fb runtimes (s, n, c) = Inr (s', n', c') \<Longrightarrow> runtime \<in> set runtimes \<Longrightarrow>
    settled s' (clean_str (dget runtime ''name''))"
proof (induction runtimes arbitrary: s n c)
  case Nil
  then show ?case by simp
next
  case (Cons r0 rest)
  let ?name = "clean_str (dget r0 ''name'')"
  obtain s1 n1 c1 where rest: "ensure_loop fid fb rest (s1, n1, c1) = Inr (s', n', c')" and one: "settled s1 ?name"
  proof (cases "?name = [] \<or> dhas (rg_deleted s) ?name")
    case True
    then have "settled s ?name" by (auto simp: settled_def)
    moreover have "ensure_loop fid fb rest (s, n, c) = Inr (s', n', c')"
      using Cons.prems(1) by (simp only: ensure_loop.simps Let_def True if_True)
    ultimately show ?thesis by (rule that [rotated])
  next
    case False
    show ?thesis
    proof (cases "dict_at (rg_connections s) ?name")
      case None
      then obtain s1 where i: "import_connection fid fb ?name r0 s = Inr s1"
        "ensure_loop fid fb rest (s1, Suc n, True) = Inr (s', n', c')"
        using Cons.prems(1) False by (auto simp: Let_def rbind_eqs)
      have "rowed fid fb ?name s s1" using import_connection_parts [OF i(1)] by (simp add: rowed_def)
      then show ?thesis using that i(2) settled_rowed(1) by blast
    next
      case (Some r)
      then obtain known where k: "key_in (dget r ''client_id'') (rg_clients s) = Inr known"
        using Cons.prems(1) False by (auto simp: Let_def rbind_eqs)
      show ?thesis
      proof (cases known)
        case True
        then show ?thesis using that [of s n c] Cons.prems(1) False Some k by (simp add: settled_def Let_def)
      next
        case not: False
        then obtain s1 where i: "adopt_connection fid fb ?name r s = Inr s1"
          "ensure_loop fid fb rest (s1, n, True) = Inr (s', n', c')"
          using Cons.prems(1) Some k False by (auto simp: Let_def rbind_eqs)
        have "rowed fid fb ?name s s1" using adopt_connection_parts [OF i(1)] by (simp add: rowed_def)
        then show ?thesis using that i(2) settled_rowed(1) by blast
      qed
    qed
  qed
  have "settled s' ?name"
    by (rule ensure_loop_induct [where P = "\<lambda>s. settled s ?name", OF rest one]) (rule settled_rowed(2))
  then show ?case using Cons.IH [OF rest] Cons.prems(2) by auto
qed

lemma ensure_loop_settled:
  "\<forall>runtime\<in>set runtimes. settled s (clean_str (dget runtime ''name'')) \<Longrightarrow>
    ensure_loop fid fb runtimes (s, n, c) = Inr (s, n, c)"
  by (induction runtimes) (auto simp: settled_def Let_def split: option.split)

lemma settled_sorted [simp]: "settled (sorted_registry s) name = settled s name"
  by (auto simp: settled_def)

text \<open>
  The import of legacy connections is idempotent: once it has answered, importing the same
  runtimes again, under whatever fallback client, inserts nothing and leaves the file as it is.
\<close>

theorem legacy_import_idempotent:
  assumes "ensure_legacy_connections True runtimes fid fb f = (Inr n, f')"
  shows "ensure_legacy_connections ok runtimes fid' fb' f' = (Inr 0, f')"
proof (cases "runtimes = []")
  case True
  then show ?thesis by (simp add: ensure_legacy_connections_def)
next
  case False
  then obtain s m c where run: "ensure_loop fid fb runtimes (read_registry f, 0, False) = Inr (s, m, c)"
    using assms by (auto simp: ensure_legacy_connections_def split: sum.splits prod.splits)
  have all: "\<forall>runtime\<in>set runtimes. settled s (clean_str (dget runtime ''name''))"
    using ensure_loop_settles [OF run] by blast
  have "\<forall>runtime\<in>set runtimes. settled (read_registry f') (clean_str (dget runtime ''name''))"
  proof (cases c)
    case True
    then have "read_registry f' = sorted_registry s"
      using assms False run by (auto simp: ensure_legacy_connections_def answer_after_def write_registry_def read_written)
    then show ?thesis using all by simp
  next
    case c: False
    have "c' \<or> (c' = c0 \<and> s' = s0)" if "ensure_loop fid fb rs (s0, n0, c0) = Inr (s', n', c')" for rs s0 n0 c0 s' n' c'
      using that
    proof (induction rs arbitrary: s0 n0 c0)
      case (Cons r rs)
      then show ?case by (auto simp: Let_def rbind_eqs split: if_splits option.splits) (blast+)?
    qed simp
    from this [OF run] have "s = read_registry f" using c by auto
    moreover have "f' = f" using assms False run c by (simp add: ensure_legacy_connections_def)
    ultimately show ?thesis using all by simp
  qed
  from ensure_loop_settled [OF this] show ?thesis
    using False by (simp add: ensure_legacy_connections_def)
qed

lemma legacy_import_idempotent_witness:
  "\<exists>f'. ensure_legacy_connections True [[(''name'', PStr ''wa2'')]] ''m''
     [(''created_at'', PStr ''t''), (''updated_at'', PStr ''t'')] shop_registry = (Inr 1, f') \<and>
   ensure_legacy_connections True [[(''name'', PStr ''wa2'')]] ''other'' [] f' = (Inr 0, f')"
proof -
  let ?i = "ensure_legacy_connections True [[(''name'', PStr ''wa2'')]] ''m''
     [(''created_at'', PStr ''t''), (''updated_at'', PStr ''t'')] shop_registry"
  have "fst ?i = Inr 1" by code_simp
  then have i: "?i = (Inr 1, snd ?i)" by (metis prod.collapse)
  show ?thesis by (intro exI conjI) (rule i, rule legacy_import_idempotent [OF i])
qed

section \<open>Rollback\<close>

text \<open>
  A snapshot restores the registry: writing back a snapshot of a file the registry has
  written gives exactly that registry again, whatever happened in between.
\<close>

theorem snapshot_restores:
  assumes "snd (write_registry True s f0) = f"
  shows "read_registry (snd (replace_registry True (registry_snapshot f) g)) = read_registry f"
proof -
  have f: "f = Holds (sorted_dict (registry_dict s))" using assms by (auto simp: write_registry_def)
  have "sorted_registry (sorted_registry s) = sorted_registry s"
    by (simp add: sorted_registry_def sort_json_idem(3))
  then show ?thesis
    by (simp add: f registry_snapshot_def replace_registry_def write_registry_def registry_of_dict read_written)
qed

lemma snapshot_restores_witness:
  "read_registry (snd (replace_registry True
     (registry_snapshot (snd (write_registry True empty_registry Absent))) Unreadable)) = empty_registry"
proof -
  have e: "read_registry (snd (write_registry True empty_registry Absent)) = empty_registry" by code_simp
  show ?thesis by (rule trans [OF snapshot_restores [OF refl] e])
qed

end
