(* ===== verification/Canonical_Outbound.thy ===== *)
theory Canonical_Outbound
  imports Connection_Registry Outbound_Attempts
begin

text \<open>
  Sending what Core asks for: the contract of \<open>gateway/app/models/canonical_outbound.py\<close> and
  of \<open>CanonicalOutboundV2\<close>, \<open>CanonicalOutboundService\<close> of
  \<open>gateway/app/services/canonical_outbound.py\<close>, and its two routes. The service finds the
  connection a message belongs to, checks that the message may be sent there, claims the send
  under its idempotency key and hands it to the provider. What the provider answers to a
  request is an argument; the texts of the errors are left out.
\<close>

section \<open>The contract\<close>

datatype message_kind = Text | Image | Video | Audio | Document | Sticker | Reaction | Unknown

fun kind_str :: "message_kind \<Rightarrow> string" where
  "kind_str Text = ''text''"
| "kind_str Image = ''image''"
| "kind_str Video = ''video''"
| "kind_str Audio = ''audio''"
| "kind_str Document = ''document''"
| "kind_str Sticker = ''sticker''"
| "kind_str Reaction = ''reaction''"
| "kind_str Unknown = ''unknown''"

datatype provider_code = Evolution | Meta
datatype channel_type = Whatsapp | Instagram

fun provider_str :: "provider_code \<Rightarrow> string" where
  "provider_str Evolution = ''evolution''"
| "provider_str Meta = ''meta''"

fun channel_str :: "channel_type \<Rightarrow> string" where
  "channel_str Whatsapp = ''whatsapp''"
| "channel_str Instagram = ''instagram''"

record out_attachment =
  at_kind :: message_kind
  at_provider_media_id :: "string option"
  at_url :: "string option"
  at_mime_type :: "string option"
  at_filename :: "string option"
  at_size :: "int option"

record reply_to =
  rt_message_id :: string
  rt_chat :: string
  rt_author :: string
  rt_text :: string
  rt_from_me :: bool

record v2_part =
  v2_connection_ref :: string
  v2_binding_id :: string
  v2_to_group :: bool
  v2_reply :: "reply_to option"

record out_message =
  om_channel_id :: string
  om_channel_type :: channel_type
  om_provider :: provider_code
  om_recipient :: string
  om_kind :: message_kind
  om_content :: "string option"
  om_attachments :: "out_attachment list"
  om_key :: string
  om_metadata :: pdict
  om_request_id :: "string option"
  om_correlation_id :: "string option"
  om_v2 :: "v2_part option"

definition len_within :: "nat \<Rightarrow> nat \<Rightarrow> string \<Rightarrow> bool" where
  "len_within lo hi s \<longleftrightarrow> lo \<le> length s \<and> length s \<le> hi"

definition opt_within :: "nat \<Rightarrow> string option \<Rightarrow> bool" where
  "opt_within hi s = (case s of None \<Rightarrow> True | Some t \<Rightarrow> length t \<le> hi)"

definition forbidden_metadata :: "string list" where
  "forbidden_metadata =
     [''access_token'', ''refresh_token'', ''api_key'', ''apikey'', ''authorization'', ''password'', ''secret'']"

text \<open>Only dictionaries are searched, not the lists inside them.\<close>

fun no_credentials :: "pval \<Rightarrow> bool"
  and no_credential_items :: "pdict \<Rightarrow> bool" where
  "no_credentials (PDict d) = no_credential_items d"
| "no_credentials _ = True"
| "no_credential_items [] = True"
| "no_credential_items ((k, v) # d) \<longleftrightarrow>
     replace_chr (CHR ''-'') (CHR ''_'') (str_lower (strip k)) \<notin> set forbidden_metadata \<and>
     no_credentials v \<and> no_credential_items d"

definition valid_out_attachment :: "out_attachment \<Rightarrow> bool" where
  "valid_out_attachment a \<longleftrightarrow>
     opt_within 255 (at_provider_media_id a) \<and> opt_within 4096 (at_url a) \<and> opt_within 255 (at_mime_type a) \<and>
     opt_within 1024 (at_filename a) \<and> (case at_size a of None \<Rightarrow> True | Some n \<Rightarrow> 0 \<le> n)"

definition valid_reply :: "reply_to \<Rightarrow> bool" where
  "valid_reply r \<longleftrightarrow>
     len_within 1 255 (rt_message_id r) \<and> len_within 1 255 (rt_chat r) \<and> len_within 1 255 (rt_author r) \<and>
     length (rt_text r) \<le> 32000"

definition scoped_quote :: "string \<Rightarrow> v2_part \<Rightarrow> bool" where
  "scoped_quote recipient p =
     (case v2_reply p of
        None \<Rightarrow> True
      | Some r \<Rightarrow> v2_to_group p \<and> rt_chat r = recipient \<and> group_jid (rt_chat r))"

definition valid_out_message :: "out_message \<Rightarrow> bool" where
  "valid_out_message m \<longleftrightarrow>
     len_within 1 255 (om_recipient m) \<and>
     (om_kind m = Text \<longrightarrow> (case om_content m of None \<Rightarrow> False | Some t \<Rightarrow> strip t \<noteq> [])) \<and>
     list_all valid_out_attachment (om_attachments m) \<and> len_within 1 255 (om_key m) \<and>
     no_credential_items (om_metadata m) \<and>
     opt_within 255 (om_request_id m) \<and> opt_within 255 (om_correlation_id m) \<and>
     (case om_v2 m of
        None \<Rightarrow> True
      | Some p \<Rightarrow> scoped_quote (om_recipient m) p \<and> (case v2_reply p of None \<Rightarrow> True | Some r \<Rightarrow> valid_reply r))"

section \<open>Errors\<close>

definition canonical_error :: "int \<Rightarrow> string \<Rightarrow> py_exc" where
  "canonical_error status code = AppError ''CanonicalOutboundError'' (Some status) code"

definition require :: "bool \<Rightarrow> int \<Rightarrow> string \<Rightarrow> unit res" where
  "require ok status code = (if ok then Inr () else Inl (canonical_error status code))"

section \<open>The connection of a message\<close>

record out_connection =
  oc_id :: string
  oc_runtime :: string
  oc_provider :: string
  oc_channel :: string

definition bound_channel :: "pdict \<Rightarrow> pval" where
  "bound_channel r = dget (as_dict (dget r ''core_channel'')) ''channelId''"

definition record_for :: "registry_file \<Rightarrow> out_message \<Rightarrow> string option \<Rightarrow> pdict res" where
  "record_for f m authenticated =
     (let scoped = strip (case authenticated of None \<Rightarrow> [] | Some i \<Rightarrow> i) in
      if scoped \<noteq> []
      then (case connection_record scoped f of
              None \<Rightarrow> Inl (canonical_error 404 ''connection_not_found'')
            | Some r \<Rightarrow>
                if clean_str (bound_channel r) \<noteq> [] \<and> clean_str (bound_channel r) \<noteq> om_channel_id m
                then Inl (canonical_error 409 ''channel_connection_mismatch'') else Inr r)
      else (case filter (\<lambda>r. is_dict (dget r ''core_channel'') \<and> str_or_empty (bound_channel r) = om_channel_id m)
                   (connection_records f) of
              [r] \<Rightarrow> Inr r
            | _ \<Rightarrow> Inl (canonical_error 409 ''channel_binding_missing'')))"

definition resolve_connection :: "registry_file \<Rightarrow> out_message \<Rightarrow> string option \<Rightarrow> out_connection res" where
  "resolve_connection f m authenticated =
     rbind (record_for f m authenticated) (\<lambda>r.
       let c = \<lparr> oc_id = clean_str (dget r ''id''), oc_runtime = clean_str (dget r ''legacy_name''),
                 oc_provider = str_lower (clean_str (dget r ''provider_id'')),
                 oc_channel = str_lower (clean_str (dget r ''channel_id'')) \<rparr>
       in if oc_runtime c = [] \<or> oc_provider c \<noteq> provider_str (om_provider m) \<or>
             oc_channel c \<noteq> channel_str (om_channel_type m)
          then Inl (canonical_error 409 ''transport_mismatch'') else Inr c)"

section \<open>What may be sent where\<close>

definition to_group :: "out_message \<Rightarrow> bool" where
  "to_group m = (case om_v2 m of None \<Rightarrow> False | Some p \<Rightarrow> v2_to_group p)"

fun refuses_binding :: "py_exc \<Rightarrow> bool" where
  "refuses_binding (ValueError _) = True"
| "refuses_binding TypeError = True"
| "refuses_binding AttributeError = True"
| "refuses_binding _ = False"

text \<open>The version 2 contract names its binding, and the policy of the connection must agree.\<close>

definition check_binding ::
    "group_env \<Rightarrow> registry_file \<Rightarrow> out_message \<Rightarrow> v2_part \<Rightarrow> out_connection \<Rightarrow> unit res" where
  "check_binding env f m p c =
     (case rbind (require_policy env (connection_record (oc_runtime c) f)
                    (if v2_to_group p then PStr (om_recipient m) else PNone) PNone) (\<lambda>policy.
             if v2_connection_ref p \<noteq> oc_id c \<or> v2_binding_id p \<noteq> gp_binding_id policy
             then Inl (ValueError ''Binding mismatch'') else Inr ()) of
        Inl e \<Rightarrow> if refuses_binding e then Inl (canonical_error 403 ''group_not_authorized'') else Inl e
      | Inr u \<Rightarrow> Inr u)"

definition check_destination :: "group_env \<Rightarrow> registry_file \<Rightarrow> out_message \<Rightarrow> out_connection \<Rightarrow> unit res" where
  "check_destination env f m c =
     rbind (case om_v2 m of None \<Rightarrow> Inr () | Some p \<Rightarrow> check_binding env f m p c) (\<lambda>_.
     rbind (require (om_v2 m = None \<or> to_group m \<or> isdigit (om_recipient m)) 422 ''direct_destination_unsupported'') (\<lambda>_.
     rbind (require (\<not> to_group m \<or> (case om_v2 m of None \<Rightarrow> True | Some p \<Rightarrow> v2_reply p \<noteq> None)) 422 ''group_quote_required'') (\<lambda>_.
     rbind (require (\<not> to_group m \<or> (om_kind m = Text \<and> om_attachments m = [])) 422 ''message_kind_unsupported'') (\<lambda>_.
       require (to_group m \<or> oc_channel c \<noteq> ''whatsapp'' \<or> \<not> contains_str (str_lower (om_recipient m)) ''@g.us'')
         422 ''group_contract_required''))))"

definition evolution_whatsapp :: "string \<times> string" where
  "evolution_whatsapp = (''evolution'', ''whatsapp'')"

definition meta_instagram :: "string \<times> string" where
  "meta_instagram = (''meta'', ''instagram'')"

definition transport_of :: "out_connection \<Rightarrow> string \<times> string" where
  "transport_of c = (oc_provider c, oc_channel c)"

definition evolution_number :: "string \<Rightarrow> string" where
  "evolution_number external_id = filter is_digit external_id"

definition opaque_external_id :: "string \<Rightarrow> string" where
  "opaque_external_id external_id = (if strip external_id \<noteq> [] then external_id else [])"

definition recipient_for_transport :: "string \<times> string \<Rightarrow> string \<Rightarrow> string res" where
  "recipient_for_transport transport external_id =
     (let recipient = (if transport = evolution_whatsapp then evolution_number external_id
                       else opaque_external_id external_id)
      in if recipient \<noteq> [] then Inr recipient else Inl (canonical_error 422 ''recipient_invalid''))"

definition first_attachment :: "out_message \<Rightarrow> out_attachment option" where
  "first_attachment m = (case om_attachments m of [] \<Rightarrow> None | a # _ \<Rightarrow> Some a)"

definition text_or :: "string \<Rightarrow> string option \<Rightarrow> string" where
  "text_or d s = (case s of None \<Rightarrow> d | Some t \<Rightarrow> if t = [] then d else t)"

definition validate_whatsapp_message :: "out_message \<Rightarrow> out_attachment option res" where
  "validate_whatsapp_message m =
     (let a = first_attachment m in
      if om_kind m \<noteq> Text \<and> (om_kind m \<notin> {Image, Video, Audio, Document} \<or>
           (case a of None \<Rightarrow> True | Some x \<Rightarrow> strip (text_or [] (at_url x)) = []))
      then Inl (canonical_error 422 ''message_kind_unsupported'') else Inr a)"

definition validate_instagram_text_message :: "out_message \<Rightarrow> out_attachment option res" where
  "validate_instagram_text_message m =
     (if om_kind m \<noteq> Text \<or> om_attachments m \<noteq> []
      then Inl (canonical_error 422 ''message_kind_unsupported'') else Inr None)"

definition validate_for_transport :: "string \<times> string \<Rightarrow> out_message \<Rightarrow> out_attachment option res" where
  "validate_for_transport transport m =
     (if transport = evolution_whatsapp then validate_whatsapp_message m else validate_instagram_text_message m)"

section \<open>The request to the provider\<close>

datatype provider_request =
    Send_Text string string string "pdict option"
  | Send_Media string string string string string string string
  | Send_Instagram string string string

definition quoted_message :: "reply_to \<Rightarrow> pdict" where
  "quoted_message r =
     [(''key'', PDict [(''remoteJid'', PStr (rt_chat r)), (''id'', PStr (rt_message_id r)),
        (''participant'', PStr (rt_author r)), (''fromMe'', PBool (rt_from_me r))]),
      (''message'', PDict [(''conversation'', PStr (rt_text r))])]"

definition evolution_request :: "out_connection \<Rightarrow> out_message \<Rightarrow> provider_request res" where
  "evolution_request c m =
     rbind (if om_v2 m \<noteq> None then Inr (om_recipient m) else recipient_for_transport evolution_whatsapp (om_recipient m)) (\<lambda>number.
     rbind (validate_whatsapp_message m) (\<lambda>attachment.
       let content = text_or [] (om_content m) in
       if om_kind m = Text
       then Inr (Send_Text (oc_runtime c) number content
              (case om_v2 m of None \<Rightarrow> None | Some p \<Rightarrow> map_option quoted_message (v2_reply p)))
       else case attachment of
              None \<Rightarrow> Inl (AppError ''AssertionError'' None [])
            | Some a \<Rightarrow>
                Inr (Send_Media (oc_runtime c) number (text_or [] (at_url a)) (kind_str (om_kind m))
                  (text_or ''application/octet-stream'' (at_mime_type a)) (text_or ''file.bin'' (at_filename a)) content)))"

definition instagram_request :: "bool \<Rightarrow> out_connection \<Rightarrow> out_message \<Rightarrow> provider_request res" where
  "instagram_request adapter_ok c m =
     (if oc_id c = [] then Inl (canonical_error 422 ''provider_configuration_invalid'')
      else if \<not> adapter_ok then Inl (canonical_error 501 ''provider_not_implemented'')
      else Inr (Send_Instagram (oc_id c) (om_recipient m) (text_or [] (om_content m))))"

definition sender_for :: "bool \<Rightarrow> out_connection \<Rightarrow> out_message \<Rightarrow> provider_request res res" where
  "sender_for adapter_ok c m =
     (if transport_of c = evolution_whatsapp then Inr (evolution_request c m)
      else if transport_of c = meta_instagram then Inr (instagram_request adapter_ok c m)
      else Inl (canonical_error 501 ''provider_not_implemented''))"

section \<open>Delivering\<close>

record out_env =
  oe_registry :: registry_file
  oe_group :: group_env
  oe_adapter_ok :: bool
  oe_sha256 :: "string \<Rightarrow> string"
  oe_loads :: "string \<Rightarrow> pval option"
  oe_message :: "py_exc \<Rightarrow> string"
  oe_send :: "provider_request \<Rightarrow> pval res"

record out_call =
  ol_now :: int
  ol_finished :: int
  ol_uid :: string
  ol_retention :: int
  ol_claim_ok :: bool
  ol_finish_ok :: bool

definition idempotency_key :: "(string \<Rightarrow> string) \<Rightarrow> out_connection \<Rightarrow> out_message \<Rightarrow> string" where
  "idempotency_key sha256 c m =
     (case om_v2 m of
        None \<Rightarrow> om_key m
      | Some p \<Rightarrow> ''v2:'' @ sha256 (json_dumps False '','' '':'' (PList
          [PStr (oc_id c), PStr (v2_binding_id p), PStr (if v2_to_group p then ''group'' else ''direct''), PStr (om_key m)])))"

definition correlation_id :: "out_message \<Rightarrow> string option" where
  "correlation_id m = (case om_correlation_id m of Some (x # xs) \<Rightarrow> Some (x # xs) | _ \<Rightarrow> om_request_id m)"

definition attachment_reference :: "out_message \<Rightarrow> out_attachment \<Rightarrow> pdict" where
  "attachment_reference m a =
     [(''kind'', PStr (kind_str (om_kind m))), (''mimeType'', pstr_opt (at_mime_type a)),
      (''fileName'', pstr_opt (at_filename a)), (''source'', PStr ''canonical_attachment'')]"

definition claim_args ::
    "(string \<Rightarrow> string) \<Rightarrow> out_connection \<Rightarrow> out_message \<Rightarrow> string \<Rightarrow> out_attachment option \<Rightarrow> attempt_args" where
  "claim_args sha256 c m recipient attachment =
     \<lparr> aa_instance = oc_runtime c, aa_provider = oc_provider c, aa_message_type = PStr (kind_str (om_kind m)),
       aa_recipient = PStr recipient, aa_text = pstr_opt (om_content m), aa_caption = PNone,
       aa_correlation_id = pstr_opt (correlation_id m), aa_request_id = pstr_opt (om_request_id m),
       aa_operation = ''provider.message.outbound'',
       aa_provider_operation = PStr (if om_kind m = Text then ''canonical.outbound.sendText'' else ''canonical.outbound.sendMedia''),
       aa_media = map_option (attachment_reference m) attachment, aa_message_id = PNone, aa_conversation_id = PNone,
       aa_idempotency_key = PStr (idempotency_key sha256 c m), aa_canonical_channel_id = PStr (om_channel_id m),
       aa_canonical_recipient_external_id = PStr (om_recipient m), aa_retry_of_attempt_id = PNone,
       aa_triggered_by_manual_action_id = PNone, aa_source_delivery_id = PNone \<rparr>"

definition accepted_result :: "out_message \<Rightarrow> out_connection \<Rightarrow> pval \<Rightarrow> pdict" where
  "accepted_result m c msg_id =
     [(''status'', PStr ''accepted''), (''providerMessageId'', msg_id), (''idempotencyKey'', PStr (om_key m)),
      (''trace'', PDict [(''requestId'', pstr_opt (om_request_id m)), (''correlationId'', pstr_opt (om_correlation_id m))]),
      (''provider'', PStr (oc_provider c))]"

definition duplicate_result :: "pdict \<Rightarrow> out_message \<Rightarrow> out_connection \<Rightarrow> pdict res" where
  "duplicate_result attempt m c =
     (if dget attempt ''semanticStatus'' = PStr ''success'' \<and> dget attempt ''deliveryState'' = PStr ''accepted''
      then Inr (accepted_result m c (dget attempt ''providerMessageId''))
      else Inl (canonical_error 409 ''idempotency_in_progress''))"

text \<open>The status an exception carries, and what the service raises instead of it.\<close>

fun status_of :: "py_exc \<Rightarrow> int option" where
  "status_of (AppError c s k) = s"
| "status_of _ = None"

definition not_ready :: "string \<times> string \<Rightarrow> py_exc" where
  "not_ready transport =
     (if transport = meta_instagram then canonical_error 422 ''provider_configuration_invalid''
      else canonical_error 502 ''provider_delivery_failed'')"

definition delivery_error :: "string \<times> string \<Rightarrow> py_exc \<Rightarrow> py_exc" where
  "delivery_error transport e =
     (case e of
        AppError c s k \<Rightarrow>
          if c = ''CanonicalOutboundError'' then e
          else if c \<in> {''ConnectionNotFoundError'', ''UnsupportedConnectionProviderError''} then not_ready transport
          else canonical_error (case s of None \<Rightarrow> 502 | Some i \<Rightarrow> i) ''provider_delivery_failed''
      | ValueError _ \<Rightarrow> not_ready transport
      | RuntimeError _ \<Rightarrow> not_ready transport
      | PersistenceError _ \<Rightarrow> not_ready transport
      | _ \<Rightarrow> canonical_error 502 ''provider_delivery_failed'')"

definition send_outcome_of :: "out_env \<Rightarrow> pval res \<Rightarrow> send_outcome" where
  "send_outcome_of env r = (case r of Inr v \<Rightarrow> Sent v | Inl e \<Rightarrow> Raised (oe_message env e) (status_of e) e)"

text \<open>The request that reached the provider is part of the answer.\<close>

definition dispatch_claimed ::
    "out_env \<Rightarrow> out_call \<Rightarrow> out_connection \<Rightarrow> out_message \<Rightarrow> provider_request res \<Rightarrow> pdict \<Rightarrow> attempt_file
     \<Rightarrow> pdict res \<times> provider_request option \<times> attempt_file" where
  "dispatch_claimed env call c m request attempt f =
     (let sent = (case request of Inl e \<Rightarrow> None | Inr rq \<Rightarrow> Some rq);
          answer = rbind request (oe_send env)
      in case execute_outbound_attempt (oe_loads env) (ol_finish_ok call) (ol_finished call)
                (py_str (dget attempt ''id'')) (send_outcome_of env answer) f of
           (Inl e, f') \<Rightarrow> (Inl (delivery_error (transport_of c) e), sent, f')
         | (Inr (_, finalized), f') \<Rightarrow>
             (Inr (accepted_result m c (dget finalized ''providerMessageId'')), sent, f'))"

definition claim_and_dispatch ::
    "out_env \<Rightarrow> out_call \<Rightarrow> out_connection \<Rightarrow> out_message \<Rightarrow> provider_request res \<Rightarrow> string \<Rightarrow> out_attachment option
     \<Rightarrow> attempt_file \<Rightarrow> pdict res \<times> provider_request option \<times> attempt_file" where
  "claim_and_dispatch env call c m request recipient attachment f =
     (case create_or_get_by_idempotency (oe_sha256 env)
             (case connection_record (oc_runtime c) (oe_registry env) of None \<Rightarrow> [] | Some r \<Rightarrow> r)
             (ol_claim_ok call) (ol_retention call) (ol_now call) (ol_uid call)
             (claim_args (oe_sha256 env) c m recipient attachment) f of
        (Inl e, f') \<Rightarrow> (Inl e, None, f')
      | (Inr (attempt, created), f') \<Rightarrow>
          if \<not> created then (duplicate_result attempt m c, None, f')
          else dispatch_claimed env call c m request attempt f')"

definition out_recipient :: "out_connection \<Rightarrow> out_message \<Rightarrow> string res" where
  "out_recipient c m =
     (if om_v2 m \<noteq> None then Inr (om_recipient m) else recipient_for_transport (transport_of c) (om_recipient m))"

text \<open>Everything that is decided before the claim.\<close>

definition prepare_send ::
    "out_env \<Rightarrow> out_message \<Rightarrow> string option \<Rightarrow> (out_connection \<times> provider_request res \<times> string \<times> out_attachment option) res" where
  "prepare_send env m authenticated =
     rbind (resolve_connection (oe_registry env) m authenticated) (\<lambda>c.
     rbind (check_destination (oe_group env) (oe_registry env) m c) (\<lambda>_.
     rbind (sender_for (oe_adapter_ok env) c m) (\<lambda>request.
     rbind (out_recipient c m) (\<lambda>recipient.
     rbind (validate_for_transport (transport_of c) m) (\<lambda>attachment.
       Inr (c, request, recipient, attachment))))))"

definition deliver_canonical ::
    "out_env \<Rightarrow> out_call \<Rightarrow> out_message \<Rightarrow> string option \<Rightarrow> attempt_file
     \<Rightarrow> pdict res \<times> provider_request option \<times> attempt_file" where
  "deliver_canonical env call m authenticated f =
     (case prepare_send env m authenticated of
        Inl e \<Rightarrow> (Inl e, None, f)
      | Inr (c, request, recipient, attachment) \<Rightarrow> claim_and_dispatch env call c m request recipient attachment f)"

section \<open>The routes\<close>

datatype out_answer = Accepted pdict | Refused int string | Failed_Request py_exc

definition answer_of :: "pdict res \<Rightarrow> out_answer" where
  "answer_of r =
     (case r of
        Inr body \<Rightarrow> Accepted body
      | Inl e \<Rightarrow>
          (case e of
             AppError c (Some status) code \<Rightarrow>
               if c = ''CanonicalOutboundError'' then Refused status code else Failed_Request e
           | _ \<Rightarrow> Failed_Request e))"

definition post_canonical_v1 ::
    "out_env \<Rightarrow> out_call \<Rightarrow> string \<Rightarrow> out_message \<Rightarrow> string option \<Rightarrow> attempt_file
     \<Rightarrow> out_answer \<times> provider_request option \<times> attempt_file" where
  "post_canonical_v1 env call version m auth_instance f =
     (if version \<noteq> ''canonical-v1'' then (Refused 400 ''unsupported_contract_version'', None, f)
      else case deliver_canonical env call m auth_instance f of (r, sent, f') \<Rightarrow> (answer_of r, sent, f'))"

definition post_canonical_v2 ::
    "out_env \<Rightarrow> out_call \<Rightarrow> string \<Rightarrow> string \<Rightarrow> out_message \<Rightarrow> string option \<Rightarrow> attempt_file
     \<Rightarrow> out_answer \<times> provider_request option \<times> attempt_file" where
  "post_canonical_v2 env call version auth_method m auth_instance f =
     (if version \<noteq> ''canonical-v2'' then (Refused 400 ''Expected canonical-v2'', None, f)
      else if auth_method \<notin> {''instance_api_key'', ''gateway_api_key''}
      then (Refused 403 ''Service authentication required'', None, f)
      else case deliver_canonical env call m auth_instance f of (r, sent, f') \<Rightarrow> (answer_of r, sent, f'))"

end
