(* ===== verification/Canonical_Outbound_Spec.thy ===== *)
theory Canonical_Outbound_Spec
  imports Canonical_Outbound Connection_Registry_Spec Outbound_Attempts_Spec
begin

text \<open>
  What sending for Core promises: a request reaches a provider only through the connection the
  message belongs to and only where the policy lets it, a send is made once under its key and a
  repetition gets the answer of the first, and every refusal is an answer of the contract.
\<close>

section \<open>What is decided before the claim\<close>

lemma prepare_send_Inr:
  assumes "prepare_send env m auth = Inr (c, request, recipient, attachment)"
  obtains "resolve_connection (oe_registry env) m auth = Inr c"
    and "check_destination (oe_group env) (oe_registry env) m c = Inr ()"
    and "sender_for (oe_adapter_ok env) c m = Inr request"
    and "out_recipient c m = Inr recipient"
    and "validate_for_transport (transport_of c) m = Inr attachment"
  using assms by (auto simp: prepare_send_def rbind_eqs)






lemma require_Inr [simp]: "require b s c = Inr u \<longleftrightarrow> b"
  by (simp add: require_def)





section \<open>One send for one key\<close>

definition claimed_attempt :: "out_env \<Rightarrow> out_call \<Rightarrow> out_connection \<Rightarrow> attempt_args \<Rightarrow> pdict" where
  "claimed_attempt env call c a =
     build_attempt (oe_sha256 env)
       (case connection_record (oc_runtime c) (oe_registry env) of None \<Rightarrow> [] | Some r \<Rightarrow> r)
       (ol_now call) (ol_uid call) (claimed_args a)"













subsection \<open>What happens to the store in between\<close>













definition shop_record :: pdict where
  "shop_record =
     [(''id'', PStr ''c1''), (''legacy_name'', PStr ''wa1''), (''provider_id'', PStr ''evolution''),
      (''channel_id'', PStr ''whatsapp''), (''core_channel'', PDict [(''channelId'', PStr ''h1'')])]"

definition shop_env :: "pval res \<Rightarrow> out_env" where
  "shop_env answer =
     \<lparr> oe_registry = Holds [(''connections'', PDict [(''wa1'', PDict shop_record)])],
       oe_group = \<lparr> ge_enabled = False, ge_hooks = (\<lambda>_. Inr []) \<rparr>, oe_adapter_ok = True, oe_sha256 = id,
       oe_loads = (\<lambda>_. None), oe_message = (\<lambda>_. ''failed''), oe_send = (\<lambda>_. answer) \<rparr>"

definition shop_message :: out_message where
  "shop_message =
     \<lparr> om_channel_id = ''h1'', om_channel_type = Whatsapp, om_provider = Evolution, om_recipient = ''549@s'',
       om_kind = Text, om_content = Some ''hola'', om_attachments = [], om_key = ''k1'', om_metadata = [],
       om_request_id = None, om_correlation_id = None, om_v2 = None \<rparr>"

definition shop_call :: "int \<Rightarrow> string \<Rightarrow> out_call" where
  "shop_call now uid =
     \<lparr> ol_now = now, ol_finished = now, ol_uid = uid, ol_retention = 10, ol_claim_ok = True, ol_finish_ok = True \<rparr>"





lemma claim_goes_through:
  assumes "safe_text (aa_idempotency_key a) 128 \<noteq> PNone" and "safe_text (aa_canonical_channel_id a) 256 \<noteq> PNone"
  shows "\<exists>x created f'. create_or_get_by_idempotency sha reg True r now uid a f = (Inr (x, created), f') \<and>
    (read_attempts f = [] \<longrightarrow> created)"
proof (cases "List.find (\<lambda>e. same_canonical_idempotency_scope e (build_attempt sha reg now uid (claimed_args a))) (read_attempts f)")
  case None
  have "\<exists>f'. trim_and_write True r (read_attempts f @ [build_attempt sha reg now uid (claimed_args a)]) f = (Inr (), f')"
    by (simp add: trim_and_write_def write_attempts_def replace_file_def)
  then obtain f' where "trim_and_write True r (read_attempts f @ [build_attempt sha reg now uid (claimed_args a)]) f = (Inr (), f')"
    by blast
  with assms show ?thesis
    by (intro exI [of _ "build_attempt sha reg now uid (claimed_args a)"] exI [of _ True] exI [of _ f'])
      (simp add: create_or_get_alt None)
next
  case (Some e)
  then have "read_attempts f \<noteq> []" by auto
  then show ?thesis using assms by (auto simp add: create_or_get_alt Some)
qed



section \<open>Every refusal is an answer of the contract\<close>

text \<open>The refusals of a version 1 message the gateway decides itself: status and code.\<close>

definition contract_table :: "(int \<times> string) list" where
  "contract_table =
     [(404, ''connection_not_found''), (409, ''channel_connection_mismatch''), (409, ''channel_binding_missing''),
      (409, ''transport_mismatch''), (422, ''group_contract_required''), (422, ''message_kind_unsupported''),
      (422, ''recipient_invalid''), (422, ''provider_configuration_invalid''), (501, ''provider_not_implemented''),
      (409, ''idempotency_in_progress'')]"

text \<open>A computation that raises nothing but errors of the table.\<close>

definition contract_errors :: "'a res \<Rightarrow> bool" where
  "contract_errors r \<longleftrightarrow> (\<forall>e. r = Inl e \<longrightarrow> (\<exists>s k. e = canonical_error s k \<and> (s, k) \<in> set contract_table))"

named_theorems contract \<open>computations that raise only errors of the contract\<close>

lemma contract_Inr [contract]: "contract_errors (Inr x)"
  by (simp add: contract_errors_def)

lemma contract_Inl: "(s, k) \<in> set contract_table \<Longrightarrow> contract_errors (Inl (canonical_error s k))"
  by (auto simp: contract_errors_def)

lemma contract_known [contract]:
  "contract_errors (Inl (canonical_error 404 ''connection_not_found''))"
  "contract_errors (Inl (canonical_error 409 ''channel_connection_mismatch''))"
  "contract_errors (Inl (canonical_error 409 ''channel_binding_missing''))"
  "contract_errors (Inl (canonical_error 409 ''transport_mismatch''))"
  "contract_errors (Inl (canonical_error 422 ''message_kind_unsupported''))"
  "contract_errors (Inl (canonical_error 422 ''recipient_invalid''))"
  "contract_errors (Inl (canonical_error 422 ''provider_configuration_invalid''))"
  "contract_errors (Inl (canonical_error 501 ''provider_not_implemented''))"
  "contract_errors (Inl (canonical_error 409 ''idempotency_in_progress''))"
  by (simp_all add: contract_Inl contract_table_def)

lemma contract_require: "b \<or> (s, k) \<in> set contract_table \<Longrightarrow> contract_errors (require b s k)"
  by (auto simp: contract_errors_def require_def)

lemma contract_rbind: "contract_errors r \<Longrightarrow> (\<And>x. contract_errors (g x)) \<Longrightarrow> contract_errors (rbind r g)"
  by (cases r) (auto simp: contract_errors_def)

lemma contract_if: "contract_errors x \<Longrightarrow> contract_errors y \<Longrightarrow> contract_errors (if b then x else y)"
  by simp

lemma contract_record_for [contract]: "contract_errors (record_for f m auth)"
  by (auto simp: record_for_def Let_def contract split: option.split list.split)

lemma contract_resolve [contract]: "contract_errors (resolve_connection f m auth)"
  unfolding resolve_connection_def Let_def
  by (intro contract_rbind contract_if contract)

lemma contract_destination: "om_v2 m = None \<Longrightarrow> contract_errors (check_destination env f m c)"
  unfolding check_destination_def
  by (intro contract_rbind) (simp_all add: contract contract_require to_group_def contract_table_def)

lemma contract_recipient [contract]: "contract_errors (recipient_for_transport t r)"
  unfolding recipient_for_transport_def Let_def by (intro contract_if contract)

lemma contract_whatsapp [contract]: "contract_errors (validate_whatsapp_message m)"
  unfolding validate_whatsapp_message_def Let_def by (intro contract_if contract)

lemma contract_validate [contract]: "contract_errors (validate_for_transport t m)"
  unfolding validate_for_transport_def validate_instagram_text_message_def
  by (intro contract_if contract)

lemma contract_prepare: "om_v2 m = None \<Longrightarrow> contract_errors (prepare_send env m auth)"
  unfolding prepare_send_def sender_for_def out_recipient_def
  by (intro contract_rbind contract_if contract contract_destination)

lemma contract_duplicate: "contract_errors (duplicate_result x m c)"
  unfolding duplicate_result_def by (intro contract_if contract)

text \<open>The errors of the contract's class are raised in this service alone.\<close>

definition own_error :: "py_exc \<Rightarrow> bool" where
  "own_error e \<longleftrightarrow> (\<exists>s k. e = AppError ''CanonicalOutboundError'' s k)"

text \<open>What a message may be refused with, given what the provider may raise.\<close>

definition in_contract :: "out_env \<Rightarrow> int \<Rightarrow> string \<Rightarrow> bool" where
  "in_contract env s k \<longleftrightarrow> (s, k) \<in> set contract_table \<or>
     k = ''provider_delivery_failed'' \<and> (s = 502 \<or> (\<exists>rq e. oe_send env rq = Inl e \<and> status_of e = Some s))"

definition refuses_in_contract :: "out_env \<Rightarrow> py_exc \<Rightarrow> bool" where
  "refuses_in_contract env e \<longleftrightarrow> (\<exists>s k. e = canonical_error s k \<and> in_contract env s k)"

lemma refuses_known:
  "(s, k) \<in> set contract_table \<Longrightarrow> refuses_in_contract env (canonical_error s k)"
  "refuses_in_contract env (canonical_error 502 ''provider_delivery_failed'')"
  "oe_send env rq = Inl e \<Longrightarrow> status_of e = Some s \<Longrightarrow> refuses_in_contract env (canonical_error s ''provider_delivery_failed'')"
  by (auto simp: refuses_in_contract_def in_contract_def)

lemma refuses_not_ready: "refuses_in_contract env (not_ready t)"
  unfolding not_ready_def by (simp add: refuses_known contract_table_def)

lemma delivery_error_contract:
  assumes "\<not> own_error e" and "oe_send env rq = Inl e \<or> status_of e = None"
  shows "refuses_in_contract env (delivery_error t e)"
proof (cases e)
  case (AppError c s k)
  have "c \<noteq> ''CanonicalOutboundError''" using assms(1) AppError by (auto simp: own_error_def)
  moreover have "refuses_in_contract env (canonical_error (case s of None \<Rightarrow> 502 | Some i \<Rightarrow> i) ''provider_delivery_failed'')"
    using assms(2) refuses_known(2,3) [of env] by (cases s) (simp_all add: AppError)
  ultimately show ?thesis by (simp add: AppError delivery_error_def refuses_not_ready)
qed (simp_all add: delivery_error_def refuses_known(2) refuses_not_ready)

lemma update_attempt_Inl: "update_attempt ok i g f = (Inl e, f') \<Longrightarrow> \<not> own_error e \<and> status_of e = None"
  by (cases ok) (auto simp: update_attempt_def update_where_def Let_def write_attempts_def own_error_def split: option.splits)

lemma execute_raises:
  assumes "execute_outbound_attempt lo ok now i (send_outcome_of env answer) f = (Inl e, f')"
  shows "answer = Inl e \<or> \<not> own_error e \<and> status_of e = None"
proof (cases answer)
  case (Inl e0)
  obtain a f'' where u: "finish_error lo ok now i (oe_message env e0) (status_of e0) f = (a, f'')" by (metis surj_pair)
  show ?thesis
    using assms Inl u
    by (cases a) (auto simp: send_outcome_of_def execute_outbound_attempt_def finish_error_def Let_def dest: update_attempt_Inl)
next
  case (Inr v)
  then show ?thesis
    using assms
    by (auto simp: send_outcome_of_def execute_outbound_attempt_def finish_success_def Let_def
        split: prod.splits sum.splits dest: update_attempt_Inl)
qed

lemma request_raises:
  assumes "sender_for ok c m = Inr (Inl e)"
  shows "(\<exists>s k. e = canonical_error s k \<and> (s, k) \<in> set contract_table) \<or> \<not> own_error e \<and> status_of e = None"
proof -
  consider "evolution_request c m = Inl e" | "instagram_request ok c m = Inl e"
    using assms by (auto simp: sender_for_def split: if_splits)
  then show ?thesis
  proof cases
    case 1
    let ?number = "if om_v2 m \<noteq> None then Inr (om_recipient m) else recipient_for_transport evolution_whatsapp (om_recipient m)"
    have "contract_errors ?number" by (intro contract_if contract)
    moreover have "?number = Inl e \<or> validate_whatsapp_message m = Inl e \<or> e = AppError ''AssertionError'' None []"
      using 1 unfolding evolution_request_def rbind_eqs
      by (elim disjE exE conjE) (simp_all add: Let_def rbind_eqs split: if_split_asm option.split_asm)
    ultimately show ?thesis
      using contract_whatsapp [of m] by (auto simp: contract_errors_def own_error_def)
  next
    case 2
    have "contract_errors (instagram_request ok c m)"
      unfolding instagram_request_def by (intro contract_if contract)
    then show ?thesis using 2 by (simp add: contract_errors_def)
  qed
qed

lemma delivery_error_own: "delivery_error t (canonical_error s k) = canonical_error s k"
  by (simp add: delivery_error_def canonical_error_def)

lemma dispatch_error:
  assumes "dispatch_claimed env call c m request x f = (Inl e, sent, f')" and "sender_for (oe_adapter_ok env) c m = Inr request"
    and "\<And>rq e'. oe_send env rq = Inl e' \<Longrightarrow> \<not> own_error e'"
  shows "refuses_in_contract env e"
proof -
  obtain e0 where e0: "execute_outbound_attempt (oe_loads env) (ol_finish_ok call) (ol_finished call)
      (py_str (dget x ''id'')) (send_outcome_of env (rbind request (oe_send env))) f = (Inl e0, f')"
    and e: "e = delivery_error (transport_of c) e0"
    using assms(1) by (auto simp: dispatch_claimed_def Let_def split: prod.splits sum.splits)
  have own: "refuses_in_contract env e" if "\<not> own_error e0 \<and> status_of e0 = None"
    unfolding e using that delivery_error_contract [of e0 env] by blast
  show ?thesis
  proof (cases request)
    case (Inl e1)
    then have "e0 = e1 \<or> \<not> own_error e0 \<and> status_of e0 = None" using execute_raises [OF e0] by auto
    moreover have "(\<exists>s k. e1 = canonical_error s k \<and> (s, k) \<in> set contract_table) \<or> \<not> own_error e1 \<and> status_of e1 = None"
      by (rule request_raises) (use assms(2) Inl in simp)
    ultimately show ?thesis using own refuses_known(1) by (auto simp: e delivery_error_own)
  next
    case (Inr rq)
    have "refuses_in_contract env e" if r: "oe_send env rq = Inl e0"
      unfolding e using delivery_error_contract [OF assms(3) [OF r]] r by blast
    then show ?thesis using execute_raises [OF e0] own Inr by auto
  qed
qed

lemma claimed_key_valid:
  assumes "om_key m \<noteq> []" and "om_channel_id m \<noteq> []" and "om_v2 m = None"
  shows "safe_text (aa_idempotency_key (claim_args sha c m r att)) 128 \<noteq> PNone"
    and "safe_text (aa_canonical_channel_id (claim_args sha c m r att)) 256 \<noteq> PNone"
  using assms by (simp_all add: claim_args_def safe_text_def idempotency_key_def Let_def)

text \<open>
  C27: A valid version 1 message whose claim can be written always gets an answer of the contract,
  whatever the registry holds, whatever exception the provider raises and also when the outcome of
  the send cannot be written: it is accepted; or it is refused with one of the ten statuses and codes
  of the contract; or with the code of a failed delivery and the status 502 or the one the provider's
  exception carries; and with 400 when it names another version. It never ends as an internal error.
  The provider's code is taken not to raise the exceptions of this service; a claim that cannot be
  written, after which nothing is sent, is not covered: it ends as an internal error.
\<close>

theorem valid_message_is_answered:
  assumes "valid_out_message m" and "om_v2 m = None" and "om_channel_id m \<noteq> []" and "ol_claim_ok call"
    and "\<And>rq e. oe_send env rq = Inl e \<Longrightarrow> \<not> own_error e"
  shows "case fst (post_canonical_v1 env call version m inst f) of
      Accepted body \<Rightarrow> version = ''canonical-v1'' \<and> dget body ''status'' = PStr ''accepted'' \<and> dget body ''idempotencyKey'' = PStr (om_key m)
    | Refused status code \<Rightarrow>
        (if version \<noteq> ''canonical-v1'' then (status, code) = (400, ''unsupported_contract_version'')
         else in_contract env status code)
    | Failed_Request e \<Rightarrow> False"
proof (cases "version = ''canonical-v1''")
  case False
  then show ?thesis by (simp add: post_canonical_v1_def)
next
  case True
  obtain res sent f' where d: "deliver_canonical env call m inst f = (res, sent, f')" by (metis surj_pair)
  have post: "fst (post_canonical_v1 env call version m inst f) = answer_of res" by (simp add: post_canonical_v1_def True d)
  have "(case res of
      Inl e \<Rightarrow> refuses_in_contract env e
    | Inr body \<Rightarrow> dget body ''status'' = PStr ''accepted'' \<and> dget body ''idempotencyKey'' = PStr (om_key m))"
  proof (cases "prepare_send env m inst")
    case (Inl e0)
    then show ?thesis
      using d contract_prepare [OF assms(2), of env inst] refuses_known(1)
      by (auto simp: deliver_canonical_def contract_errors_def)
  next
    case (Inr p)
    obtain c request recipient attachment where p: "p = (c, request, recipient, attachment)" by (metis surj_pair)
    have key: "om_key m \<noteq> []" using assms(1) by (auto simp: valid_out_message_def len_within_def)
    obtain x created f0 where claim: "create_or_get_by_idempotency (oe_sha256 env)
        (case connection_record (oc_runtime c) (oe_registry env) of None \<Rightarrow> [] | Some r \<Rightarrow> r) (ol_claim_ok call)
        (ol_retention call) (ol_now call) (ol_uid call) (claim_args (oe_sha256 env) c m recipient attachment) f = (Inr (x, created), f0)"
      unfolding eqTrueI [OF assms(4)] using claim_goes_through [OF claimed_key_valid [OF key assms(3,2)]] by blast
    have sender: "sender_for (oe_adapter_ok env) c m = Inr request"
      by (rule prepare_send_Inr [OF Inr [unfolded p]])
    have run: "(if \<not> created then (duplicate_result x m c, None, f0) else dispatch_claimed env call c m request x f0) =
        (res, sent, f')"
      using d by (simp add: deliver_canonical_def Inr p claim_and_dispatch_def claim)
    have accepted: "dget body ''status'' = PStr ''accepted'' \<and> dget body ''idempotencyKey'' = PStr (om_key m)"
      if "res = Inr body" for body
      using run that
      by (auto simp: duplicate_result_def dispatch_claimed_def accepted_result_def Let_def dget_Cons
          split: if_splits prod.splits sum.splits)
    show ?thesis
    proof (cases res)
      case (Inl e)
      show ?thesis
      proof (cases created)
        case True
        then have "dispatch_claimed env call c m request x f0 = (Inl e, sent, f')" using run Inl by simp
        from dispatch_error [OF this sender assms(5)] show ?thesis by (simp add: Inl)
      next
        case False
        then show ?thesis using run Inl contract_duplicate [of x m c] refuses_known(1) by (auto simp: contract_errors_def)
      qed
    qed (use accepted in simp)
  qed
  then show ?thesis
    unfolding post by (auto simp: True answer_of_def refuses_in_contract_def canonical_error_def split: sum.splits)
qed

lemma valid_message_is_answered_witness:
  "case fst (post_canonical_v1 (shop_env (Inl (AppError ''MetaPlatformError'' (Some 429) []))) (shop_call 5 ''u'') ''canonical-v1'' shop_message None Unreadable) of
      Accepted body \<Rightarrow> dget body ''status'' = PStr ''accepted''
    | Refused status code \<Rightarrow> (status, code) \<in> set contract_table \<or> code = ''provider_delivery_failed'' \<and> status \<in> {502, 429}
    | Failed_Request e \<Rightarrow> False"
proof -
  let ?env = "shop_env (Inl (AppError ''MetaPlatformError'' (Some 429) []))"
  have v: "valid_out_message shop_message" by code_simp
  have m: "om_v2 shop_message = None" "om_channel_id shop_message \<noteq> []" "ol_claim_ok (shop_call 5 ''u'')"
    by (simp_all add: shop_message_def shop_call_def)
  have sends: "oe_send ?env rq = Inl (AppError ''MetaPlatformError'' (Some 429) [])" for rq
    by (simp add: shop_env_def)
  have p: "\<not> own_error e" if "oe_send ?env rq = Inl e" for rq e
    using that by (auto simp: sends own_error_def)
  from valid_message_is_answered [where env = ?env and version = "''canonical-v1''" and inst = None and f = Unreadable, OF v m p]
  show ?thesis by (auto simp: in_contract_def sends split: out_answer.splits)
qed


end
