(* ===== verification/Grants.thy ===== *)
theory Grants
  imports Py_Prelude
begin

text \<open>
  What a store of credentials promises the code that asks it who a caller is: an operation makes
  a credential valid for somebody only when it hands that credential out, and a credential that
  an operation withdraws is not valid after it. The consequence for whole histories, that
  whoever is let in holds something that was handed out and not withdrawn since, is proved once
  and used for the instance keys.
\<close>

locale grants =
  fixes run :: "'o \<Rightarrow> 's \<Rightarrow> 's"
    and granted :: "'s \<Rightarrow> 'k \<Rightarrow> 'w \<Rightarrow> bool"
    and gives :: "'o \<Rightarrow> 'k \<Rightarrow> 'w \<Rightarrow> bool"
    and withdraws :: "'o \<Rightarrow> 'k \<Rightarrow> 'w \<Rightarrow> bool"
    and well_formed :: "'s \<Rightarrow> bool"
  assumes step_keeps: "well_formed s \<Longrightarrow> well_formed (run a s)"
    and granted_step: "well_formed s \<Longrightarrow> granted (run a s) k w \<Longrightarrow> gives a k w \<or> granted s k w \<and> \<not> withdraws a k w"
begin

lemma run_keeps: "well_formed s \<Longrightarrow> well_formed (fold run as s)"
  by (induction as arbitrary: s) (simp_all add: step_keeps)

lemma granted_kept:
  "well_formed s \<Longrightarrow> granted (fold run as s) k w \<Longrightarrow>
     granted s k w \<and> (\<forall>a\<in>set as. \<not> withdraws a k w) \<or>
     (\<exists>before a after. as = before @ a # after \<and> gives a k w \<and> (\<forall>b\<in>set after. \<not> withdraws b k w))"
proof (induction as rule: rev_induct)
  case Nil
  then show ?case by simp
next
  case (snoc a as)
  from snoc.prems(2) have "granted (run a (fold run as s)) k w" by simp
  from granted_step [OF run_keeps [OF snoc.prems(1)] this] show ?case
  proof
    assume "gives a k w"
    then show ?thesis by (intro disjI2 exI [of _ as] exI [of _ a] exI [of _ "[]"]) simp
  next
    assume g: "granted (fold run as s) k w \<and> \<not> withdraws a k w"
    then consider "granted s k w \<and> (\<forall>b\<in>set as. \<not> withdraws b k w)"
      | before b after where "as = before @ b # after" "gives b k w" "\<forall>c\<in>set after. \<not> withdraws c k w"
      using snoc.IH snoc.prems(1) by blast
    then show ?thesis
    proof cases
      case 1
      then show ?thesis using g by simp
    next
      case (2 before b after)
      then show ?thesis using g by (intro disjI2 exI [of _ before] exI [of _ b] exI [of _ "after @ [a]"]) auto
    qed
  qed
qed

lemma provenance:
  assumes "well_formed s" and "granted (fold run as s) k w" and "\<And>k w. \<not> granted s k w"
  shows "\<exists>before a after. as = before @ a # after \<and> gives a k w \<and> (\<forall>b\<in>set after. \<not> withdraws b k w)"
  using granted_kept [OF assms(1,2)] assms(3) by blast

lemma withdrawn:
  assumes "well_formed s" and "withdraws a k w" and "\<not> gives a k w" and "\<forall>b\<in>set after. \<not> gives b k w"
  shows "\<not> granted (fold run (a # after) s) k w"
proof
  assume "granted (fold run (a # after) s) k w"
  then have "granted (fold run after (run a s)) k w" by simp
  from granted_kept [OF step_keeps [OF assms(1)] this] have "granted (run a s) k w" using assms(4) by fastforce
  then show False using granted_step [OF assms(1)] assms(2,3) by blast
qed

end

end
