(* ===== verification/Instance_Keys.thy ===== *)
theory Instance_Keys
  imports Connection_Registry
begin

text \<open>
  The API keys of the instances, \<open>gateway/app/services/instance_auth.py\<close>: one record per
  instance, with the hash of its key, an encrypted copy for an authorised user to see and the
  time of the last use. SHA-256, the cipher, the new key and the clock are arguments. The file
  is written in place, so a write that is interrupted leaves a file that cannot be read.
\<close>

section \<open>The file\<close>

datatype write_outcome = Written | Not_Opened | Cut_Short

type_synonym key_file = "pdict json_file"

fun read_keys :: "key_file \<Rightarrow> pdict" where
  "read_keys (Holds raw) = as_dict (dget raw ''instances'')"
| "read_keys _ = []"

definition write_keys :: "write_outcome \<Rightarrow> pdict \<Rightarrow> key_file \<Rightarrow> unit res \<times> key_file" where
  "write_keys w instances f =
     (case w of
        Written \<Rightarrow> (Inr (), Holds [(''instances'', PDict instances)])
      | Not_Opened \<Rightarrow> (Inl OSError, f)
      | Cut_Short \<Rightarrow> (Inl OSError, Unreadable))"

section \<open>Keys\<close>

record key_env =
  ke_sha256 :: "string \<Rightarrow> string"
  ke_encrypt :: "string \<Rightarrow> string res"
  ke_decrypt :: "string \<Rightarrow> string option res"

record key_call =
  kc_now :: string
  kc_token :: string
  kc_write :: write_outcome

definition masked :: "string \<Rightarrow> string" where
  "masked token =
     (if length token \<le> 10 then replicate (length token) CHR ''*''
      else take 7 token @ ''...'' @ drop (length token - 4) token)"

definition decrypt_token :: "key_env \<Rightarrow> pval \<Rightarrow> pval res" where
  "decrypt_token env ciphertext =
     (case ciphertext of
        PStr c \<Rightarrow> if c = [] then Inr PNone else rbind (ke_decrypt env c) (\<lambda>t. Inr (pstr_opt t))
      | _ \<Rightarrow> Inr PNone)"

definition new_record :: "key_env \<Rightarrow> key_call \<Rightarrow> string \<Rightarrow> string option \<Rightarrow> pdict res" where
  "new_record env call name instance_id =
     rbind (ke_encrypt env (kc_token call)) (\<lambda>ciphertext.
       Inr [(''instanceId'', PStr (case instance_id of Some (c # i) \<Rightarrow> c # i | _ \<Rightarrow> name)),
            (''createdAt'', PStr (kc_now call)), (''lastUsedAt'', PNone), (''enabled'', PBool True),
            (''apiKeyHash'', PStr (ke_sha256 env (kc_token call))),
            (''apiKeyPrefix'', PStr (take 12 (kc_token call))), (''apiKeyCiphertext'', PStr ciphertext)])"

definition has_key :: "pdict \<Rightarrow> string \<Rightarrow> bool" where
  "has_key instances name =
     (case dict_at instances name of None \<Rightarrow> False | Some r \<Rightarrow> truthy (dget r ''apiKeyHash''))"

definition ensure_instance_key ::
    "key_env \<Rightarrow> key_call \<Rightarrow> string \<Rightarrow> string option \<Rightarrow> key_file \<Rightarrow> bool res \<times> key_file" where
  "ensure_instance_key env call name instance_id f =
     (let instances = read_keys f in
      if has_key instances name
      then (case instance_id of
              Some (c # i) \<Rightarrow>
                answer_after False (write_keys (kc_write call)
                  (dset instances name (PDict (dset (as_dict (dget instances name)) ''instanceId'' (PStr (c # i))))) f)
            | _ \<Rightarrow> (Inr False, f))
      else (case new_record env call name instance_id of
              Inl e \<Rightarrow> (Inl e, f)
            | Inr r \<Rightarrow> answer_after True (write_keys (kc_write call) (dset instances name (PDict r)) f)))"

definition no_key_info :: "string \<Rightarrow> pdict" where
  "no_key_info name =
     [(''instanceId'', PStr name), (''createdAt'', PNone), (''lastUsedAt'', PNone), (''enabled'', PBool False),
      (''hasApiKey'', PBool False), (''maskedApiKey'', PNone), (''canRevealApiKey'', PBool False)]"

definition get_instance_key_info :: "key_env \<Rightarrow> string \<Rightarrow> bool \<Rightarrow> key_file \<Rightarrow> pdict res" where
  "get_instance_key_info env name reveal f =
     (case dict_at (read_keys f) name of
        None \<Rightarrow> Inr (no_key_info name)
      | Some r \<Rightarrow>
          let has = truthy (dget r ''apiKeyHash'');
              prefix = clean_str (dget r ''apiKeyPrefix'');
              ciphertext = dget r ''apiKeyCiphertext'';
              payload =
                [(''instanceId'', PStr (py_str (py_or (dget r ''instanceId'') (PStr name)))),
                 (''createdAt'', dget r ''createdAt''), (''lastUsedAt'', dget r ''lastUsedAt''),
                 (''enabled'', PBool (truthy (dget r ''enabled''))), (''hasApiKey'', PBool has),
                 (''maskedApiKey'', if prefix \<noteq> [] \<and> has then PStr (prefix @ ''...****'') else PNone),
                 (''canRevealApiKey'', PBool (is_str ciphertext \<and> truthy ciphertext))]
          in if reveal then rbind (decrypt_token env ciphertext) (\<lambda>t. Inr (payload @ [(''apiKey'', t)]))
             else Inr payload)"

text \<open>An operation that writes and then describes the key as it is now.\<close>

definition info_after :: "key_env \<Rightarrow> string \<Rightarrow> unit res \<times> key_file \<Rightarrow> pdict res \<times> key_file" where
  "info_after env name w =
     (case w of (Inl e, f) \<Rightarrow> (Inl e, f) | (Inr _, f) \<Rightarrow> (get_instance_key_info env name False f, f))"

definition create_or_regenerate_instance_key ::
    "key_env \<Rightarrow> key_call \<Rightarrow> string \<Rightarrow> string option \<Rightarrow> key_file \<Rightarrow> pdict res \<times> key_file" where
  "create_or_regenerate_instance_key env call name instance_id f =
     (case new_record env call name instance_id of
        Inl e \<Rightarrow> (Inl e, f)
      | Inr r \<Rightarrow>
          (case info_after env name (write_keys (kc_write call) (dset (read_keys f) name (PDict r)) f) of
             (Inl e, f') \<Rightarrow> (Inl e, f')
           | (Inr info, f') \<Rightarrow> (Inr (dset info ''apiKey'' (PStr (kc_token call))), f')))"

definition revoked_record :: "string \<Rightarrow> string \<Rightarrow> pdict" where
  "revoked_record now name =
     [(''instanceId'', PStr name), (''createdAt'', PStr now), (''lastUsedAt'', PNone), (''enabled'', PBool False),
      (''apiKeyHash'', PNone), (''apiKeyPrefix'', PNone), (''apiKeyCiphertext'', PNone)]"

definition revoking :: "pdict \<Rightarrow> pdict" where
  "revoking r =
     dset (dset (dset (dset r ''enabled'' (PBool False)) ''apiKeyHash'' PNone) ''apiKeyPrefix'' PNone)
       ''apiKeyCiphertext'' PNone"

definition revoke_instance_key :: "key_env \<Rightarrow> key_call \<Rightarrow> string \<Rightarrow> key_file \<Rightarrow> pdict res \<times> key_file" where
  "revoke_instance_key env call name f =
     (let instances = read_keys f;
          r = (case dict_at instances name of None \<Rightarrow> revoked_record (kc_now call) name | Some r \<Rightarrow> revoking r)
      in info_after env name (write_keys (kc_write call) (dset instances name (PDict r)) f))"

definition delete_instance_key_record :: "key_call \<Rightarrow> string \<Rightarrow> key_file \<Rightarrow> unit res \<times> key_file" where
  "delete_instance_key_record call name f =
     (let instances = read_keys f in
      if dhas instances name then write_keys (kc_write call) (AList.delete name instances) f else (Inr (), f))"

section \<open>Authentication\<close>

record key_auth =
  ka_instance :: string
  ka_instance_id :: string
  ka_masked :: string

definition opens :: "string \<Rightarrow> pval \<Rightarrow> bool" where
  "opens token_hash v \<longleftrightarrow>
     is_dict v \<and> truthy (dget (as_dict v) ''enabled'') \<and> str_or_empty (dget (as_dict v) ''apiKeyHash'') = token_hash"

definition authenticate_instance_token ::
    "key_env \<Rightarrow> key_call \<Rightarrow> string \<Rightarrow> key_file \<Rightarrow> key_auth option res \<times> key_file" where
  "authenticate_instance_token env call token f =
     (let token_clean = strip token; instances = read_keys f in
      if token_clean = [] then (Inr None, f)
      else case List.find (\<lambda>(name, v). opens (ke_sha256 env token_clean) v) instances of
             None \<Rightarrow> (Inr None, f)
           | Some (name, v) \<Rightarrow>
               answer_after
                 (Some \<lparr> ka_instance = name,
                         ka_instance_id = py_str (py_or (dget (as_dict v) ''instanceId'') (PStr name)),
                         ka_masked = masked token_clean \<rparr>)
                 (write_keys (kc_write call)
                   (dset instances name (PDict (dset (as_dict v) ''lastUsedAt'' (PStr (kc_now call))))) f))"

end
