(* ===== verification/Instance_Keys_Spec.thy ===== *)
theory Instance_Keys_Spec
  imports Instance_Keys Grants
begin

text \<open>
  What the store of instance keys promises: a key opens the instance it was made for, from then
  on until the instance is revoked, deleted or gets another key, and no token is kept in clear.
\<close>

section \<open>What the file says\<close>

lemma read_write_keys:
  "write_keys w d f = (r, f') \<Longrightarrow>
     read_keys f' = (case w of Written \<Rightarrow> d | Not_Opened \<Rightarrow> read_keys f | Cut_Short \<Rightarrow> [])"
  by (auto simp: write_keys_def dget_Cons split: write_outcome.splits)

lemma read_snd_write_keys [simp]:
  "read_keys (snd (write_keys w d f)) = (case w of Written \<Rightarrow> d | Not_Opened \<Rightarrow> read_keys f | Cut_Short \<Rightarrow> [])"
  by (simp add: write_keys_def dget_Cons split: write_outcome.splits)

lemma snd_answer_after [simp]: "snd (answer_after x w) = snd w"
  by (simp add: answer_after_def split: prod.split sum.split)

lemma snd_info_after [simp]: "snd (info_after env name w) = snd w"
  by (simp add: info_after_def split: prod.split sum.split)

lemma snd_create:
  "snd (create_or_regenerate_instance_key env call name i f) =
     (case new_record env call name i of
        Inl e \<Rightarrow> f | Inr r \<Rightarrow> snd (write_keys (kc_write call) (dset (read_keys f) name (PDict r)) f))"
proof -
  have "snd (case w of (Inl e, g) \<Rightarrow> (Inl e, g) | (Inr info, g) \<Rightarrow> (Inr (k info), g)) = snd w"
    for w :: "pdict res \<times> key_file" and k :: "pdict \<Rightarrow> pdict"
    by (simp split: prod.split sum.split)
  from this [where k = "\<lambda>info. dset info ''apiKey'' (PStr (kc_token call))"] show ?thesis
    by (simp add: create_or_regenerate_instance_key_def split: sum.split)
qed

section \<open>The operations as steps\<close>

datatype key_op =
    Ensure_Key string "string option"
  | New_Key string "string option"
  | Revoke_Key string
  | Delete_Key string
  | Use_Key string

fun run_key_op :: "key_env \<Rightarrow> key_call \<times> key_op \<Rightarrow> key_file \<Rightarrow> key_file" where
  "run_key_op env (call, Ensure_Key name i) f = snd (ensure_instance_key env call name i f)"
| "run_key_op env (call, New_Key name i) f = snd (create_or_regenerate_instance_key env call name i f)"
| "run_key_op env (call, Revoke_Key name) f = snd (revoke_instance_key env call name f)"
| "run_key_op env (call, Delete_Key name) f = snd (delete_instance_key_record call name f)"
| "run_key_op env (call, Use_Key token) f = snd (authenticate_instance_token env call token f)"

text \<open>The hash opens the instance, as the file is now.\<close>

definition key_opens :: "key_file \<Rightarrow> string \<Rightarrow> string \<Rightarrow> bool" where
  "key_opens f h name \<longleftrightarrow> (\<exists>v. map_of (read_keys f) name = Some v \<and> opens h v)"

definition makes_record :: "key_env \<Rightarrow> key_call \<Rightarrow> string \<Rightarrow> bool" where
  "makes_record env call h \<longleftrightarrow>
     ke_sha256 env (kc_token call) = h \<and> is_ok (ke_encrypt env (kc_token call)) \<and> kc_write call = Written"

fun makes_key :: "key_env \<Rightarrow> key_call \<times> key_op \<Rightarrow> string \<Rightarrow> string \<Rightarrow> bool" where
  "makes_key env (call, Ensure_Key name i) h w \<longleftrightarrow> w = name \<and> makes_record env call h"
| "makes_key env (call, New_Key name i) h w \<longleftrightarrow> w = name \<and> makes_record env call h"
| "makes_key env (call, _) h w \<longleftrightarrow> False"

fun ends_key :: "key_env \<Rightarrow> key_call \<times> key_op \<Rightarrow> string \<Rightarrow> string \<Rightarrow> bool" where
  "ends_key env (call, Revoke_Key name) h w \<longleftrightarrow> w = name \<and> kc_write call = Written"
| "ends_key env (call, Delete_Key name) h w \<longleftrightarrow> w = name \<and> kc_write call = Written"
| "ends_key env (call, New_Key name i) h w \<longleftrightarrow>
     w = name \<and> kc_write call = Written \<and> is_ok (ke_encrypt env (kc_token call))"
| "ends_key env (call, _) h w \<longleftrightarrow> False"

lemma opens_new:
  "new_record env call name i = Inr r \<Longrightarrow> opens h (PDict r) \<Longrightarrow> kc_write call = Written \<Longrightarrow> makes_record env call h"
  by (auto simp: new_record_def rbind_eqs opens_def makes_record_def dget_Cons str_or_empty_def py_or_def split: if_splits)

lemma new_record_ok: "is_ok (new_record env call name i) = is_ok (ke_encrypt env (kc_token call))"
  by (cases "ke_encrypt env (kc_token call)") (simp_all add: new_record_def)

lemma opens_revoked [simp]: "\<not> opens h (PDict (revoked_record now name))" "\<not> opens h (PDict (revoking r))"
  by (simp_all add: opens_def revoked_record_def revoking_def dget_Cons)

lemma opens_touched [simp]:
  "k \<noteq> ''enabled'' \<Longrightarrow> k \<noteq> ''apiKeyHash'' \<Longrightarrow> opens h (PDict (dset r k x)) = opens h (PDict r)"
  by (simp add: opens_def)

lemma map_of_delete_key: "map_of (AList.delete k d) w = (if w = k then None else map_of d w)"
  by (simp add: AList.delete_conv')

lemma not_dhas_none: "\<not> dhas d k \<Longrightarrow> map_of d k = None"
  by (simp add: dhas_def)

lemma dict_at_Some: "dict_at d k = Some r \<longleftrightarrow> map_of d k = Some (PDict r)"
  by (auto simp: dict_at_def dget_def split: option.splits pval.splits)

definition keys_distinct :: "key_file \<Rightarrow> bool" where
  "keys_distinct f \<longleftrightarrow> distinct (map fst (read_keys f))"

lemma found_at:
  assumes "keys_distinct f" and "List.find (\<lambda>(name, v). opens h v) (read_keys f) = Some (name, v)"
  shows "map_of (read_keys f) name = Some v \<and> opens h v \<and> PDict (as_dict v) = v"
proof -
  have "(name, v) \<in> set (read_keys f)" "opens h v"
    using assms(2) by (auto simp: find_Some_iff in_set_conv_nth)
  moreover from this(2) have "PDict (as_dict v) = v" by (cases v) (simp_all add: opens_def)
  ultimately show ?thesis using assms(1) by (simp add: keys_distinct_def)
qed

lemma touched_found:
  assumes "PDict (as_dict v) = v"
  shows "opens h (PDict (dset (as_dict v) ''lastUsedAt'' x)) = opens h v"
  using opens_touched [where r = "as_dict v" and k = "''lastUsedAt''"] assms by simp

lemma distinct_write [simp]:
  "keys_distinct (snd (write_keys w d f)) \<longleftrightarrow>
     (case w of Written \<Rightarrow> distinct (map fst d) | Not_Opened \<Rightarrow> keys_distinct f | Cut_Short \<Rightarrow> True)"
  by (simp add: keys_distinct_def split: write_outcome.split)

lemma keys_distinct_step: "keys_distinct f \<Longrightarrow> keys_distinct (run_key_op env a f)"
proof (induction env a f rule: run_key_op.induct)
  case (1 env call name i f)
  then show ?case
    by (simp add: ensure_instance_key_def Let_def distinct_update split: option.split list.split sum.split write_outcome.split)
      (simp add: keys_distinct_def distinct_update)
next
  case (2 env call name i f)
  then show ?case
    by (simp add: snd_create split: sum.split write_outcome.split) (simp add: keys_distinct_def distinct_update)
next
  case (3 env call name f)
  then show ?case
    by (simp add: revoke_instance_key_def Let_def split: write_outcome.split) (simp add: keys_distinct_def distinct_update)
next
  case (4 env call name f)
  then show ?case
    by (simp add: delete_instance_key_record_def Let_def split: write_outcome.split) (simp add: keys_distinct_def distinct_delete)
next
  case (5 env call token f)
  then show ?case
    by (simp add: authenticate_instance_token_def Let_def split: option.split write_outcome.split)
      (simp add: keys_distinct_def distinct_update)
qed

lemma key_opens_step:
  assumes "keys_distinct f" and "key_opens (run_key_op env a f) h w"
  shows "makes_key env a h w \<or> key_opens f h w \<and> \<not> ends_key env a h w"
proof (cases a)
  case (Pair call p)
  show ?thesis
  proof (cases p)
    case (Ensure_Key name i)
    then show ?thesis
      using assms Pair
      by (auto simp: key_opens_def ensure_instance_key_def Let_def has_key_def dict_at_Some update_conv' dget_def
          split: if_splits option.splits list.splits sum.splits write_outcome.splits dest: opens_new)
  next
    case (New_Key name i)
    then show ?thesis
      using assms Pair new_record_ok [of env call name i]
      by (auto simp: key_opens_def snd_create update_conv'
          split: if_splits sum.splits write_outcome.splits dest: opens_new)
  next
    case (Revoke_Key name)
    then show ?thesis
      using assms Pair
      by (auto simp: key_opens_def revoke_instance_key_def Let_def update_conv'
          split: if_splits option.splits write_outcome.splits)
  next
    case (Delete_Key name)
    then show ?thesis
      using assms Pair
      by (auto simp: key_opens_def delete_instance_key_record_def Let_def map_of_delete_key not_dhas_none
          split: if_splits write_outcome.splits)
  next
    case (Use_Key token)
    have "key_opens f h w"
    proof (cases "List.find (\<lambda>(name, v). opens (ke_sha256 env (strip token)) v) (read_keys f)")
      case None
      then show ?thesis using assms(2) Pair Use_Key by (simp add: authenticate_instance_token_def Let_def split: if_splits)
    next
      case (Some e)
      obtain name v where e: "e = (name, v)" by (cases e)
      note v = found_at [OF assms(1) Some [unfolded e]]
      show ?thesis
        using assms(2) Pair Use_Key Some e v touched_found [of v]
        by (auto simp: authenticate_instance_token_def Let_def key_opens_def update_conv' split: if_splits write_outcome.splits)
    qed
    then show ?thesis using Pair Use_Key by simp
  qed
qed

interpretation keys: grants "run_key_op env" key_opens "makes_key env" "ends_key env" keys_distinct
  by unfold_locales (auto intro: keys_distinct_step dest: key_opens_step)

section \<open>Whom a key opens\<close>

lemma authenticated_opens:
  assumes "keys_distinct f" and "fst (authenticate_instance_token env call token f) = Inr (Some a)"
  shows "key_opens f (ke_sha256 env (strip token)) (ka_instance a) \<and> strip token \<noteq> []"
proof (cases "List.find (\<lambda>(name, v). opens (ke_sha256 env (strip token)) v) (read_keys f)")
  case None
  then show ?thesis using assms(2) by (simp add: authenticate_instance_token_def Let_def split: if_splits)
next
  case (Some e)
  obtain name v where e: "e = (name, v)" by (cases e)
  show ?thesis
    using assms(2) Some e found_at [OF assms(1) Some [unfolded e]]
    by (auto simp: authenticate_instance_token_def Let_def answer_after_def key_opens_def split: if_splits prod.splits sum.splits)
qed

lemma nothing_opens_absent: "\<not> key_opens Absent h w"
  by (simp add: key_opens_def)

text \<open>
  C28: A key opens an instance only if it was made for it and is still in force: when a token is
  accepted for an instance, after any history of operations on the store with any failing
  writes, then some operation of that history made a key with the very hash of this token for
  this very instance, and no later one revoked the instance, deleted it or gave it a new key.
\<close>

theorem accepted_key_in_force:
  assumes "fst (authenticate_instance_token env call token (fold (run_key_op env) ops Absent)) = Inr (Some a)"
  shows "\<exists>before op after. ops = before @ op # after \<and>
    makes_key env op (ke_sha256 env (strip token)) (ka_instance a) \<and>
    (\<forall>later\<in>set after. \<not> ends_key env later (ke_sha256 env (strip token)) (ka_instance a))"
proof -
  have wf: "keys_distinct Absent" by (simp add: keys_distinct_def)
  from authenticated_opens [OF keys.run_keeps [OF wf] assms]
  show ?thesis using keys.provenance [OF wf _ nothing_opens_absent] by blast
qed

text \<open>A key that was made works as long as nothing ends it and the writes succeed.\<close>

lemma opens_kept:
  assumes "keys_distinct f" and "key_opens f h w" and "\<not> ends_key env (call, p) h w" and "kc_write call = Written"
    and "h \<noteq> []"
  shows "key_opens (run_key_op env (call, p) f) h w"
proof -
  obtain v where v: "map_of (read_keys f) w = Some v" "opens h v" using assms(2) by (auto simp: key_opens_def)
  then obtain r where r: "v = PDict r" by (cases v) (simp_all add: opens_def)
  have has: "has_key (read_keys f) w"
    using v assms(5) unfolding r by (auto simp: has_key_def dict_at_def dget_def opens_def str_or_empty_def py_or_def split: if_splits)
  show ?thesis
  proof (cases p)
    case (Ensure_Key name i)
    show ?thesis
      using assms(4) v has Ensure_Key
      by (cases "name = w")
        (auto simp: ensure_instance_key_def Let_def key_opens_def update_conv' r dget_def
          split: option.split list.split sum.split)
  next
    case (New_Key name i)
    then show ?thesis
      using assms(3,4) v new_record_ok [of env call name i]
      by (cases "new_record env call name i") (auto simp: snd_create key_opens_def update_conv')
  next
    case (Revoke_Key name)
    then show ?thesis using assms(3,4) v by (auto simp: revoke_instance_key_def Let_def key_opens_def update_conv')
  next
    case (Delete_Key name)
    then show ?thesis using assms(3,4) v by (auto simp: delete_instance_key_record_def Let_def key_opens_def map_of_delete_key)
  next
    case (Use_Key token)
    show ?thesis
    proof (cases "List.find (\<lambda>(name, v). opens (ke_sha256 env (strip token)) v) (read_keys f)")
      case None
      then show ?thesis using assms(2) Use_Key by (simp add: authenticate_instance_token_def Let_def)
    next
      case (Some e)
      obtain name u where e: "e = (name, u)" by (cases e)
      note u = found_at [OF assms(1) Some [unfolded e]]
      show ?thesis
        using assms(4) v u e Some Use_Key touched_found [of u]
        by (auto simp: authenticate_instance_token_def Let_def key_opens_def update_conv')
    qed
  qed
qed

lemma opens_kept_all:
  assumes "keys_distinct f" and "key_opens f h w" and "h \<noteq> []"
    and "\<forall>op\<in>set ops. kc_write (fst op) = Written \<and> \<not> ends_key env op h w"
  shows "key_opens (fold (run_key_op env) ops f) h w"
  using assms
proof (induction ops arbitrary: f)
  case (Cons op ops)
  obtain call p where op: "op = (call, p)" by (cases op)
  have "key_opens (run_key_op env op f) h w" unfolding op using Cons.prems op by (intro opens_kept) auto
  then show ?case using Cons keys_distinct_step by simp
qed simp

lemma open_key_authenticates:
  assumes "key_opens f (ke_sha256 env (strip token)) w" and "strip token \<noteq> []" and "kc_write call = Written"
  shows "\<exists>a. fst (authenticate_instance_token env call token f) = Inr (Some a)"
proof -
  obtain v where "map_of (read_keys f) w = Some v" "opens (ke_sha256 env (strip token)) v"
    using assms(1) by (auto simp: key_opens_def)
  then have "List.find (\<lambda>(name, v). opens (ke_sha256 env (strip token)) v) (read_keys f) \<noteq> None"
    by (auto simp: find_None_iff dest: map_of_SomeD)
  then show ?thesis
    using assms(2,3) by (auto simp: authenticate_instance_token_def Let_def answer_after_def write_keys_def)
qed

lemma new_key_opens:
  assumes "fst (create_or_regenerate_instance_key env call name i f) = Inr info" and "ke_sha256 env (kc_token call) \<noteq> []"
  shows "key_opens (snd (create_or_regenerate_instance_key env call name i f)) (ke_sha256 env (kc_token call)) name"
    and "makes_key env (call, New_Key name i) (ke_sha256 env (kc_token call)) name"
proof -
  obtain r where r: "new_record env call name i = Inr r" and w: "kc_write call = Written"
    using assms(1)
    by (auto simp: create_or_regenerate_instance_key_def info_after_def write_keys_def
        split: sum.splits prod.splits write_outcome.splits)
  have "opens (ke_sha256 env (kc_token call)) (PDict r)"
    using r assms(2) by (auto simp: new_record_def rbind_eqs opens_def dget_Cons str_or_empty_def py_or_def)
  then show "key_opens (snd (create_or_regenerate_instance_key env call name i f)) (ke_sha256 env (kc_token call)) name"
    by (simp add: snd_create r w key_opens_def update_conv')
  show "makes_key env (call, New_Key name i) (ke_sha256 env (kc_token call)) name"
    using r w by (auto simp: makes_record_def new_record_def rbind_eqs is_ok_iff)
qed

text \<open>
  The key a caller is given works: after any history of the store, the token that making or
  regenerating a key returns is accepted for its instance, and stays so through any later
  operations whose writes succeed and that neither revoke or delete the instance nor make it a
  new key; only a key of the same hash made for another instance could be taken for it.
\<close>

theorem made_key_accepted:
  assumes "fst (create_or_regenerate_instance_key env call name i (fold (run_key_op env) before Absent)) = Inr info"
    and "strip (kc_token call) = kc_token call" and "kc_token call \<noteq> []" and "ke_sha256 env (kc_token call) \<noteq> []"
    and "\<forall>op\<in>set after. kc_write (fst op) = Written \<and> \<not> ends_key env op (ke_sha256 env (kc_token call)) name"
    and "\<forall>op\<in>set (before @ after). \<forall>other. makes_key env op (ke_sha256 env (kc_token call)) other \<longrightarrow> other = name"
    and "kc_write call2 = Written"
  shows "\<exists>a. ka_instance a = name \<and>
    fst (authenticate_instance_token env call2 (kc_token call)
      (fold (run_key_op env) (before @ (call, New_Key name i) # after) Absent)) = Inr (Some a)"
proof -
  let ?h = "ke_sha256 env (kc_token call)"
  let ?ops = "before @ (call, New_Key name i) # after"
  let ?f = "fold (run_key_op env) ?ops Absent"
  have wf: "keys_distinct Absent" by (simp add: keys_distinct_def)
  have "keys_distinct (run_key_op env (call, New_Key name i) (fold (run_key_op env) before Absent))"
    by (intro keys_distinct_step keys.run_keeps wf)
  then have opens: "key_opens ?f ?h name"
    using opens_kept_all [OF _ _ assms(4,5)] new_key_opens(1) [OF assms(1,4)] by simp
  then obtain a where a: "fst (authenticate_instance_token env call2 (kc_token call) ?f) = Inr (Some a)"
    using open_key_authenticates [of ?f env "kc_token call" name call2] assms(2,3,7) by auto
  have "key_opens ?f ?h (ka_instance a)" using authenticated_opens [OF keys.run_keeps [OF wf] a] assms(2) by simp
  from keys.provenance [OF wf this nothing_opens_absent]
  obtain op where "op \<in> set ?ops" "makes_key env op ?h (ka_instance a)" by (metis in_set_conv_decomp)
  then have "ka_instance a = name" using assms(6) by auto
  then show ?thesis using a by blast
qed

section \<open>Applied\<close>

definition key_sample_env :: key_env where
  "key_sample_env =
     \<lparr> ke_sha256 = (\<lambda>t. ''#'' @ t), ke_encrypt = (\<lambda>t. Inr (rev t)), ke_decrypt = (\<lambda>c. Inr (Some (rev c))) \<rparr>"

definition key_sample_call :: "string \<Rightarrow> key_call" where
  "key_sample_call token = \<lparr> kc_now = ''t0'', kc_token = token, kc_write = Written \<rparr>"

lemmas key_sample_defs = key_sample_env_def key_sample_call_def

lemma made_key_accepted_witness:
  "\<exists>a. ka_instance a = ''wa1'' \<and>
    fst (authenticate_instance_token key_sample_env (key_sample_call []) ''inst_2''
      (fold (run_key_op key_sample_env)
        [(key_sample_call ''inst_1'', Ensure_Key ''wa1'' None), (key_sample_call ''inst_2'', New_Key ''wa1'' None),
         (key_sample_call [], Revoke_Key ''wa2'')] Absent)) = Inr (Some a)"
proof -
  have "fst (create_or_regenerate_instance_key key_sample_env (key_sample_call ''inst_2'') ''wa1'' None
      (fold (run_key_op key_sample_env) [(key_sample_call ''inst_1'', Ensure_Key ''wa1'' None)] Absent)) =
      Inr (dset (fst_info) ''apiKey'' (PStr ''inst_2''))" if "fst_info = [(''instanceId'', PStr ''wa1''), (''createdAt'', PStr ''t0''),
        (''lastUsedAt'', PNone), (''enabled'', PBool True), (''hasApiKey'', PBool True),
        (''maskedApiKey'', PStr ''inst_2...****''), (''canRevealApiKey'', PBool True)]" for fst_info
    unfolding that by code_simp
  from made_key_accepted [OF this [OF refl], of "[(key_sample_call [], Revoke_Key ''wa2'')]" "key_sample_call []"]
  show ?thesis by (simp add: key_sample_defs strip_def lstrip_def rstrip_def is_space_def makes_record_def)
qed

lemma accepted_key_in_force_witness:
  "\<exists>before op after.
    [(key_sample_call ''inst_1'', Ensure_Key ''wa1'' None), (key_sample_call [], Use_Key ''inst_1'')] = before @ op # after \<and>
    makes_key key_sample_env op (ke_sha256 key_sample_env (strip ''inst_1'')) ''wa1''"
proof -
  have "fst (authenticate_instance_token key_sample_env (key_sample_call []) ''inst_1''
      (fold (run_key_op key_sample_env)
        [(key_sample_call ''inst_1'', Ensure_Key ''wa1'' None), (key_sample_call [], Use_Key ''inst_1'')] Absent)) =
      Inr (Some \<lparr> ka_instance = ''wa1'', ka_instance_id = ''wa1'', ka_masked = ''******'' \<rparr>)"
    by code_simp
  from accepted_key_in_force [OF this] show ?thesis by force
qed

end
