(* ===== verification/Accounts.thy ===== *)
theory Accounts
  imports Connection_Registry
begin

text \<open>
  The people who use the Gateway: their accounts, \<open>gateway/app/services/users.py\<close>, what a role
  may do, \<open>gateway/app/services/authorization.py\<close>, their sessions and the two ways to sign in,
  \<open>gateway/app/services/google_auth.py\<close>. The table of accounts is the list of its rows; scrypt,
  the signature check, Google's answer and the clock are arguments, and a refusal of the web
  framework is the exception \<open>HTTPException\<close> with its status.
\<close>

definition http_error :: "int \<Rightarrow> py_exc" where
  "http_error status = AppError ''HTTPException'' (Some status) []"

section \<open>Accounts\<close>

record gateway_user =
  gu_id :: string
  gu_name :: string
  gu_email :: string
  gu_password_hash :: string
  gu_role :: string
  gu_business :: "string option"
  gu_active :: bool

type_synonym user_table = "gateway_user list"

definition user_roles :: "string list" where
  "user_roles = [''admin'', ''operator'', ''meta_reviewer'']"

definition review_business :: string where
  "review_business = ''10641ec3-306a-5fb6-b473-79604289892f''"

definition by_email :: "string \<Rightarrow> user_table \<Rightarrow> gateway_user option" where
  "by_email email t = List.find (\<lambda>u. gu_email u = str_lower email) t"

definition list_users :: "user_table \<Rightarrow> gateway_user list" where
  "list_users t = sort_key gu_email t"

text \<open>The table refuses a second row with an id or an email it has.\<close>

definition create_user ::
    "(string \<Rightarrow> string) \<Rightarrow> string \<Rightarrow> string \<Rightarrow> string \<Rightarrow> string \<Rightarrow> string \<Rightarrow> string option \<Rightarrow> user_table
     \<Rightarrow> gateway_user res \<times> user_table" where
  "create_user pw_hash uid name email password role business t =
     (if str_lower role \<notin> set user_roles then (Inl (ValueError ''Invalid role''), t)
      else if length password < 12 then (Inl (ValueError ''password too short''), t)
      else let u = \<lparr> gu_id = uid, gu_name = strip name, gu_email = str_lower (strip email),
                     gu_password_hash = pw_hash password, gu_role = str_lower role,
                     gu_business = (case business of Some [] \<Rightarrow> None | _ \<Rightarrow> business), gu_active = True \<rparr>
           in if \<exists>v\<in>set t. gu_id v = gu_id u \<or> gu_email v = gu_email u
              then (Inl (ValueError ''email exists''), t) else (Inr u, t @ [u]))"

definition change_user :: "string \<Rightarrow> (gateway_user \<Rightarrow> gateway_user) \<Rightarrow> user_table \<Rightarrow> user_table" where
  "change_user uid change t = map (\<lambda>u. if gu_id u = uid then change u else u) t"

definition set_active :: "string \<Rightarrow> bool \<Rightarrow> user_table \<Rightarrow> user_table" where
  "set_active uid active t = change_user uid (\<lambda>u. u\<lparr> gu_active := active \<rparr>) t"

definition set_reviewer_scope :: "string \<Rightarrow> user_table \<Rightarrow> user_table" where
  "set_reviewer_scope uid t =
     change_user uid (\<lambda>u. u\<lparr> gu_role := ''meta_reviewer'', gu_business := Some review_business, gu_active := True \<rparr>) t"

definition reset_password :: "(string \<Rightarrow> string) \<Rightarrow> string \<Rightarrow> string \<Rightarrow> user_table \<Rightarrow> unit res \<times> user_table" where
  "reset_password pw_hash uid password t =
     (if length password < 12 then (Inl (ValueError ''password too short''), t)
      else (Inr (), change_user uid (\<lambda>u. u\<lparr> gu_password_hash := pw_hash password \<rparr>) t))"

section \<open>Accounts made at startup\<close>

record startup_settings =
  st_admin_name :: string
  st_admin_email :: string
  st_admin_password :: string
  st_review_name :: string
  st_review_email :: string
  st_review_password :: string

definition bootstrap_initial_admin ::
    "(string \<Rightarrow> string) \<Rightarrow> string \<Rightarrow> startup_settings \<Rightarrow> user_table \<Rightarrow> unit res \<times> user_table" where
  "bootstrap_initial_admin pw_hash uid s t =
     (if t \<noteq> [] then (Inr (), t)
      else if st_admin_email s = [] \<or> st_admin_password s = []
      then (Inl (RuntimeError ''Set INITIAL_ADMIN_EMAIL and INITIAL_ADMIN_PASSWORD''), t)
      else case create_user pw_hash uid (st_admin_name s) (st_admin_email s) (st_admin_password s) ''admin'' None t of
             (Inl e, t') \<Rightarrow> (Inl e, t')
           | (Inr _, t') \<Rightarrow> (Inr (), t'))"

definition ensure_meta_review_business :: "bool \<Rightarrow> string \<Rightarrow> registry_file \<Rightarrow> string res \<times> registry_file" where
  "ensure_meta_review_business disk_ok now f =
     (case get_client review_business f of
        Some _ \<Rightarrow> (Inr review_business, f)
      | None \<Rightarrow>
          (case save_client disk_ok
                  [(''id'', PStr review_business), (''name'', PStr ''Meta Review''),
                   (''description'', PStr ''Business reserved for Meta review.''),
                   (''created_at'', PStr now), (''updated_at'', PStr now)] f of
             (Inl e, f') \<Rightarrow> (Inl e, f')
           | (Inr _, f') \<Rightarrow> (Inr review_business, f')))"

definition bootstrap_meta_reviewer ::
    "(string \<Rightarrow> string) \<Rightarrow> string \<Rightarrow> startup_settings \<Rightarrow> user_table \<Rightarrow> gateway_user option res \<times> user_table" where
  "bootstrap_meta_reviewer pw_hash uid s t =
     (let email = str_lower (strip (st_review_email s)); password = st_review_password s in
      if email = [] \<and> password = [] then (Inr None, t)
      else if email = [] \<or> password = []
      then (Inl (RuntimeError ''Set both META_REVIEW_EMAIL and META_REVIEW_PASSWORD''), t)
      else case by_email email t of
             None \<Rightarrow>
               (case create_user pw_hash uid (st_review_name s) email password ''meta_reviewer'' (Some review_business) t of
                  (Inl e, t') \<Rightarrow> (Inl e, t')
                | (Inr u, t') \<Rightarrow> (Inr (Some u), t'))
           | Some account \<Rightarrow>
               (let t' = set_reviewer_scope (gu_id account) t in (Inr (by_email email t'), t')))"

section \<open>What a role may do\<close>

record signed_user =
  au_id :: string
  au_name :: string
  au_email :: string
  au_avatar :: "string option"
  au_role :: string
  au_business :: "string option"

definition role_for_email :: "string \<Rightarrow> (string \<times> string) list option \<Rightarrow> string" where
  "role_for_email email assignments =
     (case assignments of
        None \<Rightarrow> ''operator''
      | Some a \<Rightarrow> (case map_of a (str_lower (strip email)) of Some (c # r) \<Rightarrow> c # r | _ \<Rightarrow> ''operator''))"

definition is_meta_reviewer :: "signed_user option \<Rightarrow> bool" where
  "is_meta_reviewer u = (case u of None \<Rightarrow> False | Some a \<Rightarrow> au_role a = ''meta_reviewer'')"

definition require_reviewer_client_access :: "signed_user option \<Rightarrow> string \<Rightarrow> unit res" where
  "require_reviewer_client_access u client_id =
     (if \<not> is_meta_reviewer u then Inr ()
      else let allowed = (case u of None \<Rightarrow> [] | Some a \<Rightarrow> (case au_business a of None \<Rightarrow> [] | Some b \<Rightarrow> strip b))
           in if allowed = [] \<or> client_id \<noteq> allowed then Inl (http_error 403) else Inr ())"

definition require_reviewer_connection_access :: "signed_user option \<Rightarrow> string \<Rightarrow> unit res" where
  "require_reviewer_connection_access u connection_client =
     (if is_meta_reviewer u then require_reviewer_client_access u connection_client else Inr ())"

definition require_manual_action_access :: "signed_user option \<Rightarrow> string \<Rightarrow> unit res" where
  "require_manual_action_access u connection_client =
     (case u of
        None \<Rightarrow> Inl (http_error 403)
      | Some a \<Rightarrow> if strip (au_id a) = [] then Inl (http_error 403)
                  else require_reviewer_connection_access u connection_client)"

definition reviewer_pages :: "(string \<times> string) list" where
  "reviewer_pages =
     [(''GET'', ''/auth/session''), (''POST'', ''/auth/logout''), (''GET'', ''/channels''), (''GET'', ''/clients''),
      (''GET'', ''/connections''), (''POST'', ''/connections''), (''POST'', ''/connection-setups''),
      (''GET'', ''/meta/signup/config''), (''POST'', ''/meta/signup/complete''), (''GET'', ''/analytics'')]"

definition bare_path :: "string \<Rightarrow> string" where
  "bare_path path =
     (let p = rev (dropWhile (\<lambda>c. c = CHR ''/'') (rev path)) in if p = [] then ''/'' else p)"

definition reviewer_endpoint_allowed :: "signed_user option \<Rightarrow> string \<Rightarrow> string \<Rightarrow> bool" where
  "reviewer_endpoint_allowed u method_raw path_raw =
     (let meth = str_upper method_raw; path = bare_path path_raw in
      if \<not> is_meta_reviewer u then True
      else if (meth, path) \<in> set reviewer_pages then True
      else if starts_with path ''/clients/'' then meth = ''GET'' \<and> count_list path CHR ''/'' = 2
      else if starts_with path ''/meta/signup/onboarding/'' then meth = ''GET''
      else if starts_with path ''/connection-setups/'' then meth = ''GET'' \<or> meth = ''POST''
      else if path = ''/webhooks'' \<or> starts_with path ''/webhooks/'' then True
      else if path = ''/provider-deliveries'' \<or> starts_with path ''/provider-deliveries/''
      then meth = ''GET'' \<or> meth = ''POST'' \<and> ends_with path ''/resend''
      else starts_with path ''/connections/'')"

section \<open>Sessions\<close>

text \<open>
  A session is kept under the hash of its token. A time that cannot be read has passed, and one
  without a zone cannot be compared.
\<close>

datatype moment = At int | Naive | No_Time

record session_env =
  se_hash :: "string \<Rightarrow> string"
  se_iso :: "int \<Rightarrow> string"
  se_parse :: "string \<Rightarrow> moment"

type_synonym session_file = "pdict json_file"

fun read_sessions :: "session_file \<Rightarrow> pdict" where
  "read_sessions (Holds raw) = as_dict (dget raw ''sessions'')"
| "read_sessions _ = []"

definition write_sessions :: "bool \<Rightarrow> pdict \<Rightarrow> session_file \<Rightarrow> unit res \<times> session_file" where
  "write_sessions disk_ok sessions f = replace_file disk_ok [(''sessions'', PDict sessions)] f"

definition public_dict :: "signed_user \<Rightarrow> pdict" where
  "public_dict u =
     [(''id'', PStr (au_id u)), (''name'', PStr (au_name u)), (''email'', PStr (au_email u)),
      (''avatar_url'', pstr_opt (au_avatar u)), (''role'', PStr (au_role u)), (''business_id'', pstr_opt (au_business u))]"

definition is_expired :: "session_env \<Rightarrow> int \<Rightarrow> pval \<Rightarrow> bool res" where
  "is_expired env now v =
     (case se_parse env (py_str v) of At t \<Rightarrow> Inr (t \<le> now) | Naive \<Rightarrow> Inl TypeError | No_Time \<Rightarrow> Inr True)"

definition session_create ::
    "session_env \<Rightarrow> bool \<Rightarrow> signed_user \<Rightarrow> int \<Rightarrow> string \<Rightarrow> session_file \<Rightarrow> string res \<times> session_file" where
  "session_create env disk_ok u expires_at token f =
     answer_after token (write_sessions disk_ok
       (dset (read_sessions f) (se_hash env token)
         (PDict [(''user'', PDict (public_dict u)), (''expires_at'', PStr (se_iso env expires_at))])) f)"

definition session_user :: "pdict \<Rightarrow> signed_user option" where
  "session_user r =
     (let u = as_dict (dget r ''user'') in
      if \<not> truthy (dget u ''id'') \<or> \<not> truthy (dget u ''email'') then None
      else Some \<lparr> au_id = py_str (dget u ''id''), au_name = py_str (py_or (dget u ''name'') (dget u ''email'')),
                  au_email = py_str (dget u ''email''),
                  au_avatar = (if truthy (dget u ''avatar_url'') then Some (py_str (dget u ''avatar_url'')) else None),
                  au_role = role_for_email (py_str (dget u ''email'')) None, au_business = None \<rparr>)"

definition session_get ::
    "session_env \<Rightarrow> bool \<Rightarrow> int \<Rightarrow> string \<Rightarrow> session_file \<Rightarrow> signed_user option res \<times> session_file" where
  "session_get env disk_ok now token f =
     (let sessions = read_sessions f; h = se_hash env token;
          drop_it = (if dhas sessions h
                     then answer_after None (write_sessions disk_ok (AList.delete h sessions) f) else (Inr None, f))
      in if token = [] then (Inr None, f)
         else case dict_at sessions h of
                None \<Rightarrow> drop_it
              | Some r \<Rightarrow>
                  (case is_expired env now (dget r ''expires_at'') of
                     Inl e \<Rightarrow> (Inl e, f)
                   | Inr expired \<Rightarrow> if expired then drop_it else (Inr (session_user r), f)))"

definition session_delete :: "session_env \<Rightarrow> bool \<Rightarrow> string \<Rightarrow> session_file \<Rightarrow> unit res \<times> session_file" where
  "session_delete env disk_ok token f =
     (let sessions = read_sessions f; h = se_hash env token in
      if token = [] \<or> dget sessions h = PNone then (Inr (), f)
      else write_sessions disk_ok (AList.delete h sessions) f)"

text \<open>The keys of the sessions of an email, in their order; a user that is no dictionary raises.\<close>

fun sessions_of :: "string \<Rightarrow> pdict \<Rightarrow> string list res" where
  "sessions_of email [] = Inr []"
| "sessions_of email ((k, v) # d) =
     (if is_dict v
      then rbind (vget (py_or (dget (as_dict v) ''user'') (PDict [])) ''email'') (\<lambda>e.
           rbind (sessions_of email d) (\<lambda>ks.
             Inr (if str_lower (str_or_empty e) = email then k # ks else ks)))
      else sessions_of email d)"

definition session_delete_user :: "bool \<Rightarrow> string \<Rightarrow> session_file \<Rightarrow> unit res \<times> session_file" where
  "session_delete_user disk_ok email f =
     (let sessions = read_sessions f in
      case sessions_of (str_lower (strip email)) sessions of
        Inl e \<Rightarrow> (Inl e, f)
      | Inr [] \<Rightarrow> (Inr (), f)
      | Inr (k # ks) \<Rightarrow> write_sessions disk_ok (fold AList.delete (k # ks) sessions) f)"

section \<open>Identities that Google vouches for\<close>

text \<open>
  A credential is a header, claims and a signature. The parts are decoded by an argument, and so
  are the signature and Google's answer with its keys, which are kept for an hour.
\<close>

record google_env =
  gx_client_id :: string
  gx_json_part :: "string \<Rightarrow> pval option"
  gx_signed :: "string list \<Rightarrow> pval \<Rightarrow> bool"

record google_keys =
  gk_keys :: pdict
  gk_until :: int

definition invalid_credential :: py_exc where
  "invalid_credential = AppError ''GoogleTokenValidationError'' None []"

definition access_denied :: py_exc where
  "access_denied = AppError ''GoogleAccessDeniedError'' None []"

definition json_part :: "google_env \<Rightarrow> string \<Rightarrow> pdict res" where
  "json_part env part =
     (case gx_json_part env part of Some (PDict d) \<Rightarrow> Inr d | _ \<Rightarrow> Inl invalid_credential)"

definition rsa_keys :: "pval \<Rightarrow> pdict" where
  "rsa_keys payload =
     fold (\<lambda>item d. if is_dict item \<and> dget (as_dict item) ''kty'' = PStr ''RSA'' \<and> truthy (dget (as_dict item) ''kid'')
                   then dset d (py_str (dget (as_dict item) ''kid'')) item else d)
       (as_list (dget (as_dict payload) ''keys'')) []"

definition key_for :: "pval res \<Rightarrow> int \<Rightarrow> string \<Rightarrow> google_keys \<Rightarrow> pval res \<times> google_keys" where
  "key_for fetched now kid g =
     (let found = (\<lambda>g'. if dhas (gk_keys g') kid then Inr (dget (gk_keys g') kid) else Inl invalid_credential) in
      if gk_until g \<le> now \<or> \<not> dhas (gk_keys g) kid
      then case fetched of
             Inl e \<Rightarrow> (Inl e, g)
           | Inr payload \<Rightarrow>
               (let g' = \<lparr> gk_keys = rsa_keys payload, gk_until = now + 3600 \<rparr> in (found g', g'))
      else (found g, g))"

fun number_of :: "pval \<Rightarrow> int option" where
  "number_of (PInt i) = Some i"
| "number_of (PBool b) = Some (if b then 1 else 0)"
| "number_of (PFloat i _) = Some i"
| "number_of _ = None"

definition verify_claims :: "google_env \<Rightarrow> int \<Rightarrow> pdict \<Rightarrow> unit res" where
  "verify_claims env now claims =
     (let audience = dget claims ''aud'';
          audiences = (if is_list audience then as_list audience else [audience]) in
      rbind (key_in (dget claims ''iss'') [(''accounts.google.com'', PNone), (''https://accounts.google.com'', PNone)]) (\<lambda>known.
        if \<not> known \<or> PStr (gx_client_id env) \<notin> set audiences \<or>
           (case number_of (dget claims ''exp'') of None \<Rightarrow> True | Some t \<Rightarrow> t \<le> now) \<or>
           (case number_of (dget claims ''nbf'') of None \<Rightarrow> False | Some t \<Rightarrow> now < t) \<or>
           str_or_empty (dget claims ''sub'') = []
        then Inl invalid_credential else Inr ()))"

definition email_verified :: "pval \<Rightarrow> bool" where
  "email_verified v \<longleftrightarrow> v = PBool True \<or> v = PStr ''true''"

definition claimed_user :: "pdict \<Rightarrow> string \<Rightarrow> signed_user" where
  "claimed_user claims email =
     \<lparr> au_id = py_str (py_or (dget claims ''sub'') (PStr email)), au_name = py_str (py_or (dget claims ''name'') (PStr email)),
       au_email = email,
       au_avatar = (if truthy (dget claims ''picture'') then Some (py_str (dget claims ''picture'')) else None),
       au_role = ''operator'', au_business = None \<rparr>"

definition verify_credential ::
    "google_env \<Rightarrow> pval res \<Rightarrow> int \<Rightarrow> int \<Rightarrow> string \<Rightarrow> google_keys \<Rightarrow> signed_user res \<times> google_keys" where
  "verify_credential env fetched uptime now credential g =
     (let parts = split_chr CHR ''.'' credential in
      if gx_client_id env = [] \<or> length parts \<noteq> 3 then (Inl invalid_credential, g)
      else case rbind (json_part env (parts ! 0)) (\<lambda>header.
                rbind (json_part env (parts ! 1)) (\<lambda>claims.
                  if dget header ''alg'' \<noteq> PStr ''RS256'' \<or> \<not> is_str (dget header ''kid'') then Inl invalid_credential
                  else Inr (dget header ''kid'', claims))) of
             Inl e \<Rightarrow> (Inl e, g)
           | Inr (kid, claims) \<Rightarrow>
               (case key_for fetched uptime (py_str kid) g of
                  (Inl e, g') \<Rightarrow> (Inl e, g')
                | (Inr key, g') \<Rightarrow>
                    (let email = str_lower (clean_str (dget claims ''email'')) in
                     (if \<not> gx_signed env parts key then Inl invalid_credential
                      else rbind (verify_claims env now claims) (\<lambda>_.
                             if email = [] \<or> \<not> email_verified (dget claims ''email_verified'') then Inl invalid_credential
                             else Inr (claimed_user claims email)), g'))))"

end
