(* ===== verification/Access.thy ===== *)
theory Access
  imports Accounts Instance_Keys
begin

text \<open>
  Who is let in: \<open>AuthService\<close> of \<open>gateway/app/services/google_auth.py\<close>, the routes of
  \<open>gateway/app/routers/auth.py\<close> and the middleware every request passes first,
  \<open>gateway/app/middleware/auth.py\<close>. The state is the table of accounts, the sessions, the
  instance keys and Google's public keys.
\<close>

section \<open>The service\<close>

record auth_env =
  ax_session :: session_env
  ax_google :: google_env
  ax_keys :: key_env
  ax_pw_hash :: "string \<Rightarrow> string"
  ax_pw_matches :: "string \<Rightarrow> string \<Rightarrow> bool"
  ax_assignments :: "(string \<times> string) list"
  ax_allowed :: "string list"
  ax_ttl :: int
  ax_gateway_key :: string

record auth_state =
  as_users :: "user_table option"
  as_sessions :: session_file
  as_keys :: key_file
  as_google :: google_keys

text \<open>What one request brings from outside.\<close>

record auth_call =
  ac_now :: int
  ac_uptime :: int
  ac_fetched :: "pval res"
  ac_token :: string
  ac_uid :: string
  ac_disk_ok :: bool
  ac_key_call :: key_call

definition authenticated :: "gateway_user \<Rightarrow> signed_user" where
  "authenticated u =
     \<lparr> au_id = gu_id u, au_name = gu_name u, au_email = gu_email u, au_avatar = None, au_role = gu_role u,
       au_business = (if gu_role u = ''meta_reviewer'' then Some review_business else gu_business u) \<rparr>"

definition active_account :: "user_table \<Rightarrow> string \<Rightarrow> gateway_user option" where
  "active_account t email =
     (case by_email email t of None \<Rightarrow> None | Some a \<Rightarrow> if gu_active a then Some a else None)"

definition open_session ::
    "auth_env \<Rightarrow> auth_call \<Rightarrow> signed_user \<Rightarrow> auth_state \<Rightarrow> (signed_user \<times> string \<times> int) res \<times> auth_state" where
  "open_session env call u st =
     (let ttl = max 60 (ax_ttl env) in
      case session_create (ax_session env) (ac_disk_ok call) u (ac_now call + ttl) (ac_token call) (as_sessions st) of
        (Inl e, f) \<Rightarrow> (Inl e, st\<lparr> as_sessions := f \<rparr>)
      | (Inr token, f) \<Rightarrow> (Inr (u, token, ttl), st\<lparr> as_sessions := f \<rparr>))"

definition sign_in ::
    "auth_env \<Rightarrow> auth_call \<Rightarrow> string \<Rightarrow> auth_state \<Rightarrow> (signed_user \<times> string \<times> int) res \<times> auth_state" where
  "sign_in env call credential st0 =
     (case verify_credential (ax_google env) (ac_fetched call) (ac_uptime call) (ac_now call) credential (as_google st0) of
        (Inl e, g) \<Rightarrow> (Inl e, st0\<lparr> as_google := g \<rparr>)
      | (Inr u, g) \<Rightarrow>
          (let st = st0\<lparr> as_google := g \<rparr> in
           case as_users st of
             Some t \<Rightarrow>
               (case active_account t (au_email u) of
                  None \<Rightarrow> (Inl access_denied, st)
                | Some account \<Rightarrow> open_session env call (authenticated account) st)
           | None \<Rightarrow>
               if au_email u \<notin> set (ax_allowed env) then (Inl access_denied, st)
               else open_session env call (u\<lparr> au_role := role_for_email (au_email u) (Some (ax_assignments env)) \<rparr>) st))"

definition current_user :: "auth_env \<Rightarrow> auth_call \<Rightarrow> string \<Rightarrow> auth_state \<Rightarrow> signed_user option res \<times> auth_state" where
  "current_user env call token st0 =
     (case session_get (ax_session env) (ac_disk_ok call) (ac_now call) token (as_sessions st0) of
        (Inl e, f) \<Rightarrow> (Inl e, st0\<lparr> as_sessions := f \<rparr>)
      | (Inr found, f) \<Rightarrow>
          (Inr (case found of
                  None \<Rightarrow> None
                | Some u \<Rightarrow>
                    (case as_users st0 of
                       None \<Rightarrow> Some (u\<lparr> au_role := role_for_email (au_email u) (Some (ax_assignments env)) \<rparr>)
                     | Some t \<Rightarrow> map_option authenticated (active_account t (au_email u)))),
           st0\<lparr> as_sessions := f \<rparr>))"

definition sign_in_with_password ::
    "auth_env \<Rightarrow> auth_call \<Rightarrow> string \<Rightarrow> string \<Rightarrow> auth_state \<Rightarrow> (signed_user \<times> string \<times> int) res \<times> auth_state" where
  "sign_in_with_password env call email password st =
     (case as_users st of
        None \<Rightarrow> (Inl invalid_credential, st)
      | Some t \<Rightarrow>
          (case active_account t (str_lower (strip email)) of
             None \<Rightarrow> (Inl access_denied, st)
           | Some account \<Rightarrow>
               if \<not> ax_pw_matches env password (gu_password_hash account) then (Inl access_denied, st)
               else open_session env call (authenticated account) st))"

definition sign_out :: "auth_env \<Rightarrow> auth_call \<Rightarrow> string \<Rightarrow> auth_state \<Rightarrow> unit res \<times> auth_state" where
  "sign_out env call token st =
     (case session_delete (ax_session env) (ac_disk_ok call) token (as_sessions st) of
        (r, f) \<Rightarrow> (r, st\<lparr> as_sessions := f \<rparr>))"

definition sign_out_email :: "auth_call \<Rightarrow> string \<Rightarrow> auth_state \<Rightarrow> unit res \<times> auth_state" where
  "sign_out_email call email st =
     (case session_delete_user (ac_disk_ok call) email (as_sessions st) of (r, f) \<Rightarrow> (r, st\<lparr> as_sessions := f \<rparr>))"

section \<open>The routes\<close>

text \<open>The status of an exception of the service, by its class.\<close>

fun refused_as :: "(string \<times> int) list \<Rightarrow> 'a res \<Rightarrow> 'a res" where
  "refused_as statuses (Inl (AppError c s k)) =
     (case map_of statuses c of None \<Rightarrow> Inl (AppError c s k) | Some status \<Rightarrow> Inl (http_error status))"
| "refused_as statuses (Inl (ValueError m)) =
     (case map_of statuses ''ValueError'' of None \<Rightarrow> Inl (ValueError m) | Some status \<Rightarrow> Inl (http_error status))"
| "refused_as statuses r = r"

definition google_login ::
    "auth_env \<Rightarrow> auth_call \<Rightarrow> string \<Rightarrow> auth_state \<Rightarrow> (signed_user \<times> string \<times> int) res \<times> auth_state" where
  "google_login env call credential st =
     apfst (refused_as [(''GoogleAccessDeniedError'', 403), (''GoogleTokenValidationError'', 401)])
       (sign_in env call credential st)"

definition password_login ::
    "auth_env \<Rightarrow> auth_call \<Rightarrow> string \<Rightarrow> string \<Rightarrow> auth_state \<Rightarrow> (signed_user \<times> string \<times> int) res \<times> auth_state" where
  "password_login env call email password st =
     apfst (refused_as [(''GoogleAccessDeniedError'', 401), (''GoogleTokenValidationError'', 401)])
       (sign_in_with_password env call email password st)"

definition get_session :: "auth_env \<Rightarrow> auth_call \<Rightarrow> string \<Rightarrow> auth_state \<Rightarrow> signed_user res \<times> auth_state" where
  "get_session env call cookie st =
     (case current_user env call cookie st of
        (Inl e, st') \<Rightarrow> (Inl e, st')
      | (Inr None, st') \<Rightarrow> (Inl (http_error 401), st')
      | (Inr (Some u), st') \<Rightarrow> (Inr u, st'))"

definition require_admin :: "signed_user option \<Rightarrow> unit res" where
  "require_admin u = (if (case u of None \<Rightarrow> [] | Some a \<Rightarrow> au_role a) \<noteq> ''admin'' then Inl (http_error 403) else Inr ())"

text \<open>The repository of a deployment without a database cannot be made.\<close>

definition table_of :: "auth_state \<Rightarrow> user_table res" where
  "table_of st =
     (case as_users st of None \<Rightarrow> Inl (RuntimeError ''GATEWAY_USERS_DATABASE_URL is required'') | Some t \<Rightarrow> Inr t)"

definition list_users_route :: "signed_user option \<Rightarrow> auth_state \<Rightarrow> gateway_user list res" where
  "list_users_route admin st = rbind (require_admin admin) (\<lambda>_. rbind (table_of st) (\<lambda>t. Inr (list_users t)))"

definition create_user_route ::
    "auth_env \<Rightarrow> auth_call \<Rightarrow> signed_user option \<Rightarrow> string \<Rightarrow> string \<Rightarrow> string \<Rightarrow> string \<Rightarrow> string option \<Rightarrow> auth_state
     \<Rightarrow> gateway_user res \<times> auth_state" where
  "create_user_route env call admin name email password role business st =
     (case rbind (require_admin admin) (\<lambda>_. table_of st) of
        Inl e \<Rightarrow> (Inl e, st)
      | Inr t0 \<Rightarrow>
          (case create_user (ax_pw_hash env) (ac_uid call) name email password role
                  (if role = ''meta_reviewer'' then Some review_business else business) t0 of
             (r, t) \<Rightarrow> (refused_as [(''ValueError'', 422)] r, st\<lparr> as_users := Some t \<rparr>)))"

definition account_of :: "string \<Rightarrow> user_table \<Rightarrow> gateway_user option" where
  "account_of uid t = List.find (\<lambda>u. gu_id u = uid) (list_users t)"

definition end_sessions :: "auth_call \<Rightarrow> gateway_user option \<Rightarrow> auth_state \<Rightarrow> unit res \<times> auth_state" where
  "end_sessions call account st =
     (case account of None \<Rightarrow> (Inr (), st) | Some a \<Rightarrow> sign_out_email call (gu_email a) st)"

definition disable_user :: "auth_call \<Rightarrow> signed_user option \<Rightarrow> string \<Rightarrow> auth_state \<Rightarrow> unit res \<times> auth_state" where
  "disable_user call admin uid st =
     (case require_admin admin of
        Inl e \<Rightarrow> (Inl e, st)
      | Inr _ \<Rightarrow>
          if (case admin of None \<Rightarrow> False | Some a \<Rightarrow> au_id a = uid) then (Inl (http_error 422), st)
          else case table_of st of
                 Inl e \<Rightarrow> (Inl e, st)
               | Inr t \<Rightarrow> end_sessions call (account_of uid t) (st\<lparr> as_users := Some (set_active uid False t) \<rparr>))"

definition reset_user_password ::
    "auth_env \<Rightarrow> auth_call \<Rightarrow> signed_user option \<Rightarrow> string \<Rightarrow> string \<Rightarrow> auth_state \<Rightarrow> unit res \<times> auth_state" where
  "reset_user_password env call admin uid password st =
     (case rbind (require_admin admin) (\<lambda>_. table_of st) of
        Inl e \<Rightarrow> (Inl e, st)
      | Inr t0 \<Rightarrow>
          apfst (refused_as [(''ValueError'', 422)])
            (case reset_password (ax_pw_hash env) uid password t0 of
               (Inl e, t) \<Rightarrow> (Inl e, st)
             | (Inr _, t) \<Rightarrow> end_sessions call (account_of uid t0) (st\<lparr> as_users := Some t \<rparr>)))"

section \<open>The middleware\<close>

record request =
  rq_method :: string
  rq_path :: string
  rq_api_key :: "string option"
  rq_authorization :: "string option"
  rq_cookie :: string

definition public_paths :: "string list" where
  "public_paths =
     [''/health'', ''/webhooks/evolution'', ''/webhooks/meta'', ''/auth/config'', ''/auth/google'', ''/auth/login'',
      ''/connections/meta/instagram/callback'']"

definition header_text :: "string option \<Rightarrow> string" where
  "header_text v = strip (case v of None \<Rightarrow> [] | Some s \<Rightarrow> s)"

definition gateway_api_key :: "request \<Rightarrow> string" where
  "gateway_api_key rq =
     (let direct = header_text (rq_api_key rq); authorization = header_text (rq_authorization rq) in
      if direct \<noteq> [] then direct
      else if starts_with (str_lower authorization) ''bearer '' then strip (drop 7 authorization) else [])"

text \<open>\<open>hmac.compare_digest\<close> of two texts raises when one is not ASCII.\<close>

definition is_ascii :: "string \<Rightarrow> bool" where
  "is_ascii s \<longleftrightarrow> list_all (\<lambda>c. (of_char c :: nat) < 128) s"

definition compare_digest :: "string \<Rightarrow> string \<Rightarrow> bool res" where
  "compare_digest a b = (if is_ascii a \<and> is_ascii b then Inr (a = b) else Inl TypeError)"

text \<open>The instance in a path \<open>/instances/<name>/media/<file>\<close>.\<close>

definition own_media_instance :: "string \<Rightarrow> string option" where
  "own_media_instance path =
     (case split_chr CHR ''/'' path of
        [e, a, name, b, file] \<Rightarrow>
          if e = [] \<and> a = ''instances'' \<and> name \<noteq> [] \<and> b = ''media'' \<and> file \<noteq> [] then Some name else None
      | _ \<Rightarrow> None)"

definition instance_scope :: "string \<Rightarrow> string \<Rightarrow> bool" where
  "instance_scope path inst \<longleftrightarrow>
     starts_with path ''/messages/'' \<or>
     path \<in> {''/v1/outbound/messages'', ''/v2/outbound/messages'', ''/v2/group-transport/automatic'', ''/v2/history/messages''} \<or>
     own_media_instance path = Some inst"

definition open_path :: "string \<Rightarrow> bool" where
  "open_path path \<longleftrightarrow>
     path \<in> set public_paths \<or>
     starts_with path ''/v2/group-transport/'' \<and> path \<noteq> ''/v2/group-transport/automatic''"

datatype entry_ground =
    Unchecked
  | By_Gateway_Key
  | By_Instance_Key string
  | By_User signed_user

definition user_admission :: "auth_env \<Rightarrow> auth_call \<Rightarrow> request \<Rightarrow> auth_state \<Rightarrow> entry_ground res \<times> auth_state" where
  "user_admission env call rq st =
     (case current_user env call (rq_cookie rq) st of
        (Inl e, st') \<Rightarrow> (Inl e, st')
      | (Inr None, st') \<Rightarrow> (Inl (http_error 401), st')
      | (Inr (Some u), st') \<Rightarrow>
          (if reviewer_endpoint_allowed (Some u) (rq_method rq) (rq_path rq) then Inr (By_User u)
           else Inl (http_error 403), st'))"

text \<open>A request is passed on with what it was admitted by, or answered here.\<close>

definition admit :: "auth_env \<Rightarrow> auth_call \<Rightarrow> request \<Rightarrow> auth_state \<Rightarrow> entry_ground res \<times> auth_state" where
  "admit env call rq st =
     (if rq_method rq = ''OPTIONS'' \<or> open_path (rq_path rq) then (Inr Unchecked, st)
      else let expected = strip (ax_gateway_key env); provided = gateway_api_key rq in
        case (if expected \<noteq> [] \<and> provided \<noteq> [] then compare_digest provided expected else Inr False) of
          Inl e \<Rightarrow> (Inl e, st)
        | Inr True \<Rightarrow> (Inr By_Gateway_Key, st)
        | Inr False \<Rightarrow>
            (case authenticate_instance_token (ax_keys env) (ac_key_call call) provided (as_keys st) of
               (Inl e, f) \<Rightarrow> (Inl e, st\<lparr> as_keys := f \<rparr>)
             | (Inr found, f) \<Rightarrow>
                 (let st' = st\<lparr> as_keys := f \<rparr> in
                  case found of
                    Some a \<Rightarrow>
                      if instance_scope (rq_path rq) (ka_instance a) then (Inr (By_Instance_Key (ka_instance a)), st')
                      else user_admission env call rq st'
                  | None \<Rightarrow> user_admission env call rq st')))"

end
