(* ===== verification/Access_Spec.thy ===== *)
theory Access_Spec
  imports Access Instance_Keys_Spec
begin

text \<open>
  What access control promises: a request that is let in shows a credential that is in force,
  a sign-in lasts until it expires, is ended or its account is disabled, and Google's word is
  taken only for a credential that Google signed for this Gateway.
\<close>

section \<open>Sessions\<close>

lemma read_write_sessions:
  "write_sessions ok d f = (Inr u, f') \<Longrightarrow> read_sessions f' = d"
  "write_sessions ok d f = (Inl e, f') \<Longrightarrow> f' = f"
  by (auto simp: write_sessions_def replace_file_def dget_Cons split: if_splits)

lemma dict_at_dset: "dict_at (dset d k v) k' = (if k' = k then (case v of PDict x \<Rightarrow> Some x | _ \<Rightarrow> None) else dict_at d k')"
  by (simp add: dict_at_def)

lemma dget_delete: "dget (AList.delete k d) k' = (if k' = k then PNone else dget d k')"
  by (simp add: dget_def AList.delete_conv')

lemma dict_at_delete: "dict_at (AList.delete k d) k' = (if k' = k then None else dict_at d k')"
  by (simp add: dict_at_def dget_delete)

lemma map_of_delete_all: "map_of (fold AList.delete ks d) k = (if k \<in> set ks then None else map_of d k)"
  by (induction ks arbitrary: d) (auto simp: AList.delete_conv')

text \<open>What a lookup answers comes from a session that has not expired, and the file only loses sessions.\<close>

lemma session_get_found:
  assumes "session_get env ok now token f = (Inr (Some u), f')"
  shows "f' = f \<and> token \<noteq> [] \<and>
    (\<exists>r. dict_at (read_sessions f) (se_hash env token) = Some r \<and> is_expired env now (dget r ''expires_at'') = Inr False \<and>
      session_user r = Some u)"
  using assms
  by (auto simp: session_get_def Let_def answer_after_def split: if_splits option.splits sum.splits prod.splits bool.splits)

lemma session_user_of_public:
  "au_id u \<noteq> [] \<Longrightarrow> au_email u \<noteq> [] \<Longrightarrow>
     session_user [(''user'', PDict (public_dict u)), (''expires_at'', x)] =
       Some (u\<lparr> au_name := (if au_name u = [] then au_email u else au_name u),
              au_avatar := (case au_avatar u of Some [] \<Rightarrow> None | a \<Rightarrow> a), au_role := ''operator'', au_business := None \<rparr>)"
  by (cases u) (auto simp: session_user_def public_dict_def dget_Cons Let_def role_for_email_def py_or_def split: option.split list.split)

lemma session_get_created:
  assumes "session_create env ok u until token f = (Inr t, f')" and "token \<noteq> []"
    and "\<And>t. se_parse env (se_iso env t) = At t"
  shows "session_get env ok' now token f' =
    (if now < until
     then (Inr (session_user [(''user'', PDict (public_dict u)), (''expires_at'', PStr (se_iso env until))]), f')
     else answer_after None (write_sessions ok' (AList.delete (se_hash env token) (read_sessions f')) f'))"
proof -
  have r: "read_sessions f' = dset (read_sessions f) (se_hash env token)
      (PDict [(''user'', PDict (public_dict u)), (''expires_at'', PStr (se_iso env until))])"
    using assms(1) by (auto simp: session_create_def answer_after_def read_write_sessions split: prod.splits sum.splits)
  show ?thesis using assms(2)
    by (auto simp: session_get_def Let_def r dict_at_dset is_expired_def assms(3) dget_Cons)
qed

section \<open>Who is let in\<close>

lemma by_email_Some: "by_email e t = Some a \<Longrightarrow> a \<in> set t \<and> gu_email a = str_lower e"
  by (auto simp: by_email_def find_Some_iff)

lemma active_account_Some:
  "active_account t e = Some a \<Longrightarrow> a \<in> set t \<and> gu_active a \<and> gu_email a = str_lower e"
  by (auto simp: active_account_def dest: by_email_Some split: option.splits if_splits)

text \<open>The session and the account behind a signed-in user.\<close>

definition signed_in :: "auth_env \<Rightarrow> int \<Rightarrow> string \<Rightarrow> auth_state \<Rightarrow> user_table \<Rightarrow> signed_user \<Rightarrow> bool" where
  "signed_in env now cookie st t u \<longleftrightarrow>
     (\<exists>account r s. account \<in> set t \<and> gu_active account \<and> u = authenticated account \<and>
        dict_at (read_sessions (as_sessions st)) (se_hash (ax_session env) cookie) = Some r \<and>
        is_expired (ax_session env) now (dget r ''expires_at'') = Inr False \<and>
        session_user r = Some s \<and> gu_email account = str_lower (au_email s))"

lemma current_user_found:
  assumes "current_user env call cookie st = (Inr (Some u), st')" and "as_users st = Some t"
  shows "signed_in env (ac_now call) cookie st t u \<and> st' = st"
proof -
  obtain s f where s: "session_get (ax_session env) (ac_disk_ok call) (ac_now call) cookie (as_sessions st) = (Inr (Some s), f)"
    and u: "map_option authenticated (active_account t (au_email s)) = Some u" and st': "st' = st\<lparr> as_sessions := f \<rparr>"
    using assms by (auto simp: current_user_def split: prod.splits sum.splits option.splits)
  from session_get_found [OF s] u st' show ?thesis
    by (auto simp: signed_in_def dest!: active_account_Some)
qed

lemma user_admission_found:
  assumes "user_admission env call rq st = (Inr a, st')" and "as_users st = Some t"
  shows "\<exists>u. a = By_User u \<and> signed_in env (ac_now call) (rq_cookie rq) st t u \<and>
    reviewer_endpoint_allowed (Some u) (rq_method rq) (rq_path rq)"
  using assms current_user_found [of env call "rq_cookie rq" st _ _ t]
  by (auto simp: user_admission_def split: prod.splits sum.splits option.splits if_splits)

lemma signed_in_keys [simp]: "signed_in env now cookie (st\<lparr> as_keys := f \<rparr>) t u = signed_in env now cookie st t u"
  by (simp add: signed_in_def)

lemma admit_found:
  assumes "admit env call rq st = (Inr a, st')" and "\<not> open_path (rq_path rq)" and "rq_method rq \<noteq> ''OPTIONS''"
    and "as_users st = Some t"
  shows "case a of
      Unchecked \<Rightarrow> False
    | By_Gateway_Key \<Rightarrow> gateway_api_key rq = strip (ax_gateway_key env) \<and> gateway_api_key rq \<noteq> []
    | By_Instance_Key inst \<Rightarrow> instance_scope (rq_path rq) inst \<and>
        (\<exists>au. ka_instance au = inst \<and>
          fst (authenticate_instance_token (ax_keys env) (ac_key_call call) (gateway_api_key rq) (as_keys st)) = Inr (Some au))
    | By_User u \<Rightarrow> signed_in env (ac_now call) (rq_cookie rq) st t u \<and>
        reviewer_endpoint_allowed (Some u) (rq_method rq) (rq_path rq)"
proof -
  have user: "\<exists>u. a = By_User u \<and> signed_in env (ac_now call) (rq_cookie rq) st t u \<and>
      reviewer_endpoint_allowed (Some u) (rq_method rq) (rq_path rq)"
    if "user_admission env call rq (st\<lparr> as_keys := f \<rparr>) = (Inr a, st')" for f
    using user_admission_found [OF that] assms(4) by simp
  show ?thesis
    using assms(1-3)
    by (auto simp: admit_def Let_def compare_digest_def
        split: if_splits sum.splits bool.splits prod.splits option.splits dest!: user)
qed

text \<open>
  C5: Nobody passes the middleware without a credential in force: while the store of the users can be
  read, a request other than OPTIONS for a path that is not open is passed on only with the Gateway's
  own key; or with a key that some operation made
  for an instance and none ended since, and then only to what that instance may use, its own
  media among it; or with a session that has not expired of an account that is active, a
  reviewer only to the reviewers' pages.
\<close>

theorem admission_needs_credential:
  assumes "admit env call rq st = (Inr a, st')" and "\<not> open_path (rq_path rq)" and "rq_method rq \<noteq> ''OPTIONS''"
    and "as_users st = Some t" and "as_keys st = fold (run_key_op (ax_keys env)) ops Absent"
  shows "case a of
      Unchecked \<Rightarrow> False
    | By_Gateway_Key \<Rightarrow> gateway_api_key rq = strip (ax_gateway_key env) \<and> gateway_api_key rq \<noteq> []
    | By_Instance_Key inst \<Rightarrow> instance_scope (rq_path rq) inst \<and>
        (\<exists>before op after. ops = before @ op # after \<and>
          makes_key (ax_keys env) op (ke_sha256 (ax_keys env) (strip (gateway_api_key rq))) inst \<and>
          (\<forall>later\<in>set after. \<not> ends_key (ax_keys env) later (ke_sha256 (ax_keys env) (strip (gateway_api_key rq))) inst))
    | By_User u \<Rightarrow> signed_in env (ac_now call) (rq_cookie rq) st t u \<and>
        reviewer_endpoint_allowed (Some u) (rq_method rq) (rq_path rq)"
proof (cases a)
  case (By_Instance_Key inst)
  have wf: "keys_distinct Absent" by (simp add: keys_distinct_def)
  obtain au where au: "ka_instance au = inst"
    "fst (authenticate_instance_token (ax_keys env) (ac_key_call call) (gateway_api_key rq) (as_keys st)) = Inr (Some au)"
    and scope: "instance_scope (rq_path rq) inst"
    using admit_found [OF assms(1-4)] By_Instance_Key by auto
  from authenticated_opens [OF keys.run_keeps [OF wf] au(2) [unfolded assms(5)]]
  show ?thesis using keys.provenance [OF wf _ nothing_opens_absent] By_Instance_Key scope au(1) by simp
qed (use admit_found [OF assms(1-4)] in auto)

section \<open>Accounts that are disabled\<close>

definition table_wf :: "user_table \<Rightarrow> bool" where
  "table_wf t \<longleftrightarrow> distinct (map gu_id t) \<and> distinct (map gu_email t) \<and>
     list_all (\<lambda>u. gu_email u = str_lower (strip (gu_email u))) t"

lemma change_user_wf:
  assumes "table_wf t" and "\<And>u. gu_id (c u) = gu_id u \<and> gu_email (c u) = gu_email u"
  shows "table_wf (change_user uid c t)"
proof -
  have "map gu_id (change_user uid c t) = map gu_id t" "map gu_email (change_user uid c t) = map gu_email t"
    using assms(2) by (simp_all add: change_user_def)
  moreover have "list_all (\<lambda>u. gu_email u = str_lower (strip (gu_email u))) (change_user uid c t)"
    using assms by (auto simp: table_wf_def list_all_iff change_user_def)
  ultimately show ?thesis using assms(1) by (simp add: table_wf_def)
qed

lemma create_user_wf: "table_wf t \<Longrightarrow> create_user h uid n e p r b t = (res, t') \<Longrightarrow> table_wf t'"
  by (force simp: create_user_def table_wf_def Let_def split: if_splits)

text \<open>The account is in the table and not active.\<close>

definition shut_out :: "string \<Rightarrow> auth_state \<Rightarrow> bool" where
  "shut_out uid st \<longleftrightarrow> (\<exists>t. as_users st = Some t \<and> uid \<in> gu_id ` set t \<and> (\<forall>u\<in>set t. gu_id u = uid \<longrightarrow> \<not> gu_active u))"

datatype auth_op =
    Google_Login string
  | Password_Login string string
  | Read_Session string
  | Logout string
  | Create_User "signed_user option" string string string string "string option"
  | Disable_User "signed_user option" string
  | Reset_Password "signed_user option" string string
  | Request request

fun run_auth_op :: "auth_env \<Rightarrow> auth_call \<times> auth_op \<Rightarrow> auth_state \<Rightarrow> auth_state" where
  "run_auth_op env (call, Google_Login c) st = snd (google_login env call c st)"
| "run_auth_op env (call, Password_Login e p) st = snd (password_login env call e p st)"
| "run_auth_op env (call, Read_Session c) st = snd (get_session env call c st)"
| "run_auth_op env (call, Logout c) st = snd (sign_out env call c st)"
| "run_auth_op env (call, Create_User admin n e p r b) st = snd (create_user_route env call admin n e p r b st)"
| "run_auth_op env (call, Disable_User admin uid) st = snd (disable_user call admin uid st)"
| "run_auth_op env (call, Reset_Password admin uid p) st = snd (reset_user_password env call admin uid p st)"
| "run_auth_op env (call, Request rq) st = snd (admit env call rq st)"

text \<open>Only three routes write the table.\<close>

lemma open_session_users [simp]: "as_users (snd (open_session env call u st)) = as_users st"
  by (simp add: open_session_def Let_def split: prod.split sum.split)

lemma current_user_users [simp]: "as_users (snd (current_user env call c st)) = as_users st"
  by (simp add: current_user_def split: prod.split sum.split)

lemma user_admission_users [simp]: "as_users (snd (user_admission env call rq st)) = as_users st"
  using current_user_users [of env call "rq_cookie rq" st]
  by (auto simp: user_admission_def simp del: current_user_users split: prod.split sum.split option.split)

lemma sign_out_users [simp]:
  "as_users (snd (sign_out env call c st)) = as_users st" "as_users (snd (sign_out_email call e st)) = as_users st"
  by (simp_all add: sign_out_def sign_out_email_def split: prod.split)

lemma end_sessions_users [simp]: "as_users (snd (end_sessions call a st)) = as_users st"
  by (simp add: end_sessions_def split: option.split)

lemma login_users [simp]:
  "as_users (snd (google_login env call c st)) = as_users st"
  "as_users (snd (password_login env call e p st)) = as_users st"
  "as_users (snd (get_session env call c st)) = as_users st"
  using current_user_users [of env call c st]
  by (auto simp: google_login_def sign_in_def password_login_def sign_in_with_password_def get_session_def Let_def
      simp del: current_user_users split: prod.split sum.split option.split)

lemma admit_users [simp]: "as_users (snd (admit env call rq st)) = as_users st"
  by (simp add: admit_def Let_def split: prod.split sum.split option.split bool.split)

lemma change_user_ids [simp]: "(\<And>u. gu_id (c u) = gu_id u) \<Longrightarrow> gu_id ` set (change_user uid c t) = gu_id ` set t"
  unfolding change_user_def set_map image_image by (rule image_cong) simp_all

lemma shut_out_change:
  assumes "as_users st' = Some (change_user uid' c t)" and "as_users st = Some t" and "shut_out uid st"
    and "\<And>u. gu_id (c u) = gu_id u" and "\<And>u. gu_active (c u) \<Longrightarrow> gu_active u"
  shows "shut_out uid st'"
proof -
  have "uid \<in> gu_id ` set (change_user uid' c t)" using assms(2,3,4) by (simp add: shut_out_def)
  moreover have "\<forall>u\<in>set (change_user uid' c t). gu_id u = uid \<longrightarrow> \<not> gu_active u"
    using assms(2,3,4,5) by (auto simp: shut_out_def change_user_def split: if_splits)
  ultimately show ?thesis using assms(1) by (simp add: shut_out_def)
qed

lemma shut_out_create:
  assumes "create_user h uid' n e p r b t = (res, t')" and "shut_out uid st" and "as_users st = Some t"
  shows "shut_out uid (st\<lparr> as_users := Some t' \<rparr>)"
proof -
  consider "t' = t" | u where "t' = t @ [u]" "gu_id u = uid'" "\<forall>v\<in>set t. gu_id v \<noteq> uid'"
    using assms(1) by (auto simp: create_user_def Let_def split: if_splits)
  then show ?thesis
    using assms(2,3) by cases (auto simp: shut_out_def)
qed

lemma shut_out_same: "as_users st' = as_users st \<Longrightarrow> shut_out uid st \<Longrightarrow> shut_out uid st'"
  by (simp add: shut_out_def)

lemma shut_out_step: "shut_out uid st \<Longrightarrow> shut_out uid (run_auth_op env a st)"
proof (induction env a st rule: run_auth_op.induct)
  case (5 env call admin n e p r b st)
  obtain t where t: "as_users st = Some t" using 5 by (auto simp: shut_out_def)
  show ?case
    using 5 t shut_out_create [OF _ 5 t]
    by (auto simp: create_user_route_def table_of_def rbind_eqs split: sum.split prod.split)
next
  case (6 env call admin u st)
  obtain t where t: "as_users st = Some t" using 6 by (auto simp: shut_out_def)
  have "shut_out uid (st\<lparr> as_users := Some (set_active u False t) \<rparr>)"
    by (rule shut_out_change [OF _ t 6, of _ u "\<lambda>x. x\<lparr> gu_active := False \<rparr>"]) (simp_all add: set_active_def)
  then show ?case
    using 6 t by (simp add: disable_user_def table_of_def split: sum.split) (metis end_sessions_users shut_out_same)
next
  case (7 env call admin u p st)
  obtain t where t: "as_users st = Some t" using 7 by (auto simp: shut_out_def)
  have "shut_out uid (st\<lparr> as_users := Some (change_user u (\<lambda>x. x\<lparr> gu_password_hash := h \<rparr>) t) \<rparr>)" for h
    by (rule shut_out_change [OF _ t 7, of _ u "\<lambda>x. x\<lparr> gu_password_hash := h \<rparr>"]) simp_all
  then show ?case
    using 7 t by (simp add: reset_user_password_def table_of_def reset_password_def rbind_eqs split: sum.split)
      (metis end_sessions_users shut_out_same)
qed (simp_all add: shut_out_def)

lemma shut_out_forever: "shut_out uid st \<Longrightarrow> shut_out uid (fold (run_auth_op env) ops st)"
  by (induction ops arbitrary: st) (simp_all add: shut_out_step)

lemma signed_in_active: "signed_in env now c st t u \<Longrightarrow> \<exists>a\<in>set t. gu_active a \<and> gu_id a = au_id u"
  by (auto simp: signed_in_def authenticated_def)

text \<open>Neither the middleware nor a sign-in knows an account that is shut out.\<close>

lemma shut_out_not_admitted:
  assumes "shut_out uid st" and "fst (admit env call rq st) = Inr (By_User u)"
  shows "au_id u \<noteq> uid"
proof -
  obtain t where t: "as_users st = Some t" "\<forall>u\<in>set t. gu_id u = uid \<longrightarrow> \<not> gu_active u"
    using assms(1) by (auto simp: shut_out_def)
  obtain st' where st': "admit env call rq st = (Inr (By_User u), st')" using assms(2) by (metis prod.collapse)
  have checked: "\<not> open_path (rq_path rq) \<and> rq_method rq \<noteq> ''OPTIONS''"
    using assms(2) by (auto simp: admit_def split: if_splits)
  show ?thesis using admit_found [OF st' _ _ t(1)] checked t(2) signed_in_active by fastforce
qed

lemma open_session_user: "fst (open_session env call u st) = Inr (v, token, ttl) \<Longrightarrow> v = u"
  by (auto simp: open_session_def Let_def split: prod.splits sum.splits)

lemma refused_as_Inr [simp]: "refused_as s r = Inr x \<longleftrightarrow> r = Inr x"
  by (induction s r rule: refused_as.induct) (auto split: option.splits)

lemma shut_out_no_login:
  assumes "shut_out uid st"
  shows "fst (password_login env call e p st) = Inr (u, token, ttl) \<Longrightarrow> au_id u \<noteq> uid"
    and "fst (google_login env call c st) = Inr (u, token, ttl) \<Longrightarrow> au_id u \<noteq> uid"
proof -
  obtain t where t: "as_users st = Some t" "\<forall>u\<in>set t. gu_id u = uid \<longrightarrow> \<not> gu_active u"
    using assms(1) by (auto simp: shut_out_def)
  have ok: "active_account t m = Some a \<Longrightarrow> au_id (authenticated a) \<noteq> uid" for m a
    using t(2) by (auto simp: authenticated_def dest!: active_account_Some)
  show "fst (password_login env call e p st) = Inr (u, token, ttl) \<Longrightarrow> au_id u \<noteq> uid"
    using ok by (auto simp: password_login_def sign_in_with_password_def t(1) split: option.splits if_splits dest!: open_session_user)
  show "fst (google_login env call c st) = Inr (u, token, ttl) \<Longrightarrow> au_id u \<noteq> uid"
    using ok by (auto simp: google_login_def sign_in_def t(1) Let_def
        split: option.splits if_splits prod.splits sum.splits dest!: open_session_user)
qed

text \<open>
  C24: An account that an administrator disables is out at once and for as long as the Gateway
  runs: whatever routes are used afterwards, in any order and by anybody, also when ending its
  sessions failed, no request is let in as that account and no sign-in with a password or with
  Google succeeds as it.
\<close>

theorem disabled_account_stays_out:
  assumes "as_users st = Some t" and "uid \<in> gu_id ` set t" and "require_admin admin = Inr ()"
    and "\<forall>a. admin = Some a \<longrightarrow> au_id a \<noteq> uid"
    and "later = fold (run_auth_op env) ops (snd (disable_user call admin uid st))"
    and "fst (admit env call2 rq later) = Inr (By_User u) \<or>
      fst (password_login env call2 email password later) = Inr (u, token, ttl) \<or>
      fst (google_login env call2 credential later) = Inr (u, token, ttl)"
  shows "au_id u \<noteq> uid"
proof -
  let ?st = "st\<lparr> as_users := Some (set_active uid False t) \<rparr>"
  have "shut_out uid ?st"
    using assms(2) by (simp add: shut_out_def set_active_def) (auto simp: change_user_def)
  moreover have "snd (disable_user call admin uid st) = snd (end_sessions call (account_of uid t) ?st)"
    using assms(1,3,4) by (auto simp: disable_user_def table_of_def split: option.split)
  ultimately have out: "shut_out uid later"
    unfolding assms(5) by (metis shut_out_forever shut_out_same end_sessions_users)
  show ?thesis
    using assms(6)
    by (elim disjE) (rule shut_out_not_admitted [OF out] shut_out_no_login(1) [OF out] shut_out_no_login(2) [OF out], assumption)+
qed

section \<open>Signing in\<close>

lemma open_session_sessions:
  assumes "open_session env call u st = (Inr (v, token, ttl), st')"
  shows "v = u \<and> ttl = max 60 (ax_ttl env) \<and> token = ac_token call \<and> (\<exists>f. st' = st\<lparr> as_sessions := f \<rparr> \<and>
    session_create (ax_session env) (ac_disk_ok call) u (ac_now call + ttl) token (as_sessions st) = (Inr token, f))"
  using assms
  by (auto simp: open_session_def Let_def session_create_def answer_after_def split: prod.splits sum.splits)

lemma session_create_token: "session_create env ok u until token f = (Inr t, f') \<Longrightarrow> t = token"
  by (auto simp: session_create_def answer_after_def split: prod.splits sum.splits)

text \<open>
  Who signs in with a password stays signed in for exactly the configured time, at least a
  minute: the token answers with the very account until then, as far as the account is still
  active, and from then on with nobody, and the session is gone from the file.
\<close>

theorem sign_in_lasts_its_time:
  assumes "fst (sign_in_with_password env call email password st) = Inr (u, token, ttl)"
    and "snd (sign_in_with_password env call email password st) = st1" and "token \<noteq> []"
    and "as_users st = Some t" and "table_wf t" and "au_id u \<noteq> []" and "au_email u \<noteq> []"
    and "\<And>i. se_parse (ax_session env) (se_iso (ax_session env) i) = At i" and "ac_disk_ok call2"
  shows "60 \<le> ttl \<and>
    (if ac_now call2 < ac_now call + ttl
     then current_user env call2 token st1 = (Inr (Some u), st1)
     else fst (current_user env call2 token st1) = Inr None \<and>
       \<not> dhas (read_sessions (as_sessions (snd (current_user env call2 token st1)))) (se_hash (ax_session env) token))"
proof -
  have run: "sign_in_with_password env call email password st = (Inr (u, token, ttl), st1)"
    using assms(1,2) by (metis prod.collapse)
  then obtain account where account: "active_account t (str_lower (strip email)) = Some account"
    and os: "open_session env call (authenticated account) st = (Inr (u, token, ttl), st1)"
    using assms(4) by (auto simp: sign_in_with_password_def split: option.splits if_splits)
  obtain f where u: "u = authenticated account" and ttl: "ttl = max 60 (ax_ttl env)" and st1: "st1 = st\<lparr> as_sessions := f \<rparr>"
    and create: "session_create (ax_session env) (ac_disk_ok call) u (ac_now call + ttl) token (as_sessions st) = (Inr token, f)"
    using open_session_sessions [OF os] by blast
  have mem: "account \<in> set t" "gu_active account" "gu_email account = str_lower (str_lower (strip email))"
    using active_account_Some [OF account] by auto
  have email: "au_email u = gu_email account" and mail: "str_lower (gu_email account) = gu_email account"
    using mem(3) by (simp_all add: u authenticated_def)
  have lookup: "active_account t (gu_email account) = Some account"
    using account mail mem(3) by (simp add: active_account_def by_email_def)
  note get = session_get_created [OF create assms(3,8), of "ac_disk_ok call2" "ac_now call2"]
  show ?thesis
  proof (cases "ac_now call2 < ac_now call + ttl")
    case True
    then show ?thesis
      using get assms(4) lookup ttl
      by (simp add: current_user_def st1 session_user_of_public [OF assms(6,7)] email u [symmetric])
  next
    case False
    obtain f2 where "write_sessions True (AList.delete (se_hash (ax_session env) token) (read_sessions f)) f = (Inr (), f2)"
      by (simp add: write_sessions_def replace_file_def)
    with False get ttl assms(9) read_write_sessions(1) [OF this] show ?thesis
      by (auto simp: current_user_def st1 answer_after_def dhas_def AList.delete_conv')
  qed
qed

section \<open>A new password\<close>

lemma sessions_of_mem:
  assumes "sessions_of email d = Inr ks" and "(k, PDict r) \<in> set d"
    and "vget (py_or (dget r ''user'') (PDict [])) ''email'' = Inr e" and "str_lower (str_or_empty e) = email"
  shows "k \<in> set ks"
  using assms(1,2)
proof (induction d arbitrary: ks)
  case (Cons p d)
  obtain k' v where p: "p = (k', v)" by (cases p)
  obtain ks' where ks': "sessions_of email d = Inr ks'" "set ks' \<subseteq> set ks"
    using Cons.prems(1) by (auto simp: p rbind_eqs subset_insertI split: if_splits)
  show ?case
  proof (cases "p = (k, PDict r)")
    case True
    then show ?thesis using Cons.prems(1) assms(3,4) p by (auto simp: rbind_eqs)
  next
    case False
    then show ?thesis using Cons.IH [OF ks'(1)] Cons.prems(2) ks'(2) by auto
  qed
qed simp

lemma session_user_email:
  assumes "session_user r = Some s"
  shows "\<exists>e. vget (py_or (dget r ''user'') (PDict [])) ''email'' = Inr e \<and> str_or_empty e = au_email s"
proof -
  obtain d where d: "dget r ''user'' = PDict d" and t: "truthy (dget d ''email'')"
    using assms by (cases "dget r ''user''") (auto simp: session_user_def Let_def split: if_splits)
  have "d \<noteq> []" using t by auto
  then show ?thesis
    using assms d t by (auto simp: session_user_def Let_def py_or_def str_or_empty_def split: if_splits)
qed

lemma delete_user_sessions:
  assumes "session_delete_user ok email f = (Inr (), f')" and "dict_at (read_sessions f') h = Some r"
    and "session_user r = Some s"
  shows "str_lower (au_email s) \<noteq> str_lower (strip email)"
proof
  assume mail: "str_lower (au_email s) = str_lower (strip email)"
  obtain ks where ks: "sessions_of (str_lower (strip email)) (read_sessions f) = Inr ks"
    and f': "read_sessions f' = fold AList.delete ks (read_sessions f)"
    using assms(1)
    by (auto simp: session_delete_user_def Let_def split: sum.splits list.splits dest: read_write_sessions)
  have at: "map_of (read_sessions f) h = Some (PDict r)" "h \<notin> set ks"
    using assms(2) unfolding f' dict_at_Some map_of_delete_all by (simp_all split: if_splits)
  obtain e where "vget (py_or (dget r ''user'') (PDict [])) ''email'' = Inr e" "str_or_empty e = au_email s"
    using session_user_email [OF assms(3)] by blast
  with sessions_of_mem [OF ks map_of_SomeD [OF at(1)]] mail at(2) show False by simp
qed

lemma account_of_Some:
  assumes "table_wf t" and "a \<in> set t" and "gu_id a = uid"
  shows "account_of uid t = Some a"
proof -
  have "distinct (map gu_id t)" using assms(1) by (simp add: table_wf_def)
  then have one: "b \<in> set t \<Longrightarrow> gu_id b = uid \<Longrightarrow> b = a" for b using assms(2,3) by (auto simp: distinct_map inj_on_def)
  have "account_of uid t \<noteq> None" using assms(2,3) by (auto simp: account_of_def list_users_def find_None_iff)
  then obtain b where b: "account_of uid t = Some b" by blast
  then have "b \<in> set t \<and> gu_id b = uid"
    unfolding account_of_def list_users_def
    by (metis (mono_tags, lifting) find_Some_iff nth_mem set_sort)
  with one b show ?thesis by simp
qed

text \<open>
  A new password ends every session of the account: once an administrator has reset it, no
  token that was handed out before answers with that account, whichever sessions the file held;
  the account has to sign in again.
\<close>

theorem password_reset_ends_sessions:
  assumes "as_users st = Some t" and "table_wf t" and "uid \<in> gu_id ` set t"
    and "reset_user_password env call admin uid password st = (Inr (), st1)"
    and "fst (current_user env call2 token st1) = Inr (Some u)"
  shows "au_id u \<noteq> uid"
proof
  assume uid: "au_id u = uid"
  obtain a where a: "a \<in> set t" "gu_id a = uid" using assms(3) by auto
  note at = account_of_Some [OF assms(2) a]
  let ?t = "change_user uid (\<lambda>x. x\<lparr> gu_password_hash := ax_pw_hash env password \<rparr>) t"
  obtain f where f: "session_delete_user (ac_disk_ok call) (gu_email a) (as_sessions st) = (Inr (), f)"
    and st1: "st1 = st\<lparr> as_users := Some ?t, as_sessions := f \<rparr>"
    using assms(1,4) at
    by (auto simp: reset_user_password_def table_of_def rbind_eqs reset_password_def end_sessions_def sign_out_email_def
        split: sum.splits if_splits prod.splits)
  have "as_users st1 = Some ?t" by (simp add: st1)
  moreover obtain st2 where "current_user env call2 token st1 = (Inr (Some u), st2)" using assms(5) by (metis prod.collapse)
  ultimately have "signed_in env (ac_now call2) token st1 ?t u" using current_user_found by blast
  then obtain b r s where b: "b \<in> set ?t" "u = authenticated b" "gu_email b = str_lower (au_email s)"
    and r: "dict_at (read_sessions f) (se_hash (ax_session env) token) = Some r" "session_user r = Some s"
    by (auto simp: signed_in_def st1)
  obtain b' where b': "b' \<in> set t" "gu_id b' = gu_id b" "gu_email b' = gu_email b"
    using b(1) by (auto simp: change_user_def)
  have "b' = a"
    using assms(2) a b' b(2) uid by (auto simp: table_wf_def distinct_map inj_on_def authenticated_def)
  moreover have "gu_email a = str_lower (strip (gu_email a))"
    using assms(2) a(1) by (simp add: table_wf_def list_all_iff)
  ultimately have "str_lower (au_email s) = str_lower (strip (gu_email a))" using b(3) b'(3) by metis
  then show False using delete_user_sessions [OF f r] by simp
qed

section \<open>Google\<close>

lemma verified_credential:
  assumes "verify_credential env fetched uptime now credential g = (Inr u, g')"
  shows "gx_client_id env \<noteq> [] \<and> (\<exists>h c sig header claims key. split_chr CHR ''.'' credential = [h, c, sig] \<and>
    json_part env h = Inr header \<and> json_part env c = Inr claims \<and> dget header ''alg'' = PStr ''RS256'' \<and>
    is_str (dget header ''kid'') \<and>
    map_of (gk_keys g') (py_str (dget header ''kid'')) = Some key \<and> gx_signed env [h, c, sig] key \<and>
    verify_claims env now claims = Inr () \<and> email_verified (dget claims ''email_verified'') \<and>
    au_email u = str_lower (clean_str (dget claims ''email'')) \<and> au_email u \<noteq> [])"
proof -
  let ?parts = "split_chr CHR ''.'' credential"
  have len: "length ?parts = 3" and client: "gx_client_id env \<noteq> []"
    using assms by (auto simp: verify_credential_def Let_def split: if_splits)
  obtain h c sig where parts: "?parts = [h, c, sig]"
    using len by (auto simp: numeral_3_eq_3 length_Suc_conv)
  obtain header where header: "json_part env h = Inr header"
    using assms len client by (cases "json_part env h") (auto simp: verify_credential_def parts)
  obtain claims where claims: "json_part env c = Inr claims"
    using assms len client header by (cases "json_part env c") (auto simp: verify_credential_def parts)
  have alg: "dget header ''alg'' = PStr ''RS256''" "is_str (dget header ''kid'')"
    using assms client header claims by (auto simp: verify_credential_def parts split: if_splits)
  have rest: "(case key_for fetched uptime (py_str (dget header ''kid'')) g of
                  (Inl e, g') \<Rightarrow> (Inl e, g')
                | (Inr key, g') \<Rightarrow>
                    (let email = str_lower (clean_str (dget claims ''email'')) in
                     (if \<not> gx_signed env [h, c, sig] key then Inl invalid_credential
                      else rbind (verify_claims env now claims) (\<lambda>_.
                             if email = [] \<or> \<not> email_verified (dget claims ''email_verified'') then Inl invalid_credential
                             else Inr (claimed_user claims email)), g'))) = (Inr u, g')"
    using assms client alg by (simp add: verify_credential_def parts header claims)
  obtain key where key: "key_for fetched uptime (py_str (dget header ''kid'')) g = (Inr key, g')"
    and ok: "gx_signed env [h, c, sig] key" "verify_claims env now claims = Inr ()" "email_verified (dget claims ''email_verified'')"
      "str_lower (clean_str (dget claims ''email'')) \<noteq> []" "u = claimed_user claims (str_lower (clean_str (dget claims ''email'')))"
    using rest by (auto simp: Let_def rbind_eqs split: sum.splits prod.splits if_splits)
  have "map_of (gk_keys g') (py_str (dget header ''kid'')) = Some key"
    using key by (auto simp: key_for_def Let_def dhas_def dget_def split: if_splits sum.splits option.splits)
  then show ?thesis using client parts header claims alg ok by (simp add: claimed_user_def)
qed

lemma verified_claims:
  assumes "verify_claims env now claims = Inr ()"
  shows "dget claims ''iss'' \<in> {PStr ''accounts.google.com'', PStr ''https://accounts.google.com''} \<and>
    PStr (gx_client_id env) \<in> set (if is_list (dget claims ''aud'') then as_list (dget claims ''aud'') else [dget claims ''aud'']) \<and>
    (\<exists>i. number_of (dget claims ''exp'') = Some i \<and> now < i) \<and>
    (\<forall>i. number_of (dget claims ''nbf'') = Some i \<longrightarrow> i \<le> now)"
proof -
  have iss: "key_in (dget claims ''iss'') [(''accounts.google.com'', PNone), (''https://accounts.google.com'', PNone)] = Inr True"
    using assms by (auto simp: verify_claims_def Let_def rbind_eqs split: if_splits)
  have "dget claims ''iss'' \<in> {PStr ''accounts.google.com'', PStr ''https://accounts.google.com''}"
    using iss by (cases "dget claims ''iss''") (auto simp: dhas_Cons)
  then show ?thesis
    using assms by (auto simp: verify_claims_def Let_def rbind_eqs split: if_splits option.splits)
qed

text \<open>
  C29: Google's word opens an account only when Google gave it to this Gateway: a sign-in
  succeeds only for a credential whose signature a key of Google's verifies, with the RS256
  algorithm, that Google issued for the configured client, that has begun and not expired, and
  whose verified email is that of an active account; and the user is that account.
\<close>

theorem google_sign_in_verified:
  assumes "sign_in env call credential st = (Inr (u, token, ttl), st')" and "as_users st = Some t"
  shows "\<exists>h c sig header claims key account. split_chr CHR ''.'' credential = [h, c, sig] \<and>
    json_part (ax_google env) h = Inr header \<and> json_part (ax_google env) c = Inr claims \<and>
    dget header ''alg'' = PStr ''RS256'' \<and>
    map_of (gk_keys (as_google st')) (py_str (dget header ''kid'')) = Some key \<and>
    gx_signed (ax_google env) [h, c, sig] key \<and>
    dget claims ''iss'' \<in> {PStr ''accounts.google.com'', PStr ''https://accounts.google.com''} \<and>
    PStr (gx_client_id (ax_google env)) \<in>
      set (if is_list (dget claims ''aud'') then as_list (dget claims ''aud'') else [dget claims ''aud'']) \<and>
    (\<exists>i. number_of (dget claims ''exp'') = Some i \<and> ac_now call < i) \<and>
    (\<forall>i. number_of (dget claims ''nbf'') = Some i \<longrightarrow> i \<le> ac_now call) \<and>
    email_verified (dget claims ''email_verified'') \<and>
    account \<in> set t \<and> gu_active account \<and> u = authenticated account \<and>
    gu_email account = str_lower (clean_str (dget claims ''email''))"
proof -
  obtain v g account where v: "verify_credential (ax_google env) (ac_fetched call) (ac_uptime call) (ac_now call) credential
        (as_google st) = (Inr v, g)"
    and account: "active_account t (au_email v) = Some account"
    and os: "open_session env call (authenticated account) (st\<lparr> as_google := g \<rparr>) = (Inr (u, token, ttl), st')"
    using assms by (auto simp: sign_in_def Let_def split: prod.splits sum.splits option.splits)
  have u: "u = authenticated account" "as_google st' = g" using open_session_sessions [OF os] by auto
  obtain h c sig header claims key where f: "split_chr CHR ''.'' credential = [h, c, sig]"
    "json_part (ax_google env) h = Inr header" "json_part (ax_google env) c = Inr claims"
    "dget header ''alg'' = PStr ''RS256''" "map_of (gk_keys g) (py_str (dget header ''kid'')) = Some key"
    "gx_signed (ax_google env) [h, c, sig] key" "verify_claims (ax_google env) (ac_now call) claims = Inr ()"
    "email_verified (dget claims ''email_verified'')" "au_email v = str_lower (clean_str (dget claims ''email''))"
    using verified_credential [OF v] by blast
  show ?thesis
    by (rule exI [of _ h], rule exI [of _ c], rule exI [of _ sig], rule exI [of _ header], rule exI [of _ claims],
        rule exI [of _ key], rule exI [of _ account])
      (use f u verified_claims [OF f(7)] active_account_Some [OF account] in simp)
qed

section \<open>Applied\<close>

definition access_env :: auth_env where
  "access_env =
     \<lparr> ax_session = \<lparr> se_hash = id, se_iso = (\<lambda>i. if i < 0 then CHR ''-'' # replicate (nat (- i)) CHR ''1'' else replicate (nat i) CHR ''1''),
                      se_parse = (\<lambda>s. case s of [] \<Rightarrow> At 0
                        | c # r \<Rightarrow> if c = CHR ''-'' then At (- int (length r)) else At (int (length s))) \<rparr>,
       ax_google = \<lparr> gx_client_id = ''app'',
                     gx_json_part = (\<lambda>p. if p = ''h'' then Some (PDict [(''alg'', PStr ''RS256''), (''kid'', PStr ''k1'')])
                       else Some (PDict [(''iss'', PStr ''accounts.google.com''), (''aud'', PStr ''app''), (''exp'', PInt 99),
                                         (''sub'', PStr ''7''), (''email'', PStr ''ana@x''), (''email_verified'', PBool True)])),
                     gx_signed = (\<lambda>parts key. True) \<rparr>,
       ax_keys = key_sample_env, ax_pw_hash = rev, ax_pw_matches = (\<lambda>p h. rev p = h), ax_assignments = [],
       ax_allowed = [], ax_ttl = 300, ax_gateway_key = ''gw'' \<rparr>"

definition access_call :: "int \<Rightarrow> auth_call" where
  "access_call now =
     \<lparr> ac_now = now, ac_uptime = now,
       ac_fetched = Inr (PDict [(''keys'', PList [PDict [(''kty'', PStr ''RSA''), (''kid'', PStr ''k1'')]])]),
       ac_token = ''s1'', ac_uid = ''u9'', ac_disk_ok = True, ac_key_call = key_sample_call [] \<rparr>"

definition ana :: gateway_user where
  "ana = \<lparr> gu_id = ''u1'', gu_name = ''Ana'', gu_email = ''ana@x'', gu_password_hash = ''terces'', gu_role = ''operator'',
           gu_business = None, gu_active = True \<rparr>"

definition bea :: gateway_user where
  "bea = ana\<lparr> gu_id := ''u2'', gu_name := ''Bea'', gu_email := ''bea@x'' \<rparr>"

definition access_state :: auth_state where
  "access_state =
     \<lparr> as_users = Some [ana, bea], as_sessions = Absent,
       as_keys = fold (run_key_op key_sample_env) [(key_sample_call ''inst_1'', Ensure_Key ''wa1'' None)] Absent,
       as_google = \<lparr> gk_keys = [], gk_until = 0 \<rparr> \<rparr>"

definition admin_user :: "signed_user option" where
  "admin_user = Some \<lparr> au_id = ''u0'', au_name = [], au_email = [], au_avatar = None, au_role = ''admin'', au_business = None \<rparr>"

lemma ana_signs_in: "fst (sign_in_with_password access_env (access_call 5) ''Ana@x'' ''secret'' access_state) =
    Inr (authenticated ana, ''s1'', 300)"
  by code_simp

lemma access_times: "se_parse (ax_session access_env) (se_iso (ax_session access_env) i) = At i"
  by (cases "nat i") (auto simp: access_env_def)

lemma sign_in_lasts_its_time_witness:
  "current_user access_env (access_call 100) ''s1''
      (snd (sign_in_with_password access_env (access_call 5) ''Ana@x'' ''secret'' access_state)) =
    (Inr (Some (authenticated ana)),
      snd (sign_in_with_password access_env (access_call 5) ''Ana@x'' ''secret'' access_state))"
proof -
  have t: "as_users access_state = Some [ana, bea]" "table_wf [ana, bea]" "au_id (authenticated ana) \<noteq> []"
    "au_email (authenticated ana) \<noteq> []" "ac_disk_ok (access_call 100)"
    by code_simp+
  from sign_in_lasts_its_time [OF ana_signs_in refl _ t(1-4) access_times t(5)] show ?thesis
    by (simp add: access_call_def)
qed

lemma admission_needs_credential_witness:
  "\<exists>before op after.
    [(key_sample_call ''inst_1'', Ensure_Key ''wa1'' None)] = before @ op # after \<and>
    makes_key key_sample_env op (ke_sha256 key_sample_env (strip ''inst_1'')) ''wa1''"
proof -
  define rq where "rq = \<lparr> rq_method = ''GET'', rq_path = ''/instances/wa1/media/a.jpg'', rq_api_key = Some ''inst_1'',
      rq_authorization = None, rq_cookie = [] \<rparr>"
  have "fst (admit access_env (access_call 5) rq access_state) = Inr (By_Instance_Key ''wa1'')"
    unfolding rq_def by code_simp
  then obtain st' where a: "admit access_env (access_call 5) rq access_state = (Inr (By_Instance_Key ''wa1''), st')"
    by (metis prod.collapse)
  have path: "\<not> open_path (rq_path rq)" "rq_method rq \<noteq> ''OPTIONS''" unfolding rq_def by code_simp+
  have st: "as_users access_state = Some [ana, bea]"
    "as_keys access_state = fold (run_key_op (ax_keys access_env)) [(key_sample_call ''inst_1'', Ensure_Key ''wa1'' None)] Absent"
    by (simp_all add: access_state_def access_env_def)
  have key: "gateway_api_key rq = ''inst_1''" "ax_keys access_env = key_sample_env"
    unfolding rq_def by code_simp (simp add: access_env_def)
  from admission_needs_credential [OF a path st] show ?thesis unfolding key by auto
qed

lemma disabled_account_stays_out_witness:
  "au_id (authenticated bea) \<noteq> ''u1'' \<and>
    fst (password_login access_env (access_call 9) ''bea@x'' ''secret''
      (snd (disable_user (access_call 8) admin_user ''u1'' access_state))) = Inr (authenticated bea, ''s1'', 300)"
proof -
  have login: "fst (password_login access_env (access_call 9) ''bea@x'' ''secret''
      (snd (disable_user (access_call 8) admin_user ''u1'' access_state))) = Inr (authenticated bea, ''s1'', 300)"
    by code_simp
  have st: "as_users access_state = Some [ana, bea]" "''u1'' \<in> gu_id ` set [ana, bea]"
    "require_admin admin_user = Inr ()" "\<forall>a. admin_user = Some a \<longrightarrow> au_id a \<noteq> ''u1''"
    by (simp_all add: access_state_def ana_def admin_user_def require_admin_def)
  show ?thesis
    using disabled_account_stays_out [OF st, where ops = "[]", OF _ disjI2 [OF disjI1 [OF login]]] login by simp
qed

lemma password_reset_ends_sessions_witness:
  "au_id (authenticated bea) \<noteq> ''u1'' \<and>
    fst (current_user access_env (access_call 9) ''s1''
      (snd (reset_user_password access_env (access_call 8) admin_user ''u1'' ''long new secret''
        (snd (password_login access_env (access_call 5) ''bea@x'' ''secret'' access_state))))) = Inr (Some (authenticated bea))"
proof -
  define st where "st = snd (password_login access_env (access_call 5) ''bea@x'' ''secret'' access_state)"
  have f: "fst (reset_user_password access_env (access_call 8) admin_user ''u1'' ''long new secret'' st) = Inr ()"
    and c: "fst (current_user access_env (access_call 9) ''s1''
      (snd (reset_user_password access_env (access_call 8) admin_user ''u1'' ''long new secret'' st))) = Inr (Some (authenticated bea))"
    unfolding st_def by code_simp+
  have t: "as_users st = Some [ana, bea]" "table_wf [ana, bea]" "''u1'' \<in> gu_id ` set [ana, bea]"
    unfolding st_def by code_simp+
  obtain st1 where r: "reset_user_password access_env (access_call 8) admin_user ''u1'' ''long new secret'' st = (Inr (), st1)"
    using f by (metis prod.collapse)
  from password_reset_ends_sessions [OF t r] c r show ?thesis by (simp add: st_def [symmetric])
qed

lemma google_sign_in_verified_witness:
  "\<exists>header claims. json_part (ax_google access_env) ''h'' = Inr header \<and> json_part (ax_google access_env) ''c'' = Inr claims \<and>
    gu_email ana = str_lower (clean_str (dget claims ''email''))"
proof -
  have "fst (sign_in access_env (access_call 5) ''h.c.s'' access_state) = Inr (authenticated ana, ''s1'', 300)" by code_simp
  then obtain st' where s: "sign_in access_env (access_call 5) ''h.c.s'' access_state = (Inr (authenticated ana, ''s1'', 300), st')"
    by (metis prod.collapse)
  have t: "as_users access_state = Some [ana, bea]" by (simp add: access_state_def)
  from google_sign_in_verified [OF s t] obtain h c sig header claims account where
    f: "split_chr CHR ''.'' ''h.c.s'' = [h, c, sig]" "json_part (ax_google access_env) h = Inr header"
      "json_part (ax_google access_env) c = Inr claims" "account \<in> set [ana, bea]" "authenticated ana = authenticated account"
      "gu_email account = str_lower (clean_str (dget claims ''email''))" by blast
  have "gu_id account = gu_id ana" using f(5) by (simp add: authenticated_def)
  then have "account = ana" using f(4) by (auto simp: bea_def ana_def)
  moreover have "h = ''h''" "c = ''c''" using f(1) by auto
  ultimately show ?thesis using f by auto
qed

end
