(* ===== verification/Evolution_Door.thy ===== *)
theory Evolution_Door
  imports Event_Pipeline Access
begin

text \<open>
  The door of the provider's webhooks, \<open>gateway/app/routers/webhooks.py\<close>: who may deliver
  (\<open>gateway/app/services/evolution_auth.py\<close>), the pipeline the event goes through, the payload for
  the bot and the queue of forwards; with the audit notes of \<open>gateway/app/services/audit.py\<close>. The
  state is that of the pipeline, the forwards that have not ended and the cache of instance tokens.
  The provider's list of instances, \<open>json.loads\<close>, the clock, the stored webhooks and the outcome of
  each dispatch are arguments. The log lines are left out; normalised events hold dictionaries where
  those lines read them. The webhooks of one event are served one after the other, where
  \<open>asyncio.gather\<close> may interleave their notes.
\<close>

section \<open>Who delivers\<close>

record door_cfg =
  dc_api_key :: string
  dc_webhook_secret :: string
  dc_cache_ttl :: int
  dc_allow_insecure :: bool
  dc_max_queue :: int
  dc_public_url :: string
  dc_port :: int
  dc_bot_url :: string

record token_cache =
  tc_expires :: int
  tc_tokens :: "(string \<times> string) list"

text \<open>\<open>re.sub(r"^Bearer\s+", "", raw, flags=IGNORECASE).strip()\<close>.\<close>

definition without_bearer :: "string \<Rightarrow> string" where
  "without_bearer raw =
     (if str_lower (take 6 raw) = ''bearer'' \<and> (case drop 6 raw of [] \<Rightarrow> False | c # _ \<Rightarrow> is_space c)
      then strip (drop 6 raw) else strip raw)"

definition auth_headers :: "string list" where
  "auth_headers = [''x-evolution-webhook-secret'', ''apikey'', ''x-api-key'', ''authorization'']"

definition header_key :: "(string \<Rightarrow> string option) \<Rightarrow> string \<Rightarrow> (string \<times> string) list" where
  "header_key headers name =
     (case headers name of
        None \<Rightarrow> []
      | Some raw \<Rightarrow>
          (let value = (if name = ''authorization'' then without_bearer (strip raw) else strip raw) in
           if value = [] then [] else [(value, ''header.'' @ name)]))"

text \<open>The first key in the headers, else in the body, with where it was found.\<close>

definition extract_evolution_auth :: "(string \<Rightarrow> string option) \<Rightarrow> pdict \<Rightarrow> string \<times> string" where
  "extract_evolution_auth headers payload =
     (case concat (map (header_key headers) auth_headers) of
        k # _ \<Rightarrow> k
      | [] \<Rightarrow>
          if clean_str (dget payload ''apikey'') \<noteq> [] then (clean_str (dget payload ''apikey''), ''payload.apikey'')
          else if clean_str (dget payload ''apiKey'') \<noteq> [] then (clean_str (dget payload ''apiKey''), ''payload.apiKey'')
          else ([], ''none''))"

definition listed_tokens :: "pval \<Rightarrow> (string \<times> string) list" where
  "listed_tokens items =
     fold (\<lambda>d ts. let name = clean_str (py_or (dget d ''name'') (dget d ''instanceName''));
                      token = clean_str (dget d ''token'')
                  in if name \<noteq> [] \<and> token \<noteq> [] then AList.update name token ts else ts)
       (map as_dict (filter is_dict (as_list items))) []"

definition instance_tokens ::
    "door_cfg \<Rightarrow> int \<Rightarrow> pval res \<Rightarrow> token_cache \<Rightarrow> (string \<times> string) list res \<times> token_cache" where
  "instance_tokens cfg now listing cache =
     (if now < tc_expires cache then (Inr (tc_tokens cache), cache)
      else case listing of
        Inl e \<Rightarrow> (Inl e, cache)
      | Inr items \<Rightarrow>
          (Inr (listed_tokens items),
           \<lparr> tc_expires = now + max 10 (if dc_cache_ttl cfg = 0 then 45 else dc_cache_ttl cfg),
             tc_tokens = listed_tokens items \<rparr>))"

text \<open>\<open>bool(expected and provided and compare_digest(provided, expected))\<close>.\<close>

definition key_matches :: "string \<Rightarrow> string \<Rightarrow> bool res" where
  "key_matches provided expected = (if expected = [] \<or> provided = [] then Inr False else compare_digest provided expected)"

record auth_verdict =
  av_accepted :: bool
  av_mode :: string

definition validate_evolution_auth ::
    "door_cfg \<Rightarrow> int \<Rightarrow> pval res \<Rightarrow> pdict \<Rightarrow> string \<Rightarrow> token_cache \<Rightarrow> auth_verdict res \<times> token_cache" where
  "validate_evolution_auth cfg now listing payload provided cache =
     (let inst = py_str (py_or (dget payload ''instance'') (PStr ''unknown''));
          secret = strip (dc_webhook_secret cfg);
          (tokens, cache') = (if secret \<noteq> [] then (Inr [], cache) else instance_tokens cfg now listing cache)
      in (rbind tokens (\<lambda>ts.
            rbind (key_matches provided (case map_of ts inst of None \<Rightarrow> [] | Some t \<Rightarrow> t)) (\<lambda>instance_match.
            rbind (key_matches provided secret) (\<lambda>secret_match.
            rbind (key_matches provided (strip (dc_api_key cfg))) (\<lambda>global_match.
              Inr \<lparr> av_accepted = (if secret \<noteq> [] then secret_match else global_match \<or> instance_match),
                av_mode = (if secret_match then ''webhook_secret'' else if global_match then ''global_api_key''
                           else if instance_match then ''instance_token'' else ''none'') \<rparr>)))), cache'))"

definition auth_runtime_snapshot ::
    "door_cfg \<Rightarrow> int \<Rightarrow> pval res \<Rightarrow> token_cache \<Rightarrow> pdict res \<times> token_cache" where
  "auth_runtime_snapshot cfg now listing cache =
     (case instance_tokens cfg now listing cache of
        (Inl e, cache') \<Rightarrow> (Inl e, cache')
      | (Inr ts, cache') \<Rightarrow>
          (Inr [(''expectedGlobalPrefix'', PStr (take 8 (strip (dc_api_key cfg)))),
                (''expectedWebhookSecretPrefix'', PStr (take 8 (strip (dc_webhook_secret cfg)))),
                (''instances'', PDict (map (\<lambda>(n, t). (n, PStr (take 8 (strip t)))) ts)),
                (''allowInsecure'', PBool (dc_allow_insecure cfg)), (''cacheExpiresAtEpoch'', PInt (tc_expires cache'))], cache'))"

section \<open>Audit notes\<close>

definition audit_secret_keys :: "string list" where
  "audit_secret_keys = [''token'', ''access_token'', ''apiKey'', ''api_key'', ''password'', ''secret'', ''client_secret'']"

definition audit_hides :: "string \<Rightarrow> bool" where
  "audit_hides k \<longleftrightarrow>
     k \<in> set audit_secret_keys \<or> contains_str (str_lower k) ''secret'' \<or> contains_str (str_lower k) ''token''"

fun audit_safe :: "pval \<Rightarrow> pval"
  and audit_safe_list :: "pval list \<Rightarrow> pval list"
  and audit_safe_items :: "pdict \<Rightarrow> pdict" where
  "audit_safe (PDict d) = PDict (audit_safe_items d)"
| "audit_safe (PList xs) = PList (audit_safe_list xs)"
| "audit_safe v = v"
| "audit_safe_list [] = []"
| "audit_safe_list (x # xs) = audit_safe x # audit_safe_list xs"
| "audit_safe_items [] = []"
| "audit_safe_items ((k, v) # d) =
     (k, if audit_hides k then PStr ''[redacted]'' else audit_safe v) # audit_safe_items d"

definition audit_note :: "string \<Rightarrow> pdict \<Rightarrow> pipeline_note" where
  "audit_note event noted =
     (let safe = audit_safe_items noted; failed = contains_any event [''failed'', ''invalid''] in
      (note_of event (if failed then ''failed'' else ''completed'') [] [])
        \<lparr> pn_instance := or_none (clean_str (dget safe ''instance'')), pn_request_id := None,
          pn_event := ''AUDIT_'' @ str_upper event, pn_details := safe, pn_component := Some ''Gateway'',
          pn_severity := Some (if failed then ''ERROR'' else ''SUCCESS'') \<rparr>)"

section \<open>The payload for the bot\<close>

text \<open>\<open>(d.get(key) or {}).get(name)\<close>.\<close>

definition inner :: "pdict \<Rightarrow> string \<Rightarrow> string \<Rightarrow> pval res" where
  "inner d k name = vget (py_or (dget d k) (PDict [])) name"

definition gateway_base_url :: "door_cfg \<Rightarrow> string" where
  "gateway_base_url cfg =
     (let url = rev (dropWhile (\<lambda>c. c = CHR ''/'') (rev (strip (dc_public_url cfg)))) in
      if url = [] then ''http://127.0.0.1:'' @ int_str (dc_port cfg) else url)"

definition with_gateway_media_url :: "door_cfg \<Rightarrow> pdict \<Rightarrow> pval" where
  "with_gateway_media_url cfg n =
     (case dget n ''media'' of
        PDict media \<Rightarrow>
          (let media_id = clean_str (dget media ''id''); inst = clean_str (dget n ''instance'');
               url = PStr (gateway_base_url cfg @ ''/instances/'' @ inst @ ''/media/'' @ media_id)
           in if media_id = [] \<or> inst = [] then PDict media
              else PDict (dmerge media [(''gateway_media_url'', url), (''gatewayMediaUrl'', url), (''proxy_url'', url), (''proxyUrl'', url)]))
      | _ \<Rightarrow> PNone)"

fun split_spaces :: "string \<Rightarrow> string \<Rightarrow> string list" where
  "split_spaces word [] = (if word = [] then [] else [rev word])"
| "split_spaces word (c # cs) =
     (if is_space c then (if word = [] then [] else [rev word]) @ split_spaces [] cs else split_spaces (c # word) cs)"

definition squeezed :: "string \<Rightarrow> string" where
  "squeezed s = strip (join_str '' '' (split_spaces [] s))"

fun first_name :: "pval list \<Rightarrow> string option" where
  "first_name [] = None"
| "first_name (PStr s # vs) = (if squeezed s = [] then first_name vs else Some (squeezed s))"
| "first_name (_ # vs) = first_name vs"

definition contact_name_for_bot :: "pdict \<Rightarrow> string option" where
  "contact_name_for_bot n =
     first_name [dget (sub_dict n ''message'') ''pushName'', dget (sub_dict (sub_dict n ''context'') ''chat'') ''participantName'',
       dget (sub_dict (sub_dict n ''raw'') ''data'') ''pushName'', dget n ''contactName'', dget n ''pushName'']"

definition dispatchable :: "pdict \<Rightarrow> bool" where
  "dispatchable n \<longleftrightarrow>
     dget n ''layer'' = PStr ''business'' \<and>
     (str_or_empty (dget n ''type'') = ''message'' \<or>
      str_or_empty (dget n ''type'') = ''event'' \<and>
        str_or_empty (py_or (dget n ''subtype'') (dget n ''messageType'')) = ''message_status'')"

definition to_bot_payload :: "door_cfg \<Rightarrow> pdict \<Rightarrow> pdict option res" where
  "to_bot_payload cfg n =
     (if \<not> dispatchable n then Inr None
      else
        rbind (inner n ''message'' ''id'') (\<lambda>msg_id. rbind (inner n ''meta'' ''requestId'') (\<lambda>req_id.
        rbind (inner n ''meta'' ''conversationId'') (\<lambda>conv_id.
          let subtype = PStr (str_or_empty (py_or (dget n ''subtype'') (dget n ''messageType'')));
              name = pstr_opt (contact_name_for_bot n);
              same = (\<lambda>k. (k, dget n k))
          in Inr (Some
            [same ''id'', (''type'', PStr (str_or_empty (dget n ''type''))), (''subtype'', subtype), same ''originalType'',
             same ''instance'', same ''timestamp'', same ''direction'', (''messageType'', subtype),
             (''messageId'', py_or (dget n ''messageId'') msg_id), same ''sender'', same ''recipient'',
             (''contactName'', name), (''pushName'', name), same ''text'', same ''content'', same ''message'',
             (''media'', with_gateway_media_url cfg n), same ''status'', same ''metadata'', same ''context'',
             same ''interaction'', same ''eventType'', same ''category'', same ''transport'', same ''operational'',
             same ''raw'', same ''meta'',
             (''trace'', PDict [(''requestId'', req_id), (''conversationId'', conv_id),
                (''messageId'', msg_id), same ''instance'', (''retryAttempt'', PInt 0)])])))))"

section \<open>The door\<close>

text \<open>A forward: the payload, the id of the request and the instance it is for, if not that of the payload.\<close>

type_synonym forward = "pdict \<times> string \<times> string option"

record 'f door =
  dr_pipe :: "'f pipe"
  dr_tasks :: "forward list"
  dr_cache :: token_cache

record door_call =
  do_now :: int
  do_listing :: "pval res"
  do_loads :: "string \<Rightarrow> pval option"
  do_pipe :: pipe_call

record door_request =
  wr_headers :: "string \<Rightarrow> string option"
  wr_body :: string

definition received_document :: "(string \<Rightarrow> pval option) \<Rightarrow> string \<Rightarrow> pdict option" where
  "received_document loads body =
     (case loads (if body = [] then ''{}'' else body) of Some (PDict d) \<Rightarrow> Some d | _ \<Rightarrow> None)"

definition on_pipe :: "('f pipe \<Rightarrow> 'f pipe) \<Rightarrow> 'f door \<Rightarrow> 'f door" where
  "on_pipe g d = d\<lparr> dr_pipe := g (dr_pipe d) \<rparr>"

definition payload_event :: "pdict \<Rightarrow> string" where
  "payload_event payload = py_str (py_or (dget payload ''event'') (PStr ''UNKNOWN''))"

definition payload_instance :: "pdict \<Rightarrow> string" where
  "payload_instance payload = (if dhas payload ''instance'' then py_str (dget payload ''instance'') else ''unknown'')"

text \<open>Whether a webhook that did not authenticate goes on, with the notes that leaves.\<close>

definition refused_auth ::
    "door_cfg \<Rightarrow> pipe_cfg \<Rightarrow> door_call \<Rightarrow> string \<Rightarrow> string \<Rightarrow> pdict \<Rightarrow> 'f door \<Rightarrow> unit res \<times> 'f door" where
  "refused_auth cfg pcfg call provided source payload d =
     (let inst = payload_instance payload;
          note = (\<lambda>reason. audit_note ''webhook_auth_failed''
            [(''instance'', PStr inst), (''reason'', PStr reason), (''source'', PStr source)])
      in if is_group_message payload then (Inl (http_error 403), d)
         else if dc_allow_insecure cfg
         then (Inr (), on_pipe (emit pcfg (do_pipe call)
                 (note_of ''evolution_auth'' ''insecure_bypass'' inst (pl_request_id (do_pipe call)))) d)
         else if provided = [] then (Inl (http_error 401), on_pipe (emit pcfg (do_pipe call) (note ''missing_credentials'')) d)
         else (Inl (http_error 403), on_pipe (emit pcfg (do_pipe call) (note ''invalid_credentials'')) d))"

definition answered :: "string \<Rightarrow> pdict" where
  "answered status = [(''status'', PStr status)]"

definition dispatch_note ::
    "string \<Rightarrow> string \<Rightarrow> string \<Rightarrow> string option \<Rightarrow> string option \<Rightarrow> string \<Rightarrow> pipeline_note" where
  "dispatch_note stage status inst msg_id conv_id req_id =
     (note_of stage status inst req_id)\<lparr> pn_message_id := msg_id, pn_conversation_id := conv_id \<rparr>"

text \<open>The payload is queued for the webhooks of its instance, unless too many forwards wait.\<close>

definition queue_forward ::
    "door_cfg \<Rightarrow> pipe_cfg \<Rightarrow> door_call \<Rightarrow> string \<Rightarrow> string \<Rightarrow> string \<Rightarrow> bool \<Rightarrow> pdict \<Rightarrow> 'f door \<Rightarrow> pdict \<times> 'f door" where
  "queue_forward cfg pcfg call inst msg_id conv_id own payload d =
     (let req_id = pl_request_id (do_pipe call);
          put = (\<lambda>note. on_pipe (emit pcfg (do_pipe call) note));
          d1 = (if own then put (dispatch_note ''anti_loop'' ''forwarding_from_me'' inst (Some msg_id)
                  (Some conv_id) req_id) d else d);
          waiting = length (dr_tasks d1)
      in if int waiting \<ge> dc_max_queue cfg
         then (answered ''queued_dropped'',
               put ((dispatch_note ''forward_to_instance_webhooks'' ''dropped_queue_full'' inst (or_none msg_id)
                       (Some conv_id) req_id)
                     \<lparr> pn_details := [(''queueSize'', PInt (int waiting))] \<rparr>) d1)
         else (answered ''ok'',
               put ((dispatch_note ''dispatch'' ''queued'' inst (or_none msg_id) (or_none conv_id) req_id)
                     \<lparr> pn_details := [(''queueSize'', PInt (int (Suc waiting)))] \<rparr>)
                 (d1\<lparr> dr_tasks := dr_tasks d1 @ [(payload, req_id, None)] \<rparr>)))"

text \<open>
  The two branches of the handler of Meta's webhooks (\<open>gateway/app/routers/meta_webhook.py\<close>) add
  forwards to the same queue: a WhatsApp message only while there is room, the events of
  an Instagram payload, each with the runtime name of its connection, whatever waits already.
\<close>

definition queue_meta_forward :: "door_cfg \<Rightarrow> string \<Rightarrow> pdict \<Rightarrow> 'f door \<Rightarrow> string \<times> 'f door" where
  "queue_meta_forward cfg req_id payload d =
     (if int (length (dr_tasks d)) \<ge> dc_max_queue cfg then (''queued_dropped'', d)
      else (''queued'', d\<lparr> dr_tasks := dr_tasks d @ [(payload, req_id, None)] \<rparr>))"

definition queue_instagram_forwards :: "string \<Rightarrow> (pdict \<times> string) list \<Rightarrow> 'f door \<Rightarrow> 'f door" where
  "queue_instagram_forwards req_id events d =
     d\<lparr> dr_tasks := dr_tasks d @ map (\<lambda>(event, runtime). (event, req_id, Some runtime)) events \<rparr>"

definition settled_statuses :: "string list" where
  "settled_statuses = [''ignored_technical'', ''stale_dropped'', ''ignored_group'', ''duplicate'', ''duplicate_fp'',
     ''echo_filtered'', ''throttled'']"

definition message_ids :: "pdict \<Rightarrow> (string \<times> string) res" where
  "message_ids n = rbind (inner n ''message'' ''id'') (\<lambda>i. rbind (inner n ''meta'' ''conversationId'') (\<lambda>c.
     Inr (str_or_empty i, str_or_empty c)))"

definition answer_of_pipeline ::
    "door_cfg \<Rightarrow> pipe_cfg \<Rightarrow> door_call \<Rightarrow> string \<Rightarrow> pipe_result \<Rightarrow> 'f door \<Rightarrow> pdict res \<times> 'f door" where
  "answer_of_pipeline cfg pcfg call inst r d =
     (let status = pr_status r; n = pr_normalized r in
      if starts_with status ''group_'' then (Inr (answered status), d)
      else if status = ''normalize_error'' then (Inl (http_error 422), d)
      else if status = ''persist_error'' then (Inl (http_error 500), d)
      else if status \<in> set settled_statuses then (Inr (answered status), d)
      else case rbind (message_ids n) (\<lambda>ids. rbind (to_bot_payload cfg n) (\<lambda>payload.
             rbind (inner n ''message'' ''fromMe'') (\<lambda>own. Inr (ids, payload, truthy own)))) of
        Inl e \<Rightarrow> (Inl e, d)
      | Inr (_, None, _) \<Rightarrow> (Inr (answered ''not_forwarded''), d)
      | Inr ((msg_id, conv_id), Some payload, own) \<Rightarrow>
          (let (reply, d') = queue_forward cfg pcfg call inst msg_id conv_id own payload d in (Inr reply, d')))"

definition deliver_event ::
    "'f enqueue_op \<Rightarrow> door_cfg \<Rightarrow> pipe_cfg \<Rightarrow> pipe_env \<Rightarrow> registry_file \<Rightarrow> door_call \<Rightarrow> pdict \<Rightarrow> 'f door \<Rightarrow> pdict res \<times> 'f door" where
  "deliver_event enq cfg pcfg penv reg call payload d =
     (let inst = payload_instance payload in
      case connection_record inst reg of
        None \<Rightarrow> (Inl (http_error 404), on_pipe (emit pcfg (do_pipe call)
          ((note_of ''instance_resolution'' ''unknown_instance'' inst (pl_request_id (do_pipe call)))
             \<lparr> pn_event := payload_event payload \<rparr>)) d)
      | Some r \<Rightarrow>
          (let owned = dset payload ''_botlyConnection'' (PDict
                 [(''connectionId'', dget r ''id''), (''businessId'', dget r ''client_id''),
                  (''channel'', py_or (dget r ''channel_id'') (PStr ''whatsapp''))]);
               event = dsetdefault owned ''provider'' (PStr ''evolution'')
           in case process_incoming_webhook enq pcfg penv (do_pipe call) event (dr_pipe d) of
                (Inl e, p) \<Rightarrow> (Inl e, d\<lparr> dr_pipe := p \<rparr>)
              | (Inr result, p) \<Rightarrow> answer_of_pipeline cfg pcfg call inst result (d\<lparr> dr_pipe := p \<rparr>)))"

definition receive_webhook ::
    "'f enqueue_op \<Rightarrow> door_cfg \<Rightarrow> pipe_cfg \<Rightarrow> pipe_env \<Rightarrow> registry_file \<Rightarrow> door_call \<Rightarrow> door_request \<Rightarrow> 'f door
     \<Rightarrow> pdict res \<times> 'f door" where
  "receive_webhook enq cfg pcfg penv reg call rq d =
     (case received_document (do_loads call) (wr_body rq) of
        None \<Rightarrow> (Inl (http_error 400), d)
      | Some payload \<Rightarrow>
          (let (provided, source) = extract_evolution_auth (wr_headers rq) payload in
           case validate_evolution_auth cfg (do_now call) (do_listing call) payload provided (dr_cache d) of
             (Inl e, cache) \<Rightarrow> (Inl e, d\<lparr> dr_cache := cache \<rparr>)
           | (Inr verdict, cache) \<Rightarrow>
               (let noted = on_pipe (emit pcfg (do_pipe call)
                      ((note_of ''evolution_auth'' (if av_accepted verdict then ''ok'' else ''fail'') (payload_instance payload)
                          (pl_request_id (do_pipe call)))
                         \<lparr> pn_event := payload_event payload,
                           pn_details := [(''source'', PStr source), (''acceptedMode'', PStr (av_mode verdict))] \<rparr>))
                      (d\<lparr> dr_cache := cache \<rparr>)
                in if av_accepted verdict then deliver_event enq cfg pcfg penv reg call payload noted
                   else case refused_auth cfg pcfg call provided source payload noted of
                     (Inl e, d') \<Rightarrow> (Inl e, d')
                   | (Inr _, d') \<Rightarrow> deliver_event enq cfg pcfg penv reg call payload d')))"

section \<open>Forwarding\<close>

definition is_canonical_payload :: "pdict \<Rightarrow> bool" where
  "is_canonical_payload p \<longleftrightarrow>
     dget p ''eventType'' = PStr ''message.created'' \<and> is_str (dget p ''eventId'') \<and> is_dict (dget p ''transport'') \<and>
     is_dict (dget p ''message'')"

definition webhook_item_for_payload :: "pdict \<Rightarrow> pdict \<Rightarrow> pdict" where
  "webhook_item_for_payload item payload =
     (if \<not> is_canonical_payload payload then item
      else dset item ''customHeaders'' (PDict
        (dset (filter (\<lambda>kv. str_lower (fst kv) \<noteq> ''x-botly-contract-version'') (sub_dict item ''customHeaders''))
           ''X-Botly-Contract-Version'' (PStr ''canonical-v1''))))"

definition webhook_payload_for_dispatch :: "pdict \<Rightarrow> string \<Rightarrow> pdict" where
  "webhook_payload_for_dispatch payload dispatch_id =
     (if is_canonical_payload payload then payload else dset payload ''dispatchId'' (PStr dispatch_id))"

definition dispatch_id_of :: "string \<Rightarrow> pdict \<Rightarrow> string" where
  "dispatch_id_of req_id item = ''disp_'' @ req_id @ ''_'' @ take 6 (str_or_empty (dget item ''id''))"

definition legacy_target :: "string \<Rightarrow> pdict" where
  "legacy_target url =
     [(''id'', PStr ''legacy_default''), (''url'', PStr url), (''authType'', PStr ''NONE''), (''authConfig'', PDict []),
      (''customHeaders'', PDict []), (''enabled'', PBool True),
      (''eventFilters'', PDict [(''business'', PBool True), (''transport'', PBool False), (''operational'', PBool False)])]"

definition forward_targets :: "door_cfg \<Rightarrow> pdict list \<Rightarrow> pdict list" where
  "forward_targets cfg hooks =
     (if hooks = [] \<and> dc_bot_url cfg \<noteq> [] then [legacy_target (dc_bot_url cfg)] else hooks)"

fun text_opt :: "pval \<Rightarrow> string option" where
  "text_opt PNone = None"
| "text_opt v = Some (py_str v)"

definition payload_ids :: "pdict \<Rightarrow> (pval \<times> pval) res" where
  "payload_ids payload =
     rbind (inner payload ''message'' ''id'') (\<lambda>i. rbind (inner payload ''meta'' ''conversationId'') (\<lambda>c. Inr (i, c)))"

text \<open>The notes of one webhook, given what its dispatch answers.\<close>

definition single_notes :: "string \<Rightarrow> pdict \<Rightarrow> pdict \<Rightarrow> pdict res \<Rightarrow> pipeline_note list \<times> unit res" where
  "single_notes req_id item payload result =
     (let hook = dget item ''id''; dispatch_id = PStr (dispatch_id_of req_id item) in
      case payload_ids payload of
        Inl e \<Rightarrow> ([], Inl e)
      | Inr (i, c) \<Rightarrow>
          (let note = (\<lambda>stage status details. (note_of stage status (str_or_empty (dget payload ''instance'')) req_id)
                 \<lparr> pn_message_id := text_opt i, pn_conversation_id := text_opt c, pn_details := details \<rparr>);
               selected = note ''dispatch_select_webhook'' ''ok'' [(''webhookId'', hook), (''dispatchId'', dispatch_id)]
           in case result of
                Inl e \<Rightarrow> ([selected], Inl e)
              | Inr r \<Rightarrow>
                  (selected #
                   note ''dispatch_result'' (if truthy (dget r ''ok'') then ''ok'' else str_or (str_or_empty (dget r ''status'')) ''failed'')
                     [(''webhookId'', hook), (''dispatchId'', dispatch_id), (''statusCode'', dget r ''statusCode''),
                      (''status'', dget r ''status''), (''retriesUsed'', dget r ''retriesUsed'')] #
                   (if truthy (dget r ''ok'') then []
                    else [note ''dispatch'' ''failed''
                      [(''webhookId'', hook), (''statusCode'', dget r ''statusCode''), (''status'', dget r ''status''),
                       (''retriesUsed'', dget r ''retriesUsed''), (''error'', dget r ''error'')]]), Inr ())))"

definition worker_notes :: "(py_exc \<Rightarrow> string) \<Rightarrow> string \<Rightarrow> string \<Rightarrow> pdict \<Rightarrow> pdict \<Rightarrow> unit res \<Rightarrow> pipeline_note list res" where
  "worker_notes err inst req_id payload item outcome =
     (case outcome of
        Inr _ \<Rightarrow> Inr []
      | Inl e \<Rightarrow>
          rbind (payload_ids payload) (\<lambda>(i, c).
            Inr [(note_of ''dispatch_worker_exception'' ''error'' inst req_id)
              \<lparr> pn_message_id := text_opt i, pn_conversation_id := text_opt c,
                pn_details := [(''webhookId'', dget item ''id''), (''error'', PStr (take 220 (err e)))] \<rparr>]))"

definition forward_instance :: "pdict \<Rightarrow> string option \<Rightarrow> string" where
  "forward_instance payload override =
     (case override of Some i \<Rightarrow> if i = [] then str_or_empty (dget payload ''instance'') else i
      | None \<Rightarrow> str_or_empty (dget payload ''instance''))"

definition emit_all :: "pipe_cfg \<Rightarrow> pipe_call \<Rightarrow> pipeline_note list \<Rightarrow> 'f pipe \<Rightarrow> 'f pipe" where
  "emit_all pcfg call notes p = fold (emit pcfg call) notes p"

text \<open>What is posted, in the order of the webhooks, and the notes all of it leaves.\<close>

definition forward_to_instance_webhooks ::
    "(py_exc \<Rightarrow> string) \<Rightarrow> door_cfg \<Rightarrow> pipe_cfg \<Rightarrow> pipe_call \<Rightarrow> (string \<Rightarrow> pdict list res) \<Rightarrow> (pdict \<Rightarrow> pdict \<Rightarrow> pdict res)
     \<Rightarrow> forward \<Rightarrow> 'f pipe \<Rightarrow> (pdict \<times> pdict) list res \<times> 'f pipe" where
  "forward_to_instance_webhooks err cfg pcfg call hooks dispatch task p =
     (let (payload, req_id, override) = task; inst = forward_instance payload override in
      case hooks inst of
        Inl e \<Rightarrow> (Inl e, p)
      | Inr hs \<Rightarrow>
          (if forward_targets cfg hs = []
           then (case payload_ids payload of
                   Inl e \<Rightarrow> (Inl e, p)
                 | Inr (i, c) \<Rightarrow>
                     (Inr [], emit pcfg call ((note_of ''forward_to_instance_webhooks'' ''skipped_no_target'' [] req_id)
                        \<lparr> pn_instance := text_opt (dget payload ''instance''), pn_message_id := text_opt i,
                          pn_conversation_id := text_opt c \<rparr>) p))
           else
             (let targets = forward_targets cfg hs;
                  sent = map (\<lambda>item. (webhook_payload_for_dispatch payload (dispatch_id_of req_id item),
                                       webhook_item_for_payload item payload)) targets;
                  runs = map (\<lambda>item. (item, single_notes req_id item payload
                            (dispatch (webhook_payload_for_dispatch payload (dispatch_id_of req_id item))
                               (webhook_item_for_payload item payload)))) targets;
                  p1 = emit_all pcfg call (concat (map (\<lambda>(_, ns, _). ns) runs)) p
              in case traverse (\<lambda>(item, _, outcome). worker_notes err inst req_id payload item outcome) runs of
                   Inl e \<Rightarrow> (Inl e, p1)
                 | Inr notes \<Rightarrow> (Inr sent, emit_all pcfg call (concat notes) p1))))"

text \<open>A forward ends; an error it raised leaves a note.\<close>

definition end_forward ::
    "(py_exc \<Rightarrow> string) \<Rightarrow> pipe_cfg \<Rightarrow> pipe_call \<Rightarrow> forward \<Rightarrow> pipeline_note \<Rightarrow> unit res \<Rightarrow> 'f door \<Rightarrow> 'f door" where
  "end_forward err pcfg call task note outcome d =
     (let d' = d\<lparr> dr_tasks := remove1 task (dr_tasks d) \<rparr> in
      case outcome of
        Inr _ \<Rightarrow> d'
      | Inl e \<Rightarrow> on_pipe (emit pcfg call (note\<lparr> pn_stage := ''dispatch_background_task'', pn_status := ''error'',
          pn_details := [(''error'', PStr (take 220 (err e)))] \<rparr>)) d')"

section \<open>Reading\<close>

text \<open>A key of an instance reads only the events of that instance.\<close>

definition get_events ::
    "string option \<Rightarrow> string option \<Rightarrow> int \<Rightarrow> timeline \<Rightarrow> pdict list res" where
  "get_events auth_instance inst limit tml =
     (case auth_instance of
        None \<Rightarrow> list_events inst (max 1 (min limit 500)) tml
      | Some a \<Rightarrow>
          if a = [] then list_events inst (max 1 (min limit 500)) tml
          else case inst of
            None \<Rightarrow> Inl (http_error 403)
          | Some i \<Rightarrow> if i = [] \<or> i \<noteq> a then Inl (http_error 403) else list_events inst (max 1 (min limit 500)) tml)"

definition count_stage :: "string \<Rightarrow> string \<Rightarrow> pdict list \<Rightarrow> nat" where
  "count_stage stage status events =
     length (filter (\<lambda>e. str_or_empty (dget (sub_dict e ''pipeline'') ''stage'') = stage \<and>
       str_or_empty (dget (sub_dict e ''pipeline'') ''status'') = status) events)"

definition event_instance :: "pdict \<Rightarrow> string" where
  "event_instance e = str_or (str_or_empty (dget e ''instance'')) ''unknown''"

definition dispatch_metrics_of :: "pdict list \<Rightarrow> pdict" where
  "dispatch_metrics_of events =
     map (\<lambda>i. (i, let own = filter (\<lambda>e. event_instance e = i) events in
       PDict [(''events'', PInt (int (length own))),
              (''dispatchFailures'', PInt (int (count_stage ''dispatch'' ''failed'' own))),
              (''dispatchQueued'', PInt (int (count_stage ''dispatch'' ''queued'' own)))]))
       (rev (remdups (rev (map event_instance events))))"

end
