(* ===== verification/Evolution_Door_Spec.thy ===== *)
theory Evolution_Door_Spec
  imports Evolution_Door Event_Pipeline_Spec
begin

text \<open>
  What the door of the provider's webhooks promises: a webhook that does not authenticate changes
  nothing but the activity timeline, and the forwards that wait are bounded, those of Instagram apart.
\<close>

section \<open>Steps that only note\<close>

text \<open>Nothing but notes in the activity timeline separates the two doors.\<close>

definition only_noted :: "'f door \<Rightarrow> 'f door \<Rightarrow> bool" where
  "only_noted d d' \<longleftrightarrow>
     dr_tasks d' = dr_tasks d \<and> tl_business (pp_timeline (dr_pipe d')) = tl_business (pp_timeline (dr_pipe d)) \<and>
     (\<exists>t. dr_pipe d' = (dr_pipe d)\<lparr> pp_timeline := t \<rparr>)"

named_theorems door_notes \<open>steps of the door that only note\<close>

lemma noted_refl [door_notes]: "only_noted d d"
proof -
  have "dr_pipe d = (dr_pipe d)\<lparr> pp_timeline := pp_timeline (dr_pipe d) \<rparr>" by simp
  then show ?thesis unfolding only_noted_def by blast
qed

lemma noted_cache [door_notes]: "only_noted d (d\<lparr> dr_cache := c \<rparr>)"
  using noted_refl [of d] by (simp add: only_noted_def)

lemma noted_emit [door_notes]: "only_noted d (on_pipe (emit pcfg call note) d)"
  by (auto simp: only_noted_def on_pipe_def) (auto simp: emit_def)

lemma noted_trans [trans]: "only_noted d e \<Longrightarrow> only_noted e f \<Longrightarrow> only_noted d f"
  by (auto simp: only_noted_def)

lemma refused_auth_notes:
  assumes "refused_auth cfg pcfg call provided source payload d = (r, d')"
  shows "only_noted d d'"
  using assms by (auto simp: refused_auth_def Let_def intro: door_notes split: if_splits)

lemma refused_auth_refuses:
  assumes "is_group_message payload \<or> \<not> dc_allow_insecure cfg"
  shows "\<exists>code. fst (refused_auth cfg pcfg call provided source payload d) = Inl (http_error code)"
  using assms by (auto simp: refused_auth_def Let_def)

section \<open>Who is accepted\<close>

lemma key_matches_same: "key_matches provided expected = Inr True \<Longrightarrow> provided = expected \<and> expected \<noteq> []"
  by (auto simp: key_matches_def compare_digest_def split: if_splits)

lemma configured_secret_decides:
  assumes "strip (dc_webhook_secret cfg) \<noteq> []"
    and "validate_evolution_auth cfg now listing payload provided cache = (Inr v, cache')" and "av_accepted v"
  shows "provided = strip (dc_webhook_secret cfg)"
  using assms
  by (auto simp: validate_evolution_auth_def Let_def rbind_eqs split: prod.splits sum.splits if_splits
           dest!: key_matches_same)

section \<open>A webhook that does not authenticate\<close>

text \<open>
  C16: with a webhook secret configured and the insecure mode off, or with a message of a group, a
  webhook whose key is not that secret is answered with an error, and nothing it carried is kept:
  no event is stored, no forward is queued, no message is marked as seen, and the outbox for Core,
  the counters and the sessions are as before. Only notes are added to the activity timeline, and
  no key the payload, another instance or the gateway's own API key could give makes it pass.
\<close>

theorem unauthenticated_webhook_leaves_nothing:
  assumes "strip (dc_webhook_secret cfg) \<noteq> []"
    and "received_document (do_loads call) (wr_body rq) = Some payload"
    and "fst (extract_evolution_auth (wr_headers rq) payload) \<noteq> strip (dc_webhook_secret cfg)"
    and "is_group_message payload \<or> \<not> dc_allow_insecure cfg"
    and "receive_webhook enq cfg pcfg penv reg call rq d = (answer, d')"
  shows "(\<exists>e. answer = Inl e) \<and> dr_tasks d' = dr_tasks d \<and>
    tl_business (pp_timeline (dr_pipe d')) = tl_business (pp_timeline (dr_pipe d)) \<and>
    (\<exists>t. dr_pipe d' = (dr_pipe d)\<lparr> pp_timeline := t \<rparr>)"
proof -
  obtain provided source where key: "extract_evolution_auth (wr_headers rq) payload = (provided, source)"
    by (rule prod.exhaust)
  obtain r cache where v: "validate_evolution_auth cfg (do_now call) (do_listing call) payload provided (dr_cache d) = (r, cache)"
    by (rule prod.exhaust)
  have "(\<exists>e. answer = Inl e) \<and> only_noted d d'"
  proof (cases r)
    case (Inl e)
    then show ?thesis using assms(2,5) key v by (auto simp: receive_webhook_def intro: door_notes)
  next
    case (Inr verdict)
    then have no: "\<not> av_accepted verdict"
      using configured_secret_decides [OF assms(1)] v assms(3) key by auto
    define noted where "noted = on_pipe (emit pcfg (do_pipe call)
      ((note_of ''evolution_auth'' ''fail'' (payload_instance payload) (pl_request_id (do_pipe call)))
        \<lparr> pn_event := payload_event payload,
          pn_details := [(''source'', PStr source), (''acceptedMode'', PStr (av_mode verdict))] \<rparr>)) (d\<lparr> dr_cache := cache \<rparr>)"
    obtain r' d2 where ref: "refused_auth cfg pcfg call provided source payload noted = (r', d2)" by (rule prod.exhaust)
    obtain code where code: "r' = Inl (http_error code)"
      using refused_auth_refuses [OF assms(4), of pcfg call provided source noted] ref by auto
    have "only_noted d noted" unfolding noted_def by (rule noted_trans [OF noted_cache noted_emit])
    also have "only_noted noted d2" by (rule refused_auth_notes [OF ref])
    finally have "only_noted d d2" .
    moreover have "receive_webhook enq cfg pcfg penv reg call rq d = (Inl (http_error code), d2)"
      using assms(2) key v Inr no ref code by (simp add: receive_webhook_def noted_def)
    ultimately show ?thesis using assms(5) by auto
  qed
  then show ?thesis by (simp add: only_noted_def)
qed

text \<open>An event of an unauthenticated sender, at a door with a secret.\<close>

definition small_door_cfg :: door_cfg where
  "small_door_cfg =
     \<lparr> dc_api_key = ''k'', dc_webhook_secret = ''s'', dc_cache_ttl = 45, dc_allow_insecure = False,
       dc_max_queue = 1, dc_public_url = [], dc_port = 8000, dc_bot_url = [] \<rparr>"

definition small_door :: "outbox_file door" where
  "small_door = \<lparr> dr_pipe = empty_pipe, dr_tasks = [], dr_cache = \<lparr> tc_expires = 0, tc_tokens = [] \<rparr> \<rparr>"

definition small_door_call :: door_call where
  "small_door_call =
     \<lparr> do_now = 5, do_listing = Inr (PList []), do_loads = (\<lambda>_. Some (PDict [(''apikey'', PStr ''k'')])),
       do_pipe = small_call 5 True \<rparr>"

lemma unauthenticated_webhook_leaves_nothing_witness:
  "\<exists>e. fst (receive_webhook (enqueue 7) small_door_cfg small_cfg small_env Absent small_door_call
     \<lparr> wr_headers = (\<lambda>_. None), wr_body = ''x'' \<rparr> small_door) = Inl e"
proof -
  let ?rq = "\<lparr> wr_headers = (\<lambda>_. None), wr_body = ''x'' \<rparr>"
  obtain answer d' where r: "receive_webhook (enqueue 7) small_door_cfg small_cfg small_env Absent small_door_call ?rq small_door
      = (answer, d')" by (rule prod.exhaust)
  have "fst (extract_evolution_auth (wr_headers ?rq) [(''apikey'', PStr ''k'')]) \<noteq> strip (dc_webhook_secret small_door_cfg)"
    by code_simp
  moreover have "strip (dc_webhook_secret small_door_cfg) \<noteq> []" by code_simp
  ultimately have "\<exists>e. answer = Inl e"
    using unauthenticated_webhook_leaves_nothing [of small_door_cfg small_door_call ?rq "[(''apikey'', PStr ''k'')]", OF _ _ _ _ r]
    by (simp add: received_document_def small_door_call_def) (simp add: small_door_cfg_def)
  then show ?thesis by (simp add: r)
qed

section \<open>The forwards that wait\<close>

text \<open>Either nothing is queued, or there was room and one forward of this request is.\<close>

definition queues_in_room :: "door_cfg \<Rightarrow> door_call \<Rightarrow> 'f door \<Rightarrow> 'f door \<Rightarrow> bool" where
  "queues_in_room cfg call d d' \<longleftrightarrow>
     dr_tasks d' = dr_tasks d \<or>
     int (length (dr_tasks d)) < dc_max_queue cfg \<and>
       (\<exists>payload. dr_tasks d' = dr_tasks d @ [(payload, pl_request_id (do_pipe call), None)])"

lemma on_pipe_tasks [simp]: "dr_tasks (on_pipe g d) = dr_tasks d"
  by (simp add: on_pipe_def)

lemma queue_forward_room:
  "queue_forward cfg pcfg call inst m c own payload d = (r, d') \<Longrightarrow> queues_in_room cfg call d d'"
  by (auto simp: queue_forward_def queues_in_room_def Let_def split: if_splits)

lemma nothing_queued [simp, intro]: "queues_in_room cfg call d d"
  by (simp add: queues_in_room_def)

lemma answer_of_pipeline_room:
  "answer_of_pipeline cfg pcfg call inst r d = (a, d') \<Longrightarrow> queues_in_room cfg call d d'"
  by (auto simp: answer_of_pipeline_def Let_def intro: queue_forward_room
           split: if_splits sum.splits option.splits prod.splits)

lemma queues_in_room_tasks:
  "queues_in_room cfg call e d' \<Longrightarrow> dr_tasks e = dr_tasks d \<Longrightarrow> queues_in_room cfg call d d'"
  by (simp add: queues_in_room_def)

lemma deliver_event_room:
  assumes "deliver_event enq cfg pcfg penv reg call payload d = (a, d')"
  shows "queues_in_room cfg call d d'"
proof (cases "dr_tasks d' = dr_tasks d")
  case True
  then show ?thesis by (simp add: queues_in_room_def)
next
  case False
  then obtain result p inst where "answer_of_pipeline cfg pcfg call inst result (d\<lparr> dr_pipe := p \<rparr>) = (a, d')"
    using assms by (auto simp: deliver_event_def Let_def split: option.splits prod.splits sum.splits)
  from answer_of_pipeline_room [OF this] show ?thesis by (rule queues_in_room_tasks) simp
qed

lemma receive_webhook_room:
  assumes "receive_webhook enq cfg pcfg penv reg call rq d = (a, d')"
  shows "queues_in_room cfg call d d'"
proof (cases "dr_tasks d' = dr_tasks d")
  case True
  then show ?thesis by (simp add: queues_in_room_def)
next
  case False
  then obtain payload e where e: "deliver_event enq cfg pcfg penv reg call payload e = (a, d')" "dr_tasks e = dr_tasks d"
    using assms
    by (auto simp: receive_webhook_def Let_def only_noted_def dest!: refused_auth_notes
             split: option.splits prod.splits sum.splits if_splits)
  from deliver_event_room [OF e(1)] show ?thesis by (rule queues_in_room_tasks) (rule e(2))
qed

text \<open>
  What changes the queue: a webhook of the provider comes in, one of Meta brings a WhatsApp message
  or Instagram events, or a forward that waits ends.
\<close>

inductive door_step :: "'f enqueue_op \<Rightarrow> door_cfg \<Rightarrow> pipe_cfg \<Rightarrow> pipe_env \<Rightarrow> 'f door \<Rightarrow> 'f door \<Rightarrow> bool"
  for enq cfg pcfg penv where
  received: "receive_webhook enq cfg pcfg penv reg call rq d = (answer, d') \<Longrightarrow> door_step enq cfg pcfg penv d d'"
| meta_message: "queue_meta_forward cfg req_id payload d = (status, d') \<Longrightarrow> door_step enq cfg pcfg penv d d'"
| instagram: "door_step enq cfg pcfg penv d (queue_instagram_forwards req_id events d)"
| ended: "task \<in> set (dr_tasks d) \<Longrightarrow> door_step enq cfg pcfg penv d (end_forward err pcfg pcall task note outcome d)"

text \<open>The forwards that wait and came in with a check of the queue: all but those of Instagram.\<close>

definition checked_forwards :: "'f door \<Rightarrow> forward list" where
  "checked_forwards d = filter (\<lambda>(payload, req_id, runtime). runtime = None) (dr_tasks d)"

lemma end_forward_tasks [simp]: "dr_tasks (end_forward err pcfg pcall task note outcome d) = remove1 task (dr_tasks d)"
  by (simp add: end_forward_def Let_def split: sum.split)

lemma filter_remove1_le: "length (filter p (remove1 x xs)) \<le> length (filter p xs)"
  by (induction xs) auto

lemma checked_in_room:
  fixes d d' :: "'f door"
  assumes "int (length (dr_tasks d)) < limit" and "dr_tasks d' = dr_tasks d @ [(payload, req_id, None)]"
  shows "int (length (checked_forwards d')) \<le> limit"
proof -
  have "length (checked_forwards d') = Suc (length (checked_forwards d))" by (simp add: checked_forwards_def assms(2))
  moreover have "length (checked_forwards d) \<le> length (dr_tasks d)" by (simp add: checked_forwards_def)
  ultimately show ?thesis using assms(1) by linarith
qed

lemma door_step_bounded:
  assumes "door_step enq cfg pcfg penv d d'" and "int (length (checked_forwards d)) \<le> max 0 (dc_max_queue cfg)"
  shows "int (length (checked_forwards d')) \<le> max 0 (dc_max_queue cfg)"
  using assms
proof cases
  case (received reg call rq answer)
  consider "dr_tasks d' = dr_tasks d"
    | p where "int (length (dr_tasks d)) < max 0 (dc_max_queue cfg)" "dr_tasks d' = dr_tasks d @ [(p, pl_request_id (do_pipe call), None)]"
    using receive_webhook_room [OF received] by (auto simp: queues_in_room_def)
  then show ?thesis
  proof cases
    case 1
    then show ?thesis using assms(2) by (simp add: checked_forwards_def)
  next
    case 2
    then show ?thesis by (rule checked_in_room)
  qed
next
  case (meta_message req_id payload status)
  show ?thesis
  proof (cases "int (length (dr_tasks d)) \<ge> dc_max_queue cfg")
    case True
    then show ?thesis using assms(2) meta_message by (simp add: queue_meta_forward_def)
  next
    case False
    then have "int (length (dr_tasks d)) < max 0 (dc_max_queue cfg)" by linarith
    moreover have "dr_tasks d' = dr_tasks d @ [(payload, req_id, None)]"
      using meta_message False by (auto simp: queue_meta_forward_def)
    ultimately show ?thesis by (rule checked_in_room)
  qed
next
  case (instagram req_id events)
  have "filter (\<lambda>(payload, req_id, runtime). runtime = None) (map (\<lambda>(event, runtime). (event, req_id, Some runtime)) events) = []"
    by (auto simp: filter_empty_conv)
  then show ?thesis using assms(2) by (simp add: instagram queue_instagram_forwards_def checked_forwards_def)
next
  case (ended task err pcall n outcome)
  have "length (checked_forwards d') \<le> length (checked_forwards d)"
    unfolding checked_forwards_def ended(1) end_forward_tasks by (rule filter_remove1_le)
  then show ?thesis using assms(2) by linarith
qed

lemma three_steps: "step a b \<Longrightarrow> step b c \<Longrightarrow> step c d \<Longrightarrow> step\<^sup>*\<^sup>* a d"
  by (meson r_into_rtranclp rtranclp.rtrancl_into_rtrancl)

text \<open>
  C19: However webhooks of the provider, WhatsApp messages and Instagram events of Meta and the ends
  of forwards interleave, no more forwards of the provider's webhooks and of Meta's WhatsApp messages
  wait than the configured size of the queue: such an event that finds the queue full is not
  queued. The forwards of Instagram events are not counted: their branch adds them to the same
  queue without looking at its size.
\<close>

theorem forward_queue_is_bounded:
  assumes "(door_step enq cfg pcfg penv)\<^sup>*\<^sup>* d d'" and "dr_tasks d = []"
  shows "int (length (checked_forwards d')) \<le> max 0 (dc_max_queue cfg)"
  using assms(1)
proof (induction rule: rtranclp_induct)
  case base
  then show ?case using assms(2) by (simp add: checked_forwards_def)
next
  case (step e e')
  show ?case by (rule door_step_bounded [OF step.hyps(2) step.IH])
qed

text \<open>A queue of one place: a message is queued, two Instagram events are, the next message is not.\<close>

definition filled_door :: "outbox_file door" where
  "filled_door =
     queue_instagram_forwards ''r2'' [([(''id'', PStr ''e1'')], ''ig1''), ([(''id'', PStr ''e2'')], ''ig1'')]
       (snd (queue_meta_forward small_door_cfg ''r1'' [(''id'', PStr ''m1'')] small_door))"

lemma forward_queue_is_bounded_witness:
  "length (dr_tasks filled_door) = 3 \<and> length (checked_forwards filled_door) = 1 \<and>
   fst (queue_meta_forward small_door_cfg ''r3'' [(''id'', PStr ''m2'')] filled_door) = ''queued_dropped'' \<and>
   int (length (checked_forwards (snd (queue_meta_forward small_door_cfg ''r3'' [(''id'', PStr ''m2'')] filled_door))))
     \<le> max 0 (dc_max_queue small_door_cfg)"
proof -
  let ?step = "door_step (enqueue 7) small_door_cfg small_cfg small_env"
  have 1: "?step small_door (snd (queue_meta_forward small_door_cfg ''r1'' [(''id'', PStr ''m1'')] small_door))"
    by (rule meta_message [OF surjective_pairing])
  have 2: "?step (snd (queue_meta_forward small_door_cfg ''r1'' [(''id'', PStr ''m1'')] small_door)) filled_door"
    unfolding filled_door_def by (rule instagram)
  have 3: "?step filled_door (snd (queue_meta_forward small_door_cfg ''r3'' [(''id'', PStr ''m2'')] filled_door))"
    by (rule meta_message [OF surjective_pairing])
  have steps: "?step\<^sup>*\<^sup>* small_door (snd (queue_meta_forward small_door_cfg ''r3'' [(''id'', PStr ''m2'')] filled_door))"
    using 1 2 3 by (rule three_steps)
  have "dr_tasks small_door = []" by (simp add: small_door_def)
  note bounded = forward_queue_is_bounded [OF steps this]
  moreover have "length (dr_tasks filled_door) = 3" "length (checked_forwards filled_door) = 1"
    "fst (queue_meta_forward small_door_cfg ''r3'' [(''id'', PStr ''m2'')] filled_door) = ''queued_dropped''"
    by (simp_all add: filled_door_def checked_forwards_def queue_instagram_forwards_def queue_meta_forward_def
        small_door_def small_door_cfg_def)
  ultimately show ?thesis by blast
qed

end
