(* ===== verification/Evolution_Webhook.thy ===== *)
theory Evolution_Webhook
  imports Timeline
begin

text \<open>
  The callback the gateway registers at Evolution, \<open>gateway/app/services/evolution_webhook.py\<close>.
  What the provider's API answers to each call is an argument: the first reading, the writing and
  the reading after it.
\<close>

definition evolution_webhook_events :: "string list" where
  "evolution_webhook_events = [''MESSAGES_UPSERT'', ''MESSAGES_UPDATE'', ''CONNECTION_UPDATE'', ''QRCODE_UPDATED'', ''SEND_MESSAGE'']"

definition secret_header :: string where
  "secret_header = ''x-evolution-webhook-secret''"

record hook_cfg =
  hc_url :: string
  hc_port :: int
  hc_secret :: string

definition without_slashes :: "string \<Rightarrow> string" where
  "without_slashes s = rev (dropWhile (\<lambda>c. c = CHR ''/'') (rev s))"

definition evolution_webhook_url :: "hook_cfg \<Rightarrow> string" where
  "evolution_webhook_url cfg =
     (if strip (hc_url cfg) \<noteq> [] then without_slashes (strip (hc_url cfg))
      else ''http://gateway:'' @ int_str (hc_port cfg) @ ''/webhooks/evolution'')"

definition evolution_webhook_headers :: "hook_cfg \<Rightarrow> (string \<times> string) list" where
  "evolution_webhook_headers cfg =
     (if strip (hc_secret cfg) = [] then [] else [(secret_header, strip (hc_secret cfg))])"

definition configures :: "pval \<Rightarrow> bool" where
  "configures v \<longleftrightarrow> is_dict v \<and> list_ex (dhas (as_dict v)) [''enabled'', ''url'', ''events'', ''webhookUrl'']"

definition configuration_node :: "pval \<Rightarrow> pdict" where
  "configuration_node response =
     (if \<not> is_dict response then []
      else case List.find configures [response, dget (as_dict response) ''webhook'', dget (as_dict response) ''data''] of
        None \<Rightarrow> [] | Some v \<Rightarrow> as_dict v)"

definition normalized_events :: "pval \<Rightarrow> string list" where
  "normalized_events v = filter (\<lambda>e. e \<noteq> []) (map (\<lambda>i. str_upper (strip (py_str i))) (as_list v))"

definition mismatches :: "pval \<Rightarrow> string \<Rightarrow> (string \<times> string) list \<Rightarrow> string list" where
  "mismatches response url headers =
     (let node = configuration_node response;
          expected = (case map_of headers secret_header of None \<Rightarrow> [] | Some s \<Rightarrow> s)
      in (if dget node ''enabled'' = PBool True then [] else [''enabled'']) @
         (if without_slashes (str_or_empty (py_or (dget node ''url'') (dget node ''webhookUrl''))) = without_slashes url
          then [] else [''url'']) @
         (if ''MESSAGES_UPSERT'' \<in> set (normalized_events (py_or (dget node ''events'') (dget node ''webhookEvents'')))
          then [] else [''MESSAGES_UPSERT'']) @
         (if expected = [] \<or> str_or_empty (dget (sub_dict node ''headers'') secret_header) = expected
          then [] else [secret_header]))"

definition validate_evolution_webhook_configuration ::
    "pval \<Rightarrow> string \<Rightarrow> (string \<times> string) list \<Rightarrow> unit res" where
  "validate_evolution_webhook_configuration response url headers =
     (let wrong = mismatches response url headers in
      if wrong = [] then Inr ()
      else Inl (AppError ''EvolutionError'' (Some 502) (''Evolution webhook configuration mismatch: '' @ join_str '', '' wrong)))"

definition checked :: "hook_cfg \<Rightarrow> pval \<Rightarrow> pval res" where
  "checked cfg response =
     rbind (validate_evolution_webhook_configuration response (evolution_webhook_url cfg) (evolution_webhook_headers cfg))
       (\<lambda>_. Inr response)"

text \<open>What the manager answers: the reading before, the writing, and the reading after it.\<close>

record hook_answers =
  ha_before :: "pval res"
  ha_set :: "unit res"
  ha_after :: "pval res"

text \<open>The effective configuration, and whether the gateway wrote it.\<close>

definition ensure_evolution_webhook :: "hook_cfg \<Rightarrow> bool \<Rightarrow> hook_answers \<Rightarrow> pval res \<times> bool" where
  "ensure_evolution_webhook cfg force_configure a =
     (case (if force_configure then Inl AttributeError else rbind (ha_before a) (checked cfg)) of
        Inr response \<Rightarrow> (Inr response, False)
      | Inl _ \<Rightarrow> (rbind (ha_set a) (\<lambda>_. rbind (ha_after a) (checked cfg)), True))"

text \<open>
  if making sure of the callback succeeds, what the provider said last is a configuration that
  is enabled, names the gateway's own address, delivers new messages and carries the configured
  secret; if the provider already had it, nothing is written.
\<close>

theorem ensured_callback_is_effective:
  assumes "ensure_evolution_webhook cfg force_configure answers = (Inr response, written)"
  shows "dget (configuration_node response) ''enabled'' = PBool True \<and>
    without_slashes (str_or_empty (py_or (dget (configuration_node response) ''url'')
      (dget (configuration_node response) ''webhookUrl''))) = without_slashes (evolution_webhook_url cfg) \<and>
    ''MESSAGES_UPSERT'' \<in> set (normalized_events (py_or (dget (configuration_node response) ''events'')
      (dget (configuration_node response) ''webhookEvents''))) \<and>
    (strip (hc_secret cfg) \<noteq> [] \<longrightarrow>
      str_or_empty (dget (sub_dict (configuration_node response) ''headers'') secret_header) = strip (hc_secret cfg)) \<and>
    (written \<longrightarrow> ha_after answers = Inr response) \<and> (\<not> written \<longrightarrow> ha_before answers = Inr response)"
proof -
  have ok: "mismatches response (evolution_webhook_url cfg) (evolution_webhook_headers cfg) = [] \<and> r = response"
    if "checked cfg r = Inr response" for r
    using that by (simp add: checked_def validate_evolution_webhook_configuration_def Let_def split: if_splits)
  have "mismatches response (evolution_webhook_url cfg) (evolution_webhook_headers cfg) = [] \<and>
    (written \<longrightarrow> ha_after answers = Inr response) \<and> (\<not> written \<longrightarrow> ha_before answers = Inr response)"
    using assms
    by (cases "ha_before answers"; cases "ha_after answers"; cases "ha_set answers")
      (auto simp: ensure_evolution_webhook_def dest: ok split: sum.splits if_splits)
  then show ?thesis
    by (auto simp: mismatches_def Let_def evolution_webhook_headers_def split: if_splits)
qed

definition good_configuration :: pval where
  "good_configuration = PDict [(''webhook'', PDict [(''enabled'', PBool True), (''url'', PStr ''u''),
     (''events'', PList [PStr ''messages_upsert'']), (''headers'', PDict [(secret_header, PStr ''s'')])])]"

lemma ensured_callback_is_effective_witness:
  "\<exists>written. ensure_evolution_webhook \<lparr> hc_url = ''u/'', hc_port = 1, hc_secret = ''s'' \<rparr> True
     \<lparr> ha_before = Inl OSError, ha_set = Inr (), ha_after = Inr good_configuration \<rparr> = (Inr good_configuration, written)
   \<and> dget (configuration_node good_configuration) ''enabled'' = PBool True"
proof -
  have "ensure_evolution_webhook \<lparr> hc_url = ''u/'', hc_port = 1, hc_secret = ''s'' \<rparr> True
     \<lparr> ha_before = Inl OSError, ha_set = Inr (), ha_after = Inr good_configuration \<rparr> = (Inr good_configuration, True)"
    by code_simp
  from this ensured_callback_is_effective [OF this] show ?thesis by blast
qed

end
