(* ===== verification/Gateway_Settings.thy ===== *)
theory Gateway_Settings
  imports Connection_Registry
begin

text \<open>
  The product settings of the Gateway, \<open>gateway/app/services/gateway_settings.py\<close>: which channels
  and providers are switched on. Of the two catalogues only what the code decides by is kept: the
  id, whether it is implemented and whether it is on by default. The two exceptions carry the id
  that their text names. Also the features of \<open>services/features.py\<close> that depend on them.
\<close>

section \<open>The catalogues and the file\<close>

record catalog_entry =
  ce_id :: string
  ce_implemented :: bool
  ce_enabled :: bool

definition channel_catalog :: "catalog_entry list" where
  "channel_catalog =
     [\<lparr> ce_id = ''whatsapp'', ce_implemented = True, ce_enabled = True \<rparr>,
      \<lparr> ce_id = ''instagram'', ce_implemented = True, ce_enabled = False \<rparr>,
      \<lparr> ce_id = ''facebook'', ce_implemented = False, ce_enabled = False \<rparr>,
      \<lparr> ce_id = ''telegram'', ce_implemented = False, ce_enabled = False \<rparr>]"

definition provider_catalog :: "catalog_entry list" where
  "provider_catalog =
     [\<lparr> ce_id = ''meta'', ce_implemented = True, ce_enabled = True \<rparr>,
      \<lparr> ce_id = ''evolution'', ce_implemented = True, ce_enabled = True \<rparr>]"

type_synonym settings_file = "pdict json_file"

record gateway_settings =
  gs_channels :: pdict
  gs_providers :: pdict

fun read_settings :: "settings_file \<Rightarrow> gateway_settings" where
  "read_settings (Holds raw) = \<lparr> gs_channels = as_dict (dget raw ''channels''), gs_providers = as_dict (dget raw ''providers'') \<rparr>"
| "read_settings _ = \<lparr> gs_channels = [], gs_providers = [] \<rparr>"

definition settings_dict :: "gateway_settings \<Rightarrow> pdict" where
  "settings_dict s =
     [(''schema_version'', PInt 2), (''channels'', PDict (gs_channels s)), (''providers'', PDict (gs_providers s))]"

definition write_settings :: "bool \<Rightarrow> gateway_settings \<Rightarrow> settings_file \<Rightarrow> unit res \<times> settings_file" where
  "write_settings disk_ok s f = replace_file disk_ok (sorted_dict (settings_dict s)) f"

section \<open>What is switched on\<close>

definition effective :: "pdict \<Rightarrow> catalog_entry \<Rightarrow> catalog_entry" where
  "effective stored c =
     c\<lparr> ce_enabled := (if ce_implemented c
          then truthy (dget_default (as_dict (dget stored (ce_id c))) ''enabled'' (PBool (ce_enabled c))) else False) \<rparr>"

definition channels_of :: "settings_file \<Rightarrow> catalog_entry list" where
  "channels_of f = map (effective (gs_channels (read_settings f))) channel_catalog"

definition providers_of :: "settings_file \<Rightarrow> catalog_entry list" where
  "providers_of f = map (effective (gs_providers (read_settings f))) provider_catalog"

definition entry_of :: "string \<Rightarrow> catalog_entry list \<Rightarrow> catalog_entry option" where
  "entry_of i cs = List.find (\<lambda>c. ce_id c = i) cs"

definition not_implemented :: "string \<Rightarrow> string \<Rightarrow> py_exc" where
  "not_implemented kind i = AppError (kind @ ''NotImplementedError'') None i"

definition switched_off :: "string \<Rightarrow> string \<Rightarrow> py_exc" where
  "switched_off kind i = AppError (kind @ ''DisabledError'') None i"

definition require_available :: "string \<Rightarrow> string \<Rightarrow> catalog_entry list \<Rightarrow> unit res" where
  "require_available kind i cs =
     (case entry_of i cs of
        None \<Rightarrow> Inl (not_implemented kind i)
      | Some c \<Rightarrow> if \<not> ce_implemented c then Inl (not_implemented kind i)
                  else if \<not> ce_enabled c then Inl (switched_off kind i) else Inr ())"

definition require_channel_available :: "string \<Rightarrow> settings_file \<Rightarrow> unit res" where
  "require_channel_available i f = require_available ''Channel'' i (channels_of f)"

definition require_provider_available :: "string \<Rightarrow> settings_file \<Rightarrow> unit res" where
  "require_provider_available i f = require_available ''Provider'' i (providers_of f)"

section \<open>Switching\<close>

text \<open>The checks of an update: every id is known, and only what is implemented is switched on.\<close>

definition check_updates :: "string \<Rightarrow> string \<Rightarrow> catalog_entry list \<Rightarrow> (string \<times> bool) list \<Rightarrow> unit res" where
  "check_updates label kind catalog updates =
     (case sort (filter (\<lambda>i. entry_of i catalog = None) (map fst updates)) of
        i # _ \<Rightarrow> Inl (ValueError (''Unknown '' @ label @ '': '' @ i))
      | [] \<Rightarrow>
          (case List.find (\<lambda>(i, on). on \<and> (case entry_of i catalog of None \<Rightarrow> False | Some c \<Rightarrow> \<not> ce_implemented c)) updates of
             Some (i, _) \<Rightarrow> Inl (not_implemented kind i)
           | None \<Rightarrow> Inr ()))"

definition switch :: "(string \<times> bool) list \<Rightarrow> pdict \<Rightarrow> pdict" where
  "switch updates d = fold (\<lambda>(i, on) d. dset d i (PDict [(''enabled'', PBool on)])) updates d"

definition update_channels ::
    "bool \<Rightarrow> (string \<times> bool) list \<Rightarrow> settings_file \<Rightarrow> catalog_entry list res \<times> settings_file" where
  "update_channels disk_ok updates f =
     (case check_updates ''channel'' ''Channel'' channel_catalog updates of
        Inl e \<Rightarrow> (Inl e, f)
      | Inr _ \<Rightarrow>
          (let s = read_settings f in
           case write_settings disk_ok (s\<lparr> gs_channels := switch updates (gs_channels s) \<rparr>) f of
             (Inl e, f') \<Rightarrow> (Inl e, f')
           | (Inr _, f') \<Rightarrow> (Inr (channels_of f'), f')))"

definition update_providers ::
    "bool \<Rightarrow> (string \<times> bool) list \<Rightarrow> settings_file \<Rightarrow> catalog_entry list res \<times> settings_file" where
  "update_providers disk_ok updates f =
     (case check_updates ''provider'' ''Provider'' provider_catalog updates of
        Inl e \<Rightarrow> (Inl e, f)
      | Inr _ \<Rightarrow>
          (let s = read_settings f in
           case write_settings disk_ok (s\<lparr> gs_providers := switch updates (gs_providers s) \<rparr>) f of
             (Inl e, f') \<Rightarrow> (Inl e, f')
           | (Inr _, f') \<Rightarrow> (Inr (providers_of f'), f')))"

section \<open>Features\<close>

record feature_flags =
  ff_evolution :: bool
  ff_baileys :: bool
  ff_whatsapp_web :: bool
  ff_qr_login :: bool
  ff_instagram :: bool
  ff_whatsapp_cloud :: bool

definition method_enabled :: "feature_flags \<Rightarrow> settings_file \<Rightarrow> string \<Rightarrow> string \<Rightarrow> bool" where
  "method_enabled flags f channel method \<longleftrightarrow>
     (if channel = ''whatsapp'' \<and> method = ''official'' then ff_whatsapp_cloud flags
      else if channel = ''whatsapp'' \<and> method = ''web''
      then ff_evolution flags \<and> ff_baileys flags \<and> ff_whatsapp_web flags \<and> ff_qr_login flags
      else if channel = ''instagram''
      then ff_instagram flags \<and>
        (case entry_of ''instagram'' (channels_of f) of None \<Rightarrow> False | Some c \<Rightarrow> ce_implemented c \<and> ce_enabled c)
      else False)"

definition connection_type_enabled :: "feature_flags \<Rightarrow> settings_file \<Rightarrow> pval \<Rightarrow> bool" where
  "connection_type_enabled flags f connection_type \<longleftrightarrow>
     str_lower (str_or_empty connection_type) \<noteq> ''baileys'' \<or> method_enabled flags f ''whatsapp'' ''web''"

end
