(* ===== verification/Webhook_Deliveries.thy ===== *)
theory Webhook_Deliveries
  imports Secret_Redaction
begin

text \<open>
  The evidence of the webhook calls, \<open>gateway/app/services/webhook_deliveries.py\<close>: how an
  execution becomes a record without credentials and of bounded size, the file that keeps the
  newest records of each webhook, and its queries. Decoding JSON, splitting a URL into its query
  and putting it together again, \<open>float\<close>, and the mark of a truncated text are arguments.
\<close>

section \<open>Bounded and redacted values\<close>

record delivery_env =
  dl_loads :: "string \<Rightarrow> pval option"
  dl_parse_url :: "string \<Rightarrow> (string \<times> (string \<times> string) list) option"
  dl_with_query :: "string \<Rightarrow> (string \<times> string) list \<Rightarrow> string"
  dl_float :: "pval \<Rightarrow> (int \<times> string) option"
  dl_mark :: string
  dl_retention_setting :: int
  dl_max_bytes_setting :: int

definition dl_retention :: "delivery_env \<Rightarrow> int" where
  "dl_retention env =
     max 1 (min (if dl_retention_setting env = 0 then 250 else dl_retention_setting env) 10000)"

definition dl_max_bytes :: "delivery_env \<Rightarrow> int" where
  "dl_max_bytes env =
     max 1024 (min (if dl_max_bytes_setting env = 0 then 16384 else dl_max_bytes_setting env) 1048576)"

definition int_or :: "pval \<Rightarrow> int \<Rightarrow> int" where
  "int_or v default_value = (case py_int v of Inr i \<Rightarrow> i | Inl _ \<Rightarrow> default_value)"

definition as_float :: "delivery_env \<Rightarrow> pval \<Rightarrow> pval" where
  "as_float env v = (case dl_float env v of None \<Rightarrow> PFloat 0 ''0.0'' | Some (i, r) \<Rightarrow> PFloat i r)"

text \<open>The bytes of a text in UTF-8, and the longest start of it within a number of bytes.\<close>

definition chr_bytes :: "char \<Rightarrow> nat" where
  "chr_bytes c = (if (of_char c :: nat) < 128 then 1 else 2)"

definition utf8_length :: "string \<Rightarrow> nat" where
  "utf8_length s = sum_list (map chr_bytes s)"

fun utf8_take :: "nat \<Rightarrow> string \<Rightarrow> string" where
  "utf8_take n [] = []"
| "utf8_take n (c # s) = (if chr_bytes c \<le> n then c # utf8_take (n - chr_bytes c) s else [])"

definition bounded_str :: "delivery_env \<Rightarrow> string \<Rightarrow> nat \<Rightarrow> string" where
  "bounded_str env raw limit = (if utf8_length raw \<le> limit then raw else utf8_take limit raw @ dl_mark env)"

definition bounded :: "delivery_env \<Rightarrow> pval \<Rightarrow> nat \<Rightarrow> string" where
  "bounded env v limit = bounded_str env (str_or_empty v) limit"

text \<open>
  \<open>_safe_value\<close> redacts at every level again; that does not change what the first redaction
  left, so the texts are cut after it.
\<close>

fun cut_value :: "delivery_env \<Rightarrow> nat \<Rightarrow> pval \<Rightarrow> pval"
  and cut_items :: "delivery_env \<Rightarrow> nat \<Rightarrow> pdict \<Rightarrow> pdict"
  and cut_list :: "delivery_env \<Rightarrow> nat \<Rightarrow> nat \<Rightarrow> pval list \<Rightarrow> pval list" where
  "cut_value env limit (PDict d) = PDict (cut_items env limit d)"
| "cut_value env limit (PList xs) = PList (cut_list env limit 25 xs)"
| "cut_value env limit (PStr s) = PStr (bounded_str env s limit)"
| "cut_value env limit v = v"
| "cut_items env limit [] = []"
| "cut_items env limit ((k, v) # d) = (k, cut_value env limit v) # cut_items env limit d"
| "cut_list env limit n [] = []"
| "cut_list env limit n (x # xs) = (if n = 0 then [] else cut_value env limit x # cut_list env limit (n - 1) xs)"

definition safe_value :: "delivery_env \<Rightarrow> pval \<Rightarrow> nat \<Rightarrow> pval" where
  "safe_value env v limit = cut_value env limit (redact_json v)"

definition redact_url :: "delivery_env \<Rightarrow> string \<Rightarrow> string" where
  "redact_url env raw =
     (case dl_parse_url env raw of
        None \<Rightarrow> raw
      | Some (query, pairs) \<Rightarrow>
          if query = [] then raw
          else dl_with_query env raw (map (\<lambda>(k, v). (k, if is_sensitive_name k then REDACTED else v)) pairs))"

definition safe_preview :: "delivery_env \<Rightarrow> pval \<Rightarrow> nat \<Rightarrow> string" where
  "safe_preview env v limit =
     bounded_str env (redact_json_preview (dl_loads env) (PStr (redact_url env (str_or_empty v))) None) limit"

section \<open>Records\<close>

definition common_statuses :: "string list" where
  "common_statuses = [''success'', ''failed'', ''timeout'', ''network_error'', ''configuration_error'', ''unknown'']"

definition network_errors :: "string list" where
  "network_errors =
     [''dns_error'', ''dns_fail'', ''network_error'', ''connection_error'', ''connection_refused'', ''connect_error'',
      ''read_error'', ''write_error'', ''transport_error'', ''ssl_fail'']"

definition call_status :: "pdict \<Rightarrow> bool \<Rightarrow> string option \<Rightarrow> string" where
  "call_status entry success error_type =
     (let explicit = str_lower (clean_str (dget entry ''semanticStatus'')) in
      if success then ''success''
      else if explicit \<in> set common_statuses then explicit
      else if error_type = Some ''timeout'' then ''timeout''
      else if (case error_type of None \<Rightarrow> False | Some e \<Rightarrow> e \<in> set network_errors) then ''network_error''
      else if error_type = Some ''invalid_url'' \<or> error_type = Some ''configuration_error'' then ''configuration_error''
      else ''failed'')"

definition text_or_null :: "string \<Rightarrow> pval" where
  "text_or_null s = (if s = [] then PNone else PStr s)"

definition safe_request_url :: "delivery_env \<Rightarrow> pval \<Rightarrow> pval \<Rightarrow> pval \<times> pval" where
  "safe_request_url env url query =
     (let raw = clean_str url; extra = as_dict query in
      case dl_parse_url env raw of
        None \<Rightarrow> (text_or_null (redact_url env raw), safe_value env (PDict extra) 512)
      | Some (_, pairs) \<Rightarrow>
          (let values = pairs @ map (\<lambda>(k, v). (k, py_str v)) extra;
               safe_query = fold (\<lambda>(k, v) d. dset d k (PStr (if is_sensitive_name k then REDACTED else bounded_str env v 512))) values [];
               safe_url = (if raw = [] then [] else dl_with_query env raw (map (\<lambda>(k, v). (k, py_str v)) safe_query))
           in (text_or_null (redact_url env safe_url), PDict safe_query)))"

definition field :: "pdict \<Rightarrow> string \<Rightarrow> pval" where
  "field entry k = text_or_null (clean_str (dget entry k))"

definition dict_of :: "pval \<Rightarrow> pval" where
  "dict_of v = PDict (as_dict v)"

text \<open>\<open>entry.get("isTest") or entry.get("testMode") or (entry.get("metadata") or {}).get("test")\<close>.\<close>

definition marked_test :: "pdict \<Rightarrow> bool res" where
  "marked_test entry =
     (if truthy (dget entry ''isTest'') \<or> truthy (dget entry ''testMode'') then Inr True
      else rbind (vget (py_or (dget entry ''metadata'') (PDict [])) ''test'') (\<lambda>t. Inr (truthy t)))"

definition bool_or_null :: "pval \<Rightarrow> pval" where
  "bool_or_null v = (case v of PBool b \<Rightarrow> PBool b | _ \<Rightarrow> PNone)"

definition safe_metadata :: "delivery_env \<Rightarrow> nat \<Rightarrow> pdict \<Rightarrow> pdict" where
  "safe_metadata env limit entry =
     dmerge (as_dict (safe_value env (dict_of (dget entry ''metadata'')) limit))
       (filter (\<lambda>(k, v). truthy v)
          [(''eventId'', field entry ''eventId''), (''requestId'', field entry ''requestId''),
           (''connectionId'', field entry ''connectionId'')])"

definition error_detail :: "pdict \<Rightarrow> string option \<Rightarrow> string \<Rightarrow> string \<Rightarrow> pval" where
  "error_detail entry error_type semantic safe_error =
     (let code = PStr (case error_type of None \<Rightarrow> semantic | Some e \<Rightarrow> e) in
      if safe_error = [] \<and> error_type = None then PNone
      else PDict [(''code'', code), (''category'', code), (''message'', text_or_null safe_error),
                  (''retryable'', bool_or_null (dget entry ''retryable''))])"

definition safe_request :: "delivery_env \<Rightarrow> nat \<Rightarrow> pdict \<Rightarrow> pdict" where
  "safe_request env limit entry =
     (let rq = as_dict (dget entry ''request'');
          (url, query) = safe_request_url env (py_or (dget rq ''url'') (dget entry ''destinationUrl'')) (dget rq ''query'')
      in [(''method'', PStr (py_str (py_or (dget rq ''method'') (PStr ''POST'')))), (''url'', url), (''query'', query),
          (''headers'', PDict (redact_headers (dict_of (dget rq ''headers'')))),
          (''payloadSummary'', safe_value env (dict_of (dget rq ''payloadSummary'')) limit),
          (''payloadSizeBytes'', PInt (int_or (dget rq ''payloadSizeBytes'') 0)),
          (''payloadPreview'', PStr (safe_preview env (dget rq ''payloadPreview'') limit)),
          (''payloadTruncated'', PBool (truthy (dget rq ''payloadTruncated'')))])"

definition safe_response :: "delivery_env \<Rightarrow> nat \<Rightarrow> int \<Rightarrow> pdict \<Rightarrow> pdict" where
  "safe_response env limit status_code entry =
     (let rs = as_dict (dget entry ''response'') in
      [(''status'', if status_code = 0 then PNone else PInt status_code),
       (''headers'', PDict (redact_headers (dict_of (dget rs ''headers'')))),
       (''bodyPreview'', PStr (safe_preview env (dget rs ''bodyPreview'') limit))])"

definition sanitize_delivery :: "delivery_env \<Rightarrow> int \<Rightarrow> string \<Rightarrow> pdict \<Rightarrow> pdict res" where
  "sanitize_delivery env now uid entry =
     rbind (marked_test entry) (\<lambda>is_test.
       let attempts = as_list (dget entry ''attempts'');
           preview_limit = nat (min (dl_max_bytes env) 4000);
           response_limit = nat (min (dl_max_bytes env) 2000);
           webhook_id = clean_str (dget entry ''webhookId'');
           error_type = or_none (clean_str (dget entry ''errorType''));
           status_code = int_or (dget_default entry ''statusCode'' (dget entry ''responseCode'')) 0;
           success = truthy (dget entry ''success'');
           timestamp = int_or (dget entry ''timestamp'') now;
           safe_error = safe_preview env (dget entry ''error'') response_limit;
           semantic = call_status entry success error_type;
           destination = text_or_null (redact_url env (str_or_empty (dget entry ''destinationUrl'')))
       in Inr
         [(''id'', PStr (py_str (py_or (dget entry ''id'') (py_or (dget entry ''deliveryId'') (PStr (''delivery_'' @ uid)))))),
          (''dispatchId'', text_or_null (clean_str (py_or (dget entry ''dispatchId'') (dget entry ''correlationId'')))),
          (''webhookId'', PStr webhook_id),
          (''webhookName'', text_or_null (bounded env (dget entry ''webhookName'') 256)),
          (''instanceName'', field entry ''instanceName''),
          (''destinationUrl'', destination), (''timestamp'', PInt timestamp),
          (''operation'', PStr (py_str (py_or (dget entry ''operation'')
             (PStr (if is_test then ''webhook.test'' else ''webhook.delivery''))))),
          (''semanticStatus'', PStr semantic),
          (''source'', PDict [(''service'', PStr ''botly_gateway''), (''instanceName'', field entry ''instanceName'')]),
          (''destination'', PDict [(''type'', PStr ''webhook''), (''webhookId'', PStr webhook_id), (''url'', destination)]),
          (''eventType'', text_or_null (clean_str (py_or (dget entry ''eventType'') (dget entry ''eventSubtype'')))),
          (''status'', PStr (let s = strip (py_str (py_or (dget entry ''status'') (PStr ''failed''))) in
                             if s = [] then ''failed'' else s)),
          (''success'', PBool success),
          (''failure'', PBool (truthy (dget_default entry ''failure'' (PBool (\<not> success))))),
          (''statusCode'', PInt status_code), (''responseCode'', PInt status_code),
          (''durationMs'', as_float env (dget entry ''durationMs'')),
          (''attemptCount'', PInt (max 1 (int_or (dget entry ''attemptCount'')
             (if attempts = [] then 1 else int (length attempts))))),
          (''retryCount'', PInt (max 0 (int_or (dget entry ''retryCount'') 0))),
          (''firstAttemptAt'', PInt (int_or (dget entry ''firstAttemptAt'') timestamp)),
          (''lastAttemptAt'', PInt (int_or (dget entry ''lastAttemptAt'') timestamp)),
          (''correlationId'', text_or_null (clean_str (py_or (dget entry ''correlationId'') (dget entry ''dispatchId'')))),
          (''eventId'', field entry ''eventId''), (''requestId'', field entry ''requestId''),
          (''messageId'', field entry ''messageId''), (''conversationId'', field entry ''conversationId''),
          (''isTest'', PBool is_test), (''error'', text_or_null safe_error), (''errorType'', pstr_opt error_type),
          (''errorDetail'', error_detail entry error_type semantic safe_error),
          (''retryable'', bool_or_null (dget entry ''retryable'')),
          (''request'', PDict (safe_request env preview_limit entry)),
          (''response'', PDict (safe_response env response_limit status_code entry)),
          (''attempts'', PList (take 10 (map (\<lambda>a. safe_value env a response_limit) (filter is_dict attempts)))),
          (''metadata'', PDict (safe_metadata env preview_limit entry))])"

section \<open>The file\<close>

type_synonym delivery_file = "pval list json_file"

fun read_deliveries :: "delivery_file \<Rightarrow> pdict list" where
  "read_deliveries (Holds vs) = map as_dict (filter is_dict vs)"
| "read_deliveries _ = []"

definition of_webhook :: "string \<Rightarrow> pdict \<Rightarrow> bool" where
  "of_webhook webhook_id d \<longleftrightarrow> str_or_empty (dget d ''webhookId'') = webhook_id"

definition delivery_time :: "pdict \<Rightarrow> int" where
  "delivery_time d = int_or (dget d ''timestamp'') 0"

definition retained :: "int \<Rightarrow> string \<Rightarrow> pdict list \<Rightarrow> pdict list" where
  "retained limit webhook_id ds =
     (let same = sort_desc delivery_time (filter (of_webhook webhook_id) ds);
          ids = map (\<lambda>d. py_str (dget d ''id'')) (take (nat limit) same)
      in filter (\<lambda>d. \<not> of_webhook webhook_id d \<or> py_str (dget d ''id'') \<in> set ids) ds)"

definition append_webhook_delivery ::
    "delivery_env \<Rightarrow> bool \<Rightarrow> int \<Rightarrow> string \<Rightarrow> pdict \<Rightarrow> delivery_file \<Rightarrow> pdict res \<times> delivery_file" where
  "append_webhook_delivery env disk_ok now uid entry f =
     (case sanitize_delivery env now uid entry of
        Inl e \<Rightarrow> (Inl e, f)
      | Inr d \<Rightarrow>
          if dget d ''webhookId'' = PStr [] then (Inl (ValueError ''Webhook delivery requires webhookId''), f)
          else case replace_file disk_ok
                      (map PDict (retained (dl_retention env) (py_str (dget d ''webhookId'')) (read_deliveries f @ [d]))) f of
                 (Inl e, f') \<Rightarrow> (Inl e, f')
               | (Inr _, f') \<Rightarrow> (Inr d, f'))"

section \<open>Queries\<close>

record delivery_filters =
  df_status :: "string option"
  df_operation :: "string option"
  df_event_type :: "string option"
  df_is_test :: "bool option"
  df_delivery_id :: "string option"
  df_event_id :: "string option"
  df_request_id :: "string option"
  df_correlation_id :: "string option"
  df_search :: "string option"
  df_date_from :: "int option"
  df_date_to :: "int option"

definition no_filters :: delivery_filters where
  "no_filters =
     \<lparr> df_status = None, df_operation = None, df_event_type = None, df_is_test = None, df_delivery_id = None,
       df_event_id = None, df_request_id = None, df_correlation_id = None, df_search = None, df_date_from = None,
       df_date_to = None \<rparr>"

definition narrow :: "('b \<Rightarrow> 'a \<Rightarrow> bool) \<Rightarrow> 'b option \<Rightarrow> 'a list \<Rightarrow> 'a list" where
  "narrow p wanted xs = (case wanted of None \<Rightarrow> xs | Some w \<Rightarrow> filter (p w) xs)"

definition given_text :: "string option \<Rightarrow> string option" where
  "given_text v = (case v of Some [] \<Rightarrow> None | _ \<Rightarrow> v)"

definition has_text :: "string \<Rightarrow> string \<Rightarrow> pdict \<Rightarrow> bool" where
  "has_text k wanted d \<longleftrightarrow> str_or_empty (dget d k) = wanted"

definition filter_deliveries :: "delivery_filters \<Rightarrow> pdict list \<Rightarrow> pdict list" where
  "filter_deliveries q items =
     (let a = narrow (\<lambda>s d. str_lower (str_or_empty (py_or (dget d ''semanticStatus'') (dget d ''status''))) = str_lower s)
                (given_text (df_status q)) items;
          b = narrow (has_text ''operation'') (given_text (df_operation q)) a;
          c = narrow (has_text ''eventType'') (given_text (df_event_type q)) b;
          d = narrow (\<lambda>t d. truthy (dget d ''isTest'') = t) (df_is_test q) c;
          e = narrow (has_text ''correlationId'') (df_correlation_id q)
                (narrow (has_text ''requestId'') (df_request_id q)
                  (narrow (has_text ''eventId'') (df_event_id q) (narrow (has_text ''id'') (df_delivery_id q) d)));
          g = narrow (\<lambda>s d. list_ex (\<lambda>k. has_text k s d) [''id'', ''webhookId'', ''eventId'', ''requestId'', ''correlationId''])
                (df_search q) e;
          h = narrow (\<lambda>t d. t \<le> delivery_time d) (df_date_from q) g;
          i = narrow (\<lambda>t d. delivery_time d \<le> t) (df_date_to q) h
      in sort_desc (\<lambda>d. (delivery_time d, str_or_empty (dget d ''id''))) i)"

definition project :: "string list \<Rightarrow> pdict \<Rightarrow> pdict" where
  "project keys d = map (\<lambda>k. (k, dget d k)) keys"

definition list_item_keys :: "string list" where
  "list_item_keys =
     [''id'', ''webhookId'', ''timestamp'', ''operation'', ''eventType'', ''semanticStatus'', ''status'', ''success'',
      ''statusCode'', ''durationMs'', ''attemptCount'', ''retryCount'', ''correlationId'', ''eventId'', ''requestId'',
      ''messageId'', ''conversationId'', ''isTest'', ''errorType'', ''retryable'']"

definition delivery_list_item :: "pdict \<Rightarrow> pdict" where
  "delivery_list_item d = project list_item_keys d"

definition summary_keys :: "string list" where
  "summary_keys =
     [''id'', ''timestamp'', ''operation'', ''eventType'', ''semanticStatus'', ''status'', ''success'', ''statusCode'',
      ''durationMs'', ''attemptCount'', ''retryCount'', ''correlationId'', ''eventId'', ''requestId'', ''messageId'',
      ''conversationId'', ''isTest'', ''source'', ''destination'']"

definition delivery_detail :: "delivery_env \<Rightarrow> int \<Rightarrow> string \<Rightarrow> pdict \<Rightarrow> pdict res" where
  "delivery_detail env now uid item =
     rbind (sanitize_delivery env now uid item) (\<lambda>d. Inr (dset d ''summary'' (PDict (project summary_keys d))))"

definition page_size :: "int \<Rightarrow> nat" where
  "page_size limit = nat (max 1 (min limit 500))"

definition with_success :: "bool option \<Rightarrow> pdict list \<Rightarrow> pdict list" where
  "with_success success ds = narrow (\<lambda>s d. truthy (dget d ''success'') = s) success ds"

definition list_webhook_deliveries :: "string \<Rightarrow> int \<Rightarrow> bool option \<Rightarrow> delivery_file \<Rightarrow> pdict list" where
  "list_webhook_deliveries webhook_id limit success f =
     take (page_size limit)
       (filter_deliveries no_filters (with_success success (filter (of_webhook webhook_id) (read_deliveries f))))"

definition get_webhook_delivery :: "string \<Rightarrow> string \<Rightarrow> delivery_file \<Rightarrow> pdict option" where
  "get_webhook_delivery webhook_id delivery_id f =
     List.find (\<lambda>d. of_webhook webhook_id d \<and> has_text ''id'' delivery_id d) (read_deliveries f)"

definition list_instance_deliveries :: "string \<Rightarrow> int \<Rightarrow> bool option \<Rightarrow> delivery_file \<Rightarrow> pdict list" where
  "list_instance_deliveries name limit success f =
     take (page_size limit)
       (sort_desc delivery_time (with_success success (filter (has_text ''instanceName'' name) (read_deliveries f))))"

definition list_all_delivery_summaries :: "delivery_file \<Rightarrow> pdict list" where
  "list_all_delivery_summaries f =
     map (project [''id'', ''instanceName'', ''webhookId'', ''timestamp'', ''semanticStatus'', ''success'', ''durationMs'',
                   ''attemptCount'', ''retryCount'', ''isTest'', ''operation'']) (read_deliveries f)"

end
