(* ===== verification/Connection_Setups.thy ===== *)
theory Connection_Setups
  imports Gateway_Settings Webhook_Deliveries
begin

text \<open>
  The way from a request to a connection, \<open>gateway/app/services/connection_setups.py\<close>, and the
  compensation of setups that end early, \<open>services/connection_setup_cleanup.py\<close>, over the
  registry. Calls to the provider are outcomes; where the code awaits one, its operation is cut
  into the steps between which other operations may run, and each step keeps the record that the
  code keeps in its local variable. The n-th write of the registry succeeds or raises as the
  environment says; formatting and parsing of times are arguments.
\<close>

section \<open>Steps over the registry\<close>

record setup_env =
  se_iso :: "int \<Rightarrow> string"
  se_parse :: "string \<Rightarrow> parsed_time"
  se_ttl :: int
  se_batch :: int
  se_urls :: delivery_env

record setup_call =
  sc_now :: int
  sc_uid :: string
  sc_connection_uid :: string
  sc_disk :: "nat \<Rightarrow> bool"

record setup_world =
  sw_file :: registry_file
  sw_writes :: nat

definition and_then ::
    "'a res \<times> 'w \<Rightarrow> ('a \<Rightarrow> 'w \<Rightarrow> 'b res \<times> 'w) \<Rightarrow> 'b res \<times> 'w" where
  "and_then m f = (case m of (Inl e, w) \<Rightarrow> (Inl e, w) | (Inr x, w) \<Rightarrow> f x w)"

definition writing ::
    "setup_call \<Rightarrow> (bool \<Rightarrow> registry_file \<Rightarrow> 'a res \<times> registry_file) \<Rightarrow> setup_world \<Rightarrow> 'a res \<times> setup_world" where
  "writing call f w =
     (case f (sc_disk call (sw_writes w)) (sw_file w) of (r, g) \<Rightarrow> (r, \<lparr> sw_file = g, sw_writes = Suc (sw_writes w) \<rparr>))"

section \<open>States and transitions\<close>

definition active_states :: "string list" where
  "active_states = [''draft'', ''onboarding'', ''provisioning'']"

definition transitions :: "string \<Rightarrow> string list" where
  "transitions s =
     (if s = ''draft'' then [''onboarding'', ''provisioning'', ''failed'', ''cancelled'', ''cleanup_pending'', ''expired'']
      else if s = ''onboarding'' then [''provisioning'', ''failed'', ''cancelled'', ''cleanup_pending'', ''expired'']
      else if s = ''provisioning'' then [''ready'', ''failed'', ''cancelled'', ''cleanup_pending'', ''expired'']
      else if s = ''failed'' then [''onboarding'', ''cancelled'', ''cleanup_pending'']
      else if s = ''cancelled'' \<or> s = ''expired'' then [''cleanup_pending'']
      else [])"

definition setup_not_found :: "string \<Rightarrow> py_exc" where
  "setup_not_found i = AppError ''ConnectionSetupNotFoundError'' None i"

definition bad_transition :: "string \<Rightarrow> py_exc" where
  "bad_transition s = AppError ''InvalidConnectionSetupTransition'' None s"

definition setup_conflict :: "string \<Rightarrow> py_exc" where
  "setup_conflict s = AppError ''ConnectionSetupConflictError'' None s"

definition state_name :: "pdict \<Rightarrow> string" where
  "state_name r = str_or_empty (dget r ''state'')"

definition transition_record ::
    "setup_env \<Rightarrow> setup_call \<Rightarrow> pdict \<Rightarrow> string \<Rightarrow> pdict \<Rightarrow> setup_world \<Rightarrow> pdict res \<times> setup_world" where
  "transition_record env call r target changes w =
     (let current = state_name r in
      if target = current then (Inr r, w)
      else if target \<notin> set (transitions current)
      then (Inl (bad_transition (''Invalid setup transition: '' @ current @ '' -> '' @ target)), w)
      else case vindex (PDict r) ''id'' of
             Inl e \<Rightarrow> (Inl e, w)
           | Inr i \<Rightarrow>
               and_then (writing call (\<lambda>ok. update_setup_record ok (py_str i)
                          (dmerge [(''state'', PStr target), (''updated_at'', PStr (se_iso env (sc_now call)))] changes)) w)
                 (\<lambda>updated w'. case updated of None \<Rightarrow> (Inl (setup_not_found (py_str i)), w') | Some r' \<Rightarrow> (Inr r', w')))"

definition cleanup_changes :: "string \<Rightarrow> pdict" where
  "cleanup_changes final = [(''cleanup_required'', PBool True), (''cleanup_final_state'', PStr final)]"

definition expire_if_due ::
    "setup_env \<Rightarrow> setup_call \<Rightarrow> pdict \<Rightarrow> setup_world \<Rightarrow> pdict res \<times> setup_world" where
  "expire_if_due env call r w =
     (if state_name r \<notin> set active_states \<or> \<not> dhas r ''expires_at'' then (Inr r, w)
      else case se_parse env (py_str (dget r ''expires_at'')) of
        No_Time \<Rightarrow> (Inr r, w)
      | Naive_Time \<Rightarrow> (Inl TypeError, w)
      | Aware_Time t \<Rightarrow>
          if sc_now call < t then (Inr r, w)
          else if truthy (dget r ''external_resources'')
          then transition_record env call r ''cleanup_pending'' (cleanup_changes ''expired'') w
          else transition_record env call r ''expired'' [] w)"

definition find_setup ::
    "setup_env \<Rightarrow> setup_call \<Rightarrow> string \<Rightarrow> setup_world \<Rightarrow> pdict res \<times> setup_world" where
  "find_setup env call i w =
     (case setup_record_by_id i (sw_file w) of
        None \<Rightarrow> (Inl (setup_not_found i), w)
      | Some r \<Rightarrow> expire_if_due env call r w)"

section \<open>The public view\<close>

definition required_keys :: "string list" where
  "required_keys =
     [''id'', ''client_id'', ''name'', ''provider_id'', ''channel_id'', ''state'', ''created_at'', ''updated_at'', ''expires_at'']"

definition public_setup :: "pdict \<Rightarrow> pdict res" where
  "public_setup r =
     rbind (traverse (vindex (PDict r)) required_keys) (\<lambda>_.
     rbind (iterated (py_or (dget r ''external_resources'') (PList []))) (\<lambda>resources.
       Inr [(''id'', dget r ''id''), (''client_id'', dget r ''client_id''), (''name'', dget r ''name''),
            (''provider'', dget r ''provider_id''), (''channel'', dget r ''channel_id''), (''state'', dget r ''state''),
            (''created_at'', dget r ''created_at''), (''updated_at'', dget r ''updated_at''),
            (''expires_at'', dget r ''expires_at''), (''connection_id'', dget r ''connection_id''),
            (''runtime_name'', dget r ''runtime_name''), (''cleanup_required'', PBool (truthy (dget r ''cleanup_required''))),
            (''cleanup'', if is_dict (dget r ''cleanup'') then dget r ''cleanup'' else PNone),
            (''external_resources'', PList resources), (''diagnostic'', dget r ''diagnostic'')]))"

definition published :: "pdict res \<times> setup_world \<Rightarrow> pdict res \<times> setup_world" where
  "published m = and_then m (\<lambda>r w. (public_setup r, w))"

section \<open>Creating a setup\<close>

definition validate_setup_request :: "settings_file \<Rightarrow> string \<Rightarrow> string \<Rightarrow> string \<Rightarrow> registry_file \<Rightarrow> unit res" where
  "validate_setup_request settings client_id channel provider f =
     (if get_client client_id f = None then Inl (setup_not_found client_id)
      else rbind (require_channel_available channel settings) (\<lambda>_.
        if (channel, provider) \<notin> {(''whatsapp'', ''meta''), (''whatsapp'', ''evolution''), (''instagram'', ''meta'')}
        then Inl (ValueError (''Unsupported provider: '' @ provider))
        else require_provider_available provider settings))"

definition default_setup_name :: "string \<Rightarrow> string \<Rightarrow> string" where
  "default_setup_name channel provider =
     (if channel = ''instagram'' then ''Instagram''
      else if provider = ''meta'' then ''WhatsApp Oficial'' else ''WhatsApp Evolution'')"

definition new_setup ::
    "setup_env \<Rightarrow> setup_call \<Rightarrow> string \<Rightarrow> string \<Rightarrow> string option \<Rightarrow> string \<Rightarrow> string \<Rightarrow> pdict" where
  "new_setup env call client_id channel name provider key =
     [(''id'', PStr (sc_uid call)), (''client_id'', PStr client_id),
      (''name'', PStr (case name of None \<Rightarrow> default_setup_name channel provider
                       | Some n \<Rightarrow> if strip n = [] then default_setup_name channel provider else strip n)),
      (''provider_id'', PStr provider), (''channel_id'', PStr channel), (''state'', PStr ''draft''),
      (''created_at'', PStr (se_iso env (sc_now call))), (''updated_at'', PStr (se_iso env (sc_now call))),
      (''expires_at'', PStr (se_iso env (sc_now call + max 60 (se_ttl env)))),
      (''idempotency_key'', text_or_null key),
      (''runtime_name'', PStr (''setup_'' @ take 24 (filter (\<lambda>c. c \<noteq> CHR ''-'') (sc_uid call)))),
      (''external_resources'', PList []), (''cleanup_required'', PBool False), (''diagnostic'', PNone)]"

definition create_setup ::
    "setup_env \<Rightarrow> setup_call \<Rightarrow> settings_file \<Rightarrow> string \<Rightarrow> string \<Rightarrow> string option \<Rightarrow> string \<Rightarrow> string option
     \<Rightarrow> setup_world \<Rightarrow> pdict res \<times> setup_world" where
  "create_setup env call settings client_id channel name provider idempotency_key w =
     (case validate_setup_request settings client_id channel provider (sw_file w) of
        Inl e \<Rightarrow> (Inl e, w)
      | Inr _ \<Rightarrow>
          (let key = (case idempotency_key of None \<Rightarrow> [] | Some k \<Rightarrow> strip k);
               r = new_setup env call client_id channel name provider key
           in case (if key = [] then None else setup_record_by_idempotency_key client_id key (sw_file w)) of
                Some existing \<Rightarrow>
                  if dget existing ''provider_id'' \<noteq> PStr provider \<or> dget existing ''channel_id'' \<noteq> PStr channel
                  then (Inl (setup_conflict ''Idempotency key is already associated with a different setup''), w)
                  else published (expire_if_due env call existing w)
              | None \<Rightarrow>
                  and_then (writing call (\<lambda>ok. save_setup_record_for_client ok r) w)
                    (\<lambda>saved w'. case saved of None \<Rightarrow> (Inl (setup_not_found client_id), w') | Some _ \<Rightarrow> (public_setup r, w'))))"

definition get_setup :: "setup_env \<Rightarrow> setup_call \<Rightarrow> string \<Rightarrow> setup_world \<Rightarrow> pdict res \<times> setup_world" where
  "get_setup env call i w = published (find_setup env call i w)"

definition transition_setup ::
    "setup_env \<Rightarrow> setup_call \<Rightarrow> string \<Rightarrow> string \<Rightarrow> setup_world \<Rightarrow> pdict res \<times> setup_world" where
  "transition_setup env call i target w =
     published (and_then (find_setup env call i w) (\<lambda>r. transition_record env call r target []))"

section \<open>Onboarding with Meta\<close>

text \<open>\<open>record["state"]\<close>, which raises for a record without a state.\<close>

definition by_state ::
    "pdict \<Rightarrow> (pval \<Rightarrow> setup_world \<Rightarrow> 'a res \<times> setup_world) \<Rightarrow> setup_world \<Rightarrow> 'a res \<times> setup_world" where
  "by_state r f w = (case vindex (PDict r) ''state'' of Inl e \<Rightarrow> (Inl e, w) | Inr s \<Rightarrow> f s w)"

definition moving ::
    "setup_env \<Rightarrow> setup_call \<Rightarrow> string \<Rightarrow> string \<Rightarrow> pdict \<Rightarrow> pdict \<Rightarrow> setup_world \<Rightarrow> pdict res \<times> setup_world" where
  "moving env call from target changes r =
     by_state r (\<lambda>s w. if s = PStr from then transition_record env call r target changes w else (Inr r, w))"

definition begin_meta :: "setup_env \<Rightarrow> setup_call \<Rightarrow> string \<Rightarrow> setup_world \<Rightarrow> pdict res \<times> setup_world" where
  "begin_meta env call i w =
     published (and_then (find_setup env call i w) (\<lambda>r w.
       if dget r ''provider_id'' \<noteq> PStr ''meta'' then (Inl (setup_conflict ''This setup does not use Meta''), w)
       else moving env call ''draft'' ''onboarding'' [] r w))"

definition resource :: "string \<Rightarrow> pval \<Rightarrow> bool \<Rightarrow> pval" where
  "resource kind identifier owned_here =
     PDict [(''kind'', PStr kind), (''identifier'', identifier), (''ownership_confirmed'', PBool owned_here)]"

text \<open>\<open>update_setup_record(record["id"], changes) or record\<close>.\<close>

definition noting ::
    "setup_env \<Rightarrow> setup_call \<Rightarrow> pdict \<Rightarrow> pval list \<Rightarrow> setup_world \<Rightarrow> pdict res \<times> setup_world" where
  "noting env call r resources w =
     (case vindex (PDict r) ''id'' of
        Inl e \<Rightarrow> (Inl e, w)
      | Inr i \<Rightarrow>
          and_then (writing call (\<lambda>ok. update_setup_record ok (py_str i)
              [(''external_resources'', PList resources), (''updated_at'', PStr (se_iso env (sc_now call)))]) w)
            (\<lambda>updated w'. (Inr (case updated of None \<Rightarrow> r | Some r' \<Rightarrow> r'), w')))"

definition begin_meta_provisioning ::
    "setup_env \<Rightarrow> setup_call \<Rightarrow> string \<Rightarrow> string \<Rightarrow> string \<Rightarrow> setup_world \<Rightarrow> pdict res \<times> setup_world" where
  "begin_meta_provisioning env call i phone_number_id business_account_id w =
     published (and_then (find_setup env call i w) (\<lambda>r w.
       if dget r ''provider_id'' \<noteq> PStr ''meta'' then (Inl (setup_conflict ''This setup does not use Meta''), w)
       else and_then (moving env call ''failed'' ''onboarding'' [(''diagnostic'', PNone)] r w) (\<lambda>r w.
         and_then (moving env call ''onboarding'' ''provisioning'' [] r w)
           (\<lambda>r. by_state r (\<lambda>s w.
             if s \<noteq> PStr ''provisioning''
             then (Inl (setup_conflict ''Meta setup cannot be provisioned from its current state''), w)
             else if business_account_id = [] then (Inr r, w)
             else noting env call r
               ((if phone_number_id = [] then [] else [resource ''meta_phone_number'' (PStr phone_number_id) False]) @
                [resource ''meta_business_account'' (PStr business_account_id) False]) w)))))"

section \<open>Promotion\<close>

definition connection_record_of ::
    "setup_env \<Rightarrow> setup_call \<Rightarrow> pdict \<Rightarrow> string \<Rightarrow> string \<Rightarrow> pdict \<Rightarrow> pdict" where
  "connection_record_of env call r status health extra =
     dmerge
       [(''id'', PStr (sc_connection_uid call)), (''legacy_name'', dget r ''runtime_name''), (''client_id'', dget r ''client_id''),
        (''name'', dget r ''name''), (''provider_id'', dget r ''provider_id''),
        (''provider_display_name'', PStr (if dget r ''provider_id'' = PStr ''meta'' then ''Meta'' else ''Evolution'')),
        (''channel_id'', dget r ''channel_id''),
        (''channel_display_name'', PStr (if dget r ''channel_id'' = PStr ''instagram'' then ''Instagram'' else ''WhatsApp'')),
        (''status_state'', PStr status), (''status_health'', PStr health),
        (''created_at'', PStr (se_iso env (sc_now call))), (''updated_at'', PStr (se_iso env (sc_now call)))]
       extra"

definition promoted_keys :: "string list" where
  "promoted_keys = [''runtime_name'', ''client_id'', ''name'', ''provider_id'', ''channel_id'', ''id'']"

definition promote ::
    "setup_env \<Rightarrow> setup_call \<Rightarrow> string \<Rightarrow> string \<Rightarrow> pdict \<Rightarrow> pdict \<Rightarrow> setup_world \<Rightarrow> pdict res \<times> setup_world" where
  "promote env call status health extra r w =
     (if dget r ''state'' \<noteq> PStr ''provisioning'' then (Inl (bad_transition ''Only provisioning setups can be promoted''), w)
      else case traverse (vindex (PDict r)) promoted_keys of
        Inl e \<Rightarrow> (Inl e, w)
      | Inr _ \<Rightarrow>
          and_then (writing call (\<lambda>ok. promote_setup_to_connection ok (py_str (dget r ''id''))
              (connection_record_of env call r status health extra)
              [(''state'', PStr ''ready''), (''connection_id'', PStr (sc_connection_uid call)),
               (''updated_at'', PStr (se_iso env (sc_now call)))]) w)
            (\<lambda>p w'. case p of None \<Rightarrow> (Inl (setup_not_found (py_str (dget r ''id''))), w') | Some (s, _) \<Rightarrow> (Inr s, w')))"

definition complete_meta ::
    "setup_env \<Rightarrow> setup_call \<Rightarrow> string \<Rightarrow> string \<Rightarrow> string \<Rightarrow> setup_world \<Rightarrow> pdict res \<times> setup_world" where
  "complete_meta env call i phone_number_id business_account_id w =
     published (and_then (find_setup env call i w) (\<lambda>r w.
       if dget r ''provider_id'' \<noteq> PStr ''meta'' then (Inl (setup_conflict ''This setup does not use Meta''), w)
       else if dget r ''state'' = PStr ''ready'' then (Inr r, w)
       else by_state r (\<lambda>s w.
         if s \<noteq> PStr ''provisioning'' then (Inl (setup_conflict ''Meta setup cannot be completed from its current state''), w)
         else and_then (noting env call r
                [resource ''meta_phone_number'' (PStr phone_number_id) False,
                 resource ''meta_business_account'' (PStr business_account_id) False] w)
              (promote env call ''connected'' ''healthy'' [])) w))"

definition complete_instagram ::
    "setup_env \<Rightarrow> setup_call \<Rightarrow> string \<Rightarrow> string \<Rightarrow> pdict \<Rightarrow> setup_world \<Rightarrow> pdict res \<times> setup_world" where
  "complete_instagram env call i account metadata w =
     published (and_then (find_setup env call i w) (\<lambda>r w.
       if dget r ''provider_id'' \<noteq> PStr ''meta'' \<or> dget r ''channel_id'' \<noteq> PStr ''instagram''
       then (Inl (setup_conflict ''This setup is not an Instagram Meta setup''), w)
       else if dget r ''state'' = PStr ''ready'' then (Inr r, w)
       else if dget r ''state'' \<noteq> PStr ''provisioning''
       then (Inl (setup_conflict ''Instagram setup cannot be completed from its current state''), w)
       else and_then (noting env call r [resource ''meta_instagram_account'' (PStr account) False] w)
              (promote env call ''connected'' ''healthy''
                [(''provider_account'', PDict [(''provider'', PStr ''meta''), (''channelType'', PStr ''instagram''),
                    (''providerAccountId'', PStr account), (''metadata'', PDict metadata)])])))"

definition diagnostic :: "string \<Rightarrow> string \<Rightarrow> pval" where
  "diagnostic code text = PDict [(''code'', PStr code), (''message'', PStr text)]"

definition mark_meta_failed :: "setup_env \<Rightarrow> setup_call \<Rightarrow> string \<Rightarrow> setup_world \<Rightarrow> pdict res \<times> setup_world" where
  "mark_meta_failed env call i w =
     published (and_then (find_setup env call i w) (\<lambda>r. by_state r (\<lambda>s w.
       if s \<notin> PStr ` set active_states then (Inr r, w)
       else transition_record env call r ''failed''
              [(''diagnostic'', diagnostic ''meta_onboarding_failed'' ''No se pudo completar el onboarding de Meta.'')] w)))"

section \<open>Provisioning with Evolution\<close>

text \<open>Up to the creation of the instance; \<open>Inl\<close> is an answer, \<open>Inr\<close> the record to go on with.\<close>

definition begin_evolution ::
    "setup_env \<Rightarrow> setup_call \<Rightarrow> string \<Rightarrow> setup_world \<Rightarrow> (pdict + pdict) res \<times> setup_world" where
  "begin_evolution env call i w =
     and_then (find_setup env call i w) (\<lambda>r w.
       if dget r ''provider_id'' \<noteq> PStr ''evolution'' then (Inl (setup_conflict ''This setup does not use Evolution''), w)
       else if dget r ''state'' = PStr ''ready'' then (rbind (public_setup r) (\<lambda>p. Inr (Inl p)), w)
       else and_then (moving env call ''draft'' ''provisioning'' [] r w)
         (\<lambda>r. by_state r (\<lambda>s w.
           if s \<noteq> PStr ''provisioning''
           then (Inl (setup_conflict ''Evolution setup cannot be provisioned from its current state''), w)
           else (Inr (Inr r), w))))"

definition cleanup_with :: "setup_env \<Rightarrow> setup_call \<Rightarrow> string \<Rightarrow> string \<Rightarrow> pdict \<Rightarrow> setup_world \<Rightarrow> pdict res \<times> setup_world" where
  "cleanup_with env call code text r w =
     published (transition_record env call r ''cleanup_pending''
       [(''cleanup_required'', PBool True), (''diagnostic'', diagnostic code text)] w)"

definition after_create ::
    "setup_env \<Rightarrow> setup_call \<Rightarrow> pdict \<Rightarrow> bool \<Rightarrow> setup_world \<Rightarrow> (pdict + pdict) res \<times> setup_world" where
  "after_create env call r created w =
     (if \<not> created \<or> \<not> dhas r ''runtime_name''
      then and_then (cleanup_with env call ''evolution_create_uncertain''
             (''La creaci'' @ [CHR 0xF3] @ ''n de la instancia no pudo confirmarse.'') r w) (\<lambda>p w. (Inr (Inl p), w))
      else and_then (noting env call r [resource ''evolution_instance'' (dget r ''runtime_name'') True] w)
             (\<lambda>r w. (Inr (Inr r), w)))"

definition after_webhook ::
    "setup_env \<Rightarrow> setup_call \<Rightarrow> pdict \<Rightarrow> bool \<Rightarrow> setup_world \<Rightarrow> pdict res \<times> setup_world" where
  "after_webhook env call r configured w =
     (if \<not> configured
      then cleanup_with env call ''evolution_webhook_failed''
             ''La instancia fue creada, pero no se pudo configurar su webhook.'' r w
      else published (promote env call ''connecting'' ''unknown'' [] r w))"

definition going_on ::
    "(pdict + pdict) res \<times> setup_world \<Rightarrow> (pdict \<Rightarrow> setup_world \<Rightarrow> pdict res \<times> setup_world) \<Rightarrow> pdict res \<times> setup_world" where
  "going_on m f = and_then m (\<lambda>x w. case x of Inl p \<Rightarrow> (Inr p, w) | Inr r \<Rightarrow> f r w)"

definition provision_evolution ::
    "setup_env \<Rightarrow> setup_call \<Rightarrow> setup_call \<Rightarrow> setup_call \<Rightarrow> string \<Rightarrow> bool \<Rightarrow> bool \<Rightarrow> setup_world \<Rightarrow> pdict res \<times> setup_world" where
  "provision_evolution env call1 call2 call3 i created configured w =
     going_on (begin_evolution env call1 i w) (\<lambda>r w.
       going_on (after_create env call2 r created w) (\<lambda>r. after_webhook env call3 r configured))"

section \<open>Ending\<close>

definition cancel_setup :: "setup_env \<Rightarrow> setup_call \<Rightarrow> string \<Rightarrow> setup_world \<Rightarrow> pdict res \<times> setup_world" where
  "cancel_setup env call i w =
     published (and_then (find_setup env call i w) (\<lambda>r. by_state r (\<lambda>s w.
       if s \<in> PStr ` {''cancelled'', ''cleanup_pending'', ''expired'', ''failed''} then (Inr r, w)
       else if s = PStr ''ready''
       then (Inl (bad_transition ''Ready setups represent operational connections and cannot be cancelled''), w)
       else if s = PStr ''provisioning'' \<and> dget r ''provider_id'' = PStr ''meta''
       then (Inl (setup_conflict ''Connection setup completion is in progress''), w)
       else if truthy (dget r ''external_resources'')
       then transition_record env call r ''cleanup_pending'' (cleanup_changes ''cancelled'') w
       else transition_record env call r ''cancelled'' [(''cleanup_required'', PBool False)] w)))"

fun expire_each ::
    "setup_env \<Rightarrow> setup_call \<Rightarrow> pdict list \<Rightarrow> setup_world \<Rightarrow> nat res \<times> setup_world" where
  "expire_each env call [] w = (Inr 0, w)"
| "expire_each env call (r # rs) w =
     (if state_name r \<notin> set active_states then expire_each env call rs w
      else and_then (expire_if_due env call r w) (\<lambda>after w.
        and_then (expire_each env call rs w) (\<lambda>n w.
          (Inr (if dget after ''state'' \<noteq> dget r ''state'' then Suc n else n), w))))"

definition expire_active :: "setup_env \<Rightarrow> setup_call \<Rightarrow> setup_world \<Rightarrow> nat res \<times> setup_world" where
  "expire_active env call w = expire_each env call (dict_values (rg_setups (read_registry (sw_file w)))) w"

section \<open>Compensation\<close>

datatype deletion = Deleted | Already_Absent | Delete_Failed string

definition own_instance :: "pdict \<Rightarrow> pdict \<Rightarrow> bool" where
  "own_instance setup res \<longleftrightarrow>
     str_or_empty (dget res ''kind'') = ''evolution_instance'' \<and> str_or_empty (dget res ''identifier'') \<noteq> [] \<and>
     str_or_empty (dget res ''identifier'') = str_or_empty (dget setup ''runtime_name'') \<and>
     dget res ''ownership_confirmed'' = PBool True"

text \<open>The result of one resource, and the instances that were asked to be deleted.\<close>

definition cleanup_resource :: "setup_env \<Rightarrow> (string \<Rightarrow> deletion) \<Rightarrow> pdict \<Rightarrow> pdict \<Rightarrow> pdict \<times> string list" where
  "cleanup_resource env delete setup res =
     (let kind = PStr (str_or_empty (dget res ''kind'')); i = str_or_empty (dget res ''identifier'');
          answer = (\<lambda>done k v. [(''kind'', kind), (''identifier'', PStr i), (''completed'', PBool done), (k, PStr v)])
      in if \<not> own_instance setup res then (answer False ''error'' ''manual_verification_required'', [])
         else case delete i of
           Deleted \<Rightarrow> (answer True ''result'' ''deleted'', [i])
         | Already_Absent \<Rightarrow> (answer True ''result'' ''already_absent'', [i])
         | Delete_Failed text \<Rightarrow> (answer False ''error'' (take 300 (redact_url (se_urls env) text)), [i]))"

definition completed :: "pdict \<Rightarrow> bool" where
  "completed result \<longleftrightarrow> dget result ''completed'' = PBool True"

definition retry_after :: "nat \<Rightarrow> int" where
  "retry_after attempt = min 3600 (30 * 2 ^ min attempt 6)"

definition cleanup_after ::
    "setup_env \<Rightarrow> setup_call \<Rightarrow> pdict \<Rightarrow> int \<Rightarrow> pdict list \<Rightarrow> pdict list \<Rightarrow> pdict" where
  "cleanup_after env call r attempt results remaining =
     (let now = PStr (se_iso env (sc_now call));
          base = dmerge (as_dict (dget r ''cleanup''))
            [(''attempts'', PInt attempt), (''last_attempt_at'', now), (''resources'', PList (map PDict results))]
      in if remaining \<noteq> []
         then [(''state'', PStr ''cleanup_pending''), (''cleanup_required'', PBool True),
               (''cleanup'', PDict (dmerge base
                  [(''next_attempt_at'', PStr (se_iso env (sc_now call + retry_after (nat attempt)))),
                   (''last_error'', case List.find (\<lambda>x. truthy (dget x ''error'')) results of None \<Rightarrow> PNone | Some x \<Rightarrow> dget x ''error'')])),
               (''updated_at'', now)]
         else [(''state'', PStr (py_str (py_or (dget r ''cleanup_final_state'') (PStr ''expired'')))),
               (''cleanup_required'', PBool False),
               (''cleanup'', PDict (dmerge base [(''completed_at'', now), (''last_error'', PNone)])),
               (''external_resources'', PList []), (''updated_at'', now)])"

definition cleanup_setup ::
    "setup_env \<Rightarrow> setup_call \<Rightarrow> bool \<Rightarrow> (string \<Rightarrow> deletion) \<Rightarrow> string \<Rightarrow> setup_world
     \<Rightarrow> (pdict option res \<times> setup_world) \<times> string list" where
  "cleanup_setup env call busy delete i w =
     (if busy then ((Inr None, w), [])
      else case find_setup env call i w of
        (Inl e, w') \<Rightarrow> ((Inl e, w'), [])
      | (Inr r, w') \<Rightarrow>
          if state_name r \<notin> {''expired'', ''cleanup_pending''} then ((Inr (Some r), w'), [])
          else case iterated (dget_default r ''external_resources'' (PList [])) of
            Inl e \<Rightarrow> ((Inl e, w'), [])
          | Inr listed \<Rightarrow>
              (let resources = map as_dict (filter is_dict listed) in
               if resources = [] then ((Inr (Some r), w'), [])
               else case py_int (py_or (dget (as_dict (dget r ''cleanup'')) ''attempts'') (PInt 0)) of
                 Inl e \<Rightarrow> ((Inl e, w'), [])
               | Inr attempts \<Rightarrow>
                   (let runs = map (cleanup_resource env delete r) resources;
                        results = map fst runs;
                        remaining = map fst (filter (\<lambda>(res, x). \<not> completed x) (zip resources results))
                    in (writing call (\<lambda>ok. update_setup_record ok i (cleanup_after env call r (attempts + 1) results remaining)) w',
                        concat (map snd runs)))))"

definition retry_due :: "setup_env \<Rightarrow> setup_call \<Rightarrow> pdict \<Rightarrow> bool res" where
  "retry_due env call r =
     (let v = (case dget r ''cleanup'' of PDict c \<Rightarrow> dget c ''next_attempt_at'' | _ \<Rightarrow> PNone) in
      if \<not> truthy v then Inr True
      else case se_parse env (py_str v) of
        No_Time \<Rightarrow> Inr True | Naive_Time \<Rightarrow> Inl TypeError | Aware_Time t \<Rightarrow> Inr (t \<le> sc_now call))"

fun due_setups :: "setup_env \<Rightarrow> setup_call \<Rightarrow> pdict list \<Rightarrow> pdict list res" where
  "due_setups env call [] = Inr []"
| "due_setups env call (r # rs) =
     (if state_name r \<notin> {''expired'', ''cleanup_pending''} \<or> \<not> truthy (dget r ''external_resources'')
      then due_setups env call rs
      else rbind (retry_due env call r) (\<lambda>due.
           rbind (due_setups env call rs) (\<lambda>ds. Inr (if due then r # ds else ds))))"

text \<open>The pass of the worker.\<close>

fun cleanup_each ::
    "setup_env \<Rightarrow> setup_call \<Rightarrow> (string \<Rightarrow> deletion) \<Rightarrow> pdict list \<Rightarrow> setup_world \<Rightarrow> (nat res \<times> setup_world) \<times> string list" where
  "cleanup_each env call delete [] w = ((Inr 0, w), [])"
| "cleanup_each env call delete (r # rs) w =
     (case vindex (PDict r) ''id'' of
        Inl e \<Rightarrow> ((Inl e, w), [])
      | Inr i \<Rightarrow>
          (case cleanup_setup env call False delete (py_str i) w of
             ((Inl e, w'), ds) \<Rightarrow> ((Inl e, w'), ds)
           | ((Inr result, w'), ds) \<Rightarrow>
               (case cleanup_each env call delete rs w' of
                  (rest, es) \<Rightarrow>
                    (and_then rest (\<lambda>n w''. (Inr (case result of None \<Rightarrow> n
                        | Some x \<Rightarrow> if x \<noteq> [] \<and> \<not> truthy (dget x ''cleanup_required'') then Suc n else n), w'')), ds @ es))))"

definition cleanup_run_once ::
    "setup_env \<Rightarrow> setup_call \<Rightarrow> (string \<Rightarrow> deletion) \<Rightarrow> setup_world \<Rightarrow> (nat res \<times> setup_world) \<times> string list" where
  "cleanup_run_once env call delete w =
     (case expire_active env call w of
        (Inl e, w') \<Rightarrow> ((Inl e, w'), [])
      | (Inr _, w') \<Rightarrow>
          (case due_setups env call (dict_values (rg_setups (read_registry (sw_file w')))) of
             Inl e \<Rightarrow> ((Inl e, w'), [])
           | Inr ds \<Rightarrow> cleanup_each env call delete (take (nat (max 1 (se_batch env))) ds) w'))"

end
