(* ===== verification/Credentials.thy ===== *)
theory Credentials
  imports Connection_Registry_Spec
begin

text \<open>
  The credentials of the Meta accounts, \<open>gateway/app/services/credential_manager.py\<close>: one file
  with the official WhatsApp credentials by instance and the OAuth credentials by provider
  account, each token and each registration PIN encrypted. The records are the dictionaries the
  code keeps. Fernet with the key derived from a material is the pair of functions
  \<open>ce_encrypt material\<close> and \<open>ce_decrypt material\<close>, the latter \<open>None\<close> for an
  invalid token; SHA-256, the clock, the random PIN and the outcome of a write are arguments.
  The audit log the operations write to is left out.
\<close>

section \<open>Settings and ciphers\<close>

record cipher_settings =
  cs_official_key :: string
  cs_provider_key :: string
  cs_gateway_key :: string
  cs_environment :: string

record cipher_env =
  ce_settings :: cipher_settings
  ce_sha256 :: "string \<Rightarrow> string"
  ce_encrypt :: "string \<Rightarrow> string \<Rightarrow> string"
  ce_decrypt :: "string \<Rightarrow> string \<Rightarrow> string option"

record cipher_call =
  cl_now :: string
  cl_disk :: bool

definition ascii_only :: "string \<Rightarrow> bool" where
  "ascii_only s \<longleftrightarrow> list_all (\<lambda>c. of_char c < (128 :: nat)) s"

definition official_material :: "cipher_settings \<Rightarrow> string res" where
  "official_material s =
     (let material = str_or (strip (cs_official_key s)) (strip (cs_gateway_key s)) in
      if material = [] then Inl (RuntimeError ''No hay clave configurada para cifrar credenciales oficiales'')
      else Inr material)"

definition provider_material :: "cipher_settings \<Rightarrow> string res" where
  "provider_material s =
     (let dedicated = strip (cs_provider_key s);
          environment = str_lower (strip (str_or (cs_environment s) ''development''));
          material = str_or (str_or dedicated (strip (cs_official_key s))) (strip (cs_gateway_key s))
      in if dedicated = [] \<and> environment \<in> {''production'', ''prod''}
         then Inl (RuntimeError ''PROVIDER_CREDENTIALS_ENCRYPTION_KEY is required in production'')
         else if material = []
         then Inl (RuntimeError ''No hay clave configurada para cifrar credenciales de provider'')
         else Inr material)"

definition seal :: "cipher_env \<Rightarrow> string res \<Rightarrow> string \<Rightarrow> string res" where
  "seal env material secret = rbind material (\<lambda>m. Inr (ce_encrypt env m secret))"

text \<open>A text that is not ASCII cannot be encoded, and that error is not caught.\<close>

definition unseal :: "cipher_env \<Rightarrow> string res \<Rightarrow> string \<Rightarrow> string \<Rightarrow> string res" where
  "unseal env material refusal ciphertext =
     rbind material (\<lambda>m.
       if \<not> ascii_only ciphertext then Inl (ValueError ''ordinal not in range(128)'')
       else case ce_decrypt env m ciphertext of
         None \<Rightarrow> Inl (RuntimeError refusal)
       | Some secret \<Rightarrow> Inr secret)"

definition encrypt_official :: "cipher_env \<Rightarrow> string \<Rightarrow> string res" where
  "encrypt_official env = seal env (official_material (ce_settings env))"

definition decrypt_official :: "cipher_env \<Rightarrow> string \<Rightarrow> string \<Rightarrow> string res" where
  "decrypt_official env ciphertext secret_name =
     unseal env (official_material (ce_settings env))
       (''No se pudo descifrar '' @ secret_name @ ''; reconecta WhatsApp Oficial'') ciphertext"

definition encrypt_provider :: "cipher_env \<Rightarrow> string \<Rightarrow> string res" where
  "encrypt_provider env = seal env (provider_material (ce_settings env))"

definition decrypt_provider :: "cipher_env \<Rightarrow> string \<Rightarrow> string res" where
  "decrypt_provider env =
     unseal env (provider_material (ce_settings env))
       ''No se pudo descifrar la credencial del provider; reconecta la cuenta''"

section \<open>Records\<close>

definition blocked_metadata_keys :: "string list" where
  "blocked_metadata_keys =
     [''cloudApiActive'', ''coexistence'', ''coexistenceState'', ''health'', ''healthChecks'',
      ''lifecycleSignals'', ''permissionsInsufficient'', ''status'', ''tokenConfigured'', ''tokenExpired'',
      ''tokenStatus'', ''webhookConfigured'', ''webhookInvalid'', ''webhookStatus'',
      ''whatsappBusinessAppAvailable'']"

definition sanitize_metadata :: "pdict option \<Rightarrow> pdict" where
  "sanitize_metadata metadata =
     (case metadata of
        None \<Rightarrow> []
      | Some d \<Rightarrow> filter (\<lambda>kv. fst kv \<notin> set blocked_metadata_keys) d)"

record official_credential =
  oc_instance :: string
  oc_phone :: string
  oc_business :: string
  oc_token_ref :: string
  oc_token_hash :: "string option"
  oc_has_pin :: bool
  oc_source :: string
  oc_created :: pval
  oc_updated :: pval
  oc_metadata :: pdict

text \<open>\<open>str(value or default)\<close> for a text that is not empty.\<close>

definition str_default :: "pval \<Rightarrow> string \<Rightarrow> string" where
  "str_default v d = py_str (py_or v (PStr d))"

definition official_of :: "pdict \<Rightarrow> official_credential" where
  "official_of r =
     \<lparr> oc_instance = str_or_empty (dget r ''instanceName''), oc_phone = str_or_empty (dget r ''phoneNumberId''),
       oc_business = str_or_empty (dget r ''businessAccountId''),
       oc_token_ref = str_or_empty (dget r ''accessTokenRef''),
       oc_token_hash = or_none (str_or_empty (dget r ''accessTokenHash'')),
       oc_has_pin = (clean_str (dget r ''registrationPinCiphertext'') \<noteq> []),
       oc_source = str_default (dget r ''source'') ''unknown'', oc_created = dget r ''createdAt'',
       oc_updated = dget r ''updatedAt'', oc_metadata = as_dict (dget r ''metadata'') \<rparr>"

definition official_public :: "official_credential \<Rightarrow> pdict" where
  "official_public c =
     [(''instanceName'', PStr (oc_instance c)), (''phoneNumberId'', PStr (oc_phone c)),
      (''businessAccountId'', PStr (oc_business c)), (''accessTokenRef'', PStr (oc_token_ref c)),
      (''hasAccessTokenHash'', PBool (oc_token_hash c \<noteq> None)), (''hasRegistrationPin'', PBool (oc_has_pin c)),
      (''source'', PStr (oc_source c)), (''createdAt'', oc_created c), (''updatedAt'', oc_updated c),
      (''metadata'', PDict (oc_metadata c))]"

record provider_account =
  pa_provider :: string
  pa_channel :: string
  pa_account :: string

definition provider_account_of :: "string \<Rightarrow> string \<Rightarrow> string \<Rightarrow> provider_account res" where
  "provider_account_of p c a =
     (if strip p = [] then Inl (ValueError ''provider_id is required'')
      else if strip c = [] then Inl (ValueError ''channel_type is required'')
      else if strip a = [] then Inl (ValueError ''provider_account_id is required'')
      else Inr \<lparr> pa_provider = p, pa_channel = c, pa_account = a \<rparr>)"

definition storage_key :: "provider_account \<Rightarrow> string" where
  "storage_key a =
     str_lower (strip (pa_provider a)) @ '':'' @ str_lower (strip (pa_channel a)) @ '':'' @ pa_account a"

record provider_credential =
  pc_account :: provider_account
  pc_token_ref :: string
  pc_token_hash :: "string option"
  pc_source :: string
  pc_scopes :: "string list"
  pc_expires :: "string option"
  pc_created :: "string option"
  pc_updated :: "string option"
  pc_metadata :: pdict

definition str_if :: "pval \<Rightarrow> string option" where
  "str_if v = (if truthy v then Some (py_str v) else None)"

definition provider_of :: "pdict \<Rightarrow> provider_credential res" where
  "provider_of r =
     rbind (provider_account_of (str_or_empty (dget r ''provider'')) (str_or_empty (dget r ''channelType''))
              (str_or_empty (dget r ''providerAccountId''))) (\<lambda>account.
     Inr \<lparr> pc_account = account, pc_token_ref = str_or_empty (dget r ''accessTokenRef''),
       pc_token_hash = or_none (str_or_empty (dget r ''accessTokenHash'')),
       pc_source = str_default (dget r ''source'') ''unknown'',
       pc_scopes = map py_str (as_list (dget r ''scopes'')), pc_expires = str_if (dget r ''expiresAt''),
       pc_created = str_if (dget r ''createdAt''), pc_updated = str_if (dget r ''updatedAt''),
       pc_metadata = as_dict (dget r ''metadata'') \<rparr>)"

definition provider_public :: "provider_credential \<Rightarrow> pdict" where
  "provider_public c =
     [(''provider'', PStr (pa_provider (pc_account c))), (''channelType'', PStr (pa_channel (pc_account c))),
      (''providerAccountId'', PStr (pa_account (pc_account c))), (''accessTokenRef'', PStr (pc_token_ref c)),
      (''hasAccessTokenHash'', PBool (pc_token_hash c \<noteq> None)), (''source'', PStr (pc_source c)),
      (''scopes'', PList (map PStr (pc_scopes c))), (''expiresAt'', pstr_opt (pc_expires c)),
      (''createdAt'', pstr_opt (pc_created c)), (''updatedAt'', pstr_opt (pc_updated c)),
      (''metadata'', PDict (pc_metadata c))]"

text \<open>
  Moments in microseconds; \<open>parse\<close> is \<open>datetime.fromisoformat\<close>. An expiry without a zone
  cannot be compared with the clock.
\<close>

definition expiry_state :: "(string \<Rightarrow> parsed_time) \<Rightarrow> int \<Rightarrow> provider_credential \<Rightarrow> string res" where
  "expiry_state parse now c =
     (case pc_expires c of
        None \<Rightarrow> Inr ''active''
      | Some text \<Rightarrow>
          if text = [] then Inr ''active''
          else case parse text of
            No_Time \<Rightarrow> Inr ''unknown''
          | Naive_Time \<Rightarrow> Inl TypeError
          | Aware_Time expiry \<Rightarrow>
              Inr (if expiry \<le> now then ''expired''
                   else if expiry - now \<le> 7 * 24 * 60 * 60 * 1000000 then ''expiring'' else ''active''))"

section \<open>The file\<close>

type_synonym credential_file = "pdict json_file"

definition empty_credentials :: pdict where
  "empty_credentials = [(''official'', PDict []), (''providerAccounts'', PDict [])]"

fun load_credentials :: "credential_file \<Rightarrow> pdict" where
  "load_credentials (Holds p) =
     (if is_dict (dget p ''official'')
      then dset p ''providerAccounts'' (PDict (as_dict (dget p ''providerAccounts'')))
      else empty_credentials)"
| "load_credentials _ = empty_credentials"

definition save_credentials :: "bool \<Rightarrow> pdict \<Rightarrow> credential_file \<Rightarrow> unit res \<times> credential_file" where
  "save_credentials disk_ok p f = replace_file disk_ok (sorted_dict p) f"

text \<open>Writing, and what the operation answers once the file is written.\<close>

definition saving :: "bool \<Rightarrow> pdict \<Rightarrow> 'a res \<Rightarrow> credential_file \<Rightarrow> 'a res \<times> credential_file" where
  "saving disk_ok p answer f =
     (case save_credentials disk_ok p f of
        (Inl e, f') \<Rightarrow> (Inl e, f')
      | (Inr _, f') \<Rightarrow> (answer, f'))"

definition officials :: "credential_file \<Rightarrow> pdict" where
  "officials f = as_dict (dget (load_credentials f) ''official'')"

definition provider_accounts :: "credential_file \<Rightarrow> pdict" where
  "provider_accounts f = as_dict (dget (load_credentials f) ''providerAccounts'')"

definition official_at :: "string \<Rightarrow> credential_file \<Rightarrow> pdict option" where
  "official_at i f = dict_at (officials f) i"

definition provider_at :: "provider_account \<Rightarrow> credential_file \<Rightarrow> pdict option" where
  "provider_at a f = dict_at (provider_accounts f) (storage_key a)"

definition with_officials :: "pdict \<Rightarrow> credential_file \<Rightarrow> pdict" where
  "with_officials d f = dset (load_credentials f) ''official'' (PDict d)"

definition with_accounts :: "pdict \<Rightarrow> credential_file \<Rightarrow> pdict" where
  "with_accounts d f = dset (load_credentials f) ''providerAccounts'' (PDict d)"

fun dict_or_empty :: "pdict option \<Rightarrow> pdict" where
  "dict_or_empty None = []"
| "dict_or_empty (Some d) = d"

section \<open>Official credentials\<close>

definition official_dict ::
    "cipher_env \<Rightarrow> string \<Rightarrow> pdict \<Rightarrow> string \<Rightarrow> string \<Rightarrow> string \<Rightarrow> string \<Rightarrow> string \<Rightarrow> string \<Rightarrow> pdict option \<Rightarrow> pdict" where
  "official_dict env now previous inst access_token ciphertext phone business source metadata =
     [(''instanceName'', PStr inst), (''phoneNumberId'', PStr phone), (''businessAccountId'', PStr business),
      (''accessTokenRef'', PStr (''meta://waba/'' @ business @ ''/phones/'' @ phone @ ''/token'')),
      (''accessTokenHash'', PStr (ce_sha256 env access_token)), (''accessTokenCiphertext'', PStr ciphertext),
      (''registrationPinCiphertext'',
        if str_or_empty (dget previous ''phoneNumberId'') = phone
        then dget previous ''registrationPinCiphertext'' else PNone),
      (''source'', PStr source), (''createdAt'', py_or (dget previous ''createdAt'') (PStr now)),
      (''updatedAt'', PStr now), (''metadata'', PDict (sanitize_metadata metadata))]"

definition upsert_official_credentials ::
    "cipher_env \<Rightarrow> cipher_call \<Rightarrow> string \<Rightarrow> string \<Rightarrow> string \<Rightarrow> string \<Rightarrow> string \<Rightarrow> pdict option \<Rightarrow> credential_file
     \<Rightarrow> official_credential res \<times> credential_file" where
  "upsert_official_credentials env cl inst access_token phone business source metadata f =
     (case encrypt_official env access_token of
        Inl e \<Rightarrow> (Inl e, f)
      | Inr ciphertext \<Rightarrow>
          (let r = official_dict env (cl_now cl) (dict_or_empty (official_at inst f)) inst access_token ciphertext
                     phone business source metadata
           in saving (cl_disk cl) (with_officials (dset (officials f) inst (PDict r)) f) (Inr (official_of r)) f))"

definition official_credentials_info :: "string \<Rightarrow> credential_file \<Rightarrow> official_credential option" where
  "official_credentials_info inst f = map_option official_of (official_at inst f)"

text \<open>A stored text that is not a blank string.\<close>

definition stored_text :: "pdict \<Rightarrow> string \<Rightarrow> string option" where
  "stored_text r k = (case dget r k of PStr s \<Rightarrow> if strip s = [] then None else Some s | _ \<Rightarrow> None)"

definition official_access_token :: "cipher_env \<Rightarrow> string \<Rightarrow> credential_file \<Rightarrow> string option res" where
  "official_access_token env inst f =
     (case official_at inst f of
        None \<Rightarrow> Inr None
      | Some r \<Rightarrow>
          (case stored_text r ''accessTokenCiphertext'' of
             None \<Rightarrow> Inr None
           | Some c \<Rightarrow> rbind (decrypt_official env c ''la credencial oficial'') (\<lambda>t. Inr (Some t))))"

definition six_digits :: "string \<Rightarrow> bool" where
  "six_digits pin \<longleftrightarrow> length pin = 6 \<and> ascii_only pin \<and> isdigit pin"

definition store_pin ::
    "cipher_env \<Rightarrow> cipher_call \<Rightarrow> string \<Rightarrow> pdict \<Rightarrow> string \<Rightarrow> credential_file \<Rightarrow> string res \<times> credential_file" where
  "store_pin env cl inst r pin f =
     (case encrypt_official env pin of
        Inl e \<Rightarrow> (Inl e, f)
      | Inr ciphertext \<Rightarrow>
          saving (cl_disk cl)
            (with_officials (dset (officials f) inst (PDict
               (dset (dset r ''registrationPinCiphertext'' (PStr ciphertext)) ''updatedAt'' (PStr (cl_now cl))))) f)
            (Inr pin) f)"

text \<open>The draw is \<open>secrets.randbelow(900_000)\<close>.\<close>

definition get_or_create_registration_pin ::
    "cipher_env \<Rightarrow> cipher_call \<Rightarrow> nat \<Rightarrow> string \<Rightarrow> string option \<Rightarrow> credential_file \<Rightarrow> string res \<times> credential_file" where
  "get_or_create_registration_pin env cl draw inst provided f =
     (case official_at inst f of
        None \<Rightarrow> (Inl (RuntimeError ''No hay credenciales oficiales para guardar el PIN de registro''), f)
      | Some r \<Rightarrow>
          (case provided of
             Some text \<Rightarrow>
               (if \<not> six_digits (strip text)
                then (Inl (RuntimeError ''El PIN debe contener exactamente seis digitos''), f)
                else store_pin env cl inst r (strip text) f)
           | None \<Rightarrow>
               (case stored_text r ''registrationPinCiphertext'' of
                  Some c \<Rightarrow>
                    (rbind (decrypt_official env c ''el PIN de registro'') (\<lambda>pin.
                       if six_digits pin then Inr pin
                       else Inl (RuntimeError ''El PIN de registro almacenado no tiene seis digitos; reconecta WhatsApp Oficial'')),
                     f)
                | None \<Rightarrow> store_pin env cl inst r (nat_str (draw + 100000)) f)))"

definition find_instance_by_phone_number_id :: "pval \<Rightarrow> credential_file \<Rightarrow> string option" where
  "find_instance_by_phone_number_id phone f =
     (let target = clean_str phone in
      if target = [] then None
      else map_option fst
        (List.find (\<lambda>(_, r). is_dict r \<and> clean_str (dget (as_dict r) ''phoneNumberId'') = target) (officials f)))"

definition delete_official_credentials :: "cipher_call \<Rightarrow> string \<Rightarrow> credential_file \<Rightarrow> unit res \<times> credential_file" where
  "delete_official_credentials cl inst f =
     (if dhas (officials f) inst
      then saving (cl_disk cl) (with_officials (AList.delete inst (officials f)) f) (Inr ()) f
      else (Inr (), f))"

section \<open>Credentials of provider accounts\<close>

definition provider_dict ::
    "cipher_env \<Rightarrow> string \<Rightarrow> pdict \<Rightarrow> provider_account \<Rightarrow> string \<Rightarrow> string \<Rightarrow> string \<Rightarrow> string \<Rightarrow> string list
     \<Rightarrow> string option \<Rightarrow> pdict option \<Rightarrow> pdict" where
  "provider_dict env now previous a access_token ciphertext token_ref source scopes expires metadata =
     [(''provider'', PStr (str_lower (strip (pa_provider a)))),
      (''channelType'', PStr (str_lower (strip (pa_channel a)))),
      (''providerAccountId'', PStr (pa_account a)), (''accessTokenRef'', PStr (strip token_ref)),
      (''accessTokenHash'', PStr (ce_sha256 env access_token)), (''accessTokenCiphertext'', PStr ciphertext),
      (''source'', PStr (str_or source ''unknown'')),
      (''scopes'', PList (map PStr (sort (remdups (filter (\<lambda>s. s \<noteq> []) (map strip scopes)))))),
      (''expiresAt'', pstr_opt expires), (''createdAt'', py_or (dget previous ''createdAt'') (PStr now)),
      (''updatedAt'', PStr now), (''metadata'', PDict (sanitize_metadata metadata))]"

definition upsert_provider_credentials ::
    "cipher_env \<Rightarrow> cipher_call \<Rightarrow> provider_account \<Rightarrow> string \<Rightarrow> string \<Rightarrow> string \<Rightarrow> string list \<Rightarrow> string option
     \<Rightarrow> pdict option \<Rightarrow> credential_file \<Rightarrow> provider_credential res \<times> credential_file" where
  "upsert_provider_credentials env cl a access_token token_ref source scopes expires metadata f =
     (if strip access_token = [] then (Inl (ValueError ''access_token is required''), f)
      else if strip token_ref = [] then (Inl (ValueError ''access_token_ref is required''), f)
      else case encrypt_provider env access_token of
        Inl e \<Rightarrow> (Inl e, f)
      | Inr ciphertext \<Rightarrow>
          (let r = provider_dict env (cl_now cl) (dict_or_empty (provider_at a f)) a access_token ciphertext
                     token_ref source scopes expires metadata
           in saving (cl_disk cl) (with_accounts (dset (provider_accounts f) (storage_key a) (PDict r)) f)
                (provider_of r) f))"

definition list_provider_credentials ::
    "string \<Rightarrow> string \<Rightarrow> credential_file \<Rightarrow> provider_credential list res" where
  "list_provider_credentials provider_id channel_type f =
     traverse provider_of
       (filter (\<lambda>r. dget r ''provider'' = PStr provider_id \<and> dget r ''channelType'' = PStr channel_type)
          (dict_values (provider_accounts f)))"

definition mark_provider_credentials_expired ::
    "cipher_call \<Rightarrow> provider_account \<Rightarrow> credential_file \<Rightarrow> unit res \<times> credential_file" where
  "mark_provider_credentials_expired cl a f =
     (case provider_at a f of
        None \<Rightarrow> (Inr (), f)
      | Some r \<Rightarrow>
          saving (cl_disk cl)
            (with_accounts (dset (provider_accounts f) (storage_key a) (PDict
               (dset (dset r ''expiresAt'' (PStr (cl_now cl))) ''updatedAt'' (PStr (cl_now cl))))) f)
            (Inr ()) f)"

definition provider_credentials :: "provider_account \<Rightarrow> credential_file \<Rightarrow> provider_credential option res" where
  "provider_credentials a f =
     (case provider_at a f of
        None \<Rightarrow> Inr None
      | Some r \<Rightarrow> rbind (provider_of r) (\<lambda>c. Inr (Some c)))"

definition provider_access_token :: "cipher_env \<Rightarrow> provider_account \<Rightarrow> credential_file \<Rightarrow> string option res" where
  "provider_access_token env a f =
     (case provider_at a f of
        None \<Rightarrow> Inr None
      | Some r \<Rightarrow>
          (case stored_text r ''accessTokenCiphertext'' of
             None \<Rightarrow> Inr None
           | Some c \<Rightarrow> rbind (decrypt_provider env c) (\<lambda>t. Inr (Some t))))"

definition delete_provider_credentials ::
    "cipher_call \<Rightarrow> provider_account \<Rightarrow> credential_file \<Rightarrow> bool res \<times> credential_file" where
  "delete_provider_credentials cl a f =
     (if \<not> dhas (provider_accounts f) (storage_key a) then (Inr False, f)
      else saving (cl_disk cl) (with_accounts (AList.delete (storage_key a) (provider_accounts f)) f) (Inr True) f)"

end
