(* ===== verification/Clients.thy ===== *)
theory Clients
  imports Connection_Registry
begin

text \<open>
  The clients, \<open>gateway/app/services/clients.py\<close> over the registry: the owners of connections.
\<close>

record client =
  cl_id :: string
  cl_name :: string
  cl_description :: "string option"
  cl_created_at :: string
  cl_updated_at :: string

definition client_not_found :: "string \<Rightarrow> py_exc" where
  "client_not_found i = AppError ''ClientNotFoundError'' None i"

definition client_of :: "pdict \<Rightarrow> client res" where
  "client_of r =
     rbind (vindex (PDict r) ''id'') (\<lambda>i.
     rbind (vindex (PDict r) ''name'') (\<lambda>n.
     rbind (vindex (PDict r) ''created_at'') (\<lambda>c.
     rbind (vindex (PDict r) ''updated_at'') (\<lambda>u.
       Inr \<lparr> cl_id = py_str i, cl_name = py_str n,
             cl_description = (case dget r ''description'' of PStr s \<Rightarrow> Some s | _ \<Rightarrow> None),
             cl_created_at = py_str c, cl_updated_at = py_str u \<rparr>))))"

definition client_dict :: "client \<Rightarrow> pdict" where
  "client_dict c =
     [(''id'', PStr (cl_id c)), (''name'', PStr (cl_name c)), (''description'', pstr_opt (cl_description c)),
      (''created_at'', PStr (cl_created_at c)), (''updated_at'', PStr (cl_updated_at c))]"

definition all_clients :: "registry_file \<Rightarrow> client list res" where
  "all_clients f =
     rbind (traverse client_of (list_clients f)) (\<lambda>cs. Inr (sort_key (\<lambda>c. (str_lower (cl_name c), cl_id c)) cs))"

definition find_client :: "string \<Rightarrow> registry_file \<Rightarrow> client res" where
  "find_client i f = (case get_client i f of None \<Rightarrow> Inl (client_not_found i) | Some r \<Rightarrow> client_of r)"

record client_overview =
  co_client :: client
  co_connections :: nat
  co_last_activity :: "string option"

definition get_client_overview :: "string \<Rightarrow> registry_file \<Rightarrow> client_overview res" where
  "get_client_overview i f =
     rbind (find_client i f) (\<lambda>c.
       case client_connection_summary (cl_id c) f of
         (n, recent) \<Rightarrow> Inr \<lparr> co_client = c, co_connections = n, co_last_activity = recent \<rparr>)"

definition list_client_overviews :: "registry_file \<Rightarrow> client_overview list res" where
  "list_client_overviews f = rbind (all_clients f) (traverse (\<lambda>c. get_client_overview (cl_id c) f))"

definition clean_description :: "string option \<Rightarrow> string option" where
  "clean_description d = (case d of None \<Rightarrow> None | Some s \<Rightarrow> or_none (strip s))"

definition create_client ::
    "bool \<Rightarrow> string \<Rightarrow> string \<Rightarrow> string \<Rightarrow> string option \<Rightarrow> registry_file \<Rightarrow> client res \<times> registry_file" where
  "create_client disk_ok now uid name description f =
     (if strip name = [] then (Inl (ValueError ''Client name is required''), f)
      else let c = \<lparr> cl_id = uid, cl_name = strip name, cl_description = clean_description description,
                     cl_created_at = now, cl_updated_at = now \<rparr> in
           case save_client disk_ok (client_dict c) f of
             (Inl e, f') \<Rightarrow> (Inl e, f') | (Inr _, f') \<Rightarrow> (Inr c, f'))"

text \<open>A change leaves out what is \<open>None\<close>; a description may be changed to none.\<close>

definition update_client ::
    "bool \<Rightarrow> string \<Rightarrow> string \<Rightarrow> string option \<Rightarrow> string option option \<Rightarrow> registry_file \<Rightarrow> client res \<times> registry_file" where
  "update_client disk_ok now i name description f =
     (case find_client i f of
        Inl e \<Rightarrow> (Inl e, f)
      | Inr current \<Rightarrow>
          (let next = (case name of None \<Rightarrow> cl_name current | Some n \<Rightarrow> strip n) in
           if next = [] then (Inl (ValueError ''Client name is required''), f)
           else let c = current\<lparr> cl_name := next, cl_updated_at := now,
                          cl_description := (case description of None \<Rightarrow> cl_description current | Some d \<Rightarrow> clean_description d) \<rparr> in
                case save_client disk_ok (client_dict c) f of
                  (Inl e, f') \<Rightarrow> (Inl e, f') | (Inr _, f') \<Rightarrow> (Inr c, f')))"

definition remove_client :: "bool \<Rightarrow> string \<Rightarrow> registry_file \<Rightarrow> unit res \<times> registry_file" where
  "remove_client disk_ok i f =
     (case delete_client_if_unconnected disk_ok i f of
        (Inl e, f') \<Rightarrow> (Inl e, f')
      | (Inr Client_Not_Found, f') \<Rightarrow> (Inl (client_not_found i), f')
      | (Inr Client_Has_Connections, f') \<Rightarrow>
          (Inl (AppError ''ClientHasConnectionsError'' None ''A client with connections cannot be deleted''), f')
      | (Inr Client_Deleted, f') \<Rightarrow> (Inr (), f'))"

end
