(* ===== verification/Connections.thy ===== *)
theory Connections
  imports Connection_Setups Credentials Core_Credentials Clients Timeline Evolution_Webhook
begin

text \<open>
  The connections as the product knows them: \<open>gateway/app/services/connections.py\<close>, the resource
  of \<open>gateway/app/domain/connection.py\<close> and the adapter of \<open>services/connection_adapter.py\<close>, over
  the registry, the credentials of the provider accounts, the keys towards Core and the activity
  timeline. What the connection manager answers is an argument: the instances it runs, normalised,
  and the outcome of each call; so is the answer of the Graph API to a text. A file is written or
  not as the call says.
\<close>

section \<open>The resource\<close>

record capabilities =
  cb_messaging :: bool
  cb_webhook :: bool
  cb_media :: bool
  cb_qr :: bool
  cb_reconnect :: bool
  cb_api_key :: bool
  cb_official_api :: bool
  cb_templates :: bool

record connection =
  cn_id :: string
  cn_client_id :: string
  cn_name :: string
  cn_display_name :: "string option"
  cn_address :: "string option"
  cn_provider :: "string \<times> string"
  cn_channel :: "string \<times> string \<times> string option"
  cn_state :: string
  cn_lifecycle :: "string option"
  cn_health :: string
  cn_capabilities :: capabilities
  cn_client :: "string \<times> string"
  cn_last_activity_at :: "string option"
  cn_created_at :: "string option"
  cn_updated_at :: "string option"
  cn_provider_account :: "pdict option"
  cn_core_channel :: "pdict option"
  cn_readiness :: "pdict option"
  cn_runtime_name :: "string option"

definition capabilities_dict :: "capabilities \<Rightarrow> pdict" where
  "capabilities_dict c =
     [(''supports_messaging'', PBool (cb_messaging c)), (''supports_webhook'', PBool (cb_webhook c)),
      (''supports_media'', PBool (cb_media c)), (''supports_qr'', PBool (cb_qr c)),
      (''supports_reconnect'', PBool (cb_reconnect c)), (''supports_api_key'', PBool (cb_api_key c)),
      (''supports_official_api'', PBool (cb_official_api c)), (''supports_templates'', PBool (cb_templates c))]"

text \<open>\<open>dict(value) if value else None\<close>.\<close>

definition dict_or_null :: "pdict option \<Rightarrow> pval" where
  "dict_or_null d = (case d of None \<Rightarrow> PNone | Some e \<Rightarrow> if e = [] then PNone else PDict e)"

definition connection_public :: "connection \<Rightarrow> pdict" where
  "connection_public c =
     [(''id'', PStr (cn_id c)), (''client_id'', PStr (cn_client_id c)), (''name'', PStr (cn_name c)),
      (''display_name'', pstr_opt (cn_display_name c)), (''address'', pstr_opt (cn_address c)),
      (''provider'', PDict [(''id'', PStr (fst (cn_provider c))), (''display_name'', PStr (snd (cn_provider c)))]),
      (''channel'', (case cn_channel c of (i, n, icon) \<Rightarrow>
         PDict [(''id'', PStr i), (''display_name'', PStr n), (''icon'', pstr_opt icon)])),
      (''status'', PDict [(''state'', PStr (cn_state c)), (''lifecycle'', pstr_opt (cn_lifecycle c)), (''health'', PStr (cn_health c))]),
      (''capabilities'', PDict (capabilities_dict (cn_capabilities c))),
      (''webhook'', PDict [(''supported'', PBool True)]), (''api_key'', PDict [(''supported'', PBool True)]),
      (''logs'', PDict [(''supported'', PBool True)]),
      (''client'', PDict [(''id'', PStr (fst (cn_client c))), (''name'', PStr (snd (cn_client c)))]),
      (''last_activity_at'', pstr_opt (cn_last_activity_at c)), (''created_at'', pstr_opt (cn_created_at c)),
      (''updated_at'', pstr_opt (cn_updated_at c)), (''provider_account'', dict_or_null (cn_provider_account c)),
      (''core_channel'', dict_or_null (cn_core_channel c)), (''readiness'', dict_or_null (cn_readiness c)),
      (''runtime_name'', pstr_opt (cn_runtime_name c))]"

section \<open>State, settings and arguments of a call\<close>

record conn_world =
  cw_registry :: registry_file
  cw_credentials :: credential_file
  cw_core_keys :: core_cred_file
  cw_timeline :: timeline

record conn_env =
  cv_settings :: settings_file
  cv_cipher :: cipher_env
  cv_fernet :: fernet
  cv_core :: cred_settings
  cv_parse :: "string \<Rightarrow> parsed_time"
  cv_retention :: nat

record conn_call =
  ca_now :: string
  ca_now_us :: int
  ca_now_ms :: int
  ca_uid :: string
  ca_instances :: "pdict list res"
  ca_disk :: "string \<Rightarrow> bool"

definition on_registry ::
    "(registry_file \<Rightarrow> 'a res \<times> registry_file) \<Rightarrow> conn_world \<Rightarrow> 'a res \<times> conn_world" where
  "on_registry f w = (case f (cw_registry w) of (r, g) \<Rightarrow> (r, w\<lparr> cw_registry := g \<rparr>))"

definition on_credentials ::
    "(credential_file \<Rightarrow> 'a res \<times> credential_file) \<Rightarrow> conn_world \<Rightarrow> 'a res \<times> conn_world" where
  "on_credentials f w = (case f (cw_credentials w) of (r, g) \<Rightarrow> (r, w\<lparr> cw_credentials := g \<rparr>))"

definition on_core_keys ::
    "(core_cred_file \<Rightarrow> 'a res \<times> core_cred_file) \<Rightarrow> conn_world \<Rightarrow> 'a res \<times> conn_world" where
  "on_core_keys f w = (case f (cw_core_keys w) of (r, g) \<Rightarrow> (r, w\<lparr> cw_core_keys := g \<rparr>))"

definition reading :: "'a res \<Rightarrow> conn_world \<Rightarrow> 'a res \<times> conn_world" where
  "reading r w = (r, w)"

definition cipher_call_of :: "conn_call \<Rightarrow> cipher_call" where
  "cipher_call_of call = \<lparr> cl_now = ca_now call, cl_disk = ca_disk call ''credentials'' \<rparr>"

definition conn_not_found :: "string \<Rightarrow> py_exc" where
  "conn_not_found i = AppError ''ConnectionNotFoundError'' None i"

definition conn_client_not_found :: "string \<Rightarrow> py_exc" where
  "conn_client_not_found i = AppError ''ConnectionClientNotFoundError'' None i"

definition unsupported_provider :: "string \<Rightarrow> py_exc" where
  "unsupported_provider s = AppError ''UnsupportedConnectionProviderError'' None s"

definition unsupported_channel :: "string \<Rightarrow> py_exc" where
  "unsupported_channel s = AppError ''UnsupportedConnectionChannelError'' None s"

section \<open>Instagram connections\<close>

definition runtime_name :: "pdict \<Rightarrow> string" where
  "runtime_name r = str_or_empty (dget r ''legacy_name'')"

definition client_reference :: "string \<Rightarrow> registry_file \<Rightarrow> (string \<times> string) res" where
  "client_reference i f =
     (case get_client i f of
        None \<Rightarrow> Inl (conn_client_not_found i)
      | Some c \<Rightarrow> rbind (vindex (PDict c) ''id'') (\<lambda>i. rbind (vindex (PDict c) ''name'') (\<lambda>n. Inr (py_str i, py_str n))))"

definition stored_by_id :: "string \<Rightarrow> registry_file \<Rightarrow> pdict res" where
  "stored_by_id i f = (case connection_record_by_id i f of None \<Rightarrow> Inl (conn_not_found i) | Some r \<Rightarrow> Inr r)"

definition is_meta_instagram :: "pdict \<Rightarrow> bool" where
  "is_meta_instagram r \<longleftrightarrow>
     str_or_empty (dget r ''provider_id'') = ''meta'' \<and> str_or_empty (dget r ''channel_id'') = ''instagram''"

definition require_instagram_meta_connection :: "string \<Rightarrow> registry_file \<Rightarrow> pdict res" where
  "require_instagram_meta_connection i f =
     rbind (stored_by_id i f) (\<lambda>r.
       if is_meta_instagram r then Inr r
       else Inl (unsupported_provider ''Instagram OAuth requires a Meta + Instagram connection''))"

definition bound_account :: "pdict \<Rightarrow> string" where
  "bound_account r = str_or_empty (dget (sub_dict r ''provider_account'') ''providerAccountId'')"

definition instagram_core_channel_binding :: "string \<Rightarrow> registry_file \<Rightarrow> (string \<times> string \<times> string) option res" where
  "instagram_core_channel_binding i f =
     rbind (require_instagram_meta_connection i f) (\<lambda>r.
       let binding = sub_dict r ''core_channel''; channel = clean_str (dget binding ''channelId'') in
       Inr (if channel = [] then None
            else Some (channel, str_or_empty (dget binding ''credentialRef''), str_or_empty (dget binding ''bindingId''))))"

definition flagged :: "pdict \<Rightarrow> string \<Rightarrow> bool" where
  "flagged d k \<longleftrightarrow> dget d k = PBool True \<or> dget d k = PStr ''true''"

text \<open>The readiness of a connection whose credential has not expired and has the scopes asked for.\<close>

definition live_readiness ::
    "conn_env \<Rightarrow> string \<Rightarrow> pdict \<Rightarrow> string \<Rightarrow> registry_file \<Rightarrow> core_cred_file \<Rightarrow> pdict res" where
  "live_readiness env i r expiry f keys =
     rbind (instagram_core_channel_binding i f) (\<lambda>binding.
       let core_valid = (case binding of
             None \<Rightarrow> False
           | Some (channel, _) \<Rightarrow>
               (case get_core_key (cv_fernet env) (cv_core env) i channel keys of Inr (Some k) \<Rightarrow> k \<noteq> [] | _ \<Rightarrow> False));
           delivery = (binding \<noteq> None \<and> core_valid);
           metadata = sub_dict (sub_dict r ''provider_account'') ''metadata'';
           legacy = (str_or_empty (dget r ''status_state'') = ''connected'' \<and> delivery);
           verified = (flagged metadata ''metaApiVerified'' \<or> legacy);
           subscribed = (flagged metadata ''webhookSubscribed'' \<or> legacy)
       in Inr [(''state'', PStr (if verified \<and> subscribed then ''ready'' else ''meta_verification_pending'')),
               (''ready'', PBool (verified \<and> subscribed)), (''configured'', PBool True), (''authenticated'', PBool True),
               (''accountDiscovered'', PBool True), (''credentialValid'', PBool True),
               (''requiredScopesPresent'', PBool True), (''tokenExpiry'', PStr expiry),
               (''coreBindingPresent'', PBool (binding \<noteq> None)), (''coreCredentialValid'', PBool core_valid),
               (''metaApiVerified'', PBool verified), (''webhookSubscribed'', PBool subscribed),
               (''coreDeliveryReady'', PBool delivery)])"

definition unready :: "string \<Rightarrow> (string \<times> pval) list \<Rightarrow> pdict" where
  "unready state more_items = [(''state'', PStr state), (''ready'', PBool False)] @ more_items"

definition bound_reference :: "pdict \<Rightarrow> provider_account res" where
  "bound_reference binding = provider_account_of ''meta'' ''instagram'' (str_or_empty (dget binding ''providerAccountId''))"

definition instagram_readiness ::
    "conn_env \<Rightarrow> int \<Rightarrow> string \<Rightarrow> string list \<Rightarrow> conn_world \<Rightarrow> pdict res" where
  "instagram_readiness env now i required_scopes w =
     (case connection_record_by_id i (cw_registry w) of
        None \<Rightarrow> Inr (unready ''no_connection'' [])
      | Some r \<Rightarrow>
          rbind (require_instagram_meta_connection i (cw_registry w)) (\<lambda>_.
            let account = sub_dict r ''provider_account'';
                known = [(''configured'', PBool True), (''authenticated'', PBool True), (''accountDiscovered'', PBool True)]
            in if str_or_empty (dget r ''status_state'') = ''disconnected'' then Inr (unready ''disconnected'' [])
               else if account = []
               then Inr (unready ''oauth_pending'' [(''configured'', PBool True), (''authenticated'', PBool False)])
               else rbind (rbind (bound_reference account) (\<lambda>a. provider_credentials a (cw_credentials w))) (\<lambda>found.
                 case found of
                   None \<Rightarrow> Inr (unready ''credential_missing'' known)
                 | Some c \<Rightarrow>
                     rbind (expiry_state (cv_parse env) now c) (\<lambda>expiry.
                       let absent = sort (remdups (filter (\<lambda>s. s \<notin> set (pc_scopes c)) required_scopes)) in
                       if expiry = ''expired''
                       then Inr (unready ''expired'' (known @ [(''credentialValid'', PBool False), (''tokenExpiry'', PStr expiry)]))
                       else if absent \<noteq> []
                       then Inr (unready ''missing_scopes'' (known @ [(''credentialValid'', PBool True),
                              (''missingScopes'', PList (map PStr absent)), (''tokenExpiry'', PStr expiry)]))
                       else live_readiness env i r expiry (cw_registry w) (cw_core_keys w)))))"

section \<open>Reading connections\<close>

definition core_channel_view :: "pdict \<Rightarrow> pdict option" where
  "core_channel_view r =
     (let data = sub_dict r ''core_channel'' in
      if clean_str (dget data ''channelId'') = [] then None
      else Some [(''channelId'', PStr (py_str (dget data ''channelId''))),
                 (''name'', pstr_opt (or_none (str_or_empty (dget data ''name'')))), (''configured'', PBool True)])"

definition stored_connection :: "conn_env \<Rightarrow> int \<Rightarrow> pdict \<Rightarrow> conn_world \<Rightarrow> connection res" where
  "stored_connection env now r w =
     rbind (vindex (PDict r) ''client_id'') (\<lambda>cid.
     rbind (client_reference (py_str cid) (cw_registry w)) (\<lambda>client.
     rbind (if str_or_empty (dget r ''channel_id'') = ''instagram''
            then rbind (vindex (PDict r) ''id'') (\<lambda>i. rbind (instagram_readiness env now (py_str i) [] w) (\<lambda>d. Inr (Some d)))
            else Inr None) (\<lambda>readiness.
     rbind (vindex (PDict r) ''id'') (\<lambda>i.
       let provider = str_default (dget r ''provider_id'') ''meta''; instagram = str_or_empty (dget r ''channel_id'') = ''instagram'' in
       Inr \<lparr> cn_id = py_str i, cn_client_id = fst client, cn_name = str_default (dget r ''name'') ''WhatsApp'',
         cn_display_name = str_if (dget r ''display_name''), cn_address = str_if (dget r ''address''),
         cn_provider = (provider, str_default (dget r ''provider_display_name'') ''Meta''),
         cn_channel = (str_default (dget r ''channel_id'') ''whatsapp'',
                       str_default (dget r ''channel_display_name'') ''WhatsApp'', None),
         cn_state = str_default (dget r ''status_state'') ''pending'', cn_lifecycle = str_if (dget r ''status_lifecycle''),
         cn_health = str_default (dget r ''status_health'') ''unknown'',
         cn_capabilities = \<lparr> cb_messaging = True, cb_webhook = True, cb_media = \<not> instagram, cb_qr = (provider = ''evolution''),
            cb_reconnect = True, cb_api_key = True, cb_official_api = (provider = ''meta''), cb_templates = False \<rparr>,
         cn_client = client, cn_last_activity_at = str_if (dget r ''last_activity_at''),
         cn_created_at = str_if (dget r ''created_at''), cn_updated_at = str_if (dget r ''updated_at''),
         cn_provider_account = (case dget r ''provider_account'' of PDict d \<Rightarrow> Some d | _ \<Rightarrow> None),
         cn_core_channel = core_channel_view r, cn_readiness = readiness,
         cn_runtime_name = or_none (runtime_name r) \<rparr>))))"

definition legacy_provider :: "pdict \<Rightarrow> string \<times> string" where
  "legacy_provider legacy =
     (if dget legacy ''connectionType'' = PStr ''cloud'' \<or> dget legacy ''integration'' = PStr ''WHATSAPP-BUSINESS''
      then (''meta'', ''Meta'')
      else if dget legacy ''connectionType'' = PStr ''baileys'' \<or> dget legacy ''integration'' = PStr ''WHATSAPP-BAILEYS''
      then (''evolution'', ''Evolution'') else (''gateway'', ''Gateway''))"

definition legacy_instance_to_connection :: "pdict \<Rightarrow> pdict \<Rightarrow> string \<Rightarrow> connection res" where
  "legacy_instance_to_connection legacy relation client_name =
     rbind (vindex (PDict relation) ''id'') (\<lambda>i.
     rbind (vindex (PDict relation) ''client_id'') (\<lambda>cid.
     rbind (vindex (PDict legacy) ''name'') (\<lambda>name.
       let provider = legacy_provider legacy; status = py_str (dget legacy ''status'') in
       Inr \<lparr> cn_id = py_str i, cn_client_id = py_str cid, cn_name = py_str (py_or (dget relation ''name'') name),
         cn_display_name = str_if (dget legacy ''profileName''), cn_address = str_if (dget legacy ''phone''),
         cn_provider = provider,
         cn_channel = (str_default (dget legacy ''channelId'') ''whatsapp'',
                       str_default (dget legacy ''channelDisplayName'') ''WhatsApp'', str_if (dget legacy ''methodIcon'')),
         cn_state = (if status = ''open'' then ''connected'' else if status = ''connecting'' then ''connecting'' else ''disconnected''),
         cn_lifecycle = str_if (dget legacy ''lifecycleState''), cn_health = str_default (dget legacy ''health'') ''unknown'',
         cn_capabilities = \<lparr> cb_messaging = True, cb_webhook = True, cb_media = True, cb_qr = (fst provider = ''evolution''),
            cb_reconnect = True, cb_api_key = True, cb_official_api = (fst provider = ''meta''), cb_templates = False \<rparr>,
         cn_client = (py_str cid, str_or client_name ''Cliente eliminado''),
         cn_last_activity_at = str_if (dget relation ''last_activity_at''), cn_created_at = str_if (dget relation ''created_at''),
         cn_updated_at = str_if (dget relation ''updated_at''), cn_provider_account = None, cn_core_channel = None,
         cn_readiness = None, cn_runtime_name = or_none (py_str name) \<rparr>)))"

definition migration_client_id :: string where
  "migration_client_id = ''941b2b92-0ec6-55cc-b762-25bcc2ee55c4''"

definition migration_client_record :: "string \<Rightarrow> registry_file \<Rightarrow> pdict" where
  "migration_client_record now f =
     (case get_client migration_client_id f of
        Some (kv # c) \<Rightarrow> kv # c
      | _ \<Rightarrow> [(''id'', PStr migration_client_id), (''name'', PStr ''Migrated connections''),
              (''description'', PStr ''Automatically assigned during the Connection domain migration.''),
              (''created_at'', PStr now), (''updated_at'', PStr now)])"

text \<open>The import of what the manager runs, under the client of the migration.\<close>

definition import_runtimes :: "conn_call \<Rightarrow> pdict list \<Rightarrow> conn_world \<Rightarrow> nat res \<times> conn_world" where
  "import_runtimes call items w =
     (let fallback = migration_client_record (ca_now call) (cw_registry w) in
      on_registry (ensure_legacy_connections (ca_disk call ''import'') items (py_str (dget fallback ''id'')) fallback) w)"

definition migrate_legacy_connections :: "conn_call \<Rightarrow> conn_world \<Rightarrow> nat res \<times> conn_world" where
  "migrate_legacy_connections call w =
     (case ca_instances call of Inl e \<Rightarrow> (Inl e, w) | Inr items \<Rightarrow> import_runtimes call items w)"

definition runtime_connections :: "conn_call \<Rightarrow> conn_world \<Rightarrow> (string \<times> pdict) list res \<times> conn_world" where
  "runtime_connections call w =
     (case ca_instances call of
        Inl _ \<Rightarrow> (Inr [], w)
      | Inr items \<Rightarrow>
          and_then (import_runtimes call items w)
            (\<lambda>_. reading (Inr (fold (\<lambda>i. AList.update (py_str (dget i ''name'')) i) items []))))"

definition listed_connection ::
    "conn_env \<Rightarrow> int \<Rightarrow> (string \<times> pdict) list \<Rightarrow> conn_world \<Rightarrow> pdict \<Rightarrow> connection option res" where
  "listed_connection env now runtimes w r =
     (case (case map_of runtimes (runtime_name r) of
              None \<Rightarrow> stored_connection env now r w
            | Some runtime \<Rightarrow>
                rbind (vindex (PDict r) ''client_id'') (\<lambda>cid.
                rbind (client_reference (py_str cid) (cw_registry w)) (\<lambda>client.
                rbind (legacy_instance_to_connection runtime r (snd client)) (\<lambda>c.
                  Inr (c\<lparr> cn_runtime_name := Some (runtime_name r) \<rparr>))))) of
        Inr c \<Rightarrow> Inr (Some c)
      | Inl (AppError k s m) \<Rightarrow> if k = ''ConnectionClientNotFoundError'' then Inr None else Inl (AppError k s m)
      | Inl e \<Rightarrow> Inl e)"

definition list_connections ::
    "conn_env \<Rightarrow> conn_call \<Rightarrow> string option \<Rightarrow> conn_world \<Rightarrow> connection list res \<times> conn_world" where
  "list_connections env call client_id w =
     and_then (runtime_connections call w) (\<lambda>runtimes w.
       (rbind (traverse (listed_connection env (ca_now_us call) runtimes w)
            (filter (\<lambda>r. client_id = None \<or> Some (py_str (dget r ''client_id'')) = client_id) (connection_records (cw_registry w))))
          (\<lambda>cs. Inr (sort_key (\<lambda>c. (str_lower (cn_name c), cn_id c)) (List.map_filter id cs))), w))"

definition get_connection :: "conn_env \<Rightarrow> conn_call \<Rightarrow> string \<Rightarrow> conn_world \<Rightarrow> connection res \<times> conn_world" where
  "get_connection env call i w =
     and_then (reading (rbind (stored_by_id i (cw_registry w)) (\<lambda>r. vindex (PDict r) ''client_id'')) w) (\<lambda>cid w.
     and_then (list_connections env call (Some (py_str cid)) w) (\<lambda>cs.
       reading (case List.find (\<lambda>c. cn_id c = i) cs of None \<Rightarrow> Inl (conn_not_found i) | Some c \<Rightarrow> Inr c)))"

definition connection_by_runtime_name ::
    "conn_env \<Rightarrow> conn_call \<Rightarrow> string \<Rightarrow> conn_world \<Rightarrow> connection res \<times> conn_world" where
  "connection_by_runtime_name env call name w =
     and_then (list_connections env call None w) (\<lambda>cs w.
       (case List.find (\<lambda>c. runtime_name (case connection_record_by_id (cn_id c) (cw_registry w) of None \<Rightarrow> [] | Some r \<Rightarrow> r) = name) cs of
          None \<Rightarrow> Inl (conn_not_found name) | Some c \<Rightarrow> Inr c, w))"

definition connection_runtime_name :: "string \<Rightarrow> registry_file \<Rightarrow> string res" where
  "connection_runtime_name i f = rbind (stored_by_id i f) (\<lambda>r. Inr (runtime_name r))"

definition connection_last_heartbeat_at :: "string \<Rightarrow> registry_file \<Rightarrow> string option res" where
  "connection_last_heartbeat_at i f = rbind (stored_by_id i f) (\<lambda>r. Inr (str_if (dget r ''last_heartbeat_at'')))"

end
