(* ===== verification/Connection_Changes.thy ===== *)
theory Connection_Changes
  imports Connections
begin

text \<open>
  The operations of \<open>gateway/app/services/connections.py\<close> that change something: creating,
  renaming and deleting a connection, binding an Instagram account and a Core channel, taking the
  account of a webhook to its connection, sending a text, and starting an Evolution runtime.
\<close>

section \<open>Changing a stored connection\<close>

definition change_record :: "conn_call \<Rightarrow> string \<Rightarrow> pdict \<Rightarrow> conn_world \<Rightarrow> pdict option res \<times> conn_world" where
  "change_record call i changes = on_registry (update_connection_record (ca_disk call ''registry'') i changes)"

definition stamped :: "conn_call \<Rightarrow> pdict \<Rightarrow> pdict" where
  "stamped call changes = changes @ [(''updated_at'', PStr (ca_now call))]"

definition health_change :: "string \<Rightarrow> string \<Rightarrow> pdict" where
  "health_change state health = [(''status_state'', PStr state), (''status_health'', PStr health)]"

text \<open>The changed record as a connection; one that is gone raises.\<close>

definition change_connection ::
    "conn_env \<Rightarrow> conn_call \<Rightarrow> string \<Rightarrow> pdict \<Rightarrow> conn_world \<Rightarrow> connection res \<times> conn_world" where
  "change_connection env call i changes w =
     and_then (change_record call i (stamped call changes) w) (\<lambda>updated w.
       (case updated of None \<Rightarrow> Inl (conn_not_found i) | Some r \<Rightarrow> stored_connection env (ca_now_us call) r w, w))"

definition mark_meta_signup_completed ::
    "conn_env \<Rightarrow> conn_call \<Rightarrow> string \<Rightarrow> conn_world \<Rightarrow> connection res \<times> conn_world" where
  "mark_meta_signup_completed env call i = change_connection env call i (health_change ''connected'' ''healthy'')"

definition connection_title :: "string \<Rightarrow> string \<Rightarrow> string" where
  "connection_title channel provider =
     (if channel = ''instagram'' then ''Instagram'' else if provider = ''meta'' then ''WhatsApp Oficial'' else ''WhatsApp Evolution'')"

definition new_connection :: "conn_call \<Rightarrow> string \<Rightarrow> string \<Rightarrow> string \<Rightarrow> string \<Rightarrow> pdict" where
  "new_connection call client_id channel name provider =
     [(''id'', PStr (ca_uid call)),
      (''legacy_name'', PStr (''connection_'' @ take 24 (filter (\<lambda>c. c \<noteq> CHR ''-'') (ca_uid call)))),
      (''client_id'', PStr client_id), (''name'', PStr (str_or name (connection_title channel provider))),
      (''provider_id'', PStr provider), (''provider_display_name'', PStr (if provider = ''meta'' then ''Meta'' else ''Evolution'')),
      (''channel_id'', PStr channel), (''channel_display_name'', PStr (if channel = ''instagram'' then ''Instagram'' else ''WhatsApp'')),
      (''status_state'', PStr (if channel = ''instagram'' then ''oauth_pending'' else if provider = ''meta'' then ''pending'' else ''connecting'')),
      (''status_health'', PStr ''unknown''), (''created_at'', PStr (ca_now call)), (''updated_at'', PStr (ca_now call))]"

definition creatable :: "settings_file \<Rightarrow> string \<Rightarrow> string \<Rightarrow> unit res" where
  "creatable settings channel provider =
     rbind (require_channel_available channel settings) (\<lambda>_.
       if channel \<notin> {''whatsapp'', ''instagram''} then Inl (unsupported_channel channel)
       else if provider \<notin> {''meta'', ''evolution''} then Inl (unsupported_provider provider)
       else if channel = ''instagram'' \<and> provider \<noteq> ''meta''
       then Inl (unsupported_provider ''Instagram connections require provider meta'')
       else require_provider_available provider settings)"

definition create_connection ::
    "conn_env \<Rightarrow> conn_call \<Rightarrow> string \<Rightarrow> string \<Rightarrow> string option \<Rightarrow> string \<Rightarrow> conn_world \<Rightarrow> connection res \<times> conn_world" where
  "create_connection env call client_id channel name provider w =
     and_then (reading (rbind (client_reference client_id (cw_registry w)) (\<lambda>c.
                 rbind (creatable (cv_settings env) channel provider) (\<lambda>_. Inr (fst c)))) w) (\<lambda>owner.
       let r = new_connection call owner channel (case name of None \<Rightarrow> [] | Some n \<Rightarrow> strip n) provider in
       (\<lambda>w. and_then (on_registry (save_connection_record_for_client (ca_disk call ''registry'') (runtime_name r) r) w) (\<lambda>saved w.
          (case saved of None \<Rightarrow> Inl (conn_client_not_found owner) | Some _ \<Rightarrow> stored_connection env (ca_now_us call) r w, w))))"

definition update_connection ::
    "conn_env \<Rightarrow> conn_call \<Rightarrow> string \<Rightarrow> string option \<Rightarrow> conn_world \<Rightarrow> connection res \<times> conn_world" where
  "update_connection env call i name w =
     and_then (reading (rbind (stored_by_id i (cw_registry w)) (\<lambda>_.
         case name of
           None \<Rightarrow> Inl (ValueError ''At least one connection field must be provided'')
         | Some n \<Rightarrow> if strip n = [] then Inl (ValueError ''Connection name is required'') else Inr (strip n))) w) (\<lambda>title w.
     and_then (change_record call i (stamped call [(''name'', PStr title)]) w) (\<lambda>updated.
       if updated = None then reading (Inl (conn_not_found i)) else get_connection env call i))"

section \<open>The account of an Instagram connection\<close>

definition mark_instagram_meta_verified ::
    "conn_env \<Rightarrow> conn_call \<Rightarrow> string \<Rightarrow> conn_world \<Rightarrow> connection res \<times> conn_world" where
  "mark_instagram_meta_verified env call i w =
     and_then (reading (require_instagram_meta_connection i (cw_registry w)) w) (\<lambda>r.
       let account = sub_dict r ''provider_account'' in
       if account = [] then reading (Inl (unsupported_provider ''Instagram provider account is not bound''))
       else change_connection env call i
         ((''provider_account'', PDict (dset account ''metadata'' (PDict
             (dset (dset (sub_dict account ''metadata'') ''metaApiVerified'' (PBool True)) ''webhookSubscribed'' (PBool True)))))
          # health_change ''connected'' ''healthy''))"

definition assert_account_unbound :: "provider_account \<Rightarrow> string \<Rightarrow> registry_file \<Rightarrow> unit res" where
  "assert_account_unbound a except f =
     (if list_ex (\<lambda>r. bound_account r = pa_account a \<and> str_or_empty (dget r ''id'') \<noteq> except) (connection_records f)
      then Inl (unsupported_provider ''Instagram provider account is already bound to another connection'')
      else Inr ())"

definition assert_account_available :: "string \<Rightarrow> provider_account \<Rightarrow> registry_file \<Rightarrow> unit res" where
  "assert_account_available i a f =
     rbind (require_instagram_meta_connection i f) (\<lambda>_. assert_account_unbound a i f)"

definition bindable ::
    "conn_env \<Rightarrow> conn_call \<Rightarrow> string \<Rightarrow> provider_account \<Rightarrow> string list \<Rightarrow> conn_world \<Rightarrow> unit res" where
  "bindable env call i a required_scopes w =
     rbind (require_instagram_meta_connection i (cw_registry w)) (\<lambda>_.
       if pa_provider a \<noteq> ''meta'' \<or> pa_channel a \<noteq> ''instagram''
       then Inl (unsupported_provider ''Invalid provider account for Instagram connection'')
       else rbind (assert_account_available i a (cw_registry w)) (\<lambda>_.
         rbind (instagram_readiness env (ca_now_us call) i required_scopes w) (\<lambda>readiness.
           if dget readiness ''state'' \<in> {PStr ''credential_missing'', PStr ''expired'', PStr ''missing_scopes''}
           then Inl (unsupported_provider ''Instagram credentials do not satisfy connection readiness'')
           else Inr ())))"

definition bind_instagram_provider_account ::
    "conn_env \<Rightarrow> conn_call \<Rightarrow> string \<Rightarrow> provider_account \<Rightarrow> pdict \<Rightarrow> string list \<Rightarrow> conn_world \<Rightarrow> connection res \<times> conn_world" where
  "bind_instagram_provider_account env call i a metadata required_scopes w =
     and_then (reading (bindable env call i a required_scopes w) w) (\<lambda>_.
       let ready = dget metadata ''metaApiVerified'' = PBool True \<and> dget metadata ''webhookSubscribed'' = PBool True in
       change_connection env call i
         ((''provider_account'', PDict [(''provider'', PStr (pa_provider a)), (''channelType'', PStr (pa_channel a)),
             (''providerAccountId'', PStr (pa_account a)), (''metadata'', PDict metadata)])
          # (if ready then health_change ''connected'' ''healthy'' else health_change ''connecting'' ''unknown'')))"

text \<open>The records of an account; one that is not an Instagram connection of Meta raises.\<close>

fun account_matches :: "string \<Rightarrow> pdict list \<Rightarrow> pdict list res" where
  "account_matches target [] = Inr []"
| "account_matches target (r # rs) =
     (if bound_account r \<noteq> target then account_matches target rs
      else if \<not> is_meta_instagram r
      then Inl (unsupported_provider ''Instagram provider account has an invalid connection binding'')
      else rbind (account_matches target rs) (\<lambda>ms. Inr (r # ms)))"

definition active_account_record :: "string \<Rightarrow> registry_file \<Rightarrow> pdict res" where
  "active_account_record target f =
     rbind (account_matches target (connection_records f)) (\<lambda>ms.
       case ms of
         [] \<Rightarrow> Inl (conn_not_found target)
       | [r] \<Rightarrow>
           (if str_or_empty (dget r ''status_state'') \<noteq> ''connected''
            then Inl (unsupported_provider ''Instagram connection is not active'') else Inr r)
       | _ \<Rightarrow> Inl (unsupported_provider ''Instagram provider account has ambiguous connection bindings''))"

definition resolve_active_instagram_provider_account ::
    "conn_env \<Rightarrow> int \<Rightarrow> string \<Rightarrow> conn_world \<Rightarrow> connection res" where
  "resolve_active_instagram_provider_account env now target w =
     rbind (active_account_record target (cw_registry w)) (\<lambda>r. stored_connection env now r w)"

section \<open>The channel at Core\<close>

definition bind_instagram_core_channel ::
    "conn_env \<Rightarrow> conn_call \<Rightarrow> string \<Rightarrow> string \<Rightarrow> string \<Rightarrow> string \<Rightarrow> string option \<Rightarrow> conn_world
     \<Rightarrow> connection res \<times> conn_world" where
  "bind_instagram_core_channel env call i channel credential binding_id name w =
     (let incomplete = strip channel = [] \<or> strip credential = [] \<or> strip binding_id = [] in
      and_then (reading (rbind (require_instagram_meta_connection i (cw_registry w)) (\<lambda>_.
          if incomplete then Inl (unsupported_provider ''Core channel binding response is incomplete'') else Inr ())) w) (\<lambda>_ w.
      and_then (on_core_keys (upsert_core_key (cv_fernet env) (cv_core env) (ca_disk call ''core'') i (strip channel) credential) w) (\<lambda>ref w.
      and_then (change_record call i (stamped call ((''core_channel'', PDict
            [(''channelId'', PStr (strip channel)), (''credentialRef'', PStr ref), (''bindingId'', PStr binding_id),
             (''name'', pstr_opt (or_none (case name of None \<Rightarrow> [] | Some n \<Rightarrow> strip n)))])
          # health_change ''connected'' ''healthy'')) w) (\<lambda>updated.
        case updated of
          Some r \<Rightarrow> (\<lambda>w. (stored_connection env (ca_now_us call) r w, w))
        | None \<Rightarrow> (\<lambda>w. and_then (on_core_keys (delete_core_key (ca_disk call ''core'') i) w)
                     (\<lambda>_. reading (Inl (conn_not_found i))))))))"

text \<open>The credentials of the bound account and the key towards Core go first.\<close>

definition forget_account :: "conn_call \<Rightarrow> string \<Rightarrow> pdict \<Rightarrow> conn_world \<Rightarrow> unit res \<times> conn_world" where
  "forget_account call i r w =
     (let binding = sub_dict r ''provider_account'' in
      and_then (if binding = [] then (Inr (), w)
                else and_then (reading (bound_reference binding) w) (\<lambda>a w.
                  and_then (on_credentials (delete_provider_credentials (cipher_call_of call) a) w) (\<lambda>_. reading (Inr ()))))
        (\<lambda>_. on_core_keys (delete_core_key (ca_disk call ''core'') i)))"

definition disconnect_instagram_connection ::
    "conn_env \<Rightarrow> conn_call \<Rightarrow> string \<Rightarrow> conn_world \<Rightarrow> connection res \<times> conn_world" where
  "disconnect_instagram_connection env call i w =
     and_then (reading (require_instagram_meta_connection i (cw_registry w)) w) (\<lambda>r w.
     and_then (forget_account call i r w) (\<lambda>_.
       change_connection env call i
         ([(''provider_account'', PNone), (''core_channel'', PNone)] @ health_change ''disconnected'' ''unknown'')))"

text \<open>The manager deletes a runtime it has; its answer is the last argument.\<close>

definition delete_connection :: "conn_call \<Rightarrow> string \<Rightarrow> unit res \<Rightarrow> conn_world \<Rightarrow> unit res \<times> conn_world" where
  "delete_connection call i manager_delete w =
     and_then (reading (stored_by_id i (cw_registry w)) w) (\<lambda>r w.
     and_then (if is_meta_instagram r then forget_account call i r w else (Inr (), w)) (\<lambda>_ w.
     and_then (runtime_connections call w) (\<lambda>runtimes w.
     and_then (reading (if map_of runtimes (runtime_name r) = None then Inr () else manager_delete) w) (\<lambda>_ w.
     and_then (on_registry (delete_connection_record (ca_disk call ''registry'') i) w) (\<lambda>deleted.
       reading (if deleted = None then Inl (conn_not_found i) else Inr ()))))))"

section \<open>Sending a text\<close>

record text_to_send =
  tx_record :: pdict
  tx_recipient :: string
  tx_content :: string
  tx_account :: string
  tx_token :: string
  tx_node :: string

definition sendable_text ::
    "conn_env \<Rightarrow> int \<Rightarrow> string \<Rightarrow> string \<Rightarrow> string \<Rightarrow> conn_world \<Rightarrow> text_to_send res" where
  "sendable_text env now i recipient content w =
     rbind (require_instagram_meta_connection i (cw_registry w)) (\<lambda>r.
       if strip recipient = [] then Inl (ValueError ''Instagram recipient externalId is required'')
       else if strip content = [] then Inl (ValueError ''Instagram text is required'')
       else rbind (instagram_readiness env now i [] w) (\<lambda>readiness.
         if \<not> truthy (dget readiness ''ready'')
         then Inl (unsupported_provider ''Instagram connection is not ready for messaging'')
         else let account = strip (bound_account r) in
           rbind (rbind (provider_account_of ''meta'' ''instagram'' account)
             (\<lambda>a. provider_access_token (cv_cipher env) a (cw_credentials w))) (\<lambda>token.
               case token of
                 None \<Rightarrow> Inl (unsupported_provider ''Instagram credentials are unavailable'')
               | Some t \<Rightarrow>
                   (let node = strip (py_str (py_or (dget (sub_dict (sub_dict r ''provider_account'') ''metadata'') ''graphSendNodeId'')
                                  (PStr account)))
                    in if t = [] then Inl (unsupported_provider ''Instagram credentials are unavailable'')
                       else if node = [] then Inl (unsupported_provider ''Instagram Graph send node is unavailable'')
                       else Inr \<lparr> tx_record = r, tx_recipient = recipient, tx_content = strip content, tx_account = account,
                              tx_token = t, tx_node = node \<rparr>))))"

definition sent_text_event :: "conn_call \<Rightarrow> string \<Rightarrow> text_to_send \<Rightarrow> string option \<Rightarrow> pdict" where
  "sent_text_event call i t message_id =
     (let content = PStr (tx_content t); account = PStr (tx_account t); recipient = PStr (tx_recipient t) in
      [(''id'', PStr (ca_uid call)), (''event'', PStr ''LOCAL_OUTBOUND_SEND''), (''layer'', PStr ''business''), (''instance'', PStr i),
       (''timestamp'', PInt (ca_now_ms call)), (''type'', PStr ''message''), (''subtype'', PStr ''text''),
       (''messageType'', PStr ''text''), (''direction'', PStr ''outbound''), (''text'', content),
       (''content'', PDict [(''text'', content)]), (''sender'', account), (''recipient'', recipient),
       (''message'', PDict [(''id'', pstr_opt message_id), (''from'', account), (''fromMe'', PBool True),
          (''kind'', PStr ''text''), (''text'', content)]),
       (''provider'', PStr ''meta''),
       (''providerDelivery'', PDict [(''provider'', PStr ''meta''), (''providerMessageId'', pstr_opt message_id),
          (''connectionId'', PStr i), (''channelId'', PStr ''instagram'')]),
       (''meta'', PDict [(''connectionId'', PStr i), (''channelId'', PStr ''instagram''), (''providerAccountId'', account)]),
       (''canonical'', PDict [(''channel'', PDict [(''channelType'', PStr ''instagram'')]),
          (''recipient'', PDict [(''externalId'', recipient)]),
          (''message'', PDict [(''type'', PStr ''text''), (''text'', content)])])])"

definition after_sending ::
    "conn_env \<Rightarrow> conn_call \<Rightarrow> string \<Rightarrow> text_to_send \<Rightarrow> pdict \<Rightarrow> conn_world \<Rightarrow> pdict res \<times> conn_world" where
  "after_sending env call i t result w =
     (let message_id = or_none (py_str (py_or (dget result ''message_id'') (py_or (dget result ''messageId'') (PStr []))));
          (saved, n, tml) = save_event (cv_retention env) (ca_disk call ''timeline'') (ca_disk call ''attempts'')
                              (ca_now_ms call) (sent_text_event call i t message_id) (cw_timeline w)
      in and_then (saved, w\<lparr> cw_timeline := tml \<rparr>) (\<lambda>_ w.
         and_then (change_record call i [(''last_activity_at'', PStr (ca_now call)), (''updated_at'', PStr (ca_now call))] w)
           (\<lambda>_. reading (Inr [(''ok'', PBool True), (''providerMessageId'', pstr_opt message_id),
              (''recipient'', PDict [(''externalId'', PStr (tx_recipient t))])]))))"

text \<open>The Graph API is given the node, the recipient, the text and the token.\<close>

definition send_instagram_text ::
    "conn_env \<Rightarrow> conn_call \<Rightarrow> string \<Rightarrow> string \<Rightarrow> string \<Rightarrow> (string \<Rightarrow> string \<Rightarrow> string \<Rightarrow> string \<Rightarrow> pdict res)
     \<Rightarrow> conn_world \<Rightarrow> pdict res \<times> conn_world" where
  "send_instagram_text env call i recipient content post w =
     and_then (reading (sendable_text env (ca_now_us call) i recipient content w) w) (\<lambda>t w.
     and_then (reading (post (tx_node t) (tx_recipient t) (tx_content t) (tx_token t)) w) (\<lambda>result.
       after_sending env call i t result))"

section \<open>Evolution runtimes\<close>

definition evolution_record :: "conn_env \<Rightarrow> string \<Rightarrow> registry_file \<Rightarrow> pdict res" where
  "evolution_record env i f =
     rbind (stored_by_id i f) (\<lambda>r.
       if str_or_empty (dget r ''provider_id'') \<noteq> ''evolution''
       then Inl (unsupported_provider ''This connection does not use Evolution'')
       else rbind (require_provider_available ''evolution'' (cv_settings env)) (\<lambda>_. Inr r))"

text \<open>An undo, after which the first error is raised again.\<close>

definition undoing :: "py_exc \<Rightarrow> 'a res \<times> conn_world \<Rightarrow> 'b res \<times> conn_world" where
  "undoing e m = and_then m (\<lambda>_. reading (Inl e))"

definition start_evolution_connection ::
    "conn_env \<Rightarrow> conn_call \<Rightarrow> hook_cfg \<Rightarrow> string \<Rightarrow> unit res \<Rightarrow> hook_answers \<Rightarrow> conn_world \<Rightarrow> connection res \<times> conn_world" where
  "start_evolution_connection env call cfg i created answers w =
     and_then (reading (evolution_record env i (cw_registry w)) w) (\<lambda>r w.
       case created of
         Inl e \<Rightarrow> undoing e (on_registry (delete_connection_record (ca_disk call ''registry'') i) w)
       | Inr _ \<Rightarrow>
           (case fst (ensure_evolution_webhook cfg True answers) of
              Inl e \<Rightarrow> undoing e (change_record call i (stamped call (health_change ''error'' ''degraded'')) w)
            | Inr _ \<Rightarrow> (stored_connection env (ca_now_us call) r w, w)))"

definition evolution_qr :: "conn_env \<Rightarrow> string \<Rightarrow> (string \<Rightarrow> bool) \<Rightarrow> pval res \<Rightarrow> registry_file \<Rightarrow> pval res" where
  "evolution_qr env i managed_elsewhere answer f =
     rbind (evolution_record env i f) (\<lambda>r.
       if managed_elsewhere (runtime_name r) then Inl (AppError ''ConnectionManagedElsewhereError'' None [])
       else rbind answer (\<lambda>result.
         if \<not> is_dict result then Inr result
         else rbind (vget (py_or (dget (as_dict result) ''instance'') (PDict [])) ''state'') (\<lambda>state.
           Inr (if state = PStr ''open'' then PDict [(''connected'', PBool True)] else result))))"

end
