(* ===== verification/Credentials_Spec.thy ===== *)
theory Credentials_Spec
  imports Credentials
begin

text \<open>
  What the credential file promises: a token comes back as it was stored and its neighbours do not
  change, and the registration PIN of a number, once given out, stays the same through every
  operation that does not replace or remove it. Fernet is assumed to decrypt what it encrypted
  under the same key, to an ASCII text that is not blank.
\<close>

definition fernet_laws :: "cipher_env \<Rightarrow> bool" where
  "fernet_laws env \<longleftrightarrow>
     (\<forall>m s. ce_decrypt env m (ce_encrypt env m s) = Some s \<and> ascii_only (ce_encrypt env m s) \<and>
        strip (ce_encrypt env m s) \<noteq> [])"

section \<open>The file after a write\<close>

lemma saving_cases:
  "saving ok p answer f = (if ok then (answer, Holds (sorted_dict p)) else (Inl OSError, f))"
  by (simp add: saving_def save_credentials_def replace_file_def)

lemma as_dict_sorted [simp]: "as_dict (sort_json v) = sorted_dict (as_dict v)"
  by (cases v) (simp_all add: sorted_dict_def)

lemma loaded_official [simp]: "is_dict (dget (load_credentials f) ''official'')"
proof -
  have "is_dict (dget empty_credentials ''official'')" by (simp add: empty_credentials_def dget_def)
  then show ?thesis by (cases f) auto
qed

lemma saved_officials:
  "is_dict (dget p ''official'') \<Longrightarrow> officials (Holds (sorted_dict p)) = sorted_dict (as_dict (dget p ''official''))"
  by (simp add: officials_def as_dict_sorted)

lemma saved_accounts:
  "is_dict (dget p ''official'') \<Longrightarrow>
   provider_accounts (Holds (sorted_dict p)) = sorted_dict (as_dict (dget p ''providerAccounts''))"
  by (simp add: provider_accounts_def as_dict_sorted)

lemma dict_at_update: "dict_at (dset d k (PDict r)) j = (if j = k then Some r else dict_at d j)"
  by (simp add: dict_at_def)

lemma dict_at_removed: "dict_at (AList.delete k d) j = (if j = k then None else dict_at d j)"
  by (simp add: dict_at_def dget_def delete_conv')

lemma official_at_with_officials:
  "official_at j (Holds (sorted_dict (with_officials d f))) = map_option sorted_dict (dict_at d j)"
  "provider_at a (Holds (sorted_dict (with_officials d f))) = map_option sorted_dict (provider_at a f)"
  by (simp_all add: official_at_def provider_at_def saved_officials saved_accounts with_officials_def
      provider_accounts_def)

lemma official_at_with_accounts:
  "official_at j (Holds (sorted_dict (with_accounts d f))) = map_option sorted_dict (official_at j f)"
  by (simp add: official_at_def saved_officials with_accounts_def officials_def)

lemmas credential_file_simps =
  saving_cases official_at_with_officials official_at_with_accounts dict_at_update dict_at_removed

lemma stored_text_sorted [simp]: "stored_text (sorted_dict r) k = stored_text r k"
  by (cases "dget r k") (simp_all add: stored_text_def)

section \<open>Sealing\<close>

lemma unseal_seal:
  assumes "fernet_laws env" and "seal env material s = Inr c"
  shows "unseal env material refusal c = Inr s" and "strip c \<noteq> []"
  using assms by (cases material; auto simp: seal_def unseal_def fernet_laws_def)+

lemma official_sealed:
  assumes "fernet_laws env" and "encrypt_official env s = Inr c"
  shows "decrypt_official env c n = Inr s" and "strip c \<noteq> []"
  using unseal_seal [OF assms(1), of "official_material (ce_settings env)"] assms(2)
  by (simp_all add: encrypt_official_def decrypt_official_def)

section \<open>A drawn PIN has six digits\<close>

lemma digit_char: "(n :: nat) < 10 \<Longrightarrow> is_digit (char_of (48 + n)) \<and> (of_char (char_of (48 + n) :: char) :: nat) < 128"
  by (simp add: is_digit_def of_char_of)

lemma nat_str_digits: "list_all is_digit (nat_str n) \<and> list_all (\<lambda>c. of_char c < (128 :: nat)) (nat_str n)"
proof (induction n rule: nat_str.induct)
  case (1 n)
  then show ?case
    using digit_char [of n] digit_char [of "n mod 10"] by (subst (1 2) nat_str.simps) auto
qed

lemma length_nat_str_step: "10 \<le> n \<Longrightarrow> length (nat_str n) = Suc (length (nat_str (n div 10)))"
  by (subst nat_str.simps) simp

lemma length_nat_str_digit: "n < 10 \<Longrightarrow> length (nat_str n) = 1"
  by (subst nat_str.simps) simp

lemma six_digit_pin:
  assumes "100000 \<le> n" and "n < 1000000"
  shows "six_digits (nat_str n)"
proof -
  have "length (nat_str n) = 6"
    using assms by (simp add: length_nat_str_step length_nat_str_digit div_mult2_eq [symmetric])
  moreover from this have "nat_str n \<noteq> []" by auto
  ultimately show ?thesis
    using nat_str_digits [of n] by (simp add: six_digits_def ascii_only_def isdigit_def)
qed

section \<open>Operations on the credential file\<close>

datatype credential_op =
    Upsert_Official cipher_call string string string string string "pdict option"
  | Ask_Pin cipher_call nat string "string option"
  | Delete_Official cipher_call string
  | Upsert_Account cipher_call provider_account string string string "string list" "string option" "pdict option"
  | Expire_Account cipher_call provider_account
  | Delete_Account cipher_call provider_account

fun credential_step :: "cipher_env \<Rightarrow> credential_op \<Rightarrow> credential_file \<Rightarrow> credential_file" where
  "credential_step env (Upsert_Official cl i t ph b s m) f = snd (upsert_official_credentials env cl i t ph b s m f)"
| "credential_step env (Ask_Pin cl draw i p) f = snd (get_or_create_registration_pin env cl draw i p f)"
| "credential_step env (Delete_Official cl i) f = snd (delete_official_credentials cl i f)"
| "credential_step env (Upsert_Account cl a t r s sc e m) f = snd (upsert_provider_credentials env cl a t r s sc e m f)"
| "credential_step env (Expire_Account cl a) f = snd (mark_provider_credentials_expired cl a f)"
| "credential_step env (Delete_Account cl a) f = snd (delete_provider_credentials cl a f)"

definition credential_run :: "cipher_env \<Rightarrow> credential_op list \<Rightarrow> credential_file \<Rightarrow> credential_file" where
  "credential_run env ops f = fold (credential_step env) ops f"

text \<open>The operation does not delete the credentials, give the instance another number or set its PIN.\<close>

fun keeps_number :: "string \<Rightarrow> string \<Rightarrow> credential_op \<Rightarrow> bool" where
  "keeps_number inst phone (Upsert_Official cl i t ph b s m) = (i \<noteq> inst \<or> ph = phone)"
| "keeps_number inst phone (Ask_Pin cl draw i p) = (i \<noteq> inst \<or> p = None)"
| "keeps_number inst phone (Delete_Official cl i) = (i \<noteq> inst)"
| "keeps_number inst phone _ = True"

definition has_pin :: "string \<Rightarrow> string \<Rightarrow> string \<Rightarrow> credential_file \<Rightarrow> bool" where
  "has_pin inst phone c f \<longleftrightarrow>
     (\<exists>r. official_at inst f = Some r \<and> dget r ''phoneNumberId'' = PStr phone \<and>
        dget r ''registrationPinCiphertext'' = PStr c \<and> strip c \<noteq> [])"

lemma has_pin_saved:
  "has_pin inst phone c (Holds (sorted_dict (with_officials d f))) \<longleftrightarrow>
     (\<exists>r. dict_at d inst = Some r \<and> dget r ''phoneNumberId'' = PStr phone \<and>
        dget r ''registrationPinCiphertext'' = PStr c \<and> strip c \<noteq> [])"
  "has_pin inst phone c (Holds (sorted_dict (with_accounts d f))) \<longleftrightarrow> has_pin inst phone c f"
  by (auto simp: has_pin_def credential_file_simps)

lemma has_pin_official_dict:
  assumes "has_pin inst phone c f"
  shows "dget (official_dict env now (dict_or_empty (official_at inst f)) inst t x phone b s m) ''phoneNumberId'' = PStr phone"
    and "dget (official_dict env now (dict_or_empty (official_at inst f)) inst t x phone b s m)
      ''registrationPinCiphertext'' = PStr c"
  using assms by (auto simp: has_pin_def official_dict_def dget_Cons)

lemma has_pin_upsert:
  assumes pin: "has_pin inst phone c f" and "i \<noteq> inst \<or> ph = phone"
  shows "has_pin inst phone c (snd (upsert_official_credentials env cl i t ph b s m f))"
proof (cases "encrypt_official env t")
  case (Inl e)
  then show ?thesis using pin by (simp add: upsert_official_credentials_def)
next
  case (Inr x)
  have c: "strip c \<noteq> []" using pin by (auto simp: has_pin_def)
  show ?thesis
  proof (cases "i = inst")
    case True
    then show ?thesis
      using pin assms(2) c has_pin_official_dict [OF pin]
      by (simp add: upsert_official_credentials_def Inr Let_def saving_cases has_pin_saved dict_at_update)
  next
    case False
    then show ?thesis
      using pin
      by (simp add: upsert_official_credentials_def Inr Let_def saving_cases has_pin_saved dict_at_update)
        (simp add: has_pin_def official_at_def)
  qed
qed

lemma has_pin_ask:
  assumes "has_pin inst phone c f" and "i \<noteq> inst \<or> p = None"
  shows "has_pin inst phone c (snd (get_or_create_registration_pin env cl draw i p f))"
proof (cases "i = inst")
  case True
  with assms show ?thesis
    by (auto simp: get_or_create_registration_pin_def has_pin_def stored_text_def)
next
  case False
  have "has_pin inst phone c (snd (store_pin env cl i r pin f))" for r pin
    using assms(1) False
    by (auto simp: store_pin_def saving_cases has_pin_saved dict_at_update split: sum.split)
      (auto simp: has_pin_def official_at_def)
  then show ?thesis
    using assms(1) by (simp add: get_or_create_registration_pin_def split: option.split)
qed

lemma has_pin_step:
  assumes "has_pin inst phone c f" and "keeps_number inst phone x"
  shows "has_pin inst phone c (credential_step env x f)"
proof (cases x)
  case (Delete_Official cl i)
  with assms show ?thesis
    by (auto simp: delete_official_credentials_def saving_cases has_pin_saved dict_at_removed)
      (auto simp: has_pin_def official_at_def)
next
  case (Upsert_Account cl a t r s sc e m)
  with assms show ?thesis
    by (simp add: upsert_provider_credentials_def saving_cases has_pin_saved Let_def split: sum.split)
next
  case (Expire_Account cl a)
  with assms show ?thesis
    by (simp add: mark_provider_credentials_expired_def saving_cases has_pin_saved split: option.split)
next
  case (Delete_Account cl a)
  with assms show ?thesis
    by (simp add: delete_provider_credentials_def saving_cases has_pin_saved)
qed (use assms in \<open>simp_all add: has_pin_upsert has_pin_ask\<close>)

lemma has_pin_run:
  "has_pin inst phone c f \<Longrightarrow> list_all (keeps_number inst phone) ops \<Longrightarrow>
   has_pin inst phone c (credential_run env ops f)"
  unfolding credential_run_def by (induction ops arbitrary: f) (simp_all add: has_pin_step)

lemma pin_given:
  assumes "has_pin inst phone c f" and "decrypt_official env c ''el PIN de registro'' = Inr pin" and "six_digits pin"
  shows "get_or_create_registration_pin env cl draw inst None f = (Inr pin, f)"
  using assms by (auto simp: has_pin_def get_or_create_registration_pin_def stored_text_def)

text \<open>The ciphertext behind a PIN that was given out.\<close>

lemma pin_stored:
  assumes laws: "fernet_laws env" and "draw < 900000"
    and asked: "get_or_create_registration_pin env cl draw inst provided f = (Inr pin, f1)"
    and r: "official_at inst f = Some r" "dget r ''phoneNumberId'' = PStr phone"
  shows "\<exists>c. has_pin inst phone c f1 \<and> decrypt_official env c ''el PIN de registro'' = Inr pin \<and> six_digits pin"
proof -
  have store: "\<exists>c. has_pin inst phone c f1 \<and> decrypt_official env c ''el PIN de registro'' = Inr pin \<and> six_digits pin"
    if st: "store_pin env cl inst r plain f = (Inr pin, f1)" and "six_digits plain" for plain
  proof -
    obtain c where c: "encrypt_official env plain = Inr c"
      using st by (auto simp: store_pin_def split: sum.split_asm)
    have "pin = plain" and "has_pin inst phone c f1"
      using st c r(2) official_sealed(2) [OF laws c]
      by (auto simp: store_pin_def saving_cases has_pin_saved dict_at_update split: if_split_asm)
    then show ?thesis using that official_sealed(1) [OF laws c] by auto
  qed
  show ?thesis
  proof (cases provided)
    case (Some given)
    then show ?thesis
      using asked r(1) store [of "strip given"] by (auto simp: get_or_create_registration_pin_def split: if_split_asm)
  next
    case None
    show ?thesis
    proof (cases "stored_text r ''registrationPinCiphertext''")
      case None
      then show ?thesis
        using asked r(1) \<open>provided = None\<close> store [of "nat_str (draw + 100000)"] six_digit_pin [of "draw + 100000"] assms(2)
        by (auto simp: get_or_create_registration_pin_def)
    next
      case (Some c)
      then have "dget r ''registrationPinCiphertext'' = PStr c" "strip c \<noteq> []"
        by (auto simp: stored_text_def split: pval.split_asm if_split_asm)
      then show ?thesis
        using asked r \<open>provided = None\<close> Some
        by (auto simp: get_or_create_registration_pin_def has_pin_def rbind_eqs split: if_split_asm)
    qed
  qed
qed

section \<open>Properties\<close>

text \<open>
  C18: the registration PIN of a number is stable: once the manager has given out a PIN, chosen by
  the owner, stored before or drawn now, every later request without a PIN answers the same one
  and changes nothing, after any operations in between, failed writes included, that do not
  delete the credentials, move the instance to another number or set another PIN.
\<close>

theorem registration_pin_is_stable:
  assumes "fernet_laws env" and "draw < 900000"
    and "get_or_create_registration_pin env cl draw inst provided f = (Inr pin, f1)"
    and "official_at inst f = Some r" and "dget r ''phoneNumberId'' = PStr phone"
    and "list_all (keeps_number inst phone) ops"
  shows "six_digits pin \<and>
    get_or_create_registration_pin env cl' draw' inst None (credential_run env ops f1) =
      (Inr pin, credential_run env ops f1)"
proof -
  obtain c where "has_pin inst phone c f1" "decrypt_official env c ''el PIN de registro'' = Inr pin" "six_digits pin"
    using pin_stored [OF assms(1-5)] by auto
  then show ?thesis
    using pin_given [OF has_pin_run [OF _ assms(6)]] by auto
qed

text \<open>A cipher that keeps the laws: every character as its code in unary.\<close>

definition unary :: "string \<Rightarrow> string" where
  "unary s = concat (map (\<lambda>c. replicate (of_char c) (CHR ''a'') @ [CHR ''b'']) s) @ [CHR ''c'']"

fun unary_read :: "nat \<Rightarrow> string \<Rightarrow> string" where
  "unary_read n [] = []"
| "unary_read n (x # xs) =
     (if x = CHR ''a'' then unary_read (Suc n) xs
      else if x = CHR ''b'' then char_of n # unary_read 0 xs else [])"

definition toy_cipher :: cipher_env where
  "toy_cipher =
     \<lparr> ce_settings = \<lparr> cs_official_key = ''k'', cs_provider_key = [], cs_gateway_key = [], cs_environment = ''test'' \<rparr>,
       ce_sha256 = (\<lambda>s. ''h''), ce_encrypt = (\<lambda>m s. unary s), ce_decrypt = (\<lambda>m c. Some (unary_read 0 c)) \<rparr>"

lemma unary_read_replicate: "unary_read n (replicate k (CHR ''a'') @ xs) = unary_read (n + k) xs"
  by (induction k arbitrary: n) simp_all

lemma unary_read_unary: "unary_read 0 (unary s) = s"
  by (induction s) (simp_all add: unary_def unary_read_replicate)

lemma unary_letters: "set (unary s) \<subseteq> {CHR ''a'', CHR ''b'', CHR ''c''}"
  by (auto simp: unary_def)

lemma toy_cipher_laws: "fernet_laws toy_cipher"
proof -
  have "ascii_only (unary s)" for s
    using unary_letters [of s] by (auto simp: ascii_only_def list_all_iff)
  moreover have "strip (unary s) \<noteq> []" for s
  proof -
    have "\<not> is_space x" if "x \<in> set (unary s)" for x
      using that unary_letters [of s] by (auto simp: is_space_def)
    moreover obtain x xs where "unary s = x # xs" by (cases "unary s") (simp_all add: unary_def)
    ultimately show ?thesis by (auto simp: strip_def lstrip_def rstrip_def dropWhile_eq_Nil_conv)
  qed
  ultimately show ?thesis by (simp add: fernet_laws_def toy_cipher_def unary_read_unary)
qed

lemma toy_encrypt: "encrypt_official toy_cipher s = Inr (unary s)"
proof -
  have "official_material (ce_settings toy_cipher) = Inr ''k''" by code_simp
  then show ?thesis by (simp add: encrypt_official_def seal_def) (simp add: toy_cipher_def)
qed

definition sample_officials :: credential_file where
  "sample_officials =
     Holds [(''official'', PDict [(''wa1'', PDict [(''phoneNumberId'', PStr ''p'')])])]"

theorem registration_pin_is_stable_witness:
  "\<exists>f1. get_or_create_registration_pin toy_cipher \<lparr> cl_now = ''t'', cl_disk = True \<rparr> 23456 ''wa1'' None sample_officials =
      (Inr ''123456'', f1) \<and>
    get_or_create_registration_pin toy_cipher \<lparr> cl_now = ''u'', cl_disk = True \<rparr> 5 ''wa1'' None
      (credential_run toy_cipher
        [Upsert_Official \<lparr> cl_now = ''t'', cl_disk = True \<rparr> ''wa1'' ''tok'' ''p'' ''b'' ''oauth'' None,
         Delete_Official \<lparr> cl_now = ''t'', cl_disk = True \<rparr> ''wa2''] f1) =
      (Inr ''123456'',
       credential_run toy_cipher
        [Upsert_Official \<lparr> cl_now = ''t'', cl_disk = True \<rparr> ''wa1'' ''tok'' ''p'' ''b'' ''oauth'' None,
         Delete_Official \<lparr> cl_now = ''t'', cl_disk = True \<rparr> ''wa2''] f1)"
proof -
  let ?ask = "get_or_create_registration_pin toy_cipher \<lparr> cl_now = ''t'', cl_disk = True \<rparr> 23456 ''wa1'' None sample_officials"
  have r: "official_at ''wa1'' sample_officials = Some [(''phoneNumberId'', PStr ''p'')]"
    by code_simp
  have pin: "nat_str 123456 = ''123456''" by (simp add: nat_str.simps char_of_def bit_0)
  have none: "stored_text [(''phoneNumberId'', PStr ''p'')] ''registrationPinCiphertext'' = None" by code_simp
  have "fst ?ask = Inr ''123456''"
    by (simp add: get_or_create_registration_pin_def r none store_pin_def toy_encrypt saving_cases pin)
  then obtain f1 where f1: "?ask = (Inr ''123456'', f1)" by (metis prod.collapse)
  have *: "list_all (keeps_number ''wa1'' ''p'')
      [Upsert_Official \<lparr> cl_now = ''t'', cl_disk = True \<rparr> ''wa1'' ''tok'' ''p'' ''b'' ''oauth'' None,
       Delete_Official \<lparr> cl_now = ''t'', cl_disk = True \<rparr> ''wa2'']"
    by simp
  have phone: "dget [(''phoneNumberId'', PStr ''p'')] ''phoneNumberId'' = PStr ''p''" by (simp add: dget_def)
  have draw: "(23456 :: nat) < 900000" by simp
  show ?thesis
    by (rule exI [of _ f1], rule conjI [OF f1 conjunct2 [OF registration_pin_is_stable [OF toy_cipher_laws draw f1 r phone *]]])
qed

text \<open>
  C20: the access token of official WhatsApp credentials comes back: after the official credentials of
  an instance are saved, its token is the one given, whatever was in the file, and the official tokens
  of the other instances and the tokens of the provider accounts read as they did before. A file that cannot
  be read counts as empty before and after: the tokens it held are not kept.
\<close>

theorem official_token_comes_back:
  assumes "fernet_laws env"
    and "upsert_official_credentials env cl inst token phone business source metadata f = (Inr c, f')"
  shows "official_access_token env inst f' = Inr (Some token) \<and>
    (\<forall>j. j = inst \<or> official_access_token env j f' = official_access_token env j f) \<and>
    provider_access_token env a f' = provider_access_token env a f"
proof -
  obtain x where x: "encrypt_official env token = Inr x"
    using assms(2) by (auto simp: upsert_official_credentials_def split: sum.split_asm)
  define r where "r = official_dict env (cl_now cl) (dict_or_empty (official_at inst f)) inst token x phone business source metadata"
  have f': "f' = Holds (sorted_dict (with_officials (dset (officials f) inst (PDict r)) f))"
    using assms(2) x by (simp add: upsert_official_credentials_def Let_def saving_cases r_def split: if_split_asm)
  have cipher: "stored_text r ''accessTokenCiphertext'' = Some x"
    using official_sealed(2) [OF assms(1) x] by (simp add: r_def official_dict_def stored_text_def dget_Cons)
  have other: "official_access_token env j f' = official_access_token env j f" if "j \<noteq> inst" for j
    using that by (cases "dict_at (officials f) j")
      (simp_all add: official_access_token_def f' credential_file_simps official_at_def [of j f])
  have own: "official_access_token env inst f' = Inr (Some token)"
    by (simp add: official_access_token_def f' credential_file_simps cipher official_sealed(1) [OF assms(1) x])
  have accounts: "provider_access_token env a f' = provider_access_token env a f"
    by (cases "provider_at a f") (simp_all add: provider_access_token_def f' credential_file_simps)
  show ?thesis using own other accounts by blast
qed

theorem official_token_comes_back_witness:
  "\<exists>f'. official_access_token toy_cipher ''wa1'' f' = Inr (Some ''tok'') \<and>
    official_access_token toy_cipher ''wa2'' f' = official_access_token toy_cipher ''wa2'' sample_officials"
proof -
  let ?up = "upsert_official_credentials toy_cipher \<lparr> cl_now = ''t'', cl_disk = True \<rparr> ''wa1'' ''tok'' ''p'' ''b'' ''oauth'' None sample_officials"
  have "is_ok (fst ?up)"
    by (simp add: upsert_official_credentials_def toy_encrypt Let_def saving_cases)
  then obtain c f' where "?up = (Inr c, f')" by (metis is_ok_iff prod.collapse)
  from official_token_comes_back [OF toy_cipher_laws this]
  have "official_access_token toy_cipher ''wa1'' f' = Inr (Some ''tok'')"
    and "\<And>j. j = ''wa1'' \<or> official_access_token toy_cipher j f' = official_access_token toy_cipher j sample_officials"
    by blast+
  from this(1) this(2) [of "''wa2''"] show ?thesis by (intro exI [of _ f']) simp
qed

end
