(* ===== verification/Connections_Spec.thy ===== *)
theory Connections_Spec
  imports Connection_Changes Credentials_Spec Timeline_Spec
begin

text \<open>
  What the connection service promises about Instagram accounts: an account belongs to one
  connection whatever the operations do, and disconnecting leaves nothing of it behind.
\<close>

section \<open>An account has one owner\<close>

definition well_bound :: "pdict \<Rightarrow> bool" where
  "well_bound r \<longleftrightarrow> is_str (dget r ''id'') \<and>
     (let a = dget (sub_dict r ''provider_account'') ''providerAccountId'' in a = PNone \<or> is_str a)"

definition accounts_once :: "registry \<Rightarrow> bool" where
  "accounts_once s \<longleftrightarrow>
     (let rs = set (dict_values (rg_connections s)) in
      distinct (map fst (rg_connections s)) \<and> (\<forall>r\<in>rs. well_bound r) \<and>
      (\<forall>r\<in>rs. \<forall>r'\<in>rs. bound_account r = bound_account r' \<longrightarrow> bound_account r \<noteq> [] \<longrightarrow> dget r ''id'' = dget r' ''id''))"

lemma sort_json_None [simp]: "sort_json v = PNone \<longleftrightarrow> v = PNone"
  by (cases v) auto

lemma is_str_sorted [simp]: "is_str (sort_json v) = is_str v"
  by (cases v) auto

lemma sub_dict_sorted [simp]: "sub_dict (sorted_dict d) k = sorted_dict (sub_dict d k)"
  by (cases "dget d k") (simp_all add: sub_dict_def, simp_all add: sorted_dict_def)

lemma str_sorted: "v = PNone \<or> is_str v \<Longrightarrow> sort_json v = v"
  by (cases v) auto

lemma well_bound_sorted [simp]: "well_bound (sorted_dict r) = well_bound r"
  by (simp add: well_bound_def Let_def)

lemma bound_account_sorted [simp]: "well_bound r \<Longrightarrow> bound_account (sorted_dict r) = bound_account r"
  by (simp add: well_bound_def bound_account_def Let_def str_sorted)

lemma id_sorted [simp]: "well_bound r \<Longrightarrow> dget (sorted_dict r) ''id'' = dget r ''id''"
  by (simp add: well_bound_def str_sorted)

lemma distinct_keys_sorted [simp]: "distinct (map fst (sorted_dict d)) = distinct (map fst d)"
proof -
  have "mset (map fst (sorted_dict d)) = mset (map fst d)"
    by (simp add: sorted_dict_def sort_json_items_map image_mset.compositionality comp_def case_prod_unfold)
  then show ?thesis by (rule mset_eq_imp_distinct_iff)
qed

lemma accounts_once_sorted [simp]: "accounts_once s \<Longrightarrow> accounts_once (sorted_registry s)"
proof -
  assume s: "accounts_once s"
  let ?rs = "set (dict_values (rg_connections s))"
  have wb: "well_bound r" if "r \<in> ?rs" for r using s that by (simp add: accounts_once_def Let_def)
  have one: "dget r ''id'' = dget r' ''id''" if "r \<in> ?rs" "r' \<in> ?rs" "bound_account r = bound_account r'" "bound_account r \<noteq> []" for r r'
    using s that unfolding accounts_once_def Let_def by blast
  have "distinct (map fst (rg_connections s))" using s by (simp add: accounts_once_def Let_def)
  then show ?thesis
    unfolding accounts_once_def Let_def sorted_registry_simps dict_values_sorted distinct_keys_sorted
    by (intro conjI ballI impI; clarify) (simp_all add: wb del: dget_sorted, metis one)
qed

lemma once_answer:
  "accounts_once (read_registry f) \<Longrightarrow> accounts_once s \<Longrightarrow> accounts_once (read_registry (snd (answer_after x (write_registry ok s f))))"
  using read_after_write [of x ok s f] by auto

lemma once_less:
  assumes "accounts_once s" and "\<And>x. x \<in> set (dict_values (rg_connections s')) \<Longrightarrow> x \<in> set (dict_values (rg_connections s))"
    and "distinct (map fst (rg_connections s'))"
  shows "accounts_once s'"
  using assms unfolding accounts_once_def Let_def by blast

definition fits_account :: "registry \<Rightarrow> pdict \<Rightarrow> bool" where
  "fits_account s r \<longleftrightarrow> well_bound r \<and> (bound_account r \<noteq> [] \<longrightarrow>
     (\<forall>r'\<in>set (dict_values (rg_connections s)). bound_account r' = bound_account r \<longrightarrow> dget r' ''id'' = dget r ''id''))"

lemma once_put:
  assumes "accounts_once s" and "fits_account s r" and "rg_connections s' = dset (rg_connections s) name (PDict r)"
  shows "accounts_once s'"
proof -
  have "x = r \<or> x \<in> set (dict_values (rg_connections s))" if "x \<in> set (dict_values (rg_connections s'))" for x
    using that assms(3) dict_values_dset by auto
  moreover have "distinct (map fst (rg_connections s'))"
    using assms(1,3) by (simp add: accounts_once_def Let_def distinct_update)
  ultimately show ?thesis
    using assms(1,2) unfolding accounts_once_def fits_account_def Let_def by metis
qed

text \<open>A record that keeps its id and its account, or has none, fits.\<close>

lemma fits_same:
  assumes "accounts_once s" and "r \<in> set (dict_values (rg_connections s))" and "dget r' ''id'' = dget r ''id''"
    and "dget r' ''provider_account'' = dget r ''provider_account''"
  shows "fits_account s r'"
  using assms unfolding accounts_once_def fits_account_def Let_def well_bound_def bound_account_def sub_dict_def by metis

lemma fits_unbound: "is_str (dget r ''id'') \<Longrightarrow> \<not> is_dict (dget r ''provider_account'') \<Longrightarrow> fits_account s r"
  by (cases "dget r ''provider_account''") (simp_all add: fits_account_def well_bound_def bound_account_def sub_dict_def)

section \<open>Every operation keeps it\<close>

abbreviation once :: "conn_world \<Rightarrow> bool" where
  "once w \<equiv> accounts_once (read_registry (cw_registry w))"

named_theorems once_intros \<open>steps after which an account still has one owner\<close>

lemma once_and_then [once_intros]:
  "once (snd m) \<Longrightarrow> (\<And>x. fst m = Inr x \<Longrightarrow> once (snd (f x (snd m)))) \<Longrightarrow> once (snd (and_then m f))"
  by (cases m; cases "fst m") (auto simp: and_then_def)

lemma once_reading [once_intros]: "once w \<Longrightarrow> once (snd (reading r w))"
  by (simp add: reading_def)

lemma snd_reading [simp]: "snd (reading r w) = w" "fst (reading r w) = r"
  by (simp_all add: reading_def)

lemma and_then_reading [simp]: "and_then (reading r w) f = (case r of Inl e \<Rightarrow> (Inl e, w) | Inr x \<Rightarrow> f x w)"
  by (cases r) (simp_all add: and_then_def reading_def)

lemma and_then_done [simp]: "and_then (Inr x, w) f = f x w" "and_then (Inl e, w) f = (Inl e, w)"
  by (simp_all add: and_then_def)

lemma registry_kept [simp]:
  "cw_registry (snd (on_credentials f w)) = cw_registry w" "cw_registry (snd (on_core_keys g w)) = cw_registry w"
  by (simp_all add: on_credentials_def on_core_keys_def split: prod.split)

lemma once_on_registry:
  "accounts_once (read_registry (snd (f (cw_registry w)))) \<Longrightarrow> once (snd (on_registry f w))"
  by (cases "f (cw_registry w)") (simp add: on_registry_def)

lemma once_change_record:
  assumes "once w"
    and "\<And>name r. connection_item i (read_registry (cw_registry w)) = Some (name, r) \<Longrightarrow>
      fits_account (read_registry (cw_registry w)) (dmerge r changes)"
  shows "once (snd (change_record call i changes w))"
proof (cases "connection_item i (read_registry (cw_registry w))")
  case None
  then show ?thesis
    using assms by (simp add: change_record_def on_registry_def update_connection_record_def Let_def)
next
  case (Some nr)
  obtain name r where nr: "nr = (name, r)" by (cases nr)
  let ?s = "read_registry (cw_registry w)"
  have "accounts_once (?s\<lparr> rg_connections := dset (rg_connections ?s) name (PDict (dmerge r changes)) \<rparr>)"
    by (rule once_put [OF assms(1) assms(2) [OF Some [unfolded nr]]]) simp
  then show ?thesis
    unfolding change_record_def by (intro once_on_registry) (simp add: update_connection_record_def Let_def Some nr once_answer assms(1))
qed

lemma once_change_other [once_intros]:
  assumes "once w" and "\<not> dhas changes ''id''" and "\<not> dhas changes ''provider_account''"
  shows "once (snd (change_record call i changes w))"
proof (rule once_change_record [OF assms(1)])
  fix name r assume "connection_item i (read_registry (cw_registry w)) = Some (name, r)"
  from connection_item_value(1) [OF this]
  show "fits_account (read_registry (cw_registry w)) (dmerge r changes)"
    by (rule fits_same [OF assms(1)]) (simp_all add: dget_dmerge_other assms(2,3))
qed

lemma once_change_connection:
  "once (snd (change_record call i (stamped call changes) w)) \<Longrightarrow> once (snd (change_connection env call i changes w))"
  unfolding change_connection_def by (rule once_and_then) auto

lemma once_delete_record [once_intros]: "once w \<Longrightarrow> once (snd (on_registry (delete_connection_record ok i) w))"
proof (intro once_on_registry)
  assume w: "once w"
  let ?s = "read_registry (cw_registry w)"
  have "accounts_once (?s\<lparr> rg_connections := AList.delete name (rg_connections ?s), rg_deleted := d \<rparr>)" for name d
    using w by (intro once_less [OF w]) (auto dest: dict_values_delete simp: accounts_once_def Let_def distinct_delete)
  then show "accounts_once (read_registry (snd (delete_connection_record ok i (cw_registry w))))"
    using w by (auto simp: delete_connection_record_def Let_def once_answer split: option.split)
qed

lemma ensure_loop_rows:
  assumes "ensure_loop fid fb runtimes (s, n, c) = Inr (s', n', c')" and "P s"
    and "\<And>s s' name runtime. P s \<Longrightarrow> import_connection fid fb name runtime s = Inr s' \<Longrightarrow> P s'"
    and "\<And>s s' name r. P s \<Longrightarrow> dict_at (rg_connections s) name = Some r \<Longrightarrow> adopt_connection fid fb name r s = Inr s' \<Longrightarrow> P s'"
  shows "P s'"
  using assms(1,2)
proof (induction runtimes arbitrary: s n c)
  case (Cons runtime rest)
  then show ?case
    by (auto simp: Let_def rbind_eqs intro: assms(3,4) split: if_splits option.splits elim!: Cons.IH)
qed simp

lemma once_import_row:
  assumes "accounts_once s" and "import_connection fid fb name runtime s = Inr s'"
  shows "accounts_once s'"
proof -
  obtain c u where s': "rg_connections s' = dset (rg_connections s) name (PDict
     [(''id'', PStr (py_str (py_or (dget runtime ''id'') (PStr name)))), (''legacy_name'', PStr name),
      (''client_id'', PStr fid), (''created_at'', c), (''updated_at'', u)])"
    using assms(2) by (auto simp: import_connection_def rbind_eqs Let_def)
  show ?thesis by (rule once_put [OF assms(1) fits_unbound s']) (simp_all add: dget_Cons)
qed

lemma once_adopt_row:
  assumes "accounts_once s" and "dict_at (rg_connections s) name = Some r" and "adopt_connection fid fb name r s = Inr s'"
  shows "accounts_once s'"
proof -
  obtain u where s': "rg_connections s' = dset (rg_connections s) name
      (PDict (dset (dset r ''client_id'' (PStr fid)) ''updated_at'' u))"
    using assms(3) by (auto simp: adopt_connection_def rbind_eqs Let_def)
  show ?thesis by (rule once_put [OF assms(1) fits_same [OF assms(1) dict_at_value [OF assms(2)]] s']) simp_all
qed

lemma once_import [once_intros]: "once w \<Longrightarrow> once (snd (import_runtimes call items w))"
proof -
  assume w: "once w"
  let ?fb = "migration_client_record (ca_now call) (cw_registry w)"
  show ?thesis
  proof (cases "ensure_loop (py_str (dget ?fb ''id'')) ?fb items (read_registry (cw_registry w), 0, False)")
    case (Inl e)
    then show ?thesis
      using w by (simp add: import_runtimes_def Let_def on_registry_def ensure_legacy_connections_def split: prod.split)
  next
    case (Inr t)
    obtain s n c where t: "t = (s, n, c)" by (cases t)
    have "accounts_once s"
      by (rule ensure_loop_rows [where P = accounts_once, OF Inr [unfolded t] w]) (rule once_import_row once_adopt_row; assumption)+
    then show ?thesis
      using w unfolding import_runtimes_def Let_def
      by (intro once_on_registry) (simp add: ensure_legacy_connections_def Inr t once_answer)
  qed
qed

lemma once_runtimes [once_intros]: "once w \<Longrightarrow> once (snd (runtime_connections call w))"
  unfolding runtime_connections_def by (cases "ca_instances call") (auto intro!: once_intros)

lemma once_list [once_intros]: "once w \<Longrightarrow> once (snd (list_connections env call c w))"
  unfolding list_connections_def by (intro once_intros) (auto intro: once_runtimes)

lemma once_get [once_intros]: "once w \<Longrightarrow> once (snd (get_connection env call i w))"
  unfolding get_connection_def by (intro once_intros) auto

lemma once_forget [once_intros]: "once w \<Longrightarrow> once (snd (forget_account call i r w))"
  unfolding forget_account_def Let_def by (intro once_and_then) (auto split: sum.split intro!: once_and_then)

lemma once_health [once_intros]:
  "once w \<Longrightarrow> once (snd (change_record call i (stamped call (health_change state health)) w))"
  by (rule once_change_other) (simp_all add: stamped_def health_change_def dhas_Cons)

lemma once_clear:
  assumes "once w"
  shows "once (snd (change_record call i (stamped call ((''provider_account'', PNone) # (''core_channel'', PNone) # health_change s h)) w))"
proof (rule once_change_record [OF assms])
  fix name r assume c: "connection_item i (read_registry (cw_registry w)) = Some (name, r)"
  have "is_str (dget r ''id'')"
    using assms connection_item_value(1) [OF c] by (auto simp: accounts_once_def well_bound_def Let_def)
  then show "fits_account (read_registry (cw_registry w))
      (dmerge r (stamped call ((''provider_account'', PNone) # (''core_channel'', PNone) # health_change s h)))"
    by (intro fits_unbound) (simp_all add: stamped_def health_change_def dmerge_def)
qed

text \<open>Writing an account that no other connection has.\<close>

lemma once_account:
  assumes w: "once w"
    and free: "\<And>r r'. connection_record_by_id i (cw_registry w) = Some r \<Longrightarrow> r' \<in> set (connection_records (cw_registry w)) \<Longrightarrow>
      bound_account r' = str_or_empty (dget account ''providerAccountId'') \<Longrightarrow> bound_account r' \<noteq> [] \<Longrightarrow> dget r' ''id'' = dget r ''id''"
    and "dget account ''providerAccountId'' = PNone \<or> is_str (dget account ''providerAccountId'')"
  shows "once (snd (change_record call i (stamped call ((''provider_account'', PDict account) # health_change s h)) w))"
proof (rule once_change_record [OF w])
  fix name r assume c: "connection_item i (read_registry (cw_registry w)) = Some (name, r)"
  let ?r = "dmerge r (stamped call ((''provider_account'', PDict account) # health_change s h))"
  have r: "dget ?r ''id'' = dget r ''id''" "sub_dict ?r ''provider_account'' = account"
    by (simp_all add: stamped_def health_change_def dmerge_def sub_dict_def)
  have "is_str (dget r ''id'')"
    using w connection_item_value(1) [OF c] by (auto simp: accounts_once_def well_bound_def Let_def)
  then show "fits_account (read_registry (cw_registry w)) ?r"
    using free [of r] assms(3) c
    by (auto simp: fits_account_def well_bound_def bound_account_def r Let_def connection_record_by_id_def connection_records_def)
qed

lemma by_id_value:
  "connection_record_by_id i f = Some r \<Longrightarrow> r \<in> set (connection_records f) \<and> py_str (dget r ''id'') = i"
  using connection_item_value by (fastforce simp: connection_record_by_id_def connection_records_def)

lemma once_bind:
  assumes w: "once w"
  shows "once (snd (bind_instagram_provider_account env call i a metadata scopes w))"
proof (cases "bindable env call i a scopes w")
  case (Inl e)
  then show ?thesis using w by (simp add: bind_instagram_provider_account_def)
next
  case (Inr u)
  have wb: "well_bound r" if "r \<in> set (connection_records (cw_registry w))" for r
    using w that by (simp add: accounts_once_def connection_records_def Let_def)
  have free: "dget r' ''id'' = dget r ''id''"
    if "connection_record_by_id i (cw_registry w) = Some r" "r' \<in> set (connection_records (cw_registry w))"
      "bound_account r' = pa_account a" for r r'
  proof -
    have "str_or_empty (dget r' ''id'') = i"
      using Inr that(2,3) by (auto simp: bindable_def assert_account_available_def assert_account_unbound_def rbind_eqs list_ex_iff split: if_splits)
    moreover have "r \<in> set (connection_records (cw_registry w))" "py_str (dget r ''id'') = i" using by_id_value [OF that(1)] by auto
    ultimately show ?thesis
      using wb [of r] wb [OF that(2)] by (cases "dget r ''id''"; cases "dget r' ''id''") (auto simp: well_bound_def str_or_empty_def py_or_def split: if_splits)
  qed
  have "once (snd (change_record call i (stamped call ((''provider_account'', PDict [(''provider'', PStr (pa_provider a)),
      (''channelType'', PStr (pa_channel a)), (''providerAccountId'', PStr (pa_account a)), (''metadata'', PDict metadata)])
      # health_change s h)) w))" for s h
    by (rule once_account [OF w]) (use free in \<open>auto simp: dget_Cons str_or_empty_def py_or_def split: if_splits\<close>)
  then show ?thesis
    using Inr by (auto simp: bind_instagram_provider_account_def Let_def intro: once_change_connection)
qed

lemma once_verify:
  assumes w: "once w"
  shows "once (snd (mark_instagram_meta_verified env call i w))"
proof (cases "require_instagram_meta_connection i (cw_registry w)")
  case (Inl e)
  then show ?thesis using w by (simp add: mark_instagram_meta_verified_def)
next
  case (Inr r)
  then have r: "connection_record_by_id i (cw_registry w) = Some r"
    by (auto simp: require_instagram_meta_connection_def stored_by_id_def rbind_eqs split: option.splits if_splits)
  let ?account = "sub_dict r ''provider_account''"
  have mem: "r \<in> set (dict_values (rg_connections (read_registry (cw_registry w))))"
    using by_id_value [OF r] by (simp add: connection_records_def)
  have "once (snd (change_record call i (stamped call ((''provider_account'', PDict (dset ?account ''metadata'' m))
      # health_change s h)) w))" for m s h
  proof (rule once_account [OF w])
    fix r1 r' assume "connection_record_by_id i (cw_registry w) = Some r1" "r' \<in> set (connection_records (cw_registry w))"
      "bound_account r' = str_or_empty (dget (dset ?account ''metadata'' m) ''providerAccountId'')" "bound_account r' \<noteq> []"
    then have "r1 = r" "bound_account r' = bound_account r" "r' \<in> set (dict_values (rg_connections (read_registry (cw_registry w))))"
      "bound_account r' \<noteq> []"
      using r by (simp_all add: bound_account_def connection_records_def)
    then show "dget r' ''id'' = dget r1 ''id''"
      using w mem unfolding accounts_once_def Let_def by metis
  next
    show "dget (dset ?account ''metadata'' m) ''providerAccountId'' = PNone \<or> is_str (dget (dset ?account ''metadata'' m) ''providerAccountId'')"
      using w mem by (auto simp: accounts_once_def well_bound_def Let_def)
  qed
  then show ?thesis
    using Inr w by (auto simp: mark_instagram_meta_verified_def Let_def intro: once_change_connection)
qed

lemma once_change_literal [once_intros]:
  "once w \<Longrightarrow> once (snd (change_record call i (stamped call [(''name'', v)]) w))"
  "once w \<Longrightarrow> once (snd (change_record call i [(''last_activity_at'', u), (''updated_at'', v)] w))"
  "once w \<Longrightarrow> once (snd (change_record call i (stamped call ((''core_channel'', v) # health_change s h)) w))"
  by (rule once_change_other; simp add: stamped_def health_change_def dhas_Cons)+

lemma once_core_keys [once_intros]: "once w \<Longrightarrow> once (snd (on_core_keys f w))"
  by simp

lemma once_undoing [once_intros]: "once (snd m) \<Longrightarrow> once (snd (undoing e m))"
  unfolding undoing_def by (rule once_and_then) simp_all

lemma once_create: "once w \<Longrightarrow> once (snd (create_connection env call c channel name provider w))"
proof -
  assume w: "once w"
  let ?s = "read_registry (cw_registry w)"
  have "once (snd (on_registry (save_connection_record_for_client ok n
      (new_connection call owner channel title provider)) w))" for ok n owner title
  proof (intro once_on_registry)
    let ?r = "new_connection call owner channel title provider"
    have "accounts_once (put_connection n ?r ?s)"
      by (rule once_put [OF w fits_unbound]) (simp_all add: put_connection_def new_connection_def dget_Cons)
    then show "accounts_once (read_registry (snd (save_connection_record_for_client ok n ?r (cw_registry w))))"
      using w by (simp add: save_connection_record_for_client_def Let_def once_answer)
  qed
  then show ?thesis
    using w unfolding create_connection_def by (auto simp: Let_def split: sum.split intro!: once_and_then)
qed

datatype conn_op =
    Create string string "string option" string
  | Rename string "string option"
  | Remove string "unit res"
  | Bind string provider_account pdict "string list"
  | Verify string
  | Bind_Core string string string string "string option"
  | Disconnect string
  | Complete_Signup string
  | Send string string string "string \<Rightarrow> string \<Rightarrow> string \<Rightarrow> string \<Rightarrow> pdict res"
  | Start hook_cfg string "unit res" hook_answers
  | List_All "string option"
  | Migrate

definition done_with :: "'a res \<times> conn_world \<Rightarrow> unit res \<times> conn_world" where
  "done_with m = and_then m (\<lambda>_. reading (Inr ()))"

fun run_conn_op :: "conn_env \<Rightarrow> conn_call \<Rightarrow> conn_op \<Rightarrow> conn_world \<Rightarrow> unit res \<times> conn_world" where
  "run_conn_op env call (Create c channel name provider) w = done_with (create_connection env call c channel name provider w)"
| "run_conn_op env call (Rename i name) w = done_with (update_connection env call i name w)"
| "run_conn_op env call (Remove i answer) w = delete_connection call i answer w"
| "run_conn_op env call (Bind i a metadata scopes) w = done_with (bind_instagram_provider_account env call i a metadata scopes w)"
| "run_conn_op env call (Verify i) w = done_with (mark_instagram_meta_verified env call i w)"
| "run_conn_op env call (Bind_Core i channel key b name) w = done_with (bind_instagram_core_channel env call i channel key b name w)"
| "run_conn_op env call (Disconnect i) w = done_with (disconnect_instagram_connection env call i w)"
| "run_conn_op env call (Complete_Signup i) w = done_with (mark_meta_signup_completed env call i w)"
| "run_conn_op env call (Send i recipient content post) w = done_with (send_instagram_text env call i recipient content post w)"
| "run_conn_op env call (Start cfg i created answers) w = done_with (start_evolution_connection env call cfg i created answers w)"
| "run_conn_op env call (List_All c) w = done_with (list_connections env call c w)"
| "run_conn_op env call Migrate w = done_with (migrate_legacy_connections call w)"

text \<open>The worlds that the operations reach from a registry without connections.\<close>

inductive conn_state :: "conn_world \<Rightarrow> bool" where
  no_connections: "rg_connections (read_registry (cw_registry w)) = [] \<Longrightarrow> conn_state w"
| operation: "conn_state w \<Longrightarrow> conn_state (snd (run_conn_op env call op w))"

lemma once_done: "once (snd m) \<Longrightarrow> once (snd (done_with m))"
  unfolding done_with_def by (rule once_and_then) simp_all

lemma once_send: "once w \<Longrightarrow> once (snd (send_instagram_text env call i recipient content post w))"
proof -
  have "once (snd (after_sending env call i t result w))" if "once w" for t result w
    unfolding after_sending_def Let_def
    by (auto split: prod.split intro!: once_and_then once_change_literal simp: that)
  then show "once w \<Longrightarrow> ?thesis"
    unfolding send_instagram_text_def by (simp split: sum.split)
qed

lemma once_disconnect: "once w \<Longrightarrow> once (snd (disconnect_instagram_connection env call i w))"
  unfolding disconnect_instagram_connection_def
  by (auto split: sum.split intro!: once_and_then once_forget once_change_connection once_clear)

lemma once_remove: "once w \<Longrightarrow> once (snd (delete_connection call i answer w))"
  unfolding delete_connection_def
  by (auto split: sum.split intro!: once_and_then once_forget once_runtimes once_delete_record)

lemma once_unbind_core [once_intros]: "once w \<Longrightarrow> once (snd (and_then (on_core_keys f w) (\<lambda>_. reading r)))"
  by (rule once_and_then) simp_all

lemma once_bind_core: "once w \<Longrightarrow> once (snd (bind_instagram_core_channel env call i channel key b name w))"
  unfolding bind_instagram_core_channel_def Let_def
  apply (rule once_and_then)
   apply (simp only: snd_reading)
  apply (rule once_and_then)
   apply (simp only: registry_kept snd_reading)
  apply (rule once_and_then)
   apply (rule once_change_literal(3))
   apply (simp only: registry_kept snd_reading)
  subgoal for _ _ updated
    by (cases updated) (simp_all only: option.case snd_conv once_unbind_core once_change_literal(3) registry_kept snd_reading)
  done

lemma once_start: "once w \<Longrightarrow> once (snd (start_evolution_connection env call cfg i created answers w))"
  unfolding start_evolution_connection_def
  by (auto split: sum.split intro!: once_undoing once_delete_record once_health)

lemma once_rename: "once w \<Longrightarrow> once (snd (update_connection env call i name w))"
  unfolding update_connection_def
  by (auto split: sum.split option.split intro!: once_and_then once_change_literal once_get)

lemma once_migrate: "once w \<Longrightarrow> once (snd (migrate_legacy_connections call w))"
  unfolding migrate_legacy_connections_def by (auto split: sum.split intro!: once_import)

lemma once_op: "once w \<Longrightarrow> once (snd (run_conn_op env call op w))"
  by (cases op)
    (auto simp: mark_meta_signup_completed_def intro!: once_done once_create once_rename once_remove once_bind once_verify
       once_bind_core once_disconnect once_send once_start once_list once_migrate once_change_connection once_health)

lemma conn_state_once: "conn_state w \<Longrightarrow> once w"
  by (induction rule: conn_state.induct) (simp add: accounts_once_def dict_values_def, rule once_op)

text \<open>
  C23: in every state that the operations of the connection service reach, with writes that fail and
  whatever the manager and Meta answer, two stored connections with the same Instagram account have
  the same id.
\<close>

theorem instagram_account_has_one_owner:
  assumes "conn_state w" and "r \<in> set (connection_records (cw_registry w))" and "r' \<in> set (connection_records (cw_registry w))"
    and "bound_account r = bound_account r'" and "bound_account r \<noteq> []"
  shows "dget r ''id'' = dget r' ''id''"
  using conn_state_once [OF assms(1)] assms(2-5)
  unfolding accounts_once_def Let_def connection_records_def by blast

section \<open>Disconnecting\<close>

lemma same_id_same_entry:
  assumes "distinct (map g (dict_values d))" and "(k, PDict r) \<in> set d" and "(k', PDict r') \<in> set d" and "g r = g r'"
  shows "k = k'"
proof -
  have "distinct (map (\<lambda>kv. g (as_dict (snd kv))) (filter (is_dict \<circ> snd) d))"
    using assms(1) by (simp add: dict_values_def filter_map comp_def)
  then have "inj_on (\<lambda>kv. g (as_dict (snd kv))) (set (filter (is_dict \<circ> snd) d))" by (simp add: distinct_map)
  from inj_onD [OF this, of "(k, PDict r)" "(k', PDict r')"] show ?thesis using assms(2-4) by simp
qed

text \<open>The records after one was replaced.\<close>

lemma replaced_values:
  assumes "distinct (map fst d)" and "x \<in> set (dict_values (dset d k (PDict y)))"
  shows "x = y \<or> (\<exists>k'. k' \<noteq> k \<and> (k', PDict x) \<in> set d)"
proof -
  obtain k' where k': "(k', PDict x) \<in> set (dset d k (PDict y))" using assms(2) by (auto simp: in_dict_values)
  then have "map_of (dset d k (PDict y)) k' = Some (PDict x)" using distinct_update [OF assms(1)] by simp
  then show ?thesis using map_of_SomeD [of d k'] by (auto simp: update_conv' split: if_splits)
qed

lemma no_matches: "(\<And>r. r \<in> set rs \<Longrightarrow> bound_account r \<noteq> a) \<Longrightarrow> account_matches a rs = Inr []"
  by (induction rs) auto

lemma deleted_credentials:
  assumes "delete_provider_credentials cl a f = (Inr x, f')"
  shows "provider_at a f' = None"
proof (cases "dhas (provider_accounts f) (storage_key a)")
  case False
  then show ?thesis
    using assms by (auto simp: delete_provider_credentials_def provider_at_def dict_at_def dget_not_dhas)
next
  case True
  then have "f' = Holds (sorted_dict (with_accounts (AList.delete (storage_key a) (provider_accounts f)) f))"
    using assms by (auto simp: delete_provider_credentials_def saving_cases split: if_splits)
  then show ?thesis by (simp add: provider_at_def saved_accounts with_accounts_def dict_at_removed)
qed

lemma deleted_core_key:
  assumes "delete_core_key ok i f = (Inr x, f')" and "strip i \<noteq> []"
  shows "map_of (read_core_creds f') (strip i) = None"
  using assms by (auto simp: delete_core_key_def Let_def replace_file_def delete_conv' split: if_splits)

lemma and_then_Inr:
  "and_then m f = (Inr y, w') \<longleftrightarrow> (\<exists>x w. m = (Inr x, w) \<and> f x w = (Inr y, w'))"
  by (cases m; cases "fst m") (auto simp: and_then_def)

lemma forget_account_done:
  assumes "forget_account call i r w = (Inr x, w')" and "sub_dict r ''provider_account'' \<noteq> []"
  obtains a where "bound_reference (sub_dict r ''provider_account'') = Inr a" and "provider_at a (cw_credentials w') = None"
    and "strip i \<noteq> [] \<Longrightarrow> map_of (read_core_creds (cw_core_keys w')) (strip i) = None"
    and "cw_registry w' = cw_registry w"
proof -
  obtain a y w1 where a: "bound_reference (sub_dict r ''provider_account'') = Inr a"
    and y: "on_credentials (delete_provider_credentials (cipher_call_of call) a) w = (Inr y, w1)"
    and x: "on_core_keys (delete_core_key (ca_disk call ''core'') i) w1 = (Inr x, w')"
    using assms by (auto simp: forget_account_def Let_def and_then_Inr reading_def split: sum.splits)
  have "provider_at a (cw_credentials w1) = None"
    using y by (auto simp: on_credentials_def dest: deleted_credentials split: prod.splits)
  moreover have "cw_credentials w' = cw_credentials w1" "cw_registry w' = cw_registry w1" "cw_registry w1 = cw_registry w"
    using x y by (auto simp: on_core_keys_def on_credentials_def split: prod.splits)
  moreover have "strip i \<noteq> [] \<Longrightarrow> map_of (read_core_creds (cw_core_keys w')) (strip i) = None"
    using x by (auto simp: on_core_keys_def dest: deleted_core_key split: prod.splits)
  ultimately show thesis using that a by auto
qed

lemma changed_record_file:
  assumes "change_record call i changes w = (Inr (Some r'), w')"
  obtains name r where "connection_item i (read_registry (cw_registry w)) = Some (name, r)" and "r' = dmerge r changes"
    and "read_registry (cw_registry w') = sorted_registry ((read_registry (cw_registry w))
      \<lparr> rg_connections := dset (rg_connections (read_registry (cw_registry w))) name (PDict r') \<rparr>)"
    and "cw_credentials w' = cw_credentials w" and "cw_core_keys w' = cw_core_keys w"
proof -
  obtain f' where f': "update_connection_record (ca_disk call ''registry'') i changes (cw_registry w) = (Inr (Some r'), f')"
    "w' = w\<lparr> cw_registry := f' \<rparr>"
    using assms by (auto simp: change_record_def on_registry_def split: prod.splits)
  then obtain name r where item: "connection_item i (read_registry (cw_registry w)) = Some (name, r)"
    by (auto simp: update_connection_record_def Let_def split: option.splits)
  with f'(1) have *: "answer_after (Some (dmerge r changes)) (write_registry (ca_disk call ''registry'')
      ((read_registry (cw_registry w))\<lparr> rg_connections := dset (rg_connections (read_registry (cw_registry w))) name
        (PDict (dmerge r changes)) \<rparr>) (cw_registry w)) = (Inr (Some r'), f')"
    by (simp add: update_connection_record_def Let_def)
  show thesis by (rule answer_after_cases [OF *]) (use that item f'(2) in auto)
qed

text \<open>
  C25: after an Instagram connection was disconnected its provider token is gone, so is its key
  towards Core for every channel, and a webhook for the account it was bound to finds no connection.
\<close>

theorem disconnected_account_is_gone:
  assumes "conn_state w" and "distinct (map (\<lambda>r. dget r ''id'') (connection_records (cw_registry w)))"
    and "connection_record_by_id i (cw_registry w) = Some r" and "sub_dict r ''provider_account'' \<noteq> []" and "strip i \<noteq> []"
    and "disconnect_instagram_connection env call i w = (Inr c, w')"
  shows "(\<exists>a. bound_reference (sub_dict r ''provider_account'') = Inr a \<and>
      provider_access_token (cv_cipher env) a (cw_credentials w') = Inr None) \<and>
    get_core_key (cv_fernet env) (cv_core env) i channel (cw_core_keys w') = Inr None \<and>
    active_account_record (bound_account r) (cw_registry w') = Inl (conn_not_found (bound_account r))"
proof -
  have req: "require_instagram_meta_connection i (cw_registry w) = Inr r"
    using assms(3,6) by (auto simp: disconnect_instagram_connection_def and_then_Inr reading_def require_instagram_meta_connection_def
        stored_by_id_def split: if_splits sum.splits)
  let ?ch = "stamped call ((''provider_account'', PNone) # (''core_channel'', PNone) # health_change ''disconnected'' ''unknown'')"
  obtain x w1 new where w1: "forget_account call i r w = (Inr x, w1)" and new: "change_record call i ?ch w1 = (Inr (Some new), w')"
    using assms(6) by (auto simp: disconnect_instagram_connection_def req and_then_Inr change_connection_def split: option.splits)
  obtain a where a: "bound_reference (sub_dict r ''provider_account'') = Inr a" "provider_at a (cw_credentials w1) = None"
      "map_of (read_core_creds (cw_core_keys w1)) (strip i) = None" "cw_registry w1 = cw_registry w"
    using forget_account_done [OF w1 assms(4)] assms(5) by metis
  let ?s = "read_registry (cw_registry w)"
  obtain name r1 where f': "connection_item i ?s = Some (name, r1)" "new = dmerge r1 ?ch"
      "read_registry (cw_registry w') = sorted_registry (?s\<lparr> rg_connections := dset (rg_connections ?s) name (PDict new) \<rparr>)"
      "cw_credentials w' = cw_credentials w1" "cw_core_keys w' = cw_core_keys w1"
    using changed_record_file [OF new] a(4) by metis
  have r1: "r1 = r" using f'(1) assms(3) by (simp add: connection_record_by_id_def)
  have inv: "once w" by (rule conn_state_once [OF assms(1)])
  have acc: "bound_account r \<noteq> []"
    using a(1) by (auto simp: bound_reference_def provider_account_of_def bound_account_def split: if_splits)
  have r_in: "(name, PDict r) \<in> set (rg_connections ?s)" "r \<in> set (connection_records (cw_registry w))"
    using connection_item_value [OF f'(1)] r1 by (auto simp: connection_records_def)
  have other: "bound_account y \<noteq> bound_account r" if y: "y \<in> set (dict_values (dset (rg_connections ?s) name (PDict new)))" for y
  proof -
    have d: "distinct (map fst (rg_connections ?s))" using inv by (simp add: accounts_once_def Let_def)
    consider "y = new" | k where "k \<noteq> name" "(k, PDict y) \<in> set (rg_connections ?s)" using replaced_values [OF d y] by blast
    then show ?thesis
    proof cases
      case 1
      have "bound_account new = []"
        by (simp add: f'(2) bound_account_def stamped_def health_change_def dmerge_def sub_dict_def str_or_empty_def py_or_def)
      then show ?thesis using 1 acc by simp
    next
      case (2 k)
      have "dget y ''id'' \<noteq> dget r ''id''"
        using same_id_same_entry [OF assms(2) [unfolded connection_records_def] 2(2) r_in(1)] 2(1) by auto
      moreover have "y \<in> set (connection_records (cw_registry w))" using 2(2) by (auto simp: connection_records_def in_dict_values)
      ultimately show ?thesis
        using inv r_in(2) acc unfolding accounts_once_def Let_def connection_records_def by metis
    qed
  qed
  have "once w'" using once_clear [of w1 call i "''disconnected''" "''unknown''"] inv a(4) new by simp
  then have wb: "well_bound y" if "y \<in> set (dict_values (dset (rg_connections ?s) name (PDict new)))" for y
    using that unfolding accounts_once_def Let_def f'(3) by (simp add: dict_values_sorted)
  have "account_matches (bound_account r) (connection_records (cw_registry w')) = Inr []"
    by (rule no_matches) (auto simp: connection_records_def f'(3) dict_values_sorted wb dest: other)
  then show ?thesis
    using a f'(4,5) by (simp add: provider_access_token_def get_core_key_def active_account_record_def)
qed

section \<open>Binding does not look at the account's credentials\<close>

text \<open>
  binding is meant to refuse an account whose credentials do not make the connection ready; but
  the readiness it asks for is that of the account bound before. A connection without an account
  takes any account no other connection has, with no credentials stored for it at all.
\<close>

theorem account_without_credentials_is_bound:
  assumes "connection_record_by_id i (cw_registry w) = Some r" and "is_meta_instagram r" and "sub_dict r ''provider_account'' = []"
    and "pa_provider a = ''meta''" and "pa_channel a = ''instagram''" and "assert_account_unbound a i (cw_registry w) = Inr ()"
    and "provider_credentials a (cw_credentials w) = Inr None"
  shows "bindable env call i a required_scopes w = Inr ()"
  using assms
  by (simp add: bindable_def assert_account_available_def require_instagram_meta_connection_def stored_by_id_def
      instagram_readiness_def Let_def unready_def dget_Cons)

section \<open>A shop with an Instagram account\<close>

definition bare_env :: conn_env where
  "bare_env =
     \<lparr> cv_settings = Holds [(''channels'', PDict [(''instagram'', PDict [(''enabled'', PBool True)])])],
       cv_cipher = \<lparr> ce_settings = \<lparr> cs_official_key = [], cs_provider_key = [], cs_gateway_key = [], cs_environment = [] \<rparr>,
                    ce_sha256 = id, ce_encrypt = (\<lambda>_. id), ce_decrypt = (\<lambda>_. Some) \<rparr>,
       cv_fernet = (\<lambda>_. (id, Some)), cv_core = \<lparr> cs_environment = [], cs_encryption_key = [], cs_gateway_api_key = [] \<rparr>,
       cv_parse = (\<lambda>_. No_Time), cv_retention = 5 \<rparr>"

definition bare_call :: conn_call where
  "bare_call = \<lparr> ca_now = ''n'', ca_now_us = 0, ca_now_ms = 0, ca_uid = ''u'', ca_instances = Inr [], ca_disk = (\<lambda>_. True) \<rparr>"

definition shop_world :: conn_world where
  "shop_world =
     \<lparr> cw_registry = Holds [(''clients'', PDict [(''c'', PDict [(''id'', PStr ''c''), (''name'', PStr ''Shop'')])])],
       cw_credentials = Absent, cw_core_keys = Absent, cw_timeline = empty_timeline \<rparr>"

definition ig_account :: provider_account where
  "ig_account = \<lparr> pa_provider = ''meta'', pa_channel = ''instagram'', pa_account = ''9'' \<rparr>"

definition opened_shop :: conn_world where
  "opened_shop = snd (run_conn_op bare_env bare_call (Create ''c'' ''instagram'' None ''meta'') shop_world)"

definition bound_shop :: conn_world where
  "bound_shop = snd (run_conn_op bare_env bare_call (Bind ''u'' ig_account [] []) opened_shop)"

lemma shop_states: "conn_state shop_world" "conn_state opened_shop" "conn_state bound_shop"
proof -
  show 1: "conn_state shop_world" by (rule no_connections) (simp add: shop_world_def registry_of_def dget_Cons)
  show 2: "conn_state opened_shop" unfolding opened_shop_def by (rule operation [OF 1])
  show "conn_state bound_shop" unfolding bound_shop_def by (rule operation [OF 2])
qed

definition ig_shop_record :: pdict where
  "ig_shop_record = hd (connection_records (cw_registry bound_shop))"

lemma shop_facts:
  "map bound_account (connection_records (cw_registry bound_shop)) = [''9''] \<and>
   map (\<lambda>r. dget r ''id'') (connection_records (cw_registry bound_shop)) = [PStr ''u''] \<and>
   connection_record_by_id ''u'' (cw_registry bound_shop) = Some ig_shop_record \<and>
   sub_dict ig_shop_record ''provider_account'' \<noteq> [] \<and>
   is_ok (fst (disconnect_instagram_connection bare_env bare_call ''u'' bound_shop))"
  by code_simp

lemma ig_shop_record_stored: "connection_records (cw_registry bound_shop) = [ig_shop_record]" "bound_account ig_shop_record = ''9''"
  using shop_facts by (auto simp: ig_shop_record_def)

lemma instagram_account_has_one_owner_witness:
  "bound_account ig_shop_record = ''9'' \<and> dget ig_shop_record ''id'' = dget ig_shop_record ''id''"
proof -
  have "ig_shop_record \<in> set (connection_records (cw_registry bound_shop))" by (simp add: ig_shop_record_stored)
  from instagram_account_has_one_owner [OF shop_states(3) this this refl] show ?thesis
    by (simp add: ig_shop_record_stored(2))
qed

lemma disconnected_account_is_gone_witness:
  "active_account_record ''9'' (cw_registry (snd (disconnect_instagram_connection bare_env bare_call ''u'' bound_shop)))
     = Inl (conn_not_found ''9'')"
proof -
  obtain c w' where d: "disconnect_instagram_connection bare_env bare_call ''u'' bound_shop = (Inr c, w')"
    using shop_facts by (cases "disconnect_instagram_connection bare_env bare_call ''u'' bound_shop"; cases "fst (disconnect_instagram_connection bare_env bare_call ''u'' bound_shop)") auto
  have "strip ''u'' \<noteq> []" by code_simp
  with disconnected_account_is_gone [OF shop_states(3) _ _ _ _ d] shop_facts show ?thesis
    by (simp add: d ig_shop_record_stored)
qed

lemma account_without_credentials_is_bound_witness:
  "bindable bare_env bare_call ''u'' ig_account [] opened_shop = Inr ()"
proof -
  obtain r where r: "connection_record_by_id ''u'' (cw_registry opened_shop) = Some r" "is_meta_instagram r"
      "sub_dict r ''provider_account'' = []"
  proof -
    have "(case connection_record_by_id ''u'' (cw_registry opened_shop) of None \<Rightarrow> False
      | Some r \<Rightarrow> is_meta_instagram r \<and> sub_dict r ''provider_account'' = [])" by code_simp
    then show thesis using that by (auto split: option.splits)
  qed
  have "assert_account_unbound ig_account ''u'' (cw_registry opened_shop) = Inr ()"
    "provider_credentials ig_account (cw_credentials opened_shop) = Inr None"
    by code_simp+
  then show ?thesis
    by (intro account_without_credentials_is_bound [OF r]) (simp_all add: ig_account_def)
qed

end
