(* ===== verification/Instagram_Inbound.thy ===== *)
theory Instagram_Inbound
  imports Connections_Spec
begin

text \<open>
  The events of Instagram, \<open>gateway/app/services/instagram_webhook.py\<close>: the account an entry is for
  is taken to its connection, and each message, reaction or postback becomes a canonical event. The
  random ids and the printing of a moment are arguments: the event of the \<open>m\<close>-th message of the
  \<open>n\<close>-th entry has the id \<open>ig_uid n m\<close>, and \<open>ig_stamp\<close> is \<open>None\<close> for seconds that no date has.
\<close>

record ig_call =
  ig_conn :: conn_env
  ig_now_us :: int
  ig_now :: string
  ig_uid :: "nat \<Rightarrow> nat \<Rightarrow> string"
  ig_stamp :: "int \<Rightarrow> string option"
  ig_request_id :: string

section \<open>Reading the provider's message\<close>

text \<open>\<open>_opaque_id\<close>: the text of a value, unless there is none or it is empty.\<close>

definition opaque_id :: "pval \<Rightarrow> string option" where
  "opaque_id v = (if v = PNone then None else or_none (py_str v))"

definition optional_text :: "pval \<Rightarrow> pval" where
  "optional_text v = (if v = PNone then PNone else PStr (py_str v))"

definition nested2 :: "pdict \<Rightarrow> string \<Rightarrow> string \<Rightarrow> pval" where
  "nested2 d a b = dget (sub_dict d a) b"

definition leading_attachment :: "pval \<Rightarrow> pdict option" where
  "leading_attachment v = map_option as_dict (List.find is_dict (as_list v))"

definition attachment_payload :: "pdict option \<Rightarrow> pdict" where
  "attachment_payload a = (case a of None \<Rightarrow> [] | Some d \<Rightarrow> sub_dict d ''payload'')"

definition attachment_kind :: "pdict option \<Rightarrow> string" where
  "attachment_kind a =
     (let kind = str_lower (py_str (py_or (case a of None \<Rightarrow> PNone | Some d \<Rightarrow> dget d ''type'') (PStr ''unknown''))) in
      if kind = ''file'' then ''document'' else kind)"

definition int_or_null :: "pval \<Rightarrow> pval" where
  "int_or_null v = (case py_int v of Inl _ \<Rightarrow> PNone | Inr i \<Rightarrow> PInt i)"

definition canonical_attachment :: "pdict \<Rightarrow> pdict" where
  "canonical_attachment a =
     (let payload = attachment_payload (Some a) in
      [(''kind'', PStr (attachment_kind (Some a))),
       (''providerMediaId'', pstr_opt (opaque_id (py_or (dget payload ''id'') (dget payload ''attachment_id'')))),
       (''url'', optional_text (dget payload ''url'')), (''mimeType'', optional_text (dget payload ''mime_type'')),
       (''fileName'', optional_text (dget payload ''name'')), (''size'', int_or_null (dget payload ''size'')),
       (''metadata'', PDict [])])"

text \<open>When it happened, and the provider's own time if it could be read: seconds, or milliseconds.\<close>

definition occurred_at :: "ig_call \<Rightarrow> pval \<Rightarrow> string \<times> string option" where
  "occurred_at call v =
     (case py_int (PStr (py_str v)) of
        Inl _ \<Rightarrow> (ig_now call, None)
      | Inr raw \<Rightarrow>
          (case ig_stamp call (if raw > 10000000000 then raw div 1000 else raw) of
             None \<Rightarrow> (ig_now call, None)
           | Some text \<Rightarrow> (text, Some (py_str v))))"

section \<open>Canonical events\<close>

record ig_source =
  is_uid :: string
  is_connection :: string
  is_account :: string
  is_sender :: string
  is_recipient :: string
  is_time :: pval

definition base_event ::
    "ig_call \<Rightarrow> ig_source \<Rightarrow> string \<Rightarrow> string option \<Rightarrow> string \<Rightarrow> pval \<Rightarrow> pdict list \<Rightarrow> pdict \<Rightarrow> pdict" where
  "base_event call s event_type message_id kind content attachments metadata =
     (let (occurred, source_time) = occurred_at call (is_time s) in
      [(''eventId'', PStr (is_uid s)), (''eventType'', PStr event_type), (''occurredAt'', PStr occurred),
       (''transport'', PDict [(''provider'', PStr ''meta''), (''channelType'', PStr ''instagram''),
          (''connectionRef'', PStr (is_connection s)), (''providerAccountRef'', PStr (is_account s))]),
       (''message'', PDict [(''providerMessageId'', pstr_opt message_id), (''direction'', PStr ''inbound''), (''kind'', PStr kind),
          (''content'', content), (''sender'', PDict [(''externalId'', PStr (is_sender s))]),
          (''recipient'', PDict [(''externalId'', PStr (is_recipient s))]), (''attachments'', PList (map PDict attachments))]),
       (''metadata'', PDict (case source_time of None \<Rightarrow> metadata | Some t \<Rightarrow> dset metadata ''sourceTimestamp'' (PStr t))),
       (''trace'', PDict [(''requestId'', PStr (ig_request_id call)), (''correlationId'', PStr (ig_request_id call))])])"

definition message_created :: "ig_call \<Rightarrow> ig_source \<Rightarrow> pdict \<Rightarrow> pdict" where
  "message_created call s message =
     (let text_value = dget message ''text''; attachment = leading_attachment (dget message ''attachments'') in
      base_event call s ''message.created'' (opaque_id (dget message ''mid''))
        (if is_str text_value then ''text'' else attachment_kind attachment)
        (if is_str text_value then text_value else optional_text (dget (attachment_payload attachment) ''caption''))
        (case attachment of Some (kv # a) \<Rightarrow> [canonical_attachment (kv # a)] | _ \<Rightarrow> [])
        [(''providerEventType'', PStr ''message'')])"

definition reaction_event :: "ig_call \<Rightarrow> ig_source \<Rightarrow> pdict \<Rightarrow> pdict" where
  "reaction_event call s reaction =
     (let target = opaque_id (py_or (dget reaction ''mid'') (dget reaction ''message_id'')) in
      base_event call s ''message.reaction'' target ''reaction''
        (optional_text (py_or (dget reaction ''emoji'') (dget reaction ''reaction''))) []
        [(''targetProviderMessageId'', pstr_opt target)])"

definition postback_event :: "ig_call \<Rightarrow> ig_source \<Rightarrow> pdict \<Rightarrow> pdict" where
  "postback_event call s postback =
     base_event call s ''message.postback'' None ''postback''
       (optional_text (py_or (dget postback ''title'') (dget postback ''payload''))) []
       [(''postbackPayload'', optional_text (dget postback ''payload''))]"

text \<open>What one item of an entry means; echoes and other events of the account mean nothing.\<close>

definition ig_event :: "ig_call \<Rightarrow> string \<Rightarrow> string \<Rightarrow> string \<Rightarrow> pdict \<Rightarrow> pdict option" where
  "ig_event call uid connection_id account messaging =
     (case opaque_id (nested2 messaging ''sender'' ''id'') of
        None \<Rightarrow> None
      | Some sender \<Rightarrow>
          (let s = \<lparr> is_uid = uid, is_connection = connection_id, is_account = account, is_sender = sender,
                    is_recipient = (case opaque_id (nested2 messaging ''recipient'' ''id'') of None \<Rightarrow> account | Some r \<Rightarrow> r),
                    is_time = dget messaging ''timestamp'' \<rparr>
           in if is_dict (dget messaging ''message'')
              then (if truthy (dget (sub_dict messaging ''message'') ''is_echo'') then None
                    else Some (message_created call s (sub_dict messaging ''message'')))
              else if is_dict (dget messaging ''reaction'') then Some (reaction_event call s (sub_dict messaging ''reaction''))
              else if is_dict (dget messaging ''postback'') then Some (postback_event call s (sub_dict messaging ''postback''))
              else None))"

section \<open>The webhook\<close>

definition instagram_webhook_error :: "int \<Rightarrow> string \<Rightarrow> py_exc" where
  "instagram_webhook_error status message = AppError ''InstagramWebhookError'' (Some status) message"

definition account_connection :: "ig_call \<Rightarrow> string \<Rightarrow> conn_world \<Rightarrow> connection res" where
  "account_connection call account w =
     (case resolve_active_instagram_provider_account (ig_conn call) (ig_now_us call) account w of
        Inr c \<Rightarrow> Inr c
      | Inl (AppError k st m) \<Rightarrow>
          (if k = ''ConnectionNotFoundError'' then Inl (instagram_webhook_error 404 ''Instagram connection cannot receive webhooks'')
           else if k = ''UnsupportedConnectionProviderError''
           then Inl (instagram_webhook_error 409 ''Instagram connection cannot receive webhooks'')
           else Inl (AppError k st m))
      | Inl e \<Rightarrow> Inl e)"

text \<open>The dictionaries among what a loop over a value visits, with their places.\<close>

definition visited_dicts :: "pval \<Rightarrow> (nat \<times> pdict) list res" where
  "visited_dicts v =
     rbind (iterated (py_or v (PList []))) (\<lambda>items.
       Inr (map (\<lambda>(n, i). (n, as_dict i)) (filter (\<lambda>(_, i). is_dict i) (enumerate 0 items))))"

definition entry_events :: "ig_call \<Rightarrow> conn_world \<Rightarrow> nat \<times> pdict \<Rightarrow> pdict list res" where
  "entry_events call w = (\<lambda>(n, entry).
     case opaque_id (dget entry ''id'') of
       None \<Rightarrow> Inl (instagram_webhook_error 400 ''Instagram webhook entry is missing provider account id'')
     | Some account \<Rightarrow>
         rbind (account_connection call account w) (\<lambda>c.
         rbind (visited_dicts (dget entry ''messaging'')) (\<lambda>items.
           Inr (List.map_filter (\<lambda>(m, messaging). ig_event call (ig_uid call n m) (cn_id c) account messaging) items))))"

definition process_instagram_webhook :: "ig_call \<Rightarrow> pdict \<Rightarrow> conn_world \<Rightarrow> pdict list res" where
  "process_instagram_webhook call payload w =
     (if dget payload ''object'' \<noteq> PStr ''instagram'' \<or> \<not> is_list (dget payload ''entry'')
      then Inl (instagram_webhook_error 400 ''Invalid Instagram webhook payload'')
      else rbind (visited_dicts (dget payload ''entry'')) (\<lambda>entries.
           rbind (traverse (entry_events call w) entries) (\<lambda>events. Inr (concat events))))"

section \<open>What comes out\<close>

definition event_at :: "pdict \<Rightarrow> string \<Rightarrow> string \<Rightarrow> pval" where
  "event_at e a b = dget (sub_dict e a) b"

lemma base_event_parts:
  assumes "e = base_event call s t m k c as md"
  shows "event_at e ''transport'' ''connectionRef'' = PStr (is_connection s)"
    and "event_at e ''transport'' ''providerAccountRef'' = PStr (is_account s)"
    and "dget (sub_dict (sub_dict e ''message'') ''sender'') ''externalId'' = PStr (is_sender s)"
    and "event_at e ''message'' ''direction'' = PStr ''inbound''"
  using assms by (simp_all add: base_event_def event_at_def sub_dict_def dget_Cons split: prod.split)

text \<open>Every kind of event is built the same way.\<close>

definition built_from :: "ig_call \<Rightarrow> ig_source \<Rightarrow> pdict \<Rightarrow> bool" where
  "built_from call s e \<longleftrightarrow> (\<exists>t m k c as md. e = base_event call s t m k c as md)"

lemma built_events [simp]:
  "built_from call s (message_created call s x)" "built_from call s (reaction_event call s x)"
  "built_from call s (postback_event call s x)"
  unfolding built_from_def message_created_def reaction_event_def postback_event_def Let_def by blast+

lemma ig_event_built:
  assumes "ig_event call uid i account messaging = Some e"
  obtains s where "built_from call s e" "is_connection s = i" "is_account s = account"
    "opaque_id (nested2 messaging ''sender'' ''id'') = Some (is_sender s)"
    "\<not> truthy (dget (sub_dict messaging ''message'') ''is_echo'')"
proof -
  obtain sender where sender: "opaque_id (nested2 messaging ''sender'' ''id'') = Some sender"
    using assms by (auto simp: ig_event_def split: option.splits)
  let ?s = "\<lparr> is_uid = uid, is_connection = i, is_account = account, is_sender = sender,
    is_recipient = (case opaque_id (nested2 messaging ''recipient'' ''id'') of None \<Rightarrow> account | Some r \<Rightarrow> r),
    is_time = dget messaging ''timestamp'' \<rparr>"
  have "built_from call ?s e" using assms by (auto simp: ig_event_def Let_def sender split: if_splits)
  moreover have "\<not> truthy (dget (sub_dict messaging ''message'') ''is_echo'')"
    using assms by (cases "dget messaging ''message''") (auto simp: ig_event_def Let_def sender sub_dict_def split: if_splits)
  ultimately show thesis by (intro that [of ?s]) (simp_all add: sender)
qed

lemma built_parts:
  assumes "built_from call s e"
  shows "event_at e ''transport'' ''connectionRef'' = PStr (is_connection s)"
    and "event_at e ''transport'' ''providerAccountRef'' = PStr (is_account s)"
    and "dget (sub_dict (sub_dict e ''message'') ''sender'') ''externalId'' = PStr (is_sender s)"
    and "event_at e ''message'' ''direction'' = PStr ''inbound''"
proof -
  obtain t m k c as md where "e = base_event call s t m k c as md" using assms by (auto simp: built_from_def)
  from base_event_parts [OF this] show
    "event_at e ''transport'' ''connectionRef'' = PStr (is_connection s)"
    "event_at e ''transport'' ''providerAccountRef'' = PStr (is_account s)"
    "dget (sub_dict (sub_dict e ''message'') ''sender'') ''externalId'' = PStr (is_sender s)"
    "event_at e ''message'' ''direction'' = PStr ''inbound''" by blast+
qed

lemma opaque_id_nonempty: "opaque_id v = Some s \<Longrightarrow> s \<noteq> []"
  by (auto simp: opaque_id_def or_none_def split: if_splits)

lemma active_account_record_bound:
  assumes "active_account_record a f = Inr r"
  shows "r \<in> set (connection_records f) \<and> bound_account r = a \<and> is_meta_instagram r \<and> str_or_empty (dget r ''status_state'') = ''connected''"
proof -
  have "m \<in> set rs \<and> bound_account m = a \<and> is_meta_instagram m" if "account_matches a rs = Inr ms" "m \<in> set ms" for rs ms m
    using that by (induction rs arbitrary: ms) (auto simp: rbind_eqs split: if_splits)
  moreover obtain ms where "account_matches a (connection_records f) = Inr ms" "r \<in> set ms"
      "str_or_empty (dget r ''status_state'') = ''connected''"
  proof -
    obtain ms where ms: "account_matches a (connection_records f) = Inr ms"
      using assms by (auto simp: active_account_record_def rbind_eqs)
    then have "ms = [r] \<and> str_or_empty (dget r ''status_state'') = ''connected''"
      using assms by (cases ms; cases "tl ms") (auto simp: active_account_record_def split: if_splits)
    with ms that show thesis by simp
  qed
  ultimately show ?thesis by blast
qed

lemma visited_dicts_listed:
  assumes "visited_dicts v = Inr items" and "(n, d) \<in> set items"
  shows "PDict d \<in> set (as_list v)"
proof -
  obtain xs where xs: "iterated (py_or v (PList [])) = Inr xs" "PDict d \<in> set xs"
    using assms by (auto simp: visited_dicts_def rbind_eqs in_set_enumerate_eq elim!: is_dict.elims) (metis nth_mem)
  then show ?thesis by (cases v) (auto simp: py_or_def split: if_splits)
qed

lemma stored_connection_id:
  assumes "stored_connection env now r w = Inr c"
  shows "cn_id c = py_str (dget r ''id'')"
proof -
  obtain i where "vindex (PDict r) ''id'' = Inr i" "cn_id c = py_str i"
    using assms unfolding stored_connection_def rbind_eq_Inr Let_def
    by (elim exE conjE) (drule Inr_inject, drule sym, rule that, assumption, simp only: connection.simps)
  then show ?thesis by (simp add: dget_def split: option.splits)
qed

text \<open>
  C26: every canonical Instagram event comes from an item of an entry of the payload that is not an echo
  of what the account sent itself, and names the account of the entry, the sender of the item and a
  connection: a stored Instagram connection of Meta that is bound to this account and connected.
\<close>

theorem instagram_event_belongs_to_connection:
  assumes "process_instagram_webhook call payload w = Inr events" and "e \<in> set events"
  shows "\<exists>entry messaging account sender r.
    PDict entry \<in> set (as_list (dget payload ''entry'')) \<and> PDict messaging \<in> set (as_list (dget entry ''messaging'')) \<and>
    \<not> truthy (dget (sub_dict messaging ''message'') ''is_echo'') \<and>
    opaque_id (dget entry ''id'') = Some account \<and> event_at e ''transport'' ''providerAccountRef'' = PStr account \<and>
    opaque_id (nested2 messaging ''sender'' ''id'') = Some sender \<and>
    dget (sub_dict (sub_dict e ''message'') ''sender'') ''externalId'' = PStr sender \<and>
    r \<in> set (connection_records (cw_registry w)) \<and> bound_account r = account \<and> is_meta_instagram r \<and>
    str_or_empty (dget r ''status_state'') = ''connected'' \<and>
    event_at e ''transport'' ''connectionRef'' = PStr (py_str (dget r ''id''))"
proof -
  obtain entries lists where l: "visited_dicts (dget payload ''entry'') = Inr entries"
      "traverse (entry_events call w) entries = Inr lists" "events = concat lists"
    using assms(1) by (auto simp: process_instagram_webhook_def rbind_eqs split: if_splits)
  obtain n entry es where en: "(n, entry) \<in> set entries" "entry_events call w (n, entry) = Inr es" "e \<in> set es"
    using assms(2) l(3) traverse_mem [OF l(2)] by fastforce
  obtain account c items m messaging where a: "opaque_id (dget entry ''id'') = Some account"
      "account_connection call account w = Inr c" "visited_dicts (dget entry ''messaging'') = Inr items"
      "(m, messaging) \<in> set items" "ig_event call (ig_uid call n m) (cn_id c) account messaging = Some e"
    using en(2,3) by (auto simp: entry_events_def rbind_eqs List.map_filter_def split: option.splits)
  obtain r where r: "active_account_record account (cw_registry w) = Inr r" "cn_id c = py_str (dget r ''id'')"
    using a(2) by (auto simp: account_connection_def resolve_active_instagram_provider_account_def rbind_eqs
        dest: stored_connection_id split: sum.splits py_exc.splits if_splits)
  obtain s where s: "built_from call s e" "is_connection s = cn_id c" "is_account s = account"
      "opaque_id (nested2 messaging ''sender'' ''id'') = Some (is_sender s)"
      "\<not> truthy (dget (sub_dict messaging ''message'') ''is_echo'')"
    by (rule ig_event_built [OF a(5)])
  show ?thesis
    by (rule exI [of _ entry], rule exI [of _ messaging], rule exI [of _ account], rule exI [of _ "is_sender s"], rule exI [of _ r])
      (simp add: visited_dicts_listed [OF l(1) en(1)] visited_dicts_listed [OF a(3,4)] a(1) s built_parts [OF s(1)]
        active_account_record_bound [OF r(1)] r(2))
qed

text \<open>A text to the connected account of the shop.\<close>

definition live_shop :: conn_world where
  "live_shop = snd (run_conn_op bare_env bare_call (Verify ''u'') bound_shop)"

definition shop_ig_call :: ig_call where
  "shop_ig_call = \<lparr> ig_conn = bare_env, ig_now_us = 0, ig_now = ''n'', ig_uid = (\<lambda>_ _. ''e''), ig_stamp = (\<lambda>_. None), ig_request_id = ''q'' \<rparr>"

definition shop_ig_payload :: pdict where
  "shop_ig_payload = [(''object'', PStr ''instagram''), (''entry'', PList [PDict [(''id'', PStr ''9''),
     (''messaging'', PList [PDict [(''sender'', PDict [(''id'', PStr ''s'')]), (''message'', PDict [(''text'', PStr ''hi'')])]])]])]"

lemma instagram_event_belongs_to_connection_witness:
  "\<exists>e r. process_instagram_webhook shop_ig_call shop_ig_payload live_shop = Inr [e] \<and>
     event_at e ''transport'' ''connectionRef'' = PStr (py_str (dget r ''id'')) \<and> bound_account r = ''9''"
proof -
  have "(case process_instagram_webhook shop_ig_call shop_ig_payload live_shop of
      Inr [e] \<Rightarrow> event_at e ''transport'' ''providerAccountRef'' = PStr ''9'' | _ \<Rightarrow> False)" by code_simp
  then obtain e where e: "process_instagram_webhook shop_ig_call shop_ig_payload live_shop = Inr [e]"
      "event_at e ''transport'' ''providerAccountRef'' = PStr ''9''"
    by (auto split: sum.splits list.splits)
  from instagram_event_belongs_to_connection [OF e(1), of e] e show ?thesis by auto
qed

end
