(* ===== verification/Alerts.thy ===== *)
theory Alerts
  imports Credentials
begin

text \<open>
  The incidents of the connections: \<open>gateway/app/services/alerts.py\<close>,
  \<open>alert_signals.py\<close> and \<open>gateway/app/domain/alert.py\<close>. An alert is the dictionary the
  store keeps. What the code asks the other services is an argument: the connections as it sees
  them, the last heartbeat, the webhook of a connection, the provider's sessions, the stored
  credentials and the deliveries to the core. The texts shown to the operator, which are not
  ASCII, are the function \<open>al_text\<close> of the alert type. Seconds are the unit of the clock and
  microseconds that of parsed times. A status or fingerprint that is a list or an object, which the
  code never writes, is here only different from every string, where Python raises.
\<close>

section \<open>The store\<close>

type_synonym alert_file = "pdict json_file"

definition empty_alerts :: pdict where
  "empty_alerts = [(''connection_alerts_v2'', PList []), (''dismissed_alert_fingerprints_v1'', PList [])]"

definition list_or_empty :: "pdict \<Rightarrow> string \<Rightarrow> pdict" where
  "list_or_empty d k =
     (let d' = dsetdefault d k (PList []) in if is_list (dget d' k) then d' else dset d' k (PList []))"

fun read_alerts :: "alert_file \<Rightarrow> pdict" where
  "read_alerts (Holds raw) =
     list_or_empty (list_or_empty raw ''connection_alerts_v2'') ''dismissed_alert_fingerprints_v1''"
| "read_alerts _ = empty_alerts"

definition alert_items :: "alert_file \<Rightarrow> pdict list" where
  "alert_items f = map as_dict (filter is_dict (as_list (dget (read_alerts f) ''connection_alerts_v2'')))"

definition dismissed_fingerprints :: "alert_file \<Rightarrow> string list" where
  "dismissed_fingerprints f = map py_str (as_list (dget (read_alerts f) ''dismissed_alert_fingerprints_v1''))"

definition with_alerts :: "pval list \<Rightarrow> string list \<Rightarrow> alert_file \<Rightarrow> pdict" where
  "with_alerts items dismissed f =
     dset (dset (read_alerts f) ''connection_alerts_v2'' (PList items))
       ''dismissed_alert_fingerprints_v1'' (PList (map PStr dismissed))"

definition sorted_set :: "string list \<Rightarrow> string list" where
  "sorted_set xs = sort (remdups xs)"

definition is_open :: "pdict \<Rightarrow> bool" where
  "is_open a \<longleftrightarrow> dget a ''status'' \<in> {PStr ''new'', PStr ''acknowledged''}"

definition is_resolved_alert :: "pdict \<Rightarrow> bool" where
  "is_resolved_alert a \<longleftrightarrow> dget a ''status'' = PStr ''resolved''"

definition resolved_by_hand :: "pdict \<Rightarrow> bool" where
  "resolved_by_hand a \<longleftrightarrow> is_resolved_alert a \<and> dget a ''resolution_source'' = PStr ''manual''"

definition fingerprint_text :: "pdict \<Rightarrow> string" where
  "fingerprint_text a = py_str (dget a ''fingerprint'')"

definition resolve_item :: "string \<Rightarrow> string \<Rightarrow> pdict \<Rightarrow> pdict" where
  "resolve_item now source a =
     dset (dset (dset a ''status'' (PStr ''resolved'')) ''resolved_at'' (PStr now)) ''resolution_source'' (PStr source)"

definition new_alert :: "string \<Rightarrow> string \<Rightarrow> pdict \<Rightarrow> pdict" where
  "new_alert now uid candidate =
     dmerge [(''id'', PStr uid), (''status'', PStr ''new''), (''created_at'', PStr now), (''resolved_at'', PNone),
             (''resolution_source'', PNone)] candidate"

text \<open>The incidents that are open, resolved or dismissed, against those that hold now.\<close>

definition synced_items :: "string \<Rightarrow> (nat \<Rightarrow> string) \<Rightarrow> pdict list \<Rightarrow> alert_file \<Rightarrow> pdict list" where
  "synced_items now uids candidates f =
     (let items = alert_items f;
          present = map (\<lambda>c. dget c ''fingerprint'') candidates;
          open_now = map fingerprint_text (filter is_open items);
          by_hand = map fingerprint_text (filter resolved_by_hand items);
          dismissed = filter (\<lambda>p. PStr p \<in> set present) (dismissed_fingerprints f);
          kept = map (\<lambda>a. if is_open a \<and> dget a ''fingerprint'' \<notin> set present
                          then resolve_item now ''automatic'' a else a) items;
          opened = filter (\<lambda>c. fingerprint_text c \<notin> set open_now \<and> fingerprint_text c \<notin> set by_hand \<and>
                     fingerprint_text c \<notin> set dismissed) candidates
      in kept @ map (\<lambda>(i, c). new_alert now (uids i) c) (enumerate 0 opened))"

definition still_dismissed :: "pdict list \<Rightarrow> alert_file \<Rightarrow> string list" where
  "still_dismissed candidates f =
     sorted_set (filter (\<lambda>p. PStr p \<in> set (map (\<lambda>c. dget c ''fingerprint'') candidates)) (dismissed_fingerprints f))"

definition sync_alerts ::
    "bool \<Rightarrow> string \<Rightarrow> (nat \<Rightarrow> string) \<Rightarrow> pdict list \<Rightarrow> alert_file \<Rightarrow> pdict list res \<times> alert_file" where
  "sync_alerts disk_ok now uids candidates f =
     (let items = synced_items now uids candidates f in
      case replace_file disk_ok (with_alerts (map PDict items) (still_dismissed candidates f) f) f of
        (Inl e, f') \<Rightarrow> (Inl e, f')
      | (Inr _, f') \<Rightarrow> (Inr items, f'))"

definition alert_has_id :: "string \<Rightarrow> pval \<Rightarrow> bool" where
  "alert_has_id i v \<longleftrightarrow> is_dict v \<and> dget (as_dict v) ''id'' = PStr i"

definition restate :: "string \<Rightarrow> string \<Rightarrow> pdict \<Rightarrow> pdict" where
  "restate now status a =
     (if status = ''resolved'' then resolve_item now ''manual'' a else dset a ''status'' (PStr status))"

definition update_alert_status ::
    "bool \<Rightarrow> string \<Rightarrow> string \<Rightarrow> string \<Rightarrow> alert_file \<Rightarrow> pdict option res \<times> alert_file" where
  "update_alert_status disk_ok now alert_id status f =
     (let raw = as_list (dget (read_alerts f) ''connection_alerts_v2'') in
      if status \<noteq> ''acknowledged'' \<and> status \<noteq> ''resolved'' then (Inr None, f)
      else case List.find (alert_has_id alert_id) raw of
        None \<Rightarrow> (Inr None, f)
      | Some v \<Rightarrow>
          (if is_resolved_alert (as_dict v) then (Inr (Some (as_dict v)), f)
           else case replace_file disk_ok
               (dset (read_alerts f) ''connection_alerts_v2'' (PList
                  (modify_first (alert_has_id alert_id) (\<lambda>v. PDict (restate now status (as_dict v))) raw))) f of
             (Inl e, f') \<Rightarrow> (Inl e, f')
           | (Inr _, f') \<Rightarrow> (Inr (Some (restate now status (as_dict v))), f')))"

definition delete_alert :: "bool \<Rightarrow> string \<Rightarrow> alert_file \<Rightarrow> bool res \<times> alert_file" where
  "delete_alert disk_ok alert_id f =
     (let items = alert_items f in
      case List.find (\<lambda>a. dget a ''id'' = PStr alert_id) items of
        None \<Rightarrow> (Inr False, f)
      | Some a \<Rightarrow>
          (let fp = str_or_empty (dget a ''fingerprint'') in
           case replace_file disk_ok
               (with_alerts (map PDict (filter (\<lambda>a. dget a ''id'' \<noteq> PStr alert_id) items))
                  (sorted_set (dismissed_fingerprints f @ (if fp = [] then [] else [fp]))) f) f of
             (Inl e, f') \<Rightarrow> (Inl e, f')
           | (Inr _, f') \<Rightarrow> (Inr True, f')))"

definition delete_resolved_alerts :: "bool \<Rightarrow> alert_file \<Rightarrow> nat res \<times> alert_file" where
  "delete_resolved_alerts disk_ok f =
     (let items = alert_items f; resolved = filter is_resolved_alert items in
      if resolved = [] then (Inr 0, f)
      else case replace_file disk_ok
          (with_alerts (map PDict (filter (\<lambda>a. \<not> is_resolved_alert a) items))
             (sorted_set (dismissed_fingerprints f @
                map fingerprint_text (filter (\<lambda>a. truthy (dget a ''fingerprint'')) resolved))) f) f of
        (Inl e, f') \<Rightarrow> (Inl e, f')
      | (Inr _, f') \<Rightarrow> (Inr (length resolved), f'))"

section \<open>What holds now\<close>

record alert_connection =
  ac_id :: string
  ac_name :: string
  ac_client_id :: string
  ac_client_name :: "string option"
  ac_provider :: string
  ac_channel :: string
  ac_state :: string
  ac_lifecycle :: "string option"
  ac_health :: string
  ac_runtime :: string

record delivery_stats =
  ds_pending_ms :: int
  ds_failed :: int

record alert_signals =
  as_states :: "(string \<times> string) list res"
  as_token :: "string \<Rightarrow> string option res"
  as_stats :: "string \<Rightarrow> delivery_stats res"

record alert_env =
  al_now :: int
  al_text :: "string \<Rightarrow> string \<times> string"
  al_failed_text :: "int \<Rightarrow> string"
  al_heartbeat :: "string \<Rightarrow> parsed_time"
  al_webhook :: "string \<Rightarrow> pdict option"
  al_events :: "pval list"
  al_signals :: "alert_signals option"

definition fingerprint :: "string \<Rightarrow> alert_connection \<Rightarrow> string" where
  "fingerprint alert_type c = alert_type @ '':'' @ ac_id c"

definition candidate_with :: "string \<Rightarrow> string \<Rightarrow> string \<Rightarrow> string \<Rightarrow> alert_connection \<Rightarrow> pdict" where
  "candidate_with alert_type severity title description c =
     [(''fingerprint'', PStr (fingerprint alert_type c)), (''severity'', PStr severity), (''title'', PStr title),
      (''description'', PStr description),
      (''client'', PDict [(''id'', PStr (ac_client_id c)),
         (''name'', PStr (case ac_client_name c of None \<Rightarrow> ''Cliente'' | Some n \<Rightarrow> n))]),
      (''connection'', PDict [(''id'', PStr (ac_id c)), (''name'', PStr (ac_name c))]),
      (''workspace_url'', PStr (''/connections/'' @ ac_id c))]"

definition alert_candidate :: "alert_env \<Rightarrow> string \<Rightarrow> string \<Rightarrow> alert_connection \<Rightarrow> pdict" where
  "alert_candidate env alert_type severity c =
     candidate_with alert_type severity (fst (al_text env alert_type)) (snd (al_text env alert_type)) c"

definition status_types :: "alert_env \<Rightarrow> alert_connection \<Rightarrow> (string \<times> string) list" where
  "status_types env c =
     (let lifecycle = str_lower (case ac_lifecycle c of None \<Rightarrow> [] | Some l \<Rightarrow> l) in
      (if ac_state c = ''disconnected'' then [(''connection_disconnected'', ''critical'')] else []) @
      (if contains_str lifecycle ''auth'' \<or> contains_str lifecycle ''token''
       then [(''authentication_error'', ''critical'')] else []) @
      (if ac_state c \<in> {''pending'', ''connecting''} \<and> ac_provider c \<noteq> ''evolution''
       then [(''embedded_signup_pending'', ''warning'')] else []) @
      (if ac_health c = ''degraded'' \<or> ac_health c = ''unhealthy''
       then [(''provider_degraded'', if ac_health c = ''unhealthy'' then ''critical'' else ''warning'')] else []))"

definition live_session :: "alert_env \<Rightarrow> alert_connection \<Rightarrow> bool" where
  "live_session env c \<longleftrightarrow> al_signals env \<noteq> None \<and> ac_provider c = ''evolution''"

text \<open>The heartbeat is compared with the clock only where the session is not asked itself.\<close>

definition heartbeat_expired :: "alert_env \<Rightarrow> alert_connection \<Rightarrow> bool res" where
  "heartbeat_expired env c =
     (case al_heartbeat env (ac_id c) of
        No_Time \<Rightarrow> Inr False
      | Naive_Time \<Rightarrow> if live_session env c then Inr False else Inl TypeError
      | Aware_Time t \<Rightarrow> Inr (\<not> live_session env c \<and> al_now env * 1000000 - t > 15 * 60 * 1000000))"

definition webhook_failing :: "alert_env \<Rightarrow> alert_connection \<Rightarrow> bool" where
  "webhook_failing env c =
     (case al_webhook env (ac_id c) of None \<Rightarrow> False | Some w \<Rightarrow> w \<noteq> [] \<and> truthy (dget w ''last_error''))"

definition connection_candidates :: "alert_env \<Rightarrow> nat \<Rightarrow> alert_connection \<Rightarrow> pdict list res" where
  "connection_candidates env reconnects c =
     rbind (heartbeat_expired env c) (\<lambda>expired.
       Inr (map (\<lambda>(t, severity). alert_candidate env t severity c)
         (status_types env c @
          (if expired then [(''heartbeat_expired'', ''warning'')] else []) @
          (if webhook_failing env c then [(''webhook_errors'', ''warning'')] else []) @
          (if 3 \<le> reconnects then [(''repeated_reconnects'', ''warning'')] else []))))"

text \<open>Of two connections with one runtime name the last is the one events belong to.\<close>

definition runtime_owner :: "alert_connection list \<Rightarrow> string \<Rightarrow> alert_connection option" where
  "runtime_owner cs name = List.find (\<lambda>c. ac_runtime c = name) (rev cs)"

definition is_reconnect :: "pdict \<Rightarrow> bool" where
  "is_reconnect event \<longleftrightarrow>
     contains_str (str_lower (str_or_empty (dget (as_dict (dget event ''pipeline'')) ''stage''))) ''reconnect'' \<or>
     contains_str (str_lower (str_or_empty (dget event ''event''))) ''reconnect''"

definition reconnected :: "alert_env \<Rightarrow> alert_connection list \<Rightarrow> pval \<Rightarrow> string option res" where
  "reconnected env cs v =
     (case v of
        PDict event \<Rightarrow>
          rbind (py_int (py_or (dget event ''timestamp'') (PInt 0))) (\<lambda>t.
            if t < (al_now env - 24 * 60 * 60) * 1000 \<or> \<not> is_reconnect event then Inr None
            else Inr (map_option ac_id (runtime_owner cs (str_or_empty (dget event ''instance'')))))
      | _ \<Rightarrow> Inr None)"

definition reconnect_counts :: "alert_env \<Rightarrow> alert_connection list \<Rightarrow> (string \<Rightarrow> nat) res" where
  "reconnect_counts env cs =
     rbind (traverse (reconnected env cs) (al_events env)) (\<lambda>rs.
       Inr (\<lambda>i. length (filter (\<lambda>r. r = Some i) rs)))"

definition stored_candidates :: "alert_env \<Rightarrow> alert_connection list \<Rightarrow> pdict list res" where
  "stored_candidates env cs =
     rbind (reconnect_counts env cs) (\<lambda>counts.
       rbind (traverse (\<lambda>c. connection_candidates env (counts (ac_id c)) c) cs) (\<lambda>xs. Inr (concat xs)))"

section \<open>Live signals\<close>

definition session_of :: "pval \<Rightarrow> (string \<times> string) list res" where
  "session_of item =
     (case item of
        PDict d \<Rightarrow>
          (let inst = (case dget d ''instance'' of PDict i \<Rightarrow> i | _ \<Rightarrow> d);
               name = py_or (dget inst ''name'') (dget inst ''instanceName'')
           in Inr (if truthy name
                   then [(py_str name, str_lower (str_or_empty (py_or (dget inst ''connectionStatus'') (dget inst ''status''))))]
                   else []))
      | _ \<Rightarrow> Inl AttributeError)"

text \<open>The answer of the provider, \<open>None\<close> when the call raised.\<close>

definition evolution_states :: "pval option \<Rightarrow> (string \<times> string) list res" where
  "evolution_states answer =
     (case answer of
        Some (PList records) \<Rightarrow> rbind (traverse session_of records) (\<lambda>xs. Inr (concat xs))
      | _ \<Rightarrow> Inr [])"

definition instagram_token_state ::
    "(string \<Rightarrow> parsed_time) \<Rightarrow> int \<Rightarrow> credential_file \<Rightarrow> pdict \<Rightarrow> string option res" where
  "instagram_token_state parse now f registry_entry =
     rbind (vget (py_or (dget registry_entry ''provider_account'') (PDict [])) ''providerAccountId'') (\<lambda>v.
       let account_id = str_or_empty v in
       if account_id = [] then Inr None
       else rbind (provider_account_of ''meta'' ''instagram'' account_id) (\<lambda>account.
         rbind (provider_credentials account f) (\<lambda>credential.
           case credential of
             None \<Rightarrow> Inr (Some ''missing'')
           | Some c \<Rightarrow> rbind (expiry_state parse now c) (\<lambda>s. Inr (Some s)))))"

text \<open>The oldest delivery that waits and the number of those given up today.\<close>

fun count_deliveries :: "int \<Rightarrow> int option \<times> int \<Rightarrow> pdict list \<Rightarrow> (int option \<times> int) res" where
  "count_deliveries now acc [] = Inr acc"
| "count_deliveries now (oldest, dead) (d # ds) =
     rbind (py_int (py_or (dget d ''createdAt'') (PInt 0))) (\<lambda>created.
       if dget d ''status'' \<in> {PStr ''pending'', PStr ''retry'', PStr ''delivering''}
       then count_deliveries now (Some (case oldest of None \<Rightarrow> created | Some t \<Rightarrow> min t created), dead) ds
       else if dget d ''status'' \<in> {PStr ''dead_letter'', PStr ''failed''}
       then rbind (py_int (py_or (dget d ''updatedAt'') (PInt created))) (\<lambda>updated.
              count_deliveries now (oldest, if now - updated \<le> 86400000 then dead + 1 else dead) ds)
       else count_deliveries now (oldest, dead) ds)"

definition core_delivery_stats :: "int \<Rightarrow> pdict list \<Rightarrow> delivery_stats res" where
  "core_delivery_stats now deliveries =
     rbind (count_deliveries now (None, 0) deliveries) (\<lambda>(oldest, dead).
       Inr \<lparr> ds_pending_ms = (case oldest of None \<Rightarrow> 0 | Some t \<Rightarrow> if t = 0 then 0 else now - t), ds_failed = dead \<rparr>)"

text \<open>The last of several sessions with one name.\<close>

definition state_in :: "(string \<times> string) list \<Rightarrow> string \<Rightarrow> string option" where
  "state_in states name = map_of (rev states) name"

definition session_candidates ::
    "alert_env \<Rightarrow> (string \<times> string) list \<Rightarrow> alert_connection \<Rightarrow> pdict list" where
  "session_candidates env states c =
     (if ac_provider c = ''evolution''
      then (case state_in states (ac_runtime c) of
              None \<Rightarrow> []
            | Some s \<Rightarrow> if s = ''open'' then [] else [alert_candidate env ''whatsapp_session_down'' ''critical'' c])
      else [])"

definition token_candidates :: "alert_env \<Rightarrow> alert_signals \<Rightarrow> alert_connection \<Rightarrow> pdict list res" where
  "token_candidates env s c =
     (if ac_provider c = ''meta'' \<and> ac_channel c = ''instagram''
      then rbind (as_token s (ac_id c)) (\<lambda>token.
        Inr (if token \<in> {Some ''expired'', Some ''missing''}
             then [alert_candidate env ''instagram_token_expired'' ''critical'' c]
             else if token = Some ''expiring'' then [alert_candidate env ''instagram_token_expiring'' ''warning'' c]
             else []))
      else Inr [])"

definition delivery_candidates :: "alert_env \<Rightarrow> alert_signals \<Rightarrow> alert_connection \<Rightarrow> pdict list res" where
  "delivery_candidates env s c =
     rbind (as_stats s (ac_id c)) (\<lambda>stats.
       Inr (if ds_pending_ms stats > 600000 then [alert_candidate env ''core_delivery_stalled'' ''critical'' c]
            else if ds_failed stats \<noteq> 0
            then [candidate_with ''core_delivery_failed'' ''warning'' (fst (al_text env ''core_delivery_failed''))
                    (al_failed_text env (ds_failed stats)) c]
            else []))"

definition signal_candidates :: "alert_env \<Rightarrow> alert_connection list \<Rightarrow> pdict list res" where
  "signal_candidates env cs =
     (case al_signals env of
        None \<Rightarrow> Inr []
      | Some s \<Rightarrow>
          rbind (if list_ex (\<lambda>c. ac_provider c = ''evolution'') cs then as_states s else Inr []) (\<lambda>states.
            rbind (traverse (\<lambda>c. rbind (token_candidates env s c) (\<lambda>ts.
                     rbind (delivery_candidates env s c) (\<lambda>ds. Inr (session_candidates env states c @ ts @ ds)))) cs)
              (\<lambda>xs. Inr (concat xs))))"

definition specific_causes :: "string list" where
  "specific_causes = [''whatsapp_session_down'', ''instagram_token_expired'']"

definition generic_causes :: "string list" where
  "generic_causes = [''connection_disconnected'', ''provider_degraded'', ''authentication_error'', ''heartbeat_expired'']"

definition cause :: "pdict \<Rightarrow> string" where
  "cause c = takeWhile (\<lambda>x. x \<noteq> CHR '':'') (fingerprint_text c)"

definition candidate_connection :: "pdict \<Rightarrow> pval" where
  "candidate_connection c = dget (as_dict (dget c ''connection'')) ''id''"

definition without_superseded :: "pdict list \<Rightarrow> pdict list" where
  "without_superseded candidates =
     (let specific = map candidate_connection (filter (\<lambda>c. cause c \<in> set specific_causes) candidates) in
      filter (\<lambda>c. \<not> (candidate_connection c \<in> set specific \<and> cause c \<in> set generic_causes)) candidates)"

section \<open>The service\<close>

record alert =
  at_id :: string
  at_severity :: string
  at_status :: string
  at_title :: string
  at_description :: string
  at_client :: "string \<times> string"
  at_connection :: "string \<times> string"
  at_created :: string
  at_resolved :: "string option"
  at_url :: string

definition needed :: "pdict \<Rightarrow> string \<Rightarrow> string res" where
  "needed a k = rbind (vindex (PDict a) k) (\<lambda>v. Inr (py_str v))"

text \<open>\<open>nameless\<close> is the word shown for a connection without a name.\<close>

definition to_alert :: "string \<Rightarrow> pdict \<Rightarrow> alert res" where
  "to_alert nameless a =
     (let client = as_dict (dget a ''client''); connection = as_dict (dget a ''connection'') in
      rbind (needed a ''id'') (\<lambda>i. rbind (needed a ''severity'') (\<lambda>severity. rbind (needed a ''status'') (\<lambda>status.
      rbind (needed a ''title'') (\<lambda>title. rbind (needed a ''description'') (\<lambda>description.
      rbind (needed a ''created_at'') (\<lambda>created. rbind (needed a ''workspace_url'') (\<lambda>url.
        Inr \<lparr> at_id = i, at_severity = severity, at_status = status, at_title = title, at_description = description,
          at_client = (str_or_empty (dget client ''id''), str_default (dget client ''name'') ''Cliente''),
          at_connection = (str_or_empty (dget connection ''id''), str_default (dget connection ''name'') nameless),
          at_created = created, at_resolved = str_if (dget a ''resolved_at''), at_url = url \<rparr>))))))))"

definition alert_public :: "alert \<Rightarrow> pdict" where
  "alert_public a =
     [(''id'', PStr (at_id a)), (''severity'', PStr (at_severity a)), (''status'', PStr (at_status a)),
      (''title'', PStr (at_title a)), (''description'', PStr (at_description a)),
      (''client'', PDict [(''id'', PStr (fst (at_client a))), (''name'', PStr (snd (at_client a)))]),
      (''connection'', PDict [(''id'', PStr (fst (at_connection a))), (''name'', PStr (snd (at_connection a)))]),
      (''created_at'', PStr (at_created a)), (''resolved_at'', pstr_opt (at_resolved a)),
      (''workspace_url'', PStr (at_url a))]"

record alert_call =
  lc_now :: string
  lc_uids :: "nat \<Rightarrow> string"
  lc_disk :: "nat \<Rightarrow> bool"
  lc_nameless :: string

definition current_candidates :: "alert_env \<Rightarrow> alert_connection list \<Rightarrow> pdict list res" where
  "current_candidates env cs =
     rbind (stored_candidates env cs) (\<lambda>xs. rbind (signal_candidates env cs) (\<lambda>ys. Inr (without_superseded (xs @ ys))))"

definition list_alerts ::
    "alert_env \<Rightarrow> alert_call \<Rightarrow> alert_connection list \<Rightarrow> alert_file \<Rightarrow> alert list res \<times> alert_file" where
  "list_alerts env cl cs f =
     (case current_candidates env cs of
        Inl e \<Rightarrow> (Inl e, f)
      | Inr candidates \<Rightarrow>
          (case sync_alerts (lc_disk cl 0) (lc_now cl) (lc_uids cl) candidates f of
             (Inl e, f') \<Rightarrow> (Inl e, f')
           | (Inr items, f') \<Rightarrow>
               (rbind (traverse (to_alert (lc_nameless cl)) items) (\<lambda>alerts.
                  Inr (sort_key (\<lambda>a. (at_status a = ''resolved'', at_created a)) alerts)), f')))"

text \<open>The incidents are brought up to date first; if that raises, nothing else happens.\<close>

definition after_listing ::
    "alert_env \<Rightarrow> alert_call \<Rightarrow> alert_connection list \<Rightarrow> (alert_file \<Rightarrow> 'a res \<times> alert_file) \<Rightarrow> alert_file
     \<Rightarrow> 'a res \<times> alert_file" where
  "after_listing env cl cs act f =
     (case list_alerts env cl cs f of
        (Inl e, f') \<Rightarrow> (Inl e, f')
      | (Inr _, f') \<Rightarrow> act f')"

definition move_alert ::
    "alert_env \<Rightarrow> alert_call \<Rightarrow> alert_connection list \<Rightarrow> string \<Rightarrow> string \<Rightarrow> alert_file \<Rightarrow> alert option res \<times> alert_file" where
  "move_alert env cl cs alert_id status =
     after_listing env cl cs (\<lambda>f.
       case update_alert_status (lc_disk cl 1) (lc_now cl) alert_id status f of
         (Inl e, f') \<Rightarrow> (Inl e, f')
       | (Inr None, f') \<Rightarrow> (Inr None, f')
       | (Inr (Some []), f') \<Rightarrow> (Inr None, f')
       | (Inr (Some a), f') \<Rightarrow> (rbind (to_alert (lc_nameless cl) a) (\<lambda>x. Inr (Some x)), f'))"

definition acknowledge_alert where
  "acknowledge_alert env cl cs alert_id = move_alert env cl cs alert_id ''acknowledged''"

definition resolve_alert where
  "resolve_alert env cl cs alert_id = move_alert env cl cs alert_id ''resolved''"

definition remove_alert ::
    "alert_env \<Rightarrow> alert_call \<Rightarrow> alert_connection list \<Rightarrow> string \<Rightarrow> alert_file \<Rightarrow> bool res \<times> alert_file" where
  "remove_alert env cl cs alert_id = after_listing env cl cs (delete_alert (lc_disk cl 1) alert_id)"

definition remove_resolved ::
    "alert_env \<Rightarrow> alert_call \<Rightarrow> alert_connection list \<Rightarrow> alert_file \<Rightarrow> nat res \<times> alert_file" where
  "remove_resolved env cl cs = after_listing env cl cs (delete_resolved_alerts (lc_disk cl 1))"

text \<open>The helper the automations call.\<close>

definition update_alert :: "bool \<Rightarrow> string \<Rightarrow> string \<Rightarrow> string \<Rightarrow> alert_file \<Rightarrow> pdict option res \<times> alert_file" where
  "update_alert disk_ok now alert_id status =
     update_alert_status disk_ok now alert_id (if status = ''resolved'' then ''resolved'' else ''acknowledged'')"

definition create_manual_alert :: pdict where
  "create_manual_alert = [(''ok'', PBool False)]"

end
