(* ===== verification/Alerts_Spec.thy ===== *)
theory Alerts_Spec
  imports Alerts
begin

text \<open>
  What the incidents promise: an incident has at most one open alert, the open alerts after a
  listing are those whose cause holds and was neither dismissed nor resolved by hand, and an alert
  resolved by hand keeps its cause silent as long as it is stored.
\<close>

section \<open>The file after a write\<close>

lemma list_or_empty_kept: "is_list (dget d k) \<Longrightarrow> list_or_empty d k = d"
  by (cases "dhas d k") (simp_all add: list_or_empty_def dsetdefault_keeps dget_not_dhas)

lemma written_alerts:
  "alert_items (Holds (with_alerts (map PDict items) ps f)) = items"
  "dismissed_fingerprints (Holds (with_alerts vs ps f)) = ps"
proof -
  have r: "read_alerts (Holds (with_alerts vs ps f)) = with_alerts vs ps f" for vs
    by (simp add: with_alerts_def list_or_empty_kept)
  have "map as_dict (filter is_dict (map PDict items)) = items" by (induction items) simp_all
  then show "alert_items (Holds (with_alerts (map PDict items) ps f)) = items"
    unfolding alert_items_def r by (simp add: with_alerts_def)
  show "dismissed_fingerprints (Holds (with_alerts vs ps f)) = ps"
    unfolding dismissed_fingerprints_def r by (simp add: with_alerts_def comp_def)
qed

lemma read_alerts_lists:
  "is_list (dget (read_alerts f) ''connection_alerts_v2'')"
  "is_list (dget (read_alerts f) ''dismissed_alert_fingerprints_v1'')"
proof -
  have l: "is_list (dget (list_or_empty d k) k)" for d k
    by (simp add: list_or_empty_def Let_def)
  have o: "dget (list_or_empty d k) k' = dget d k'" if "k' \<noteq> k" for d k k'
    using that by (simp add: list_or_empty_def Let_def dget_dsetdefault)
  show "is_list (dget (read_alerts f) ''connection_alerts_v2'')"
    by (cases f) (simp_all add: l o empty_alerts_def dget_Cons)
  show "is_list (dget (read_alerts f) ''dismissed_alert_fingerprints_v1'')"
    by (cases f) (simp_all add: l o empty_alerts_def dget_Cons)
qed

lemma written_items:
  "alert_items (Holds (dset (read_alerts f) ''connection_alerts_v2'' (PList vs))) = map as_dict (filter is_dict vs)"
proof -
  have "read_alerts (Holds (dset (read_alerts f) ''connection_alerts_v2'' (PList vs))) =
      dset (read_alerts f) ''connection_alerts_v2'' (PList vs)"
    using read_alerts_lists(2) [of f] by (simp add: list_or_empty_kept)
  then show ?thesis unfolding alert_items_def by simp
qed

lemma sync_cases:
  "sync_alerts ok now uids cs f =
     (if ok then (Inr (synced_items now uids cs f),
        Holds (with_alerts (map PDict (synced_items now uids cs f)) (still_dismissed cs f) f))
      else (Inl OSError, f))"
  by (simp add: sync_alerts_def Let_def replace_file_def)

section \<open>Candidates\<close>

lemma cause_split:
  assumes "CHR '':'' \<notin> set t" and "CHR '':'' \<notin> set t'" and "t @ '':'' @ i = t' @ '':'' @ i'"
  shows "t = t' \<and> i = i'"
  using assms
proof (induction t arbitrary: t')
  case Nil
  then show ?case by (cases t') auto
next
  case (Cons x t)
  then show ?case by (cases t') auto
qed

lemma fingerprint_candidate [simp]: "fingerprint_text (candidate_with t sev ti de c) = fingerprint t c"
  by (simp add: fingerprint_text_def candidate_with_def dget_Cons)

lemma alert_candidate_with: "\<exists>ti de. alert_candidate env t sev c = candidate_with t sev ti de c"
  by (auto simp: alert_candidate_def)

text \<open>Candidates of one connection, by the types they have.\<close>

definition typed :: "string set \<Rightarrow> alert_connection \<Rightarrow> pdict list \<Rightarrow> bool" where
  "typed T c xs \<longleftrightarrow>
     (\<exists>ts. map fingerprint_text xs = map (\<lambda>t. fingerprint t c) ts \<and> distinct ts \<and> set ts \<subseteq> T) \<and>
     (\<forall>x\<in>set xs. \<exists>t sev ti de. x = candidate_with t sev ti de c)"

definition stored_types :: "string set" where
  "stored_types =
     {''connection_disconnected'', ''authentication_error'', ''embedded_signup_pending'', ''provider_degraded'',
      ''heartbeat_expired'', ''webhook_errors'', ''repeated_reconnects''}"

definition signal_types :: "string set" where
  "signal_types =
     {''whatsapp_session_down'', ''instagram_token_expired'', ''instagram_token_expiring'', ''core_delivery_stalled'',
      ''core_delivery_failed''}"

lemma typed_list:
  assumes "distinct (map fst ps)" and "fst ` set ps \<subseteq> T"
  shows "typed T c (map (\<lambda>(t, sev). alert_candidate env t sev c) ps)"
proof -
  have "map fingerprint_text (map (\<lambda>(t, sev). alert_candidate env t sev c) ps) = map (\<lambda>t. fingerprint t c) (map fst ps)"
    by (induction ps) (auto simp: alert_candidate_def)
  then show ?thesis
    unfolding typed_def using assms
    by (intro conjI exI [of _ "map fst ps"]) (auto simp: alert_candidate_def)
qed

lemma typed_Nil [simp]: "typed T c []"
  by (simp add: typed_def)

lemma typed_append:
  assumes "typed T c xs" and "typed U c ys" and "T \<inter> U = {}" and "T \<union> U \<subseteq> V"
  shows "typed V c (xs @ ys)"
proof -
  obtain ts us where "map fingerprint_text xs = map (\<lambda>t. fingerprint t c) ts" "distinct ts" "set ts \<subseteq> T"
    "map fingerprint_text ys = map (\<lambda>t. fingerprint t c) us" "distinct us" "set us \<subseteq> U"
    using assms(1,2) by (auto simp: typed_def)
  then show ?thesis
    unfolding typed_def using assms by (intro conjI exI [of _ "ts @ us"]) (auto simp: typed_def)
qed

lemma typed_one: "t \<in> T \<Longrightarrow> typed T c [alert_candidate env t sev c]"
  using typed_list [of "[(t, sev)]" T c env] by simp

lemma typed_insert:
  assumes "typed {t} c xs" and "typed U c ys" and "t \<notin> U"
  shows "typed (insert t U) c (xs @ ys)"
  by (rule typed_append [OF assms(1,2)]) (use assms(3) in auto)

lemma typed_if: "typed {t} c (map (\<lambda>(t, sev). alert_candidate env t sev c) (if b then [(t, sev)] else []))"
  using typed_one [of t "{t}" c env sev] by simp

lemma typed_connection:
  assumes "connection_candidates env n c = Inr xs"
  shows "typed stored_types c xs"
proof -
  obtain b where xs: "xs = map (\<lambda>(t, severity). alert_candidate env t severity c)
         (status_types env c @
          (if b then [(''heartbeat_expired'', ''warning'')] else []) @
          (if webhook_failing env c then [(''webhook_errors'', ''warning'')] else []) @
          (if 3 \<le> n then [(''repeated_reconnects'', ''warning'')] else []))"
    using assms by (auto simp: connection_candidates_def rbind_eqs)
  show ?thesis
    unfolding xs status_types_def Let_def map_append append_assoc stored_types_def
    by (intro typed_insert typed_if) (simp_all only: insert_iff empty_iff, simp_all)
qed

lemma typed_signals:
  assumes "token_candidates env s c = Inr ts" and "delivery_candidates env s c = Inr ds"
  shows "typed signal_types c (session_candidates env states c @ ts @ ds)"
proof -
  let ?T = "{''instagram_token_expired'', ''instagram_token_expiring''}"
  let ?D = "{''core_delivery_stalled'', ''core_delivery_failed''}"
  have one: "typed U c [candidate_with t sev ti de c]" if "t \<in> U" for t U sev ti de
    unfolding typed_def by (intro conjI exI [of _ "[t]"]) (use that in auto)
  have "typed {''whatsapp_session_down''} c (session_candidates env states c)"
    by (auto simp: session_candidates_def alert_candidate_def intro: one split: option.split)
  moreover have "typed ?T c ts"
    using assms(1) by (auto simp: token_candidates_def rbind_eqs alert_candidate_def intro: one split: if_split_asm)
  moreover have "typed ?D c ds"
    using assms(2) by (auto simp: delivery_candidates_def rbind_eqs alert_candidate_def intro: one split: if_split_asm)
  ultimately have "typed (?T \<union> ?D) c (ts @ ds)"
    by (intro typed_append [where T = ?T and U = ?D]) auto
  then have "typed (insert ''whatsapp_session_down'' (?T \<union> ?D)) c (session_candidates env states c @ ts @ ds)"
    by (rule typed_insert [OF \<open>typed {''whatsapp_session_down''} c (session_candidates env states c)\<close>]) simp
  then show ?thesis by (simp add: signal_types_def insert_commute)
qed

lemma typed_all:
  assumes "traverse g cs = Inr xss" and "\<And>c xs. g c = Inr xs \<Longrightarrow> typed T c xs" and "distinct (map ac_id cs)"
    and "\<forall>t\<in>T. CHR '':'' \<notin> set t"
  shows "distinct (map fingerprint_text (concat xss)) \<and>
    fingerprint_text ` set (concat xss) \<subseteq> {fingerprint t c |t c. t \<in> T \<and> c \<in> set cs} \<and>
    (\<forall>x\<in>set (concat xss). \<exists>t sev ti de c. x = candidate_with t sev ti de c)"
  using assms(1,3)
proof (induction cs arbitrary: xss)
  case Nil
  then show ?case by simp
next
  case (Cons c cs)
  obtain xs yss where x: "g c = Inr xs" "traverse g cs = Inr yss" "xss = xs # yss"
    using Cons.prems(1) by (auto simp: rbind_eqs)
  have IH: "distinct (map fingerprint_text (concat yss))"
    "fingerprint_text ` set (concat yss) \<subseteq> {fingerprint t c |t c. t \<in> T \<and> c \<in> set cs}"
    "\<forall>x\<in>set (concat yss). \<exists>t sev ti de c. x = candidate_with t sev ti de c"
    using Cons.IH [OF x(2)] Cons.prems(2) by auto
  obtain ts where ts: "map fingerprint_text xs = map (\<lambda>t. fingerprint t c) ts" "distinct ts" "set ts \<subseteq> T"
    using assms(2) [OF x(1)] by (auto simp: typed_def)
  have inj: "t = t' \<and> ac_id d = ac_id d'" if "t \<in> T" "t' \<in> T" "fingerprint t d = fingerprint t' d'" for t t' d d'
    using that assms(4) cause_split [of t t' "ac_id d" "ac_id d'"] by (simp add: fingerprint_def)
  have d: "distinct (map (\<lambda>t. fingerprint t c) ts)"
    using ts(2,3) inj by (simp add: distinct_map inj_on_def) blast
  have own: "fingerprint_text ` set xs = (\<lambda>t. fingerprint t c) ` set ts"
    using arg_cong [OF ts(1), of set] by simp
  have disj: "(\<lambda>t. fingerprint t c) ` set ts \<inter> fingerprint_text ` set (concat yss) = {}"
  proof -
    have "fingerprint t c \<noteq> fingerprint t' d" if "t \<in> set ts" "t' \<in> T" "d \<in> set cs" for t t' d
      using inj [of t t' c d] that ts(3) Cons.prems(2) by auto
    then show ?thesis using IH(2) by blast
  qed
  have "distinct (map fingerprint_text (concat xss))"
    using d own disj IH(1) ts(1) by (simp add: x(3))
  moreover have "fingerprint_text ` set (concat xss) \<subseteq> {fingerprint t c' |t c'. t \<in> T \<and> c' \<in> set (c # cs)}"
  proof -
    have "(\<lambda>t. fingerprint t c) ` set ts \<subseteq> {fingerprint t c' |t c'. t \<in> T \<and> c' \<in> set (c # cs)}"
      using ts(3) by auto
    moreover have "fingerprint_text ` set (concat yss) \<subseteq> {fingerprint t c' |t c'. t \<in> T \<and> c' \<in> set (c # cs)}"
      by (rule subset_trans [OF IH(2)]) auto
    ultimately show ?thesis by (simp only: x(3) concat.simps set_append image_Un own Un_subset_iff)
  qed
  moreover have "\<forall>x\<in>set (concat xss). \<exists>t sev ti de c. x = candidate_with t sev ti de c"
    using IH(3) assms(2) [OF x(1)] unfolding typed_def x(3) concat.simps set_append by blast
  ultimately show ?case by blast
qed

lemma current_candidates_distinct:
  assumes "current_candidates env cs = Inr xs" and "distinct (map ac_id cs)"
  shows "distinct (map fingerprint_text xs)" and "\<forall>x\<in>set xs. \<exists>t sev ti de c. x = candidate_with t sev ti de c"
proof -
  obtain ys zs where y: "stored_candidates env cs = Inr ys" and z: "signal_candidates env cs = Inr zs"
    and xs: "xs = without_superseded (ys @ zs)"
    using assms(1) by (auto simp: current_candidates_def rbind_eqs)
  have plain: "\<forall>t\<in>stored_types. CHR '':'' \<notin> set t" "\<forall>t\<in>signal_types. CHR '':'' \<notin> set t"
    by (auto simp: stored_types_def signal_types_def)
  obtain yss counts where y': "traverse (\<lambda>c. connection_candidates env (counts (ac_id c)) c) cs = Inr yss" "ys = concat yss"
    using y by (auto simp: stored_candidates_def rbind_eqs)
  have ys: "distinct (map fingerprint_text ys)"
    "fingerprint_text ` set ys \<subseteq> {fingerprint t c |t c. t \<in> stored_types \<and> c \<in> set cs}"
    "\<forall>x\<in>set ys. \<exists>t sev ti de c. x = candidate_with t sev ti de c"
    using typed_all [OF y'(1) _ assms(2) plain(1)] typed_connection y'(2) by auto
  have zs: "distinct (map fingerprint_text zs) \<and>
    fingerprint_text ` set zs \<subseteq> {fingerprint t c |t c. t \<in> signal_types \<and> c \<in> set cs} \<and>
    (\<forall>x\<in>set zs. \<exists>t sev ti de c. x = candidate_with t sev ti de c)"
  proof (cases "al_signals env")
    case None
    then show ?thesis using z by (simp add: signal_candidates_def)
  next
    case (Some s)
    then obtain states zss where z': "traverse (\<lambda>c. rbind (token_candidates env s c) (\<lambda>ts.
                     rbind (delivery_candidates env s c) (\<lambda>ds. Inr (session_candidates env states c @ ts @ ds)))) cs = Inr zss"
      "zs = concat zss"
      using z by (auto simp: signal_candidates_def rbind_eqs)
    show ?thesis
      unfolding z'(2)
      by (rule typed_all [OF z'(1) _ assms(2) plain(2)]) (auto simp: rbind_eqs intro: typed_signals)
  qed
  have "fingerprint_text ` set ys \<inter> fingerprint_text ` set zs = {}"
  proof -
    have "fingerprint t c \<noteq> fingerprint t' d" if "t \<in> stored_types" "t' \<in> signal_types" for t t' c d
    proof
      assume "fingerprint t c = fingerprint t' d"
      then have "t = t'" using that plain cause_split [of t t'] by (auto simp: fingerprint_def)
      then show False using that by (auto simp: stored_types_def signal_types_def)
    qed
    note differ = this
    have False if py: "p \<in> fingerprint_text ` set ys" and pz: "p \<in> fingerprint_text ` set zs" for p
    proof -
      obtain t c where "p = fingerprint t c" "t \<in> stored_types" using subsetD [OF ys(2) py] by auto
      moreover obtain t' d where "p = fingerprint t' d" "t' \<in> signal_types"
        using subsetD [OF zs [THEN conjunct2, THEN conjunct1] pz] by auto
      ultimately show False using differ by metis
    qed
    then show ?thesis by (rule_tac equals0I) (erule IntE)
  qed
  then have "distinct (map fingerprint_text (ys @ zs))" using ys zs by auto
  then show "distinct (map fingerprint_text xs)"
    unfolding xs without_superseded_def Let_def by (rule distinct_map_filter)
  show "\<forall>x\<in>set xs. \<exists>t sev ti de c. x = candidate_with t sev ti de c"
  proof
    fix x
    assume "x \<in> set xs"
    then have "x \<in> set ys \<or> x \<in> set zs" unfolding xs without_superseded_def Let_def by auto
    then show "\<exists>t sev ti de c. x = candidate_with t sev ti de c"
      using bspec [OF ys(3)] bspec [OF zs [THEN conjunct2, THEN conjunct2]] by (rule disjE)
  qed
qed


section \<open>Syncing\<close>

definition open_prints :: "pdict list \<Rightarrow> string list" where
  "open_prints items = map fingerprint_text (filter is_open items)"

text \<open>Every alert has a fingerprint and is open or resolved.\<close>

definition alert_wf :: "pdict \<Rightarrow> bool" where
  "alert_wf a \<longleftrightarrow> is_str (dget a ''fingerprint'') \<and> (is_open a \<or> is_resolved_alert a)"

definition alerts_wf :: "alert_file \<Rightarrow> bool" where
  "alerts_wf f \<longleftrightarrow> list_all alert_wf (alert_items f)"

lemma resolve_item_fields:
  "dget (resolve_item now src a) ''fingerprint'' = dget a ''fingerprint''"
  "\<not> is_open (resolve_item now src a)" "is_resolved_alert (resolve_item now src a)"
  "dget (resolve_item now src a) ''id'' = dget a ''id''"
  by (simp_all add: resolve_item_def is_open_def is_resolved_alert_def)

lemma fingerprint_text_resolve [simp]: "fingerprint_text (resolve_item now src a) = fingerprint_text a"
  by (simp add: fingerprint_text_def resolve_item_fields)

lemma new_alert_fields:
  assumes "c = candidate_with t sev ti de d"
  shows "is_open (new_alert now uid c)" "fingerprint_text (new_alert now uid c) = fingerprint t d"
    "alert_wf (new_alert now uid c)"
proof -
  have d: "distinct (map fst c)" by (simp add: assms candidate_with_def)
  have s: "dget (new_alert now uid c) ''status'' = PStr ''new''"
    and p: "dget (new_alert now uid c) ''fingerprint'' = PStr (fingerprint t d)"
    using d by (simp_all add: new_alert_def dget_dmerge_distinct assms candidate_with_def dhas_Cons dget_Cons)
  then show "is_open (new_alert now uid c)" "fingerprint_text (new_alert now uid c) = fingerprint t d"
    "alert_wf (new_alert now uid c)"
    by (simp_all add: is_open_def fingerprint_text_def alert_wf_def)
qed

text \<open>The candidates that become alerts.\<close>

definition opened :: "pdict list \<Rightarrow> alert_file \<Rightarrow> pdict list" where
  "opened cs f =
     filter (\<lambda>c. fingerprint_text c \<notin> set (open_prints (alert_items f)) \<and>
       fingerprint_text c \<notin> set (map fingerprint_text (filter resolved_by_hand (alert_items f))) \<and>
       fingerprint_text c \<notin> set (filter (\<lambda>p. PStr p \<in> set (map (\<lambda>c. dget c ''fingerprint'') cs)) (dismissed_fingerprints f))) cs"

definition synced_item :: "string \<Rightarrow> pdict list \<Rightarrow> pdict \<Rightarrow> pdict" where
  "synced_item now cs a =
     (if is_open a \<and> dget a ''fingerprint'' \<notin> set (map (\<lambda>c. dget c ''fingerprint'') cs)
      then resolve_item now ''automatic'' a else a)"

lemma synced_alt:
  "synced_items now uids cs f =
     map (synced_item now cs) (alert_items f) @ map (\<lambda>(i, c). new_alert now (uids i) c) (enumerate 0 (opened cs f))"
  by (simp add: synced_items_def synced_item_def opened_def open_prints_def Let_def comp_def)

lemma settle_fields [simp]:
  "fingerprint_text (synced_item now cs a) = fingerprint_text a"
  "is_open (synced_item now cs a) \<longleftrightarrow> is_open a \<and> dget a ''fingerprint'' \<in> set (map (\<lambda>c. dget c ''fingerprint'') cs)"
  by (auto simp: synced_item_def resolve_item_fields)

lemma settle_wf: "alert_wf a \<Longrightarrow> alert_wf (synced_item now cs a)"
  by (auto simp: synced_item_def alert_wf_def resolve_item_fields)

definition shaped :: "pdict list \<Rightarrow> bool" where
  "shaped cs \<longleftrightarrow> (\<forall>x\<in>set cs. \<exists>t sev ti de c. x = candidate_with t sev ti de c)"

lemma shaped_print: "shaped cs \<Longrightarrow> c \<in> set cs \<Longrightarrow> dget c ''fingerprint'' = PStr (fingerprint_text c)"
  by (auto simp: shaped_def fingerprint_text_def candidate_with_def dget_Cons)

lemma shaped_opened: "shaped cs \<Longrightarrow> shaped (opened cs f)"
  by (auto simp: shaped_def opened_def)

lemma opened_new:
  "shaped cs \<Longrightarrow> open_prints (map (\<lambda>(i, c). new_alert now (uids i) c) (enumerate n cs)) = map fingerprint_text cs \<and>
     list_all alert_wf (map (\<lambda>(i, c). new_alert now (uids i) c) (enumerate n cs))"
proof (induction cs arbitrary: n)
  case Nil
  then show ?case by (simp add: open_prints_def)
next
  case (Cons c cs)
  then obtain t sev ti de d where c: "c = candidate_with t sev ti de d" by (auto simp: shaped_def)
  from Cons.prems have "shaped cs" by (simp add: shaped_def)
  then show ?case
    using Cons.IH [of "Suc n"] new_alert_fields [OF c] by (simp add: open_prints_def c)
qed

lemma open_prints_append: "open_prints (xs @ ys) = open_prints xs @ open_prints ys"
  by (simp add: open_prints_def)

lemma open_prints_settle:
  "open_prints (map (synced_item now cs) xs) =
     map fingerprint_text (filter (\<lambda>a. is_open a \<and> dget a ''fingerprint'' \<in> set (map (\<lambda>c. dget c ''fingerprint'') cs)) xs)"
  by (induction xs) (simp_all add: open_prints_def)

lemma open_prints_synced:
  assumes "shaped cs"
  shows "open_prints (synced_items now uids cs f) =
     map fingerprint_text (filter (\<lambda>a. is_open a \<and> dget a ''fingerprint'' \<in> set (map (\<lambda>c. dget c ''fingerprint'') cs))
       (alert_items f)) @ map fingerprint_text (opened cs f)"
  by (simp add: synced_alt open_prints_append open_prints_settle opened_new [OF shaped_opened [OF assms], THEN conjunct1])

lemma synced_once:
  assumes "shaped cs" and "distinct (map fingerprint_text cs)" and "distinct (open_prints (alert_items f))"
  shows "distinct (open_prints (synced_items now uids cs f))"
proof -
  let ?q = "\<lambda>a. dget a ''fingerprint'' \<in> set (map (\<lambda>c. dget c ''fingerprint'') cs)"
  have "distinct (map fingerprint_text (filter (\<lambda>a. is_open a \<and> ?q a) (alert_items f)))"
    using assms(3) distinct_map_filter [of fingerprint_text "filter is_open (alert_items f)" ?q]
    by (simp add: open_prints_def conj_commute)
  moreover have "distinct (map fingerprint_text (opened cs f))"
    unfolding opened_def by (rule distinct_map_filter [OF assms(2)])
  moreover have "set (map fingerprint_text (filter (\<lambda>a. is_open a \<and> ?q a) (alert_items f))) \<inter>
      set (map fingerprint_text (opened cs f)) = {}"
  proof -
    have "p \<in> set (open_prints (alert_items f))"
      if "p \<in> set (map fingerprint_text (filter (\<lambda>a. is_open a \<and> ?q a) (alert_items f)))" for p
      using that by (auto simp: open_prints_def)
    moreover have "p \<notin> set (open_prints (alert_items f))" if "p \<in> set (map fingerprint_text (opened cs f))" for p
      using that by (auto simp: opened_def)
    ultimately show ?thesis by blast
  qed
  ultimately show ?thesis unfolding open_prints_synced [OF assms(1)] distinct_append by blast
qed

lemma synced_wf:
  assumes "shaped cs" and "alerts_wf f"
  shows "list_all alert_wf (synced_items now uids cs f)"
proof -
  have "list_all alert_wf (map (synced_item now cs) (alert_items f))"
    using assms(2) by (auto simp: alerts_wf_def list_all_iff settle_wf)
  then show ?thesis
    using opened_new [OF shaped_opened [OF assms(1)], THEN conjunct2] unfolding synced_alt list_all_append by blast
qed


section \<open>The operations on the file\<close>

definition alerts_ok :: "alert_file \<Rightarrow> bool" where
  "alerts_ok f \<longleftrightarrow> alerts_wf f \<and> distinct (open_prints (alert_items f))"

text \<open>The alert was resolved by hand and its incident has no open alert.\<close>

definition silent :: "pdict \<Rightarrow> alert_file \<Rightarrow> bool" where
  "silent a f \<longleftrightarrow> a \<in> set (alert_items f) \<and> resolved_by_hand a \<and> fingerprint_text a \<notin> set (open_prints (alert_items f))"

lemma sync_ok:
  assumes "alerts_ok f" and "shaped cs" and "distinct (map fingerprint_text cs)"
  shows "alerts_ok (snd (sync_alerts ok now uids cs f))"
  using assms synced_wf [OF assms(2)] synced_once [OF assms(2,3)]
  by (simp add: sync_cases alerts_ok_def alerts_wf_def written_alerts)

lemma settle_resolved: "is_resolved_alert a \<Longrightarrow> synced_item now cs a = a"
  by (auto simp: synced_item_def is_open_def is_resolved_alert_def)

lemma sync_silent:
  assumes "silent a f" and "shaped cs"
  shows "silent a (snd (sync_alerts ok now uids cs f))"
proof -
  have "fingerprint_text a \<notin> set (map fingerprint_text (opened cs f))"
  proof -
    have "fingerprint_text a \<in> set (map fingerprint_text (filter resolved_by_hand (alert_items f)))"
      using assms(1) by (simp add: silent_def)
    moreover have "fingerprint_text c \<notin> set (map fingerprint_text (filter resolved_by_hand (alert_items f)))"
      if "c \<in> set (opened cs f)" for c
      using that by (simp add: opened_def)
    ultimately show ?thesis by (metis (no_types, lifting) imageE list.set_map)
  qed
  moreover have "fingerprint_text a \<notin> set (map fingerprint_text (filter (\<lambda>a. is_open a \<and> q a) (alert_items f)))" for q
    using assms(1) by (auto simp: open_prints_def silent_def)
  ultimately have "fingerprint_text a \<notin> set (open_prints (synced_items now uids cs f))"
    unfolding open_prints_synced [OF assms(2)] set_append Un_iff de_Morgan_disj by (intro conjI)
  moreover have "a \<in> set (synced_items now uids cs f)"
  proof -
    have "synced_item now cs a \<in> synced_item now cs ` set (alert_items f)"
      using assms(1) by (intro imageI) (simp add: silent_def)
    moreover have "synced_item now cs a = a"
      using assms(1) by (simp add: settle_resolved silent_def resolved_by_hand_def)
    ultimately show ?thesis by (simp add: synced_alt)
  qed
  ultimately show ?thesis using assms(1) by (simp add: sync_cases silent_def written_alerts)
qed

lemma dicts_modify_first:
  "map as_dict (filter is_dict (modify_first (alert_has_id i) (\<lambda>v. PDict (g (as_dict v))) vs)) =
     modify_first (\<lambda>a. dget a ''id'' = PStr i) g (map as_dict (filter is_dict vs))"
  by (induction vs) (auto simp: alert_has_id_def)

lemma find_dicts:
  "List.find (\<lambda>a. dget a ''id'' = PStr i) (map as_dict (filter is_dict vs)) =
     map_option as_dict (List.find (alert_has_id i) vs)"
  by (induction vs) (auto simp: alert_has_id_def)

lemma update_status_cases:
  "alert_items (snd (update_alert_status ok now i st f)) = alert_items f \<or>
     (\<exists>a. st \<in> {''acknowledged'', ''resolved''} \<and> List.find (\<lambda>a. dget a ''id'' = PStr i) (alert_items f) = Some a \<and>
        \<not> is_resolved_alert a \<and>
        alert_items (snd (update_alert_status ok now i st f)) =
          modify_first (\<lambda>a. dget a ''id'' = PStr i) (restate now st) (alert_items f))"
proof -
  have w: "alert_items (Holds (dset (read_alerts f) ''connection_alerts_v2'' (PList
      (modify_first (alert_has_id i) (\<lambda>v. PDict (restate now s (as_dict v)))
        (as_list (dget (read_alerts f) ''connection_alerts_v2'')))))) =
      modify_first (\<lambda>a. dget a ''id'' = PStr i) (restate now s) (alert_items f)" for s
    unfolding written_items dicts_modify_first by (simp add: alert_items_def)
  show ?thesis
    using find_dicts [of i "as_list (dget (read_alerts f) ''connection_alerts_v2'')"]
    by (cases ok; cases "List.find (alert_has_id i) (as_list (dget (read_alerts f) ''connection_alerts_v2''))")
      (auto simp: update_alert_status_def Let_def w alert_items_def [symmetric])
qed

lemma restate_fields:
  "st \<in> {''acknowledged'', ''resolved''} \<Longrightarrow> alert_wf a \<Longrightarrow> alert_wf (restate now st a)"
  "fingerprint_text (restate now st a) = fingerprint_text a"
  by (auto simp: restate_def alert_wf_def resolve_item_def fingerprint_text_def is_open_def is_resolved_alert_def)

lemma open_prints_modify:
  assumes "List.find p xs = Some a" and "is_open a" and "fingerprint_text (g a) = fingerprint_text a"
  shows "set (open_prints (modify_first p g xs)) \<subseteq> set (open_prints xs) \<and>
    (distinct (open_prints xs) \<longrightarrow> distinct (open_prints (modify_first p g xs)))"
  using assms(1)
proof (induction xs)
  case Nil
  then show ?case by simp
next
  case (Cons x xs)
  show ?case
  proof (cases "p x")
    case True
    then show ?thesis using Cons.prems assms(2,3) by (auto simp: open_prints_def)
  next
    case False
    then show ?thesis using Cons by (auto simp: open_prints_def)
  qed
qed

lemma update_open:
  assumes "alerts_wf f"
  shows "set (open_prints (alert_items (snd (update_alert_status ok now i st f)))) \<subseteq> set (open_prints (alert_items f)) \<and>
    (alerts_ok f \<longrightarrow> alerts_ok (snd (update_alert_status ok now i st f)))"
proof -
  consider "alert_items (snd (update_alert_status ok now i st f)) = alert_items f"
    | a where "st \<in> {''acknowledged'', ''resolved''}"
      "List.find (\<lambda>a. dget a ''id'' = PStr i) (alert_items f) = Some a" "\<not> is_resolved_alert a"
      "alert_items (snd (update_alert_status ok now i st f)) =
          modify_first (\<lambda>a. dget a ''id'' = PStr i) (restate now st) (alert_items f)"
    using update_status_cases [of ok now i st f] by blast
  then show ?thesis
  proof cases
    case 1
    then show ?thesis by (simp add: alerts_ok_def alerts_wf_def)
  next
    case 2
    have "a \<in> set (alert_items f)" using 2(2) by (auto simp: find_Some_iff)
    then have "alert_wf a" using assms by (simp add: alerts_wf_def list_all_iff)
    then have "is_open a" using 2(3) by (simp add: alert_wf_def)
    note o = open_prints_modify [OF 2(2) this, of "restate now st", OF restate_fields(2)]
    have "alerts_wf (snd (update_alert_status ok now i st f))"
      using assms restate_fields(1) [OF 2(1)] by (simp add: alerts_wf_def 2(4) list_all_modify_first)
    then show ?thesis using o unfolding alerts_ok_def 2(4) by blast
  qed
qed

lemma modify_first_keeps: "x \<in> set xs \<Longrightarrow> List.find p xs = Some a \<Longrightarrow> x \<noteq> a \<Longrightarrow> x \<in> set (modify_first p g xs)"
  by (induction xs) (auto split: if_split_asm)

lemma update_silent:
  assumes "alerts_wf f" and "silent a f"
  shows "silent a (snd (update_alert_status ok now i st f))"
proof -
  have "a \<in> set (alert_items (snd (update_alert_status ok now i st f)))"
  proof (rule disjE [OF update_status_cases [of ok now i st f]])
    assume "\<exists>b. st \<in> {''acknowledged'', ''resolved''} \<and>
        List.find (\<lambda>a. dget a ''id'' = PStr i) (alert_items f) = Some b \<and> \<not> is_resolved_alert b \<and>
        alert_items (snd (update_alert_status ok now i st f)) =
          modify_first (\<lambda>a. dget a ''id'' = PStr i) (restate now st) (alert_items f)"
    then obtain b where b: "List.find (\<lambda>a. dget a ''id'' = PStr i) (alert_items f) = Some b" "\<not> is_resolved_alert b"
      "alert_items (snd (update_alert_status ok now i st f)) =
          modify_first (\<lambda>a. dget a ''id'' = PStr i) (restate now st) (alert_items f)" by blast
    have "a \<in> set (alert_items f)" "a \<noteq> b" using assms(2) b(2) by (auto simp: silent_def resolved_by_hand_def)
    then show ?thesis unfolding b(3) by (intro modify_first_keeps [OF _ b(1)])
  qed (use assms(2) in \<open>simp add: silent_def\<close>)
  then show ?thesis using update_open [OF assms(1), of ok now i st] assms(2) by (auto simp: silent_def)
qed

lemma filtered_ok:
  assumes "alerts_ok f"
  shows "alerts_ok (Holds (with_alerts (map PDict (filter p (alert_items f))) ps f))"
  using assms distinct_map_filter [of fingerprint_text "filter is_open (alert_items f)" p]
  by (simp add: alerts_ok_def alerts_wf_def written_alerts open_prints_def list_all_iff conj_commute)

lemma delete_ok: "alerts_ok f \<Longrightarrow> alerts_ok (snd (delete_alert ok i f))"
  by (simp add: delete_alert_def Let_def replace_file_def filtered_ok split: option.split)

lemma delete_resolved_ok: "alerts_ok f \<Longrightarrow> alerts_ok (snd (delete_resolved_alerts ok f))"
  by (simp add: delete_resolved_alerts_def Let_def replace_file_def filtered_ok)

section \<open>Runs of the service\<close>

datatype alert_op =
    Listing alert_env alert_call "alert_connection list"
  | Moving alert_env alert_call "alert_connection list" string string
  | Automation bool string string string
  | Removing alert_env alert_call "alert_connection list" string
  | Clearing alert_env alert_call "alert_connection list"

fun alert_step :: "alert_op \<Rightarrow> alert_file \<Rightarrow> alert_file" where
  "alert_step (Listing env cl cs) f = snd (list_alerts env cl cs f)"
| "alert_step (Moving env cl cs i st) f = snd (move_alert env cl cs i st f)"
| "alert_step (Automation ok now i st) f = snd (update_alert ok now i st f)"
| "alert_step (Removing env cl cs i) f = snd (remove_alert env cl cs i f)"
| "alert_step (Clearing env cl cs) f = snd (remove_resolved env cl cs f)"

text \<open>The connections have different identifiers.\<close>

fun ids_differ :: "alert_op \<Rightarrow> bool" where
  "ids_differ (Listing env cl cs) = distinct (map ac_id cs)"
| "ids_differ (Moving env cl cs i st) = distinct (map ac_id cs)"
| "ids_differ (Automation ok now i st) = True"
| "ids_differ (Removing env cl cs i) = distinct (map ac_id cs)"
| "ids_differ (Clearing env cl cs) = distinct (map ac_id cs)"

fun keeps_records :: "alert_op \<Rightarrow> bool" where
  "keeps_records (Removing env cl cs i) = False"
| "keeps_records (Clearing env cl cs) = False"
| "keeps_records _ = True"

definition alert_run :: "alert_op list \<Rightarrow> alert_file \<Rightarrow> alert_file" where
  "alert_run ops f = fold alert_step ops f"

lemma list_alerts_file:
  "snd (list_alerts env cl cs f) =
     (case current_candidates env cs of Inl e \<Rightarrow> f
      | Inr xs \<Rightarrow> snd (sync_alerts (lc_disk cl 0) (lc_now cl) (lc_uids cl) xs f))"
  by (simp add: list_alerts_def split: sum.split prod.split)

lemma list_alerts_safe:
  assumes "distinct (map ac_id cs)"
  shows "alerts_ok f \<Longrightarrow> alerts_ok (snd (list_alerts env cl cs f))"
    and "silent a f \<Longrightarrow> silent a (snd (list_alerts env cl cs f))"
  using current_candidates_distinct [OF _ assms] sync_ok sync_silent
  by (simp_all add: list_alerts_file shaped_def split: sum.split)

lemma after_listing_file:
  "snd (after_listing env cl cs act f) =
     (if is_ok (fst (list_alerts env cl cs f)) then snd (act (snd (list_alerts env cl cs f)))
      else snd (list_alerts env cl cs f))"
  by (simp add: after_listing_def split: sum.split prod.split)

lemma move_alert_file:
  "snd (move_alert env cl cs i st f) =
     (if is_ok (fst (list_alerts env cl cs f))
      then snd (update_alert_status (lc_disk cl 1) (lc_now cl) i st (snd (list_alerts env cl cs f)))
      else snd (list_alerts env cl cs f))"
  by (simp add: move_alert_def after_listing_file split: sum.split prod.split option.split list.split)

lemma ok_wf: "alerts_ok f \<Longrightarrow> alerts_wf f"
  by (simp add: alerts_ok_def)

lemma update_ok: "alerts_ok f \<Longrightarrow> alerts_ok (snd (update_alert_status ok now i st f))"
  using update_open [OF ok_wf] by blast

lemma alert_step_ok: "alerts_ok f \<Longrightarrow> ids_differ x \<Longrightarrow> alerts_ok (alert_step x f)"
  by (cases x)
    (simp_all add: list_alerts_safe move_alert_file update_alert_def remove_alert_def remove_resolved_def
      after_listing_file delete_ok delete_resolved_ok update_ok)

lemma alert_step_silent:
  assumes "alerts_ok f" and "silent a f" and "ids_differ x" and "keeps_records x"
  shows "silent a (alert_step x f)"
  using assms
  by (cases x) (simp_all add: list_alerts_safe move_alert_file update_alert_def update_silent ok_wf)

lemma alert_run_ok: "alerts_ok f \<Longrightarrow> list_all ids_differ ops \<Longrightarrow> alerts_ok (alert_run ops f)"
  unfolding alert_run_def by (induction ops arbitrary: f) (simp_all add: alert_step_ok)

lemma alert_run_silent:
  "alerts_ok f \<Longrightarrow> silent a f \<Longrightarrow> list_all (\<lambda>x. ids_differ x \<and> keeps_records x) ops \<Longrightarrow> silent a (alert_run ops f)"
  unfolding alert_run_def by (induction ops arbitrary: f) (simp_all add: alert_step_ok alert_step_silent)


section \<open>Properties\<close>

text \<open>
  C38: an incident has at most one open alert: over connections with different identifiers, any
  sequence of listings, acknowledgements, resolutions and deletions, failing writes included,
  leaves the open alerts with different fingerprints, and every alert open or resolved.
\<close>

theorem incident_open_once:
  assumes "list_all ids_differ ops"
  shows "distinct (open_prints (alert_items (alert_run ops Absent))) \<and>
    list_all (\<lambda>a. is_open a \<or> is_resolved_alert a) (alert_items (alert_run ops Absent))"
proof -
  have "alerts_ok Absent"
    by (simp add: alerts_ok_def alerts_wf_def alert_items_def empty_alerts_def dget_Cons open_prints_def)
  from alert_run_ok [OF this assms] show ?thesis
    by (auto simp: alerts_ok_def alerts_wf_def alert_wf_def list_all_iff)
qed

definition sample_connection :: alert_connection where
  "sample_connection =
     \<lparr> ac_id = ''c1'', ac_name = ''n'', ac_client_id = ''k'', ac_client_name = None, ac_provider = ''meta'',
       ac_channel = ''whatsapp'', ac_state = ''disconnected'', ac_lifecycle = None, ac_health = ''unhealthy'',
       ac_runtime = ''r'' \<rparr>"

definition sample_alert_env :: alert_env where
  "sample_alert_env =
     \<lparr> al_now = 1000, al_text = (\<lambda>t. (t, t)), al_failed_text = (\<lambda>n. []), al_heartbeat = (\<lambda>i. No_Time),
       al_webhook = (\<lambda>i. None), al_events = [], al_signals = None \<rparr>"

definition sample_alert_call :: alert_call where
  "sample_alert_call =
     \<lparr> lc_now = ''t'', lc_uids = (\<lambda>n. ''a'' @ nat_str n), lc_disk = (\<lambda>n. True), lc_nameless = ''x'' \<rparr>"

theorem incident_open_once_witness:
  "distinct (open_prints (alert_items (alert_run
     [Listing sample_alert_env sample_alert_call [sample_connection],
      Moving sample_alert_env sample_alert_call [sample_connection] ''a0'' ''resolved''] Absent)))"
  using incident_open_once [of "[Listing sample_alert_env sample_alert_call [sample_connection],
      Moving sample_alert_env sample_alert_call [sample_connection] ''a0'' ''resolved'']"] by simp

text \<open>
  C39: the open alerts follow the causes: after a listing that is written, an incident is open
  exactly if its cause holds now and it was open before, or was neither resolved by hand nor
  dismissed; an open alert whose cause is gone is resolved automatically at the time of the
  listing, and a dismissal is forgotten with its cause.
\<close>

theorem alerts_follow_causes:
  assumes "alerts_ok f" and "distinct (map ac_id cs)" and "current_candidates env cs = Inr xs" and "lc_disk cl 0"
    and "list_alerts env cl cs f = (r, f')"
  shows "set (open_prints (alert_items f')) =
      {p \<in> fingerprint_text ` set xs. p \<in> set (open_prints (alert_items f)) \<or>
         p \<notin> fingerprint_text ` {a \<in> set (alert_items f). resolved_by_hand a} \<and> p \<notin> set (dismissed_fingerprints f)} \<and>
    (\<forall>a\<in>set (alert_items f). is_open a \<and> fingerprint_text a \<notin> fingerprint_text ` set xs \<longrightarrow>
       resolve_item (lc_now cl) ''automatic'' a \<in> set (alert_items f')) \<and>
    set (dismissed_fingerprints f') = set (dismissed_fingerprints f) \<inter> fingerprint_text ` set xs"
proof -
  have sh: "shaped xs" using current_candidates_distinct(2) [OF assms(3,2)] by (simp add: shaped_def)
  have f': "f' = Holds (with_alerts (map PDict (synced_items (lc_now cl) (lc_uids cl) xs f)) (still_dismissed xs f) f)"
    using arg_cong [OF assms(5), of snd] assms(3,4) by (simp add: list_alerts_file sync_cases)
  have prints: "set (map (\<lambda>c. dget c ''fingerprint'') xs) = PStr ` fingerprint_text ` set xs"
    using shaped_print [OF sh] by (auto simp: image_image)
  have own: "dget a ''fingerprint'' = PStr (fingerprint_text a)" if "a \<in> set (alert_items f)" for a
  proof -
    have "is_str (dget a ''fingerprint'')" using that assms(1) by (simp add: alerts_ok_def alerts_wf_def alert_wf_def list_all_iff)
    then show ?thesis by (cases "dget a ''fingerprint''") (simp_all add: fingerprint_text_def)
  qed
  have here: "dget a ''fingerprint'' \<in> set (map (\<lambda>c. dget c ''fingerprint'') xs) \<longleftrightarrow> fingerprint_text a \<in> fingerprint_text ` set xs"
    if "a \<in> set (alert_items f)" for a
    unfolding prints own [OF that] by blast
  have kept: "set (map fingerprint_text (filter (\<lambda>a. is_open a \<and> dget a ''fingerprint'' \<in>
      set (map (\<lambda>c. dget c ''fingerprint'') xs)) (alert_items f))) =
      set (open_prints (alert_items f)) \<inter> fingerprint_text ` set xs"
  proof -
    have "filter (\<lambda>a. is_open a \<and> dget a ''fingerprint'' \<in> set (map (\<lambda>c. dget c ''fingerprint'') xs)) (alert_items f) =
        filter (\<lambda>a. is_open a \<and> fingerprint_text a \<in> fingerprint_text ` set xs) (alert_items f)"
      using here by (intro filter_cong) simp_all
    then show ?thesis by (auto simp only: open_prints_def set_map set_filter)
  qed
  have new: "set (map fingerprint_text (opened xs f)) = {p \<in> fingerprint_text ` set xs.
      p \<notin> set (open_prints (alert_items f)) \<and>
      p \<notin> fingerprint_text ` {a \<in> set (alert_items f). resolved_by_hand a} \<and> p \<notin> set (dismissed_fingerprints f)}"
    unfolding opened_def prints by auto
  have "set (open_prints (alert_items f')) =
      {p \<in> fingerprint_text ` set xs. p \<in> set (open_prints (alert_items f)) \<or>
         p \<notin> fingerprint_text ` {a \<in> set (alert_items f). resolved_by_hand a} \<and> p \<notin> set (dismissed_fingerprints f)}"
    unfolding f' written_alerts open_prints_synced [OF sh] set_append kept new by blast
  moreover have "resolve_item (lc_now cl) ''automatic'' a \<in> set (alert_items f')"
    if a: "a \<in> set (alert_items f)" "is_open a" "fingerprint_text a \<notin> fingerprint_text ` set xs" for a
  proof -
    have "synced_item (lc_now cl) xs a = resolve_item (lc_now cl) ''automatic'' a"
      using a(2,3) here [OF a(1)] by (simp add: synced_item_def)
    then show ?thesis using a(1) unfolding f' written_alerts synced_alt by (auto intro: image_eqI [OF sym])
  qed
  moreover have "set (dismissed_fingerprints f') = set (dismissed_fingerprints f) \<inter> fingerprint_text ` set xs"
    unfolding f' written_alerts still_dismissed_def sorted_set_def prints by auto
  ultimately show ?thesis by blast
qed

lemma sample_current:
  "case current_candidates sample_alert_env [sample_connection] of
     Inr xs \<Rightarrow> map fingerprint_text xs = [''connection_disconnected:c1'', ''provider_degraded:c1''] | _ \<Rightarrow> False"
  by code_simp

theorem alerts_follow_causes_witness:
  "set (open_prints (alert_items (snd (list_alerts sample_alert_env sample_alert_call [sample_connection] Absent)))) =
    {''connection_disconnected:c1'', ''provider_degraded:c1''}"
proof -
  obtain xs where xs: "current_candidates sample_alert_env [sample_connection] = Inr xs"
    "map fingerprint_text xs = [''connection_disconnected:c1'', ''provider_degraded:c1'']"
    using sample_current by (auto split: sum.split_asm)
  have prints: "fingerprint_text ` set xs = {''connection_disconnected:c1'', ''provider_degraded:c1''}"
    using arg_cong [OF xs(2), of set] by simp
  have empty: "alert_items Absent = []" "dismissed_fingerprints Absent = []"
    by (simp_all add: alert_items_def dismissed_fingerprints_def empty_alerts_def dget_Cons)
  have ok: "alerts_ok Absent" by (simp add: alerts_ok_def alerts_wf_def empty open_prints_def)
  have ids: "distinct (map ac_id [sample_connection])" by simp
  have disk: "lc_disk sample_alert_call 0" by (simp add: sample_alert_call_def)
  obtain r f' where l: "list_alerts sample_alert_env sample_alert_call [sample_connection] Absent = (r, f')"
    by (rule prod.exhaust)
  from alerts_follow_causes [OF ok ids xs(1) disk l, THEN conjunct1] show ?thesis
    unfolding l prints empty by (auto simp: open_prints_def)
qed

text \<open>
  an alert resolved by hand silences its incident for good: as long as the alert is stored, no
  sequence of listings, acknowledgements and resolutions opens the incident again, whatever the
  connections do meanwhile, even if its cause goes away and comes back.
\<close>

theorem resolved_by_hand_silences:
  assumes "alerts_ok f" and "a \<in> set (alert_items f)" and "resolved_by_hand a"
    and "fingerprint_text a \<notin> set (open_prints (alert_items f))"
    and "list_all (\<lambda>x. ids_differ x \<and> keeps_records x) ops"
  shows "a \<in> set (alert_items (alert_run ops f)) \<and>
    fingerprint_text a \<notin> set (open_prints (alert_items (alert_run ops f)))"
  using alert_run_silent [OF assms(1) _ assms(5), of a] assms(2-4) by (simp add: silent_def)

definition sample_handled :: pdict where
  "sample_handled =
     [(''id'', PStr ''a0''), (''status'', PStr ''resolved''), (''resolution_source'', PStr ''manual''),
      (''fingerprint'', PStr ''connection_disconnected:c1'')]"

theorem resolved_by_hand_silences_witness:
  "''connection_disconnected:c1'' \<notin> set (open_prints (alert_items (alert_run
     [Listing sample_alert_env sample_alert_call [],
      Listing sample_alert_env sample_alert_call [sample_connection]]
     (Holds [(''connection_alerts_v2'', PList [PDict sample_handled]),
             (''dismissed_alert_fingerprints_v1'', PList [])]))))"
proof -
  let ?f = "Holds [(''connection_alerts_v2'', PList [PDict sample_handled]), (''dismissed_alert_fingerprints_v1'', PList [])]"
  have items: "alert_items ?f = [sample_handled]"
    by (simp add: alert_items_def list_or_empty_kept dget_Cons)
  have hand: "resolved_by_hand sample_handled" "\<not> is_open sample_handled" "is_str (dget sample_handled ''fingerprint'')"
    "fingerprint_text sample_handled = ''connection_disconnected:c1''"
    by (simp_all add: sample_handled_def resolved_by_hand_def is_resolved_alert_def is_open_def fingerprint_text_def dget_Cons)
  have ok: "alerts_ok ?f"
    using hand by (simp add: alerts_ok_def alerts_wf_def items alert_wf_def open_prints_def resolved_by_hand_def)
  have silent: "fingerprint_text sample_handled \<notin> set (open_prints (alert_items ?f))"
    using hand by (simp add: items open_prints_def)
  have "list_all (\<lambda>x. ids_differ x \<and> keeps_records x) [Listing sample_alert_env sample_alert_call [],
      Listing sample_alert_env sample_alert_call [sample_connection]]" by simp
  from resolved_by_hand_silences [OF ok _ hand(1) silent this] show ?thesis by (simp add: items hand(4))
qed

end
