(* ===== verification/Manual_Actions.thy ===== *)
theory Manual_Actions
  imports Reconciliation
begin

text \<open>
  Actions an operator triggers by hand: the store of
  \<open>gateway/app/services/manual_delivery_actions.py\<close>, and the resend of a failed Evolution text
  of \<open>gateway/app/services/provider_resend.py\<close>. An action is the dictionary the code keeps. A
  resend is three steps, cut where it awaits the provider: the checks and the new action, the
  answer of the lookup, the outcome of the send. The clock, \<open>uuid4\<close>, \<open>json.loads\<close> and the
  outcome of each write are arguments; the cancellation of a task is left out.
\<close>

section \<open>The store of actions\<close>

type_synonym action_file = "pdict json_file"

record action_settings =
  ms_retention :: int
  ms_rate_limit :: int
  ms_rate_window :: int

definition action_types :: "string list" where
  "action_types = [''repeat_test'', ''redeliver_current_target'', ''resend_provider_outbound'', ''reprocess_inbound'']"

definition enabled_action_types :: "string list" where
  "enabled_action_types = [''repeat_test'', ''redeliver_current_target'', ''resend_provider_outbound'']"

definition action_risk :: "string \<Rightarrow> string" where
  "action_risk a =
     (case map_of [(''repeat_test'', ''safe''), (''redeliver_current_target'', ''warning''),
                   (''resend_provider_outbound'', ''warning''), (''reprocess_inbound'', ''blocked'')] a of
        None \<Rightarrow> [] | Some r \<Rightarrow> r)"

text \<open>\<open>max(low, min(value or default, high))\<close>.\<close>

definition clamped :: "int \<Rightarrow> int \<Rightarrow> int \<Rightarrow> int \<Rightarrow> int" where
  "clamped low high otherwise v = max low (min (if v = 0 then otherwise else v) high)"

definition action_retention :: "action_settings \<Rightarrow> nat" where
  "action_retention s = nat (clamped 100 10000 2000 (ms_retention s))"

definition rate_limit :: "action_settings \<Rightarrow> int \<times> int" where
  "rate_limit s = (clamped 1 100 10 (ms_rate_limit s), clamped 1 3600 60 (ms_rate_window s))"

definition empty_actions :: pdict where
  "empty_actions = [(''version'', PInt 1), (''actions'', PList [])]"

fun read_actions :: "action_file \<Rightarrow> pdict" where
  "read_actions (Holds d) = (if is_list (dget d ''actions'') then d else empty_actions)"
| "read_actions _ = empty_actions"

definition raw_actions :: "action_file \<Rightarrow> pval list" where
  "raw_actions f = as_list (dget (read_actions f) ''actions'')"

definition stored_actions :: "action_file \<Rightarrow> pdict list" where
  "stored_actions f = map as_dict (filter is_dict (raw_actions f))"

definition write_actions :: "bool \<Rightarrow> pval list \<Rightarrow> action_file \<Rightarrow> unit res \<times> action_file" where
  "write_actions disk_ok items f = replace_file disk_ok (dset (read_actions f) ''actions'' (PList items)) f"

definition safe_reason :: "(string \<Rightarrow> pval option) \<Rightarrow> pval \<Rightarrow> pval" where
  "safe_reason loads reason = pstr_opt (or_none (strip (redact_json_preview loads reason (Some 500))))"

definition public_action_fields :: "string list" where
  "public_action_fields =
     [''id'', ''action'', ''sourceDeliveryId'', ''targetId'', ''connectionId'', ''actorId'', ''reason'',
      ''createdAt'', ''startedAt'', ''finishedAt'', ''status'', ''risk'', ''result'', ''newDeliveryId'',
      ''newAttemptId'', ''configurationSource'', ''sourceAttemptId'', ''provider'', ''reconciliationResult'',
      ''confirmation'', ''observableDestinationDrift'']"

definition public_action :: "pdict \<Rightarrow> pdict" where
  "public_action a = filter (\<lambda>kv. fst kv \<in> set public_action_fields) a"

record action_request =
  ar_action :: string
  ar_source :: string
  ar_target :: string
  ar_connection :: string
  ar_actor :: string
  ar_key :: string
  ar_reason :: pval
  ar_extra :: pdict

definition action_conflict :: "string \<Rightarrow> py_exc" where
  "action_conflict message = AppError ''ManualActionConflictError'' None message"

definition same_operation :: "pval \<Rightarrow> action_request \<Rightarrow> pdict \<Rightarrow> bool" where
  "same_operation reason r a \<longleftrightarrow>
     dget a ''action'' = PStr (ar_action r) \<and> dget a ''sourceDeliveryId'' = PStr (ar_source r) \<and>
     dget a ''targetId'' = PStr (ar_target r) \<and> dget a ''connectionId'' = PStr (ar_connection r) \<and>
     dget a ''reason'' = reason"

definition live_statuses :: "string list" where
  "live_statuses = [''pending'', ''running'', ''completed'']"

text \<open>A resend of the target that has started or succeeded.\<close>

definition live_resend :: "string \<Rightarrow> string \<Rightarrow> pdict \<Rightarrow> bool" where
  "live_resend target connection a \<longleftrightarrow>
     dget a ''action'' = PStr ''resend_provider_outbound'' \<and> dget a ''targetId'' = PStr target \<and>
     dget a ''connectionId'' = PStr connection \<and> dget a ''status'' \<in> PStr ` set live_statuses"

definition action_time :: "pdict \<Rightarrow> int res" where
  "action_time a = py_int (py_or (dget a ''createdAt'') (PInt 0))"

definition recent_actions :: "int \<Rightarrow> action_request \<Rightarrow> pdict list \<Rightarrow> nat res" where
  "recent_actions earliest r actions =
     rbind (traverse action_time
              (filter (\<lambda>a. dget a ''actorId'' = PStr (ar_actor r) \<and> dget a ''targetId'' = PStr (ar_target r) \<and>
                 dget a ''action'' = PStr (ar_action r)) actions))
       (\<lambda>ts. Inr (length (filter (\<lambda>t. earliest \<le> t) ts)))"

definition new_action :: "int \<Rightarrow> string \<Rightarrow> pval \<Rightarrow> action_request \<Rightarrow> pdict" where
  "new_action now uid reason r =
     dmerge
       [(''id'', PStr (''manual_action_'' @ uid)), (''action'', PStr (ar_action r)),
        (''sourceDeliveryId'', PStr (ar_source r)), (''targetId'', PStr (ar_target r)),
        (''connectionId'', PStr (ar_connection r)), (''actorId'', PStr (ar_actor r)), (''reason'', reason),
        (''createdAt'', PInt now), (''startedAt'', PNone), (''finishedAt'', PNone), (''status'', PStr ''pending''),
        (''risk'', PStr (action_risk (ar_action r))), (''result'', PNone), (''newDeliveryId'', PNone),
        (''configurationSource'', PStr ''current''), (''idempotencyKey'', PStr (ar_key r))]
       (redact_items (ar_extra r))"

text \<open>The newest actions, as many as are kept.\<close>

definition newest_actions :: "nat \<Rightarrow> pdict list \<Rightarrow> pdict list res" where
  "newest_actions n actions =
     rbind (traverse (\<lambda>a. rbind (action_time a) (\<lambda>t. Inr (t, a))) actions)
       (\<lambda>ps. Inr (take n (map snd (sort_desc fst ps))))"

definition store_action ::
    "bool \<Rightarrow> action_settings \<Rightarrow> pdict \<Rightarrow> action_file \<Rightarrow> (pdict \<times> bool) res \<times> action_file" where
  "store_action disk_ok s a f =
     (case newest_actions (action_retention s) (stored_actions f @ [a]) of
        Inl e \<Rightarrow> (Inl e, f)
      | Inr kept \<Rightarrow>
          (case write_actions disk_ok (map PDict kept) f of
             (Inl e, f') \<Rightarrow> (Inl e, f')
           | (Inr _, f') \<Rightarrow> (Inr (public_action a, True), f')))"

definition create_or_get_action ::
    "(string \<Rightarrow> pval option) \<Rightarrow> action_settings \<Rightarrow> bool \<Rightarrow> int \<Rightarrow> string \<Rightarrow> action_request \<Rightarrow> action_file
     \<Rightarrow> (pdict \<times> bool) res \<times> action_file" where
  "create_or_get_action loads s disk_ok now uid r f =
     (let reason = safe_reason loads (ar_reason r);
          actions = stored_actions f;
          (limit, window) = rate_limit s
      in if ar_action r \<notin> set action_types
         then (Inl (ValueError ''Unsupported manual delivery action''), f)
         else if ar_action r \<notin> set enabled_action_types
         then (Inl (AppError ''PermissionError'' None ''This manual delivery action is not enabled''), f)
         else case List.find (\<lambda>a. str_or_empty (dget a ''idempotencyKey'') = ar_key r) actions of
           Some existing \<Rightarrow>
             (if same_operation reason r existing then (Inr (public_action existing, False), f)
              else (Inl (action_conflict ''Idempotency-Key already belongs to a different manual action''), f))
         | None \<Rightarrow>
             if ar_action r = ''resend_provider_outbound'' \<and>
               list_ex (live_resend (ar_target r) (ar_connection r)) actions
             then (Inl (action_conflict ''A resend already exists for this outbound attempt''), f)
             else case recent_actions (now - window * 1000) r actions of
               Inl e \<Rightarrow> (Inl e, f)
             | Inr recent \<Rightarrow>
                 (if limit \<le> int recent
                  then (Inl (RuntimeError ''Manual delivery action rate limit exceeded''), f)
                  else store_action disk_ok s (new_action now uid reason r) f))"

record action_update =
  au_status :: string
  au_result :: "pdict option"
  au_delivery :: string
  au_attempt :: string
  au_reconciliation :: "pdict option"

definition updated_action :: "int \<Rightarrow> action_update \<Rightarrow> pdict \<Rightarrow> pdict" where
  "updated_action now u a =
     (let started = (if au_status u = ''running'' \<and> dget a ''startedAt'' = PNone
                     then dset a ''startedAt'' (PInt now) else a);
          finished = (if au_status u \<in> {''completed'', ''failed'', ''blocked''}
                      then dset started ''finishedAt'' (PInt now) else started);
          stated = dset finished ''status'' (PStr (au_status u));
          resulted = (case au_result u of None \<Rightarrow> stated
                      | Some d \<Rightarrow> dset stated ''result'' (PDict (redact_items d)));
          delivered = (if au_delivery u = [] then resulted
                       else dset resulted ''newDeliveryId'' (PStr (au_delivery u)));
          attempted = (if au_attempt u = [] then delivered
                       else dset delivered ''newAttemptId'' (PStr (au_attempt u)))
      in case au_reconciliation u of None \<Rightarrow> attempted
         | Some d \<Rightarrow> dset attempted ''reconciliationResult'' (PDict (redact_items d)))"

definition action_statuses :: "string list" where
  "action_statuses = [''pending'', ''running'', ''completed'', ''failed'', ''blocked'']"

definition has_id :: "string \<Rightarrow> pval \<Rightarrow> bool" where
  "has_id i v \<longleftrightarrow> is_dict v \<and> dget (as_dict v) ''id'' = PStr i"

definition update_action ::
    "bool \<Rightarrow> int \<Rightarrow> string \<Rightarrow> action_update \<Rightarrow> action_file \<Rightarrow> pdict option res \<times> action_file" where
  "update_action disk_ok now i u f =
     (if au_status u \<notin> set action_statuses then (Inl (ValueError ''Invalid manual action status''), f)
      else case List.find (has_id i) (raw_actions f) of
        None \<Rightarrow> (Inr None, f)
      | Some v \<Rightarrow>
          (let change = (\<lambda>v. PDict (updated_action now u (as_dict v))) in
           case write_actions disk_ok (modify_first (has_id i) change (raw_actions f)) f of
             (Inl e, f') \<Rightarrow> (Inl e, f')
           | (Inr _, f') \<Rightarrow> (Inr (Some (public_action (as_dict (change v)))), f')))"

definition get_action :: "string \<Rightarrow> action_file \<Rightarrow> pdict option" where
  "get_action i f = map_option (\<lambda>v. public_action (as_dict v)) (List.find (has_id i) (raw_actions f))"

definition list_action_summaries :: "action_file \<Rightarrow> pdict list" where
  "list_action_summaries f =
     map (\<lambda>a. map (\<lambda>k. (k, dget a k))
            [''id'', ''action'', ''connectionId'', ''provider'', ''createdAt'', ''status'', ''risk''])
       (stored_actions f)"

section \<open>The resend of a failed text\<close>

record text_request =
  tr_text :: string
  tr_recipient :: string
  tr_operation :: string

text \<open>The reason why an attempt cannot be sent again, or the request to send.\<close>

definition reconstruct_outbound_request :: "pdict \<Rightarrow> string + text_request" where
  "reconstruct_outbound_request attempt =
     (let payload = as_dict (dget attempt ''requestPayload'');
          message_type = str_lower (clean_str (py_or (dget attempt ''messageType'') (dget payload ''messageType'')));
          body = str_or_empty (dget payload ''text'');
          recipient = clean_str (py_or (dget payload ''recipient'') (dget attempt ''recipient''));
          operation = clean_str (dget payload ''providerOperation'')
      in if message_type \<noteq> ''text'' then Inl ''message_type_not_fully_reconstructable''
         else if dget payload ''media'' \<noteq> PNone \<or> dget attempt ''mediaReference'' \<noteq> PNone
         then Inl ''media_not_reconstructable''
         else if body = [] \<or> recipient = [] \<or> operation \<noteq> ''messages.sendText''
         then Inl ''missing_required_text_request_data''
         else if contains_str (py_str (PDict payload)) REDACTED then Inl ''required_request_data_redacted''
         else Inr \<lparr> tr_text = body, tr_recipient = recipient, tr_operation = operation \<rparr>)"

record resend_env =
  re_loads :: "string \<Rightarrow> pval option"
  re_sha256 :: "string \<Rightarrow> string"
  re_registry :: "string \<Rightarrow> pdict"
  re_attempt_retention :: int
  re_settings :: action_settings

record resend_call =
  rc_now :: int
  rc_uid :: string
  rc_disk :: "nat \<Rightarrow> bool"

record resend_request =
  rq_attempt :: string
  rq_delivery :: string
  rq_connection :: string
  rq_actor :: string
  rq_key :: string
  rq_confirmed :: bool
  rq_provider :: pval
  rq_instance :: string
  rq_active :: bool

record resend_world =
  rw_attempts :: attempt_file
  rw_actions :: action_file
  rw_inflight :: "string list"

definition resend_blocked :: "string \<Rightarrow> py_exc" where
  "resend_blocked reason = AppError ''ResendBlockedError'' None reason"

definition resend_conflict :: "string \<Rightarrow> py_exc" where
  "resend_conflict reason = AppError ''ResendConflictError'' None reason"

text \<open>\<open>ManualActionConflictError\<close> becomes the conflict of the resend; other errors pass.\<close>

fun as_resend_conflict :: "py_exc \<Rightarrow> py_exc" where
  "as_resend_conflict (AppError c n m) =
     (if c = ''ManualActionConflictError'' then resend_conflict m else AppError c n m)"
| "as_resend_conflict e = e"

definition is_evolution :: "pval \<Rightarrow> bool" where
  "is_evolution v \<longleftrightarrow> str_lower (clean_str v) = ''evolution''"

definition check_resend :: "resend_request \<Rightarrow> pdict \<Rightarrow> text_request res" where
  "check_resend q source =
     (let persisted = clean_str (dget source ''connectionId'') in
      if \<not> rq_confirmed q then Inl (resend_blocked ''explicit_confirmation_required'')
      else if \<not> is_evolution (dget source ''provider'') \<or> \<not> is_evolution (rq_provider q)
      then Inl (resend_blocked ''provider_resend_blocked'')
      else if str_or_empty (dget source ''instance'') \<noteq> rq_instance q
      then Inl (resend_blocked ''connection_runtime_drift'')
      else if persisted \<noteq> [] \<and> persisted \<noteq> rq_connection q
      then Inl (resend_blocked ''connection_ownership_drift'')
      else if \<not> rq_active q then Inl (resend_blocked ''connection_not_active'')
      else if dget source ''deliveryState'' \<in>
        PStr ` {''accepted'', ''sent'', ''delivered'', ''read'', ''played''}
      then Inl (resend_blocked ''provider_already_accepted_message'')
      else if dget source ''deliveryState'' \<noteq> PStr ''failed'' \<or>
        dget source ''reconciliationState'' \<noteq> PStr ''not_required''
      then Inl (resend_blocked ''RECONCILE_FIRST'')
      else case reconstruct_outbound_request source of
        Inl reason \<Rightarrow> Inl (resend_blocked reason)
      | Inr request \<Rightarrow> Inr request)"

definition resend_action_request :: "resend_request \<Rightarrow> action_request" where
  "resend_action_request q =
     \<lparr> ar_action = ''resend_provider_outbound'', ar_source = rq_delivery q, ar_target = rq_attempt q,
       ar_connection = rq_connection q, ar_actor = rq_actor q, ar_key = rq_key q, ar_reason = PNone,
       ar_extra =
         [(''sourceAttemptId'', PStr (rq_attempt q)), (''provider'', PStr ''evolution''),
          (''confirmation'', PBool True), (''configurationSource'', PStr ''current''),
          (''observableDestinationDrift'', PBool False), (''reconciliationResult'', PNone)] \<rparr>"

definition status_update :: "string \<Rightarrow> action_update" where
  "status_update status =
     \<lparr> au_status = status, au_result = None, au_delivery = [], au_attempt = [], au_reconciliation = None \<rparr>"

definition id_of :: "pdict \<Rightarrow> string" where
  "id_of a = str_or_empty (dget a ''id'')"

definition updating ::
    "resend_call \<Rightarrow> nat \<Rightarrow> string \<Rightarrow> action_update \<Rightarrow> resend_world \<Rightarrow> pdict option res \<times> resend_world" where
  "updating cl n i u w =
     (case update_action (rc_disk cl n) (rc_now cl) i u (rw_actions w) of
        (r, f) \<Rightarrow> (r, w\<lparr> rw_actions := f \<rparr>))"

datatype resend_begun = Replayed pdict | Begun pdict pdict text_request

definition begin_resend ::
    "resend_env \<Rightarrow> resend_call \<Rightarrow> resend_request \<Rightarrow> resend_world \<Rightarrow> resend_begun res \<times> resend_world" where
  "begin_resend env cl q w =
     (case get_attempt (PStr (rq_attempt q)) (rw_attempts w) of
        None \<Rightarrow> (Inl (KeyError (rq_attempt q)), w)
      | Some source \<Rightarrow>
          (case check_resend q source of
             Inl e \<Rightarrow> (Inl e, w)
           | Inr request \<Rightarrow>
               (case create_or_get_action (re_loads env) (re_settings env) (rc_disk cl 0) (rc_now cl) (rc_uid cl)
                       (resend_action_request q) (rw_actions w) of
                  (Inl e, f) \<Rightarrow> (Inl (as_resend_conflict e), w\<lparr> rw_actions := f \<rparr>)
                | (Inr (action, created), f) \<Rightarrow>
                    (let w1 = w\<lparr> rw_actions := f \<rparr> in
                     if \<not> created then (Inr (Replayed action), w1)
                     else if rq_attempt q \<in> set (rw_inflight w)
                     then (case updating cl 1 (id_of action)
                             ((status_update ''blocked'')
                                \<lparr> au_result := Some [(''reason'', PStr ''source_attempt_resend_in_progress'')] \<rparr>) w1 of
                             (Inl e, w2) \<Rightarrow> (Inl e, w2)
                           | (Inr _, w2) \<Rightarrow> (Inl (resend_conflict ''source_attempt_resend_in_progress''), w2))
                     else (Inr (Begun action source request),
                           w1\<lparr> rw_inflight := rq_attempt q # rw_inflight w \<rparr>)))))"

text \<open>\<open>asdict\<close> of the lookup.\<close>

definition lookup_dict :: "lookup_result \<Rightarrow> pdict" where
  "lookup_dict r =
     [(''status'', PStr (lr_status r)), (''observed_state'', pstr_opt (lr_observed r)),
      (''confidence'', PStr (lr_confidence r)), (''reason'', pstr_opt (lr_reason r)),
      (''error'', pstr_opt (lr_error r))]"

definition confirmed_failed :: "lookup_result \<Rightarrow> bool" where
  "confirmed_failed r \<longleftrightarrow>
     lr_status r = ''found'' \<and> lr_confidence r = ''confirmed'' \<and> lr_observed r = Some ''failed''"

definition resend_args :: "resend_request \<Rightarrow> pdict \<Rightarrow> pdict \<Rightarrow> text_request \<Rightarrow> attempt_args" where
  "resend_args q action source t =
     \<lparr> aa_instance = py_str (dget source ''instance''), aa_provider = ''evolution'',
       aa_message_type = PStr ''text'', aa_recipient = PStr (tr_recipient t), aa_text = PStr (tr_text t),
       aa_caption = PNone, aa_correlation_id = PNone, aa_request_id = PNone,
       aa_operation = ''provider.message.outbound'', aa_provider_operation = PStr (tr_operation t),
       aa_media = None, aa_message_id = PNone, aa_conversation_id = PNone, aa_idempotency_key = PNone,
       aa_canonical_channel_id = PNone, aa_canonical_recipient_external_id = PNone,
       aa_retry_of_attempt_id = PStr (rq_attempt q), aa_triggered_by_manual_action_id = PStr (id_of action),
       aa_source_delivery_id = PStr (rq_delivery q) \<rparr>"

text \<open>\<open>finally\<close>: the mark of the attempt is removed, however the step ends.\<close>

definition released :: "resend_request \<Rightarrow> 'a res \<times> resend_world \<Rightarrow> 'a res \<times> resend_world" where
  "released q r = (fst r, (snd r)\<lparr> rw_inflight := removeAll (rq_attempt q) (rw_inflight (snd r)) \<rparr>)"

text \<open>
  After the lookup: the new attempt, and with it the instance, the recipient and the text the
  adapter is to send; any error ends the resend.
\<close>

definition after_lookup ::
    "resend_env \<Rightarrow> resend_call \<Rightarrow> resend_request \<Rightarrow> pdict \<Rightarrow> pdict \<Rightarrow> text_request \<Rightarrow> lookup_result \<Rightarrow> resend_world
     \<Rightarrow> (pdict \<times> string \<times> string \<times> string) res \<times> resend_world" where
  "after_lookup env cl q action source t lookup w =
     (if \<not> confirmed_failed lookup
      then released q
        (case updating cl 0 (id_of action)
           ((status_update ''blocked'')\<lparr> au_result := Some
              [(''reason'', PStr ''fresh_reconciliation_not_confirmed_failed''),
               (''reconciliationResult'', PDict (lookup_dict lookup))] \<rparr>) w of
           (Inl e, w1) \<Rightarrow> (Inl e, w1)
         | (Inr _, w1) \<Rightarrow> (Inl (resend_blocked ''fresh_reconciliation_not_confirmed_failed''), w1))
      else case updating cl 0 (id_of action)
          ((status_update ''running'')\<lparr> au_reconciliation := Some (lookup_dict lookup) \<rparr>) w of
        (Inl e, w1) \<Rightarrow> released q (Inl e, w1)
      | (Inr _, w1) \<Rightarrow>
          (let inst = py_str (dget source ''instance'') in
           case create_attempt (rc_disk cl 1) (re_attempt_retention env)
               (build_attempt (re_sha256 env) (re_registry env inst) (rc_now cl) (rc_uid cl)
                  (resend_args q action source t)) (rw_attempts w1) of
             (Inl e, g) \<Rightarrow> released q (Inl e, w1\<lparr> rw_attempts := g \<rparr>)
           | (Inr attempt, g) \<Rightarrow>
               (case updating cl 2 (id_of action)
                   ((status_update ''running'')\<lparr> au_attempt := id_of attempt \<rparr>) (w1\<lparr> rw_attempts := g \<rparr>) of
                  (Inl e, w2) \<Rightarrow> released q (Inl e, w2)
                | (Inr _, w2) \<Rightarrow> (Inr (attempt, inst, tr_recipient t, tr_text t), w2))))"

record resend_answer =
  ra_action :: "pdict option"
  ra_attempt :: pdict
  ra_result :: pval

definition after_send ::
    "resend_env \<Rightarrow> resend_call \<Rightarrow> resend_request \<Rightarrow> pdict \<Rightarrow> lookup_result \<Rightarrow> pdict \<Rightarrow> send_outcome \<Rightarrow> resend_world
     \<Rightarrow> resend_answer res \<times> resend_world" where
  "after_send env cl q action lookup attempt outcome w =
     released q
       (case execute_outbound_attempt (re_loads env) (rc_disk cl 0) (rc_now cl) (id_of attempt) outcome (rw_attempts w) of
          (Inl e, g) \<Rightarrow>
            (case updating cl 1 (id_of action)
                \<lparr> au_status = ''failed'',
                  au_result = Some [(''reason'', PStr ''resend_provider_call_failed''),
                                    (''sourceAttemptId'', PStr (rq_attempt q))],
                  au_delivery = id_of attempt, au_attempt = id_of attempt, au_reconciliation = None \<rparr>
                (w\<lparr> rw_attempts := g \<rparr>) of
               (Inl e', w1) \<Rightarrow> (Inl e', w1)
             | (Inr _, w1) \<Rightarrow> (Inl e, w1))
        | (Inr (result, completed), g) \<Rightarrow>
            (case updating cl 1 (id_of action)
                \<lparr> au_status = ''completed'',
                  au_result = Some [(''sourceAttemptId'', PStr (rq_attempt q)),
                    (''reconciliationResult'', PDict (lookup_dict lookup)),
                    (''newAttemptId'', dget completed ''id''), (''newDeliveryId'', dget completed ''id''),
                    (''providerMessageId'', dget completed ''providerMessageId''), (''result'', PStr ''accepted'')],
                  au_delivery = id_of completed, au_attempt = id_of completed, au_reconciliation = None \<rparr>
                (w\<lparr> rw_attempts := g \<rparr>) of
               (Inl e', w1) \<Rightarrow> (Inl e', w1)
             | (Inr a, w1) \<Rightarrow> (Inr \<lparr> ra_action = a, ra_attempt = completed, ra_result = result \<rparr>, w1)))"

end
