(* ===== verification/Manual_Actions_Spec.thy ===== *)
theory Manual_Actions_Spec
  imports Manual_Actions
begin

text \<open>
  What the resend of a failed message promises: it is sent only on fresh evidence that the provider
  failed it, and at any time an attempt has at most one resend that has started or succeeded, in
  any interleaving of requests, lookups, sends, other actions and restarts. A resend whose outcome
  is not known does not count, so that it can be repeated.
\<close>

section \<open>The file after a write\<close>

definition live_count :: "string \<Rightarrow> string \<Rightarrow> action_file \<Rightarrow> nat" where
  "live_count t c f = length (filter (live_resend t c) (stored_actions f))"

lemma live_count_raw:
  "live_count t c f = length (filter (\<lambda>v. is_dict v \<and> live_resend t c (as_dict v)) (raw_actions f))"
  unfolding live_count_def stored_actions_def
  by (induction "raw_actions f") (simp_all add: filter_map comp_def)

lemma write_actions_cases:
  "write_actions ok items f =
     (if ok then (Inr (), Holds (dset (read_actions f) ''actions'' (PList items))) else (Inl OSError, f))"
  by (simp add: write_actions_def replace_file_def)

lemma raw_actions_written [simp]: "raw_actions (Holds (dset d ''actions'' (PList items))) = items"
  by (simp add: raw_actions_def)

lemma stored_actions_written [simp]: "stored_actions (Holds (dset d ''actions'' (PList (map PDict kept)))) = kept"
  by (induction kept) (simp_all add: stored_actions_def)

section \<open>Updating an action\<close>

lemma updated_fields:
  assumes "k \<in> {''id'', ''action'', ''targetId'', ''connectionId''}"
  shows "dget (updated_action now u a) k = dget a k"
proof -
  have "k \<noteq> ''startedAt'' \<and> k \<noteq> ''finishedAt'' \<and> k \<noteq> ''status'' \<and> k \<noteq> ''result'' \<and>
      k \<noteq> ''newDeliveryId'' \<and> k \<noteq> ''newAttemptId'' \<and> k \<noteq> ''reconciliationResult''"
    using assms by auto
  then show ?thesis
    by (cases "au_result u"; cases "au_reconciliation u")
      (simp_all add: updated_action_def Let_def if_distrib [where f = "\<lambda>d. dget d k"] cong: if_cong)
qed

lemma updated_status: "dget (updated_action now u a) ''status'' = PStr (au_status u)"
  by (cases "au_result u"; cases "au_reconciliation u")
    (simp_all add: updated_action_def Let_def if_distrib [where f = "\<lambda>d. dget d ''status''"] cong: if_cong)

lemma has_id_updated: "has_id i v \<Longrightarrow> has_id j (PDict (updated_action now u (as_dict v))) \<longleftrightarrow> has_id j v"
  by (cases v) (simp_all add: has_id_def updated_fields)

lemma live_updated:
  "live_resend t0 c0 a \<Longrightarrow> live_resend t c (updated_action now u a) \<Longrightarrow> live_resend t c a"
  by (simp add: live_resend_def updated_fields)

lemma filter_modify_first_le:
  assumes "\<And>x. x \<in> set xs \<Longrightarrow> p x \<Longrightarrow> q (f x) \<Longrightarrow> q x"
  shows "length (filter q (modify_first p f xs)) \<le> length (filter q xs)"
  using assms
proof (induction xs)
  case Nil
  then show ?case by simp
next
  case (Cons x xs)
  from Cons.IH Cons.prems have "length (filter q (modify_first p f xs)) \<le> length (filter q xs)" by simp
  then show ?case using Cons.prems [of x] by (auto intro: le_SucI)
qed

lemma filter_modify_first_drops:
  "List.find p xs = Some x \<Longrightarrow> q x \<Longrightarrow> \<not> q (f x) \<Longrightarrow>
   Suc (length (filter q (modify_first p f xs))) = length (filter q xs)"
  by (induction xs) (auto split: if_split_asm)

text \<open>Every action with the id is a resend of the target that has started or succeeded.\<close>

definition id_live :: "string \<Rightarrow> string \<Rightarrow> string \<Rightarrow> action_file \<Rightarrow> bool" where
  "id_live i t c f \<longleftrightarrow> (\<forall>v\<in>set (raw_actions f). has_id i v \<longrightarrow> live_resend t c (as_dict v))"

lemma update_raw:
  "raw_actions (snd (update_action ok now i u f)) \<in>
     {raw_actions f, modify_first (has_id i) (\<lambda>v. PDict (updated_action now u (as_dict v))) (raw_actions f)}"
  by (simp add: update_action_def Let_def write_actions_cases split: option.split)

lemma update_live_count:
  assumes "id_live i t0 c0 f"
  shows "live_count t c (snd (update_action ok now i u f)) \<le> live_count t c f"
proof -
  let ?q = "\<lambda>v. is_dict v \<and> live_resend t c (as_dict v)"
  have "length (filter ?q (modify_first (has_id i) (\<lambda>v. PDict (updated_action now u (as_dict v))) (raw_actions f)))
      \<le> length (filter ?q (raw_actions f))"
    by (rule filter_modify_first_le) (use assms live_updated in \<open>auto simp: id_live_def has_id_def\<close>)
  then show ?thesis
    using update_raw [of ok now i u f] by (auto simp: live_count_raw)
qed

lemma update_id_live:
  assumes "id_live j t c f" and "j \<noteq> i \<or> au_status u \<in> set live_statuses"
  shows "id_live j t c (snd (update_action ok now i u f))"
proof -
  have "live_resend t c (as_dict w)"
    if w: "w \<in> set (modify_first (has_id i) (\<lambda>v. PDict (updated_action now u (as_dict v))) (raw_actions f))"
      and j: "has_id j w" for w
  proof (cases "w \<in> set (raw_actions f)")
    case True
    then show ?thesis using assms(1) j by (simp add: id_live_def)
  next
    case False
    then obtain v where v: "v \<in> set (raw_actions f)" "has_id i v" "w = PDict (updated_action now u (as_dict v))"
      using set_modify_first [OF w] by auto
    with j have "has_id j v" by (simp add: has_id_updated)
    moreover from this v(2) have "j = i" by (simp add: has_id_def)
    ultimately show ?thesis
      using assms v by (auto simp: id_live_def live_resend_def updated_fields updated_status)
  qed
  then show ?thesis
    using update_raw [of ok now i u f] assms(1) by (auto simp: id_live_def)
qed

section \<open>Creating an action\<close>

lemma traverse_all2: "traverse f xs = Inr ys \<Longrightarrow> list_all2 (\<lambda>x y. f x = Inr y) xs ys"
  by (induction xs arbitrary: ys) (auto simp: rbind_eqs)

lemma newest_mset:
  assumes "newest_actions n xs = Inr kept"
  shows "mset kept \<subseteq># mset xs"
proof -
  obtain ps where ps: "traverse (\<lambda>a. rbind (action_time a) (\<lambda>t. Inr (t, a))) xs = Inr ps"
      "kept = take n (map snd (sort_desc fst ps))"
    using assms by (auto simp: newest_actions_def rbind_eqs)
  have "map snd ps = xs"
    using traverse_all2 [OF ps(1)] by (induction rule: list_all2_induct) (auto simp: rbind_eqs)
  then have "mset (map snd (sort_desc fst ps)) = mset xs" by (metis mset_map mset_sort_desc)
  moreover have "mset (take n l) \<subseteq># mset l" for l :: "pdict list"
    by (metis append_take_drop_id mset_append mset_subset_eq_add_left)
  ultimately show ?thesis using ps(2) by metis
qed

lemma filter_mset_le: "mset xs \<subseteq># mset ys \<Longrightarrow> length (filter q xs) \<le> length (filter q ys)"
  by (metis mset_filter multiset_filter_mono size_mset size_mset_mono)

definition action_id :: "string \<Rightarrow> string" where
  "action_id uid = ''manual_action_'' @ uid"

text \<open>The fields that the extra data of a request leaves alone.\<close>

definition plain_extra :: "pdict \<Rightarrow> bool" where
  "plain_extra d \<longleftrightarrow> distinct (map fst d) \<and>
     (\<forall>k\<in>{''id'', ''action'', ''targetId'', ''connectionId'', ''status''}. \<not> dhas d k)"

lemma new_action_fields:
  assumes "plain_extra (ar_extra r)"
  shows "dget (new_action now uid reason r) ''id'' = PStr (action_id uid)"
    and "dget (new_action now uid reason r) ''action'' = PStr (ar_action r)"
    and "dget (new_action now uid reason r) ''targetId'' = PStr (ar_target r)"
    and "dget (new_action now uid reason r) ''connectionId'' = PStr (ar_connection r)"
    and "dget (new_action now uid reason r) ''status'' = PStr ''pending''"
proof -
  have d: "distinct (map fst (redact_items (ar_extra r)))" using assms by (simp add: plain_extra_def)
  have h: "\<not> dhas (redact_items (ar_extra r)) k"
    if "k \<in> {''id'', ''action'', ''targetId'', ''connectionId'', ''status''}" for k
    using assms that by (auto simp: plain_extra_def dhas_iff simp flip: set_map)
  show "dget (new_action now uid reason r) ''id'' = PStr (action_id uid)"
    and "dget (new_action now uid reason r) ''action'' = PStr (ar_action r)"
    and "dget (new_action now uid reason r) ''targetId'' = PStr (ar_target r)"
    and "dget (new_action now uid reason r) ''connectionId'' = PStr (ar_connection r)"
    and "dget (new_action now uid reason r) ''status'' = PStr ''pending''"
    by (simp_all add: new_action_def dget_dmerge_distinct [OF d] h dget_Cons action_id_def)
qed

lemma create_cases:
  assumes "create_or_get_action loads s ok now uid r f = (res, f')"
  shows "f' = f \<and> (\<forall>a. res \<noteq> Inr (a, True)) \<or>
    (\<exists>reason kept. res = Inr (public_action (new_action now uid reason r), True) \<and> stored_actions f' = kept \<and>
      raw_actions f' = map PDict kept \<and> mset kept \<subseteq># mset (stored_actions f @ [new_action now uid reason r]) \<and>
      (ar_action r = ''resend_provider_outbound'' \<longrightarrow> live_count (ar_target r) (ar_connection r) f = 0))"
proof -
  define reason where "reason = safe_reason loads (ar_reason r)"
  let ?n = "new_action now uid reason r"
  have store: "f' = f \<and> (\<forall>a. res \<noteq> Inr (a, True)) \<or>
      (\<exists>kept. res = Inr (public_action ?n, True) \<and> stored_actions f' = kept \<and>
        raw_actions f' = map PDict kept \<and> mset kept \<subseteq># mset (stored_actions f @ [?n]))"
    if "store_action ok s ?n f = (res, f')"
    using that newest_mset [of "action_retention s" "stored_actions f @ [?n]"]
    by (auto simp: store_action_def write_actions_cases simp del: mset_append split: sum.split_asm if_split_asm)
  have live: "live_count (ar_target r) (ar_connection r) f = 0"
    if "\<not> list_ex (live_resend (ar_target r) (ar_connection r)) (stored_actions f)"
    using that by (simp add: live_count_def list_ex_iff filter_empty_conv)
  consider "f' = f" "\<forall>a. res \<noteq> Inr (a, True)"
    | "store_action ok s ?n f = (res, f')"
      "ar_action r = ''resend_provider_outbound'' \<Longrightarrow> live_count (ar_target r) (ar_connection r) f = 0"
    using assms live
    by (auto simp: create_or_get_action_def Let_def reason_def [symmetric] rate_limit_def
        split: if_split_asm option.split_asm sum.split_asm)
  then show ?thesis
  proof cases
    case 1
    then show ?thesis by simp
  next
    case 2
    then show ?thesis using store by blast
  qed
qed


section \<open>Resends in progress\<close>

text \<open>
  A resend that waits for its lookup or for its send; the running gateway is its files, the marks
  of attempts being resent, and these tasks.
\<close>

datatype resend_job =
    Looking resend_request pdict pdict text_request
  | Sending resend_request pdict lookup_result pdict

fun job_request :: "resend_job \<Rightarrow> resend_request" where
  "job_request (Looking q a s t) = q"
| "job_request (Sending q a l n) = q"

fun job_action :: "resend_job \<Rightarrow> string" where
  "job_action (Looking q a s t) = id_of a"
| "job_action (Sending q a l n) = id_of a"

definition job_source :: "resend_job \<Rightarrow> string" where
  "job_source j = rq_attempt (job_request j)"

type_synonym resend_system = "resend_world \<times> resend_job list"

text \<open>\<open>uuid4\<close> gives an identifier nobody has.\<close>

definition fresh_action :: "string \<Rightarrow> resend_system \<Rightarrow> bool" where
  "fresh_action uid st \<longleftrightarrow>
     list_all (\<lambda>v. \<not> has_id (action_id uid) v) (raw_actions (rw_actions (fst st))) \<and>
     list_all (\<lambda>j. job_action j \<noteq> action_id uid) (snd st)"

text \<open>An update of an action that is not a resend, as the test and redelivery services make it.\<close>

definition other_action :: "string \<Rightarrow> action_file \<Rightarrow> bool" where
  "other_action i f \<longleftrightarrow>
     list_all (\<lambda>v. has_id i v \<longrightarrow> dget (as_dict v) ''action'' \<noteq> PStr ''resend_provider_outbound'') (raw_actions f)"

inductive resend_step :: "resend_env \<Rightarrow> resend_system \<Rightarrow> resend_system \<Rightarrow> bool" for env where
  begun: "begin_resend env cl q w = (Inr (Begun a s t), w') \<Longrightarrow> fresh_action (rc_uid cl) (w, js) \<Longrightarrow>
    resend_step env (w, js) (w', Looking q a s t # js)"
| not_begun: "begin_resend env cl q w = (r, w') \<Longrightarrow> (\<And>a s t. r \<noteq> Inr (Begun a s t)) \<Longrightarrow>
    fresh_action (rc_uid cl) (w, js) \<Longrightarrow> resend_step env (w, js) (w', js)"
| sending: "Looking q a s t \<in> set js \<Longrightarrow> after_lookup env cl q a s t l w = (Inr (n, send), w') \<Longrightarrow>
    resend_step env (w, js) (w', Sending q a l n # remove1 (Looking q a s t) js)"
| not_sent: "Looking q a s t \<in> set js \<Longrightarrow> after_lookup env cl q a s t l w = (Inl e, w') \<Longrightarrow>
    resend_step env (w, js) (w', remove1 (Looking q a s t) js)"
| sent: "Sending q a l n \<in> set js \<Longrightarrow> after_send env cl q a l n outcome w = (r, w') \<Longrightarrow>
    resend_step env (w, js) (w', remove1 (Sending q a l n) js)"
| other_create: "create_or_get_action (re_loads env) (re_settings env) ok now uid r (rw_actions w) = (x, f) \<Longrightarrow>
    ar_action r \<noteq> ''resend_provider_outbound'' \<Longrightarrow> plain_extra (ar_extra r) \<Longrightarrow> fresh_action uid (w, js) \<Longrightarrow>
    resend_step env (w, js) (w\<lparr> rw_actions := f \<rparr>, js)"
| other_update: "update_action ok now i u (rw_actions w) = (x, f) \<Longrightarrow> other_action i (rw_actions w) \<Longrightarrow>
    list_all (\<lambda>j. job_action j \<noteq> i) js \<Longrightarrow> resend_step env (w, js) (w\<lparr> rw_actions := f \<rparr>, js)"
| attempts_change: "resend_step env (w, js) (w\<lparr> rw_attempts := g \<rparr>, js)"
| restart: "resend_step env (w, js) (w\<lparr> rw_inflight := [] \<rparr>, [])"

definition job_live :: "action_file \<Rightarrow> resend_job \<Rightarrow> bool" where
  "job_live f j \<longleftrightarrow> id_live (job_action j) (job_source j) (rq_connection (job_request j)) f"

definition resend_safe :: "resend_system \<Rightarrow> bool" where
  "resend_safe st \<longleftrightarrow>
     (\<forall>t c. live_count t c (rw_actions (fst st)) \<le> 1) \<and>
     distinct (map job_source (snd st)) \<and> distinct (map job_action (snd st)) \<and>
     job_source ` set (snd st) \<subseteq> set (rw_inflight (fst st)) \<and>
     list_all (job_live (rw_actions (fst st))) (snd st)"


section \<open>What each step does to the actions\<close>

text \<open>No target gains a live resend, and every action but one keeps its state.\<close>

definition tame :: "string \<Rightarrow> action_file \<Rightarrow> action_file \<Rightarrow> bool" where
  "tame i f f' \<longleftrightarrow>
     (\<forall>t c. live_count t c f' \<le> live_count t c f) \<and> (\<forall>j t c. j \<noteq> i \<longrightarrow> id_live j t c f \<longrightarrow> id_live j t c f')"

lemma tame_refl [simp]: "tame i f f"
  by (simp add: tame_def)

lemma tame_trans: "tame i f g \<Longrightarrow> tame i g h \<Longrightarrow> tame i f h"
  by (meson order_trans tame_def)

lemma tame_update: "id_live i t c f \<Longrightarrow> tame i f (snd (update_action ok now i u f))"
  by (simp add: tame_def update_live_count update_id_live)

lemma updating_world:
  "updating cl n i u w =
     (fst (update_action (rc_disk cl n) (rc_now cl) i u (rw_actions w)),
      w\<lparr> rw_actions := snd (update_action (rc_disk cl n) (rc_now cl) i u (rw_actions w)) \<rparr>)"
  by (simp add: updating_def split: prod.split)

lemma updating_tame:
  assumes "updating cl n i u w = (r, w')" and "id_live i t c (rw_actions w)"
  shows "tame i (rw_actions w) (rw_actions w')" and "rw_inflight w' = rw_inflight w"
    and "au_status u \<in> set live_statuses \<Longrightarrow> id_live i t c (rw_actions w')"
  using assms by (auto simp: updating_world tame_update update_id_live)

lemma running_live: "au_status (status_update ''running'') \<in> set live_statuses"
  by (simp add: status_update_def live_statuses_def)

lemma create_attempt_world: "snd (released q (r, w)) = w\<lparr> rw_inflight := removeAll (rq_attempt q) (rw_inflight w) \<rparr>"
  by (simp add: released_def)

lemma after_lookup_tame:
  assumes step: "after_lookup env cl q a s t l w = (r, w')" and live: "id_live (id_of a) tg c (rw_actions w)"
  shows "tame (id_of a) (rw_actions w) (rw_actions w')"
    and "r = Inr x \<Longrightarrow> id_live (id_of a) tg c (rw_actions w') \<and> rw_inflight w' = rw_inflight w"
    and "r = Inl e \<Longrightarrow> rw_inflight w' = removeAll (rq_attempt q) (rw_inflight w)"
proof -
  have "tame (id_of a) (rw_actions w) (rw_actions w') \<and>
      (\<forall>x. r = Inr x \<longrightarrow> id_live (id_of a) tg c (rw_actions w') \<and> rw_inflight w' = rw_inflight w) \<and>
      (\<forall>e. r = Inl e \<longrightarrow> rw_inflight w' = removeAll (rq_attempt q) (rw_inflight w))"
  proof (cases "confirmed_failed l")
    case False
    obtain r1 w1 where u: "updating cl 0 (id_of a)
        ((status_update ''blocked'')\<lparr> au_result := Some
              [(''reason'', PStr ''fresh_reconciliation_not_confirmed_failed''),
               (''reconciliationResult'', PDict (lookup_dict l))] \<rparr>) w = (r1, w1)" by (rule prod.exhaust)
    from False step updating_tame [OF u live] show ?thesis
      by (cases r1) (auto simp: after_lookup_def u released_def)
  next
    case True
    obtain r1 w1 where u: "updating cl 0 (id_of a)
        ((status_update ''running'')\<lparr> au_reconciliation := Some (lookup_dict l) \<rparr>) w = (r1, w1)" by (rule prod.exhaust)
    have t1: "tame (id_of a) (rw_actions w) (rw_actions w1)" "rw_inflight w1 = rw_inflight w"
      "id_live (id_of a) tg c (rw_actions w1)"
      using updating_tame [OF u live] running_live by simp_all
    show ?thesis
    proof (cases r1)
      case (Inl e)
      then show ?thesis using True step t1 by (auto simp: after_lookup_def u released_def)
    next
      case (Inr x)
      obtain r2 g where c: "create_attempt (rc_disk cl 1) (re_attempt_retention env)
          (build_attempt (re_sha256 env) (re_registry env (py_str (dget s ''instance''))) (rc_now cl) (rc_uid cl)
             (resend_args q a s t)) (rw_attempts w1) = (r2, g)" by (rule prod.exhaust)
      show ?thesis
      proof (cases r2)
        case (Inl e)
        then show ?thesis using True step t1 Inr c by (auto simp: after_lookup_def u released_def)
      next
        case (Inr n)
        obtain r3 w2 where u2: "updating cl 2 (id_of a) ((status_update ''running'')\<lparr> au_attempt := id_of n \<rparr>)
            (w1\<lparr> rw_attempts := g \<rparr>) = (r3, w2)" by (rule prod.exhaust)
        have t2: "tame (id_of a) (rw_actions w1) (rw_actions w2)" "rw_inflight w2 = rw_inflight w1"
          "id_live (id_of a) tg c (rw_actions w2)"
          using updating_tame [OF u2] t1(3) running_live by simp_all
        from True step t1 t2 \<open>r1 = Inr x\<close> Inr c u2 tame_trans [OF t1(1) t2(1)] show ?thesis
          by (cases r3) (auto simp: after_lookup_def u released_def)
      qed
    qed
  qed
  then show "tame (id_of a) (rw_actions w) (rw_actions w')"
    and "r = Inr x \<Longrightarrow> id_live (id_of a) tg c (rw_actions w') \<and> rw_inflight w' = rw_inflight w"
    and "r = Inl e \<Longrightarrow> rw_inflight w' = removeAll (rq_attempt q) (rw_inflight w)" by blast+
qed

lemma after_send_tame:
  assumes step: "after_send env cl q a l n outcome w = (r, w')" and live: "id_live (id_of a) tg c (rw_actions w)"
  shows "tame (id_of a) (rw_actions w) (rw_actions w') \<and>
    rw_inflight w' = removeAll (rq_attempt q) (rw_inflight w)"
proof -
  obtain x g where e: "execute_outbound_attempt (re_loads env) (rc_disk cl 0) (rc_now cl) (id_of n) outcome
      (rw_attempts w) = (x, g)" by (rule prod.exhaust)
  have u: "tame (id_of a) (rw_actions w) (rw_actions w1) \<and> rw_inflight w1 = rw_inflight w"
    if "updating cl 1 (id_of a) u (w\<lparr> rw_attempts := g \<rparr>) = (r1, w1)" for u r1 w1
    using updating_tame [OF that] live by simp
  show ?thesis
    using step u
    by (auto simp: after_send_def e released_def split: sum.split_asm prod.split_asm)
qed

lemma public_id: "dget (public_action d) ''id'' = dget d ''id''"
  by (induction d) (auto simp: public_action_def public_action_fields_def dget_def)

lemma create_resend:
  assumes "create_or_get_action loads s ok now uid r f = (Inr (a, True), f')" and "plain_extra (ar_extra r)"
    and fresh: "list_all (\<lambda>v. \<not> has_id (action_id uid) v) (raw_actions f)"
  shows "ar_action r = ''resend_provider_outbound'' \<Longrightarrow> id_of a = action_id uid \<and>
      id_live (action_id uid) (ar_target r) (ar_connection r) f' \<and>
      (\<forall>t c. live_count t c f \<le> 1 \<longrightarrow> live_count t c f' \<le> 1)"
    and "ar_action r \<noteq> ''resend_provider_outbound'' \<Longrightarrow> live_count t c f' \<le> live_count t c f"
    and "j \<noteq> action_id uid \<Longrightarrow> id_live j t c f \<Longrightarrow> id_live j t c f'"
proof -
  obtain reason kept where k: "a = public_action (new_action now uid reason r)" "stored_actions f' = kept"
      "raw_actions f' = map PDict kept" "mset kept \<subseteq># mset (stored_actions f @ [new_action now uid reason r])"
      "ar_action r = ''resend_provider_outbound'' \<Longrightarrow> live_count (ar_target r) (ar_connection r) f = 0"
    using create_cases [OF assms(1)] by auto
  let ?n = "new_action now uid reason r"
  note n = new_action_fields [OF assms(2), of now uid reason]
  have member: "x = ?n \<or> PDict x \<in> set (raw_actions f)" if "x \<in> set kept" for x
  proof -
    have "x \<in> set (stored_actions f @ [?n])" using set_mset_mono [OF k(4)] that by auto
    moreover have "PDict y \<in> set (raw_actions f)" if "y \<in> set (stored_actions f)" for y
    proof -
      obtain v where v: "v \<in> set (raw_actions f)" "is_dict v" "y = as_dict v"
        using \<open>y \<in> set (stored_actions f)\<close> by (auto simp: stored_actions_def)
      from v(2) have "PDict (as_dict v) = v" by (cases v) simp_all
      with v show ?thesis by simp
    qed
    ultimately show ?thesis by auto
  qed
  have count: "live_count t c f' \<le> live_count t c f + (if live_resend t c ?n then 1 else 0)" for t c
    using filter_mset_le [OF k(4), of "live_resend t c"]
    by (cases "live_resend t c ?n") (simp_all add: live_count_def k(2))
  have live: "live_resend t c ?n \<longleftrightarrow>
      ar_action r = ''resend_provider_outbound'' \<and> t = ar_target r \<and> c = ar_connection r" for t c
    using n by (auto simp: live_resend_def live_statuses_def)
  have ids: "id_of a = action_id uid"
    using n k(1) by (simp add: id_of_def public_id)
  have "id_live (action_id uid) (ar_target r) (ar_connection r) f'" if "ar_action r = ''resend_provider_outbound''"
    using member fresh that live by (auto simp: id_live_def k(3) list_all_iff)
  moreover have "live_count t c f' \<le> 1" if "ar_action r = ''resend_provider_outbound''" "live_count t c f \<le> 1" for t c
    using count [of t c] live [of t c] k(5) that by (auto split: if_split_asm)
  ultimately show "ar_action r = ''resend_provider_outbound'' \<Longrightarrow> id_of a = action_id uid \<and>
      id_live (action_id uid) (ar_target r) (ar_connection r) f' \<and>
      (\<forall>t c. live_count t c f \<le> 1 \<longrightarrow> live_count t c f' \<le> 1)"
    using ids by blast
  show "live_count t c f' \<le> live_count t c f" if "ar_action r \<noteq> ''resend_provider_outbound''"
    using count [of t c] live [of t c] that by simp
  show "id_live j t c f'" if "j \<noteq> action_id uid" "id_live j t c f"
    using member that n(1) by (fastforce simp: id_live_def k(3) has_id_def)
qed


section \<open>The invariant\<close>

lemma job_live_tame:
  "tame i f f' \<Longrightarrow> job_action j \<noteq> i \<Longrightarrow> job_live f j \<Longrightarrow> job_live f' j"
  by (simp add: tame_def job_live_def)

lemma safe_count: "resend_safe (w, js) \<Longrightarrow> live_count t c (rw_actions w) \<le> 1"
  by (simp add: resend_safe_def)

lemma tame_count: "tame i f f' \<Longrightarrow> live_count t c f \<le> 1 \<Longrightarrow> live_count t c f' \<le> 1"
  unfolding tame_def by (blast intro: order_trans)

lemma member_live: "resend_safe (w, js) \<Longrightarrow> j \<in> set js \<Longrightarrow> job_live (rw_actions w) j"
  by (simp add: resend_safe_def list_all_iff)

text \<open>A job that ends or goes on, and the others.\<close>

lemma others_live:
  assumes "resend_safe (w, js)" and "j \<in> set js" and "tame (job_action j) (rw_actions w) f'"
  shows "list_all (job_live f') (remove1 j js)" and "\<forall>t c. live_count t c f' \<le> 1"
proof -
  have d: "distinct (map job_action js)" "distinct js" and l: "list_all (job_live (rw_actions w)) js"
    using assms(1) by (auto simp: resend_safe_def distinct_map)
  have "job_action k \<noteq> job_action j" if "k \<in> set (remove1 j js)" for k
    using that d assms(2) by (auto simp: distinct_map inj_on_def)
  moreover have "job_live (rw_actions w) k" if "k \<in> set (remove1 j js)" for k
    using l that set_remove1_subset [of j js] by (auto simp: list_all_iff)
  ultimately show "list_all (job_live f') (remove1 j js)"
    unfolding list_all_iff using job_live_tame [OF assms(3)] by blast
  show "\<forall>t c. live_count t c f' \<le> 1"
    using tame_count [OF assms(3) safe_count [OF assms(1)]] by blast
qed

lemma map_remove1_distinct:
  assumes "distinct (map g js)" and "j \<in> set js"
  shows "g ` set (remove1 j js) = g ` set js - {g j}" and "distinct (map g (remove1 j js))"
proof -
  have "distinct js" using assms(1) by (simp add: distinct_map)
  then show "g ` set (remove1 j js) = g ` set js - {g j}"
    using assms by (auto simp: distinct_map inj_on_def)
  show "distinct (map g (remove1 j js))"
    using assms(1) by (auto simp: distinct_map distinct_remove1 intro: inj_on_subset set_remove1_subset [THEN subsetD])
qed

lemma ended_safe:
  assumes safe: "resend_safe (w, js)" and j: "j \<in> set js"
    and t: "tame (job_action j) (rw_actions w) (rw_actions w')"
    and i: "rw_inflight w' = removeAll (job_source j) (rw_inflight w)"
  shows "resend_safe (w', remove1 j js)"
  using others_live [OF safe j t] map_remove1_distinct [OF _ j, of job_source] map_remove1_distinct [OF _ j, of job_action]
    safe i
  by (auto simp: resend_safe_def)

lemma begin_created:
  assumes "begin_resend env cl q w = (Inr (Begun a s t), w')"
  shows "create_or_get_action (re_loads env) (re_settings env) (rc_disk cl 0) (rc_now cl) (rc_uid cl)
      (resend_action_request q) (rw_actions w) = (Inr (a, True), rw_actions w') \<and>
    rq_attempt q \<notin> set (rw_inflight w) \<and> rw_inflight w' = rq_attempt q # rw_inflight w \<and>
    rw_attempts w' = rw_attempts w \<and>
    get_attempt (PStr (rq_attempt q)) (rw_attempts w) = Some s \<and> check_resend q s = Inr t"
  using assms
  by (auto simp: begin_resend_def Let_def split: option.split_asm sum.split_asm prod.split_asm if_split_asm)

lemma resend_request_plain: "plain_extra (ar_extra (resend_action_request q))"
  by (simp add: plain_extra_def resend_action_request_def dhas_Cons)

lemma resend_request_fields:
  "ar_action (resend_action_request q) = ''resend_provider_outbound''"
  "ar_target (resend_action_request q) = rq_attempt q"
  "ar_connection (resend_action_request q) = rq_connection q"
  by (simp_all add: resend_action_request_def)

lemma begun_safe:
  assumes safe: "resend_safe (w, js)" and b: "begin_resend env cl q w = (Inr (Begun a s t), w')"
    and fresh: "fresh_action (rc_uid cl) (w, js)"
  shows "resend_safe (w', Looking q a s t # js)"
proof -
  note c = begin_created [OF b]
  have f: "list_all (\<lambda>v. \<not> has_id (action_id (rc_uid cl)) v) (raw_actions (rw_actions w))"
    "list_all (\<lambda>j. job_action j \<noteq> action_id (rc_uid cl)) js"
    using fresh by (simp_all add: fresh_action_def)
  note r = create_resend [OF c [THEN conjunct1] resend_request_plain f(1), unfolded resend_request_fields]
  have "list_all (job_live (rw_actions w')) js"
    using safe f(2) r(3) by (auto simp: resend_safe_def list_all_iff job_live_def)
  moreover have "rq_attempt q \<notin> job_source ` set js"
    using safe c by (auto simp: resend_safe_def)
  ultimately show ?thesis
    using safe f(2) r(1) c by (auto simp: resend_safe_def job_live_def job_source_def list_all_iff)
qed

text \<open>A request that ends at once leaves the marks and, at most, a blocked action.\<close>

lemma not_begun_tame:
  assumes safe: "resend_safe (w, js)" and b: "begin_resend env cl q w = (r, w')"
    and no: "\<And>a s t. r \<noteq> Inr (Begun a s t)" and fresh: "fresh_action (rc_uid cl) (w, js)"
  shows "resend_safe (w', js)"
proof -
  obtain x f where c: "create_or_get_action (re_loads env) (re_settings env) (rc_disk cl 0) (rc_now cl) (rc_uid cl)
      (resend_action_request q) (rw_actions w) = (x, f)" by (rule prod.exhaust)
  have fr: "list_all (\<lambda>v. \<not> has_id (action_id (rc_uid cl)) v) (raw_actions (rw_actions w))"
    "list_all (\<lambda>j. job_action j \<noteq> action_id (rc_uid cl)) js"
    using fresh by (simp_all add: fresh_action_def)
  consider "rw_actions w' = rw_actions w" "rw_inflight w' = rw_inflight w"
    | a r1 where "x = Inr (a, True)" "updating cl 1 (id_of a)
        ((status_update ''blocked'')\<lparr> au_result := Some [(''reason'', PStr ''source_attempt_resend_in_progress'')] \<rparr>)
        (w\<lparr> rw_actions := f \<rparr>) = (r1, w')"
  proof (cases "\<exists>a. x = Inr (a, True)")
    case False
    then have "f = rw_actions w" using create_cases [OF c] by auto
    then have "rw_actions w' = rw_actions w \<and> rw_inflight w' = rw_inflight w"
      using b c False
      by (simp add: begin_resend_def Let_def split: option.split_asm sum.split_asm prod.split_asm if_split_asm)
    then show ?thesis using that(1) by blast
  next
    case True
    then show ?thesis
      using b c no that
      by (simp add: begin_resend_def Let_def split: option.split_asm sum.split_asm if_split_asm prod.split_asm) blast+
  qed
  then show ?thesis
  proof cases
    case 1
    then show ?thesis using safe by (simp add: resend_safe_def)
  next
    case 2
    note r = create_resend [OF c [unfolded 2(1)] resend_request_plain fr(1), unfolded resend_request_fields]
    have "id_live (id_of a) (rq_attempt q) (rq_connection q) (rw_actions (w\<lparr> rw_actions := f \<rparr>))"
      using r(1) by simp
    then have t: "tame (id_of a) f (rw_actions w')" "rw_inflight w' = rw_inflight w"
      using updating_tame(1,2) [OF 2(2)] by simp_all
    have "list_all (job_live f) js"
      using safe fr(2) r(3) by (auto simp: resend_safe_def list_all_iff job_live_def)
    then have "list_all (job_live (rw_actions w')) js"
      using fr(2) r(1) job_live_tame [OF t(1)] by (auto simp: list_all_iff)
    moreover have "live_count t' c' (rw_actions w') \<le> 1" for t' c'
      using tame_count [OF t(1)] r(1) safe_count [OF safe, of t' c'] by blast
    ultimately show ?thesis using safe t(2) by (simp add: resend_safe_def)
  qed
qed

lemma other_tame:
  assumes "update_action ok now i u f = (x, f')" and "other_action i f"
  shows "tame i f f'"
proof -
  have "live_count t c f' \<le> live_count t c f" for t c
  proof -
    let ?q = "\<lambda>v. is_dict v \<and> live_resend t c (as_dict v)"
    have "length (filter ?q (modify_first (has_id i) (\<lambda>v. PDict (updated_action now u (as_dict v))) (raw_actions f)))
        \<le> length (filter ?q (raw_actions f))"
      by (rule filter_modify_first_le)
        (use assms(2) in \<open>auto simp: other_action_def list_all_iff live_resend_def updated_fields\<close>)
    then show ?thesis
      using update_raw [of ok now i u f] assms(1) by (auto simp: live_count_raw)
  qed
  moreover have "id_live j t c f'" if "j \<noteq> i" "id_live j t c f" for j t c
    using update_id_live [OF that(2), of i u ok now] that(1) assms(1) by simp
  ultimately show ?thesis by (simp add: tame_def)
qed

lemma step_safe: "resend_step env st st' \<Longrightarrow> resend_safe st \<Longrightarrow> resend_safe st'"
proof (induction rule: resend_step.induct)
  case (begun cl q w a s t w' js)
  then show ?case by (blast intro: begun_safe)
next
  case (not_begun cl q w r w' js)
  then show ?case by (blast intro: not_begun_tame)
next
  case (sending q a s t js cl l w n send w')
  have live: "id_live (id_of a) (rq_attempt q) (rq_connection q) (rw_actions w)"
    using member_live [OF sending(3,1)] by (simp add: job_live_def job_source_def)
  note t = after_lookup_tame [OF sending(2) live]
  note o = others_live [OF sending(3,1)] map_remove1_distinct [OF _ sending(1)]
  show ?case
    using o(1,2) [of "rw_actions w'"] t(1,2) sending(3) o(3,4) [of job_source] o(3,4) [of job_action]
      imageI [OF sending(1), of job_source] imageI [OF sending(1), of job_action]
    by (auto simp: resend_safe_def job_live_def job_source_def)
next
  case (not_sent q a s t js cl l w e w')
  have live: "id_live (id_of a) (rq_attempt q) (rq_connection q) (rw_actions w)"
    using member_live [OF not_sent(3,1)] by (simp add: job_live_def job_source_def)
  show ?case
    using after_lookup_tame(1,3) [OF not_sent(2) live] not_sent(3,1) by (intro ended_safe) (auto simp: job_source_def)
next
  case (sent q a l n js cl outcome w r w')
  have live: "id_live (id_of a) (rq_attempt q) (rq_connection q) (rw_actions w)"
    using member_live [OF sent(3,1)] by (simp add: job_live_def job_source_def)
  show ?case
    using after_send_tame [OF sent(2) live] sent(3,1) by (intro ended_safe) (auto simp: job_source_def)
next
  case (other_create ok now uid r w x f js)
  show ?case
  proof (cases "\<exists>a. x = Inr (a, True)")
    case True
    then obtain a where x: "x = Inr (a, True)" ..
    have fr: "list_all (\<lambda>v. \<not> has_id (action_id uid) v) (raw_actions (rw_actions w))"
      "list_all (\<lambda>j. job_action j \<noteq> action_id uid) js"
      using other_create(4) by (simp_all add: fresh_action_def)
    note r = create_resend(2,3) [OF other_create(1) [unfolded x] other_create(3) fr(1)]
    have "list_all (job_live f) js"
      using other_create(5) fr(2) r(2) by (auto simp: resend_safe_def list_all_iff job_live_def)
    moreover have "live_count t c f \<le> 1" for t c
      using other_create(5) r(1) [OF other_create(2), of t c] by (auto simp: resend_safe_def intro: order_trans)
    ultimately show ?thesis using other_create(5) by (simp add: resend_safe_def)
  next
    case False
    then have "f = rw_actions w" using create_cases [OF other_create(1)] by auto
    then show ?thesis using other_create(5) by simp
  qed
next
  case (other_update ok now i u w x f js)
  have t: "tame i (rw_actions w) f" using other_tame [OF other_update(1,2)] .
  have "list_all (job_live f) js"
    using other_update(3,4) job_live_tame [OF t] by (auto simp: resend_safe_def list_all_iff)
  moreover have "live_count t' c f \<le> 1" for t' c
    by (rule tame_count [OF t safe_count [OF other_update(4)]])
  ultimately show ?case using other_update(4) by (simp add: resend_safe_def)
qed (auto simp: resend_safe_def)


lemma steps_safe: "(resend_step env)\<^sup>*\<^sup>* st st' \<Longrightarrow> resend_safe st \<Longrightarrow> resend_safe st'"
  by (induction rule: rtranclp_induct) (auto intro: step_safe)

lemma empty_safe: "rw_actions w = Absent \<Longrightarrow> resend_safe (w, [])"
  by (simp add: resend_safe_def live_count_raw raw_actions_def empty_actions_def dget_Cons)

section \<open>Properties\<close>

text \<open>
  C8: a failed message has at most one resend at a time, and none while the store holds one that
  counts: however requests, lookups, sends, other operator actions, changes of the evidence, failed
  writes and restarts interleave, no attempt has two resends in progress, among the actions the store
  retains no attempt of a connection has two that are pending, running or completed, and while it has
  one, no new resend of it begins. A resend that ended with an exception is marked as failed and a
  completed action can be trimmed by retention; after either a further resend can begin.
\<close>

theorem resend_at_most_once:
  assumes "rw_actions w = Absent" and "(resend_step env)\<^sup>*\<^sup>* (w, []) (w', js)"
  shows "distinct (map job_source js) \<and> live_count t c (rw_actions w') \<le> 1 \<and>
    (live_count t c (rw_actions w') = 1 \<and> rq_attempt q = t \<and> rq_connection q = c \<longrightarrow>
       (\<forall>a s x. fst (begin_resend env cl q w') \<noteq> Inr (Begun a s x)))"
proof -
  have safe: "resend_safe (w', js)" using steps_safe [OF assms(2) empty_safe [OF assms(1)]] .
  have "fst (begin_resend env cl q w') \<noteq> Inr (Begun a s x)"
    if one: "live_count (rq_attempt q) (rq_connection q) (rw_actions w') = 1" for a s x
  proof
    assume "fst (begin_resend env cl q w') = Inr (Begun a s x)"
    then obtain w'' where "begin_resend env cl q w' = (Inr (Begun a s x), w'')" by (metis prod.collapse)
    from create_cases [OF begin_created [OF this, THEN conjunct1]] one show False
      by (auto simp: resend_request_fields)
  qed
  then show ?thesis using safe by (auto simp: resend_safe_def)
qed

definition sample_failed :: pdict where
  "sample_failed =
     [(''id'', PStr ''a1''), (''instance'', PStr ''wa''), (''provider'', PStr ''evolution''),
      (''messageType'', PStr ''text''), (''deliveryState'', PStr ''failed''),
      (''reconciliationState'', PStr ''not_required''),
      (''requestPayload'', PDict [(''text'', PStr ''hi''), (''recipient'', PStr ''54''),
         (''providerOperation'', PStr ''messages.sendText'')])]"

definition sample_resend_env :: resend_env where
  "sample_resend_env =
     \<lparr> re_loads = (\<lambda>s. None), re_sha256 = (\<lambda>s. s), re_registry = (\<lambda>i. []), re_attempt_retention = 10,
       re_settings = \<lparr> ms_retention = 0, ms_rate_limit = 0, ms_rate_window = 0 \<rparr> \<rparr>"

definition sample_resend_call :: resend_call where
  "sample_resend_call = \<lparr> rc_now = 5, rc_uid = ''u1'', rc_disk = (\<lambda>n. True) \<rparr>"

definition sample_resend :: resend_request where
  "sample_resend =
     \<lparr> rq_attempt = ''a1'', rq_delivery = ''d1'', rq_connection = ''c1'', rq_actor = ''op'', rq_key = ''k1'',
       rq_confirmed = True, rq_provider = PStr ''Evolution'', rq_instance = ''wa'', rq_active = True \<rparr>"

definition sample_resend_world :: resend_world where
  "sample_resend_world = \<lparr> rw_attempts = Holds [sample_failed], rw_actions = Absent, rw_inflight = [] \<rparr>"

lemma sample_begins:
  "\<exists>a w'. begin_resend sample_resend_env sample_resend_call sample_resend sample_resend_world =
    (Inr (Begun a sample_failed \<lparr> tr_text = ''hi'', tr_recipient = ''54'', tr_operation = ''messages.sendText'' \<rparr>), w')"
proof -
  have "(case fst (begin_resend sample_resend_env sample_resend_call sample_resend sample_resend_world) of
      Inr (Begun a s t) \<Rightarrow> s = sample_failed \<and>
        t = \<lparr> tr_text = ''hi'', tr_recipient = ''54'', tr_operation = ''messages.sendText'' \<rparr>
    | _ \<Rightarrow> False)"
    by code_simp
  then show ?thesis
    by (cases "begin_resend sample_resend_env sample_resend_call sample_resend sample_resend_world")
      (auto split: sum.split_asm resend_begun.split_asm)
qed

theorem resend_at_most_once_witness:
  "\<exists>a w'. (resend_step sample_resend_env)\<^sup>*\<^sup>* (sample_resend_world, [])
      (w', [Looking sample_resend a sample_failed
              \<lparr> tr_text = ''hi'', tr_recipient = ''54'', tr_operation = ''messages.sendText'' \<rparr>]) \<and>
    live_count ''a1'' ''c1'' (rw_actions w') \<le> 1"
proof -
  obtain a w' where b: "begin_resend sample_resend_env sample_resend_call sample_resend sample_resend_world =
    (Inr (Begun a sample_failed \<lparr> tr_text = ''hi'', tr_recipient = ''54'', tr_operation = ''messages.sendText'' \<rparr>), w')"
    using sample_begins by auto
  have absent: "rw_actions sample_resend_world = Absent" by (simp add: sample_resend_world_def)
  have "fresh_action (rc_uid sample_resend_call) (sample_resend_world, [])"
    by (simp add: fresh_action_def absent raw_actions_def empty_actions_def dget_Cons)
  from r_into_rtranclp [of "resend_step sample_resend_env", OF begun [OF b this]]
  have steps: "(resend_step sample_resend_env)\<^sup>*\<^sup>* (sample_resend_world, [])
      (w', [Looking sample_resend a sample_failed
              \<lparr> tr_text = ''hi'', tr_recipient = ''54'', tr_operation = ''messages.sendText'' \<rparr>])" .
  show ?thesis
    using steps resend_at_most_once [OF absent steps, THEN conjunct2, THEN conjunct1] by blast
qed

text \<open>
  a message is sent again only on fresh evidence that it failed: when a resend reaches the
  provider, the operator confirmed it, the source attempt is a failed Evolution text of the same
  instance and connection whose outcome is settled, the lookup made for this resend found the
  message and found it failed, and what is sent is the recipient and the text the evidence holds,
  complete and not redacted.
\<close>

theorem resend_needs_fresh_failure:
  assumes "begin_resend env cl q w = (Inr (Begun a s t), w1)"
    and "after_lookup env cl' q a s t l w2 = (Inr (n, inst, to, body), w3)"
  shows "rq_confirmed q \<and> rq_active q \<and> confirmed_failed l \<and> is_evolution (dget s ''provider'') \<and>
    get_attempt (PStr (rq_attempt q)) (rw_attempts w) = Some s \<and>
    dget s ''deliveryState'' = PStr ''failed'' \<and> dget s ''reconciliationState'' = PStr ''not_required'' \<and>
    str_or_empty (dget s ''instance'') = rq_instance q \<and> clean_str (dget s ''connectionId'') \<in> {[], rq_connection q} \<and>
    body = str_or_empty (dget (as_dict (dget s ''requestPayload'')) ''text'') \<and> body \<noteq> [] \<and> to \<noteq> [] \<and>
    \<not> contains_str (py_str (PDict (as_dict (dget s ''requestPayload'')))) REDACTED"
proof -
  note b = begin_created [OF assms(1)]
  have check: "check_resend q s = Inr t" and found: "get_attempt (PStr (rq_attempt q)) (rw_attempts w) = Some s"
    using b by auto
  have l: "confirmed_failed l" and sent: "to = tr_recipient t" "body = tr_text t"
    using assms(2)
    by (auto simp: after_lookup_def Let_def released_def split: if_split_asm sum.split_asm prod.split_asm)
  have r: "reconstruct_outbound_request s = Inr t"
    using check by (auto simp: check_resend_def Let_def split: if_split_asm sum.split_asm)
  show ?thesis
    using check r l sent found
    by (auto simp: check_resend_def reconstruct_outbound_request_def Let_def split: if_split_asm)
qed

theorem resend_needs_fresh_failure_witness:
  "\<exists>a w1 n w3.
    begin_resend sample_resend_env sample_resend_call sample_resend sample_resend_world =
      (Inr (Begun a sample_failed \<lparr> tr_text = ''hi'', tr_recipient = ''54'', tr_operation = ''messages.sendText'' \<rparr>), w1) \<and>
    after_lookup sample_resend_env sample_resend_call sample_resend a sample_failed
      \<lparr> tr_text = ''hi'', tr_recipient = ''54'', tr_operation = ''messages.sendText'' \<rparr>
      \<lparr> lr_status = ''found'', lr_observed = Some ''failed'', lr_confidence = ''confirmed'', lr_reason = None, lr_error = None \<rparr>
      sample_resend_world = (Inr (n, ''wa'', ''54'', ''hi''), w3) \<and>
    rq_confirmed sample_resend \<and> dget sample_failed ''deliveryState'' = PStr ''failed''"
proof -
  let ?t = "\<lparr> tr_text = ''hi'', tr_recipient = ''54'', tr_operation = ''messages.sendText'' \<rparr>"
  let ?l = "\<lparr> lr_status = ''found'', lr_observed = Some ''failed'', lr_confidence = ''confirmed'', lr_reason = None, lr_error = None \<rparr>"
  obtain a w1 where b: "begin_resend sample_resend_env sample_resend_call sample_resend sample_resend_world =
    (Inr (Begun a sample_failed ?t), w1)"
    using sample_begins by auto
  have none: "updating sample_resend_call k i u w = (Inr None, w)" if "rw_actions w = Absent" "au_status u = ''running''" for k i u w
    using that
    by (simp add: updating_def update_action_def action_statuses_def raw_actions_def empty_actions_def dget_Cons)
  have i: "py_str (dget sample_failed ''instance'') = ''wa''" by (simp add: sample_failed_def dget_def)
  obtain n g where c: "create_attempt True 10 (build_attempt (\<lambda>s. s) [] 5 ''u1'' (resend_args sample_resend a sample_failed ?t))
      (Holds [sample_failed]) = (Inr n, g)"
    by (simp add: create_attempt_def trim_and_write_def)
  have call: "rc_disk sample_resend_call k" "rc_now sample_resend_call = 5" "rc_uid sample_resend_call = ''u1''" for k
    by (simp_all add: sample_resend_call_def)
  have "after_lookup sample_resend_env sample_resend_call sample_resend a sample_failed ?t ?l sample_resend_world =
      (Inr (n, ''wa'', ''54'', ''hi''), sample_resend_world\<lparr> rw_attempts := g \<rparr>)"
    by (simp add: after_lookup_def confirmed_failed_def none sample_resend_world_def status_update_def i
        sample_resend_env_def call Let_def c)
  with b resend_needs_fresh_failure [OF b this] show ?thesis by blast
qed


text \<open>
  a resend whose outcome is unknown does not count as one: when the provider call of a resend
  ends with any exception, a timeout after which the message may have been delivered included, the
  action is marked as failed, and from then on no action keeps the same message from being sent
  once more under another key.
\<close>

theorem unknown_outcome_can_repeat:
  assumes "resend_safe (w, js)" and "Sending q a l n \<in> set js" and "get_action (id_of a) (rw_actions w) \<noteq> None"
    and "rc_disk cl 1" and "after_send env cl q a l n (Raised message code exc) w = (r, w')"
  shows "(\<exists>e. r = Inl e) \<and> live_count (rq_attempt q) (rq_connection q) (rw_actions w') = 0"
proof -
  have live: "id_live (id_of a) (rq_attempt q) (rq_connection q) (rw_actions w)"
    using member_live [OF assms(1,2)] by (simp add: job_live_def job_source_def)
  obtain v where v: "List.find (has_id (id_of a)) (raw_actions (rw_actions w)) = Some v"
    using assms(3) by (auto simp: get_action_def)
  obtain e g where e: "execute_outbound_attempt (re_loads env) (rc_disk cl 0) (rc_now cl) (id_of n)
      (Raised message code exc) (rw_attempts w) = (Inl e, g)"
    by (cases "execute_outbound_attempt (re_loads env) (rc_disk cl 0) (rc_now cl) (id_of n)
      (Raised message code exc) (rw_attempts w)")
      (auto simp: execute_outbound_attempt_def split: prod.splits sum.splits)
  define u where "u = \<lparr> au_status = ''failed'',
      au_result = Some [(''reason'', PStr ''resend_provider_call_failed''), (''sourceAttemptId'', PStr (rq_attempt q))],
      au_delivery = id_of n, au_attempt = id_of n, au_reconciliation = None \<rparr>"
  let ?change = "\<lambda>v. PDict (updated_action (rc_now cl) u (as_dict v))"
  let ?q = "\<lambda>v. is_dict v \<and> live_resend (rq_attempt q) (rq_connection q) (as_dict v)"
  have out: "r = Inl e" "raw_actions (rw_actions w') = modify_first (has_id (id_of a)) ?change (raw_actions (rw_actions w))"
  proof -
    have "au_status u = ''failed''" by (simp add: u_def)
    then have up: "update_action True (rc_now cl) (id_of a) u (rw_actions w) =
        (Inr (Some (public_action (as_dict (?change v)))),
         Holds (dset (read_actions (rw_actions w)) ''actions''
           (PList (modify_first (has_id (id_of a)) ?change (raw_actions (rw_actions w))))))"
      using v by (simp add: update_action_def action_statuses_def Let_def write_actions_cases)
    have "after_send env cl q a l n (Raised message code exc) w =
        released q (case updating cl 1 (id_of a) u (w\<lparr> rw_attempts := g \<rparr>) of
          (Inl e', w1) \<Rightarrow> (Inl e', w1) | (Inr _, w1) \<Rightarrow> (Inl e, w1))"
      by (simp add: after_send_def e u_def)
    then show "r = Inl e" "raw_actions (rw_actions w') = modify_first (has_id (id_of a)) ?change (raw_actions (rw_actions w))"
      using assms(4,5) up by (auto simp: updating_def released_def)
  qed
  have "?q v" using live v by (auto simp: id_live_def find_Some_iff has_id_def)
  moreover have "\<not> ?q (?change v)"
    by (auto simp: live_resend_def updated_status live_statuses_def u_def)
  ultimately have "Suc (length (filter ?q (raw_actions (rw_actions w')))) = length (filter ?q (raw_actions (rw_actions w)))"
    unfolding out(2) using filter_modify_first_drops [OF v, of ?q ?change] by simp
  moreover have "length (filter ?q (raw_actions (rw_actions w))) \<le> 1"
    using safe_count [OF assms(1), of "rq_attempt q" "rq_connection q"] by (simp add: live_count_raw)
  ultimately have "live_count (rq_attempt q) (rq_connection q) (rw_actions w') = 0"
    unfolding live_count_raw by linarith
  then show ?thesis using out(1) by blast
qed

definition sample_action :: pdict where
  "sample_action =
     [(''id'', PStr ''m1''), (''action'', PStr ''resend_provider_outbound''), (''targetId'', PStr ''a1''),
      (''connectionId'', PStr ''c1''), (''status'', PStr ''running'')]"

definition sample_sending :: resend_world where
  "sample_sending =
     \<lparr> rw_attempts = Holds [[(''id'', PStr ''a2'')]], rw_actions = Holds [(''actions'', PList [PDict sample_action])],
       rw_inflight = [''a1''] \<rparr>"

theorem unknown_outcome_can_repeat_witness:
  "\<exists>e w'. after_send sample_resend_env sample_resend_call sample_resend sample_action (inconclusive []) [(''id'', PStr ''a2'')]
      (Raised ''Evolution timeout'' (Some 504) (RuntimeError [])) sample_sending = (Inl e, w') \<and>
    live_count ''a1'' ''c1'' (rw_actions w') = 0"
proof -
  let ?j = "Sending sample_resend sample_action (inconclusive []) [(''id'', PStr ''a2'')]"
  have raw: "raw_actions (rw_actions sample_sending) = [PDict sample_action]"
    by (simp add: sample_sending_def raw_actions_def dget_Cons)
  have i: "id_of sample_action = ''m1''" by (simp add: id_of_def sample_action_def dget_def)
  have "live_resend ''a1'' ''c1'' sample_action"
    by (simp add: live_resend_def sample_action_def dget_Cons live_statuses_def)
  then have "job_live (rw_actions sample_sending) ?j"
    by (simp add: job_live_def id_live_def raw job_source_def sample_resend_def)
  moreover have "live_count t c (rw_actions sample_sending) \<le> 1" for t c by (simp add: live_count_raw raw)
  ultimately have safe: "resend_safe (sample_sending, [?j])"
    by (simp add: resend_safe_def job_source_def sample_resend_def) (simp add: sample_sending_def)
  have action: "get_action (id_of sample_action) (rw_actions sample_sending) \<noteq> None"
    by (simp add: get_action_def raw has_id_def i) (simp add: sample_action_def dget_Cons)
  obtain r w' where out: "after_send sample_resend_env sample_resend_call sample_resend sample_action (inconclusive [])
      [(''id'', PStr ''a2'')] (Raised ''Evolution timeout'' (Some 504) (RuntimeError [])) sample_sending = (r, w')"
    by (rule prod.exhaust)
  have "rc_disk sample_resend_call 1" by (simp add: sample_resend_call_def)
  from unknown_outcome_can_repeat [OF safe _ action this out] out show ?thesis
    by (auto simp: sample_resend_def)
qed

end
