(* ===== verification/Connection_Setups_Spec.thy ===== *)
theory Connection_Setups_Spec
  imports Connection_Setups Connection_Registry_Spec
begin

text \<open>
  What the setups promise: every operation moves a setup only along the table of transitions,
  whatever other setups do and whatever writes fail. The one operation that goes on after an
  answer of the provider with the record it read before does not keep this: a setup that was
  cancelled or has expired meanwhile becomes a connection.
\<close>

section \<open>States of the stored setups\<close>

definition setup_state :: "setup_world \<Rightarrow> string \<Rightarrow> pval option" where
  "setup_state w i = map_option (\<lambda>r. dget r ''state'') (setup_record_by_id i (sw_file w))"

definition leads :: "(string \<times> string) set" where
  "leads = {(s, t). t \<in> set (transitions s)}"

text \<open>Every setup that had a state has one to which the table leads.\<close>

definition advances :: "setup_world \<Rightarrow> setup_world \<Rightarrow> bool" where
  "advances w w' \<longleftrightarrow>
     (\<forall>i s. setup_state w i = Some (PStr s) \<longrightarrow> (\<exists>t. setup_state w' i = Some (PStr t) \<and> (s, t) \<in> leads\<^sup>*))"

text \<open>Every setup is kept once, under its own id, and has a state.\<close>

definition once :: "registry_file \<Rightarrow> bool" where
  "once f \<longleftrightarrow> distinct (map fst (rg_setups (read_registry f)))"

definition keyed :: "setup_world \<Rightarrow> bool" where
  "keyed w \<longleftrightarrow> once (sw_file w) \<and>
     (\<forall>i r. setup_record_by_id i (sw_file w) = Some r \<longrightarrow> dget r ''id'' = PStr i \<and> (\<exists>s. dget r ''state'' = PStr s))"

text \<open>A record that an operation holds, of a stored setup in the same state.\<close>

definition current :: "pdict \<Rightarrow> setup_world \<Rightarrow> bool" where
  "current r w \<longleftrightarrow> (\<exists>i. dget r ''id'' = PStr i \<and> setup_state w i = Some (dget r ''state''))"

definition proper :: "setup_world \<Rightarrow> pdict res \<times> setup_world \<Rightarrow> bool" where
  "proper w m \<longleftrightarrow> keyed (snd m) \<and> advances w (snd m) \<and> (\<forall>r. fst m = Inr r \<longrightarrow> current r (snd m))"

lemma advances_refl [simp]: "advances w w"
  by (simp add: advances_def)

lemma advances_trans: "advances w w' \<Longrightarrow> advances w' w'' \<Longrightarrow> advances w w''"
  unfolding advances_def by (meson rtrancl_trans)

lemma proper_error [simp]: "proper w (Inl e, w) \<longleftrightarrow> keyed w"
  by (simp add: proper_def)

lemma proper_keep [simp]: "proper w (Inr r, w) \<longleftrightarrow> keyed w \<and> current r w"
  by (auto simp: proper_def)

lemma snd_and_then: "snd (and_then m f) = (case fst m of Inl e \<Rightarrow> snd m | Inr x \<Rightarrow> snd (f x (snd m)))"
  by (auto simp: and_then_def split: prod.split sum.split)

lemma snd_published [simp]: "snd (published m) = snd m"
  by (simp add: published_def snd_and_then split: sum.split)

lemma proper_then:
  assumes "proper w m" and "\<And>r w'. keyed w' \<Longrightarrow> current r w' \<Longrightarrow> proper w' (f r w')"
  shows "proper w (and_then m f)"
proof -
  obtain x w' where m: "m = (x, w')" by (cases m)
  show ?thesis
  proof (cases x)
    case (Inl e)
    then show ?thesis using assms(1) by (simp add: m and_then_def proper_def)
  next
    case (Inr r)
    have "proper w' (f r w')" using assms by (simp add: m Inr proper_def)
    then show ?thesis using assms(1) by (auto simp: m Inr and_then_def proper_def intro: advances_trans)
  qed
qed

lemma proper_by_state: "keyed w \<Longrightarrow> (\<And>s. dget r ''state'' = s \<Longrightarrow> proper w (f s w)) \<Longrightarrow> proper w (by_state r f w)"
  by (auto simp: by_state_def dget_def split: option.split)

section \<open>Writes\<close>

lemma vindex_dget: "vindex (PDict r) k = Inr v \<Longrightarrow> dget r k = v"
  by (auto simp: dget_def split: option.splits)

lemma setup_after_write:
  assumes "update_setup_record ok i changes f = (res, f')"
  shows "(\<exists>e. res = Inl e) \<and> f' = f \<or>
    res = Inr None \<and> f' = f \<and> setup_record_by_id i f = None \<or>
    (\<exists>r. setup_record_by_id i f = Some r \<and> res = Inr (Some (dmerge r changes)) \<and>
      (\<forall>j. setup_record_by_id j f' =
        (if j = i then Some (sorted_dict (dmerge r changes)) else map_option sorted_dict (setup_record_by_id j f))))"
proof (cases "dict_at (rg_setups (read_registry f)) i")
  case None
  then show ?thesis using assms by (auto simp: update_setup_record_def Let_def setup_record_by_id_def)
next
  case (Some r)
  then have "answer_after (Some (dmerge r changes))
      (write_registry ok ((read_registry f)\<lparr> rg_setups := dset (rg_setups (read_registry f)) i (PDict (dmerge r changes)) \<rparr>) f) = (res, f')"
    using assms by (simp add: update_setup_record_def Let_def)
  then show ?thesis
  proof (rule answer_after_cases)
    assume "res = Inl OSError" "f' = f"
    then show ?thesis by simp
  next
    assume r: "res = Inr (Some (dmerge r changes))"
      and f: "read_registry f' = sorted_registry ((read_registry f)
        \<lparr> rg_setups := dset (rg_setups (read_registry f)) i (PDict (dmerge r changes)) \<rparr>)"
    have "dict_at (dset d i (PDict x)) j = (if j = i then Some x else dict_at d j)" for d x j
      by (simp add: dict_at_def)
    then show ?thesis using Some r f by (simp add: setup_record_by_id_def)
  qed
qed

lemma once_sorted: "distinct (map fst (sorted_dict d)) \<longleftrightarrow> distinct (map fst d)"
proof -
  have "map fst (sort_json_items d) = map fst d" by (simp add: sort_json_items_map comp_def split_beta)
  then have "mset (map fst (sorted_dict d)) = mset (map fst d)" by (metis mset_map mset_sort sorted_dict_def)
  then show ?thesis by (metis mset_eq_imp_distinct_iff)
qed

lemma once_written:
  assumes "once f" and "answer_after x (write_registry ok s f) = (res, f')"
    and "distinct (map fst (rg_setups s))"
  shows "once f'"
  using assms(2) by (rule answer_after_cases) (use assms(1,3) in \<open>simp_all add: once_def once_sorted\<close>)

lemma once_update: "once f \<Longrightarrow> update_setup_record ok i c f = (res, f') \<Longrightarrow> once f'"
  by (auto simp: update_setup_record_def Let_def once_def distinct_update split: option.splits elim!: once_written [unfolded once_def, rotated])

lemma once_promote: "once f \<Longrightarrow> promote_setup_to_connection ok i d c f = (res, f') \<Longrightarrow> once f'"
  by (auto simp: promote_setup_to_connection_def Let_def put_connection_def distinct_update once_def
      split: option.splits if_splits sum.splits bool.splits elim!: once_written [unfolded once_def, rotated])

lemma once_save: "once f \<Longrightarrow> save_setup_record_for_client ok r f = (res, f') \<Longrightarrow> once f'"
  by (auto simp: save_setup_record_for_client_def Let_def once_def distinct_update split: if_splits elim!: once_written [unfolded once_def, rotated])

lemma dget_dmerge_kept: "\<not> dhas e k \<Longrightarrow> dget (dmerge d e) k = dget d k"
  by (rule dget_dmerge_other) (auto simp: dhas_iff image_iff)

text \<open>A write that leaves ids alone and moves the state of its setup along the table.\<close>

lemma proper_update:
  assumes "keyed w" and "dget r ''id'' = PStr i" and "setup_state w i = Some (dget r ''state'')"
    and "\<not> dhas changes ''id''"
    and "dget (dmerge x changes) ''state'' = dget r ''state'' \<or>
      (\<exists>s t. dget r ''state'' = PStr s \<and> (s, t) \<in> leads\<^sup>* \<and> dget (dmerge x changes) ''state'' = PStr t)"
    and x: "setup_record_by_id i (sw_file w) = Some x"
    and "writing call (\<lambda>ok. update_setup_record ok i changes) w = (res, w')"
  shows "keyed w' \<and> advances w w' \<and> (\<forall>y. res = Inr (Some y) \<longrightarrow> current y w' \<and> dget y ''state'' = dget (dmerge x changes) ''state'')
    \<and> res \<noteq> Inr None"
proof -
  obtain f' where f': "update_setup_record (sc_disk call (sw_writes w)) i changes (sw_file w) = (res, f')" and w': "sw_file w' = f'"
    using assms(7) by (auto simp: writing_def split: prod.splits)
  have id: "dget (dmerge x changes) ''id'' = PStr i"
    using assms(1) x dget_dmerge_kept [OF assms(4)] by (simp add: keyed_def)
  have st: "dget x ''state'' = dget r ''state''" using assms(3) x by (simp add: setup_state_def)
  from setup_after_write [OF f'] consider "\<exists>e. res = Inl e" "f' = sw_file w"
    | "res = Inr (Some (dmerge x changes))"
      "\<forall>j. setup_record_by_id j f' =
        (if j = i then Some (sorted_dict (dmerge x changes)) else map_option sorted_dict (setup_record_by_id j (sw_file w)))"
    using x by auto
  then show ?thesis
  proof cases
    case 1
    then show ?thesis using assms(1) w' by (auto simp: keyed_def advances_def setup_state_def)
  next
    case 2
    obtain t where t: "dget (dmerge x changes) ''state'' = PStr t"
      using assms(1,5) st x unfolding keyed_def by metis
    have "advances w w'"
      unfolding advances_def setup_state_def w' using 2(2) x st assms(5) by (fastforce split: option.splits)
    moreover have "keyed w'"
      unfolding keyed_def w' using 2(2) id t assms(1) once_update [OF _ f'] by (auto simp: keyed_def split: if_splits)
    moreover have "current (dmerge x changes) w'"
      unfolding current_def setup_state_def w' using 2(2) id t by simp
    ultimately show ?thesis using 2(1) by simp
  qed
qed

lemma current_found:
  assumes "keyed w" and "current r w"
  obtains i x where "vindex (PDict r) ''id'' = Inr (PStr i)" "dget r ''id'' = PStr i"
    "setup_record_by_id i (sw_file w) = Some x" "dget x ''state'' = dget r ''state''" "setup_state w i = Some (dget r ''state'')"
proof -
  obtain i where i: "dget r ''id'' = PStr i" "setup_state w i = Some (dget r ''state'')" using assms(2) by (auto simp: current_def)
  then have "vindex (PDict r) ''id'' = Inr (PStr i)" by (auto simp: dget_def split: option.splits)
  with i that show ?thesis by (auto simp: setup_state_def)
qed

lemma proper_transition:
  assumes "keyed w" and "current r w" and "\<not> dhas changes ''id''" and "\<not> dhas changes ''state''"
  shows "proper w (transition_record env call r target changes w)"
proof -
  obtain i x where i: "vindex (PDict r) ''id'' = Inr (PStr i)" "dget r ''id'' = PStr i"
    "setup_record_by_id i (sw_file w) = Some x" "dget x ''state'' = dget r ''state''" "setup_state w i = Some (dget r ''state'')"
    using current_found [OF assms(1,2)] .
  let ?c = "dmerge [(''state'', PStr target), (''updated_at'', PStr (se_iso env (sc_now call)))] changes"
  have c: "\<not> dhas ?c ''id''" "dget (dmerge x ?c) ''state'' = PStr target"
  proof -
    have "distinct (map fst ?c)" by (rule distinct_dmerge) simp
    moreover have "dhas ?c ''state''" by (simp add: dhas_def map_of_dmerge split: option.split)
    moreover have "dget ?c ''state'' = PStr target" using dget_dmerge_kept [OF assms(4)] by (simp add: dget_Cons)
    ultimately show "dget (dmerge x ?c) ''state'' = PStr target" by (simp add: dget_dmerge_distinct)
    show "\<not> dhas ?c ''id''" using assms(3) by (simp add: dhas_def map_of_dmerge map_of_eq_None_iff split: option.split)
  qed
  obtain s where s: "dget r ''state'' = PStr s" using assms(1) i(3,4) unfolding keyed_def by metis
  show ?thesis
  proof (cases "target = s \<or> target \<notin> set (transitions s)")
    case True
    then show ?thesis using assms(1,2) s by (auto simp: transition_record_def state_name_def)
  next
    case False
    then have "(s, target) \<in> leads\<^sup>*" by (auto simp: leads_def)
    then have "dget (dmerge x ?c) ''state'' = dget r ''state'' \<or>
        (\<exists>s t. dget r ''state'' = PStr s \<and> (s, t) \<in> leads\<^sup>* \<and> dget (dmerge x ?c) ''state'' = PStr t)"
      using c(2) s by blast
    note wr = proper_update [OF assms(1) i(2,5) c(1) this i(3)]
    obtain res w' where w: "writing call (\<lambda>ok. update_setup_record ok i ?c) w = (res, w')" by fastforce
    show ?thesis
      using wr [OF w] False s
      by (auto simp: transition_record_def state_name_def i(1) w and_then_def proper_def Let_def
          simp del: vindex.simps split: sum.split option.split)
  qed
qed

lemma proper_expire: "keyed w \<Longrightarrow> current r w \<Longrightarrow> proper w (expire_if_due env call r w)"
  by (auto simp: expire_if_due_def cleanup_changes_def dhas_Cons intro!: proper_transition split: parsed_time.split)

lemma proper_find: "keyed w \<Longrightarrow> proper w (find_setup env call i w)"
  by (auto simp: find_setup_def keyed_def current_def setup_state_def intro!: proper_expire split: option.split)

lemma proper_moving:
  "keyed w \<Longrightarrow> current r w \<Longrightarrow> \<not> dhas changes ''id'' \<Longrightarrow> \<not> dhas changes ''state'' \<Longrightarrow>
     proper w (moving env call s t changes r w)"
  unfolding moving_def by (rule proper_by_state) (auto intro: proper_transition)

lemma proper_noting:
  assumes "keyed w" and "current r w"
  shows "proper w (noting env call r resources w)"
proof -
  obtain i x where i: "vindex (PDict r) ''id'' = Inr (PStr i)" "dget r ''id'' = PStr i"
    "setup_record_by_id i (sw_file w) = Some x" "dget x ''state'' = dget r ''state''" "setup_state w i = Some (dget r ''state'')"
    using current_found [OF assms] .
  let ?c = "[(''external_resources'', PList resources), (''updated_at'', PStr (se_iso env (sc_now call)))]"
  have "\<not> dhas ?c ''id''" "dget (dmerge x ?c) ''state'' = dget r ''state''"
    using i(4) by (simp_all add: dhas_Cons dget_dmerge_kept)
  note wr = proper_update [OF assms(1) i(2,5) this(1) _ i(3), OF disjI1, OF this(2)]
  obtain res w' where w: "writing call (\<lambda>ok. update_setup_record ok i ?c) w = (res, w')" by fastforce
  show ?thesis
    using wr [OF w] by (auto simp: noting_def i(1) w and_then_def proper_def simp del: vindex.simps split: sum.split option.split)
qed

lemma setups_after_promotion:
  assumes "promote_setup_to_connection ok i c changes f = (res, f')"
  shows "(\<exists>e. res = Inl e) \<and> f' = f \<or> res = Inr None \<and> f' = f \<or>
    (\<exists>r. setup_record_by_id i f = Some r \<and> res = Inr (Some (dmerge r changes, c)) \<and>
      (\<forall>j. setup_record_by_id j f' =
        (if j = i then Some (sorted_dict (dmerge r changes)) else map_option sorted_dict (setup_record_by_id j f))))"
proof -
  have at: "dict_at (dset d i (PDict x)) j = (if j = i then Some x else dict_at d j)" for d x j
    by (simp add: dict_at_def)
  consider "(\<exists>e. res = Inl e) \<or> res = Inr None" "f' = f"
    | r s where "setup_record_by_id i f = Some r" "res = Inr (Some (dmerge r changes, c))" "read_registry f' = sorted_registry s"
      "rg_setups s = dset (rg_setups (read_registry f)) i (PDict (dmerge r changes))"
    using assms
    by (auto simp: promote_setup_to_connection_def Let_def setup_record_by_id_def put_connection_def
        split: option.splits if_splits sum.splits bool.splits elim!: answer_after_cases)
  then show ?thesis
  proof cases
    case 1
    then show ?thesis by auto
  next
    case (2 r s)
    then show ?thesis by (simp add: setup_record_by_id_def at)
  qed
qed

lemma proper_promote:
  assumes "keyed w" and "current r w"
  shows "proper w (promote env call status health extra r w)"
proof -
  obtain i x where i: "dget r ''id'' = PStr i" "setup_record_by_id i (sw_file w) = Some x"
    "dget x ''state'' = dget r ''state''" "setup_state w i = Some (dget r ''state'')"
    using current_found [OF assms] by metis
  let ?c = "[(''state'', PStr ''ready''), (''connection_id'', PStr (sc_connection_uid call)), (''updated_at'', PStr (se_iso env (sc_now call)))]"
  have ready: "dget (dmerge x ?c) ''state'' = PStr ''ready''" "dget (dmerge x ?c) ''id'' = PStr i"
    using assms(1) i(2) by (simp_all add: dget_dmerge_distinct dhas_Cons dget_Cons keyed_def)
  show ?thesis
  proof (cases "dget r ''state'' = PStr ''provisioning''")
    case False
    then show ?thesis using assms(1) by (simp add: promote_def)
  next
    case True
    obtain res f' where f': "promote_setup_to_connection (sc_disk call (sw_writes w)) i (connection_record_of env call r status health extra) ?c (sw_file w)
        = (res, f')" by fastforce
    let ?w = "\<lparr> sw_file = f', sw_writes = Suc (sw_writes w) \<rparr>"
    have step: "(''provisioning'', ''ready'') \<in> leads\<^sup>*" by (auto simp: leads_def transitions_def)
    have "keyed ?w \<and> advances w ?w \<and> (\<forall>y z. res = Inr (Some (y, z)) \<longrightarrow> current y ?w)"
      using setups_after_promotion [OF f']
    proof (elim disjE exE conjE)
      fix y assume *: "setup_record_by_id i (sw_file w) = Some y" "res = Inr (Some (dmerge y ?c, connection_record_of env call r status health extra))"
        "\<forall>j. setup_record_by_id j f' = (if j = i then Some (sorted_dict (dmerge y ?c)) else map_option sorted_dict (setup_record_by_id j (sw_file w)))"
      have y: "y = x" using * i by simp
      have "keyed ?w" using assms(1) * y ready once_promote [OF _ f'] by (auto simp: keyed_def split: if_splits)
      moreover have "advances w ?w"
        unfolding advances_def setup_state_def using * y ready i(3) True step by (fastforce split: option.splits)
      moreover have "current (dmerge y ?c) ?w" using * y ready by (simp add: current_def setup_state_def)
      ultimately show ?thesis using * by simp
    qed (use assms(1) in \<open>auto simp: keyed_def advances_def setup_state_def\<close>)
    then show ?thesis
      using assms(1) by (auto simp: promote_def True i(1) writing_def f' and_then_def proper_def split: sum.split option.split prod.split)
  qed
qed

section \<open>The sweep of the expired\<close>

lemma others_kept:
  assumes "keyed w" and "current r w" and "dget r ''id'' \<noteq> PStr j"
  shows "setup_state (snd (transition_record env call r target changes w)) j = setup_state w j"
proof -
  obtain i where i: "vindex (PDict r) ''id'' = Inr (PStr i)" "dget r ''id'' = PStr i"
    using current_found [OF assms(1,2)] by metis
  let ?c = "dmerge [(''state'', PStr target), (''updated_at'', PStr (se_iso env (sc_now call)))] changes"
  obtain res f' where f': "update_setup_record (sc_disk call (sw_writes w)) i ?c (sw_file w) = (res, f')" by fastforce
  have "map_option (\<lambda>r. dget r ''state'') (setup_record_by_id j f') = setup_state w j"
  proof (cases "setup_record_by_id j (sw_file w)")
    case None
    then show ?thesis using setup_after_write [OF f'] assms(3) i(2) by (auto simp: setup_state_def)
  next
    case (Some y)
    moreover obtain s where "dget y ''state'' = PStr s" using assms(1) Some unfolding keyed_def by metis
    ultimately show ?thesis using setup_after_write [OF f'] assms(3) i(2) by (auto simp: setup_state_def)
  qed
  then show ?thesis
    by (auto simp: transition_record_def Let_def i(1) writing_def f' and_then_def setup_state_def
        simp del: vindex.simps split: sum.split option.split)
qed

lemma others_kept_expire:
  assumes "keyed w" and "current r w" and "dget r ''id'' \<noteq> PStr j"
  shows "setup_state (snd (expire_if_due env call r w)) j = setup_state w j"
  using others_kept [OF assms] by (simp add: expire_if_due_def split: parsed_time.split)

lemma proper_expire_each:
  assumes "keyed w" and "\<forall>r\<in>set rs. current r w" and "distinct (map (\<lambda>r. dget r ''id'') rs)"
  shows "keyed (snd (expire_each env call rs w)) \<and> advances w (snd (expire_each env call rs w))"
  using assms
proof (induction rs arbitrary: w)
  case (Cons r rs)
  show ?case
  proof (cases "state_name r \<in> set active_states")
    case False
    then show ?thesis using Cons by simp
  next
    case True
    obtain x w' where x: "expire_if_due env call r w = (x, w')" by fastforce
    have p: "proper w (x, w')" using proper_expire [of w r env call] Cons.prems by (simp add: x)
    have rest: "\<forall>q\<in>set rs. current q w'"
    proof
      fix q assume q: "q \<in> set rs"
      then obtain j where j: "dget q ''id'' = PStr j" "setup_state w j = Some (dget q ''state'')"
        using Cons.prems(2) by (auto simp: current_def)
      have "dget r ''id'' \<noteq> PStr j" using Cons.prems(3) q j(1) by (auto simp: image_iff)
      then show "current q w'"
        using others_kept_expire [of w r j env call] Cons.prems(1,2) j by (auto simp: x current_def)
    qed
    have "keyed (snd (expire_each env call rs w')) \<and> advances w' (snd (expire_each env call rs w'))"
      using Cons.IH [OF _ rest] p Cons.prems(3) by (simp add: proper_def)
    then show ?thesis
      using p True by (auto simp: x and_then_def proper_def intro: advances_trans split: sum.split prod.split)
  qed
qed simp

lemma proper_expire_active:
  assumes "keyed w"
  shows "keyed (snd (expire_active env call w)) \<and> advances w (snd (expire_active env call w))"
proof -
  let ?d = "rg_setups (read_registry (sw_file w))"
  have once: "distinct (map fst ?d)" using assms by (simp add: keyed_def once_def)
  have stored: "setup_record_by_id k (sw_file w) = Some r" if "(k, PDict r) \<in> set ?d" for k r
  proof -
    have "map_of ?d k = Some (PDict r)" using once that by simp
    then show ?thesis by (simp add: setup_record_by_id_def dict_at_def dget_def)
  qed
  have cur: "\<forall>r\<in>set (dict_values ?d). current r w"
  proof
    fix r assume "r \<in> set (dict_values ?d)"
    then obtain k where "(k, PDict r) \<in> set ?d" by (auto simp: in_dict_values)
    then have "setup_record_by_id k (sw_file w) = Some r" by (rule stored)
    with assms show "current r w" by (auto simp: keyed_def current_def setup_state_def)
  qed
  have "distinct (map (\<lambda>r. dget r ''id'') (dict_values d))"
    if "distinct (map fst d)" "\<And>k r. (k, PDict r) \<in> set d \<Longrightarrow> dget r ''id'' = PStr k" for d
    using that
  proof (induction d)
    case (Cons p d)
    obtain k v where p: "p = (k, v)" by (cases p)
    have ids: "dget r ''id'' \<noteq> PStr k" if mem: "r \<in> set (dict_values d)" for r
    proof -
      obtain j where j: "(j, PDict r) \<in> set d" using mem by (auto simp: in_dict_values)
      then have "dget r ''id'' = PStr j" "j \<noteq> k" using Cons.prems p by force+
      then show ?thesis by simp
    qed
    have "distinct (map (\<lambda>r. dget r ''id'') (dict_values d))" using Cons by auto
    then show ?case
      using Cons.prems(2) [of k "as_dict v"] ids p by (cases v) (force simp: dict_values_def)+
  qed (simp add: dict_values_def)
  then have "distinct (map (\<lambda>r. dget r ''id'') (dict_values ?d))" using once stored assms unfolding keyed_def by blast
  from proper_expire_each [OF assms cur this] show ?thesis by (simp add: expire_active_def)
qed

section \<open>Every operation\<close>

lemma proper_op:
  assumes "keyed w" and "\<And>r w'. keyed w' \<Longrightarrow> current r w' \<Longrightarrow> proper w' (f r w')"
  shows "proper w (and_then (find_setup env call i w) f)"
  using proper_then [OF proper_find [OF assms(1)] assms(2)] .

lemma proper_begin_meta_steps:
  assumes "keyed w" and "current r w"
  shows "proper w (and_then (moving env call ''failed'' ''onboarding'' [(''diagnostic'', PNone)] r w) (\<lambda>r w.
    and_then (moving env call ''onboarding'' ''provisioning'' [] r w)
      (\<lambda>r. by_state r (\<lambda>s w. if s \<noteq> PStr ''provisioning'' then (Inl e, w)
        else if b then (Inr r, w) else noting env call r res w))))"
  by (rule proper_then [OF proper_moving [OF assms]], simp_all add: dhas_Cons,
      rule proper_then [OF proper_moving], simp_all, rule proper_by_state, simp_all add: proper_noting)

lemma proper_completion:
  assumes "keyed w" and "current r w"
  shows "proper w (and_then (noting env call r res w) (promote env call status health extra))"
  by (rule proper_then [OF proper_noting [OF assms]]) (rule proper_promote)

lemma proper_evolution_begun:
  assumes "keyed w" and "begin_evolution env call i w = (res, w')"
  shows "keyed w' \<and> advances w w' \<and> (\<forall>r. res = Inr (Inr r) \<longrightarrow> current r w')"
proof -
  have "proper w (and_then (find_setup env call i w) (\<lambda>r w.
       if dget r ''provider_id'' \<noteq> PStr ''evolution'' then (Inl (setup_conflict ''This setup does not use Evolution''), w)
       else if dget r ''state'' = PStr ''ready'' then (Inr r, w)
       else moving env call ''draft'' ''provisioning'' [] r w))"
    by (rule proper_op [OF assms(1)]) (auto intro!: proper_moving)
  then show ?thesis
    using assms(2)
    by (auto simp: begin_evolution_def and_then_def by_state_def proper_def rbind_eqs simp del: vindex.simps
        split: prod.splits sum.splits if_splits)
qed

lemma keyed_create:
  assumes "keyed w" and "setup_record_by_id (sc_uid call) (sw_file w) = None"
  shows "keyed (snd (create_setup env call settings client channel name provider key w)) \<and>
    advances w (snd (create_setup env call settings client channel name provider key w))"
proof -
  have stored: "keyed w' \<and> advances w w'"
    if saved: "writing call (\<lambda>ok. save_setup_record_for_client ok (new_setup env call client channel name provider k)) w = (res, w')"
    for k res w'
  proof -
    let ?r = "new_setup env call client channel name provider k"
    obtain f' where f': "save_setup_record_for_client (sc_disk call (sw_writes w)) ?r (sw_file w) = (res, f')" and w': "sw_file w' = f'"
      using saved by (auto simp: writing_def split: prod.splits)
    have r: "dget ?r ''id'' = PStr (sc_uid call)" "dget ?r ''state'' = PStr ''draft''"
      by (simp_all add: new_setup_def dget_Cons)
    have at: "dict_at (dset d i (PDict x)) j = (if j = i then Some x else dict_at d j)" for d x i j
      by (simp add: dict_at_def)
    consider "f' = sw_file w"
      | "\<forall>j. setup_record_by_id j f' = (if j = sc_uid call then Some (sorted_dict ?r) else map_option sorted_dict (setup_record_by_id j (sw_file w)))"
      using f' r(1)
      by (auto simp: save_setup_record_for_client_def Let_def setup_record_by_id_def at split: if_splits elim!: answer_after_cases)
    then show ?thesis
    proof cases
      case 1
      then show ?thesis using assms(1) w' by (auto simp: keyed_def advances_def setup_state_def)
    next
      case 2
      have "keyed w'" using 2 r assms(1) once_save [OF _ f'] by (auto simp: keyed_def w' split: if_splits)
      moreover have "advances w w'"
        unfolding advances_def setup_state_def w' using 2 assms(2) by (fastforce split: option.splits)
      ultimately show ?thesis by simp
    qed
  qed
  have "keyed (snd (expire_if_due env call r w)) \<and> advances w (snd (expire_if_due env call r w))"
    if "setup_record_by_idempotency_key client k (sw_file w) = Some r" for k r
  proof -
    have "r \<in> set (dict_values (rg_setups (read_registry (sw_file w))))"
      using that find_SomeD by (fastforce simp: setup_record_by_idempotency_key_def)
    then obtain i where i: "(i, PDict r) \<in> set (rg_setups (read_registry (sw_file w)))" by (auto simp: in_dict_values)
    then have "map_of (rg_setups (read_registry (sw_file w))) i = Some (PDict r)" using assms(1) by (simp add: keyed_def once_def)
    then have "setup_record_by_id i (sw_file w) = Some r" by (simp add: setup_record_by_id_def dict_at_def dget_def)
    then have "current r w" using assms(1) by (auto simp: keyed_def current_def setup_state_def)
    from proper_expire [OF assms(1) this] show ?thesis by (simp add: proper_def)
  qed
  note existing = this
  have saved: "keyed (snd (writing call (\<lambda>ok. save_setup_record_for_client ok (new_setup env call client channel name provider k)) w)) \<and>
      advances w (snd (writing call (\<lambda>ok. save_setup_record_for_client ok (new_setup env call client channel name provider k)) w))" for k
    using stored by (metis prod.collapse)
  have answered: "snd (and_then m (\<lambda>saved w'. case saved of None \<Rightarrow> (Inl x, w') | Some _ \<Rightarrow> (y, w'))) = snd m"
    for m :: "'x option res \<times> setup_world" and x :: py_exc and y :: "pdict res"
    by (auto simp: and_then_def split: prod.split sum.split option.split)
  let ?key = "case key of None \<Rightarrow> [] | Some k \<Rightarrow> strip k"
  let ?found = "if ?key = [] then None else setup_record_by_idempotency_key client ?key (sw_file w)"
  show ?thesis
  proof (cases "validate_setup_request settings client channel provider (sw_file w)")
    case (Inl e)
    then show ?thesis using assms(1) by (simp add: create_setup_def)
  next
    case (Inr u)
    show ?thesis
    proof (cases ?found)
      case None
      then have "snd (create_setup env call settings client channel name provider key w) =
          snd (writing call (\<lambda>ok. save_setup_record_for_client ok (new_setup env call client channel name provider ?key)) w)"
        by (simp only: create_setup_def Inr sum.case Let_def None option.case answered)
      then show ?thesis using saved by simp
    next
      case (Some r)
      then have "setup_record_by_idempotency_key client ?key (sw_file w) = Some r" by (simp split: if_splits)
      from existing [OF this] show ?thesis
        using assms(1) by (simp only: create_setup_def Inr sum.case Let_def Some option.case) (simp split: if_split)
    qed
  qed
qed

datatype setup_op =
    Create_Setup settings_file string string "string option" string "string option"
  | Get_Setup string
  | Transition_Setup string string
  | Begin_Meta string
  | Begin_Provisioning string string string
  | Complete_Meta string string string
  | Complete_Instagram string string pdict
  | Meta_Failed string
  | Begin_Evolution string
  | Cancel_Setup string
  | Expire_Active

text \<open>
  The operations that run without waiting for a provider. Not among them are the rest of the provisioning
  with Evolution, \<open>after_create\<close> and \<open>after_webhook\<close>, and \<open>cleanup_setup\<close>, which writes the state a
  cleanup ends in.
\<close>

fun run_setup_op :: "setup_env \<Rightarrow> setup_call \<Rightarrow> setup_op \<Rightarrow> setup_world \<Rightarrow> setup_world" where
  "run_setup_op env call (Create_Setup f client channel name provider key) w =
     snd (create_setup env call f client channel name provider key w)"
| "run_setup_op env call (Get_Setup i) w = snd (get_setup env call i w)"
| "run_setup_op env call (Transition_Setup i t) w = snd (transition_setup env call i t w)"
| "run_setup_op env call (Begin_Meta i) w = snd (begin_meta env call i w)"
| "run_setup_op env call (Begin_Provisioning i p b) w = snd (begin_meta_provisioning env call i p b w)"
| "run_setup_op env call (Complete_Meta i p b) w = snd (complete_meta env call i p b w)"
| "run_setup_op env call (Complete_Instagram i a m) w = snd (complete_instagram env call i a m w)"
| "run_setup_op env call (Meta_Failed i) w = snd (mark_meta_failed env call i w)"
| "run_setup_op env call (Begin_Evolution i) w = snd (begin_evolution env call i w)"
| "run_setup_op env call (Cancel_Setup i) w = snd (cancel_setup env call i w)"
| "run_setup_op env call Expire_Active w = snd (expire_active env call w)"

text \<open>A run; the identifier of a setup that is created is a fresh one.\<close>

inductive setup_run :: "setup_env \<Rightarrow> setup_world \<Rightarrow> setup_world \<Rightarrow> bool" for env where
  Start: "setup_run env w w"
| Step: "setup_run env w w' \<Longrightarrow> setup_record_by_id (sc_uid call) (sw_file w') = None \<Longrightarrow>
    setup_run env w (run_setup_op env call op w')"

lemma proper_snd: "proper w m \<Longrightarrow> keyed (snd m) \<and> advances w (snd m)"
  by (simp add: proper_def)

lemma setup_step_advances:
  assumes "keyed w" and "setup_record_by_id (sc_uid call) (sw_file w) = None"
  shows "keyed (run_setup_op env call op w) \<and> advances w (run_setup_op env call op w)"
proof (cases op)
  case Create_Setup
  then show ?thesis using keyed_create [OF assms] by simp
next
  case Expire_Active
  then show ?thesis using proper_expire_active [OF assms(1)] by simp
next
  case (Begin_Evolution i)
  obtain res w' where e: "begin_evolution env call i w = (res, w')" by fastforce
  show ?thesis using proper_evolution_begun [OF assms(1) e] by (simp add: Begin_Evolution e)
next
  case (Get_Setup i)
  then show ?thesis using proper_snd [OF proper_find [OF assms(1)]] by (simp add: get_setup_def)
next
  case (Transition_Setup i t)
  show ?thesis
    unfolding Transition_Setup run_setup_op.simps transition_setup_def snd_published
    by (intro proper_snd proper_op [OF assms(1)]) (auto intro: proper_transition)
next
  case (Begin_Meta i)
  show ?thesis
    unfolding Begin_Meta run_setup_op.simps begin_meta_def snd_published
    by (intro proper_snd proper_op [OF assms(1)]) (auto intro: proper_moving)
next
  case (Begin_Provisioning i p b)
  show ?thesis
    unfolding Begin_Provisioning run_setup_op.simps begin_meta_provisioning_def snd_published
    by (intro proper_snd proper_op [OF assms(1)]) (simp add: proper_begin_meta_steps)
next
  case (Complete_Meta i p b)
  show ?thesis
    unfolding Complete_Meta run_setup_op.simps complete_meta_def snd_published
    by (intro proper_snd proper_op [OF assms(1)]) (auto intro!: proper_by_state proper_completion)
next
  case (Complete_Instagram i a m)
  show ?thesis
    unfolding Complete_Instagram run_setup_op.simps complete_instagram_def snd_published
    by (intro proper_snd proper_op [OF assms(1)]) (auto intro!: proper_completion)
next
  case (Meta_Failed i)
  show ?thesis
    unfolding Meta_Failed run_setup_op.simps mark_meta_failed_def snd_published
    by (intro proper_snd proper_op [OF assms(1)]) (auto intro!: proper_by_state proper_transition simp: dhas_Cons)
next
  case (Cancel_Setup i)
  show ?thesis
    unfolding Cancel_Setup run_setup_op.simps cancel_setup_def snd_published
    by (intro proper_snd proper_op [OF assms(1)])
      (auto intro!: proper_by_state proper_transition simp: dhas_Cons cleanup_changes_def)
qed

lemma setup_run_advances: "setup_run env w w' \<Longrightarrow> keyed w \<Longrightarrow> keyed w' \<and> advances w w'"
  by (induction rule: setup_run.induct) (simp, meson setup_step_advances advances_trans)

lemma ready_is_final: "(''ready'', t) \<in> leads\<^sup>* \<Longrightarrow> t = ''ready''"
  by (erule converse_rtranclE) (simp_all add: leads_def transitions_def)

text \<open>
  C21: Through the operations that do not wait for a provider a setup moves only along the table of
  transitions, in any order of the operations, for it and for others, and with any failing writes; and one
  that has become a connection stays so. These operations are: creating a setup, reading one, with the
  expiry that makes, the transition endpoint, the steps of the Meta and Instagram onboardings, cancelling,
  expiring what is due, and provisioning with Evolution up to its first call of the provider. What that
  writes after the provider has answered and the cleanup of what was left are not among them: they
  write states without looking at the present one.
\<close>

theorem setups_move_by_table:
  assumes "setup_run env w w'" and "keyed w" and "setup_state w i = Some (PStr s)"
  shows "\<exists>t. setup_state w' i = Some (PStr t) \<and> (s, t) \<in> leads\<^sup>* \<and> (s = ''ready'' \<longrightarrow> t = ''ready'')"
  using setup_run_advances [OF assms(1,2)] assms(3) ready_is_final unfolding advances_def by blast

section \<open>A stale record\<close>

text \<open>
  The last step of the provisioning with Evolution trusts the record it read before it waited
  for the provider: when the webhook is configured, the setup becomes ready and its connection is
  published, whatever state the setup has reached meanwhile, cancelled and expired included.
\<close>

theorem late_webhook_revives_setup:
  assumes "dget r ''state'' = PStr ''provisioning''" and "dget r ''id'' = PStr i"
    and "traverse (vindex (PDict r)) promoted_keys = Inr vs" and "dget r ''runtime_name'' = PStr n" and "n \<noteq> []"
    and "setup_record_by_id i (sw_file w) = Some now" and "dget now ''client_id'' = PStr c"
    and "dhas (rg_clients (read_registry (sw_file w))) c" and "sc_disk call (sw_writes w)"
  shows "setup_state (snd (after_webhook env call r True w)) i = Some (PStr ''ready'') \<and>
    connection_record n (sw_file (snd (after_webhook env call r True w))) \<noteq> None"
proof -
  let ?conn = "connection_record_of env call r ''connecting'' ''unknown'' []"
  let ?c = "[(''state'', PStr ''ready''), (''connection_id'', PStr (sc_connection_uid call)), (''updated_at'', PStr (se_iso env (sc_now call)))]"
  obtain res f' where f': "promote_setup_to_connection True i ?conn ?c (sw_file w) = (res, f')" by fastforce
  have name: "str_or_empty (dget ?conn ''legacy_name'') = n"
    using assms(4) by (simp add: connection_record_of_def dmerge_def dget_Cons)
  have now: "dict_at (rg_setups (read_registry (sw_file w))) i = Some now" using assms(6) by (simp add: setup_record_by_id_def)
  have known: "key_in (dget now ''client_id'') (rg_clients (read_registry (sw_file w))) = Inr True" using assms(7,8) by simp
  let ?s = "put_connection n ?conn ((read_registry (sw_file w))
    \<lparr> rg_setups := dset (rg_setups (read_registry (sw_file w))) i (PDict (dmerge now ?c)) \<rparr>)"
  have "answer_after (Some (dmerge now ?c, ?conn)) (write_registry True ?s (sw_file w)) = (res, f')"
    using f' by (simp add: promote_setup_to_connection_def Let_def name now assms(5) known)
  then have read: "read_registry f' = sorted_registry ?s"
    by (auto simp: answer_after_def write_registry_def read_written)
  have "dict_at (dset d k (PDict x)) k = Some x" for d k x by (simp add: dict_at_def)
  then have "setup_record_by_id i f' = Some (sorted_dict (dmerge now ?c))" "connection_record n f' = Some (sorted_dict ?conn)"
    by (simp_all add: setup_record_by_id_def connection_record_def read put_connection_def)
  moreover have "sw_file (snd (after_webhook env call r True w)) = f'"
    using assms(1-3,9) by (simp add: after_webhook_def promote_def writing_def f' and_then_def del: vindex.simps split: sum.split option.split)
  ultimately show ?thesis
    by (simp add: setup_state_def dget_dmerge_distinct dhas_Cons dget_Cons)
qed

section \<open>Witnesses\<close>

definition setup_sample_env :: setup_env where
  "setup_sample_env =
     \<lparr> se_iso = int_str, se_parse = (\<lambda>_. Aware_Time 3600), se_ttl = 3600, se_batch = 25,
       se_urls = \<lparr> dl_loads = (\<lambda>_. None), dl_parse_url = (\<lambda>u. None), dl_with_query = (\<lambda>u q. u), dl_float = (\<lambda>_. None),
         dl_mark = ''~'', dl_retention_setting = 2, dl_max_bytes_setting = 2048 \<rparr> \<rparr>"

definition setup_sample_call :: setup_call where
  "setup_sample_call = \<lparr> sc_now = 1, sc_uid = ''u1'', sc_connection_uid = ''k1'', sc_disk = (\<lambda>_. True) \<rparr>"

definition draft_setup :: pdict where
  "draft_setup =
     [(''channel_id'', PStr ''whatsapp''), (''client_id'', PStr ''c1''), (''created_at'', PStr ''1''), (''expires_at'', PStr ''9''),
      (''id'', PStr ''u1''), (''name'', PStr ''shop''), (''provider_id'', PStr ''evolution''), (''runtime_name'', PStr ''setup_u1''),
      (''state'', PStr ''draft''), (''updated_at'', PStr ''1'')]"

definition created_setup :: setup_world where
  "created_setup =
     \<lparr> sw_file = Holds [(''clients'', PDict [(''c1'', PDict [(''id'', PStr ''c1'')])]), (''setups'', PDict [(''u1'', PDict draft_setup)])],
       sw_writes = 0 \<rparr>"

text \<open>The record that provisioning holds while it waits, and the world after a cancellation meanwhile.\<close>

definition waiting_setup :: "(pdict + pdict) res \<times> setup_world" where
  "waiting_setup =
     (case begin_evolution setup_sample_env setup_sample_call ''u1'' created_setup of
        (Inr (Inr r), w) \<Rightarrow> after_create setup_sample_env setup_sample_call r True w
      | m \<Rightarrow> m)"

definition cancelled_meanwhile :: setup_world where
  "cancelled_meanwhile = snd (cancel_setup setup_sample_env setup_sample_call ''u1'' (snd waiting_setup))"

lemma created_found: "setup_record_by_id j (sw_file created_setup) = (if j = ''u1'' then Some draft_setup else None)"
  by (simp add: created_setup_def setup_record_by_id_def registry_of_def dict_at_def dget_Cons)

lemma created_keyed: "keyed created_setup"
proof -
  have "once (sw_file created_setup)" by (simp add: once_def created_setup_def registry_of_def dget_Cons)
  moreover have "dget draft_setup ''id'' = PStr ''u1''" "dget draft_setup ''state'' = PStr ''draft''"
    by (simp_all add: draft_setup_def dget_Cons)
  ultimately show ?thesis by (auto simp: keyed_def created_found split: if_splits)
qed

lemma setups_move_by_table_witness:
  "\<exists>t. setup_state (run_setup_op setup_sample_env (setup_sample_call\<lparr> sc_uid := ''u2'' \<rparr>) (Cancel_Setup ''u1'') created_setup) ''u1'' =
     Some (PStr t) \<and> (''draft'', t) \<in> leads\<^sup>*"
proof -
  let ?call = "setup_sample_call\<lparr> sc_uid := ''u2'' \<rparr>"
  have "setup_record_by_id (sc_uid ?call) (sw_file created_setup) = None"
    by (simp add: created_found setup_sample_call_def)
  from Step [OF Start this] have "setup_run setup_sample_env created_setup (run_setup_op setup_sample_env ?call (Cancel_Setup ''u1'') created_setup)" .
  moreover have "setup_state created_setup ''u1'' = Some (PStr ''draft'')"
    by (simp add: setup_state_def created_found draft_setup_def dget_Cons)
  ultimately show ?thesis using setups_move_by_table created_keyed by blast
qed

lemma late_webhook_revives_setup_witness:
  "setup_state cancelled_meanwhile ''u1'' = Some (PStr ''cleanup_pending'') \<and>
   (\<exists>r. fst waiting_setup = Inr (Inr r) \<and>
      setup_state (snd (after_webhook setup_sample_env setup_sample_call r True cancelled_meanwhile)) ''u1'' = Some (PStr ''ready''))"
proof -
  have "(case fst waiting_setup of
      Inr (Inr r) \<Rightarrow> dget r ''state'' = PStr ''provisioning'' \<and> dget r ''id'' = PStr ''u1'' \<and>
        is_ok (traverse (vindex (PDict r)) promoted_keys) \<and> dget r ''runtime_name'' = PStr ''setup_u1''
    | _ \<Rightarrow> False)" by code_simp
  then obtain r vs where r: "fst waiting_setup = Inr (Inr r)" "dget r ''state'' = PStr ''provisioning''" "dget r ''id'' = PStr ''u1''"
    "traverse (vindex (PDict r)) promoted_keys = Inr vs" "dget r ''runtime_name'' = PStr ''setup_u1''"
    by (auto simp: is_ok_iff split: sum.splits)
  have "(let f = sw_file cancelled_meanwhile in
      dhas (rg_clients (read_registry f)) ''c1'' \<and>
      (case setup_record_by_id ''u1'' f of None \<Rightarrow> False
       | Some x \<Rightarrow> dget x ''client_id'' = PStr ''c1'' \<and> dget x ''state'' = PStr ''cleanup_pending''))"
    by code_simp
  then obtain x where k: "dhas (rg_clients (read_registry (sw_file cancelled_meanwhile))) ''c1''"
    and x: "setup_record_by_id ''u1'' (sw_file cancelled_meanwhile) = Some x" "dget x ''client_id'' = PStr ''c1''"
      "dget x ''state'' = PStr ''cleanup_pending''"
    by (auto simp: Let_def split: option.splits)
  have "sc_disk setup_sample_call (sw_writes cancelled_meanwhile)" by (simp add: setup_sample_call_def)
  from late_webhook_revives_setup [OF r(2-5) _ x(1,2) k this] x r(1) show ?thesis by (simp add: setup_state_def)
qed

end
