(* ===== verification/Webhook_Deliveries_Spec.thy ===== *)
theory Webhook_Deliveries_Spec
  imports Webhook_Deliveries
begin

text \<open>
  What the evidence of the webhook calls promises: every record has its fields, each of its type,
  without a credential anywhere; a webhook keeps its newest records and no other webhook loses
  any; and a query answers the records that match it, newest first.
\<close>

section \<open>Redacted and cut\<close>

lemma no_secret_items_iff:
  "no_secret_items d \<longleftrightarrow> (\<forall>(k, v)\<in>set d. if is_sensitive_name k then v = PStr REDACTED else no_secret v)"
proof (induction d)
  case (Cons p d)
  then show ?case by (cases p) simp
qed simp

lemma REDACTED_bytes: "utf8_length REDACTED = 10"
  by code_simp

lemma no_secret_cut:
  "10 \<le> limit \<Longrightarrow> no_secret v \<Longrightarrow> no_secret (cut_value env limit v)"
  "10 \<le> limit \<Longrightarrow> no_secret_items d \<Longrightarrow> no_secret_items (cut_items env limit d)"
  "10 \<le> limit \<Longrightarrow> no_secret_list xs \<Longrightarrow> no_secret_list (cut_list env limit n xs)"
  by (induction env limit v and env limit d and env limit n xs rule: cut_value_cut_items_cut_list.induct)
    (auto simp: bounded_str_def REDACTED_bytes split: if_splits)

lemma no_secret_safe [simp]: "10 \<le> limit \<Longrightarrow> no_secret (safe_value env v limit)"
  by (simp add: safe_value_def no_secret_cut(1) no_secret_redact(1))

lemma cut_items_map: "cut_items env limit d = map (\<lambda>(k, v). (k, cut_value env limit v)) d"
  by (induction d) auto

lemma cut_list_map: "cut_list env limit n xs = map (cut_value env limit) (take n xs)"
  by (induction xs arbitrary: n) (auto simp: take_Cons')

lemma redacted_parts:
  "redact_json v = PDict d \<Longrightarrow> (k, w) \<in> set d \<Longrightarrow> redact_json w = w"
  "redact_json v = PList xs \<Longrightarrow> w \<in> set xs \<Longrightarrow> redact_json w = w"
proof -
  assume d: "redact_json v = PDict d" "(k, w) \<in> set d"
  have "no_secret_items d" using no_secret_redact(1) [of v] d(1) by simp
  then show "redact_json w = w"
    using d(2) by (auto simp: no_secret_items_iff redact_no_secret(1) split: if_splits)
next
  assume d: "redact_json v = PList xs" "w \<in> set xs"
  have "no_secret_list xs" using no_secret_redact(1) [of v] d(1) by simp
  then have "no_secret w" using d(2) by (induction xs) auto
  then show "redact_json w = w" by (rule redact_no_secret(1))
qed

text \<open>The equations of the code, which redacts again at every level.\<close>

lemma safe_value_levels:
  "safe_value env v limit =
     (case redact_json v of
        PDict d \<Rightarrow> PDict (map (\<lambda>(k, w). (k, safe_value env w limit)) d)
      | PList xs \<Rightarrow> PList (map (\<lambda>w. safe_value env w limit) (take 25 xs))
      | PStr s \<Rightarrow> PStr (bounded_str env s limit)
      | w \<Rightarrow> w)"
proof (cases "redact_json v")
  case (PDict d)
  then show ?thesis using redacted_parts(1) [OF PDict] by (auto simp: safe_value_def cut_items_map)
next
  case (PList xs)
  then show ?thesis using redacted_parts(2) [OF PList] by (auto simp: safe_value_def cut_list_map dest: in_set_takeD)
qed (simp_all add: safe_value_def)

lemma no_secret_headers [simp]: "no_secret_items (redact_headers (dict_of v)) \<longleftrightarrow>
    (\<forall>(k, w)\<in>set (as_dict v). \<not> is_sensitive_name k \<longrightarrow> no_secret w)"
  by (auto simp: redact_headers_def dict_of_def no_secret_items_iff)

section \<open>The shape of a record\<close>

fun is_bool :: "pval \<Rightarrow> bool" where
  "is_bool (PBool _) = True"
| "is_bool _ = False"

fun is_count :: "pval \<Rightarrow> bool" where
  "is_count (PInt _) = True"
| "is_count _ = False"

fun is_float :: "pval \<Rightarrow> bool" where
  "is_float (PFloat _ _) = True"
| "is_float _ = False"

lemma as_float_typed [simp]: "is_float (as_float env v)" "no_secret (as_float env v)"
  by (simp_all add: as_float_def split: option.split prod.split)

definition text_or_none :: "pval \<Rightarrow> bool" where
  "text_or_none v \<longleftrightarrow> v = PNone \<or> is_str v"

text \<open>The fields of a record with the type each has.\<close>

definition delivery_shape :: "(string \<times> (pval \<Rightarrow> bool)) list" where
  "delivery_shape =
     [(''id'', is_str), (''dispatchId'', text_or_none), (''webhookId'', is_str), (''webhookName'', text_or_none),
      (''instanceName'', text_or_none), (''destinationUrl'', text_or_none), (''timestamp'', is_count),
      (''operation'', is_str), (''semanticStatus'', \<lambda>v. v \<in> PStr ` set common_statuses), (''source'', is_dict),
      (''destination'', is_dict), (''eventType'', text_or_none), (''status'', \<lambda>v. is_str v \<and> truthy v),
      (''success'', is_bool), (''failure'', is_bool), (''statusCode'', is_count), (''responseCode'', is_count),
      (''durationMs'', is_float), (''attemptCount'', \<lambda>v. \<exists>n\<ge>1. v = PInt n), (''retryCount'', \<lambda>v. \<exists>n\<ge>0. v = PInt n),
      (''firstAttemptAt'', is_count), (''lastAttemptAt'', is_count), (''correlationId'', text_or_none),
      (''eventId'', text_or_none), (''requestId'', text_or_none), (''messageId'', text_or_none),
      (''conversationId'', text_or_none), (''isTest'', is_bool), (''error'', text_or_none), (''errorType'', text_or_none),
      (''errorDetail'', \<lambda>v. v = PNone \<or> is_dict v), (''retryable'', \<lambda>v. v = PNone \<or> is_bool v), (''request'', is_dict),
      (''response'', is_dict), (''attempts'', \<lambda>v. is_list v \<and> length (as_list v) \<le> 10 \<and> list_all is_dict (as_list v)),
      (''metadata'', is_dict)]"

definition typed_delivery :: "pdict \<Rightarrow> bool" where
  "typed_delivery d \<longleftrightarrow>
     map fst d = map fst delivery_shape \<and> list_all2 (\<lambda>(k, v) (_, p). p v) d delivery_shape"

lemma text_or_null_typed [simp]: "text_or_none (text_or_null s)" "text_or_none (field e k)" "text_or_none (pstr_opt o')"
  "no_secret (text_or_null s)" "no_secret (field e k)" "no_secret (pstr_opt o')"
  by (cases o'; simp add: text_or_none_def text_or_null_def field_def)+

lemma call_status_known: "PStr (call_status e s t) \<in> PStr ` set common_statuses"
  by (auto simp: call_status_def common_statuses_def Let_def)

lemma bool_or_null_typed [simp]: "is_bool (bool_or_null v) \<longleftrightarrow> bool_or_null v \<noteq> PNone" "no_secret (bool_or_null v)"
  by (cases v; simp add: bool_or_null_def)+

lemma safe_is_dict: "is_dict v \<Longrightarrow> is_dict (safe_value env v limit)"
  by (cases v) (simp_all add: safe_value_def)

lemma error_detail_typed [simp]: "is_dict (error_detail e t s m) \<longleftrightarrow> error_detail e t s m \<noteq> PNone"
  by (simp add: error_detail_def Let_def)

text \<open>
  C35: Whatever an execution reports, its record has the same fields in the same order, each of
  its type: at least one attempt and no negative number of retries are counted, the semantic status is one of
  the six of the common vocabulary, while the status itself is any non-empty text, request and response
  are dictionaries, and at most ten attempts are listed.
\<close>

theorem delivery_record_typed:
  assumes "sanitize_delivery env now uid entry = Inr d"
  shows "typed_delivery d"
proof -
  have "list_all is_dict (map (\<lambda>a. safe_value env a l) (filter is_dict xs))" for l xs
    by (auto simp: list_all_iff safe_is_dict)
  then have attempts: "list_all is_dict (take 10 (map (\<lambda>a. safe_value env a l) (filter is_dict xs)))" for l xs
    by (metis list_all_append append_take_drop_id)
  show ?thesis
    using assms attempts call_status_known
    by (auto simp: sanitize_delivery_def rbind_eqs Let_def typed_delivery_def delivery_shape_def)
qed

section \<open>No credential in a record\<close>

lemma limits_large: "10 \<le> nat (min (dl_max_bytes env) 4000)" "10 \<le> nat (min (dl_max_bytes env) 2000)"
  by (simp_all add: dl_max_bytes_def)

lemma query_no_secret:
  "no_secret_items d \<Longrightarrow>
     no_secret_items (fold (\<lambda>(k, v) d. dset d k (PStr (if is_sensitive_name k then REDACTED else bounded_str env v n))) kvs d)"
proof (induction kvs arbitrary: d)
  case (Cons p kvs)
  obtain k v where p: "p = (k, v)" by (cases p)
  have "no_secret_items (dset d k (PStr (if is_sensitive_name k then REDACTED else w)))" for w
    using Cons.prems by (induction d) (auto split: if_splits)
  then show ?case using Cons.IH by (simp add: p)
qed simp

lemma safe_request_url_no_secret [simp]:
  "no_secret (fst (safe_request_url env u q))" "no_secret (snd (safe_request_url env u q))"
  by (auto simp: safe_request_url_def Let_def split: option.split intro!: query_no_secret)

lemma no_secret_of_safe: "10 \<le> limit \<Longrightarrow> no_secret_items (as_dict (safe_value env v limit))"
  using no_secret_safe [of limit env v] by (cases "safe_value env v limit") auto

lemma no_secret_dset: "no_secret_items d \<Longrightarrow> \<not> is_sensitive_name k \<Longrightarrow> no_secret v \<Longrightarrow> no_secret_items (dset d k v)"
  by (induction d) (auto split: if_splits)

lemma plain_names_1:
  "list_all (\<lambda>k. \<not> is_sensitive_name k)
     [''id'', ''dispatchId'', ''webhookId'', ''webhookName'', ''instanceName'', ''destinationUrl'', ''timestamp'', ''operation'', ''semanticStatus'']"
  by code_simp

lemma plain_names_2:
  "list_all (\<lambda>k. \<not> is_sensitive_name k)
     [''source'', ''destination'', ''eventType'', ''status'', ''success'', ''failure'', ''statusCode'', ''responseCode'', ''durationMs'']"
  by code_simp

lemma plain_names_3:
  "list_all (\<lambda>k. \<not> is_sensitive_name k)
     [''attemptCount'', ''retryCount'', ''firstAttemptAt'', ''lastAttemptAt'', ''correlationId'', ''eventId'', ''requestId'', ''messageId'', ''conversationId'']"
  by code_simp

lemma plain_names_4:
  "list_all (\<lambda>k. \<not> is_sensitive_name k)
     [''isTest'', ''error'', ''errorType'', ''errorDetail'', ''retryable'', ''request'', ''response'', ''attempts'', ''metadata'']"
  by code_simp

lemma plain_names_5:
  "list_all (\<lambda>k. \<not> is_sensitive_name k)
     [''service'', ''type'', ''url'', ''code'', ''category'', ''message'', ''method'', ''query'', ''headers'']"
  by code_simp

lemma plain_names_6:
  "list_all (\<lambda>k. \<not> is_sensitive_name k)
     [''payloadSummary'', ''payloadSizeBytes'', ''payloadPreview'', ''payloadTruncated'', ''bodyPreview'', ''connectionId'']"
  by code_simp

lemmas plain_name = plain_names_1 plain_names_2 plain_names_3 plain_names_4 plain_names_5 plain_names_6

lemmas plain_names_simps [simp] = plain_name [unfolded list.pred_inject]

lemma metadata_no_secret: "10 \<le> limit \<Longrightarrow> no_secret_items (safe_metadata env limit entry)"
proof -
  assume "10 \<le> limit"
  then have base: "no_secret_items (as_dict (safe_value env (dict_of (dget entry ''metadata'')) limit))" by (rule no_secret_of_safe)
  have "no_secret_items (dmerge d es)" if "no_secret_items d" "\<forall>(k, v)\<in>set es. \<not> is_sensitive_name k \<and> no_secret v" for d es
    using that by (induction es arbitrary: d) (auto simp: dmerge_def no_secret_dset)
  then show ?thesis unfolding safe_metadata_def using base by auto
qed

definition clean_headers :: "pval \<Rightarrow> bool" where
  "clean_headers v \<longleftrightarrow> (\<forall>(k, w)\<in>set (as_dict v). \<not> is_sensitive_name k \<longrightarrow> no_secret w)"

lemma safe_request_no_secret:
  "10 \<le> limit \<Longrightarrow> clean_headers (dget (as_dict (dget entry ''request'')) ''headers'') \<Longrightarrow>
     no_secret_items (safe_request env limit entry)"
  using safe_request_url_no_secret
    [of env "py_or (dget (as_dict (dget entry ''request'')) ''url'') (dget entry ''destinationUrl'')"
      "dget (as_dict (dget entry ''request'')) ''query''"]
  by (cases "safe_request_url env (py_or (dget (as_dict (dget entry ''request'')) ''url'') (dget entry ''destinationUrl''))
      (dget (as_dict (dget entry ''request'')) ''query'')")
    (simp add: safe_request_def Let_def clean_headers_def)

lemma safe_response_no_secret:
  "clean_headers (dget (as_dict (dget entry ''response'')) ''headers'') \<Longrightarrow> no_secret_items (safe_response env limit c entry)"
  by (simp add: safe_response_def Let_def clean_headers_def)

lemma error_detail_no_secret [simp]: "no_secret (error_detail e t s m)"
  by (simp add: error_detail_def Let_def)

lemma safe_attempts_no_secret: "10 \<le> limit \<Longrightarrow> no_secret_list (take n (map (\<lambda>a. safe_value env a limit) xs))"
proof -
  assume "10 \<le> limit"
  then have "no_secret_list (map (\<lambda>a. safe_value env a limit) xs)" for xs by (induction xs) auto
  then show ?thesis by (metis take_map)
qed

text \<open>
  No credential is kept as evidence of a webhook call: wherever in its record a name is
  sensitive, in the URL's query, the headers, the payload, the answer, an attempt or the
  metadata, the value is the redaction mark, also after the texts have been cut to their length.
\<close>

theorem delivery_record_redacted:
  assumes "sanitize_delivery env now uid entry = Inr d"
    and "clean_headers (dget (as_dict (dget entry ''request'')) ''headers'')"
    and "clean_headers (dget (as_dict (dget entry ''response'')) ''headers'')"
  shows "no_secret_items d"
  using assms(1) limits_large [of env] safe_request_no_secret [OF _ assms(2)] safe_response_no_secret [OF assms(3)]
    metadata_no_secret safe_attempts_no_secret
  by (auto simp: sanitize_delivery_def rbind_eqs Let_def)

section \<open>What a webhook keeps\<close>

lemma filter_retained:
  "filter (\<lambda>d. \<not> of_webhook w d) (retained n w ds) = filter (\<lambda>d. \<not> of_webhook w d) ds"
  "filter (of_webhook w) (retained n w ds) =
     filter (\<lambda>d. py_str (dget d ''id'') \<in> set (map (\<lambda>d. py_str (dget d ''id''))
       (take (nat n) (sort_desc delivery_time (filter (of_webhook w) ds))))) (filter (of_webhook w) ds)"
  by (auto simp: retained_def Let_def intro!: filter_cong)

lemma retained_parts:
  "set (retained n w ds) \<subseteq> set ds" "x \<in> set ds \<Longrightarrow> \<not> of_webhook w x \<Longrightarrow> x \<in> set (retained n w ds)"
  by (auto simp: retained_def Let_def)

lemma distinct_of_mset: "distinct (map g xs) \<Longrightarrow> mset ys = mset xs \<Longrightarrow> distinct (map g ys)"
  by (metis mset_map mset_eq_imp_distinct_iff)

lemma keep_first:
  assumes "distinct (map g xs)" and "mset ys = mset xs"
  shows "mset (filter (\<lambda>x. g x \<in> set (map g (take n ys))) xs) = mset (take n ys)"
proof -
  have d: "distinct (map g ys)" by (rule distinct_of_mset [OF assms])
  have "filter (\<lambda>x. g x \<in> set (map g (take n ys))) ys = take n ys"
  proof -
    have "g x \<notin> set (map g (take n ys))" if "x \<in> set (drop n ys)" for x
      using d that by (metis append_take_drop_id disjoint_iff distinct_append imageI list.set_map map_append)
    then have "filter (\<lambda>x. g x \<in> set (map g (take n ys))) (drop n ys) = []" by (simp add: filter_empty_conv)
    moreover have "filter (\<lambda>x. g x \<in> set (map g (take n ys))) (take n ys) = take n ys" by (simp add: filter_id_conv)
    ultimately show ?thesis by (metis append_Nil2 append_take_drop_id filter_append)
  qed
  then show ?thesis using assms(2) by (metis mset_filter)
qed

lemma taken_newest:
  assumes "x \<in> set (take n (sort_desc f xs))" and "y \<in> set (drop n (sort_desc f xs))"
  shows "f y \<le> f x"
proof -
  have "sorted_wrt (\<ge>) (map f (take n (sort_desc f xs)) @ map f (drop n (sort_desc f xs)))"
    using sorted_sort_desc [of f xs] by (metis append_take_drop_id map_append)
  then show ?thesis using assms by (auto simp: sorted_wrt_append)
qed

lemma appended_retained:
  assumes "append_webhook_delivery env ok now uid entry f = (Inr d, f')"
  shows "read_deliveries f' = retained (dl_retention env) (py_str (dget d ''webhookId'')) (read_deliveries f @ [d])"
proof -
  have "map as_dict (filter is_dict (map PDict ds)) = ds" for ds by (induction ds) auto
  then show ?thesis
    using assms by (auto simp: append_webhook_delivery_def replace_file_def split: sum.splits prod.splits if_splits)
qed

text \<open>
  A webhook keeps its newest calls: after a record was written, the webhook has at most the
  configured number of records, none of which is older than one it gave up, nothing was added but
  the new record, and the records of every other webhook are untouched and in their order.
\<close>

theorem webhook_keeps_newest:
  assumes "append_webhook_delivery env ok now uid entry f = (Inr d, f')"
    and "w = py_str (dget d ''webhookId'')"
    and "distinct (map (\<lambda>x. py_str (dget x ''id'')) (filter (of_webhook w) (read_deliveries f @ [d])))"
  shows "length (filter (of_webhook w) (read_deliveries f')) \<le> nat (dl_retention env) \<and>
    filter (\<lambda>x. \<not> of_webhook w x) (read_deliveries f') = filter (\<lambda>x. \<not> of_webhook w x) (read_deliveries f @ [d]) \<and>
    set (read_deliveries f') \<subseteq> insert d (set (read_deliveries f)) \<and>
    (\<forall>kept\<in>set (read_deliveries f'). \<forall>lost\<in>set (read_deliveries f @ [d]) - set (read_deliveries f').
       of_webhook w kept \<longrightarrow> of_webhook w lost \<and> delivery_time lost \<le> delivery_time kept)"
proof -
  let ?ds = "read_deliveries f @ [d]"
  let ?same = "filter (of_webhook w) ?ds"
  let ?sorted = "sort_desc delivery_time ?same"
  let ?n = "nat (dl_retention env)"
  have f': "read_deliveries f' = retained (dl_retention env) w ?ds"
    using appended_retained [OF assms(1)] assms(2) by simp
  have kept: "mset (filter (of_webhook w) (read_deliveries f')) = mset (take ?n ?sorted)"
    unfolding f' filter_retained(2) by (rule keep_first [OF assms(3)]) simp
  have len: "length (filter (of_webhook w) (read_deliveries f')) \<le> ?n"
    using kept [THEN mset_eq_length] by simp
  have sub: "set (read_deliveries f') \<subseteq> insert d (set (read_deliveries f))"
    unfolding f' using retained_parts(1) [of "dl_retention env" w ?ds] by auto
  have first: "set (take ?n ?sorted) = set (filter (of_webhook w) (read_deliveries f'))"
    using mset_eq_setD [OF kept] by (rule sym)
  have older: "of_webhook w lost \<and> delivery_time lost \<le> delivery_time x"
    if "x \<in> set (read_deliveries f')" "of_webhook w x" "lost \<in> set ?ds - set (read_deliveries f')" for x lost
  proof
    show lost: "of_webhook w lost" using that(3) retained_parts(2) [of lost ?ds w] unfolding f' by blast
    have x: "x \<in> set (take ?n ?sorted)" unfolding first using that(1,2) by simp
    have "lost \<notin> set (take ?n ?sorted)" unfolding first using that(3) by simp
    moreover have "lost \<in> set ?sorted"
      unfolding set_sort_desc set_filter using that(3) lost by blast
    ultimately have "lost \<in> set (drop ?n ?sorted)" by (metis Un_iff append_take_drop_id set_append)
    with x show "delivery_time lost \<le> delivery_time x" by (rule taken_newest)
  qed
  have others: "filter (\<lambda>x. \<not> of_webhook w x) (read_deliveries f') = filter (\<lambda>x. \<not> of_webhook w x) ?ds"
    unfolding f' by (rule filter_retained(1))
  show ?thesis
    by (intro conjI len others sub ballI impI) (use older in \<open>simp_all only:\<close>)
qed

section \<open>Queries\<close>

text \<open>A query in one piece: every filter that is given holds.\<close>

definition query_matches :: "delivery_filters \<Rightarrow> pdict \<Rightarrow> bool" where
  "query_matches q d \<longleftrightarrow>
     (\<forall>s. given_text (df_status q) = Some s \<longrightarrow>
        str_lower (str_or_empty (py_or (dget d ''semanticStatus'') (dget d ''status''))) = str_lower s) \<and>
     (\<forall>s. given_text (df_operation q) = Some s \<longrightarrow> has_text ''operation'' s d) \<and>
     (\<forall>s. given_text (df_event_type q) = Some s \<longrightarrow> has_text ''eventType'' s d) \<and>
     (\<forall>b. df_is_test q = Some b \<longrightarrow> truthy (dget d ''isTest'') = b) \<and>
     (\<forall>s. df_delivery_id q = Some s \<longrightarrow> has_text ''id'' s d) \<and>
     (\<forall>s. df_event_id q = Some s \<longrightarrow> has_text ''eventId'' s d) \<and>
     (\<forall>s. df_request_id q = Some s \<longrightarrow> has_text ''requestId'' s d) \<and>
     (\<forall>s. df_correlation_id q = Some s \<longrightarrow> has_text ''correlationId'' s d) \<and>
     (\<forall>s. df_search q = Some s \<longrightarrow>
        (\<exists>k\<in>{''id'', ''webhookId'', ''eventId'', ''requestId'', ''correlationId''}. has_text k s d)) \<and>
     (\<forall>t. df_date_from q = Some t \<longrightarrow> t \<le> delivery_time d) \<and> (\<forall>t. df_date_to q = Some t \<longrightarrow> delivery_time d \<le> t)"

lemma narrow_filter: "narrow p wanted xs = filter (\<lambda>x. \<forall>w. wanted = Some w \<longrightarrow> p w x) xs"
  by (cases wanted) (simp_all add: narrow_def)

text \<open>
  The pipeline of filters is one filter: a query answers exactly the records for which every
  condition it gives holds, with their multiplicity, newest first and those of one moment by
  their id.
\<close>

theorem filter_deliveries_meets_query:
  "filter_deliveries q items =
     sort_desc (\<lambda>d. (delivery_time d, str_or_empty (dget d ''id''))) (filter (query_matches q) items) \<and>
   sorted_wrt (\<ge>) (map delivery_time (filter_deliveries q items))"
proof -
  have eq: "filter_deliveries q items =
      sort_desc (\<lambda>d. (delivery_time d, str_or_empty (dget d ''id''))) (filter (query_matches q) items)"
    unfolding filter_deliveries_def Let_def narrow_filter filter_filter
    by (rule arg_cong [where f = "sort_desc _"], rule filter_cong) (auto simp: query_matches_def)
  have "sorted_wrt (\<ge>) (map fst xs)" if "sorted_wrt (\<ge>) xs" for xs :: "(int \<times> string) list"
    using that by (auto simp: sorted_wrt_map less_eq_prod_def elim!: sorted_wrt_mono_rel [rotated])
  from this [OF sorted_sort_desc [of "\<lambda>d. (delivery_time d, str_or_empty (dget d ''id''))" "filter (query_matches q) items"]]
  have "sorted_wrt (\<ge>) (map delivery_time (filter_deliveries q items))"
    unfolding eq by (simp add: comp_def)
  with eq show ?thesis by blast
qed

section \<open>Applied\<close>

definition delivery_sample_env :: delivery_env where
  "delivery_sample_env =
     \<lparr> dl_loads = (\<lambda>_. None), dl_parse_url = (\<lambda>u. Some ([], [])), dl_with_query = (\<lambda>u q. u), dl_float = (\<lambda>_. None),
       dl_mark = ''~'', dl_retention_setting = 2, dl_max_bytes_setting = 2048 \<rparr>"

definition delivery_sample :: pdict where
  "delivery_sample = [(''webhookId'', PStr ''w1''), (''success'', PBool True), (''statusCode'', PInt 204)]"

lemma delivery_sample_recorded:
  "\<exists>d. sanitize_delivery delivery_sample_env 7 ''u1'' delivery_sample = Inr d \<and> dget d ''webhookId'' = PStr ''w1''"
proof -
  have "marked_test delivery_sample = Inr False" "clean_str (dget delivery_sample ''webhookId'') = ''w1''" by code_simp+
  then show ?thesis by (simp add: sanitize_delivery_def Let_def dget_Cons)
qed

lemma delivery_record_typed_witness:
  "\<exists>d. sanitize_delivery delivery_sample_env 7 ''u1'' delivery_sample = Inr d \<and> typed_delivery d"
  using delivery_sample_recorded delivery_record_typed [of delivery_sample_env 7 "''u1''" delivery_sample] by blast

lemma delivery_record_redacted_witness:
  "\<exists>d. sanitize_delivery delivery_sample_env 7 ''u1'' delivery_sample = Inr d \<and> no_secret_items d"
proof -
  obtain d where d: "sanitize_delivery delivery_sample_env 7 ''u1'' delivery_sample = Inr d" using delivery_sample_recorded by blast
  have "clean_headers (dget (as_dict (dget delivery_sample k)) k')" if "k = ''request'' \<or> k = ''response''" for k k'
    using that by (auto simp: clean_headers_def delivery_sample_def dget_Cons)
  with delivery_record_redacted [OF d] d show ?thesis by blast
qed

lemma webhook_keeps_newest_witness:
  "\<exists>d f'. append_webhook_delivery delivery_sample_env True 7 ''u1'' delivery_sample Absent = (Inr d, f') \<and>
    length (filter (of_webhook ''w1'') (read_deliveries f')) \<le> 2"
proof -
  obtain d where d: "sanitize_delivery delivery_sample_env 7 ''u1'' delivery_sample = Inr d" "dget d ''webhookId'' = PStr ''w1''"
    using delivery_sample_recorded by blast
  then obtain f' where f': "append_webhook_delivery delivery_sample_env True 7 ''u1'' delivery_sample Absent = (Inr d, f')"
    by (simp add: append_webhook_delivery_def replace_file_def)
  have "length (filter (of_webhook ''w1'') (read_deliveries f')) \<le> nat (dl_retention delivery_sample_env)"
  proof -
    have "distinct (map (\<lambda>x. py_str (dget x ''id'')) (filter (of_webhook ''w1'') (read_deliveries Absent @ [d])))" by simp
    from webhook_keeps_newest [OF f' _ this, THEN conjunct1] d(2) show ?thesis by (simp only: py_str.simps)
  qed
  then show ?thesis using f' by (auto simp: dl_retention_def delivery_sample_env_def)
qed

end
