(* ===== verification/Webhook_Hooks.thy ===== *)
theory Webhook_Hooks
  imports Webhook_Deliveries
begin

text \<open>
  The webhooks of an instance, \<open>gateway/app/services/instance_webhooks.py\<close>: their configuration,
  whose secrets are encrypted in the file, the counters that every call updates, and the views
  for users and for the dispatcher. The ciphers, base64, URL parsing and the arithmetic of floats
  are arguments.
\<close>

section \<open>Environment and state\<close>

record hook_env =
  hk_encrypt :: "(string \<Rightarrow> string) option"
  hk_decrypts :: "(string \<Rightarrow> string option) list"
  hk_netloc :: "string \<Rightarrow> string"
  hk_base64 :: "string \<Rightarrow> string"
  hk_mean :: "pval \<Rightarrow> int \<Rightarrow> pval \<Rightarrow> pval"
  hk_round :: "pval \<Rightarrow> pval"
  hk_weighted :: "(pval \<times> int) list \<Rightarrow> int \<Rightarrow> pval"
  hk_delivery :: delivery_env

type_synonym hook_file = "pdict json_file"

record hook_state =
  hs_store :: hook_file
  hs_backup :: hook_file
  hs_deliveries :: delivery_file

record hook_call =
  hc_now :: int
  hc_now_iso :: string
  hc_uid :: string
  hc_disk_ok :: bool
  hc_backup_ok :: bool
  hc_evidence_ok :: bool

fun read_hooks :: "hook_file \<Rightarrow> pdict" where
  "read_hooks (Holds raw) = as_dict (dget raw ''instances'')"
| "read_hooks _ = []"

definition write_hooks :: "bool \<Rightarrow> pdict \<Rightarrow> hook_file \<Rightarrow> unit res \<times> hook_file" where
  "write_hooks disk_ok instances f = replace_file disk_ok [(''instances'', PDict instances)] f"

definition backup_hooks :: "bool \<Rightarrow> pdict \<Rightarrow> hook_file \<Rightarrow> unit res \<times> hook_file" where
  "backup_hooks disk_ok instances f = (if f \<noteq> Absent then (Inr (), f) else write_hooks disk_ok instances f)"

section \<open>Secrets\<close>

definition secret_keys :: "string list" where
  "secret_keys = [''token'', ''apiKey'', ''password'', ''queryParamValue'']"

definition no_cipher :: py_exc where
  "no_cipher = RuntimeError ''No hay clave configurada para proteger secretos de webhook''"

definition undecipherable :: py_exc where
  "undecipherable = RuntimeError ''No se pudo descifrar un secreto de webhook''"

definition secret_cipher :: "hook_env \<Rightarrow> (string \<Rightarrow> string) res" where
  "secret_cipher env = (case hk_encrypt env of None \<Rightarrow> Inl no_cipher | Some enc \<Rightarrow> Inr enc)"

fun first_decrypted :: "(string \<Rightarrow> string option) list \<Rightarrow> string \<Rightarrow> string res" where
  "first_decrypted [] raw = Inl undecipherable"
| "first_decrypted (dec # decs) raw =
     (case decrypt_or_legacy dec (PStr raw) of Inr (s, _) \<Rightarrow> Inr s | Inl _ \<Rightarrow> first_decrypted decs raw)"

definition decrypt_secret_value :: "hook_env \<Rightarrow> pval \<Rightarrow> string res" where
  "decrypt_secret_value env v =
     (let raw = str_or_empty v in
      if \<not> is_encrypted (PStr raw) then Inr raw else first_decrypted (hk_decrypts env) raw)"

text \<open>A loop that changes some values of a dictionary in place, and may raise.\<close>

fun map_values :: "(string \<Rightarrow> pval \<Rightarrow> pval res) \<Rightarrow> pdict \<Rightarrow> pdict res" where
  "map_values f [] = Inr []"
| "map_values f ((k, v) # d) = rbind (f k v) (\<lambda>w. rbind (map_values f d) (\<lambda>d'. Inr ((k, w) # d')))"

definition decrypt_auth_config :: "hook_env \<Rightarrow> pval \<Rightarrow> pdict res" where
  "decrypt_auth_config env raw =
     map_values (\<lambda>k v. if k \<in> set secret_keys then rbind (decrypt_secret_value env v) (\<lambda>s. Inr (PStr s)) else Inr v) (as_dict raw)"

definition encrypt_auth_config :: "hook_env \<Rightarrow> pval \<Rightarrow> pdict res" where
  "encrypt_auth_config env raw =
     rbind (secret_cipher env) (\<lambda>enc.
       map_values (\<lambda>k v. Inr (if k \<in> set secret_keys \<and> clean_str v \<noteq> [] then PStr (encrypt_secret enc (py_str v)) else v))
         (as_dict raw))"

definition decrypt_custom_headers :: "hook_env \<Rightarrow> pval \<Rightarrow> pdict res" where
  "decrypt_custom_headers env raw =
     map_values (\<lambda>k v. if is_sensitive_name k then rbind (decrypt_secret_value env v) (\<lambda>s. Inr (PStr s)) else Inr v) (as_dict raw)"

definition encrypt_custom_headers :: "hook_env \<Rightarrow> pval \<Rightarrow> pdict res" where
  "encrypt_custom_headers env raw =
     rbind (secret_cipher env) (\<lambda>enc.
       map_values (\<lambda>k v. Inr (if is_sensitive_name k \<and> clean_str v \<noteq> [] then PStr (encrypt_secret enc (py_str v)) else v))
         (as_dict raw))"

fun map_query :: "(string \<Rightarrow> string res) \<Rightarrow> (string \<times> string) list \<Rightarrow> (string \<times> string) list res" where
  "map_query f [] = Inr []"
| "map_query f ((k, v) # q) =
     rbind (if is_sensitive_name k \<and> v \<noteq> [] then f v else Inr v) (\<lambda>w. rbind (map_query f q) (\<lambda>q'. Inr ((k, w) # q')))"

definition transform_sensitive_url_query :: "hook_env \<Rightarrow> pval \<Rightarrow> (string \<Rightarrow> string res) \<Rightarrow> string res" where
  "transform_sensitive_url_query env raw f =
     (let value = clean_str raw in
      case dl_parse_url (hk_delivery env) value of
        None \<Rightarrow> Inr value
      | Some (query, pairs) \<Rightarrow>
          if query = [] then Inr value
          else rbind (map_query f pairs) (\<lambda>q. Inr (dl_with_query (hk_delivery env) value q)))"

definition decrypt_webhook_url :: "hook_env \<Rightarrow> pval \<Rightarrow> string res" where
  "decrypt_webhook_url env raw = transform_sensitive_url_query env raw (\<lambda>v. decrypt_secret_value env (PStr v))"

definition encrypt_webhook_url :: "hook_env \<Rightarrow> pval \<Rightarrow> string res" where
  "encrypt_webhook_url env raw =
     rbind (secret_cipher env) (\<lambda>enc. transform_sensitive_url_query env raw (\<lambda>v. Inr (encrypt_secret enc v)))"

section \<open>The shape of a webhook\<close>

definition sanitize_headers :: "pval \<Rightarrow> pdict" where
  "sanitize_headers raw =
     fold (\<lambda>(k, v) d. if strip k = [] then d else dset d (strip k) (PStr (clean_str v))) (as_dict raw) []"

definition sanitize_auth_config :: "pval \<Rightarrow> pdict" where
  "sanitize_auth_config raw =
     map (\<lambda>k. (k, PStr (clean_str (dget (as_dict raw) k))))
       (filter (\<lambda>k. clean_str (dget (as_dict raw) k) \<noteq> [])
          [''token'', ''headerName'', ''apiKey'', ''username'', ''password'', ''queryParamName'', ''queryParamValue''])"

definition default_webhook_name :: "hook_env \<Rightarrow> string \<Rightarrow> pdict \<Rightarrow> string" where
  "default_webhook_name env name r =
     (let explicit = clean_str (dget r ''name''); host = strip (hk_netloc env (clean_str (dget r ''url''))) in
      if explicit \<noteq> [] then take 120 explicit
      else if host \<noteq> [] then take 120 host
      else name @ ''-'' @ take 8 (py_str (py_or (dget r ''id'') (PStr ''webhook''))))"

definition sanitize_dispatch_history_entry :: "hook_env \<Rightarrow> int \<Rightarrow> pdict \<Rightarrow> pdict" where
  "sanitize_dispatch_history_entry env now r =
     (let rq = as_dict (dget r ''request''); rs = as_dict (dget r ''response''); attempts = as_list (dget r ''attempts'');
          success = truthy (dget r ''success'')
      in [(''timestamp'', PInt (int_or (dget r ''timestamp'') now)), (''dispatchId'', field r ''dispatchId''),
          (''webhookId'', field r ''webhookId''), (''webhookName'', field r ''webhookName''),
          (''instanceName'', field r ''instanceName''),
          (''destinationUrl'', text_or_null (redact_url (hk_delivery env) (clean_str (py_or (dget r ''destinationUrl'') (dget r ''webhookUrl''))))),
          (''eventType'', text_or_null (clean_str (py_or (dget r ''eventType'') (dget r ''eventSubtype'')))),
          (''messageId'', field r ''messageId''), (''conversationId'', field r ''conversationId''),
          (''status'', PStr (let s = clean_str (dget r ''status'') in if s = [] then ''failed'' else s)),
          (''success'', PBool success), (''failure'', PBool (truthy (dget_default r ''failure'' (PBool (\<not> success))))),
          (''statusCode'', dget_default r ''statusCode'' (dget r ''responseCode'')),
          (''responseCode'', dget_default r ''responseCode'' (dget r ''statusCode'')),
          (''durationMs'', as_float (hk_delivery env) (dget r ''durationMs'')),
          (''attemptCount'', PInt (max 1 (int_or (dget r ''attemptCount'') (if attempts = [] then 1 else int (length attempts))))),
          (''retryCount'', PInt (max 0 (int_or (dget r ''retryCount'') 0))),
          (''error'', field r ''error''), (''errorType'', field r ''errorType''),
          (''request'', PDict
            [(''method'', PStr (py_str (py_or (dget rq ''method'') (PStr ''POST'')))),
             (''headers'', PDict (redact_headers (dget rq ''headers''))),
             (''payloadSummary'', redact_json (dict_of (dget rq ''payloadSummary''))),
             (''payloadSizeBytes'', PInt (int_or (dget rq ''payloadSizeBytes'') 0)),
             (''payloadPreview'', PStr (redact_json_preview (dl_loads (hk_delivery env)) (PStr (str_or_empty (dget rq ''payloadPreview''))) (Some 4000))),
             (''payloadTruncated'', PBool (truthy (dget rq ''payloadTruncated'')))]),
          (''response'', PDict
            [(''headers'', PDict (redact_headers (dget rs ''headers''))),
             (''bodyPreview'', PStr (redact_json_preview (dl_loads (hk_delivery env)) (PStr (str_or_empty (dget rs ''bodyPreview''))) (Some 2000)))]),
          (''attempts'', PList (take 10 (map redact_json (filter is_dict attempts))))])"

definition count_of :: "pdict \<Rightarrow> string \<Rightarrow> int res" where
  "count_of r k = py_int (py_or (dget r k) (PInt 0))"

definition float_of :: "hook_env \<Rightarrow> pval \<Rightarrow> pval res" where
  "float_of env v =
     (case dl_float (hk_delivery env) v of
        None \<Rightarrow> Inl (case v of PStr s \<Rightarrow> ValueError s | _ \<Rightarrow> TypeError)
      | Some (i, r) \<Rightarrow> Inr (PFloat i r))"

definition health_for :: "int \<Rightarrow> string" where
  "health_for failures = (if failures \<ge> 5 then ''unhealthy'' else if failures > 0 then ''degraded'' else ''healthy'')"

definition auth_types :: "string list" where
  "auth_types = [''NONE'', ''BEARER'', ''API_KEY'', ''BASIC'', ''CUSTOM_HEADERS'', ''QUERY_PARAM'']"

definition default_event_filters :: pdict where
  "default_event_filters = [(''business'', PBool True), (''transport'', PBool False), (''operational'', PBool False)]"

definition history_rows :: "pdict \<Rightarrow> pval list res" where
  "history_rows r = iterated (dget_default r ''dispatchHistory'' (PList []))"

definition sanitize_webhook :: "hook_env \<Rightarrow> hook_call \<Rightarrow> string \<Rightarrow> pdict \<Rightarrow> pdict res" where
  "sanitize_webhook env call name r =
     rbind (count_of r ''consecutiveFailures'') (\<lambda>consecutive.
     rbind (count_of r ''successCount'') (\<lambda>successes.
     rbind (count_of r ''failureCount'') (\<lambda>failures.
     rbind (count_of r ''retryCount'') (\<lambda>retries.
     rbind (count_of r ''unhealthyCount'') (\<lambda>unhealthy.
     rbind (float_of env (py_or (dget r ''avgLatencyMs'') (PFloat 0 ''0.0''))) (\<lambda>latency.
     rbind (history_rows r) (\<lambda>history.
       let auth = str_upper (py_str (py_or (dget r ''authType'') (PStr ''NONE'')));
           raw = str_lower (clean_str (dget r ''healthStatus''));
           status = (if raw \<in> {''healthy'', ''degraded'', ''unhealthy''} then raw else health_for consecutive)
       in Inr
         [(''id'', PStr (py_str (py_or (dget r ''id'') (PStr (take 16 (hc_uid call)))))), (''instanceId'', PStr name),
          (''name'', PStr (default_webhook_name env name r)), (''url'', PStr (clean_str (dget r ''url''))),
          (''enabled'', PBool (truthy (dget_default r ''enabled'' (PBool True)))),
          (''authType'', PStr (if auth \<in> set auth_types then auth else ''NONE'')),
          (''authConfig'', PDict (sanitize_auth_config (dget r ''authConfig''))),
          (''customHeaders'', PDict (sanitize_headers (dget r ''customHeaders''))),
          (''createdAt'', PStr (py_str (py_or (dget r ''createdAt'') (PStr (hc_now_iso call))))),
          (''updatedAt'', PStr (py_str (py_or (dget r ''updatedAt'') (PStr (hc_now_iso call))))),
          (''lastUsedAt'', dget r ''lastUsedAt''), (''lastStatus'', dget r ''lastStatus''), (''lastError'', dget r ''lastError''),
          (''lastSuccessAt'', dget r ''lastSuccessAt''), (''lastFailureAt'', dget r ''lastFailureAt''),
          (''lastStatusCode'', dget r ''lastStatusCode''), (''lastLatencyMs'', dget r ''lastLatencyMs''),
          (''avgLatencyMs'', latency), (''consecutiveFailures'', PInt (max 0 consecutive)), (''healthStatus'', PStr status),
          (''unhealthy'', PBool (status = ''unhealthy'')), (''successCount'', PInt (max 0 successes)),
          (''failureCount'', PInt (max 0 failures)), (''retryCount'', PInt (max 0 retries)),
          (''unhealthyCount'', PInt (max 0 unhealthy)),
          (''eventFilters'', if is_dict (dget r ''eventFilters'') then dget r ''eventFilters'' else PDict default_event_filters),
          (''dispatchHistory'', PList (map (\<lambda>x. PDict (sanitize_dispatch_history_entry env (hc_now call) (as_dict x)))
                                       (filter is_dict history)))])))))))"

definition with_secrets :: "pdict \<Rightarrow> string \<Rightarrow> pdict \<Rightarrow> pdict \<Rightarrow> pdict" where
  "with_secrets r url auth headers =
     dset (dset (dset r ''url'' (PStr url)) ''authConfig'' (PDict auth)) ''customHeaders'' (PDict headers)"

definition hydrate_webhook :: "hook_env \<Rightarrow> hook_call \<Rightarrow> string \<Rightarrow> pdict \<Rightarrow> pdict res" where
  "hydrate_webhook env call name r =
     rbind (decrypt_webhook_url env (dget r ''url'')) (\<lambda>url.
     rbind (decrypt_auth_config env (dget r ''authConfig'')) (\<lambda>auth.
     rbind (decrypt_custom_headers env (dget r ''customHeaders'')) (\<lambda>headers.
       sanitize_webhook env call name (with_secrets r url auth headers))))"

definition webhook_for_storage :: "hook_env \<Rightarrow> hook_call \<Rightarrow> string \<Rightarrow> pdict \<Rightarrow> pdict res" where
  "webhook_for_storage env call name r =
     rbind (sanitize_webhook env call name r) (\<lambda>clean.
     rbind (encrypt_webhook_url env (dget clean ''url'')) (\<lambda>url.
     rbind (encrypt_auth_config env (dget clean ''authConfig'')) (\<lambda>auth.
     rbind (encrypt_custom_headers env (dget clean ''customHeaders'')) (\<lambda>headers.
       Inr (with_secrets clean url auth headers)))))"

section \<open>Views\<close>

definition has_flag :: "string \<Rightarrow> string" where
  "has_flag k = ''has'' @ str_upper (take 1 k) @ drop 1 k"

definition public_auth :: "bool \<Rightarrow> pdict \<Rightarrow> pdict" where
  "public_auth reveal auth =
     fold (\<lambda>(k, v) d. if k \<in> set secret_keys \<and> \<not> reveal
                       then dset (dset d k (PStr REDACTED)) (has_flag k) (PBool (clean_str v \<noteq> []))
                       else dset d k v) auth []"

definition public_webhook :: "hook_env \<Rightarrow> bool \<Rightarrow> pdict \<Rightarrow> pdict" where
  "public_webhook env reveal r =
     (let item = dset r ''authConfig'' (PDict (public_auth reveal (as_dict (dget r ''authConfig''))));
          headers = as_dict (dget item ''customHeaders'')
      in if reveal then item
         else dset (dset (dset item ''customHeaders'' (PDict (map (\<lambda>(k, _). (k, PStr REDACTED)) (filter (\<lambda>(k, _). strip k \<noteq> []) headers))))
                     ''hasCustomHeaders'' (PBool (headers \<noteq> [])))
                ''url'' (PStr (redact_url (hk_delivery env) (str_or_empty (dget item ''url'')))))"

text \<open>
  Reading the webhooks of an instance also protects them: what the file holds is replaced when
  it is not what would be stored now, after a copy of the file was kept once.
\<close>

definition hydrated :: "hook_env \<Rightarrow> hook_call \<Rightarrow> string \<Rightarrow> pval list \<Rightarrow> pdict list res" where
  "hydrated env call name hooks = traverse (\<lambda>v. hydrate_webhook env call name (as_dict v)) (filter is_dict hooks)"

definition protected_hooks :: "hook_env \<Rightarrow> hook_call \<Rightarrow> string \<Rightarrow> pdict list \<Rightarrow> pval list res" where
  "protected_hooks env call name clean =
     rbind (traverse (webhook_for_storage env call name) clean) (\<lambda>rs. Inr (map PDict rs))"

definition store_protected ::
    "hook_call \<Rightarrow> pdict \<Rightarrow> pdict \<Rightarrow> hook_state \<Rightarrow> unit res \<times> hook_state" where
  "store_protected call original instances st =
     (case backup_hooks (hc_backup_ok call) original (hs_backup st) of
        (Inl e, b) \<Rightarrow> (Inl e, st\<lparr> hs_backup := b \<rparr>)
      | (Inr _, b) \<Rightarrow>
          (case write_hooks (hc_disk_ok call) instances (hs_store st) of
             (r, f) \<Rightarrow> (r, st\<lparr> hs_backup := b, hs_store := f \<rparr>)))"

definition list_instance_webhooks ::
    "hook_env \<Rightarrow> hook_call \<Rightarrow> string \<Rightarrow> bool \<Rightarrow> hook_state \<Rightarrow> pdict list res \<times> hook_state" where
  "list_instance_webhooks env call name reveal st =
     (let instances = read_hooks (hs_store st) in
      case py_or (dget instances name) (PList []) of
        PList raw \<Rightarrow>
          (case rbind (hydrated env call name raw) (\<lambda>clean.
                 rbind (protected_hooks env call name clean) (\<lambda>protected. Inr (clean, protected))) of
             Inl e \<Rightarrow> (Inl e, st)
           | Inr (clean, protected) \<Rightarrow>
               (case (if protected \<noteq> raw then store_protected call instances (dset instances name (PList protected)) st
                      else (Inr (), st)) of
                  (Inl e, st') \<Rightarrow> (Inl e, st')
                | (Inr _, st') \<Rightarrow> (Inr (map (public_webhook env reveal) clean), st')))
      | _ \<Rightarrow> (Inr [], st))"

text \<open>The instances whose webhooks would be stored differently, and how many webhooks they have.\<close>

fun protect_instances :: "hook_env \<Rightarrow> hook_call \<Rightarrow> pdict \<Rightarrow> (pdict \<times> nat) res" where
  "protect_instances env call [] = Inr ([], 0)"
| "protect_instances env call ((name, v) # d) =
     (case v of
        PList raw \<Rightarrow>
          rbind (hydrated env call name raw) (\<lambda>clean.
          rbind (protected_hooks env call name clean) (\<lambda>protected.
          rbind (protect_instances env call d) (\<lambda>(d', n).
            Inr (if protected \<noteq> raw then ((name, PList protected) # d', length clean + n) else ((name, v) # d', n)))))
      | _ \<Rightarrow> rbind (protect_instances env call d) (\<lambda>(d', n). Inr ((name, v) # d', n)))"

definition protect_stored_webhook_secrets ::
    "hook_env \<Rightarrow> hook_call \<Rightarrow> hook_state \<Rightarrow> nat res \<times> hook_state" where
  "protect_stored_webhook_secrets env call st =
     (case protect_instances env call (read_hooks (hs_store st)) of
        Inl e \<Rightarrow> (Inl e, st)
      | Inr (instances, n) \<Rightarrow>
          if n = 0 then (Inr 0, st)
          else (case store_protected call (read_hooks (hs_store st)) instances st of
                  (Inl e, st') \<Rightarrow> (Inl e, st') | (Inr _, st') \<Rightarrow> (Inr n, st')))"

definition with_hook_id :: "string \<Rightarrow> pval \<Rightarrow> bool" where
  "with_hook_id wid v \<longleftrightarrow> is_dict v \<and> py_str (dget (as_dict v) ''id'') = wid"

definition get_webhook ::
    "hook_env \<Rightarrow> hook_call \<Rightarrow> string \<Rightarrow> string \<Rightarrow> bool \<Rightarrow> hook_state \<Rightarrow> pdict option res \<times> hook_state" where
  "get_webhook env call name wid reveal st =
     (case list_instance_webhooks env call name True st of
        (Inl e, st') \<Rightarrow> (Inl e, st')
      | (Inr hooks, st') \<Rightarrow>
          (Inr (map_option (public_webhook env reveal) (List.find (\<lambda>h. dget h ''id'' = PStr wid) hooks)), st'))"

definition http_url :: "string \<Rightarrow> bool" where
  "http_url u \<longleftrightarrow> starts_with u ''http://'' \<or> starts_with u ''https://''"

definition list_enabled_webhooks_for_dispatch ::
    "hook_env \<Rightarrow> hook_call \<Rightarrow> string \<Rightarrow> hook_state \<Rightarrow> pdict list res \<times> hook_state" where
  "list_enabled_webhooks_for_dispatch env call name st =
     (case list_instance_webhooks env call name True st of
        (Inl e, st') \<Rightarrow> (Inl e, st')
      | (Inr hooks, st') \<Rightarrow>
          (Inr (filter (\<lambda>h. truthy (dget h ''enabled'') \<and> http_url (str_or_empty (dget h ''url''))) hooks), st'))"

section \<open>Changing webhooks\<close>

record hook_form =
  hf_name :: "string option"
  hf_url :: string
  hf_enabled :: bool
  hf_auth_type :: string
  hf_auth_config :: "pdict option"
  hf_custom_headers :: "pdict option"
  hf_event_filters :: "pdict option"

definition hooks_of :: "pdict \<Rightarrow> string \<Rightarrow> pval list option" where
  "hooks_of instances name = (case dget instances name of PList hs \<Rightarrow> Some hs | _ \<Rightarrow> None)"

definition new_webhook :: "hook_call \<Rightarrow> string \<Rightarrow> hook_form \<Rightarrow> pdict" where
  "new_webhook call name form =
     [(''id'', PStr (take 16 (hc_uid call))), (''instanceId'', PStr name), (''name'', pstr_opt (hf_name form)),
      (''url'', PStr (hf_url form)), (''enabled'', PBool (hf_enabled form)), (''authType'', PStr (hf_auth_type form)),
      (''authConfig'', PDict (case hf_auth_config form of None \<Rightarrow> [] | Some d \<Rightarrow> d)),
      (''customHeaders'', PDict (case hf_custom_headers form of None \<Rightarrow> [] | Some d \<Rightarrow> d)),
      (''eventFilters'', PDict (case hf_event_filters form of None \<Rightarrow> default_event_filters | Some d \<Rightarrow> d)),
      (''createdAt'', PStr (hc_now_iso call)), (''updatedAt'', PStr (hc_now_iso call)), (''lastUsedAt'', PNone),
      (''lastStatus'', PNone), (''lastError'', PNone), (''lastSuccessAt'', PNone), (''lastFailureAt'', PNone),
      (''lastStatusCode'', PNone), (''lastLatencyMs'', PNone), (''avgLatencyMs'', PFloat 0 ''0.0''),
      (''consecutiveFailures'', PInt 0), (''healthStatus'', PStr ''healthy''), (''unhealthy'', PBool False),
      (''successCount'', PInt 0), (''failureCount'', PInt 0), (''retryCount'', PInt 0), (''unhealthyCount'', PInt 0)]"

definition write_instance :: "bool \<Rightarrow> string \<Rightarrow> pval list \<Rightarrow> hook_state \<Rightarrow> unit res \<times> hook_state" where
  "write_instance disk_ok name hooks st =
     (case write_hooks disk_ok (dset (read_hooks (hs_store st)) name (PList hooks)) (hs_store st) of
        (r, f) \<Rightarrow> (r, st\<lparr> hs_store := f \<rparr>))"

definition create_webhook :: "hook_env \<Rightarrow> hook_call \<Rightarrow> string \<Rightarrow> hook_form \<Rightarrow> hook_state \<Rightarrow> pdict res \<times> hook_state" where
  "create_webhook env call name form st =
     (case rbind (sanitize_webhook env call name (new_webhook call name form)) (\<lambda>item.
            rbind (webhook_for_storage env call name item) (\<lambda>stored. Inr (item, stored))) of
        Inl e \<Rightarrow> (Inl e, st)
      | Inr (item, stored) \<Rightarrow>
          (case write_instance (hc_disk_ok call) name
                  ((case hooks_of (read_hooks (hs_store st)) name of None \<Rightarrow> [] | Some hs \<Rightarrow> hs) @ [PDict stored]) st of
             (Inl e, st') \<Rightarrow> (Inl e, st')
           | (Inr _, st') \<Rightarrow> (Inr (public_webhook env False item), st')))"

text \<open>
  The shape of every change of one webhook: the first of that id is decrypted, changed, brought
  into shape, encrypted and written back; without one nothing happens.
\<close>

definition change_webhook ::
    "hook_env \<Rightarrow> hook_call \<Rightarrow> string \<Rightarrow> string \<Rightarrow> (pdict \<Rightarrow> pdict res) \<Rightarrow> hook_state \<Rightarrow> pdict option res \<times> hook_state" where
  "change_webhook env call name wid change st =
     (case hooks_of (read_hooks (hs_store st)) name of
        None \<Rightarrow> (Inr None, st)
      | Some hooks \<Rightarrow>
          (case List.find (with_hook_id wid) hooks of
             None \<Rightarrow> (Inr None, st)
           | Some item \<Rightarrow>
               (case rbind (hydrate_webhook env call name (as_dict item)) (\<lambda>current.
                      rbind (change current) (\<lambda>changed.
                      rbind (sanitize_webhook env call name changed) (\<lambda>merged.
                      rbind (webhook_for_storage env call name merged) (\<lambda>stored. Inr (merged, stored))))) of
                  Inl e \<Rightarrow> (Inl e, st)
                | Inr (merged, stored) \<Rightarrow>
                    (case write_instance (hc_disk_ok call) name (modify_first (with_hook_id wid) (\<lambda>_. PDict stored) hooks) st of
                       (Inl e, st') \<Rightarrow> (Inl e, st')
                     | (Inr _, st') \<Rightarrow> (Inr (Some merged), st')))))"

definition shown :: "hook_env \<Rightarrow> pdict option res \<times> hook_state \<Rightarrow> pdict option res \<times> hook_state" where
  "shown env w = apfst (\<lambda>r. rbind r (\<lambda>m. Inr (map_option (public_webhook env False) m))) w"

definition merge_auth_config_update :: "string \<Rightarrow> pdict \<Rightarrow> string \<Rightarrow> pdict option \<Rightarrow> pdict" where
  "merge_auth_config_update previous_type previous next_type next =
     (let incoming = sanitize_auth_config (PDict (case next of None \<Rightarrow> [] | Some d \<Rightarrow> d));
          kept = sanitize_auth_config (PDict previous)
      in if previous_type \<noteq> next_type then incoming
         else fold (\<lambda>k d. if clean_str (dget d k) = [] \<and> clean_str (dget kept k) \<noteq> [] then dset d k (dget kept k) else d)
                secret_keys incoming)"

definition form_changes :: "hook_call \<Rightarrow> hook_form \<Rightarrow> pdict \<Rightarrow> pdict" where
  "form_changes call form current =
     dmerge current
       [(''name'', case hf_name form of Some (c # n) \<Rightarrow> PStr (c # n) | _ \<Rightarrow> dget current ''name''),
        (''url'', PStr (hf_url form)), (''enabled'', PBool (hf_enabled form)), (''authType'', PStr (hf_auth_type form)),
        (''authConfig'', PDict (merge_auth_config_update
           (str_upper (py_str (py_or (dget current ''authType'') (PStr ''NONE'')))) (as_dict (dget current ''authConfig''))
           (str_upper (py_str (py_or (PStr (hf_auth_type form)) (PStr ''NONE'')))) (hf_auth_config form))),
        (''customHeaders'', case hf_custom_headers form of Some h \<Rightarrow> PDict h | None \<Rightarrow> dget current ''customHeaders''),
        (''eventFilters'', case hf_event_filters form of Some e \<Rightarrow> PDict e | None \<Rightarrow> dget current ''eventFilters''),
        (''updatedAt'', PStr (hc_now_iso call))]"

definition update_webhook ::
    "hook_env \<Rightarrow> hook_call \<Rightarrow> string \<Rightarrow> string \<Rightarrow> hook_form \<Rightarrow> hook_state \<Rightarrow> pdict option res \<times> hook_state" where
  "update_webhook env call name wid form st =
     shown env (change_webhook env call name wid (\<lambda>current. Inr (form_changes call form current)) st)"

definition normalized_filters :: "pdict \<Rightarrow> pdict" where
  "normalized_filters filters =
     (let kept = map (\<lambda>(k, v). (k, PBool (truthy v)))
                   (filter (\<lambda>(k, _). k \<in> {''business'', ''transport'', ''operational''}) filters)
      in if kept = [] then default_event_filters else kept)"

definition set_webhook_filters ::
    "hook_env \<Rightarrow> hook_call \<Rightarrow> string \<Rightarrow> string \<Rightarrow> pdict \<Rightarrow> hook_state \<Rightarrow> pdict option res \<times> hook_state" where
  "set_webhook_filters env call name wid filters st =
     shown env (change_webhook env call name wid
       (\<lambda>current. Inr (dset (dset current ''eventFilters'' (PDict (normalized_filters filters))) ''updatedAt'' (PStr (hc_now_iso call)))) st)"

definition set_webhook_enabled ::
    "hook_env \<Rightarrow> hook_call \<Rightarrow> string \<Rightarrow> string \<Rightarrow> bool \<Rightarrow> hook_state \<Rightarrow> pdict option res \<times> hook_state" where
  "set_webhook_enabled env call name wid enabled st =
     shown env (change_webhook env call name wid
       (\<lambda>current. Inr (dset (dset current ''enabled'' (PBool enabled)) ''updatedAt'' (PStr (hc_now_iso call)))) st)"

definition delete_webhook :: "hook_call \<Rightarrow> string \<Rightarrow> string \<Rightarrow> hook_state \<Rightarrow> bool res \<times> hook_state" where
  "delete_webhook call name wid st =
     (case hooks_of (read_hooks (hs_store st)) name of
        None \<Rightarrow> (Inr False, st)
      | Some hooks \<Rightarrow>
          (let rest = filter (\<lambda>v. is_dict v \<and> py_str (dget (as_dict v) ''id'') \<noteq> wid) hooks in
           if length rest = length hooks then (Inr False, st)
           else case write_instance (hc_disk_ok call) name rest st of
                  (Inl e, st') \<Rightarrow> (Inl e, st') | (Inr _, st') \<Rightarrow> (Inr True, st')))"

definition delete_all_instance_webhooks :: "hook_call \<Rightarrow> string \<Rightarrow> hook_state \<Rightarrow> unit res \<times> hook_state" where
  "delete_all_instance_webhooks call name st =
     (let instances = read_hooks (hs_store st) in
      if \<not> dhas instances name then (Inr (), st)
      else case write_hooks (hc_disk_ok call) (AList.delete name instances) (hs_store st) of
             (r, f) \<Rightarrow> (r, st\<lparr> hs_store := f \<rparr>))"

section \<open>The credentials of a call\<close>

definition put_header :: "string \<Rightarrow> string \<Rightarrow> pdict \<Rightarrow> pdict" where
  "put_header k v d = (if k = [] \<or> v = [] then d else dset d k (PStr v))"

definition build_auth_headers :: "hook_env \<Rightarrow> pdict \<Rightarrow> pdict" where
  "build_auth_headers env item =
     (let t = str_upper (py_str (py_or (dget item ''authType'') (PStr ''NONE'')));
          auth = as_dict (dget item ''authConfig'');
          user = str_or_empty (dget auth ''username''); password = str_or_empty (dget auth ''password'');
          token = clean_str (dget auth ''token'');
          base =
            (if t = ''BEARER'' then (if token = [] then [] else [(''Authorization'', PStr (''Bearer '' @ token))])
             else if t = ''API_KEY''
             then put_header (strip (py_str (py_or (dget auth ''headerName'') (PStr ''x-api-key'')))) (clean_str (dget auth ''apiKey'')) []
             else if t = ''BASIC'' \<and> (user \<noteq> [] \<or> password \<noteq> [])
             then [(''Authorization'', PStr (''Basic '' @ hk_base64 env (user @ '':'' @ password)))]
             else [])
      in fold (\<lambda>(k, v) d. if strip k = [] \<or> str_lower (strip k) = ''content-type'' then d
                          else dset d (strip k) (PStr (clean_str v)))
           (as_dict (dget item ''customHeaders'')) base)"

definition build_auth_query_params :: "pdict \<Rightarrow> pdict" where
  "build_auth_query_params item =
     (let auth = as_dict (dget item ''authConfig'') in
      if str_upper (py_str (py_or (dget item ''authType'') (PStr ''NONE''))) \<noteq> ''QUERY_PARAM'' then []
      else put_header (clean_str (dget auth ''queryParamName'')) (clean_str (dget auth ''queryParamValue'')) [])"

section \<open>The counters of a webhook\<close>

record call_result =
  cr_status :: string
  cr_error :: "string option"
  cr_status_code :: pval
  cr_latency :: "pval option"
  cr_retries :: int
  cr_retryable :: "bool option"

definition is_success_status :: "string \<Rightarrow> bool" where
  "is_success_status s \<longleftrightarrow> starts_with s ''ok_'' \<or> s = ''success''"

definition apply_aggregates :: "hook_env \<Rightarrow> hook_call \<Rightarrow> call_result \<Rightarrow> pdict \<Rightarrow> pdict res" where
  "apply_aggregates env call c item =
     rbind (count_of item ''successCount'') (\<lambda>successes.
     rbind (count_of item ''failureCount'') (\<lambda>failures.
     rbind (count_of item ''retryCount'') (\<lambda>retries.
     rbind (count_of item ''unhealthyCount'') (\<lambda>unhealthy.
     rbind (count_of item ''consecutiveFailures'') (\<lambda>consecutive.
     rbind (float_of env (py_or (dget item ''avgLatencyMs'') (PFloat 0 ''0.0''))) (\<lambda>average.
       let ok = is_success_status (cr_status c);
           was_unhealthy = (str_lower (str_or_empty (dget item ''healthStatus'')) = ''unhealthy'');
           successes' = successes + (if ok then 1 else 0); failures' = failures + (if ok then 0 else 1);
           consecutive' = (if ok then 0 else consecutive + 1);
           sample = successes' + failures';
           average' = (case cr_latency c of None \<Rightarrow> average | Some l \<Rightarrow> hk_mean env average sample l);
           health = health_for consecutive';
           now = PStr (hc_now_iso call)
       in Inr (dmerge item
         [(''lastUsedAt'', now), (''lastStatus'', PStr (cr_status c)),
          (''lastError'', case cr_error c of Some (x # e) \<Rightarrow> PStr (take 300 (x # e)) | _ \<Rightarrow> PNone),
          (''lastStatusCode'', cr_status_code c),
          (''lastLatencyMs'', case cr_latency c of None \<Rightarrow> PNone | Some l \<Rightarrow> l),
          (''lastSuccessAt'', if ok then now else dget item ''lastSuccessAt''),
          (''lastFailureAt'', if ok then dget item ''lastFailureAt'' else now),
          (''avgLatencyMs'', hk_round env average'), (''consecutiveFailures'', PInt consecutive'),
          (''healthStatus'', PStr health), (''unhealthy'', PBool (health = ''unhealthy'')),
          (''successCount'', PInt successes'), (''failureCount'', PInt failures'),
          (''retryCount'', PInt (retries + max 0 (cr_retries c))),
          (''unhealthyCount'', PInt (unhealthy + (if health = ''unhealthy'' \<and> \<not> was_unhealthy then 1 else 0))),
          (''updatedAt'', now),
          (''lastRetryable'', case cr_retryable c of None \<Rightarrow> PNone | Some b \<Rightarrow> PBool b)])))))))"

definition mark_dispatch_result_ex ::
    "hook_env \<Rightarrow> hook_call \<Rightarrow> string \<Rightarrow> string \<Rightarrow> call_result \<Rightarrow> hook_state \<Rightarrow> unit res \<times> hook_state" where
  "mark_dispatch_result_ex env call name wid c st =
     apfst (\<lambda>r. rbind r (\<lambda>_. Inr ())) (change_webhook env call name wid (apply_aggregates env call c) st)"

definition mark_dispatch_result ::
    "hook_env \<Rightarrow> hook_call \<Rightarrow> string \<Rightarrow> string \<Rightarrow> string \<Rightarrow> string option \<Rightarrow> hook_state \<Rightarrow> unit res \<times> hook_state" where
  "mark_dispatch_result env call name wid status error st =
     mark_dispatch_result_ex env call name wid
       \<lparr> cr_status = status, cr_error = error, cr_status_code = PNone, cr_latency = None, cr_retries = 0, cr_retryable = None \<rparr> st"

definition entry_result :: "hook_env \<Rightarrow> pdict \<Rightarrow> call_result" where
  "entry_result env entry =
     \<lparr> cr_status = py_str (py_or (dget entry ''status'') (PStr ''failed'')),
       cr_error = or_none (str_or_empty (dget entry ''error'')),
       cr_status_code = (if is_int (dget entry ''statusCode'') then dget entry ''statusCode'' else dget entry ''responseCode''),
       cr_latency = (case float_of env (dget entry ''durationMs'') of Inl _ \<Rightarrow> None | Inr x \<Rightarrow> Some x),
       cr_retries = int_or (dget entry ''retryCount'') 0,
       cr_retryable = (case dget entry ''retryable'' of PBool b \<Rightarrow> Some b | _ \<Rightarrow> None) \<rparr>"

text \<open>The evidence is written first; then the counters of the webhook, if it still exists.\<close>

definition append_dispatch_history ::
    "hook_env \<Rightarrow> hook_call \<Rightarrow> string \<Rightarrow> string \<Rightarrow> pdict \<Rightarrow> hook_state \<Rightarrow> pdict res \<times> hook_state" where
  "append_dispatch_history env call name wid entry st =
     (case append_webhook_delivery (hk_delivery env) (hc_evidence_ok call) (hc_now call) (hc_uid call)
             (dset (dset entry ''instanceName'' (PStr name)) ''webhookId'' (PStr wid)) (hs_deliveries st) of
        (Inl e, f) \<Rightarrow> (Inl e, st\<lparr> hs_deliveries := f \<rparr>)
      | (Inr delivery, f) \<Rightarrow>
          (case change_webhook env call name wid
                  (\<lambda>current. apply_aggregates env call (entry_result env entry) (dset current ''updatedAt'' (PStr (hc_now_iso call))))
                  (st\<lparr> hs_deliveries := f \<rparr>) of
             (Inl e, st') \<Rightarrow> (Inl e, st')
           | (Inr _, st') \<Rightarrow> (Inr delivery, st')))"

section \<open>The evidence of a webhook, old and new\<close>

definition legacy_delivery :: "hook_env \<Rightarrow> hook_call \<Rightarrow> pdict \<Rightarrow> pdict \<Rightarrow> pdict" where
  "legacy_delivery env call hook row =
     (let wid = str_or_empty (py_or (dget row ''webhookId'') (dget hook ''id''));
          correlation = str_or_empty (dget row ''dispatchId'')
      in dmerge (sanitize_dispatch_history_entry env (hc_now call) row)
        [(''id'', PStr (if correlation \<noteq> [] then correlation
                        else ''legacy_'' @ wid @ ''_'' @ int_str (int_or (dget row ''timestamp'') 0))),
         (''correlationId'', text_or_null correlation),
         (''isTest'', PBool (truthy (py_or (dget row ''isTest'') (dget row ''testMode'')))), (''webhookId'', PStr wid),
         (''webhookName'', py_or (dget row ''webhookName'') (dget hook ''name'')),
         (''instanceName'', py_or (dget row ''instanceName'') (dget hook ''instanceId'')),
         (''destinationUrl'', py_or (dget row ''destinationUrl'') (dget hook ''url'')),
         (''metadata'', PDict [(''legacy'', PBool True)])])"

definition delivery_key :: "pdict \<Rightarrow> string" where
  "delivery_key d = str_or_empty (py_or (dget d ''id'') (dget d ''dispatchId''))"

fun first_of_each :: "string list \<Rightarrow> pdict list \<Rightarrow> pdict list" where
  "first_of_each seen [] = []"
| "first_of_each seen (d # ds) =
     (if delivery_key d = [] \<or> delivery_key d \<in> set seen then first_of_each seen ds
      else d # first_of_each (delivery_key d # seen) ds)"

definition merge_deliveries :: "pdict list \<Rightarrow> pdict list \<Rightarrow> int \<Rightarrow> pdict list" where
  "merge_deliveries current legacy limit =
     take (page_size limit) (sort_desc delivery_time (first_of_each [] (current @ legacy)))"

definition history_of :: "pdict \<Rightarrow> pdict list" where
  "history_of hook = map as_dict (filter is_dict (as_list (dget hook ''dispatchHistory'')))"

definition list_webhook_dispatches ::
    "hook_env \<Rightarrow> hook_call \<Rightarrow> string \<Rightarrow> string \<Rightarrow> int \<Rightarrow> hook_state \<Rightarrow> pdict list res \<times> hook_state" where
  "list_webhook_dispatches env call name wid limit st =
     (case get_webhook env call name wid False st of
        (Inl e, st') \<Rightarrow> (Inl e, st')
      | (Inr None, st') \<Rightarrow> (Inr [], st')
      | (Inr (Some hook), st') \<Rightarrow>
          (Inr (merge_deliveries (list_webhook_deliveries wid 500 None (hs_deliveries st'))
                  (map (legacy_delivery env call hook) (history_of hook)) limit), st'))"

record delivery_page =
  dp_items :: "pdict list"
  dp_total :: nat
  dp_limit :: int
  dp_offset :: int

definition list_webhook_delivery_page ::
    "hook_env \<Rightarrow> hook_call \<Rightarrow> string \<Rightarrow> string \<Rightarrow> int \<Rightarrow> int \<Rightarrow> delivery_filters \<Rightarrow> hook_state
     \<Rightarrow> delivery_page res \<times> hook_state" where
  "list_webhook_delivery_page env call name wid limit offset q st =
     (case list_webhook_dispatches env call name wid 500 st of
        (Inl e, st') \<Rightarrow> (Inl e, st')
      | (Inr records, st') \<Rightarrow>
          (let filtered = filter_deliveries q records; size = max 1 (min limit 200); start = max 0 offset in
           (Inr \<lparr> dp_items = map delivery_list_item (take (nat size) (drop (nat start) filtered)),
                  dp_total = length filtered, dp_limit = size, dp_offset = start \<rparr>, st')))"

definition list_recent_dispatches ::
    "hook_env \<Rightarrow> hook_call \<Rightarrow> string \<Rightarrow> int \<Rightarrow> bool option \<Rightarrow> hook_state \<Rightarrow> pdict list res \<times> hook_state" where
  "list_recent_dispatches env call name limit success st =
     (case list_instance_webhooks env call name False st of
        (Inl e, st') \<Rightarrow> (Inl e, st')
      | (Inr hooks, st') \<Rightarrow>
          (Inr (merge_deliveries (list_instance_deliveries name 500 success (hs_deliveries st'))
                  (concat (map (\<lambda>hook. map (legacy_delivery env call hook) (with_success success (history_of hook))) hooks)) limit),
           st'))"

definition get_delivery_of_webhook ::
    "hook_env \<Rightarrow> hook_call \<Rightarrow> string \<Rightarrow> string \<Rightarrow> string \<Rightarrow> hook_state \<Rightarrow> pdict option res \<times> hook_state" where
  "get_delivery_of_webhook env call name wid did st =
     (case get_webhook env call name wid False st of
        (Inl e, st') \<Rightarrow> (Inl e, st')
      | (Inr None, st') \<Rightarrow> (Inr None, st')
      | (Inr (Some hook), st') \<Rightarrow>
          (let detail = (\<lambda>d. rbind (delivery_detail (hk_delivery env) (hc_now call) (hc_uid call) d) (\<lambda>x. Inr (Some x))) in
           (case get_webhook_delivery wid did (hs_deliveries st') of
              Some d \<Rightarrow> detail d
            | None \<Rightarrow>
                (case List.find (\<lambda>d. dget d ''id'' = PStr did) (map (legacy_delivery env call hook) (history_of hook)) of
                   None \<Rightarrow> Inr None | Some d \<Rightarrow> detail d), st')))"

definition find_webhook_by_id ::
    "hook_env \<Rightarrow> hook_call \<Rightarrow> string \<Rightarrow> bool \<Rightarrow> hook_state \<Rightarrow> (string \<times> pdict) option res" where
  "find_webhook_by_id env call wid reveal st =
     (case List.find (\<lambda>(name, v). is_dict v \<and> str_or_empty (dget (as_dict v) ''id'') = wid)
             (concat (map (\<lambda>(name, hs). map (\<lambda>v. (name, v)) (as_list hs)) (read_hooks (hs_store st)))) of
        None \<Rightarrow> Inr None
      | Some (name, v) \<Rightarrow>
          rbind (hydrate_webhook env call name (as_dict v)) (\<lambda>h. Inr (Some (name, public_webhook env reveal h))))"

record dispatch_metrics =
  dm_total :: int
  dm_successful :: int
  dm_failed :: int
  dm_retries :: int
  dm_average :: pval

definition metrics_of :: "hook_env \<Rightarrow> pdict list \<Rightarrow> dispatch_metrics" where
  "metrics_of env hooks =
     (let n = (\<lambda>k h. max 0 (int_or (dget h k) 0));
          counts = map (\<lambda>h. n ''successCount'' h + n ''failureCount'' h) hooks;
          total = sum_list counts
      in \<lparr> dm_total = total, dm_successful = sum_list (map (n ''successCount'') hooks),
           dm_failed = sum_list (map (n ''failureCount'') hooks), dm_retries = sum_list (map (n ''retryCount'') hooks),
           dm_average = (if total > 0
                         then hk_weighted env (zip (map (\<lambda>h. as_float (hk_delivery env) (dget h ''avgLatencyMs'')) hooks) counts) total
                         else PFloat 0 ''0.0'') \<rparr>)"

definition get_dispatch_metrics ::
    "hook_env \<Rightarrow> hook_call \<Rightarrow> string \<Rightarrow> hook_state \<Rightarrow> dispatch_metrics res \<times> hook_state" where
  "get_dispatch_metrics env call name st =
     (case list_instance_webhooks env call name False st of
        (Inl e, st') \<Rightarrow> (Inl e, st')
      | (Inr hooks, st') \<Rightarrow> (Inr (metrics_of env hooks), st'))"

end
