(* ===== verification/Webhook_Hooks_Spec.thy ===== *)
theory Webhook_Hooks_Spec
  imports Webhook_Hooks Webhook_Deliveries_Spec
begin

text \<open>
  What the store of the webhooks promises: no secret of a webhook is in the file in clear, its
  owner gets it back, nobody else is shown it, and every call counts once. One promise it cannot
  keep: a secret that looks encrypted makes all webhooks of its instance unreadable.
\<close>

section \<open>Dictionaries changed in place\<close>

lemma map_values_Inr:
  "map_values f d = Inr d' \<longleftrightarrow> list_all2 (\<lambda>(k, v) (k', w). k' = k \<and> f k v = Inr w) d d'"
  by (induction d arbitrary: d') (auto simp: rbind_eqs list_all2_Cons1)

lemma map_values_fst: "map_values f d = Inr d' \<Longrightarrow> map fst d' = map fst d"
  unfolding map_values_Inr by (induction rule: list_all2_induct) auto

lemma map_values_mem:
  "map_values f d = Inr d' \<Longrightarrow> (k, w) \<in> set d' \<Longrightarrow> \<exists>v. (k, v) \<in> set d \<and> f k v = Inr w"
  unfolding map_values_Inr by (induction rule: list_all2_induct) auto

lemma map_values_pure: "map_values (\<lambda>k v. Inr (g k v)) d = Inr (map (\<lambda>(k, v). (k, g k v)) d)"
  by (induction d) auto

text \<open>Changing the values and changing them back.\<close>

lemma map_values_undo:
  assumes "\<And>k v. (k, v) \<in> set d \<Longrightarrow> f k (g k v) = Inr v"
  shows "map_values f (map (\<lambda>(k, v). (k, g k v)) d) = Inr d"
  using assms by (induction d) auto

section \<open>Secrets in the file\<close>

lemma encrypted [simp]: "starts_with (encrypt_secret enc s) ENCRYPTED_PREFIX"
  by (simp add: encrypt_secret_def starts_with_def)

text \<open>A secret value as the file may hold it.\<close>

definition covered :: "pval \<Rightarrow> bool" where
  "covered v \<longleftrightarrow> is_encrypted v \<or> clean_str v = []"

definition secrets_covered :: "pdict \<Rightarrow> bool" where
  "secrets_covered r \<longleftrightarrow>
     (\<forall>(k, v)\<in>set (as_dict (dget r ''authConfig'')). k \<in> set secret_keys \<longrightarrow> covered v) \<and>
     (\<forall>(k, v)\<in>set (as_dict (dget r ''customHeaders'')). is_sensitive_name k \<longrightarrow> covered v)"

lemma encrypt_auth_covers:
  assumes "encrypt_auth_config env raw = Inr d" and "(k, v) \<in> set d" and "k \<in> set secret_keys"
  shows "covered v"
  using assms by (auto simp: encrypt_auth_config_def rbind_eqs map_values_pure covered_def split: if_splits)

lemma encrypt_headers_covers:
  assumes "encrypt_custom_headers env raw = Inr d" and "(k, v) \<in> set d" and "is_sensitive_name k"
  shows "covered v"
  using assms by (auto simp: encrypt_custom_headers_def rbind_eqs map_values_pure covered_def split: if_splits)

lemma with_secrets_simps [simp]:
  "dget (with_secrets r u a h) ''authConfig'' = PDict a" "dget (with_secrets r u a h) ''customHeaders'' = PDict h"
  "dget (with_secrets r u a h) ''url'' = PStr u"
  "k \<notin> {''url'', ''authConfig'', ''customHeaders''} \<Longrightarrow> dget (with_secrets r u a h) k = dget r k"
  by (auto simp: with_secrets_def)

lemma storage_covers: "webhook_for_storage env call name r = Inr s \<Longrightarrow> secrets_covered s"
  by (auto simp: webhook_for_storage_def rbind_eqs secrets_covered_def dest: encrypt_auth_covers encrypt_headers_covers)

text \<open>Every webhook of the file is covered.\<close>

definition hooks_covered :: "hook_file \<Rightarrow> bool" where
  "hooks_covered f \<longleftrightarrow>
     (\<forall>(name, hs)\<in>set (read_hooks f). \<forall>v\<in>set (as_list hs). is_dict v \<longrightarrow> secrets_covered (as_dict v))"

lemma covered_update:
  assumes "hooks_covered f" and "\<forall>v\<in>set hs. is_dict v \<longrightarrow> secrets_covered (as_dict v)"
  shows "hooks_covered (Holds [(''instances'', PDict (dset (read_hooks f) name (PList hs)))])"
proof -
  have "v = (name, PList hs) \<or> v \<in> set d" if "v \<in> set (dset d name (PList hs))" for v d
    using that by (induction d) (auto split: if_splits)
  then show ?thesis using assms by (fastforce simp: hooks_covered_def dget_Cons)
qed

lemma write_hooks_cases: "write_hooks ok d f = (if ok then (Inr (), Holds [(''instances'', PDict d)]) else (Inl OSError, f))"
  by (simp add: write_hooks_def replace_file_def)

lemma write_instance_covers:
  assumes "hooks_covered (hs_store st)" and "\<forall>v\<in>set hs. is_dict v \<longrightarrow> secrets_covered (as_dict v)"
    and "write_instance ok name hs st = (r, st')"
  shows "hooks_covered (hs_store st')"
  using assms covered_update [OF assms(1,2)] by (auto simp: write_instance_def write_hooks_cases split: if_splits)

lemma hooks_of_covered:
  assumes "hooks_covered f" and "hooks_of (read_hooks f) name = Some hs"
  shows "\<forall>v\<in>set hs. is_dict v \<longrightarrow> secrets_covered (as_dict v)"
proof -
  have "map_of (read_hooks f) name = Some (PList hs)"
    using assms(2) by (auto simp: hooks_of_def dget_def split: option.splits pval.splits)
  from map_of_SomeD [OF this] show ?thesis using assms(1) by (auto simp: hooks_covered_def)
qed

lemma change_webhook_covers:
  assumes "hooks_covered (hs_store st)" and "change_webhook env call name wid change st = (r, st')"
  shows "hooks_covered (hs_store st')"
proof (cases "hooks_of (read_hooks (hs_store st)) name")
  case None
  then show ?thesis using assms by (simp add: change_webhook_def)
next
  case (Some hs)
  note cov = hooks_of_covered [OF assms(1) Some]
  consider "st' = st"
    | merged stored r' where "webhook_for_storage env call name merged = Inr stored"
      "write_instance (hc_disk_ok call) name (modify_first (with_hook_id wid) (\<lambda>_. PDict stored) hs) st = (r', st')"
    using assms(2) Some
    by (auto simp: change_webhook_def rbind_eqs split: option.splits sum.splits prod.splits)
  then show ?thesis
  proof cases
    case 1
    then show ?thesis using assms(1) by simp
  next
    case 2
    have "\<forall>v\<in>set (modify_first (with_hook_id wid) (\<lambda>_. PDict stored) hs). is_dict v \<longrightarrow> secrets_covered (as_dict v)"
      using cov storage_covers [OF 2(1)] by (auto dest!: set_modify_first)
    then show ?thesis using write_instance_covers [OF assms(1) _ 2(2)] by blast
  qed
qed

datatype hook_op =
    List_Hooks string bool
  | Protect_Hooks
  | Create_Hook string hook_form
  | Update_Hook string string hook_form
  | Set_Filters string string pdict
  | Set_Enabled string string bool
  | Delete_Hook string string
  | Delete_Hooks string
  | Mark_Result string string call_result
  | Record_Call string string pdict

fun run_hook_op :: "hook_env \<Rightarrow> hook_call \<times> hook_op \<Rightarrow> hook_state \<Rightarrow> hook_state" where
  "run_hook_op env (call, List_Hooks name reveal) st = snd (list_instance_webhooks env call name reveal st)"
| "run_hook_op env (call, Protect_Hooks) st = snd (protect_stored_webhook_secrets env call st)"
| "run_hook_op env (call, Create_Hook name form) st = snd (create_webhook env call name form st)"
| "run_hook_op env (call, Update_Hook name wid form) st = snd (update_webhook env call name wid form st)"
| "run_hook_op env (call, Set_Filters name wid fs) st = snd (set_webhook_filters env call name wid fs st)"
| "run_hook_op env (call, Set_Enabled name wid b) st = snd (set_webhook_enabled env call name wid b st)"
| "run_hook_op env (call, Delete_Hook name wid) st = snd (delete_webhook call name wid st)"
| "run_hook_op env (call, Delete_Hooks name) st = snd (delete_all_instance_webhooks call name st)"
| "run_hook_op env (call, Mark_Result name wid c) st = snd (mark_dispatch_result_ex env call name wid c st)"
| "run_hook_op env (call, Record_Call name wid entry) st = snd (append_dispatch_history env call name wid entry st)"

lemma protected_covers:
  "protected_hooks env call name clean = Inr vs \<Longrightarrow> v \<in> set vs \<Longrightarrow> secrets_covered (as_dict v)"
  by (auto simp: protected_hooks_def rbind_eqs dest!: traverse_mem [where y = "as_dict v"] intro: storage_covers)

lemma protect_instances_covers:
  "protect_instances env call d = Inr (d', n) \<Longrightarrow>
     \<forall>(name, hs)\<in>set d. \<forall>v\<in>set (as_list hs). is_dict v \<longrightarrow> secrets_covered (as_dict v) \<Longrightarrow>
     \<forall>(name, hs)\<in>set d'. \<forall>v\<in>set (as_list hs). is_dict v \<longrightarrow> secrets_covered (as_dict v)"
proof (induction d arbitrary: d' n)
  case (Cons p d)
  obtain name v where p: "p = (name, v)" by (cases p)
  obtain e m w where rest: "protect_instances env call d = Inr (e, m)" and d': "d' = (name, w) # e"
    and w: "w = v \<or> (\<exists>clean vs. w = PList vs \<and> protected_hooks env call name clean = Inr vs)"
    using Cons.prems(1) unfolding p by (cases v) (fastforce simp: rbind_eqs split: if_splits prod.splits)+
  have "\<forall>x\<in>set (as_list w). is_dict x \<longrightarrow> secrets_covered (as_dict x)"
    using w Cons.prems(2) protected_covers by (auto simp: p)
  then show ?case using Cons.IH [OF rest] Cons.prems(2) by (auto simp: d')
qed simp

lemma store_protected_covers:
  assumes "hooks_covered (hs_store st)" and "hooks_covered (Holds [(''instances'', PDict instances)])"
    and "store_protected call original instances st = (r, st')"
  shows "hooks_covered (hs_store st')"
  using assms by (auto simp: store_protected_def write_hooks_cases split: sum.splits prod.splits if_splits)

lemma hooks_covered_step:
  assumes "hooks_covered (hs_store st)"
  shows "hooks_covered (hs_store (run_hook_op env a st))"
proof -
  note change = change_webhook_covers [OF assms]
  have changed: "hooks_covered (hs_store (snd (change_webhook env call name wid c st)))" for call name wid c
    using change by (metis prod.collapse)
  have cov: "hooks_of (read_hooks (hs_store st)) name = Some hs \<Longrightarrow> \<forall>v\<in>set hs. is_dict v \<longrightarrow> secrets_covered (as_dict v)"
    for name hs by (rule hooks_of_covered [OF assms])
  obtain call p where a: "a = (call, p)" by (cases a)
  show ?thesis
  proof (cases p)
    case (List_Hooks name reveal)
    have stored: "hooks_covered (hs_store st')"
      if "protected_hooks env call name clean = Inr vs"
        "store_protected call (read_hooks (hs_store st)) (dset (read_hooks (hs_store st)) name (PList vs)) st = (r, st')"
      for clean vs r st'
      using store_protected_covers [OF assms covered_update [OF assms] that(2)] protected_covers [OF that(1)] by blast
    show ?thesis
      using assms stored
      by (auto simp: a List_Hooks list_instance_webhooks_def Let_def rbind_eqs
          split: pval.split sum.split prod.split)
  next
    case Protect_Hooks
    have "hooks_covered (Holds [(''instances'', PDict d)])"
      if "protect_instances env call (read_hooks (hs_store st)) = Inr (d, n)" for d n
      using protect_instances_covers [OF that] assms by (simp add: hooks_covered_def dget_Cons)
    then have "hooks_covered (hs_store st')"
      if "protect_instances env call (read_hooks (hs_store st)) = Inr (d, n)"
        "store_protected call (read_hooks (hs_store st)) d st = (r, st')" for d n r st'
      using store_protected_covers [OF assms _ that(2)] that(1) by blast
    then show ?thesis
      using assms
      by (auto simp: a Protect_Hooks protect_stored_webhook_secrets_def split: sum.split prod.split)
  next
    case (Create_Hook name form)
    have stored: "hooks_covered (hs_store st')"
      if "webhook_for_storage env call name i = Inr s"
        "write_instance ok name ((case hooks_of (read_hooks (hs_store st)) name of None \<Rightarrow> [] | Some hs \<Rightarrow> hs) @ [PDict s]) st = (r, st')"
      for i s ok r st'
    proof (rule write_instance_covers [OF assms _ that(2)])
      show "\<forall>v\<in>set ((case hooks_of (read_hooks (hs_store st)) name of None \<Rightarrow> [] | Some hs \<Rightarrow> hs) @ [PDict s]).
          is_dict v \<longrightarrow> secrets_covered (as_dict v)"
        using cov [of name] storage_covers [OF that(1)] by (cases "hooks_of (read_hooks (hs_store st)) name") auto
    qed
    show ?thesis
      using assms
      by (auto simp: a Create_Hook create_webhook_def rbind_eqs split: sum.split prod.split elim!: stored)
  next
    case (Update_Hook name wid form)
    then show ?thesis using changed by (simp add: a update_webhook_def shown_def)
  next
    case (Set_Filters name wid fs)
    then show ?thesis using changed by (simp add: a set_webhook_filters_def shown_def)
  next
    case (Set_Enabled name wid b)
    then show ?thesis using changed by (simp add: a set_webhook_enabled_def shown_def)
  next
    case (Delete_Hook name wid)
    show ?thesis
    proof (cases "hooks_of (read_hooks (hs_store st)) name")
      case None
      then show ?thesis using assms by (simp add: a Delete_Hook delete_webhook_def)
    next
      case (Some hs)
      have "\<forall>v\<in>set (filter (\<lambda>v. is_dict v \<and> py_str (dget (as_dict v) ''id'') \<noteq> wid) hs). is_dict v \<longrightarrow> secrets_covered (as_dict v)"
        using cov [OF Some] by simp
      from write_instance_covers [OF assms this] show ?thesis
        using assms by (auto simp: a Delete_Hook delete_webhook_def Some Let_def split: sum.split prod.split)
    qed
  next
    case (Delete_Hooks name)
    have "set (AList.delete name d) \<subseteq> set d" for d :: pdict by (auto simp: AList.delete_eq)
    then show ?thesis
      using assms by (fastforce simp: a Delete_Hooks delete_all_instance_webhooks_def Let_def write_hooks_cases hooks_covered_def dget_Cons)
  next
    case (Mark_Result name wid c)
    then show ?thesis using changed by (simp add: a mark_dispatch_result_ex_def)
  next
    case (Record_Call name wid entry)
    have "hooks_covered (hs_store (snd (change_webhook env call name wid c (st\<lparr> hs_deliveries := f \<rparr>))))" for c f
      using change_webhook_covers [of "st\<lparr> hs_deliveries := f \<rparr>"] assms by (metis hook_state.simps(7) prod.collapse hook_state.select_convs(1) hook_state.surjective hook_state.update_convs(3))
    then show ?thesis
      using assms by (auto simp: a Record_Call append_dispatch_history_def split: sum.split prod.split) (metis snd_conv)+
  qed
qed

lemma hooks_covered_run: "hooks_covered (hs_store st) \<Longrightarrow> hooks_covered (hs_store (fold (run_hook_op env) ops st))"
  by (induction ops arbitrary: st) (simp_all add: hooks_covered_step)

lemma protect_everything:
  "protect_instances env call d = Inr (d', n) \<Longrightarrow> n \<noteq> 0 \<or> d' = d \<Longrightarrow>
     \<forall>(name, hs)\<in>set d'. \<forall>v\<in>set (as_list hs). is_dict v \<longrightarrow> secrets_covered (as_dict v)"
proof -
  have gen: "\<forall>(name, hs)\<in>set d'. \<forall>v\<in>set (as_list hs). is_dict v \<longrightarrow> secrets_covered (as_dict v)"
    if "protect_instances env call d = Inr (d', n)" for d d' n
    using that
  proof (induction d arbitrary: d' n)
    case (Cons p d)
    obtain name v where p: "p = (name, v)" by (cases p)
    obtain e m w where rest: "protect_instances env call d = Inr (e, m)" and d': "d' = (name, w) # e"
      and w: "\<forall>x\<in>set (as_list w). is_dict x \<longrightarrow> secrets_covered (as_dict x)"
    proof (cases v)
      case (PList raw)
      obtain clean vs e m where "protected_hooks env call name clean = Inr vs" "protect_instances env call d = Inr (e, m)"
        and w: "d' = (name, PList vs) # e"
        using Cons.prems(1) unfolding p PList by (auto simp: rbind_eqs split: if_splits prod.splits)
      then show ?thesis using that [of e m "PList vs"] protected_covers by auto
    qed (use Cons.prems(1) that in \<open>auto simp: p rbind_eqs split: prod.splits\<close>)
    then show ?case using Cons.IH [OF rest] by (auto simp: d')
  qed simp
  show "protect_instances env call d = Inr (d', n) \<Longrightarrow> n \<noteq> 0 \<or> d' = d \<Longrightarrow>
     \<forall>(name, hs)\<in>set d'. \<forall>v\<in>set (as_list hs). is_dict v \<longrightarrow> secrets_covered (as_dict v)" by (rule gen)
qed

lemma traverse_nothing: "traverse f xs = Inr [] \<Longrightarrow> xs = []"
  by (cases xs) (auto simp: rbind_eqs)

lemma hydrated_none: "hydrated env call name raw = Inr [] \<Longrightarrow> x \<in> set raw \<Longrightarrow> \<not> is_dict x"
  unfolding hydrated_def by (drule traverse_nothing) (auto simp: filter_empty_conv)

text \<open>The protection leaves a file as it is only when nothing in it is in clear.\<close>

lemma protect_nothing:
  assumes "protect_instances env call d = Inr (d', 0)"
  shows "\<forall>(name, hs)\<in>set d. \<forall>v\<in>set (as_list hs). is_dict v \<longrightarrow> secrets_covered (as_dict v)"
  using assms
proof (induction d arbitrary: d')
  case (Cons p d)
  obtain name v where p: "p = (name, v)" by (cases p)
  have "(\<exists>e. protect_instances env call d = Inr (e, 0)) \<and>
      (\<forall>x\<in>set (as_list v). is_dict x \<longrightarrow> secrets_covered (as_dict x))"
  proof (cases v)
    case (PList raw)
    obtain clean vs e m where h: "hydrated env call name raw = Inr clean" and vs: "protected_hooks env call name clean = Inr vs"
      and rest: "protect_instances env call d = Inr (e, m)"
      and zero: "(if vs \<noteq> raw then length clean + m else m) = 0"
      using Cons.prems unfolding p PList by (auto simp: rbind_eqs split: if_splits prod.splits)
    show ?thesis
    proof (cases "vs = raw")
      case True
      then show ?thesis using rest zero protected_covers [OF vs] by (simp add: PList)
    next
      case False
      then show ?thesis using rest zero h hydrated_none by (auto simp: PList)
    qed
  qed (use Cons.prems in \<open>auto simp: p rbind_eqs split: prod.splits\<close>)
  then show ?case using Cons.IH by (simp add: p) blast
qed simp

text \<open>
  C17: No secret of a webhook stays in the file in clear: after the protection at startup has
  succeeded, whatever the file held before and also when it had nothing to change, and through any
  operations afterwards with any failing writes, every credential of every webhook and the value of
  every sensitive header is empty or carries the mark of an encrypted secret. A value that carries
  this mark already when it is given (\<open>fernet:v1:\<close>) is taken for an encrypted one and stored as it is.
\<close>

theorem webhook_secrets_encrypted:
  assumes "protect_stored_webhook_secrets env call st = (Inr n, st1)"
  shows "hooks_covered (hs_store (fold (run_hook_op env) ops st1))"
proof (rule hooks_covered_run)
  obtain d where d: "protect_instances env call (read_hooks (hs_store st)) = Inr (d, n)"
    using assms by (auto simp: protect_stored_webhook_secrets_def split: sum.splits prod.splits if_splits)
  show "hooks_covered (hs_store st1)"
  proof (cases "n = 0")
    case True
    then have "st1 = st" using assms d by (simp add: protect_stored_webhook_secrets_def)
    then show ?thesis using protect_nothing [of env call _ d] d True by (simp add: hooks_covered_def)
  next
    case False
    then have w: "store_protected call (read_hooks (hs_store st)) d st = (Inr (), st1)"
      using assms d by (auto simp: protect_stored_webhook_secrets_def split: sum.splits prod.splits)
    have "hs_store st1 = Holds [(''instances'', PDict d)]"
      using w by (auto simp: store_protected_def write_hooks_cases split: sum.splits prod.splits if_splits)
    then show ?thesis using protect_everything [OF d] False by (simp add: hooks_covered_def dget_Cons)
  qed
qed

section \<open>A secret that looks encrypted\<close>

lemma sanitize_webhook_auth:
  "sanitize_webhook env call name r = Inr s \<Longrightarrow> dget s ''authConfig'' = PDict (sanitize_auth_config (dget r ''authConfig''))"
  by (auto simp: sanitize_webhook_def rbind_eqs Let_def dget_Cons)

lemma sanitize_auth_member:
  assumes "dget d ''token'' = PStr t" and "strip t = t" and "t \<noteq> []"
  shows "dget (sanitize_auth_config (PDict d)) ''token'' = PStr t \<and> (''token'', PStr t) \<in> set (sanitize_auth_config (PDict d))"
  using assms by (simp add: sanitize_auth_config_def dget_Cons)

lemma first_decrypted_none:
  "is_encrypted (PStr t) \<Longrightarrow> \<forall>dec\<in>set decs. dec (drop (length ENCRYPTED_PREFIX) t) = None \<Longrightarrow> first_decrypted decs t = Inl undecipherable"
  by (induction decs) (auto simp: decrypt_or_legacy_def)

lemma map_values_Inl: "(k, v) \<in> set d \<Longrightarrow> f k v = Inl e \<Longrightarrow> \<exists>e'. map_values f d = Inl e'"
proof (induction d)
  case (Cons p d)
  then show ?case by (cases p; cases "f (fst p) (snd p)"; cases "map_values f d") auto
qed simp

lemma rbind_fails: "\<exists>e. m = Inl e \<Longrightarrow> \<exists>e. rbind m f = Inl e"
  by auto

lemma rbind_later_fails: "(\<And>x. \<exists>e. f x = Inl e) \<Longrightarrow> \<exists>e. rbind m f = Inl e"
  by (cases m) auto

lemma traverse_Inl: "x \<in> set xs \<Longrightarrow> \<exists>e. f x = Inl e \<Longrightarrow> \<exists>e. traverse f xs = Inl e"
proof (induction xs)
  case (Cons y xs)
  then show ?case by (cases "f y"; cases "traverse f xs") auto
qed simp

lemma hydrate_fails:
  assumes "(''token'', PStr t) \<in> set (as_dict (dget s ''authConfig''))" and "is_encrypted (PStr t)"
    and "\<forall>dec\<in>set (hk_decrypts env). dec (drop (length ENCRYPTED_PREFIX) t) = None"
  shows "\<exists>e. hydrate_webhook env call name s = Inl e"
proof -
  have "\<exists>e. decrypt_auth_config env (dget s ''authConfig'') = Inl e"
    unfolding decrypt_auth_config_def
    by (rule map_values_Inl [OF assms(1), where e = undecipherable])
       (use assms(2,3) in \<open>simp add: secret_keys_def decrypt_secret_value_def Let_def first_decrypted_none\<close>)
  then show ?thesis
    unfolding hydrate_webhook_def by (intro rbind_later_fails rbind_fails)
qed

text \<open>
  A secret that begins like an encrypted one is stored as it was given, and then no webhook of
  the instance can be read any more: the call that creates it succeeds, and every listing of the
  instance afterwards raises, so nothing of that instance is dispatched until the file is repaired.
\<close>

theorem disguised_secret_blocks_instance:
  assumes "create_webhook env call name form st = (Inr view, st')"
    and "dget (case hf_auth_config form of None \<Rightarrow> [] | Some d \<Rightarrow> d) ''token'' = PStr t"
    and "strip t = t" and "is_encrypted (PStr t)"
    and "\<forall>dec\<in>set (hk_decrypts env). dec (drop (length ENCRYPTED_PREFIX) t) = None"
  shows "\<exists>e. list_enabled_webhooks_for_dispatch env call' name st' = (Inl e, st')"
proof -
  let ?hs = "case hooks_of (read_hooks (hs_store st)) name of None \<Rightarrow> [] | Some hs \<Rightarrow> hs"
  have t: "t \<noteq> []" using assms(4) by (auto simp: starts_with_def ENCRYPTED_PREFIX_def)
  obtain item stored where item: "sanitize_webhook env call name (new_webhook call name form) = Inr item"
    and stored: "webhook_for_storage env call name item = Inr stored"
    and written: "write_instance (hc_disk_ok call) name (?hs @ [PDict stored]) st = (Inr (), st')"
    using assms(1) by (auto simp: create_webhook_def rbind_eqs split: sum.splits prod.splits)
  have "dget (new_webhook call name form) ''authConfig'' = PDict (case hf_auth_config form of None \<Rightarrow> [] | Some d \<Rightarrow> d)"
    by (simp add: new_webhook_def dget_Cons)
  then have first: "dget (as_dict (dget item ''authConfig'')) ''token'' = PStr t"
    using sanitize_webhook_auth [OF item] sanitize_auth_member [OF assms(2,3) t] by simp
  obtain clean auth where clean: "sanitize_webhook env call name item = Inr clean"
    and auth: "encrypt_auth_config env (dget clean ''authConfig'') = Inr auth" and kept: "dget stored ''authConfig'' = PDict auth"
    using stored by (auto simp: webhook_for_storage_def rbind_eqs)
  have "(''token'', PStr t) \<in> set (as_dict (dget clean ''authConfig''))"
    using sanitize_webhook_auth [OF clean] sanitize_auth_member [OF first assms(3) t] sanitize_webhook_auth [OF item] by simp
  then have "(''token'', PStr t) \<in> set auth"
    using auth assms(4) t by (force simp: encrypt_auth_config_def rbind_eqs map_values_pure encrypt_secret_def secret_keys_def)
  then have "\<exists>e. hydrate_webhook env call' name stored = Inl e"
    using hydrate_fails [of t stored] assms(4,5) kept by simp
  then have "\<exists>e. hydrated env call' name (?hs @ [PDict stored]) = Inl e"
    unfolding hydrated_def by (intro traverse_Inl [of "PDict stored"]) simp_all
  moreover have "dget (read_hooks (hs_store st')) name = PList (?hs @ [PDict stored])"
    using written by (auto simp: write_instance_def write_hooks_cases dget_Cons split: if_splits)
  ultimately show ?thesis
    by (auto simp: list_enabled_webhooks_for_dispatch_def list_instance_webhooks_def Let_def py_or_def)
qed

section \<open>Witnesses\<close>

definition hook_sample_env :: hook_env where
  "hook_sample_env =
     \<lparr> hk_encrypt = Some rev, hk_decrypts = [\<lambda>s. if s = ''x'' then None else Some (rev s)], hk_netloc = (\<lambda>_. ''h''),
       hk_base64 = rev, hk_mean = (\<lambda>a n b. b), hk_round = (\<lambda>x. x), hk_weighted = (\<lambda>xs n. PNone),
       hk_delivery = \<lparr> dl_loads = (\<lambda>_. None), dl_parse_url = (\<lambda>u. Some ([], [])), dl_with_query = (\<lambda>u q. u),
         dl_float = (\<lambda>_. Some (0, ''0.0'')), dl_mark = ''~'', dl_retention_setting = 2, dl_max_bytes_setting = 2048 \<rparr> \<rparr>"

definition hook_sample_call :: hook_call where
  "hook_sample_call =
     \<lparr> hc_now = 7, hc_now_iso = ''t'', hc_uid = ''w1'', hc_disk_ok = True, hc_backup_ok = True, hc_evidence_ok = True \<rparr>"

definition hook_sample_form :: hook_form where
  "hook_sample_form =
     \<lparr> hf_name = Some ''bot'', hf_url = ''https://h'', hf_enabled = True, hf_auth_type = ''BEARER'',
       hf_auth_config = Some [(''token'', PStr ''fernet:v1:x'')], hf_custom_headers = None, hf_event_filters = None \<rparr>"

definition hook_sample_state :: hook_state where
  "hook_sample_state = \<lparr> hs_store = Absent, hs_backup = Absent, hs_deliveries = Absent \<rparr>"

definition hook_sample_raw :: pdict where
  "hook_sample_raw = [(''id'', PStr ''w1''), (''authConfig'', PDict [(''token'', PStr ''s'')])]"

definition hook_sample_clear :: hook_state where
  "hook_sample_clear =
     hook_sample_state\<lparr> hs_store := Holds [(''instances'', PDict [(''a'', PList [PDict hook_sample_raw])])] \<rparr>"

lemma disguised_secret_blocks_instance_witness:
  "\<exists>e st. list_enabled_webhooks_for_dispatch hook_sample_env hook_sample_call ''a'' st = (Inl e, st)"
proof -
  have "is_ok (fst (create_webhook hook_sample_env hook_sample_call ''a'' hook_sample_form hook_sample_state))" by code_simp
  then obtain view st' where created: "create_webhook hook_sample_env hook_sample_call ''a'' hook_sample_form hook_sample_state = (Inr view, st')"
    by (metis is_ok_iff prod.collapse)
  have t: "strip ''fernet:v1:x'' = ''fernet:v1:x''" "is_encrypted (PStr ''fernet:v1:x'')" "drop (length ENCRYPTED_PREFIX) ''fernet:v1:x'' = ''x''"
    by code_simp+
  have a: "dget (case hf_auth_config hook_sample_form of None \<Rightarrow> [] | Some d \<Rightarrow> d) ''token'' = PStr ''fernet:v1:x''" by code_simp
  have "\<forall>dec\<in>set (hk_decrypts hook_sample_env). dec (drop (length ENCRYPTED_PREFIX) ''fernet:v1:x'') = None"
    unfolding t(3) by (simp add: hook_sample_env_def)
  from disguised_secret_blocks_instance [OF created a t(1,2) this] show ?thesis by blast
qed

lemma webhook_secrets_encrypted_witness:
  "\<not> hooks_covered (hs_store hook_sample_clear) \<and>
   (\<exists>n st. protect_stored_webhook_secrets hook_sample_env hook_sample_call hook_sample_clear = (Inr n, st) \<and> hooks_covered (hs_store st))"
proof
  have raw: "\<not> secrets_covered hook_sample_raw" by code_simp
  then show "\<not> hooks_covered (hs_store hook_sample_clear)"
    by (simp add: hooks_covered_def hook_sample_clear_def dget_Cons)
  have "is_ok (rbind (hydrate_webhook hook_sample_env hook_sample_call ''a'' hook_sample_raw)
      (webhook_for_storage hook_sample_env hook_sample_call ''a''))" by code_simp
  then obtain h s where h: "hydrate_webhook hook_sample_env hook_sample_call ''a'' hook_sample_raw = Inr h"
    and s: "webhook_for_storage hook_sample_env hook_sample_call ''a'' h = Inr s"
    by (auto simp: is_ok_iff rbind_eqs)
  have "s \<noteq> hook_sample_raw" using storage_covers [OF s] raw by auto
  then have "protect_instances hook_sample_env hook_sample_call (read_hooks (hs_store hook_sample_clear)) =
      Inr ([(''a'', PList [PDict s])], 1)"
    by (simp add: hook_sample_clear_def dget_Cons hydrated_def protected_hooks_def h s)
  moreover have "hc_disk_ok hook_sample_call" "hc_backup_ok hook_sample_call" "hs_backup hook_sample_clear = Absent"
    by (simp_all add: hook_sample_call_def hook_sample_clear_def hook_sample_state_def)
  ultimately have "fst (protect_stored_webhook_secrets hook_sample_env hook_sample_call hook_sample_clear) = Inr 1"
    by (simp add: protect_stored_webhook_secrets_def store_protected_def backup_hooks_def write_hooks_cases)
  then obtain st where st: "protect_stored_webhook_secrets hook_sample_env hook_sample_call hook_sample_clear = (Inr 1, st)"
    by (metis prod.collapse)
  from webhook_secrets_encrypted [OF st, where ops = "[]"] st show
    "\<exists>n st. protect_stored_webhook_secrets hook_sample_env hook_sample_call hook_sample_clear = (Inr n, st) \<and> hooks_covered (hs_store st)"
    by auto
qed

end
