(* ===== verification/Webhook_Dispatch.thy ===== *)
theory Webhook_Dispatch
  imports Webhook_Hooks
begin

text \<open>
  The call of one webhook, \<open>gateway/app/services/webhook_delivery.py\<close>: the filter of the webhook,
  the attempts with their waiting times, what counts as transient, and the evidence that is kept
  of the outcome. What the HTTP client answers to each attempt, the durations, and the class and
  text of an exception are arguments; the clock is read once for each record that is written.
\<close>

section \<open>Outcomes of a call\<close>

datatype call_error =
    Timed_Out string
  | Connect_Failed string
  | Read_Failed string
  | Write_Failed string
  | Transport_Failed string
  | Bad_Json string
  | Other_Failed string string
  | Raised py_exc

record call_env =
  de_hooks :: hook_env
  de_class :: "py_exc \<Rightarrow> string"
  de_text :: "py_exc \<Rightarrow> string"

fun call_error_text :: "call_env \<Rightarrow> call_error \<Rightarrow> string" where
  "call_error_text env (Timed_Out s) = s"
| "call_error_text env (Connect_Failed s) = s"
| "call_error_text env (Read_Failed s) = s"
| "call_error_text env (Write_Failed s) = s"
| "call_error_text env (Transport_Failed s) = s"
| "call_error_text env (Bad_Json s) = s"
| "call_error_text env (Other_Failed c s) = s"
| "call_error_text env (Raised e) = de_text env e"

definition retry_backoff :: "nat list" where
  "retry_backoff = [2, 5, 15]"

definition retryable_http :: "int list" where
  "retryable_http = [500, 502, 503, 504]"

definition non_retryable_http :: "int list" where
  "non_retryable_http = [400, 401, 403, 404, 405, 409, 410, 422]"

text \<open>\<open>httpx.TimeoutException\<close> is one of the transport errors.\<close>

fun is_transport :: "call_error \<Rightarrow> bool" where
  "is_transport (Timed_Out _) = True"
| "is_transport (Connect_Failed _) = True"
| "is_transport (Read_Failed _) = True"
| "is_transport (Write_Failed _) = True"
| "is_transport (Transport_Failed _) = True"
| "is_transport _ = False"

definition is_retryable :: "int option \<Rightarrow> call_error option \<Rightarrow> bool" where
  "is_retryable code exc =
     (case exc of
        Some e \<Rightarrow> is_transport e
      | None \<Rightarrow> (case code of
                  None \<Rightarrow> False
                | Some c \<Rightarrow> c \<notin> set non_retryable_http \<and> c \<in> set retryable_http))"

definition status_name :: "int option \<Rightarrow> call_error option \<Rightarrow> string" where
  "status_name code exc =
     (case exc of
        Some (Timed_Out _) \<Rightarrow> ''timeout''
      | Some _ \<Rightarrow> ''connection_fail''
      | None \<Rightarrow> (case code of
                  None \<Rightarrow> ''http_0''
                | Some c \<Rightarrow> (if 200 \<le> c \<and> c < 300 then ''ok_'' else ''http_'') @ int_str c))"

definition classify_http_error :: "int option \<Rightarrow> string option" where
  "classify_http_error code =
     (case code of
        None \<Rightarrow> None
      | Some c \<Rightarrow>
          if 400 \<le> c \<and> c < 500 then Some (''http_'' @ int_str c @ ''_client'')
          else if 500 \<le> c \<and> c < 600 then Some (''http_'' @ int_str c @ ''_server'')
          else None)"

fun classify_dispatch_error :: "call_env \<Rightarrow> call_error \<Rightarrow> string" where
  "classify_dispatch_error env (Timed_Out s) = ''timeout''"
| "classify_dispatch_error env (Connect_Failed s) =
     (let raw = str_lower s in
      if contains_any raw [''name or service not known'', ''nodename nor servname provided''] then ''dns_fail''
      else if contains_str raw ''connection refused'' then ''connection_refused''
      else if contains_any raw [''ssl'', ''certificate''] then ''ssl_fail''
      else ''connect_error'')"
| "classify_dispatch_error env (Read_Failed s) = ''read_error''"
| "classify_dispatch_error env (Write_Failed s) = ''write_error''"
| "classify_dispatch_error env (Transport_Failed s) = ''transport_error''"
| "classify_dispatch_error env (Bad_Json s) = ''serialization_fail''"
| "classify_dispatch_error env (Other_Failed c s) = str_lower c"
| "classify_dispatch_error env (Raised e) = str_lower (de_class env e)"

section \<open>What is kept of a payload\<close>

definition payload_summary :: "pdict \<Rightarrow> pval" where
  "payload_summary payload =
     (let message = as_dict (dget payload ''message'');
          content = dget payload ''content'';
          content_text = (if is_dict content then dget (as_dict content) ''text'' else content);
          message_text = py_or (dget message ''text'') (dget message ''caption'');
          text = str_or_empty (py_or (dget payload ''text'') (py_or content_text message_text));
          media = as_dict (dget payload ''media'')
      in redact_json (PDict
        [(''event'', dget payload ''event''), (''type'', dget payload ''type''), (''subtype'', dget payload ''subtype''),
         (''instance'', dget payload ''instance''), (''messageId'', py_or (dget message ''id'') (dget payload ''messageId'')),
         (''direction'', dget payload ''direction''), (''recipient'', dget payload ''recipient''),
         (''messageType'', py_or (dget payload ''messageType'') (dget message ''kind'')),
         (''textPreview'', PStr (take 120 text)), (''mediaKind'', dget media ''kind''),
         (''mediaCaption'', PStr (take 120 (str_or_empty (dget media ''caption''))))]))"

text \<open>\<open>str.isalnum\<close> on the first 256 code points.\<close>

definition is_alnum :: "char \<Rightarrow> bool" where
  "is_alnum c \<longleftrightarrow> is_digit c \<or> is_lower c \<or> is_upper c \<or>
     (let n = of_char c :: nat in n \<in> {170, 178, 179, 181, 185, 186, 188, 189, 190} \<or> (192 \<le> n \<and> n \<noteq> 215 \<and> n \<noteq> 247))"

definition looks_binary_blob :: "string \<Rightarrow> string \<Rightarrow> bool" where
  "looks_binary_blob key value \<longleftrightarrow>
     str_lower key \<in> {''base64'', ''data'', ''file'', ''bytes'', ''binary''} \<or>
     (let compact = strip value in
      256 \<le> length compact \<and>
      97 * length compact < 100 * length (filter (\<lambda>c. is_alnum c \<or> c \<in> set ''+/=_-'') compact))"

definition cut_sample :: "string \<Rightarrow> string \<Rightarrow> string" where
  "cut_sample key s =
     (if looks_binary_blob key s then ''[omitted binary-like content: '' @ nat_str (length s) @ '' chars]''
      else if length s > 240 then take 240 s @ ''...[truncated '' @ nat_str (length s - 240) @ '' chars]''
      else s)"

fun truncate_payload :: "string \<Rightarrow> pval \<Rightarrow> pval"
  and truncate_items :: "pdict \<Rightarrow> pdict"
  and truncate_list :: "string \<Rightarrow> nat \<Rightarrow> pval list \<Rightarrow> pval list" where
  "truncate_payload key (PDict d) = PDict (truncate_items d)"
| "truncate_payload key (PList xs) = PList (truncate_list key 25 xs)"
| "truncate_payload key (PStr s) = PStr (cut_sample key s)"
| "truncate_payload key v = v"
| "truncate_items [] = []"
| "truncate_items ((k, v) # d) = (k, truncate_payload k v) # truncate_items d"
| "truncate_list key n [] = []"
| "truncate_list key n (x # xs) = (if n = 0 then [] else truncate_payload key x # truncate_list key (n - 1) xs)"

definition serialize_payload_preview :: "pdict \<Rightarrow> string \<times> bool" where
  "serialize_payload_preview payload =
     (let encoded = json_dumps False '', '' '': '' (truncate_payload [] (redact_json (PDict payload)))
      in (take 4000 encoded, 4000 < length encoded))"

definition interesting_headers :: "string list" where
  "interesting_headers =
     [''content-type'', ''content-length'', ''date'', ''server'', ''retry-after'', ''location'', ''x-request-id'', ''x-correlation-id'']"

definition response_headers_summary :: "pdict \<Rightarrow> pdict" where
  "response_headers_summary headers =
     redact_headers (PDict (filter (\<lambda>(k, _). str_lower k \<in> set interesting_headers \<or> starts_with (str_lower k) ''x-'') headers))"

section \<open>The filter of a webhook\<close>

definition pick_payload_by_filter :: "pdict \<Rightarrow> pdict \<Rightarrow> pdict option" where
  "pick_payload_by_filter item payload =
     (let filters = as_dict (dget item ''eventFilters'');
          business = truthy (dget_default filters ''business'' (PBool True));
          transport = truthy (dget_default filters ''transport'' (PBool False));
          operational = truthy (dget_default filters ''operational'' (PBool False));
          category = str_or_empty (dget payload ''category'');
          allowed = (if category = ''business_message'' \<or> category = ''business_event'' then business
                     else if category = ''transport'' then transport
                     else if category = ''operational'' then operational
                     else business)
      in if allowed then Some payload else None)"

section \<open>One call\<close>

record webhook_call =
  wc_instance :: string
  wc_webhook :: string
  wc_name :: string
  wc_dispatch :: string
  wc_message :: string
  wc_conversation :: string
  wc_event :: string
  wc_event_id :: string
  wc_request :: string
  wc_started :: int
  wc_url :: string
  wc_test :: bool
  wc_action :: "string option"

definition conversation_of :: "pdict \<Rightarrow> string res" where
  "conversation_of payload =
     rbind (vget (py_or (dget payload ''meta'') (PDict [])) ''conversationId'') (\<lambda>c.
       if truthy c then Inr (py_str c)
       else rbind (vget (py_or (dget payload ''trace'') (PDict [])) ''conversationId'') (\<lambda>t. Inr (str_or_empty t)))"

definition describe_call ::
    "pdict \<Rightarrow> string \<Rightarrow> pdict \<Rightarrow> bool \<Rightarrow> string option \<Rightarrow> int \<Rightarrow> webhook_call res" where
  "describe_call payload request_id item test action now =
     (let wid = str_or_empty (dget item ''id'') in
      rbind (vget (py_or (dget payload ''message'') (PDict [])) ''id'') (\<lambda>mid.
      rbind (conversation_of payload) (\<lambda>conversation.
        Inr \<lparr> wc_instance = str_or_empty (dget payload ''instance''), wc_webhook = wid,
              wc_name = py_str (py_or (dget item ''name'') (py_or (PStr wid) (PStr ''webhook''))),
              wc_dispatch = py_str (py_or (dget payload ''dispatchId'') (PStr (''disp_'' @ request_id @ ''_'' @ take 6 wid))),
              wc_message = str_or_empty (py_or mid (dget payload ''messageId'')), wc_conversation = conversation,
              wc_event = py_str (py_or (dget payload ''event'') (py_or (dget payload ''subtype'')
                           (py_or (dget payload ''type'') (PStr ''UNKNOWN'')))),
              wc_event_id = clean_str (dget payload ''id''), wc_request = request_id, wc_started = now,
              wc_url = str_or_empty (dget item ''url''), wc_test = test, wc_action = action \<rparr>)))"

record webhook_request =
  wr_payload :: pdict
  wr_headers :: pdict
  wr_query :: pdict

definition call_headers :: "hook_env \<Rightarrow> webhook_call \<Rightarrow> pdict \<Rightarrow> pdict" where
  "call_headers env c item =
     dmerge [(''Content-Type'', PStr ''application/json''), (''X-Request-Id'', PStr (wc_request c)),
             (''X-Dispatch-Id'', PStr (wc_dispatch c))] (build_auth_headers env item)"

definition request_evidence :: "webhook_call \<Rightarrow> webhook_request \<Rightarrow> pdict" where
  "request_evidence c rq =
     (let (preview, truncated) = serialize_payload_preview (wr_payload rq) in
      [(''method'', PStr ''POST''), (''url'', PStr (wc_url c)), (''query'', PDict (wr_query rq)),
       (''headers'', PDict (redact_headers (PDict (wr_headers rq)))), (''payloadSummary'', payload_summary (wr_payload rq)),
       (''payloadSizeBytes'', PInt (int (utf8_length (json_dumps False '', '' '': '' (PDict (wr_payload rq)))))),
       (''payloadPreview'', PStr preview), (''payloadTruncated'', PBool truncated)])"

definition response_evidence :: "pdict \<Rightarrow> string \<Rightarrow> pval" where
  "response_evidence headers preview = PDict [(''headers'', PDict headers), (''bodyPreview'', PStr preview)]"

definition common_evidence :: "webhook_call \<Rightarrow> int \<Rightarrow> pdict" where
  "common_evidence c now =
     [(''timestamp'', PInt now), (''dispatchId'', PStr (wc_dispatch c)), (''webhookId'', PStr (wc_webhook c)),
      (''webhookName'', PStr (wc_name c)), (''instanceName'', PStr (wc_instance c)), (''destinationUrl'', PStr (wc_url c)),
      (''eventType'', PStr (wc_event c)), (''eventId'', text_or_null (wc_event_id c)), (''requestId'', PStr (wc_request c)),
      (''firstAttemptAt'', PInt (wc_started c)), (''lastAttemptAt'', PInt now), (''isTest'', PBool (wc_test c)),
      (''messageId'', text_or_null (wc_message c)), (''conversationId'', text_or_null (wc_conversation c)),
      (''metadata'', PDict (case wc_action c of None \<Rightarrow> [] | Some a \<Rightarrow> if a = [] then [] else [(''manualActionId'', PStr a)]))]"

record http_answer =
  ha_status :: int
  ha_text :: string
  ha_headers :: pdict

record exchange =
  xc_outcome :: "call_error + http_answer"
  xc_duration :: pval
  xc_caught :: pval
  xc_latency :: pval
  xc_call :: hook_call

record failed_call =
  fc_code :: "int option"
  fc_exc :: "call_error option"
  fc_snippet :: string
  fc_headers :: pdict
  fc_duration :: pval
  fc_log :: "pval list"

definition caught_text :: "call_env \<Rightarrow> call_error \<Rightarrow> string" where
  "caught_text env e = take 2000 (redact_url (hk_delivery (de_hooks env)) (call_error_text env e))"

definition success_attempt :: "nat \<Rightarrow> exchange \<Rightarrow> int \<Rightarrow> pdict \<Rightarrow> string \<Rightarrow> pval" where
  "success_attempt attempt x code headers snippet =
     PDict [(''attempt'', PInt (int attempt)), (''success'', PBool True), (''statusCode'', PInt code),
            (''durationMs'', xc_duration x), (''response'', response_evidence headers snippet)]"

definition success_evidence ::
    "webhook_call \<Rightarrow> webhook_request \<Rightarrow> exchange \<Rightarrow> nat \<Rightarrow> nat \<Rightarrow> int \<Rightarrow> pdict \<Rightarrow> string \<Rightarrow> pval list \<Rightarrow> pdict" where
  "success_evidence c rq x attempt retries code headers snippet log =
     dmerge (common_evidence c (hc_now (xc_call x)))
       [(''status'', PStr ''success''), (''success'', PBool True), (''failure'', PBool False),
        (''eventSubtype'', dget (wr_payload rq) ''subtype''), (''attemptCount'', PInt (int attempt)),
        (''retryCount'', PInt (int retries)), (''statusCode'', PInt code), (''responseCode'', PInt code),
        (''durationMs'', xc_latency x), (''request'', PDict (request_evidence c rq)),
        (''response'', response_evidence headers snippet), (''attempts'', PList log)]"

text \<open>
  The body of the \<open>try\<close>: the call, and for a success its evidence; whatever is raised there,
  by the client or by the write of the evidence, is caught by the same handler.
\<close>

definition try_call ::
    "call_env \<Rightarrow> webhook_call \<Rightarrow> webhook_request \<Rightarrow> exchange \<Rightarrow> nat \<Rightarrow> nat \<Rightarrow> pval list \<Rightarrow> hook_state
     \<Rightarrow> (pdict + failed_call) \<times> hook_state" where
  "try_call env c rq x attempt retries log st =
     (case xc_outcome x of
        Inl e \<Rightarrow>
          (Inr \<lparr> fc_code = None, fc_exc = Some e, fc_snippet = caught_text env e, fc_headers = [],
                 fc_duration = xc_caught x, fc_log = log \<rparr>, st)
      | Inr a \<Rightarrow>
          (let code = ha_status a;
               snippet = redact_json_preview (dl_loads (hk_delivery (de_hooks env))) (PStr (ha_text a)) (Some 2000);
               headers = response_headers_summary (ha_headers a)
           in if 200 \<le> code \<and> code < 300
              then (let log' = log @ [success_attempt attempt x code headers snippet] in
                    case append_dispatch_history (de_hooks env) (xc_call x) (wc_instance c) (wc_webhook c)
                           (success_evidence c rq x attempt retries code headers snippet log') st of
                      (Inr delivery, st') \<Rightarrow>
                        (Inl [(''ok'', PBool True), (''status'', PStr (''ok_'' @ int_str code)), (''statusCode'', PInt code),
                              (''retriesUsed'', PInt (int retries)), (''latencyMs'', xc_latency x),
                              (''deliveryId'', dget delivery ''id'')], st')
                    | (Inl e, st') \<Rightarrow>
                        (Inr \<lparr> fc_code = Some code, fc_exc = Some (Raised e), fc_snippet = caught_text env (Raised e),
                               fc_headers = headers, fc_duration = xc_caught x, fc_log = log' \<rparr>, st'))
              else (Inr \<lparr> fc_code = Some code, fc_exc = None, fc_snippet = snippet, fc_headers = headers,
                          fc_duration = xc_duration x, fc_log = log \<rparr>, st)))"

definition failed_error_type :: "call_env \<Rightarrow> failed_call \<Rightarrow> string option" where
  "failed_error_type env f =
     (case fc_code f of
        Some _ \<Rightarrow> classify_http_error (fc_code f)
      | None \<Rightarrow> map_option (classify_dispatch_error env) (fc_exc f))"

definition code_or_zero :: "int option \<Rightarrow> int" where
  "code_or_zero code = (case code of None \<Rightarrow> 0 | Some c \<Rightarrow> c)"

definition failed_attempt :: "call_env \<Rightarrow> nat \<Rightarrow> failed_call \<Rightarrow> pval" where
  "failed_attempt env attempt f =
     PDict [(''attempt'', PInt (int attempt)),
            (''success'', PBool (case fc_code f of None \<Rightarrow> False | Some c \<Rightarrow> 200 \<le> c \<and> c < 300)),
            (''statusCode'', PInt (code_or_zero (fc_code f))), (''durationMs'', fc_duration f),
            (''errorType'', pstr_opt (failed_error_type env f)), (''error'', text_or_null (fc_snippet f)),
            (''response'', response_evidence (fc_headers f) (fc_snippet f))]"

section \<open>The attempts\<close>

datatype dispatch_io = Posted string webhook_request | Slept nat

definition backoff_after :: "nat \<Rightarrow> nat" where
  "backoff_after attempt = retry_backoff ! min (attempt - 1) (length retry_backoff - 1)"

text \<open>
  The loop from attempt \<open>attempt\<close> on, with \<open>left\<close> attempts allowed after it: the result of a
  delivered call, or the last failure with all attempts logged and the number of retries.
\<close>

fun run_attempts ::
    "call_env \<Rightarrow> webhook_call \<Rightarrow> webhook_request \<Rightarrow> (nat \<Rightarrow> exchange) \<Rightarrow> nat \<Rightarrow> nat \<Rightarrow> nat \<Rightarrow> pval list \<Rightarrow> hook_state
     \<Rightarrow> (pdict + failed_call \<times> nat) \<times> dispatch_io list \<times> hook_state" where
  "run_attempts env c rq exch left attempt retries log st =
     (case try_call env c rq (exch attempt) attempt retries log st of
        (Inl r, st') \<Rightarrow> (Inl r, [Posted (wc_url c) rq], st')
      | (Inr f, st') \<Rightarrow>
          (let log' = fc_log f @ [failed_attempt env attempt f]; last = (Inr (f\<lparr> fc_log := log' \<rparr>, retries)) in
           if \<not> is_retryable (fc_code f) (fc_exc f) then (last, [Posted (wc_url c) rq], st')
           else case left of
                  0 \<Rightarrow> (last, [Posted (wc_url c) rq], st')
                | Suc n \<Rightarrow>
                    (case run_attempts env c rq exch n (Suc attempt) (Suc retries) log' st' of
                       (r, io, st'') \<Rightarrow> (r, Posted (wc_url c) rq # Slept (backoff_after attempt) # io, st''))))"

declare run_attempts.simps [simp del]

definition failure_evidence ::
    "call_env \<Rightarrow> webhook_call \<Rightarrow> webhook_request \<Rightarrow> int \<Rightarrow> pval \<Rightarrow> failed_call \<Rightarrow> nat \<Rightarrow> pdict" where
  "failure_evidence env c rq now latency f retries =
     dmerge (common_evidence c now)
       [(''status'', PStr (status_name (fc_code f) (fc_exc f))), (''success'', PBool False), (''failure'', PBool True),
        (''statusCode'', PInt (code_or_zero (fc_code f))), (''responseCode'', PInt (code_or_zero (fc_code f))),
        (''durationMs'', latency), (''attemptCount'', PInt (if fc_log f = [] then 1 else int (length (fc_log f)))),
        (''retryCount'', PInt (int retries)), (''error'', PStr (fc_snippet f)),
        (''errorType'', pstr_opt (failed_error_type env f)),
        (''retryable'', PBool (is_retryable (fc_code f) (fc_exc f))), (''request'', PDict (request_evidence c rq)),
        (''response'', response_evidence (fc_headers f) (fc_snippet f)), (''attempts'', PList (fc_log f))]"

definition invalid_url_evidence :: "webhook_call \<Rightarrow> pdict \<Rightarrow> int \<Rightarrow> pdict" where
  "invalid_url_evidence c payload now =
     dmerge (common_evidence c now)
       [(''status'', PStr ''invalid_url''), (''success'', PBool False), (''failure'', PBool True), (''statusCode'', PInt 0),
        (''durationMs'', PFloat 0 ''0.0''), (''attemptCount'', PInt 1), (''retryCount'', PInt 0),
        (''error'', PStr ''invalid webhook url''), (''errorType'', PStr ''invalid_url''),
        (''request'', PDict [(''method'', PStr ''POST''), (''url'', PStr (wc_url c)), (''query'', PDict []), (''headers'', PDict []),
           (''payloadSummary'', payload_summary payload), (''payloadSizeBytes'', PInt 0), (''payloadPreview'', PStr []),
           (''payloadTruncated'', PBool False)]),
        (''response'', response_evidence [] []),
        (''attempts'', PList [PDict [(''attempt'', PInt 1), (''success'', PBool False), (''statusCode'', PInt 0),
           (''errorType'', PStr ''invalid_url''), (''error'', PStr ''invalid webhook url''), (''durationMs'', PFloat 0 ''0.0'')]])]"

record dispatch_clock =
  dk_started :: int
  dk_call :: hook_call
  dk_latency :: pval

definition skipped_by_filter :: pdict where
  "skipped_by_filter =
     [(''ok'', PBool True), (''status'', PStr ''skipped_by_filter''), (''statusCode'', PInt 204), (''retriesUsed'', PInt 0),
      (''latencyMs'', PFloat 0 ''0.0'')]"

definition dispatch_webhook_with_retry ::
    "call_env \<Rightarrow> dispatch_clock \<Rightarrow> (nat \<Rightarrow> exchange) \<Rightarrow> pdict \<Rightarrow> string \<Rightarrow> pdict \<Rightarrow> bool \<Rightarrow> string option \<Rightarrow> bool \<Rightarrow> hook_state
     \<Rightarrow> pdict res \<times> dispatch_io list \<times> hook_state" where
  "dispatch_webhook_with_retry env clock exch payload request_id item test action bypass st =
     (case describe_call payload request_id item test action (dk_started clock) of
        Inl e \<Rightarrow> (Inl e, [], st)
      | Inr c \<Rightarrow>
          (let append = (\<lambda>entry. append_dispatch_history (de_hooks env) (dk_call clock) (wc_instance c) (wc_webhook c) entry);
               now = hc_now (dk_call clock) in
           if \<not> http_url (wc_url c) then
             (case append (invalid_url_evidence c payload now) st of
                (Inl e, st') \<Rightarrow> (Inl e, [], st')
              | (Inr delivery, st') \<Rightarrow>
                  (Inr [(''ok'', PBool False), (''status'', PStr ''invalid_url''), (''statusCode'', PInt 0), (''retriesUsed'', PInt 0),
                        (''latencyMs'', PFloat 0 ''0.0''), (''deliveryId'', dget delivery ''id'')], [], st'))
           else
             (case (if test \<or> bypass then Some payload else pick_payload_by_filter item payload) of
                None \<Rightarrow> (Inr skipped_by_filter, [], st)
              | Some target \<Rightarrow>
                  (let rq = \<lparr> wr_payload = target, wr_headers = call_headers (de_hooks env) c item,
                              wr_query = build_auth_query_params item \<rparr> in
                   case run_attempts env c rq exch (length retry_backoff) 1 0 [] st of
                     (Inl r, io, st') \<Rightarrow> (Inr r, io, st')
                   | (Inr (f, retries), io, st') \<Rightarrow>
                       (case append (failure_evidence env c rq now (dk_latency clock) f retries) st' of
                          (Inl e, st'') \<Rightarrow> (Inl e, io, st'')
                        | (Inr delivery, st'') \<Rightarrow>
                            (Inr [(''ok'', PBool False), (''status'', PStr (status_name (fc_code f) (fc_exc f))),
                                  (''statusCode'', PInt (code_or_zero (fc_code f))), (''retriesUsed'', PInt (int retries)),
                                  (''latencyMs'', dk_latency clock), (''error'', PStr (fc_snippet f)),
                                  (''deliveryId'', dget delivery ''id'')], io, st''))))))"

end
