(* ===== verification/Webhook_Dispatch_Spec.thy ===== *)
theory Webhook_Dispatch_Spec
  imports Webhook_Dispatch Webhook_Hooks_Spec
begin

text \<open>
  What the dispatcher promises of one call: it ends after at most four posts, it posts again only
  after a transient failure, it respects the filter of the webhook, and it reports success only
  of a call that was answered so. The converse fails: a delivered call whose evidence cannot be
  written is reported as failed.
\<close>

section \<open>The shape of the attempts\<close>

text \<open>The outcomes after which the code waits and posts again.\<close>

definition transient :: "exchange \<Rightarrow> bool" where
  "transient x \<longleftrightarrow>
     (case xc_outcome x of Inl e \<Rightarrow> is_transport e | Inr a \<Rightarrow> ha_status a \<in> {500, 502, 503, 504})"

definition delivered :: "exchange \<Rightarrow> bool" where
  "delivered x \<longleftrightarrow> (case xc_outcome x of Inl _ \<Rightarrow> False | Inr a \<Rightarrow> 200 \<le> ha_status a \<and> ha_status a < 300)"

fun retries_io :: "webhook_call \<Rightarrow> webhook_request \<Rightarrow> nat \<Rightarrow> nat \<Rightarrow> dispatch_io list" where
  "retries_io c rq attempt 0 = [Posted (wc_url c) rq]"
| "retries_io c rq attempt (Suc k) = Posted (wc_url c) rq # Slept (backoff_after attempt) # retries_io c rq (Suc attempt) k"

lemma raised_not_retried [simp]: "\<not> is_retryable code (Some (Raised e))"
  by (simp add: is_retryable_def)

lemma try_call_failed:
  assumes "try_call env c rq x a r log st = (Inr f, st')" and "is_retryable (fc_code f) (fc_exc f)"
  shows "transient x"
proof (cases "xc_outcome x")
  case (Inl e)
  then show ?thesis using assms by (auto simp: try_call_def transient_def is_retryable_def)
next
  case (Inr ans)
  then show ?thesis
    using assms
    by (auto simp: try_call_def transient_def Let_def is_retryable_def retryable_http_def split: if_splits sum.splits prod.splits)
qed

lemma try_call_delivered:
  assumes "try_call env c rq x a r log st = (Inl d, st')"
  shows "delivered x"
proof (cases "xc_outcome x")
  case (Inl e)
  then show ?thesis using assms by (simp add: try_call_def)
next
  case (Inr ans)
  then show ?thesis
    using assms by (auto simp: try_call_def delivered_def Let_def split: if_splits sum.splits prod.splits)
qed

lemma run_attempts_shape:
  "\<exists>k\<le>left. fst (snd (run_attempts env c rq exch left attempt r log st)) = retries_io c rq attempt k \<and>
     (\<forall>i<k. transient (exch (attempt + i))) \<and>
     (\<forall>d. fst (run_attempts env c rq exch left attempt r log st) = Inl d \<longrightarrow> delivered (exch (attempt + k)))"
proof (induction left arbitrary: attempt r log st)
  case 0
  show ?case
    by (subst (1 2) run_attempts.simps)
       (auto simp: Let_def dest: try_call_delivered split: prod.split sum.split)
next
  case (Suc n)
  obtain t st' where t: "try_call env c rq (exch attempt) attempt r log st = (t, st')" by (cases "try_call env c rq (exch attempt) attempt r log st")
  show ?case
  proof (cases t)
    case (Inl d)
    then show ?thesis
      using t by (subst (1 2) run_attempts.simps) (auto dest: try_call_delivered intro!: exI [of _ 0])
  next
    case (Inr f)
    show ?thesis
    proof (cases "is_retryable (fc_code f) (fc_exc f)")
      case False
      then show ?thesis
        using t Inr by (subst (1 2) run_attempts.simps) (auto simp: Let_def intro!: exI [of _ 0])
    next
      case True
      then have step: "transient (exch attempt)" using t Inr try_call_failed by blast
      let ?log = "fc_log f @ [failed_attempt env attempt f]"
      obtain k where k: "k \<le> n" "fst (snd (run_attempts env c rq exch n (Suc attempt) (Suc r) ?log st')) = retries_io c rq (Suc attempt) k"
        "\<forall>i<k. transient (exch (Suc attempt + i))"
        "\<forall>d. fst (run_attempts env c rq exch n (Suc attempt) (Suc r) ?log st') = Inl d \<longrightarrow> delivered (exch (Suc attempt + k))"
        using Suc.IH [of "Suc attempt" "Suc r" ?log st'] by blast
      have "transient (exch (attempt + i))" if "i < Suc k" for i
        using that step k(3) by (cases i) auto
      moreover have "run_attempts env c rq exch (Suc n) attempt r log st =
          (case run_attempts env c rq exch n (Suc attempt) (Suc r) ?log st' of
             (r, io, st'') \<Rightarrow> (r, Posted (wc_url c) rq # Slept (backoff_after attempt) # io, st''))"
        using t Inr True by (subst run_attempts.simps) (simp add: Let_def)
      ultimately show ?thesis
        using k by (intro exI [of _ "Suc k"]) (auto split: prod.splits)
    qed
  qed
qed

section \<open>The shape of a dispatch\<close>

text \<open>What a dispatch sends: nothing, or the posts of one request to the address of the webhook.\<close>

definition sends ::
    "call_env \<Rightarrow> (nat \<Rightarrow> exchange) \<Rightarrow> pdict \<Rightarrow> string \<Rightarrow> pdict \<Rightarrow> bool \<Rightarrow> string option \<Rightarrow> bool \<Rightarrow> int \<Rightarrow> nat \<Rightarrow> dispatch_io list \<Rightarrow> bool" where
  "sends env exch payload request_id item test action bypass now k io \<longleftrightarrow>
     (\<exists>c. describe_call payload request_id item test action now = Inr c \<and> http_url (wc_url c) \<and>
          (test \<or> bypass \<or> pick_payload_by_filter item payload = Some payload) \<and>
          k \<le> 3 \<and> (\<forall>i<k. transient (exch (Suc i))) \<and>
          io = retries_io c \<lparr> wr_payload = payload, wr_headers = call_headers (de_hooks env) c item,
                              wr_query = build_auth_query_params item \<rparr> 1 k)"

lemma pick_some: "pick_payload_by_filter item payload = Some p \<Longrightarrow> p = payload"
  by (auto simp: pick_payload_by_filter_def Let_def split: if_splits)

lemma dispatch_shape:
  assumes "dispatch_webhook_with_retry env clock exch payload request_id item test action bypass st = (res, io, st')"
  shows "io = [] \<and> (\<forall>r. res = Inr r \<longrightarrow> r = skipped_by_filter \<or> dget r ''ok'' = PBool False) \<or>
    (\<exists>k. sends env exch payload request_id item test action bypass (dk_started clock) k io \<and>
      (\<forall>r. res = Inr r \<longrightarrow> dget r ''ok'' = PBool False \<or> delivered (exch (Suc k))))"
proof (cases "describe_call payload request_id item test action (dk_started clock)")
  case (Inl e)
  then show ?thesis using assms by (auto simp: dispatch_webhook_with_retry_def)
next
  case (Inr c)
  show ?thesis
  proof (cases "http_url (wc_url c)")
    case False
    then show ?thesis
      using assms Inr by (auto simp: dispatch_webhook_with_retry_def Let_def dget_Cons split: sum.splits prod.splits)
  next
    case url: True
    show ?thesis
    proof (cases "if test \<or> bypass then Some payload else pick_payload_by_filter item payload")
      case None
      then show ?thesis using assms Inr url by (auto simp: dispatch_webhook_with_retry_def Let_def)
    next
      case (Some target)
      have target: "target = payload" "test \<or> bypass \<or> pick_payload_by_filter item payload = Some payload"
        using Some pick_some by (auto split: if_splits)
      let ?rq = "\<lparr> wr_payload = payload, wr_headers = call_headers (de_hooks env) c item, wr_query = build_auth_query_params item \<rparr>"
      obtain out ios st1 where run: "run_attempts env c ?rq exch (length retry_backoff) 1 0 [] st = (out, ios, st1)"
        by (cases "run_attempts env c ?rq exch (length retry_backoff) 1 0 [] st")
      obtain k where k: "k \<le> length retry_backoff" "ios = retries_io c ?rq 1 k" "\<forall>i<k. transient (exch (1 + i))"
        "\<forall>d. out = Inl d \<longrightarrow> delivered (exch (1 + k))"
        using run_attempts_shape [of "length retry_backoff" env c ?rq exch 1 0 "[]" st, unfolded run fst_conv snd_conv] by blast
      then have few: "k \<le> 3" by (simp add: retry_backoff_def)
      have "io = ios \<and> (\<forall>r. res = Inr r \<longrightarrow> dget r ''ok'' = PBool False \<or> (\<exists>d. out = Inl d))"
        using assms
        by (auto simp: dispatch_webhook_with_retry_def Inr url Some run [unfolded One_nat_def] Let_def target(1) dget_Cons split: sum.splits prod.splits)
      then show ?thesis
        using k few Inr url target unfolding sends_def plus_1_eq_Suc by blast
    qed
  qed
qed

fun waited :: "dispatch_io list \<Rightarrow> nat" where
  "waited [] = 0"
| "waited (Slept n # io) = n + waited io"
| "waited (Posted u rq # io) = waited io"

fun posts :: "dispatch_io list \<Rightarrow> (string \<times> webhook_request) list" where
  "posts [] = []"
| "posts (Slept n # io) = posts io"
| "posts (Posted u rq # io) = (u, rq) # posts io"

lemma posts_retries: "posts (retries_io c rq a k) = replicate (Suc k) (wc_url c, rq)"
  by (induction k arbitrary: a) simp_all

text \<open>
  C11: A dispatch ends: whatever the server answers, whatever the network does and whether or not
  the evidence can be written, there are at most four posts and at most 22 seconds of waiting.
\<close>

theorem dispatch_ends:
  "case dispatch_webhook_with_retry env clock exch payload request_id item test action bypass st of
     (res, io, st') \<Rightarrow> length (posts io) \<le> 4 \<and> waited io \<le> 22"
proof -
  obtain res io st' where d: "dispatch_webhook_with_retry env clock exch payload request_id item test action bypass st = (res, io, st')"
    by (cases "dispatch_webhook_with_retry env clock exch payload request_id item test action bypass st")
  from dispatch_shape [OF d] have "length (posts io) \<le> 4 \<and> waited io \<le> 22"
  proof (elim disjE conjE exE)
    fix k assume "sends env exch payload request_id item test action bypass (dk_started clock) k io"
    then obtain c rq where io: "io = retries_io c rq 1 k" and "k \<le> 3" unfolding sends_def by blast
    then have k: "k \<in> {0, 1, 2, 3}" by auto
    then show ?thesis
      by (auto simp: io backoff_after_def retry_backoff_def numeral_2_eq_2 numeral_3_eq_3)
  qed simp
  then show ?thesis by (simp add: d)
qed

text \<open>
  C12: A webhook is called again only after a transient failure: when a dispatch has posted more
  than \<open>i + 1\<close> times, then the \<open>i + 1\<close>-th call failed in transport or was answered 500, 502, 503
  or 504; a call that was answered otherwise, delivered or refused, is never repeated.
\<close>

theorem webhook_repeated_after_transient:
  assumes "dispatch_webhook_with_retry env clock exch payload request_id item test action bypass st = (res, io, st')"
    and "Suc i < length (posts io)"
  shows "transient (exch (Suc i)) \<and> \<not> delivered (exch (Suc i))"
proof -
  have "transient (exch (Suc i))"
    using dispatch_shape [OF assms(1)] assms(2) by (auto simp: sends_def posts_retries)
  then show ?thesis by (auto simp: transient_def delivered_def split: sum.splits)
qed

lemma described_url:
  "describe_call payload request_id item test action now = Inr c \<Longrightarrow> wc_url c = str_or_empty (dget item ''url'')"
  by (auto simp: describe_call_def rbind_eqs Let_def)

text \<open>The switch that decides on a payload: that of its category, or of business when it names no other.\<close>

definition deciding_switch :: "pdict \<Rightarrow> pdict \<Rightarrow> pval" where
  "deciding_switch item payload =
     (let filters = as_dict (dget item ''eventFilters''); category = str_or_empty (dget payload ''category'') in
      if category \<in> {''transport'', ''operational''} then dget_default filters category (PBool False)
      else dget_default filters ''business'' (PBool True))"

lemma picked_switch: "pick_payload_by_filter item payload = Some p \<longleftrightarrow> p = payload \<and> truthy (deciding_switch item payload)"
proof -
  let ?c = "str_or_empty (dget payload ''category'')"
  consider "?c = ''transport''" | "?c = ''operational''" | "?c \<notin> {''transport'', ''operational''}" by blast
  then show ?thesis
    by cases (auto simp: pick_payload_by_filter_def deciding_switch_def Let_def)
qed

text \<open>
  C13: A webhook receives only what its filter admits, and only at its own address with its own
  credentials: every post of a dispatch that is neither a test nor a redelivery carries the
  payload unchanged, to the URL of the webhook, and the switch of its filter for the category
  of the payload is on. Transport and operational events have switches of their own, off when
  the filter does not have them; any other category, or none, goes by the switch for business,
  on when the filter does not have it. A payload whose switch is off is never posted.
\<close>

theorem webhook_filter_respected:
  assumes "dispatch_webhook_with_retry env clock exch payload request_id item False action False st = (res, io, st')"
    and "(url, rq) \<in> set (posts io)"
  shows "wr_payload rq = payload \<and> url = str_or_empty (dget item ''url'') \<and> wr_query rq = build_auth_query_params item \<and>
    (let filters = as_dict (dget item ''eventFilters''); category = str_or_empty (dget payload ''category'') in
     truthy (if category = ''transport'' then dget_default filters ''transport'' (PBool False)
             else if category = ''operational'' then dget_default filters ''operational'' (PBool False)
             else dget_default filters ''business'' (PBool True)))"
proof -
  have "io \<noteq> []" using assms(2) by auto
  then obtain k where "sends env exch payload request_id item False action False (dk_started clock) k io"
    using dispatch_shape [OF assms(1)] by blast
  then obtain c where c: "describe_call payload request_id item False action (dk_started clock) = Inr c"
    and pick: "pick_payload_by_filter item payload = Some payload"
    and io: "io = retries_io c \<lparr> wr_payload = payload, wr_headers = call_headers (de_hooks env) c item,
        wr_query = build_auth_query_params item \<rparr> 1 k"
    unfolding sends_def by blast
  have "wc_url c = str_or_empty (dget item ''url'')" by (rule described_url [OF c])
  moreover have "truthy (deciding_switch item payload)" using pick by (simp add: picked_switch)
  moreover have "url = wc_url c \<and> wr_payload rq = payload \<and> wr_query rq = build_auth_query_params item"
    using assms(2) by (auto simp: io posts_retries)
  ultimately show ?thesis by (auto simp: deciding_switch_def Let_def)
qed

text \<open>
  Success is reported only of a call that was answered with success: when a dispatch says
  \<open>ok\<close>, then its last post was answered with a 2xx status, or the filter skipped the webhook.
\<close>

theorem reported_ok_was_delivered:
  assumes "dispatch_webhook_with_retry env clock exch payload request_id item test action bypass st = (Inr r, io, st')"
    and "dget r ''ok'' = PBool True"
  shows "r = skipped_by_filter \<and> io = [] \<or> io \<noteq> [] \<and> delivered (exch (length (posts io)))"
proof -
  from dispatch_shape [OF assms(1)] assms(2) consider "io = []" "r = skipped_by_filter"
    | k where "sends env exch payload request_id item test action bypass (dk_started clock) k io" "delivered (exch (Suc k))"
    by auto
  then show ?thesis
  proof cases
    case 2
    then obtain c rq where "io = retries_io c rq 1 k" unfolding sends_def by blast
    then show ?thesis using 2(2) by (cases k) (simp_all add: posts_retries)
  qed simp
qed

lemma append_unwritable:
  assumes "\<not> hc_evidence_ok call"
  shows "\<exists>e. append_dispatch_history env call name wid entry st = (Inl e, st)"
  using assms
  by (auto simp: append_dispatch_history_def append_webhook_delivery_def split: sum.split prod.split)

lemma unwritable_call:
  assumes "\<not> hc_evidence_ok (xc_call x)" and "xc_outcome x = Inr a" and "200 \<le> ha_status a" and "ha_status a < 300"
  shows "\<exists>f e. try_call env c rq x n r log st = (Inr f, st) \<and> fc_exc f = Some (Raised e)"
proof -
  let ?snippet = "redact_json_preview (dl_loads (hk_delivery (de_hooks env))) (PStr (ha_text a)) (Some 2000)"
  let ?log = "log @ [success_attempt n x (ha_status a) (response_headers_summary (ha_headers a)) ?snippet]"
  obtain e where e: "append_dispatch_history (de_hooks env) (xc_call x) (wc_instance c) (wc_webhook c)
      (success_evidence c rq x n r (ha_status a) (response_headers_summary (ha_headers a)) ?snippet ?log) st = (Inl e, st)"
    using append_unwritable [OF assms(1)] by blast
  show ?thesis by (simp add: try_call_def assms(2-4) Let_def e)
qed

text \<open>
  The evidence of a delivered call is written inside the handler of the network errors: when
  that write fails, the call is reported as failed, with the status of a broken connection, and
  this is what the next record keeps, although the webhook answered 2xx.
\<close>

theorem delivered_call_reported_failed:
  assumes "describe_call payload request_id item test action (dk_started clock) = Inr c" and "http_url (wc_url c)"
    and "test \<or> bypass \<or> pick_payload_by_filter item payload = Some payload"
    and "delivered (exch 1)" and "\<not> hc_evidence_ok (xc_call (exch 1))"
    and "dispatch_webhook_with_retry env clock exch payload request_id item test action bypass st = (Inr r, io, st')"
  shows "dget r ''ok'' = PBool False \<and> dget r ''status'' = PStr ''connection_fail'' \<and> length (posts io) = 1"
proof -
  let ?rq = "\<lparr> wr_payload = payload, wr_headers = call_headers (de_hooks env) c item, wr_query = build_auth_query_params item \<rparr>"
  obtain a where a: "xc_outcome (exch 1) = Inr a" "200 \<le> ha_status a" "ha_status a < 300"
    using assms(4) by (auto simp: delivered_def split: sum.splits)
  obtain f e where tried: "try_call env c ?rq (exch 1) 1 0 [] st = (Inr f, st)"
    and f: "fc_exc f = Some (Raised e)"
    using unwritable_call [OF assms(5) a] by blast
  have "run_attempts env c ?rq exch (length retry_backoff) 1 0 [] st =
      (Inr (f\<lparr> fc_log := fc_log f @ [failed_attempt env 1 f] \<rparr>, 0), [Posted (wc_url c) ?rq], st)"
    using f by (subst run_attempts.simps) (simp add: tried [unfolded One_nat_def] Let_def)
  moreover have "(if test \<or> bypass then Some payload else pick_payload_by_filter item payload) = Some payload"
    using assms(3) by auto
  ultimately show ?thesis
    using assms(6) f
    by (auto simp: dispatch_webhook_with_retry_def assms(1,2) Let_def dget_Cons status_name_def split: sum.splits prod.splits)
qed

section \<open>Witnesses\<close>

definition call_sample_env :: call_env where
  "call_sample_env = \<lparr> de_hooks = hook_sample_env, de_class = (\<lambda>_. ''OSError''), de_text = (\<lambda>_. ''disk'') \<rparr>"

definition dispatch_sample_clock :: dispatch_clock where
  "dispatch_sample_clock = \<lparr> dk_started = 1, dk_call = hook_sample_call, dk_latency = PInt 5 \<rparr>"

definition sample_timeout :: "nat \<Rightarrow> exchange" where
  "sample_timeout i =
     \<lparr> xc_outcome = Inl (Timed_Out ''t''), xc_duration = PInt 1, xc_caught = PInt 1, xc_latency = PInt 1, xc_call = hook_sample_call \<rparr>"

definition sample_answered :: "bool \<Rightarrow> nat \<Rightarrow> exchange" where
  "sample_answered evidence_ok i =
     \<lparr> xc_outcome = Inr \<lparr> ha_status = 204, ha_text = [], ha_headers = [] \<rparr>, xc_duration = PInt 1, xc_caught = PInt 1,
       xc_latency = PInt 1, xc_call = hook_sample_call\<lparr> hc_evidence_ok := evidence_ok \<rparr> \<rparr>"

definition sample_hook :: pdict where
  "sample_hook = [(''id'', PStr ''w1''), (''url'', PStr ''https://h'')]"

definition sample_payload :: pdict where
  "sample_payload = [(''instance'', PStr ''a''), (''category'', PStr ''business_event'')]"

lemma sample_described:
  "\<exists>c. describe_call sample_payload ''r1'' sample_hook False None 1 = Inr c \<and> wc_webhook c = ''w1'' \<and> wc_url c = ''https://h'' \<and>
     http_url (wc_url c)"
proof -
  have "(case describe_call sample_payload ''r1'' sample_hook False None 1 of Inl _ \<Rightarrow> False
      | Inr c \<Rightarrow> wc_webhook c = ''w1'' \<and> wc_url c = ''https://h'' \<and> http_url (wc_url c))" by code_simp
  then show ?thesis by (auto split: sum.splits)
qed

lemma sample_picked: "pick_payload_by_filter sample_hook sample_payload = Some sample_payload"
proof -
  have "pick_payload_by_filter sample_hook sample_payload \<noteq> None" by code_simp
  then show ?thesis using pick_some by blast
qed

lemma append_recorded:
  assumes "hc_evidence_ok call" and "hs_store st = Absent" and "clean_str (PStr wid) \<noteq> []"
    and "dget entry ''isTest'' = PBool False" and "dget entry ''testMode'' = PNone" and "dget entry ''metadata'' = PDict []"
  shows "\<exists>d st'. append_dispatch_history env call name wid entry st = (Inr d, st') \<and> hs_store st' = Absent"
proof -
  let ?e = "dset (dset entry ''instanceName'' (PStr name)) ''webhookId'' (PStr wid)"
  have "marked_test ?e = Inr False" using assms(4-6) by (simp add: marked_test_def py_or_def)
  then obtain d where d: "sanitize_delivery (hk_delivery env) (hc_now call) (hc_uid call) ?e = Inr d" "dget d ''webhookId'' = PStr (strip wid)"
    by (simp add: sanitize_delivery_def Let_def dget_Cons)
  have "strip wid \<noteq> []" using assms(3) by simp
  then show ?thesis
    using assms(1,2) d by (simp add: append_dispatch_history_def append_webhook_delivery_def change_webhook_def hooks_of_def)
qed

lemma described_action: "describe_call payload request_id item test action now = Inr c \<Longrightarrow> wc_action c = action \<and> wc_test c = test"
  by (auto simp: describe_call_def rbind_eqs Let_def)

lemma evidence_marks:
  assumes "wc_action c = None" and "wc_test c = False"
  shows "dget (success_evidence c rq x n r code hs sn log) ''isTest'' = PBool False \<and>
    dget (success_evidence c rq x n r code hs sn log) ''testMode'' = PNone \<and>
    dget (success_evidence c rq x n r code hs sn log) ''metadata'' = PDict [] \<and>
    dget (failure_evidence env c rq now l f r) ''isTest'' = PBool False \<and>
    dget (failure_evidence env c rq now l f r) ''testMode'' = PNone \<and>
    dget (failure_evidence env c rq now l f r) ''metadata'' = PDict []"
  using assms
  by (simp add: success_evidence_def failure_evidence_def dget_dmerge_distinct common_evidence_def dget_Cons dhas_Cons)

definition sample_dispatch :: "(nat \<Rightarrow> exchange) \<Rightarrow> pdict res \<times> dispatch_io list \<times> hook_state" where
  "sample_dispatch exch =
     dispatch_webhook_with_retry call_sample_env dispatch_sample_clock exch sample_payload ''r1'' sample_hook False None False
       hook_sample_state"

lemma sample_timeouts: "length (posts (fst (snd (sample_dispatch sample_timeout)))) = 4"
proof -
  obtain c where c: "describe_call sample_payload ''r1'' sample_hook False None 1 = Inr c" "http_url (wc_url c)"
    using sample_described by blast
  have "try_call call_sample_env c rq (sample_timeout a) a r log st =
      (Inr \<lparr> fc_code = None, fc_exc = Some (Timed_Out ''t''), fc_snippet = caught_text call_sample_env (Timed_Out ''t''),
             fc_headers = [], fc_duration = PInt 1, fc_log = log \<rparr>, st)" for rq a r log st
    by (simp add: try_call_def sample_timeout_def)
  then have "posts (fst (snd (run_attempts call_sample_env c rq sample_timeout 3 (Suc 0) 0 [] st))) = replicate 4 (wc_url c, rq)" for rq st
    by (simp add: run_attempts.simps Let_def is_retryable_def numeral_3_eq_3 eval_nat_numeral split: prod.split)
  then show ?thesis
    using c by (auto simp: sample_dispatch_def dispatch_webhook_with_retry_def dispatch_sample_clock_def Let_def sample_picked
        retry_backoff_def numeral_3_eq_3 split: prod.splits sum.splits) (metis fst_conv snd_conv length_replicate)+
qed

lemma webhook_repeated_after_transient_witness:
  "length (posts (fst (snd (sample_dispatch sample_timeout)))) = 4 \<and> transient (sample_timeout 3) \<and> \<not> delivered (sample_timeout 3)"
proof -
  obtain res io st' where d: "sample_dispatch sample_timeout = (res, io, st')" by (cases "sample_dispatch sample_timeout")
  have "Suc 2 < length (posts io)" using sample_timeouts by (simp add: d)
  from webhook_repeated_after_transient [OF d [unfolded sample_dispatch_def] this] show ?thesis
    using sample_timeouts by (simp add: numeral_3_eq_3 numeral_2_eq_2)
qed

lemma webhook_filter_respected_witness:
  "\<exists>rq. (''https://h'', rq) \<in> set (posts (fst (snd (sample_dispatch sample_timeout)))) \<and> wr_payload rq = sample_payload"
proof -
  obtain res io st' where d: "sample_dispatch sample_timeout = (res, io, st')" by (cases "sample_dispatch sample_timeout")
  have "posts io \<noteq> []" using sample_timeouts by (auto simp: d)
  then obtain url rq where "(url, rq) \<in> set (posts io)" by (cases "posts io") auto
  moreover have "str_or_empty (dget sample_hook ''url'') = ''https://h''" by code_simp
  ultimately show ?thesis
    using webhook_filter_respected [OF d [unfolded sample_dispatch_def]] d by auto
qed

lemma sample_delivered: "\<exists>r io st'. sample_dispatch (sample_answered True) = (Inr r, io, st') \<and> dget r ''ok'' = PBool True"
proof -
  obtain c where c: "describe_call sample_payload ''r1'' sample_hook False None 1 = Inr c" "wc_webhook c = ''w1''" "http_url (wc_url c)"
    using sample_described by blast
  have w: "clean_str (PStr ''w1'') \<noteq> []" "hc_evidence_ok hook_sample_call" "hs_store hook_sample_state = Absent"
    by (simp_all add: strip_def lstrip_def rstrip_def is_space_def hook_sample_call_def hook_sample_state_def)
  have "\<exists>d st'. try_call call_sample_env c rq (sample_answered True (Suc 0)) (Suc 0) 0 [] hook_sample_state = (Inl d, st')
      \<and> dget d ''ok'' = PBool True" for rq
  proof -
    let ?e = "success_evidence c rq (sample_answered True (Suc 0)) (Suc 0) 0 204 (response_headers_summary [])
      (redact_json_preview (dl_loads (hk_delivery hook_sample_env)) (PStr []) (Some 2000))
      [success_attempt (Suc 0) (sample_answered True (Suc 0)) 204 (response_headers_summary [])
         (redact_json_preview (dl_loads (hk_delivery hook_sample_env)) (PStr []) (Some 2000))]"
    obtain d st' where "append_dispatch_history hook_sample_env hook_sample_call (wc_instance c) ''w1'' ?e hook_sample_state = (Inr d, st')"
      using append_recorded [OF w(2,3,1), of ?e] evidence_marks [of c] described_action [OF c(1)] by blast
    moreover have "xc_call (sample_answered True (Suc 0)) = hook_sample_call" by (simp add: sample_answered_def hook_sample_call_def)
    moreover have "xc_outcome (sample_answered True (Suc 0)) = Inr \<lparr> ha_status = 204, ha_text = [], ha_headers = [] \<rparr>"
      by (simp add: sample_answered_def)
    ultimately show ?thesis by (simp add: try_call_def call_sample_env_def Let_def c(2) dget_Cons)
  qed
  then obtain d st' where t: "try_call call_sample_env c \<lparr> wr_payload = sample_payload,
      wr_headers = call_headers (de_hooks call_sample_env) c sample_hook, wr_query = build_auth_query_params sample_hook \<rparr>
      (sample_answered True (Suc 0)) (Suc 0) 0 [] hook_sample_state = (Inl d, st')" "dget d ''ok'' = PBool True" by blast
  have "dk_started dispatch_sample_clock = 1" by (simp add: dispatch_sample_clock_def)
  then show ?thesis
    using t c by (simp add: sample_dispatch_def dispatch_webhook_with_retry_def Let_def sample_picked run_attempts.simps)
qed

lemma reported_ok_was_delivered_witness:
  "\<exists>r io st'. sample_dispatch (sample_answered True) = (Inr r, io, st') \<and> dget r ''ok'' = PBool True \<and>
     (r = skipped_by_filter \<and> io = [] \<or> io \<noteq> [] \<and> delivered (sample_answered True (length (posts io))))"
proof -
  obtain r io st' where d: "sample_dispatch (sample_answered True) = (Inr r, io, st')" "dget r ''ok'' = PBool True"
    using sample_delivered by blast
  from reported_ok_was_delivered [OF d(1) [unfolded sample_dispatch_def] d(2)] d show ?thesis by blast
qed

lemma sample_unrecorded: "\<exists>r io st'. sample_dispatch (sample_answered False) = (Inr r, io, st')"
proof -
  obtain c where c: "describe_call sample_payload ''r1'' sample_hook False None 1 = Inr c" "wc_webhook c = ''w1''" "http_url (wc_url c)"
    using sample_described by blast
  have w: "clean_str (PStr ''w1'') \<noteq> []" "hc_evidence_ok hook_sample_call" "hs_store hook_sample_state = Absent"
    by (simp_all add: strip_def lstrip_def rstrip_def is_space_def hook_sample_call_def hook_sample_state_def)
  have "\<not> hc_evidence_ok (xc_call (sample_answered False (Suc 0)))"
    "xc_outcome (sample_answered False (Suc 0)) = Inr \<lparr> ha_status = 204, ha_text = [], ha_headers = [] \<rparr>"
    by (simp_all add: sample_answered_def)
  from unwritable_call [OF this] obtain f e where t: "try_call call_sample_env c \<lparr> wr_payload = sample_payload,
      wr_headers = call_headers (de_hooks call_sample_env) c sample_hook, wr_query = build_auth_query_params sample_hook \<rparr>
      (sample_answered False (Suc 0)) (Suc 0) 0 [] hook_sample_state = (Inr f, hook_sample_state)" "fc_exc f = Some (Raised e)"
    by force
  have "\<exists>d st'. append_dispatch_history hook_sample_env hook_sample_call (wc_instance c) ''w1''
      (failure_evidence call_sample_env c rq now l g r) hook_sample_state = (Inr d, st')" for rq now l g r
    using append_recorded [OF w(2,3,1), of "failure_evidence call_sample_env c rq now l g r"] evidence_marks [of c]
      described_action [OF c(1)] by blast
  moreover have "dk_started dispatch_sample_clock = 1" "dk_call dispatch_sample_clock = hook_sample_call"
    "de_hooks call_sample_env = hook_sample_env"
    by (simp_all add: dispatch_sample_clock_def call_sample_env_def)
  ultimately show ?thesis
    using t c by (auto simp: sample_dispatch_def dispatch_webhook_with_retry_def Let_def sample_picked run_attempts.simps
        split: prod.split sum.split) (metis old.sum.distinct(1) prod.inject)+
qed

lemma delivered_call_reported_failed_witness:
  "\<exists>r io st'. sample_dispatch (sample_answered False) = (Inr r, io, st') \<and> dget r ''status'' = PStr ''connection_fail''"
proof -
  obtain r io st' where d: "sample_dispatch (sample_answered False) = (Inr r, io, st')" using sample_unrecorded by blast
  obtain c where c: "describe_call sample_payload ''r1'' sample_hook False None (dk_started dispatch_sample_clock) = Inr c"
    "http_url (wc_url c)"
    using sample_described by (auto simp: dispatch_sample_clock_def)
  have "False \<or> False \<or> pick_payload_by_filter sample_hook sample_payload = Some sample_payload" using sample_picked by simp
  moreover have "delivered (sample_answered False 1)" "\<not> hc_evidence_ok (xc_call (sample_answered False 1))"
    by (simp_all add: delivered_def sample_answered_def)
  ultimately show ?thesis
    using delivered_call_reported_failed [OF c _ _ _ d [unfolded sample_dispatch_def]] d by blast
qed

end
