(* ===== verification/Spec2Isabelle.thy ===== *)
theory Spec2Isabelle
  imports Py_Prelude Secret_Redaction Core_Outbox Core_Outbox_Spec Core_Outbox_Life Core_Credentials
    Group_Transport Core_Dispatch Core_Dispatch_Spec
    Core_Pg_Store Outbound_Attempts Outbound_Attempts_Spec Reconciliation Normalization Normalize_Webhook
    Normalize_Spec Timeline Timeline_Spec Reliability Reliability_Spec Group_Ingest Group_Ingest_Spec
    Event_Pipeline Event_Pipeline_Spec Connection_Registry Connection_Registry_Spec Canonical_Outbound Canonical_Outbound_Spec
    Grants Instance_Keys Instance_Keys_Spec Accounts Access Access_Spec
    Evolution_Door Evolution_Door_Spec Evolution_Webhook Connections Connection_Changes Connections_Spec Instagram_Inbound
    Alerts Alerts_Spec Manual_Actions Manual_Actions_Spec Credentials Credentials_Spec Gateway_Settings Clients Connection_Setups Connection_Setups_Spec
    Webhook_Deliveries Webhook_Deliveries_Spec Webhook_Hooks Webhook_Hooks_Spec Webhook_Dispatch Webhook_Dispatch_Spec
begin

text \<open>
  A verification development for the Botly Gateway, the Python service under \<open>src/gateway/app\<close>.

  The program. The Gateway stands between messaging providers (Evolution for WhatsApp, Meta for WhatsApp
  Cloud and Instagram), Botly Core and the bots of its clients. A webhook of a provider comes in at a
  door, is normalised, filtered, stored in an activity timeline and forwarded to the webhooks of its
  instance; messages of authorised groups go to a durable outbox that a dispatcher empties towards Core;
  Core and operators send messages through the providers, and what becomes of them is kept as evidence.
  Around this stand the registry of connections and clients, the setups that lead to a connection, the
  credentials, the accounts of people, the keys of instances, and the alerts.

  How the code is modelled. Every file a component owns is a value of type \<open>json_file\<close>: absent,
  unreadable, of the wrong shape, or holding its content. Records the code builds itself are Isabelle
  records; free-form JSON is the type \<open>pval\<close>, a dictionary \<open>pdict\<close> an association list in
  insertion order. An operation takes the state and returns an answer with the new state; an exception is
  the left side of \<open>'a res\<close>, so every raise and early return is a branch. The clock, random ids, digests,
  ciphers, environment settings, the outcome of each write and what a provider answers are arguments.
  Operations are atomic where the code holds a lock; where it awaits a provider between two steps and
  a property depends on it (Connection_Setups, Manual_Actions) the operation is cut into its steps.

  The theories, in the order they build on each other; a name ending in \<open>_Spec\<close> holds the properties
  of the theory it extends.
  \<^item> Py_Prelude: strings, JSON values, dictionaries, exceptions, files, stable sorting; the lemmas on them.
  \<^item> Secret_Redaction (\<open>core/secret_protection.py\<close>): redaction by name and by pattern, the envelope of
    a secret at rest.
  \<^item> Core_Outbox, Core_Outbox_Spec, Core_Outbox_Life, Core_Dispatch
    (\<open>services/core_inbound_dispatcher.py\<close>), Core_Pg_Store
    (\<open>services/core_inbound_pg_store.py\<close>), Core_Credentials (\<open>services/core_channel_credentials.py\<close>): the outbox towards Core, as a JSON file and as
    a table. The locale \<open>delivery_store\<close> is the contract the dispatcher relies on; both stores are
    interpretations of it. Shown: an event is stored once and kept until confirmed and past retention; until
    its outcome is written a leased delivery is given to no other claim before its lease ends; the in-place claiming loop refines
    taking the first due deliveries; whatever else the outbox holds, a delivery Core keeps refusing is dead
    after exactly the configured attempts; a batch settles what it claimed.
  \<^item> Group_Transport, Group_Ingest (\<open>services/group_*.py\<close>): who may send to a group, and the way of a group
    message to the outbox. Shown: only for a group that the policy check of the connection's own record admits.
  \<^item> Normalization, Normalize_Webhook, Timeline (\<open>services/normalization.py\<close>), Reliability
    (\<open>services/reliability.py\<close>), Event_Pipeline (\<open>services/event_pipeline.py\<close>), Evolution_Door
    (\<open>routers/webhooks.py\<close>, \<open>services/evolution_auth.py\<close>, \<open>services/audit.py\<close>), Evolution_Webhook
    (\<open>services/evolution_webhook.py\<close>): the inbound path. How Meta's endpoint (\<open>routers/meta_webhook.py\<close>)
    puts its forwards into the common queue is in Evolution_Door. Shown: a webhook that does not authenticate
    leaves nothing but notes (a direct one where the insecure mode is off); the forwards that wait are
    bounded, those of Instagram apart, which the code queues unchecked; every webhook keeps the timeline redacted and
    within its retention; only accepted events are stored, each once; a message id is accepted once within
    its time to live while the set of seen ids has room; the flood guard answers like a count over its window. The contract of the expiring
    sets is a locale interpreted on \<open>TTLStore\<close>.
  \<^item> Outbound_Attempts, Reconciliation, Canonical_Outbound (\<open>services/outbound_provider_attempts.py\<close>,
    \<open>provider_reconciliation.py\<close>, \<open>provider_status_correlation.py\<close>, \<open>canonical_outbound.py\<close>), Manual_Actions
    (\<open>services/manual_delivery_actions.py\<close>, \<open>provider_resend.py\<close>): sending and its evidence. Shown: a
    message reaches a provider only through its own connection and its policy; a repetition under a key
    sends nothing while its attempt is retained; a valid message whose claim can be written gets an answer of
    the contract; at most one retained resend action of a message is pending, running or completed.
  \<^item> Connection_Registry, Clients, Gateway_Settings, Connection_Setups, Credentials, Connections,
    Connection_Changes, Instagram_Inbound (\<open>services/connection_registry.py\<close>, \<open>clients.py\<close>,
    \<open>gateway_settings.py\<close>, \<open>connection_setups.py\<close>, \<open>credential_manager.py\<close>, \<open>connections.py\<close>,
    \<open>instagram_webhook.py\<close>): what is connected, for whom, with which secrets. Shown: through the operations that do not wait for a provider,
    setups move along the table of transitions; a deleted connection is not imported again; a PIN given out stays; a token of
    official WhatsApp credentials comes back as stored; an Instagram account has one owner; a disconnected account leaves nothing behind; a
    canonical Instagram event belongs to the connected connection its account is bound to.
  \<^item> Grants, Instance_Keys, Accounts, Access (\<open>services/instance_auth.py\<close>, \<open>users.py\<close>,
    \<open>authorization.py\<close>, \<open>google_auth.py\<close>, \<open>routers/auth.py\<close>, \<open>middleware/auth.py\<close>): who is let in. The locale of Grants says what any store of credentials owes
    its client; the store of instance keys is an interpretation. Shown: whoever is let in shows a credential
    in force; a disabled account stays out; Google's word is verified.
  \<^item> Webhook_Deliveries, Webhook_Hooks, Webhook_Dispatch (\<open>services/webhook_deliveries.py\<close>,
    \<open>instance_webhooks.py\<close>, \<open>webhook_delivery.py\<close>): calling the webhooks of an instance. Shown: secrets
    carry the mark of encryption at rest, the filter is respected, a call ends.
  \<^item> Alerts (\<open>services/alerts.py\<close>, \<open>alert_signals.py\<close>): an incident has at most one open alert, and the
    open alerts follow their causes.

  Bounds. Every loop of the modelled code is bounded by its data, so that the model needs no fuel: the
  recursions are structural or have a measure. The retries of a webhook call are bounded by the code, at
  most four posts and 22 seconds of waiting, which \<open>dispatch_ends\<close> proves.

  Assumed where a property needs it: that a cipher decrypts what it encrypted under the same key, that new
  random ids are fresh, that a digest does not collide on the tokens at hand. Case mapping, white space
  and digits are those of ASCII.

  Not modelled. The handler of Meta's webhooks (except how its forwards enter the queue) and the coexistence history of WhatsApp Cloud, which use
  modelled parts but are not translated yet; the OAuth exchange, the Meta platform, the Evolution adapter
  and the connection manager, which are sequences of HTTP calls; analytics, dashboard and the other views;
  thin routes; configuration, logging and start-up; the frontend. Of partly modelled components the
  background loops (their bodies are modelled), the shutdown of workers and connectivity probes are left
  out, and so are log lines everywhere. Webhooks of one event are served one after the other where
  \<open>asyncio.gather\<close> may interleave their notes.
\<close>

end
